(* ===== verification/Prelude.thy ===== *)
theory Prelude
  imports Complex_Main "HOL-Library.Word" "HOL-Library.Signed_Division"
begin

text \<open>
  Shared vocabulary of the development: machine integers of Go with their wrap-around
  written out, gRPC status values, the type of handler results, fault schedules of calls to
  external systems, and two interfaces that several components share: a machine whose
  steps keep an invariant, and a store indexed by a key.
\<close>

named_theorems run_invs
  \<open>facts that a run of a component keeps its invariant\<close>
named_theorems wrap_simps
  \<open>wrap-around on machine integers that are in range\<close>

section \<open>Types of the program\<close>

text \<open>A Go \<open>int32\<close> or \<open>int64\<close> is kept as the integer it stands for; every operation that
  can leave its range is followed by the matching wrap below. Times are nanoseconds.\<close>

type_synonym int32 = int
type_synonym int64 = int
type_synonym time = int
type_synonym node_id = string
type_synonym bytes = "8 word list"

definition wrap32 :: "int \<Rightarrow> int32" where
  "wrap32 x = (x + 2 ^ 31) mod 2 ^ 32 - 2 ^ 31"

definition wrap64 :: "int \<Rightarrow> int64" where
  "wrap64 x = (x + 2 ^ 63) mod 2 ^ 64 - 2 ^ 63"

definition in_int32 :: "int \<Rightarrow> bool" where
  "in_int32 x \<longleftrightarrow> - (2 ^ 31) \<le> x \<and> x < 2 ^ 31"

definition in_int64 :: "int \<Rightarrow> bool" where
  "in_int64 x \<longleftrightarrow> - (2 ^ 63) \<le> x \<and> x < 2 ^ 63"

definition second :: time where
  "second = 1000000000"

definition minute :: time where
  "minute = 60 * second"

text \<open>The status codes that the handlers return, and an error with its message.\<close>

datatype code =
    InvalidArgument | NotFound | AlreadyExists | PermissionDenied | Unauthenticated
  | FailedPrecondition | ResourceExhausted | DataLoss | Internal | Unavailable

datatype status = Status code string

type_synonym 'a result = "status + 'a"

fun is_ok :: "'e + 'a \<Rightarrow> bool" where
  "is_ok (Inl e) = False"
| "is_ok (Inr v) = True"

lemma is_ok_iff: "is_ok r \<longleftrightarrow> (\<exists>v. r = Inr v)"
  by (cases r) auto

section \<open>Machine integers\<close>

lemma wrap32_id [wrap_simps]: "in_int32 x \<Longrightarrow> wrap32 x = x"
  unfolding in_int32_def wrap32_def by (subst mod_pos_pos_trivial) auto

lemma wrap64_id [wrap_simps]: "in_int64 x \<Longrightarrow> wrap64 x = x"
  unfolding in_int64_def wrap64_def by (subst mod_pos_pos_trivial) auto

lemma wrap32_range: "in_int32 (wrap32 x)"
proof -
  have "0 \<le> (x + 2 ^ 31) mod 2 ^ 32" and "(x + 2 ^ 31) mod 2 ^ 32 < 2 ^ 32"
    by (rule pos_mod_sign pos_mod_bound; simp)+
  then show ?thesis by (simp add: in_int32_def wrap32_def)
qed

text \<open>Go's \<open>/\<close> truncates towards zero, which is \<open>sdiv\<close>; on non-negative operands it is
  the floor division.\<close>

lemma sdiv_nonneg: "0 \<le> (a::int) \<Longrightarrow> 0 < b \<Longrightarrow> a sdiv b = a div b"
  by (cases "a = 0") (auto simp: signed_divide_int_def)

section \<open>Lists\<close>

lemma last_take_nth: "n < length xs \<Longrightarrow> last (take (Suc n) xs) = xs ! n"
  by (simp add: take_Suc_conv_app_nth)

lemma sum_list_map_mult_const:
  "(\<Sum>x\<leftarrow>xs. c * f x) = c * (\<Sum>x\<leftarrow>xs. f x :: real)"
  by (induction xs) (auto simp: algebra_simps)

lemma find_map_update:
  "(\<And>r. key (f r) = key r) \<Longrightarrow>
   find (\<lambda>r. key r = k') (map (\<lambda>r. if key r = k then f r else r) t) =
   (if k' = k then map_option f (find (\<lambda>r. key r = k) t) else find (\<lambda>r. key r = k') t)"
  by (induction t) auto

section \<open>A machine whose steps keep an invariant\<close>

locale invariant_machine =
  fixes step :: "'s \<Rightarrow> 'e \<Rightarrow> 's"
    and inv :: "'s \<Rightarrow> bool"
    and legal :: "'s \<Rightarrow> 'e \<Rightarrow> bool"
  assumes inv_step: "inv s \<Longrightarrow> legal s e \<Longrightarrow> inv (step s e)"
begin

fun legal_run :: "'s \<Rightarrow> 'e list \<Rightarrow> bool" where
  "legal_run s [] = True"
| "legal_run s (e # es) = (legal s e \<and> legal_run (step s e) es)"

lemma inv_run: "inv s \<Longrightarrow> legal_run s es \<Longrightarrow> inv (foldl step s es)"
  by (induction es arbitrary: s) (auto intro: inv_step)

lemma legal_run_append:
  "legal_run s (es @ fs) \<longleftrightarrow> legal_run s es \<and> legal_run (foldl step s es) fs"
  by (induction es arbitrary: s) auto

lemma inv_prefix:
  "inv s \<Longrightarrow> legal_run s (es @ fs) \<Longrightarrow> inv (foldl step s es)"
  by (simp add: legal_run_append inv_run)

end

section \<open>A store indexed by a key\<close>

locale keyed_store =
  fixes lookup :: "'s \<Rightarrow> 'k \<Rightarrow> 'v option"
    and put :: "'k \<Rightarrow> 'v \<Rightarrow> 's \<Rightarrow> 's"
    and wf :: "'s \<Rightarrow> bool"
  assumes lookup_put: "wf s \<Longrightarrow> lookup (put k v s) k' = (if k' = k then Some v else lookup s k')"
    and wf_put: "wf s \<Longrightarrow> wf (put k v s)"
begin

definition put_all :: "('k \<times> 'v) list \<Rightarrow> 's \<Rightarrow> 's" where
  "put_all kvs s = foldl (\<lambda>s (k, v). put k v s) s kvs"

lemma put_all_simps [simp]:
  "put_all [] s = s"
  "put_all ((k, v) # kvs) s = put_all kvs (put k v s)"
  by (simp_all add: put_all_def)

lemma wf_put_all: "wf s \<Longrightarrow> wf (put_all kvs s)"
proof (induction kvs arbitrary: s)
  case (Cons kv kvs)
  then show ?case by (cases kv) (simp add: wf_put)
qed simp

lemma lookup_put_all:
  "wf s \<Longrightarrow> lookup (put_all kvs s) k =
     (case map_of (rev kvs) k of Some v \<Rightarrow> Some v | None \<Rightarrow> lookup s k)"
proof (induction kvs arbitrary: s)
  case Nil
  then show ?case by simp
next
  case (Cons kv kvs)
  obtain k0 v0 where kv: "kv = (k0, v0)" by (cases kv)
  have "lookup (put_all kvs (put k0 v0 s)) k =
      (case map_of (rev kvs) k of Some v \<Rightarrow> Some v | None \<Rightarrow> lookup (put k0 v0 s) k)"
    using Cons wf_put by blast
  then show ?case
    using Cons.prems by (auto simp: kv lookup_put map_add_def split: option.splits)
qed

lemma lookup_put_all_last:
  "wf s \<Longrightarrow> lookup (put_all (kvs @ [(k, v)]) s) k = Some v"
  by (simp add: lookup_put_all)

lemma lookup_put_all_other:
  "wf s \<Longrightarrow> k \<notin> fst ` set kvs \<Longrightarrow> lookup (put_all kvs s) k = lookup s k"
  by (simp add: lookup_put_all map_of_eq_None_iff [THEN iffD2])

end

end
