(* ===== verification/Tables.thy ===== *)
theory Tables
  imports Prelude
begin

text \<open>
  The SQL the repositories use, on a table kept as the list of its rows: selection of one row
  by its key, \<open>INSERT ... ON CONFLICT DO UPDATE\<close>, \<open>ORDER BY\<close> with \<open>LIMIT\<close>, and the error
  of a query. Rows of equal rank come in table order (PostgreSQL leaves that order open; no
  theorem about a set of rows depends on it). A query that the database refuses is a \<open>True\<close>
  of the caller's fault predicate.
\<close>

datatype db_error = NoRows | QueryFailed

type_synonym 'a query = "db_error + 'a"

definition db_run :: "bool \<Rightarrow> 'a \<Rightarrow> 'a query" where
  "db_run failed v = (if failed then Inl QueryFailed else Inr v)"

definition db_row :: "bool \<Rightarrow> 'a option \<Rightarrow> 'a query" where
  "db_row failed r =
     (if failed then Inl QueryFailed else case r of None \<Rightarrow> Inl NoRows | Some v \<Rightarrow> Inr v)"

definition upsert :: "('r \<Rightarrow> 'k) \<Rightarrow> ('r \<Rightarrow> 'r \<Rightarrow> 'r) \<Rightarrow> 'r \<Rightarrow> 'r list \<Rightarrow> 'r list" where
  "upsert key merge r t =
     (if key r \<in> set (map key t) then map (\<lambda>r'. if key r' = key r then merge r' r else r') t
      else t @ [r])"

definition row_at :: "('r \<Rightarrow> 'k) \<Rightarrow> 'k \<Rightarrow> 'r list \<Rightarrow> 'r option" where
  "row_at key k t = find (\<lambda>r. key r = k) t"

definition update_rows :: "('r \<Rightarrow> bool) \<Rightarrow> ('r \<Rightarrow> 'r) \<Rightarrow> 'r list \<Rightarrow> 'r list" where
  "update_rows p f t = map (\<lambda>r. if p r then f r else r) t"

definition sql_limit :: "int32 \<Rightarrow> 'r list \<Rightarrow> 'r list" where
  "sql_limit n t = take (nat n) t"

definition sql_page :: "int32 \<Rightarrow> int32 \<Rightarrow> 'r list \<Rightarrow> 'r list" where
  "sql_page n off t = take (nat n) (drop (nat off) t)"

lemma db_run_simps [simp]:
  "db_run False v = Inr v"
  "db_run True v = Inl QueryFailed"
  by (simp_all add: db_run_def)

lemma db_row_simps [simp]:
  "db_row True r = Inl QueryFailed"
  "db_row False None = Inl NoRows"
  "db_row False (Some v) = Inr v"
  by (simp_all add: db_row_def)

lemma db_row_Inr: "db_row failed r = Inr v \<longleftrightarrow> \<not> failed \<and> r = Some v"
  by (cases failed; cases r) auto

lemma db_run_Inr: "db_run failed r = Inr v \<longleftrightarrow> \<not> failed \<and> r = v"
  by (cases failed) auto

lemma map_sum_Inr: "map_sum f g r = Inr y \<longleftrightarrow> (\<exists>x. r = Inr x \<and> y = g x)"
  by (cases r) auto

lemma row_at_key: "row_at key k t = Some r \<Longrightarrow> key r = k \<and> r \<in> set t"
  by (auto simp: row_at_def find_Some_iff)

lemma row_at_None: "row_at key k t = None \<longleftrightarrow> k \<notin> key ` set t"
  by (auto simp: row_at_def find_None_iff)

lemma row_at_unique:
  "distinct (map key t) \<Longrightarrow> r \<in> set t \<Longrightarrow> row_at key (key r) t = Some r"
  by (induction t) (auto simp: row_at_def image_iff)

lemma keys_upsert:
  "(\<And>a b. key a = key b \<Longrightarrow> key (merge a b) = key b) \<Longrightarrow>
     map key (upsert key merge r t) = (if key r \<in> key ` set t then map key t else map key t @ [key r])"
  by (auto simp: upsert_def)

lemma distinct_upsert:
  "(\<And>a b. key a = key b \<Longrightarrow> key (merge a b) = key b) \<Longrightarrow>
     distinct (map key t) \<Longrightarrow> distinct (map key (upsert key merge r t))"
  by (simp add: keys_upsert image_iff)

lemma row_at_append: "row_at key k (t @ [r]) = (case row_at key k t of None \<Rightarrow> if key r = k then Some r else None | Some x \<Rightarrow> Some x)"
  by (induction t) (auto simp: row_at_def)

lemma row_at_upsert:
  assumes "\<And>a b. key a = key b \<Longrightarrow> key (merge a b) = key b"
  shows "row_at key k (upsert key merge r t) =
     (if key r = k then Some (case row_at key k t of None \<Rightarrow> r | Some old \<Rightarrow> merge old r)
      else row_at key k t)"
proof (cases "key r \<in> key ` set t")
  case True
  have "row_at key k (map (\<lambda>r'. if key r' = key r then merge r' r else r') t) =
     (if key r = k then map_option (\<lambda>old. merge old r) (row_at key k t) else row_at key k t)"
    using assms by (induction t) (auto simp: row_at_def)
  moreover obtain x where "row_at key (key r) t = Some x"
    using True row_at_None [of key "key r" t] by fastforce
  ultimately show ?thesis using True by (auto simp: upsert_def)
next
  case False
  then show ?thesis
    using row_at_None [of key "key r" t] by (auto simp: upsert_def row_at_append split: option.splits)
qed

lemma keys_update_rows: "(\<And>r. key (f r) = key r) \<Longrightarrow> map key (update_rows p f t) = map key t"
  by (simp add: update_rows_def)

lemma row_at_update_rows:
  "(\<And>r. key (f r) = key r) \<Longrightarrow>
     row_at key k (update_rows p f t) = map_option (\<lambda>r. if p r then f r else r) (row_at key k t)"
  by (induction t) (auto simp: row_at_def update_rows_def)

lemma length_sql_limit: "length (sql_limit n t) = min (nat n) (length t)"
  by (simp add: sql_limit_def min.commute)

end
