(* ===== verification/CircuitBreaker.thy ===== *)
theory CircuitBreaker
  imports Prelude
begin

text \<open>
  The circuit breaker of \<open>internal/relay/circuitbreaker.go\<close>: its state, its five operations
  (\<open>time.Now\<close> is an argument) and the specification it meets: a call is refused exactly
  while the last \<open>maxFailures\<close> outcomes are failures and the cooldown since the last one
  has not passed.
\<close>

section \<open>The code\<close>

datatype circuit_state = StateClosed | StateOpen | StateHalfOpen

datatype relay_error =
    ErrCircuitOpen node_id
  | ErrResolve node_id
  | ErrDial node_id
  | ErrRpc status

record breaker =
  cb_state :: circuit_state
  cb_failures :: int
  cb_maxFailures :: int
  cb_cooldown :: time
  cb_lastFailTime :: time

definition new_circuit_breaker :: "int \<Rightarrow> time \<Rightarrow> breaker" where
  "new_circuit_breaker maxFailures cooldown =
     \<lparr>cb_state = StateClosed, cb_failures = 0, cb_maxFailures = maxFailures,
      cb_cooldown = cooldown, cb_lastFailTime = 0\<rparr>"

text \<open>\<open>Allow\<close> returns whether the call may go ahead (a nil error) and the breaker.\<close>

definition cb_allow :: "time \<Rightarrow> breaker \<Rightarrow> bool \<times> breaker" where
  "cb_allow now cb =
     (case cb_state cb of
        StateClosed \<Rightarrow> (True, cb)
      | StateOpen \<Rightarrow>
          if now - cb_lastFailTime cb > cb_cooldown cb
          then (True, cb\<lparr>cb_state := StateHalfOpen\<rparr>)
          else (False, cb)
      | StateHalfOpen \<Rightarrow> (True, cb))"

definition cb_record_success :: "breaker \<Rightarrow> breaker" where
  "cb_record_success cb = cb\<lparr>cb_failures := 0, cb_state := StateClosed\<rparr>"

definition cb_record_failure :: "time \<Rightarrow> breaker \<Rightarrow> breaker" where
  "cb_record_failure now cb =
     (let cb1 = cb\<lparr>cb_failures := cb_failures cb + 1, cb_lastFailTime := now\<rparr>
      in if cb_failures cb1 \<ge> cb_maxFailures cb1 then cb1\<lparr>cb_state := StateOpen\<rparr> else cb1)"

definition cb_is_open :: "time \<Rightarrow> breaker \<Rightarrow> bool" where
  "cb_is_open now cb \<longleftrightarrow>
     cb_state cb = StateOpen \<and> now - cb_lastFailTime cb \<le> cb_cooldown cb"

section \<open>Runs\<close>

text \<open>What a client does to a breaker: ask, report a success, report a failure.\<close>

datatype cb_event = EvAllow time | EvSuccess time | EvFailure time

fun ev_time :: "cb_event \<Rightarrow> time" where
  "ev_time (EvAllow t) = t"
| "ev_time (EvSuccess t) = t"
| "ev_time (EvFailure t) = t"

fun cb_step :: "breaker \<Rightarrow> cb_event \<Rightarrow> breaker" where
  "cb_step cb (EvAllow t) = snd (cb_allow t cb)"
| "cb_step cb (EvSuccess t) = cb_record_success cb"
| "cb_step cb (EvFailure t) = cb_record_failure t cb"

definition cb_run :: "breaker \<Rightarrow> cb_event list \<Rightarrow> breaker" where
  "cb_run cb es = foldl cb_step cb es"

lemma cb_run_simps [simp]:
  "cb_run cb [] = cb"
  "cb_run cb (es @ [e]) = cb_step (cb_run cb es) e"
  by (simp_all add: cb_run_def)

lemma cb_step_config [simp]:
  "cb_maxFailures (cb_step cb e) = cb_maxFailures cb"
  "cb_cooldown (cb_step cb e) = cb_cooldown cb"
  by (cases e; auto simp: cb_allow_def cb_record_success_def cb_record_failure_def Let_def
        split: circuit_state.splits)+

lemma cb_run_config [simp]:
  "cb_maxFailures (cb_run cb es) = cb_maxFailures cb"
  "cb_cooldown (cb_run cb es) = cb_cooldown cb"
  by (induction es rule: rev_induct) simp_all

section \<open>Well-formed breakers\<close>

definition cb_wf :: "breaker \<Rightarrow> bool" where
  "cb_wf cb \<longleftrightarrow> 0 \<le> cb_failures cb \<and>
     (cb_state cb = StateClosed \<longrightarrow> cb_failures cb = 0 \<or> cb_failures cb < cb_maxFailures cb) \<and>
     (cb_state cb \<noteq> StateClosed \<longrightarrow> cb_maxFailures cb \<le> cb_failures cb)"

lemma cb_wf_new: "cb_wf (new_circuit_breaker m c)"
  by (simp add: cb_wf_def new_circuit_breaker_def)

lemma cb_wf_step: "cb_wf cb \<Longrightarrow> cb_wf (cb_step cb e)"
  by (cases e; cases "cb_state cb")
     (auto simp: cb_wf_def cb_allow_def cb_record_success_def cb_record_failure_def Let_def)

interpretation breaker_machine: invariant_machine cb_step cb_wf "\<lambda>_ _. True"
  by unfold_locales (rule cb_wf_step)

lemma breaker_legal_run [simp]: "breaker_machine.legal_run cb es"
  by (induction es arbitrary: cb) auto

lemma cb_wf_run [run_invs]: "cb_wf (cb_run (new_circuit_breaker m c) es)"
  unfolding cb_run_def by (rule breaker_machine.inv_run [OF cb_wf_new]) simp

lemma half_open_failure_reopens:
  "cb_wf cb \<Longrightarrow> cb_state cb = StateHalfOpen \<Longrightarrow> cb_state (cb_record_failure t cb) = StateOpen"
  by (simp add: cb_wf_def cb_record_failure_def Let_def)

section \<open>Specification by the history of outcomes\<close>

text \<open>Failures since the last success, and the time of the last failure, read off the
  history (oldest event first).\<close>

definition upd_trailing :: "nat \<Rightarrow> cb_event \<Rightarrow> nat" where
  "upd_trailing n e = (case e of EvAllow _ \<Rightarrow> n | EvSuccess _ \<Rightarrow> 0 | EvFailure _ \<Rightarrow> Suc n)"

definition trailing_failures :: "cb_event list \<Rightarrow> nat" where
  "trailing_failures es = foldl upd_trailing 0 es"

definition upd_last_failure :: "time \<Rightarrow> cb_event \<Rightarrow> time" where
  "upd_last_failure l e = (case e of EvFailure t \<Rightarrow> t | _ \<Rightarrow> l)"

definition last_failure :: "cb_event list \<Rightarrow> time" where
  "last_failure es = foldl upd_last_failure 0 es"

definition spec_blocked :: "int \<Rightarrow> time \<Rightarrow> cb_event list \<Rightarrow> time \<Rightarrow> bool" where
  "spec_blocked m c es now \<longleftrightarrow>
     int (trailing_failures es) \<ge> m \<and> now - last_failure es \<le> c"

lemma history_simps [simp]:
  "trailing_failures [] = 0"
  "trailing_failures (es @ [EvAllow t]) = trailing_failures es"
  "trailing_failures (es @ [EvSuccess t]) = 0"
  "trailing_failures (es @ [EvFailure t]) = Suc (trailing_failures es)"
  "last_failure [] = 0"
  "last_failure (es @ [EvAllow t]) = last_failure es"
  "last_failure (es @ [EvSuccess t]) = last_failure es"
  "last_failure (es @ [EvFailure t]) = t"
  by (simp_all add: trailing_failures_def last_failure_def upd_trailing_def upd_last_failure_def)

lemma breaker_reads_history:
  "cb_failures (cb_run (new_circuit_breaker m c) es) = int (trailing_failures es) \<and>
   cb_lastFailTime (cb_run (new_circuit_breaker m c) es) = last_failure es"
proof (induction es rule: rev_induct)
  case Nil
  then show ?case by (simp add: new_circuit_breaker_def)
next
  case (snoc e es)
  then show ?case
    by (cases e) (auto simp: cb_allow_def cb_record_success_def cb_record_failure_def Let_def
        split: circuit_state.splits)
qed

text \<open>Half-open is entered only after the cooldown; with a clock that does not run
  backwards the cooldown is then over for good.\<close>

lemma half_open_cooldown_over:
  assumes "sorted (map ev_time es)" and "es \<noteq> [] \<Longrightarrow> ev_time (last es) \<le> now"
    and "cb_state (cb_run (new_circuit_breaker m c) es) = StateHalfOpen"
  shows "now - last_failure es > c"
  using assms
proof (induction es arbitrary: now rule: rev_induct)
  case Nil
  then show ?case by (simp add: new_circuit_breaker_def)
next
  case (snoc e es)
  let ?cb = "cb_run (new_circuit_breaker m c) es"
  have le: "ev_time e \<le> now" using snoc.prems(2) by simp
  have pre: "sorted (map ev_time es)" "es \<noteq> [] \<Longrightarrow> ev_time (last es) \<le> ev_time e"
    using snoc.prems(1) by (auto simp: sorted_append)
  have cool: "cb_cooldown ?cb = c" by (simp add: new_circuit_breaker_def)
  show ?case
  proof (cases e)
    case (EvAllow t)
    show ?thesis
    proof (cases "cb_state ?cb = StateHalfOpen")
      case True
      then have "ev_time e - last_failure es > c" using snoc.IH pre by blast
      then show ?thesis using le EvAllow by simp
    next
      case False
      then have "t - cb_lastFailTime ?cb > cb_cooldown ?cb"
        using snoc.prems(3) EvAllow
        by (auto simp: cb_allow_def split: circuit_state.splits if_splits)
      then show ?thesis using le EvAllow cool breaker_reads_history [of m c es] by simp
    qed
  next
    case (EvSuccess t)
    then show ?thesis using snoc.prems(3) by (simp add: cb_record_success_def)
  next
    case (EvFailure t)
    have wf: "cb_wf ?cb" by (rule cb_wf_run)
    show ?thesis using snoc.prems(3) EvFailure wf
      by (cases "cb_state ?cb")
         (auto simp: cb_record_failure_def Let_def cb_wf_def split: if_splits)
  qed
qed

lemma blocked_iff_aux:
  assumes "0 < m" and "sorted (map ev_time es)" and "es \<noteq> [] \<Longrightarrow> ev_time (last es) \<le> now"
  shows "\<not> fst (cb_allow now (cb_run (new_circuit_breaker m c) es)) \<longleftrightarrow> spec_blocked m c es now"
proof -
  let ?cb = "cb_run (new_circuit_breaker m c) es"
  have wf: "cb_wf ?cb" by (rule cb_wf_run)
  have cfg: "cb_maxFailures ?cb = m" "cb_cooldown ?cb = c"
    by (simp_all add: new_circuit_breaker_def)
  note hist = breaker_reads_history [of m c es]
  show ?thesis
  proof (cases "cb_state ?cb")
    case StateClosed
    then show ?thesis using wf cfg hist assms(1)
      by (auto simp: cb_allow_def spec_blocked_def cb_wf_def)
  next
    case StateOpen
    then show ?thesis using wf cfg hist
      by (auto simp: cb_allow_def spec_blocked_def cb_wf_def)
  next
    case StateHalfOpen
    then show ?thesis using half_open_cooldown_over [OF assms(2,3), of m c]
      by (auto simp: cb_allow_def spec_blocked_def)
  qed
qed

text \<open>
  C40: on every history of calls and outcomes with a clock that does not run backwards, the
  breaker refuses a call at a time exactly when the last \<open>maxFailures\<close> or more outcomes are
  failures and no more than the cooldown has passed since the last of them. The open and
  half-open states are an implementation of this rule: a probe that fails blocks again.
\<close>

theorem breaker_blocks_iff:
  assumes "0 < m" and "sorted (map ev_time es)" and "es \<noteq> [] \<Longrightarrow> ev_time (last es) \<le> now"
  shows "fst (cb_allow now (cb_run (new_circuit_breaker m c) es)) = (\<not> spec_blocked m c es now)
    \<and> cb_is_open now (cb_run (new_circuit_breaker m c) es) = spec_blocked m c es now"
proof -
  have "\<not> fst (cb_allow now cb) \<longleftrightarrow> cb_is_open now cb" for cb
    by (cases "cb_state cb") (auto simp: cb_allow_def cb_is_open_def)
  with blocked_iff_aux [OF assms] show ?thesis by blast
qed

theorem breaker_blocks_iff_witness:
  "fst (cb_allow 40 (cb_run (new_circuit_breaker 2 30)
      [EvAllow 1, EvFailure 2, EvAllow 3, EvFailure 4, EvAllow 39, EvFailure 40])) = False"
proof -
  have "spec_blocked 2 30 [EvAllow 1, EvFailure 2, EvAllow 3, EvFailure 4, EvAllow 39, EvFailure 40] 40"
    by (simp add: spec_blocked_def trailing_failures_def last_failure_def upd_trailing_def
        upd_last_failure_def)
  then show ?thesis
    using breaker_blocks_iff [of 2 "[EvAllow 1, EvFailure 2, EvAllow 3, EvFailure 4, EvAllow 39, EvFailure 40]" 40 30]
    by simp
qed

end
