(* ===== verification/PeerPool.thy ===== *)
theory PeerPool
  imports CircuitBreaker
begin

text \<open>
  The pool of \<open>internal/relay/peerpool.go\<close>: one connection and one circuit breaker per peer,
  both made on first use. A connection is the address it was dialled at. The answer of the
  discovery service and whether dialling fails are arguments. Each operation holds the pool's
  lock where it reads or writes the maps; the second look of \<open>GetConn\<close> and \<open>GetBreaker\<close> after
  taking the write lock only matters when another goroutine ran in between, and then returns
  what that one stored, as the first look does here.
\<close>

record peer_pool =
  pp_conns :: "node_id \<rightharpoonup> string"
  pp_breakers :: "node_id \<rightharpoonup> breaker"
  pp_maxFailures :: int
  pp_cooldown :: time

definition new_peer_pool :: "int \<Rightarrow> time \<Rightarrow> peer_pool" where
  "new_peer_pool maxFailures cooldown =
     \<lparr>pp_conns = Map.empty, pp_breakers = Map.empty, pp_maxFailures = maxFailures,
      pp_cooldown = cooldown\<rparr>"

definition get_breaker :: "node_id \<Rightarrow> peer_pool \<Rightarrow> breaker \<times> peer_pool" where
  "get_breaker nid p =
     (case pp_breakers p nid of
        Some cb \<Rightarrow> (cb, p)
      | None \<Rightarrow>
          let cb = new_circuit_breaker (pp_maxFailures p) (pp_cooldown p)
          in (cb, p\<lparr>pp_breakers := (pp_breakers p)(nid \<mapsto> cb)\<rparr>))"

text \<open>The peer in the answer of \<open>GetNodeInfo\<close>: \<open>None\<close> for a nil peer, else its addresses.\<close>

type_synonym node_info = "status + string list option"

definition resolve_addr :: "node_info \<Rightarrow> node_id \<Rightarrow> relay_error + string" where
  "resolve_addr info nid =
     (case info of
        Inl e \<Rightarrow> Inl (ErrResolve nid)
      | Inr None \<Rightarrow> Inl (ErrResolve nid)
      | Inr (Some addrs) \<Rightarrow> (if length addrs = 0 then Inl (ErrResolve nid) else Inr (addrs ! 0)))"

definition get_conn ::
  "node_info \<Rightarrow> (string \<Rightarrow> bool) \<Rightarrow> node_id \<Rightarrow> peer_pool \<Rightarrow> (relay_error + string) \<times> peer_pool" where
  "get_conn info dialFails nid p =
     (case pp_conns p nid of
        Some conn \<Rightarrow> (Inr conn, p)
      | None \<Rightarrow>
          (case resolve_addr info nid of
             Inl e \<Rightarrow> (Inl e, p)
           | Inr addr \<Rightarrow>
               if dialFails addr then (Inl (ErrDial nid), p)
               else (Inr addr, p\<lparr>pp_conns := (pp_conns p)(nid \<mapsto> addr)\<rparr>)))"

definition evict :: "node_id \<Rightarrow> peer_pool \<Rightarrow> peer_pool" where
  "evict nid p =
     p\<lparr>pp_conns := (pp_conns p)(nid := None), pp_breakers := (pp_breakers p)(nid := None)\<rparr>"

definition close_pool :: "peer_pool \<Rightarrow> peer_pool" where
  "close_pool p = p\<lparr>pp_conns := Map.empty\<rparr>"

text \<open>What a caller does through the pointer \<open>GetBreaker\<close> gave it.\<close>

definition set_breaker :: "node_id \<Rightarrow> breaker \<Rightarrow> peer_pool \<Rightarrow> peer_pool" where
  "set_breaker nid cb p = p\<lparr>pp_breakers := (pp_breakers p)(nid \<mapsto> cb)\<rparr>"

definition peer_allow :: "time \<Rightarrow> node_id \<Rightarrow> peer_pool \<Rightarrow> bool \<times> peer_pool" where
  "peer_allow now nid p =
     (let (cb, p1) = get_breaker nid p; (ok, cb1) = cb_allow now cb in (ok, set_breaker nid cb1 p1))"

definition peer_success :: "node_id \<Rightarrow> peer_pool \<Rightarrow> peer_pool" where
  "peer_success nid p =
     (let (cb, p1) = get_breaker nid p in set_breaker nid (cb_record_success cb) p1)"

definition peer_failure :: "time \<Rightarrow> node_id \<Rightarrow> peer_pool \<Rightarrow> peer_pool" where
  "peer_failure now nid p =
     (let (cb, p1) = get_breaker nid p in set_breaker nid (cb_record_failure now cb) p1)"

definition is_node_healthy :: "time \<Rightarrow> node_id \<Rightarrow> peer_pool \<Rightarrow> bool" where
  "is_node_healthy now nid p = (\<not> cb_is_open now (fst (get_breaker nid p)))"

section \<open>Laws\<close>

definition breaker_of :: "peer_pool \<Rightarrow> node_id \<Rightarrow> breaker" where
  "breaker_of p nid = fst (get_breaker nid p)"

lemma breaker_of_set [simp]:
  "breaker_of (set_breaker n cb p) m = (if m = n then cb else breaker_of p m)"
  by (auto simp: breaker_of_def set_breaker_def get_breaker_def Let_def split: option.splits)

lemma breaker_of_get [simp]: "breaker_of (snd (get_breaker n p)) m = breaker_of p m"
  by (auto simp: breaker_of_def get_breaker_def Let_def split: option.splits)

lemma breaker_of_peer:
  "breaker_of (snd (peer_allow now n p)) m = (if m = n then snd (cb_allow now (breaker_of p n)) else breaker_of p m)"
  "breaker_of (peer_success n p) m = (if m = n then cb_record_success (breaker_of p n) else breaker_of p m)"
  "breaker_of (peer_failure now n p) m = (if m = n then cb_record_failure now (breaker_of p n) else breaker_of p m)"
  by (auto simp: peer_allow_def peer_success_def peer_failure_def case_prod_beta Let_def
      simp flip: breaker_of_def)

lemma peer_allow_ok: "fst (peer_allow now n p) = fst (cb_allow now (breaker_of p n))"
  by (simp add: peer_allow_def breaker_of_def case_prod_beta Let_def)

lemma conns_peer [simp]:
  "pp_conns (snd (peer_allow now n p)) = pp_conns p"
  "pp_conns (peer_success n p) = pp_conns p"
  "pp_conns (peer_failure now n p) = pp_conns p"
  by (auto simp: peer_allow_def peer_success_def peer_failure_def set_breaker_def get_breaker_def
      case_prod_beta Let_def split: option.splits)

lemma breaker_of_get_conn [simp]: "breaker_of (snd (get_conn i d n p)) m = breaker_of p m"
  by (auto simp: get_conn_def breaker_of_def get_breaker_def Let_def split: option.splits sum.splits)

end
