(* ===== verification/ChunkStore.thy ===== *)
theory ChunkStore
  imports Prelude "HOL-Library.AList" "HOL-Library.Multiset"
begin

text \<open>
  The chunk store of \<open>services/transfer/storage/store.go\<close>: file paths as Go's
  \<open>filepath.Join\<close> and \<open>Clean\<close> build them, chunk file names and their parsing, the file
  system as a table from cleaned paths to contents, and the operations of \<open>FileStore\<close>.
  Every call to the operating system can fail; how it fails is an argument. The mutex of the
  store makes each operation one step, which is what a function on the state says. SHA-256
  is a parameter: only equality of digests matters to the program.
\<close>

section \<open>Paths\<close>

fun split_on :: "char \<Rightarrow> string \<Rightarrow> string list" where
  "split_on c [] = [[]]"
| "split_on c (x # xs) =
     (if x = c then [] # split_on c xs
      else (case split_on c xs of [] \<Rightarrow> [[x]] | w # ws \<Rightarrow> (x # w) # ws))"

text \<open>A cleaned path: whether it starts at the root, and its components. The empty relative
  path is the current directory.\<close>

type_synonym path = "bool \<times> string list"

fun clean_step :: "bool \<Rightarrow> string list \<Rightarrow> string \<Rightarrow> string list" where
  "clean_step rooted stack name =
     (if name = '''' \<or> name = ''.'' then stack
      else if name = ''..'' then
        (case stack of
           [] \<Rightarrow> if rooted then [] else [''..'']
         | hd1 # rest \<Rightarrow> if hd1 = ''..'' then ''..'' # stack else rest)
      else name # stack)"

definition is_rooted :: "string \<Rightarrow> bool" where
  "is_rooted p = (case p of [] \<Rightarrow> False | c # _ \<Rightarrow> c = CHR ''/'')"

definition clean_path :: "string \<Rightarrow> path" where
  "clean_path p =
     (is_rooted p, rev (foldl (clean_step (is_rooted p)) [] (split_on (CHR ''/'') p)))"

definition join_path :: "string \<Rightarrow> string \<Rightarrow> path" where
  "join_path a b = (if a = '''' then clean_path b else clean_path (a @ ''/'' @ b))"

definition path_add :: "path \<Rightarrow> string \<Rightarrow> path" where
  "path_add p n = (fst p, snd p @ [n])"

text \<open>Whether \<open>p\<close> is \<open>d\<close> or lies below it, and the entry of \<open>d\<close> that leads to it.\<close>

definition under :: "path \<Rightarrow> path \<Rightarrow> bool" where
  "under d p \<longleftrightarrow> fst p = fst d \<and> take (length (snd d)) (snd p) = snd d"

definition child_of :: "path \<Rightarrow> path \<Rightarrow> string option" where
  "child_of d p =
     (if under d p \<and> length (snd d) < length (snd p) then Some (snd p ! length (snd d)) else None)"

section \<open>Decimal numbers: \<open>%06d\<close> and \<open>strconv.Atoi\<close>\<close>

definition digit_char :: "nat \<Rightarrow> char" where
  "digit_char d = char_of (48 + d)"

definition char_digit :: "char \<Rightarrow> nat option" where
  "char_digit c = (let n = of_char c :: nat in if 48 \<le> n \<and> n \<le> 57 then Some (n - 48) else None)"

fun dec :: "nat \<Rightarrow> string" where
  "dec n = (if n < 10 then [digit_char n] else dec (n div 10) @ [digit_char (n mod 10)])"

declare dec.simps [simp del]

definition pad_zeros :: "nat \<Rightarrow> string \<Rightarrow> string" where
  "pad_zeros w s = replicate (w - length s) (CHR ''0'') @ s"

definition fmt06 :: "int32 \<Rightarrow> string" where
  "fmt06 i = (if i < 0 then ''-'' @ pad_zeros 5 (dec (nat (- i))) else pad_zeros 6 (dec (nat i)))"

fun parse_digits :: "nat \<Rightarrow> string \<Rightarrow> nat option" where
  "parse_digits acc [] = Some acc"
| "parse_digits acc (c # cs) =
     (case char_digit c of None \<Rightarrow> None | Some d \<Rightarrow> parse_digits (acc * 10 + d) cs)"

definition parse_nat :: "string \<Rightarrow> nat option" where
  "parse_nat s = (if s = [] then None else parse_digits 0 s)"

definition atoi :: "string \<Rightarrow> int option" where
  "atoi s =
     (let r = (case s of
          [] \<Rightarrow> None
        | c # cs \<Rightarrow>
            if c = CHR ''-'' then map_option (\<lambda>n. - int n) (parse_nat cs)
            else if c = CHR ''+'' then map_option int (parse_nat cs)
            else map_option int (parse_nat s))
      in case r of None \<Rightarrow> None | Some n \<Rightarrow> if in_int64 n then Some n else None)"

definition has_suffix :: "string \<Rightarrow> string \<Rightarrow> bool" where
  "has_suffix suf s \<longleftrightarrow> length suf \<le> length s \<and> drop (length s - length suf) s = suf"

definition trim_suffix :: "string \<Rightarrow> string \<Rightarrow> string" where
  "trim_suffix suf s = (if has_suffix suf s then take (length s - length suf) s else s)"

section \<open>The store\<close>

record file_store =
  fs_base :: string
  fs_files :: "(path \<times> bytes) list"

datatype store_error = MkdirError | WriteError | RenameError | ReadError | ReadDirError | RemoveError

text \<open>How the calls to the operating system go: a write may fail before the file is opened
  or after some bytes, and \<open>RemoveAll\<close> may stop after removing only some files.\<close>

datatype write_outcome = WriteOk | WriteOpenFail | WritePartial nat

record os_faults =
  of_mkdir :: bool
  of_write :: write_outcome
  of_rename :: bool
  of_remove :: bool
  of_read :: "int32 \<Rightarrow> bool"
  of_readdir :: bool
  of_removeall :: "(path \<Rightarrow> bool) option"
  of_sink :: "int32 \<Rightarrow> nat option"

definition no_faults :: os_faults where
  "no_faults = \<lparr>of_mkdir = False, of_write = WriteOk, of_rename = False, of_remove = False,
     of_read = (\<lambda>_. False), of_readdir = False, of_removeall = None, of_sink = (\<lambda>_. None)\<rparr>"

definition new_file_store :: "os_faults \<Rightarrow> string \<Rightarrow> (path \<times> bytes) list \<Rightarrow> store_error + file_store" where
  "new_file_store flt base files =
     (if of_mkdir flt then Inl MkdirError else Inr \<lparr>fs_base = base, fs_files = files\<rparr>)"

definition transfer_dir :: "string \<Rightarrow> string \<Rightarrow> path" where
  "transfer_dir base tid = join_path base tid"

definition chunk_name :: "int32 \<Rightarrow> string" where
  "chunk_name i = fmt06 i @ ''.chunk''"

definition chunk_path :: "string \<Rightarrow> string \<Rightarrow> int32 \<Rightarrow> path" where
  "chunk_path base tid i = path_add (transfer_dir base tid) (chunk_name i)"

definition tmp_path :: "string \<Rightarrow> string \<Rightarrow> int32 \<Rightarrow> path" where
  "tmp_path base tid i = path_add (transfer_dir base tid) (chunk_name i @ ''.tmp'')"

definition save_chunk ::
  "(bytes \<Rightarrow> string) \<Rightarrow> os_faults \<Rightarrow> string \<Rightarrow> int32 \<Rightarrow> bytes \<Rightarrow> file_store
     \<Rightarrow> (store_error + string) \<times> file_store" where
  "save_chunk sha flt tid i data st =
     (if of_mkdir flt then (Inl MkdirError, st)
      else
        let path = chunk_path (fs_base st) tid i;
            tmp = tmp_path (fs_base st) tid i
        in case of_write flt of
             WriteOpenFail \<Rightarrow> (Inl WriteError, st)
           | WritePartial n \<Rightarrow>
               (Inl WriteError, st\<lparr>fs_files := AList.update tmp (take n data) (fs_files st)\<rparr>)
           | WriteOk \<Rightarrow>
               (let files1 = AList.update tmp data (fs_files st)
                in if of_rename flt
                   then (Inl RenameError,
                         st\<lparr>fs_files := (if of_remove flt then files1 else AList.delete tmp files1)\<rparr>)
                   else (Inr (sha data),
                         st\<lparr>fs_files := AList.update path data (AList.delete tmp files1)\<rparr>)))"

definition load_chunk :: "os_faults \<Rightarrow> string \<Rightarrow> int32 \<Rightarrow> file_store \<Rightarrow> store_error + bytes" where
  "load_chunk flt tid i st =
     (if of_read flt i then Inl ReadError
      else case map_of (fs_files st) (chunk_path (fs_base st) tid i) of
             None \<Rightarrow> Inl ReadError
           | Some data \<Rightarrow> Inr data)"

text \<open>\<open>os.ReadDir\<close>: the names in a directory; a directory that does not exist lists nothing,
  which is what \<open>ListChunks\<close> makes of it.\<close>

definition read_dir :: "path \<Rightarrow> (path \<times> bytes) list \<Rightarrow> string list" where
  "read_dir d files = remdups (List.map_filter (\<lambda>(p, _). child_of d p) files)"

definition parse_chunk_name :: "string \<Rightarrow> int32 option" where
  "parse_chunk_name name =
     (if \<not> has_suffix ''.chunk'' name then None
      else map_option wrap32 (atoi (trim_suffix ''.chunk'' name)))"

definition list_chunks :: "os_faults \<Rightarrow> string \<Rightarrow> file_store \<Rightarrow> store_error + int32 list" where
  "list_chunks flt tid st =
     (if of_readdir flt then Inl ReadDirError
      else Inr (sort (List.map_filter parse_chunk_name
             (read_dir (transfer_dir (fs_base st) tid) (fs_files st)))))"

definition delete_transfer :: "os_faults \<Rightarrow> string \<Rightarrow> file_store \<Rightarrow> store_error option \<times> file_store" where
  "delete_transfer flt tid st =
     (let dir = transfer_dir (fs_base st) tid
      in case of_removeall flt of
           Some removed \<Rightarrow>
             (Some RemoveError,
              st\<lparr>fs_files := filter (\<lambda>(p, _). \<not> (under dir p \<and> removed p)) (fs_files st)\<rparr>)
         | None \<Rightarrow> (None, st\<lparr>fs_files := filter (\<lambda>(p, _). \<not> under dir p) (fs_files st)\<rparr>))"

text \<open>The loop of \<open>Reassemble\<close>: the first error, if any, and what the writer received.\<close>

fun reassemble_loop ::
  "os_faults \<Rightarrow> string \<Rightarrow> file_store \<Rightarrow> int32 list \<Rightarrow> bytes \<Rightarrow> store_error option \<times> bytes" where
  "reassemble_loop flt tid st [] out = (None, out)"
| "reassemble_loop flt tid st (i # is) out =
     (case load_chunk flt tid i st of
        Inl e \<Rightarrow> (Some e, out)
      | Inr data \<Rightarrow>
          (case of_sink flt i of
             Some n \<Rightarrow> (Some WriteError, out @ take n data)
           | None \<Rightarrow> reassemble_loop flt tid st is (out @ data)))"

definition reassemble :: "os_faults \<Rightarrow> string \<Rightarrow> file_store \<Rightarrow> store_error option \<times> bytes" where
  "reassemble flt tid st =
     (case list_chunks flt tid st of
        Inl e \<Rightarrow> (Some e, [])
      | Inr is \<Rightarrow> reassemble_loop flt tid st is [])"

section \<open>Decimal numbers come back\<close>

lemma char_digit_digit_char [simp]: "d < 10 \<Longrightarrow> char_digit (digit_char d) = Some d"
  by (simp add: char_digit_def digit_char_def of_char_of)

lemma char_digit_sign [simp]:
  "char_digit (CHR ''-'') = None" "char_digit (CHR ''+'') = None" "char_digit (CHR ''0'') = Some 0"
  by (simp_all add: char_digit_def)

lemma parse_digits_append:
  "parse_digits acc (xs @ ys) =
     (case parse_digits acc xs of None \<Rightarrow> None | Some a \<Rightarrow> parse_digits a ys)"
  by (induction acc xs rule: parse_digits.induct) (auto split: option.splits)

lemma parse_digits_zeros [simp]: "parse_digits 0 (replicate k (CHR ''0'') @ s) = parse_digits 0 s"
  by (induction k) auto

lemma parse_digits_dec [simp]: "parse_digits 0 (dec n) = Some n"
proof (induction n rule: dec.induct)
  case (1 n)
  then show ?case
    by (cases "n < 10") (auto simp: dec.simps [of n] parse_digits_append)
qed

lemma dec_nonempty [simp]: "dec n \<noteq> []"
  by (subst dec.simps) simp

lemma parse_nat_pad [simp]: "parse_nat (pad_zeros w (dec n)) = Some n"
  by (simp add: parse_nat_def pad_zeros_def)

lemma atoi_nat:
  assumes "parse_nat s = Some n" and "in_int64 (int n)"
  shows "atoi s = Some (int n)"
proof (cases s)
  case Nil
  then show ?thesis using assms by (simp add: parse_nat_def)
next
  case (Cons c cs)
  then have "char_digit c \<noteq> None" using assms(1) by (auto simp: parse_nat_def split: option.splits)
  then have "c \<noteq> CHR ''-''" and "c \<noteq> CHR ''+''" by auto
  then show ?thesis using Cons assms by (simp add: atoi_def)
qed

lemma atoi_fmt06: "in_int32 i \<Longrightarrow> atoi (fmt06 i) = Some i"
proof (cases "i < 0")
  case True
  assume "in_int32 i"
  then have "in_int64 i" by (simp add: in_int32_def in_int64_def)
  then show ?thesis using True by (simp add: fmt06_def atoi_def)
next
  case False
  assume "in_int32 i"
  then have "in_int64 i" by (simp add: in_int32_def in_int64_def)
  then show ?thesis using False atoi_nat [of "fmt06 i" "nat i"] by (simp add: fmt06_def)
qed

lemma has_suffix_append [simp]: "has_suffix suf (s @ suf)"
  by (simp add: has_suffix_def)

lemma trim_suffix_append [simp]: "trim_suffix suf (s @ suf) = s"
  by (simp add: trim_suffix_def)

lemma parse_chunk_name_chunk_name: "in_int32 i \<Longrightarrow> parse_chunk_name (chunk_name i) = Some i"
  by (simp add: parse_chunk_name_def chunk_name_def atoi_fmt06 wrap32_id)

lemma parse_chunk_name_tmp [simp]: "parse_chunk_name (chunk_name i @ ''.tmp'') = None"
proof -
  have "\<not> has_suffix ''.chunk'' (chunk_name i @ ''.tmp'')"
    by (auto simp: has_suffix_def chunk_name_def drop_Cons' split: if_splits)
  then show ?thesis by (simp add: parse_chunk_name_def)
qed

lemma chunk_name_inj: "in_int32 i \<Longrightarrow> in_int32 j \<Longrightarrow> chunk_name i = chunk_name j \<longleftrightarrow> i = j"
  using parse_chunk_name_chunk_name by (metis option.inject)

lemma chunk_name_not_tmp [simp]: "in_int32 i \<Longrightarrow> chunk_name i \<noteq> chunk_name j @ ''.tmp''"
  using parse_chunk_name_chunk_name [of i] parse_chunk_name_tmp [of j] by auto

end
