(* ===== verification/ChunkStoreLaws.thy ===== *)
theory ChunkStoreLaws
  imports ChunkStore
begin

text \<open>
  What the chunk store promises: the interface its clients rely on as a locale, the proof
  that \<open>FileStore\<close> provides it for transfer ids that are plain names, atomic saves, listing,
  reassembly, and what happens to ids that are not plain names.
\<close>

section \<open>Transfer ids that are one path component\<close>

definition plain_id :: "string \<Rightarrow> bool" where
  "plain_id s \<longleftrightarrow> s \<noteq> '''' \<and> s \<noteq> ''.'' \<and> s \<noteq> ''..'' \<and> CHR ''/'' \<notin> set s"

lemma split_on_append: "split_on c (xs @ c # ys) = split_on c xs @ split_on c ys"
proof (induction xs)
  case (Cons x xs)
  have "split_on c xs \<noteq> []" by (induction xs) (auto split: list.splits)
  with Cons show ?case by (auto split: list.splits)
qed simp

lemma split_on_free [simp]: "c \<notin> set s \<Longrightarrow> split_on c s = [s]"
  by (induction s) auto

definition base_dir :: "string \<Rightarrow> path" where
  "base_dir base = clean_path (if base = '''' then '''' else base @ ''/'')"

lemma transfer_dir_plain:
  assumes "plain_id t"
  shows "transfer_dir base t = path_add (base_dir base) t"
proof (cases "base = ''''")
  case True
  have "is_rooted t = False" using assms by (cases t) (auto simp: plain_id_def is_rooted_def)
  then show ?thesis using assms True
    by (auto simp: transfer_dir_def join_path_def clean_path_def path_add_def base_dir_def
        plain_id_def is_rooted_def)
next
  case False
  have "is_rooted (base @ ''/'' @ t) = is_rooted (base @ ''/'')"
    using False by (cases base) (auto simp: is_rooted_def)
  then show ?thesis using False assms
    by (auto simp: transfer_dir_def join_path_def clean_path_def path_add_def base_dir_def
        plain_id_def split_on_append)
qed

lemma path_add_inj [simp]: "path_add p m = path_add q n \<longleftrightarrow> p = q \<and> m = n"
  by (cases p; cases q) (auto simp: path_add_def)

lemma child_of_path_add [simp]: "child_of d (path_add d n) = Some n"
  by (simp add: child_of_def under_def path_add_def)

lemma under_path_add2 [simp]:
  "under (path_add b t) (path_add (path_add b t') n) \<longleftrightarrow> t' = t"
  by (auto simp: under_def path_add_def)

lemma child_of_path_add2 [simp]:
  "child_of (path_add b t) (path_add (path_add b t') n) = (if t' = t then Some n else None)"
  by (auto simp: child_of_def under_def path_add_def nth_append)

lemma chunk_path_inj:
  "plain_id t \<Longrightarrow> plain_id t' \<Longrightarrow> in_int32 i \<Longrightarrow> in_int32 i' \<Longrightarrow>
     chunk_path b t i = chunk_path b t' i' \<longleftrightarrow> t = t' \<and> i = i'"
  by (auto simp: chunk_path_def transfer_dir_plain chunk_name_inj)

lemma chunk_path_not_tmp [simp]:
  "plain_id t \<Longrightarrow> plain_id t' \<Longrightarrow> in_int32 i \<Longrightarrow> chunk_path b t i \<noteq> tmp_path b t' i'"
  by (auto simp: chunk_path_def tmp_path_def transfer_dir_plain)

lemma tmp_path_not_chunk [simp]:
  "plain_id t \<Longrightarrow> plain_id t' \<Longrightarrow> in_int32 i \<Longrightarrow> tmp_path b t' i' \<noteq> chunk_path b t i"
  using chunk_path_not_tmp by metis

section \<open>The chunks of a transfer\<close>

definition chunk_at :: "file_store \<Rightarrow> string \<Rightarrow> int32 \<Rightarrow> bytes option" where
  "chunk_at st t i = map_of (fs_files st) (chunk_path (fs_base st) t i)"

lemma load_chunk_at:
  "load_chunk flt t i st =
     (if of_read flt i then Inl ReadError
      else case chunk_at st t i of None \<Rightarrow> Inl ReadError | Some d \<Rightarrow> Inr d)"
  by (simp add: load_chunk_def chunk_at_def)

text \<open>The files of a store that only \<open>FileStore\<close> writes, with plain ids: chunks and
  leftover temporary files.\<close>

definition fs_wf :: "file_store \<Rightarrow> bool" where
  "fs_wf st \<longleftrightarrow> distinct (map fst (fs_files st)) \<and>
     (\<forall>p \<in> fst ` set (fs_files st). \<exists>t i. plain_id t \<and> in_int32 i \<and>
        (p = chunk_path (fs_base st) t i \<or> p = tmp_path (fs_base st) t i))"

lemma save_chunk_base [simp]: "fs_base (snd (save_chunk sha flt t i d st)) = fs_base st"
  by (simp add: save_chunk_def Let_def split: write_outcome.split)

lemma fst_set_delete [simp]: "fst ` set (AList.delete k al) = fst ` set al - {k}"
proof -
  have "set (map fst (AList.delete k al)) = set (map fst al) - {k}"
    by (simp only: delete_keys set_removeAll)
  then show ?thesis by simp
qed

lemma fs_wf_update:
  "fs_wf st \<Longrightarrow> plain_id t \<Longrightarrow> in_int32 i \<Longrightarrow>
   p = chunk_path (fs_base st) t i \<or> p = tmp_path (fs_base st) t i \<Longrightarrow>
   fs_wf (st\<lparr>fs_files := AList.update p d (fs_files st)\<rparr>)"
  unfolding fs_wf_def by (auto simp: distinct_update dom_update)

lemma fs_wf_delete: "fs_wf st \<Longrightarrow> fs_wf (st\<lparr>fs_files := AList.delete p (fs_files st)\<rparr>)"
  unfolding fs_wf_def by (auto simp: distinct_delete)

lemma fs_wf_save [run_invs]:
  assumes "fs_wf st" and "plain_id t" and "in_int32 i"
  shows "fs_wf (snd (save_chunk sha flt t i d st))"
proof -
  let ?p = "chunk_path (fs_base st) t i" and ?q = "tmp_path (fs_base st) t i"
  have u: "fs_wf (st\<lparr>fs_files := AList.update ?q d' (fs_files st)\<rparr>)" for d'
    using fs_wf_update [OF assms, of ?q] by simp
  have "fs_wf (st\<lparr>fs_files := AList.delete ?q (AList.update ?q d (fs_files st))\<rparr>)"
    using fs_wf_delete [OF u, of ?q d] by simp
  moreover from this have "fs_wf (st\<lparr>fs_files :=
      AList.update ?p d (AList.delete ?q (AList.update ?q d (fs_files st)))\<rparr>)"
    using fs_wf_update [OF _ assms(2,3), of "st\<lparr>fs_files := AList.delete ?q (AList.update ?q d (fs_files st))\<rparr>" ?p d]
    by simp
  ultimately show ?thesis
    using assms(1) u by (auto simp: save_chunk_def Let_def split: write_outcome.split)
qed

text \<open>Exactly the saves that report success change a chunk.\<close>

lemma chunk_at_save:
  assumes "plain_id t" and "in_int32 i" and "plain_id t'" and "in_int32 i'"
  shows "chunk_at (snd (save_chunk sha flt t i d st)) t' i' =
    (if is_ok (fst (save_chunk sha flt t i d st)) \<and> t' = t \<and> i' = i then Some d
     else chunk_at st t' i')"
  using assms chunk_path_inj [of t t' i i' "fs_base st"]
  by (auto simp: save_chunk_def chunk_at_def Let_def update_conv' delete_conv'
      split: write_outcome.splits)

definition chunk_indices :: "file_store \<Rightarrow> string \<Rightarrow> int32 list" where
  "chunk_indices st t = sort (List.map_filter parse_chunk_name
     (read_dir (transfer_dir (fs_base st) t) (fs_files st)))"

lemma list_chunks_indices:
  "list_chunks flt t st = (if of_readdir flt then Inl ReadDirError else Inr (chunk_indices st t))"
  by (simp add: list_chunks_def chunk_indices_def)

lemma set_map_filter: "set (List.map_filter f xs) = {y. \<exists>x \<in> set xs. f x = Some y}"
  by (induction xs) (auto simp: List.map_filter_simps split: option.splits)

lemma read_dir_wf:
  assumes "fs_wf st" and "plain_id t"
  shows "set (read_dir (transfer_dir (fs_base st) t) (fs_files st)) =
    {n. path_add (transfer_dir (fs_base st) t) n \<in> fst ` set (fs_files st)}"
proof -
  have dir: "transfer_dir (fs_base st) t = path_add (base_dir (fs_base st)) t"
    using assms(2) by (rule transfer_dir_plain)
  have shape: "\<exists>t' n. p = path_add (path_add (base_dir (fs_base st)) t') n"
    if "p \<in> fst ` set (fs_files st)" for p
    using assms(1) that unfolding fs_wf_def
    by (metis chunk_path_def tmp_path_def transfer_dir_plain)
  show ?thesis
  proof (rule set_eqI, rule iffI)
    fix n assume "n \<in> set (read_dir (transfer_dir (fs_base st) t) (fs_files st))"
    then obtain p d where "(p, d) \<in> set (fs_files st)"
      and c: "child_of (transfer_dir (fs_base st) t) p = Some n"
      by (auto simp: read_dir_def set_map_filter)
    then have p: "p \<in> fst ` set (fs_files st)" by force
    from shape [OF this] c have "p = path_add (transfer_dir (fs_base st) t) n"
      by (auto simp: dir split: if_splits)
    with p show "n \<in> {n. path_add (transfer_dir (fs_base st) t) n \<in> fst ` set (fs_files st)}"
      by simp
  next
    fix n assume "n \<in> {n. path_add (transfer_dir (fs_base st) t) n \<in> fst ` set (fs_files st)}"
    then obtain d where d: "(path_add (transfer_dir (fs_base st) t) n, d) \<in> set (fs_files st)"
      by auto
    show "n \<in> set (read_dir (transfer_dir (fs_base st) t) (fs_files st))"
      unfolding read_dir_def set_remdups set_map_filter
      by (rule CollectI, rule bexI [OF _ d]) simp
  qed
qed

text \<open>A name in a transfer's directory is a chunk's name or a leftover's, so it parses only as
  the index it was made from.\<close>

lemma dir_name_parses:
  assumes "fs_wf st" and "plain_id t"
    and "n \<in> set (read_dir (transfer_dir (fs_base st) t) (fs_files st))"
    and "parse_chunk_name n = Some i"
  shows "in_int32 i \<and> n = chunk_name i"
proof -
  have "path_add (transfer_dir (fs_base st) t) n \<in> fst ` set (fs_files st)"
    using assms(3) read_dir_wf [OF assms(1,2)] by simp
  then obtain t' j where "plain_id t'" and j: "in_int32 j" and
    "path_add (transfer_dir (fs_base st) t) n = chunk_path (fs_base st) t' j \<or>
     path_add (transfer_dir (fs_base st) t) n = tmp_path (fs_base st) t' j"
    using assms(1) unfolding fs_wf_def by blast
  then have "n = chunk_name j \<or> n = chunk_name j @ ''.tmp''"
    by (auto simp: chunk_path_def tmp_path_def)
  then show ?thesis using assms(4) j by (auto simp: parse_chunk_name_chunk_name)
qed

lemma set_chunk_indices:
  assumes "fs_wf st" and "plain_id t"
  shows "set (chunk_indices st t) = {i. in_int32 i \<and> chunk_at st t i \<noteq> None}"
proof -
  let ?dir = "transfer_dir (fs_base st) t"
  have "i \<in> set (chunk_indices st t) \<longleftrightarrow>
      in_int32 i \<and> chunk_name i \<in> set (read_dir ?dir (fs_files st))" for i
    using dir_name_parses [OF assms] parse_chunk_name_chunk_name
    by (auto simp: chunk_indices_def set_map_filter)
  then show ?thesis
    by (auto simp: read_dir_wf [OF assms] chunk_at_def chunk_path_def map_of_eq_None_iff)
qed

lemma map_filter_distinct:
  "distinct xs \<Longrightarrow> (\<And>x y z. x \<in> set xs \<Longrightarrow> y \<in> set xs \<Longrightarrow> f x = Some z \<Longrightarrow> f y = Some z \<Longrightarrow> x = y) \<Longrightarrow>
   distinct (List.map_filter f xs)"
  by (induction xs) (fastforce simp: List.map_filter_simps set_map_filter split: option.splits)+

lemma chunk_indices_sorted:
  assumes "fs_wf st" and "plain_id t"
  shows "sorted (chunk_indices st t) \<and> distinct (chunk_indices st t)"
proof -
  have dd: "distinct (read_dir (transfer_dir (fs_base st) t) (fs_files st))"
    by (simp add: read_dir_def)
  have "distinct (List.map_filter parse_chunk_name
      (read_dir (transfer_dir (fs_base st) t) (fs_files st)))"
    by (rule map_filter_distinct [OF dd]) (metis dir_name_parses [OF assms])
  then show ?thesis by (simp add: chunk_indices_def)
qed

section \<open>The interface \<open>storage.ChunkStore\<close>\<close>

text \<open>What the transfer and relay services rely on, for ids and indices that are \<open>ok\<close>.\<close>

locale chunk_store =
  fixes save :: "string \<Rightarrow> int32 \<Rightarrow> bytes \<Rightarrow> 's \<Rightarrow> 's"
    and load :: "'s \<Rightarrow> string \<Rightarrow> int32 \<Rightarrow> bytes option"
    and indices :: "'s \<Rightarrow> string \<Rightarrow> int32 list"
    and remove :: "string \<Rightarrow> 's \<Rightarrow> 's"
    and wf :: "'s \<Rightarrow> bool"
    and ok_id :: "string \<Rightarrow> bool"
    and ok_index :: "int32 \<Rightarrow> bool"
  assumes load_save: "ok_id t \<Longrightarrow> ok_index i \<Longrightarrow> ok_id t' \<Longrightarrow> ok_index i' \<Longrightarrow>
      load (save t i d s) t' i' = (if t' = t \<and> i' = i then Some d else load s t' i')"
    and load_remove: "ok_id t \<Longrightarrow> ok_id t' \<Longrightarrow> ok_index i' \<Longrightarrow>
      load (remove t s) t' i' = (if t' = t then None else load s t' i')"
    and set_indices: "wf s \<Longrightarrow> ok_id t \<Longrightarrow> set (indices s t) = {i. ok_index i \<and> load s t i \<noteq> None}"
    and indices_sorted: "wf s \<Longrightarrow> ok_id t \<Longrightarrow> sorted (indices s t) \<and> distinct (indices s t)"
    and wf_save: "wf s \<Longrightarrow> ok_id t \<Longrightarrow> ok_index i \<Longrightarrow> wf (save t i d s)"
    and wf_remove: "wf s \<Longrightarrow> ok_id t \<Longrightarrow> wf (remove t s)"
begin

definition upload :: "string \<Rightarrow> (int32 \<times> bytes) list \<Rightarrow> 's \<Rightarrow> 's" where
  "upload t cs s = foldl (\<lambda>s (i, d). save t i d s) s cs"

definition download :: "'s \<Rightarrow> string \<Rightarrow> bytes" where
  "download s t = concat (map (\<lambda>i. the (load s t i)) (indices s t))"

lemma upload_simps [simp]:
  "upload t [] s = s" "upload t ((i, d) # cs) s = upload t cs (save t i d s)"
  by (simp_all add: upload_def)

lemma wf_upload: "wf s \<Longrightarrow> ok_id t \<Longrightarrow> \<forall>(i, d) \<in> set cs. ok_index i \<Longrightarrow> wf (upload t cs s)"
  by (induction cs arbitrary: s) (auto simp: wf_save)

lemma load_upload:
  "ok_id t \<Longrightarrow> ok_id t' \<Longrightarrow> \<forall>(i, d) \<in> set cs. ok_index i \<Longrightarrow> ok_index i' \<Longrightarrow>
     load (upload t cs s) t' i' =
       (if t' = t then (case map_of (rev cs) i' of Some d \<Rightarrow> Some d | None \<Rightarrow> load s t' i')
        else load s t' i')"
proof (induction cs arbitrary: s)
  case (Cons c cs)
  obtain i d where c: "c = (i, d)" by (cases c)
  show ?case using Cons.prems Cons.IH [of "save t i d s"]
    by (auto simp: c load_save map_add_def split: option.splits)
qed simp

text \<open>However the chunks of a file arrive, reading them back in index order gives the file.\<close>

lemma download_upload:
  assumes "wf s" and "ok_id t" and "\<And>i. ok_index i \<Longrightarrow> load s t i = None"
    and "mset cs = mset (zip (map int [0..<length parts]) parts)"
    and "\<And>n. n < length parts \<Longrightarrow> ok_index (int n)"
  shows "indices (upload t cs s) t = map int [0..<length parts]
    \<and> download (upload t cs s) t = concat parts"
proof -
  let ?n = "length parts" and ?z = "zip (map int [0..<length parts]) parts"
  have set_cs: "set cs = set ?z" using assms(4) by (metis set_mset_mset)
  have "mset (map fst cs) = mset (map int [0..<?n])"
    using arg_cong [OF assms(4), of "image_mset fst"] by (simp flip: mset_map)
  moreover have "distinct (map int [0..<?n])" by (simp add: distinct_map)
  ultimately have "distinct (map fst cs)" by (metis mset_eq_imp_distinct_iff)
  then have dist: "distinct (map fst (rev cs))" by (simp flip: rev_map)
  have ok: "\<forall>(i, d) \<in> set cs. ok_index i"
    using assms(5) by (auto simp: set_cs set_zip)
  have at: "map_of (rev cs) (int k) = Some (parts ! k)" if "k < ?n" for k
  proof (rule map_of_is_SomeI [OF dist])
    show "(int k, parts ! k) \<in> set (rev cs)"
      using that by (auto simp: set_cs set_zip intro!: exI [of _ k])
  qed
  have out: "map_of (rev cs) i = None" if "i \<notin> int ` {0..<?n}" for i
    using that by (auto simp: map_of_eq_None_iff set_cs set_zip)
  have load: "load (upload t cs s) t i = (if i \<in> int ` {0..<?n} then Some (parts ! nat i) else None)"
    if "ok_index i" for i
    using load_upload [OF assms(2,2) ok that, of s] at out assms(3) [OF that] by auto
  have wf: "wf (upload t cs s)" using assms(1,2) ok by (rule wf_upload)
  have "set (indices (upload t cs s) t) = int ` {0..<?n}"
    using assms(5) by (auto simp: set_indices [OF wf assms(2)] load split: if_splits)
  moreover have "sorted (map int [0..<?n])" by (simp add: sorted_iff_nth_mono)
  ultimately have idx: "indices (upload t cs s) t = map int [0..<?n]"
    using indices_sorted [OF wf assms(2)]
    by (intro sorted_distinct_set_unique) (auto simp: distinct_map)
  have "map (\<lambda>i. the (load (upload t cs s) t i)) (map int [0..<?n]) = map ((!) parts) [0..<?n]"
    using assms(5) by (auto simp: load)
  then show ?thesis by (simp add: idx download_def map_nth)
qed

end

text \<open>\<open>FileStore\<close> with no failing system call is a chunk store.\<close>

definition put_chunk :: "string \<Rightarrow> int32 \<Rightarrow> bytes \<Rightarrow> file_store \<Rightarrow> file_store" where
  "put_chunk t i d st = snd (save_chunk (\<lambda>_. '''') no_faults t i d st)"

definition drop_transfer :: "string \<Rightarrow> file_store \<Rightarrow> file_store" where
  "drop_transfer t st = snd (delete_transfer no_faults t st)"

lemma no_faults_simps [simp]:
  "of_mkdir no_faults = False" "of_write no_faults = WriteOk" "of_rename no_faults = False"
  "of_remove no_faults = False" "of_read no_faults = (\<lambda>_. False)" "of_readdir no_faults = False"
  "of_removeall no_faults = None" "of_sink no_faults = (\<lambda>_. None)"
  by (simp_all add: no_faults_def)

lemma save_chunk_no_faults:
  "save_chunk sha no_faults t i d st = (Inr (sha d), put_chunk t i d st)"
  by (simp add: save_chunk_def put_chunk_def Let_def)

lemma under_chunk_path [simp]:
  "plain_id t \<Longrightarrow> plain_id t' \<Longrightarrow> under (transfer_dir b t) (chunk_path b t' i) \<longleftrightarrow> t' = t"
  by (simp add: chunk_path_def transfer_dir_plain)

lemma map_of_filter_key:
  "map_of (filter (\<lambda>(p, _). P p) xs) q = (if P q then map_of xs q else None)"
  by (induction xs) auto

lemma chunk_at_drop:
  "plain_id t \<Longrightarrow> plain_id t' \<Longrightarrow>
   chunk_at (drop_transfer t st) t' i = (if t' = t then None else chunk_at st t' i)"
  by (simp add: drop_transfer_def delete_transfer_def chunk_at_def Let_def map_of_filter_key)

lemma fs_wf_drop: "fs_wf st \<Longrightarrow> fs_wf (drop_transfer t st)"
  by (auto simp: fs_wf_def drop_transfer_def delete_transfer_def Let_def distinct_map
      intro: inj_on_subset)

lemma chunk_at_put:
  "plain_id t \<Longrightarrow> in_int32 i \<Longrightarrow> plain_id t' \<Longrightarrow> in_int32 i' \<Longrightarrow>
   chunk_at (put_chunk t i d st) t' i' = (if t' = t \<and> i' = i then Some d else chunk_at st t' i')"
  using chunk_at_save [of t i t' i' "\<lambda>_. ''''" no_faults d st]
  by (simp add: save_chunk_no_faults)

lemma fs_wf_put: "fs_wf st \<Longrightarrow> plain_id t \<Longrightarrow> in_int32 i \<Longrightarrow> fs_wf (put_chunk t i d st)"
  by (simp add: put_chunk_def fs_wf_save)

interpretation fstore:
  chunk_store put_chunk chunk_at chunk_indices drop_transfer fs_wf plain_id in_int32
  by unfold_locales
     (auto simp: chunk_at_put chunk_at_drop set_chunk_indices chunk_indices_sorted
       intro: fs_wf_put fs_wf_drop)

section \<open>Properties\<close>

lemma save_chunk_state: "snd (save_chunk sha no_faults t i d st) = put_chunk t i d st"
  by (simp add: save_chunk_no_faults)

lemma reassemble_loop_no_faults:
  "\<forall>i \<in> set is. chunk_at st t i \<noteq> None \<Longrightarrow>
   reassemble_loop no_faults t st is out = (None, out @ concat (map (\<lambda>i. the (chunk_at st t i)) is))"
  by (induction "is" arbitrary: out) (auto simp: load_chunk_at)

lemma reassemble_download:
  "fs_wf st \<Longrightarrow> plain_id t \<Longrightarrow> reassemble no_faults t st = (None, fstore.download st t)"
  by (simp add: reassemble_def list_chunks_indices reassemble_loop_no_faults set_chunk_indices
      fstore.download_def)

text \<open>
  C34: the chunks of a file, saved under one transfer id in any order, are listed in index
  order and reassembled to the file: the file name of every \<open>int32\<close> index parses back to it,
  and no other name in the directory is taken for a chunk.
\<close>

theorem save_list_reassemble:
  assumes "fs_wf st" and "plain_id t" and "length parts \<le> 2 ^ 31"
    and "\<And>i. in_int32 i \<Longrightarrow> chunk_at st t i = None"
    and "mset cs = mset (zip (map int [0..<length parts]) parts)"
    and "st' = foldl (\<lambda>s (i, d). snd (save_chunk sha no_faults t i d s)) st cs"
  shows "list_chunks no_faults t st' = Inr (map int [0..<length parts])
    \<and> reassemble no_faults t st' = (None, concat parts)"
proof -
  have st': "st' = fstore.upload t cs st"
    by (simp add: assms(6) fstore.upload_def save_chunk_state)
  have idx: "in_int32 (int n)" if "n < length parts" for n
    using that assms(3) by (simp add: in_int32_def)
  note up = fstore.download_upload [OF assms(1,2,4,5) idx]
  have "set cs = set (zip (map int [0..<length parts]) parts)"
    using assms(5) by (metis set_mset_mset)
  then have "\<forall>(i, d) \<in> set cs. in_int32 i" using idx by (auto simp: set_zip)
  then have "fs_wf st'" unfolding st' by (rule fstore.wf_upload [OF assms(1,2)])
  then show ?thesis using up assms(2)
    by (simp add: st' list_chunks_indices reassemble_download)
qed

theorem save_list_reassemble_witness:
  "reassemble no_faults ''t1''
     (foldl (\<lambda>s (i, d). snd (save_chunk (\<lambda>_. ''h'') no_faults ''t1'' i d s))
        \<lparr>fs_base = ''/data'', fs_files = []\<rparr> [(1, [3 :: 8 word]), (0, [1, 2])]) = (None, [1, 2, 3])"
  using save_list_reassemble [of "\<lparr>fs_base = ''/data'', fs_files = []\<rparr>" "''t1''"
      "[[1, 2], [3]]" "[(1, [3]), (0, [1, 2])]", OF _ _ _ _ _ refl]
  by (simp add: fs_wf_def plain_id_def chunk_at_def)

text \<open>
  a save is atomic. Whatever system call fails, and however many bytes were written before
  it did, a save that reports an error changes no chunk and no listing, of its own transfer or
  another; one that reports success makes exactly its own chunk readable.
\<close>

theorem save_chunk_atomic:
  assumes "fs_wf st" and "plain_id t" and "in_int32 i" and "plain_id t'"
    and "save_chunk sha flt t i d st = (r, st')"
  shows "fs_wf st' \<and>
    (case r of
       Inl e \<Rightarrow> (\<forall>i'. in_int32 i' \<longrightarrow> chunk_at st' t' i' = chunk_at st t' i') \<and>
                 list_chunks no_faults t' st' = list_chunks no_faults t' st
     | Inr h \<Rightarrow> h = sha d \<and> (\<forall>i'. in_int32 i' \<longrightarrow> chunk_at st' t' i' =
                 (if t' = t \<and> i' = i then Some d else chunk_at st t' i')))"
proof -
  have wf: "fs_wf st'" using fs_wf_save [OF assms(1-3), of sha flt d] assms(5) by simp
  have at: "chunk_at st' t' i' = (if is_ok r \<and> t' = t \<and> i' = i then Some d else chunk_at st t' i')"
    if "in_int32 i'" for i'
    using chunk_at_save [OF assms(2,3,4) that, of sha flt d st] assms(5) by simp
  have "chunk_indices st' t' = chunk_indices st t'" if "\<not> is_ok r"
  proof (rule sorted_distinct_set_unique)
    show "set (chunk_indices st' t') = set (chunk_indices st t')"
      using at that by (auto simp: set_chunk_indices [OF wf assms(4)] set_chunk_indices [OF assms(1,4)])
  qed (use chunk_indices_sorted [OF wf assms(4)] chunk_indices_sorted [OF assms(1,4)] in auto)
  moreover have "r = Inr h \<Longrightarrow> h = sha d" for h
    using assms(5) by (auto simp: save_chunk_def Let_def split: if_splits write_outcome.splits)
  ultimately show ?thesis using wf at
    by (auto simp: list_chunks_indices split: sum.splits)
qed

theorem save_chunk_atomic_witness:
  "list_chunks no_faults ''t1'' (snd (save_chunk (\<lambda>_. ''h'') (no_faults\<lparr>of_write := WritePartial 1\<rparr>)
     ''t1'' 7 [1, 2] \<lparr>fs_base = ''/data'', fs_files = []\<rparr>)) = Inr []"
proof -
  let ?st = "\<lparr>fs_base = ''/data'', fs_files = []\<rparr>"
  have wf: "fs_wf ?st" and p: "plain_id ''t1''" and i: "in_int32 7"
    by (simp_all add: fs_wf_def plain_id_def in_int32_def)
  obtain st' where r: "save_chunk (\<lambda>_. ''h'') (no_faults\<lparr>of_write := WritePartial 1\<rparr>)
     ''t1'' 7 [1, 2] ?st = (Inl WriteError, st')"
    by (simp add: save_chunk_def Let_def)
  show ?thesis using save_chunk_atomic [OF wf p i p r] r
    by (simp add: list_chunks_def read_dir_def List.map_filter_simps)
qed

text \<open>
  a transfer id that is one path component keeps every file of the transfer below the
  base directory, in a directory no other such id shares, so deleting one transfer leaves the
  others alone.
\<close>

theorem plain_ids_isolated:
  assumes "plain_id t" and "plain_id t'" and "in_int32 i"
    and "delete_transfer no_faults t st = (e, st')"
  shows "under (base_dir (fs_base st)) (chunk_path (fs_base st) t i)
    \<and> (transfer_dir (fs_base st) t = transfer_dir (fs_base st) t' \<longrightarrow> t = t')
    \<and> e = None \<and> chunk_at st' t' i = (if t' = t then None else chunk_at st t' i)"
proof -
  have "e = None \<and> st' = drop_transfer t st"
    using assms(4) by (simp add: drop_transfer_def delete_transfer_def Let_def)
  then show ?thesis using assms(1,2)
    by (simp add: chunk_at_drop chunk_path_def transfer_dir_plain)
       (simp add: under_def path_add_def)
qed

theorem plain_ids_isolated_witness:
  "chunk_at (snd (delete_transfer no_faults ''a''
     \<lparr>fs_base = ''/data'', fs_files = [(chunk_path ''/data'' ''b'' 0, [9])]\<rparr>)) ''b'' 0 = Some [9]"
proof -
  let ?st = "\<lparr>fs_base = ''/data'', fs_files = [(chunk_path ''/data'' ''b'' 0, [9 :: 8 word])]\<rparr>"
  obtain e st' where d: "delete_transfer no_faults ''a'' ?st = (e, st')" by fastforce
  have p: "plain_id ''a''" "plain_id ''b''" "in_int32 0"
    by (simp_all add: plain_id_def in_int32_def)
  show ?thesis using plain_ids_isolated [OF p d] d by (simp add: chunk_at_def)
qed

text \<open>
  an id that is not one component is not contained. Under a base directory named from the
  root, the id \<open>../x\<close> names a sibling of the base directory, and deleting the empty id removes
  every file below the base.
\<close>

theorem other_ids_escape:
  assumes "plain_id b" and "plain_id x" and "x \<noteq> b"
  shows "transfer_dir (''/'' @ b) (''../'' @ x) = (True, [x])
    \<and> \<not> under (base_dir (''/'' @ b)) (chunk_path (''/'' @ b) (''../'' @ x) i)
    \<and> (\<forall>st t j. fs_base st = ''/'' @ b \<longrightarrow> plain_id t \<longrightarrow>
          chunk_at (snd (delete_transfer no_faults '''' st)) t j = None)"
proof -
  have base: "base_dir (''/'' @ b) = (True, [b])"
    using assms(1) split_on_append [of "CHR ''/''" b "[]"]
    by (simp add: base_dir_def clean_path_def is_rooted_def plain_id_def)
  have esc: "transfer_dir (''/'' @ b) (''../'' @ x) = (True, [x])"
    using assms(1,2) split_on_append [of "CHR ''/''" b "''../'' @ x"]
    by (simp add: transfer_dir_def join_path_def clean_path_def is_rooted_def plain_id_def)
  have root: "transfer_dir (''/'' @ b) '''' = (True, [b])"
    using base by (simp add: transfer_dir_def join_path_def base_dir_def)
  have "under (True, [b]) (chunk_path (''/'' @ b) t j)" if "plain_id t" for t j
    using that base by (simp add: chunk_path_def transfer_dir_plain under_def path_add_def)
  moreover have "chunk_path (''/'' @ b) (''../'' @ x) i = path_add (True, [x]) (chunk_name i)"
    unfolding chunk_path_def esc ..
  ultimately show ?thesis using esc root base assms(3)
    by (auto simp: under_def path_add_def delete_transfer_def Let_def chunk_at_def map_of_filter_key)
qed

theorem other_ids_escape_witness:
  "transfer_dir ''/data'' ''../etc'' = (True, [''etc''])"
  using other_ids_escape [of "''data''" "''etc''"] by (simp add: plain_id_def)

end
