(* ===== verification/Collector.thy ===== *)
theory Collector
  imports Prelude "HOL-Library.Multiset"
begin

text \<open>
  The event collector of \<open>internal/intelligence/collector.go\<close> with the types of \<open>types.go\<close>:
  per-node event logs of bounded length, the metrics computed from the events of the window,
  percentiles and pruning. Wall-clock reads are arguments, \<open>float64\<close> is the reals, and a
  \<open>time.Time\<close> of zero is the time 0. Counters stay far below \<open>2 ^ 63\<close>, so no wrap is written.
\<close>

section \<open>The code\<close>

datatype event_type =
    EventRelaySuccess | EventRelayFailure | EventRelayTimeout | EventPingSuccess
  | EventPingFailure | EventReroute | EventCircuitOpen

record event =
  ev_NodeID :: node_id
  ev_Type :: event_type
  ev_LatencyMs :: int64
  ev_DataBytes :: int64
  ev_Timestamp :: time

record node_metrics =
  nm_NodeID :: node_id
  nm_TotalEvents :: int64
  nm_Successes :: int64
  nm_Failures :: int64
  nm_Timeouts :: int64
  nm_Reroutes :: int64
  nm_CircuitOpens :: int64
  nm_AvgLatencyMs :: real
  nm_MinLatencyMs :: int64
  nm_MaxLatencyMs :: int64
  nm_P95LatencyMs :: int64
  nm_TotalBytes :: int64
  nm_AvgBytesPerOp :: real
  nm_FailureRate :: real
  nm_Uptime :: real
  nm_WindowStart :: time
  nm_WindowEnd :: time

record collector =
  co_events :: "node_id \<Rightarrow> event list option"
  co_window :: time
  co_maxPer :: nat

definition new_collector :: "time \<Rightarrow> collector" where
  "new_collector window =
     \<lparr>co_events = Map.empty, co_window = (if window \<le> 0 then 10 * minute else window),
      co_maxPer = 10000\<rparr>"

text \<open>A read of a missing key of a Go map gives the zero value, here the empty slice.\<close>

definition events_of :: "collector \<Rightarrow> node_id \<Rightarrow> event list" where
  "events_of c nid = (case co_events c nid of None \<Rightarrow> [] | Some es \<Rightarrow> es)"

definition co_record :: "time \<Rightarrow> event \<Rightarrow> collector \<Rightarrow> collector" where
  "co_record now e c =
     (if ev_NodeID e = '''' then c
      else
        let e1 = (if ev_Timestamp e = 0 then e\<lparr>ev_Timestamp := now\<rparr> else e);
            evts = events_of c (ev_NodeID e1) @ [e1];
            evts1 = (if length evts > co_maxPer c then drop (length evts - co_maxPer c) evts else evts)
        in c\<lparr>co_events := (co_events c)(ev_NodeID e1 \<mapsto> evts1)\<rparr>)"

definition record_relay :: "time \<Rightarrow> node_id \<Rightarrow> bool \<Rightarrow> int64 \<Rightarrow> int64 \<Rightarrow> collector \<Rightarrow> collector" where
  "record_relay now nid success latencyMs dataBytes c =
     co_record now \<lparr>ev_NodeID = nid,
       ev_Type = (if success then EventRelaySuccess else EventRelayFailure),
       ev_LatencyMs = latencyMs, ev_DataBytes = dataBytes, ev_Timestamp = 0\<rparr> c"

definition record_ping :: "time \<Rightarrow> node_id \<Rightarrow> int64 \<Rightarrow> bool \<Rightarrow> collector \<Rightarrow> collector" where
  "record_ping now nid latencyMs success c =
     co_record now \<lparr>ev_NodeID = nid,
       ev_Type = (if success then EventPingSuccess else EventPingFailure),
       ev_LatencyMs = latencyMs, ev_DataBytes = 0, ev_Timestamp = 0\<rparr> c"

definition percentile :: "int64 list \<Rightarrow> nat \<Rightarrow> int64" where
  "percentile data p =
     (if data = [] then 0
      else
        let sorted_data = sort data;
            idx0 = max (\<lceil>real p / 100 * real (length sorted_data)\<rceil> - 1) 0;
            idx = (if idx0 \<ge> int (length sorted_data) then length sorted_data - 1 else nat idx0)
        in sorted_data ! idx)"

text \<open>One iteration of the loop over the events of the window: the counters of the metrics
  and the list of latencies.\<close>

definition count_event :: "event_type \<Rightarrow> node_metrics \<Rightarrow> node_metrics" where
  "count_event t m =
     (case t of
        EventRelaySuccess \<Rightarrow> m\<lparr>nm_Successes := nm_Successes m + 1\<rparr>
      | EventPingSuccess \<Rightarrow> m\<lparr>nm_Successes := nm_Successes m + 1\<rparr>
      | EventRelayFailure \<Rightarrow> m\<lparr>nm_Failures := nm_Failures m + 1\<rparr>
      | EventPingFailure \<Rightarrow> m\<lparr>nm_Failures := nm_Failures m + 1\<rparr>
      | EventRelayTimeout \<Rightarrow> m\<lparr>nm_Timeouts := nm_Timeouts m + 1, nm_Failures := nm_Failures m + 1\<rparr>
      | EventReroute \<Rightarrow> m\<lparr>nm_Reroutes := nm_Reroutes m + 1\<rparr>
      | EventCircuitOpen \<Rightarrow> m\<lparr>nm_CircuitOpens := nm_CircuitOpens m + 1\<rparr>)"

definition metrics_step :: "node_metrics \<times> int64 list \<Rightarrow> event \<Rightarrow> node_metrics \<times> int64 list" where
  "metrics_step ml e =
     (let (m, latencies) = ml;
          m1 = count_event (ev_Type e) m;
          l = ev_LatencyMs e;
          (m2, latencies2) =
            (if l > 0
             then (m1\<lparr>nm_MinLatencyMs := (if l < nm_MinLatencyMs m1 then l else nm_MinLatencyMs m1),
                      nm_MaxLatencyMs := (if l > nm_MaxLatencyMs m1 then l else nm_MaxLatencyMs m1)\<rparr>,
                   latencies @ [l])
             else (m1, latencies))
      in (m2\<lparr>nm_TotalBytes := nm_TotalBytes m2 + ev_DataBytes e\<rparr>, latencies2))"

definition max_int64 :: int64 where
  "max_int64 = 2 ^ 63 - 1"

definition metrics_init :: "node_id \<Rightarrow> event list \<Rightarrow> node_metrics" where
  "metrics_init nid filtered =
     \<lparr>nm_NodeID = nid, nm_TotalEvents = int (length filtered), nm_Successes = 0, nm_Failures = 0,
      nm_Timeouts = 0, nm_Reroutes = 0, nm_CircuitOpens = 0, nm_AvgLatencyMs = 0,
      nm_MinLatencyMs = max_int64, nm_MaxLatencyMs = 0, nm_P95LatencyMs = 0, nm_TotalBytes = 0,
      nm_AvgBytesPerOp = 0, nm_FailureRate = 0, nm_Uptime = 0,
      nm_WindowStart = ev_Timestamp (hd filtered), nm_WindowEnd = ev_Timestamp (last filtered)\<rparr>"

definition metrics_of_events :: "node_id \<Rightarrow> event list \<Rightarrow> node_metrics" where
  "metrics_of_events nid filtered =
     (let (m, latencies) = foldl metrics_step (metrics_init nid filtered, []) filtered;
          m1 = (if latencies \<noteq> []
                then m\<lparr>nm_AvgLatencyMs := real_of_int (sum_list latencies) / real (length latencies),
                       nm_P95LatencyMs := percentile latencies 95\<rparr>
                else m\<lparr>nm_MinLatencyMs := 0\<rparr>);
          m2 = (if nm_TotalEvents m1 > 0
                then m1\<lparr>nm_FailureRate := real_of_int (nm_Failures m1) / real_of_int (nm_TotalEvents m1),
                        nm_Uptime := 1 - real_of_int (nm_Failures m1) / real_of_int (nm_TotalEvents m1)\<rparr>
                else m1)
      in if nm_Successes m2 > 0
         then m2\<lparr>nm_AvgBytesPerOp := real_of_int (nm_TotalBytes m2) / real_of_int (nm_Successes m2)\<rparr>
         else m2)"

definition fresh_events :: "time \<Rightarrow> collector \<Rightarrow> node_id \<Rightarrow> event list" where
  "fresh_events now c nid = filter (\<lambda>e. ev_Timestamp e > now - co_window c) (events_of c nid)"

definition metrics :: "time \<Rightarrow> node_id \<Rightarrow> collector \<Rightarrow> node_metrics option" where
  "metrics now nid c =
     (if events_of c nid = [] then None
      else let filtered = fresh_events now c nid
           in if filtered = [] then None else Some (metrics_of_events nid filtered))"

definition all_metrics :: "time \<Rightarrow> collector \<Rightarrow> node_id \<Rightarrow> node_metrics option" where
  "all_metrics now c nid = (if co_events c nid = None then None else metrics now nid c)"

text \<open>The loop of \<open>Prune\<close> over one log of length \<open>n\<close>, from index \<open>i\<close>.\<close>

fun prune_loop :: "time \<Rightarrow> nat \<Rightarrow> nat \<Rightarrow> nat \<Rightarrow> event list \<Rightarrow> nat" where
  "prune_loop cutoff n i start [] = start"
| "prune_loop cutoff n i start (e # es) =
     (if ev_Timestamp e > cutoff then i
      else prune_loop cutoff n (i + 1) (if i = n - 1 then n else start) es)"

definition prune_log :: "time \<Rightarrow> event list \<Rightarrow> event list option" where
  "prune_log cutoff evts =
     (let start = prune_loop cutoff (length evts) 0 0 evts
      in if start \<ge> length evts then None
         else if start > 0 then Some (drop start evts)
         else Some evts)"

definition prune :: "time \<Rightarrow> collector \<Rightarrow> collector" where
  "prune now c =
     c\<lparr>co_events := (\<lambda>nid. case co_events c nid of
           None \<Rightarrow> None | Some evts \<Rightarrow> prune_log (now - co_window c) evts)\<rparr>"

section \<open>Closed form of the loop\<close>

definition lats :: "event list \<Rightarrow> int64 list" where
  "lats es = filter (\<lambda>l. l > 0) (map ev_LatencyMs es)"

definition cnt :: "event_type set \<Rightarrow> event list \<Rightarrow> int64" where
  "cnt T es = int (length (filter (\<lambda>e. ev_Type e \<in> T) es))"

lemma cnt_simps [simp]:
  "cnt T [] = 0" "cnt T (e # es) = (if ev_Type e \<in> T then 1 else 0) + cnt T es"
  by (simp_all add: cnt_def)

lemma lats_simps [simp]:
  "lats [] = []" "lats (e # es) = (if ev_LatencyMs e > 0 then [ev_LatencyMs e] else []) @ lats es"
  by (simp_all add: lats_def)

lemma cnt_nonneg [simp]: "0 \<le> cnt T es"
  by (simp add: cnt_def)

abbreviation "success_types \<equiv> {EventRelaySuccess, EventPingSuccess}"
abbreviation "failure_types \<equiv> {EventRelayFailure, EventPingFailure, EventRelayTimeout}"

lemma count_event_eq:
  "count_event t m =
     m\<lparr>nm_Successes := nm_Successes m + (if t \<in> success_types then 1 else 0),
       nm_Failures := nm_Failures m + (if t \<in> failure_types then 1 else 0),
       nm_Timeouts := nm_Timeouts m + (if t = EventRelayTimeout then 1 else 0),
       nm_Reroutes := nm_Reroutes m + (if t = EventReroute then 1 else 0),
       nm_CircuitOpens := nm_CircuitOpens m + (if t = EventCircuitOpen then 1 else 0)\<rparr>"
  by (cases t) (simp_all add: count_event_def)

lemma metrics_step_eq:
  "metrics_step (m, ls) e =
     ((count_event (ev_Type e) m)\<lparr>
        nm_MinLatencyMs := foldl min (nm_MinLatencyMs m) (lats [e]),
        nm_MaxLatencyMs := foldl max (nm_MaxLatencyMs m) (lats [e]),
        nm_TotalBytes := nm_TotalBytes m + ev_DataBytes e\<rparr>, ls @ lats [e])"
  by (simp add: metrics_step_def count_event_eq Let_def min_def max_def)

lemma metrics_fold:
  "foldl metrics_step (m, ls) es =
     (m\<lparr>nm_Successes := nm_Successes m + cnt success_types es,
        nm_Failures := nm_Failures m + cnt failure_types es,
        nm_Timeouts := nm_Timeouts m + cnt {EventRelayTimeout} es,
        nm_Reroutes := nm_Reroutes m + cnt {EventReroute} es,
        nm_CircuitOpens := nm_CircuitOpens m + cnt {EventCircuitOpen} es,
        nm_MinLatencyMs := foldl min (nm_MinLatencyMs m) (lats es),
        nm_MaxLatencyMs := foldl max (nm_MaxLatencyMs m) (lats es),
        nm_TotalBytes := nm_TotalBytes m + sum_list (map ev_DataBytes es)\<rparr>,
      ls @ lats es)"
proof (induction es arbitrary: m ls)
  case Nil
  then show ?case by simp
next
  case (Cons e es)
  have lats: "lats (e # es) = lats [e] @ lats es" by simp
  show ?case unfolding foldl.simps metrics_step_eq Cons.IH lats foldl_append
    by (simp add: count_event_eq add.assoc del: lats_simps)
qed

lemma foldl_min_init: "foldl min b ys \<le> (b::int)"
proof (induction ys arbitrary: b)
  case (Cons y ys)
  show ?case using Cons.IH [of "min b y"] by simp
qed simp

lemma foldl_max_init: "(b::int) \<le> foldl max b ys"
proof (induction ys arbitrary: b)
  case (Cons y ys)
  show ?case using Cons.IH [of "max b y"] by simp
qed simp

lemma foldl_min_le: "l \<in> set ls \<Longrightarrow> foldl min a ls \<le> (l::int)"
proof (induction ls arbitrary: a)
  case (Cons x xs)
  then show ?case using foldl_min_init [of "min a x" xs] by auto
qed simp

lemma foldl_max_ge: "l \<in> set ls \<Longrightarrow> (l::int) \<le> foldl max a ls"
proof (induction ls arbitrary: a)
  case (Cons x xs)
  then show ?case using foldl_max_init [of "max a x" xs] by auto
qed simp

lemma mean_bounds:
  assumes "xs \<noteq> []" and "\<And>x. x \<in> set xs \<Longrightarrow> lo \<le> x" and "\<And>x. x \<in> set xs \<Longrightarrow> x \<le> (hi::int)"
  shows "real_of_int lo \<le> real_of_int (sum_list xs) / real (length xs)
    \<and> real_of_int (sum_list xs) / real (length xs) \<le> real_of_int hi"
proof -
  have "int (length xs) * lo \<le> sum_list xs \<and> sum_list xs \<le> int (length xs) * hi"
    using assms(2,3)
  proof (induction xs)
    case (Cons a xs)
    then have "lo \<le> a" "a \<le> hi" "int (length xs) * lo \<le> sum_list xs" "sum_list xs \<le> int (length xs) * hi"
      by simp_all
    then show ?case by (simp add: algebra_simps)
  qed simp
  then have "real_of_int (int (length xs) * lo) \<le> real_of_int (sum_list xs)"
    and "real_of_int (sum_list xs) \<le> real_of_int (int (length xs) * hi)"
    by (simp_all only: of_int_le_iff)
  then show ?thesis using assms(1) by (simp add: field_simps)
qed

section \<open>Percentiles\<close>

definition percentile_index :: "nat \<Rightarrow> nat \<Rightarrow> nat" where
  "percentile_index n p =
     (let idx0 = max (\<lceil>real p / 100 * real n\<rceil> - 1) 0
      in if idx0 \<ge> int n then n - 1 else nat idx0)"

lemma percentile_nth: "data \<noteq> [] \<Longrightarrow> percentile data p = sort data ! percentile_index (length data) p"
  by (simp add: percentile_def percentile_index_def Let_def)

lemma percentile_index_less: "0 < n \<Longrightarrow> percentile_index n p < n"
  by (simp add: percentile_index_def Let_def) linarith

lemma percentile_index_enough:
  "0 < n \<Longrightarrow> p \<le> 100 \<Longrightarrow> real p / 100 * real n \<le> real (percentile_index n p + 1)"
proof -
  assume n: "0 < n" and p: "p \<le> 100"
  define x where "x = real p / 100 * real n"
  have "x \<le> real n"
    using p unfolding x_def by (intro mult_left_le_one_le) auto
  moreover have "x \<le> real_of_int \<lceil>x\<rceil>" by (rule le_of_int_ceiling)
  ultimately show ?thesis using n
    unfolding percentile_index_def x_def [symmetric] Let_def max_def
    by (auto simp: of_nat_nat)
qed

lemma percentile_in: "data \<noteq> [] \<Longrightarrow> percentile data p \<in> set data"
  using nth_mem [of "percentile_index (length data) p" "sort data"]
    percentile_index_less [of "length data" p]
  by (simp add: percentile_nth)

lemma count_le_nth_sorted:
  assumes "sorted xs" and "k < length xs"
  shows "Suc k \<le> length (filter (\<lambda>x. x \<le> xs ! k) xs)"
proof -
  have "filter (\<lambda>x. x \<le> xs ! k) (take (Suc k) xs) = take (Suc k) xs"
    using assms by (auto simp: filter_id_conv in_set_conv_nth sorted_nth_mono)
  then have "length (filter (\<lambda>x. x \<le> xs ! k) (take (Suc k) xs @ drop (Suc k) xs)) \<ge> Suc k"
    using assms(2) by (simp only: filter_append length_append) simp
  then show ?thesis by simp
qed

lemma percentile_rank:
  assumes "data \<noteq> []" and "p \<le> 100"
  shows "real p / 100 * real (length data) \<le> real (length (filter (\<lambda>x. x \<le> percentile data p) data))"
proof -
  let ?k = "percentile_index (length data) p" and ?P = "\<lambda>x. x \<le> percentile data p"
  have "Suc ?k \<le> length (filter ?P (sort data))"
    using count_le_nth_sorted [of "sort data" ?k] percentile_index_less [of "length data" p] assms(1)
    by (simp add: percentile_nth)
  also have "\<dots> = length (filter ?P data)"
    by (metis mset_filter mset_sort size_mset)
  finally have "real (?k + 1) \<le> real (length (filter ?P data))" by simp
  moreover have "real p / 100 * real (length data) \<le> real (?k + 1)"
    using assms by (intro percentile_index_enough) simp_all
  ultimately show ?thesis by (rule order_trans [rotated])
qed

section \<open>The metrics of a node\<close>

lemma metrics_of_events_counts:
  fixes nid :: node_id and es :: "event list"
  assumes "es \<noteq> []"
  defines "m \<equiv> metrics_of_events nid es"
  shows "nm_NodeID m = nid" "nm_TotalEvents m = int (length es)"
    "nm_Successes m = cnt success_types es" "nm_Failures m = cnt failure_types es"
    "nm_Timeouts m = cnt {EventRelayTimeout} es" "nm_Reroutes m = cnt {EventReroute} es"
    "nm_CircuitOpens m = cnt {EventCircuitOpen} es"
    "nm_FailureRate m = real_of_int (cnt failure_types es) / real (length es)"
    "nm_Uptime m = 1 - nm_FailureRate m"
    "nm_AvgLatencyMs m = (if lats es = [] then 0
       else real_of_int (sum_list (lats es)) / real (length (lats es)))"
    "nm_P95LatencyMs m = (if lats es = [] then 0 else percentile (lats es) 95)"
    "nm_MinLatencyMs m = (if lats es = [] then 0 else foldl min max_int64 (lats es))"
    "nm_MaxLatencyMs m = foldl max 0 (lats es)"
    "nm_AvgBytesPerOp m = (if cnt success_types es > 0
       then real_of_int (sum_list (map ev_DataBytes es)) / real_of_int (cnt success_types es) else 0)"
  using assms(1) unfolding m_def metrics_of_events_def metrics_fold
  by (simp_all add: metrics_init_def Let_def)

lemma cnt_partition:
  "cnt success_types es + cnt failure_types es + cnt {EventReroute} es + cnt {EventCircuitOpen} es
     = int (length es)"
proof (induction es)
  case (Cons e es)
  then show ?case by (cases "ev_Type e") auto
qed simp

lemma cnt_mono: "T \<subseteq> U \<Longrightarrow> cnt T es \<le> cnt U es"
  by (induction es) auto

lemma metrics_Some:
  "metrics now nid c = Some m \<longleftrightarrow> fresh_events now c nid \<noteq> [] \<and> m = metrics_of_events nid (fresh_events now c nid)"
  by (auto simp: metrics_def Let_def fresh_events_def)

lemma failure_rate_range: "0 \<le> real_of_int (cnt T es) / real (length es)
    \<and> real_of_int (cnt T es) / real (length es) \<le> 1"
proof -
  have "cnt T es \<le> int (length es)" by (simp add: cnt_def)
  then have "real_of_int (cnt T es) \<le> real (length es)" by linarith
  then show ?thesis by (cases "es = []") (auto simp: divide_le_eq_1)
qed

section \<open>Logs and pruning\<close>

lemma prune_loop_start:
  "n = i + length es \<Longrightarrow> es \<noteq> [] \<Longrightarrow>
   prune_loop cutoff n i start es = i + length (takeWhile (\<lambda>e. \<not> ev_Timestamp e > cutoff) es)"
proof (induction es arbitrary: i start)
  case (Cons e es)
  show ?case
  proof (cases "es = []")
    case True
    then show ?thesis using Cons.prems by simp
  next
    case False
    then show ?thesis using Cons.prems Cons.IH [of "i + 1"] by simp
  qed
qed simp

lemma prune_log_eq:
  "prune_log cutoff evts =
     (let rest = dropWhile (\<lambda>e. \<not> ev_Timestamp e > cutoff) evts
      in if rest = [] then None else Some rest)"
proof (cases "evts = []")
  case True
  then show ?thesis by (simp add: prune_log_def)
next
  case False
  let ?P = "\<lambda>e. \<not> ev_Timestamp e > cutoff"
  have start: "prune_loop cutoff (length evts) 0 0 evts = length (takeWhile ?P evts)"
    using prune_loop_start [of "length evts" 0 evts cutoff 0] False by simp
  have split: "length (takeWhile ?P evts) + length (dropWhile ?P evts) = length evts"
    by (metis length_append takeWhile_dropWhile_id)
  have "length (takeWhile ?P evts) = 0 \<Longrightarrow> dropWhile ?P evts = evts"
    by (metis length_0_conv append_Nil takeWhile_dropWhile_id)
  then show ?thesis using split
    by (auto simp: prune_log_def start Let_def dropWhile_eq_drop)
qed

lemma filter_dropWhile_stale:
  "cutoff \<le> cutoff' \<Longrightarrow>
   filter (\<lambda>e. ev_Timestamp e > cutoff') (dropWhile (\<lambda>e. \<not> ev_Timestamp e > cutoff) es) =
   filter (\<lambda>e. ev_Timestamp e > cutoff') es"
  by (induction es) auto

lemma fresh_prune:
  assumes "t \<le> now"
  shows "fresh_events now (prune t c) nid = fresh_events now c nid"
proof (cases "co_events c nid")
  case None
  then show ?thesis by (simp add: fresh_events_def events_of_def prune_def)
next
  case (Some es)
  define rest where "rest = dropWhile (\<lambda>e. \<not> ev_Timestamp e > t - co_window c) es"
  have eq: "filter (\<lambda>e. ev_Timestamp e > now - co_window c) es =
      filter (\<lambda>e. ev_Timestamp e > now - co_window c) rest"
    unfolding rest_def using assms by (intro filter_dropWhile_stale [symmetric]) simp
  have "prune_log (t - co_window c) es = (if rest = [] then None else Some rest)"
    unfolding prune_log_eq rest_def Let_def ..
  then show ?thesis using Some
    by (simp add: fresh_events_def events_of_def prune_def eq)
qed

definition stamped :: "time \<Rightarrow> event \<Rightarrow> event" where
  "stamped now e = (if ev_Timestamp e = 0 then e\<lparr>ev_Timestamp := now\<rparr> else e)"

definition last_n :: "nat \<Rightarrow> 'a list \<Rightarrow> 'a list" where
  "last_n n xs = drop (length xs - n) xs"

lemma last_n_snoc: "0 < n \<Longrightarrow> last_n n (last_n n xs @ [x]) = last_n n (xs @ [x])"
proof (cases "n \<le> length xs")
  case True
  assume "0 < n"
  then show ?thesis using True by (auto simp: last_n_def Suc_diff_le)
next
  case False
  then show ?thesis by (simp add: last_n_def)
qed

lemma co_record_eq:
  "co_record now e c =
     (if ev_NodeID e = '''' then c
      else c\<lparr>co_events := (co_events c)(ev_NodeID e \<mapsto>
             last_n (co_maxPer c) (events_of c (ev_NodeID e) @ [stamped now e]))\<rparr>)"
proof -
  have trim: "(if length xs > n then drop (length xs - n) xs else xs) = last_n n xs"
    for n and xs :: "event list"
    by (simp add: last_n_def)
  have node: "ev_NodeID (stamped now e) = ev_NodeID e" by (simp add: stamped_def)
  show ?thesis
    unfolding co_record_def stamped_def [symmetric] Let_def by (simp only: trim node)
qed

lemma co_record_log:
  "events_of (co_record now e c) nid =
     (if ev_NodeID e \<noteq> '''' \<and> nid = ev_NodeID e
      then last_n (co_maxPer c) (events_of c nid @ [stamped now e]) else events_of c nid)"
  by (auto simp: co_record_eq events_of_def)

lemma co_record_config [simp]:
  "co_maxPer (co_record now e c) = co_maxPer c" "co_window (co_record now e c) = co_window c"
  by (simp_all add: co_record_def Let_def)

definition record_all :: "(time \<times> event) list \<Rightarrow> collector \<Rightarrow> collector" where
  "record_all hs c = foldl (\<lambda>c (now, e). co_record now e c) c hs"

definition history_of :: "node_id \<Rightarrow> (time \<times> event) list \<Rightarrow> event list" where
  "history_of nid hs = map (\<lambda>(now, e). stamped now e) (filter (\<lambda>(_, e). ev_NodeID e = nid) hs)"

lemma record_all_log:
  assumes "0 < co_maxPer c" and "nid \<noteq> ''''" and "events_of c nid = []"
  shows "events_of (record_all hs c) nid = last_n (co_maxPer c) (history_of nid hs)"
proof (induction hs rule: rev_induct)
  case Nil
  then show ?case using assms(3) by (simp add: record_all_def history_of_def last_n_def)
next
  case (snoc h hs)
  have cfg: "co_maxPer (record_all hs c) = co_maxPer c"
    by (induction hs rule: rev_induct) (auto simp: record_all_def)
  obtain now e where h: "h = (now, e)" by (cases h)
  have "record_all (hs @ [h]) c = co_record now e (record_all hs c)"
    by (simp add: record_all_def h)
  then show ?case using snoc assms(1,2)
    by (auto simp: co_record_log cfg h history_of_def last_n_snoc)
qed

section \<open>Properties\<close>

text \<open>
  however events of many nodes are interleaved, the log of a node is the last ten thousand
  events recorded for it, in order, with missing timestamps filled in; events without a node
  id are dropped.
\<close>

theorem log_is_recent_history:
  "events_of (record_all hs (new_collector w)) nid =
     (if nid = '''' then [] else last_n 10000 (history_of nid hs))"
proof (cases "nid = ''''")
  case True
  have "events_of (record_all hs (new_collector w)) '''' = []"
  proof (induction hs rule: rev_induct)
    case (snoc h hs)
    obtain now e where "h = (now, e)" by (cases h)
    with snoc show ?case by (auto simp: record_all_def co_record_log)
  qed (simp add: record_all_def events_of_def new_collector_def)
  then show ?thesis using True by simp
next
  case False
  then show ?thesis
    using record_all_log [of "new_collector w" nid hs]
    by (simp add: new_collector_def events_of_def)
qed

text \<open>
  pruning cannot be observed: the metrics of every node, at the time of the sweep or at any
  later time, are those of the collector that was not pruned, whatever the order of the
  timestamps in its logs.
\<close>

theorem prune_keeps_metrics:
  assumes "t \<le> now"
  shows "metrics now nid (prune t c) = metrics now nid c
    \<and> all_metrics now (prune t c) nid = all_metrics now c nid"
proof -
  have m: "metrics now nid c' =
      (if fresh_events now c' nid = [] then None else Some (metrics_of_events nid (fresh_events now c' nid)))"
    for c' by (auto simp: metrics_def Let_def fresh_events_def)
  have none: "co_events c' nid = None \<Longrightarrow> fresh_events now c' nid = []" for c'
    by (simp add: fresh_events_def events_of_def)
  have "metrics now nid (prune t c) = metrics now nid c"
    by (simp add: m fresh_prune [OF assms])
  then show ?thesis
    using m none by (auto simp: all_metrics_def)
qed

theorem prune_keeps_metrics_witness:
  "metrics 100 ''n'' (prune 90 (record_relay 1 ''n'' True 5 10 (new_collector 20))) = None"
proof -
  have "metrics 100 ''n'' (record_relay 1 ''n'' True 5 10 (new_collector 20)) = None"
    by (simp add: metrics_def events_of_def record_relay_def co_record_def new_collector_def
        fresh_events_def)
  then show ?thesis
    using prune_keeps_metrics [of 90 100 "''n''" "record_relay 1 ''n'' True 5 10 (new_collector 20)"]
    by simp
qed

text \<open>
  the metrics of a node account for every event of the window exactly once; rates are
  between 0 and 1; uptime is one minus the failure rate; and when latencies were observed,
  minimum, mean and 95th percentile are ordered and bounded by the maximum, and at least 95
  percent of the observed latencies are at most the percentile.
\<close>

theorem metrics_accounting:
  assumes "metrics now nid c = Some m" and "\<forall>e \<in> set (events_of c nid). in_int64 (ev_LatencyMs e)"
  shows "nm_Successes m + nm_Failures m + nm_Reroutes m + nm_CircuitOpens m = nm_TotalEvents m
    \<and> 0 < nm_TotalEvents m \<and> nm_Timeouts m \<le> nm_Failures m
    \<and> 0 \<le> nm_FailureRate m \<and> nm_FailureRate m \<le> 1 \<and> nm_Uptime m = 1 - nm_FailureRate m
    \<and> real_of_int (nm_MinLatencyMs m) \<le> nm_AvgLatencyMs m
    \<and> nm_AvgLatencyMs m \<le> real_of_int (nm_MaxLatencyMs m)
    \<and> nm_MinLatencyMs m \<le> nm_P95LatencyMs m \<and> nm_P95LatencyMs m \<le> nm_MaxLatencyMs m
    \<and> 95 / 100 * real (length (lats (fresh_events now c nid)))
        \<le> real (length (filter (\<lambda>l. l \<le> nm_P95LatencyMs m) (lats (fresh_events now c nid))))"
proof -
  let ?es = "fresh_events now c nid"
  have ne: "?es \<noteq> []" and m: "m = metrics_of_events nid ?es"
    using assms(1) by (auto simp: metrics_Some)
  note f = metrics_of_events_counts [OF ne, of nid, folded m]
  have lat_max: "foldl min max_int64 (lats ?es) \<le> l \<and> l \<le> foldl max 0 (lats ?es)" if "l \<in> set (lats ?es)" for l
    using foldl_min_le [OF that] foldl_max_ge [OF that] by blast
  have lat: "real_of_int (nm_MinLatencyMs m) \<le> nm_AvgLatencyMs m
      \<and> nm_AvgLatencyMs m \<le> real_of_int (nm_MaxLatencyMs m)
      \<and> nm_MinLatencyMs m \<le> nm_P95LatencyMs m \<and> nm_P95LatencyMs m \<le> nm_MaxLatencyMs m"
  proof (cases "lats ?es = []")
    case True
    then show ?thesis by (simp add: f)
  next
    case False
    have "percentile (lats ?es) 95 \<in> set (lats ?es)" by (rule percentile_in [OF False])
    moreover have "real_of_int (foldl min max_int64 (lats ?es)) \<le>
        real_of_int (sum_list (lats ?es)) / real (length (lats ?es)) \<and>
        real_of_int (sum_list (lats ?es)) / real (length (lats ?es)) \<le>
        real_of_int (foldl max 0 (lats ?es))"
      using lat_max by (intro mean_bounds [OF False]) blast+
    ultimately show ?thesis using False lat_max by (simp add: f)
  qed
  have "95 / 100 * real (length (lats ?es))
      \<le> real (length (filter (\<lambda>l. l \<le> nm_P95LatencyMs m) (lats ?es)))"
    using percentile_rank [of "lats ?es" 95] by (cases "lats ?es = []") (simp_all add: f)
  moreover have "cnt {EventRelayTimeout} ?es \<le> cnt failure_types ?es" by (rule cnt_mono) simp
  ultimately show ?thesis
    using lat ne cnt_partition [of ?es] failure_rate_range [of failure_types ?es] by (simp add: f)
qed

theorem metrics_accounting_witness:
  "\<exists>m. metrics 10 ''n'' (record_ping 2 ''n'' 7 False (record_relay 1 ''n'' True 5 10 (new_collector 20))) = Some m
    \<and> nm_Successes m + nm_Failures m + nm_Reroutes m + nm_CircuitOpens m = nm_TotalEvents m"
proof -
  let ?c = "record_ping 2 ''n'' 7 False (record_relay 1 ''n'' True 5 10 (new_collector 20))"
  have es: "events_of ?c ''n'' =
      [\<lparr>ev_NodeID = ''n'', ev_Type = EventRelaySuccess, ev_LatencyMs = 5, ev_DataBytes = 10, ev_Timestamp = 1\<rparr>,
       \<lparr>ev_NodeID = ''n'', ev_Type = EventPingFailure, ev_LatencyMs = 7, ev_DataBytes = 0, ev_Timestamp = 2\<rparr>]"
    by (simp add: events_of_def record_relay_def record_ping_def co_record_def new_collector_def)
  have w: "co_window ?c = 20" by (simp add: record_relay_def record_ping_def new_collector_def)
  obtain m where m: "metrics 10 ''n'' ?c = Some m"
    by (simp add: metrics_def es fresh_events_def w)
  have "\<forall>e \<in> set (events_of ?c ''n''). in_int64 (ev_LatencyMs e)"
    by (simp add: es in_int64_def)
  from metrics_accounting [OF m this] m show ?thesis by blast
qed

end
