(* ===== verification/Scorer.thy ===== *)
theory Scorer
  imports Collector
begin

text \<open>
  Node scoring of \<open>internal/intelligence/scorer.go\<close> and the adapters of \<open>adapter.go\<close> and
  \<open>mladapter.go\<close> (the ML service is a parameter). The printed reason of a score is kept as
  the data it is printed from. \<open>float64\<close> is the reals, \<open>math.Log2\<close> is \<open>log 2\<close>.
\<close>

section \<open>The code\<close>

record scorer_weights =
  sw_Uptime :: real
  sw_Latency :: real
  sw_Throughput :: real
  sw_Stability :: real

definition default_weights :: scorer_weights where
  "default_weights =
     \<lparr>sw_Uptime = 40/100, sw_Latency = 30/100, sw_Throughput = 15/100, sw_Stability = 15/100\<rparr>"

record scorer =
  sc_weights :: scorer_weights
  sc_minEvents :: int64
  sc_maxLatencyMs :: real

definition new_scorer :: "scorer_weights \<Rightarrow> scorer" where
  "new_scorer w = \<lparr>sc_weights = w, sc_minEvents = 50, sc_maxLatencyMs = 5000\<rparr>"

datatype reason =
    ReasonEmptyRoute
  | ReasonRoute nat nat \<comment> \<open>hops, unknown nodes\<close>
  | ReasonNoData
  | ReasonMetrics real real real \<comment> \<open>uptime, latency, failure percentage\<close>

record score_result =
  sr_NodeID :: node_id
  sr_Score :: real
  sr_Confidence :: real
  sr_Reason :: reason

definition latency_score :: "scorer \<Rightarrow> node_metrics \<Rightarrow> real" where
  "latency_score s m =
     (if nm_AvgLatencyMs m > 0 then 1 - min (nm_AvgLatencyMs m / sc_maxLatencyMs s) 1 else 1)"

definition throughput_score :: "node_metrics \<Rightarrow> real" where
  "throughput_score m =
     (if nm_AvgBytesPerOp m > 0 then min (log 2 (nm_AvgBytesPerOp m / 1024 + 1) / 10) 1 else 1/2)"

definition stability_score :: "node_metrics \<Rightarrow> real" where
  "stability_score m =
     (if nm_TotalEvents m > 0
      then 1 - min (real_of_int (nm_Reroutes m + nm_CircuitOpens m) / real_of_int (nm_TotalEvents m) * 5) 1
      else 1)"

definition weighted_sum :: "scorer \<Rightarrow> node_metrics \<Rightarrow> real" where
  "weighted_sum s m =
     sw_Uptime (sc_weights s) * nm_Uptime m +
     sw_Latency (sc_weights s) * latency_score s m +
     sw_Throughput (sc_weights s) * throughput_score m +
     sw_Stability (sc_weights s) * stability_score m"

definition score_from_metrics :: "scorer \<Rightarrow> node_metrics \<Rightarrow> score_result" where
  "score_from_metrics s m =
     \<lparr>sr_NodeID = nm_NodeID m,
      sr_Score = max 0 (min (weighted_sum s m) 1),
      sr_Confidence = min (real_of_int (nm_TotalEvents m) / real_of_int (sc_minEvents s)) 1,
      sr_Reason = ReasonMetrics (nm_Uptime m) (nm_AvgLatencyMs m) (nm_FailureRate m * 100)\<rparr>"

definition score :: "time \<Rightarrow> collector \<Rightarrow> scorer \<Rightarrow> node_id \<Rightarrow> score_result option" where
  "score now c s nid = map_option (score_from_metrics s) (metrics now nid c)"

definition score_all :: "time \<Rightarrow> collector \<Rightarrow> scorer \<Rightarrow> node_id \<Rightarrow> score_result option" where
  "score_all now c s nid = map_option (score_from_metrics s) (all_metrics now c nid)"

text \<open>The loop of \<open>ScoreRoute\<close>: route score, least confidence, unknown nodes.\<close>

definition route_step ::
  "(node_id \<Rightarrow> score_result option) \<Rightarrow> real \<times> real \<times> nat \<Rightarrow> node_id \<Rightarrow> real \<times> real \<times> nat" where
  "route_step sc st nid =
     (let (routeScore, minConfidence, unknown) = st
      in case sc nid of
           None \<Rightarrow> (routeScore * (1/2), 0, unknown + 1)
         | Some ns \<Rightarrow>
             (routeScore * sr_Score ns,
              (if sr_Confidence ns < minConfidence then sr_Confidence ns else minConfidence),
              unknown))"

definition score_route :: "(node_id \<Rightarrow> score_result option) \<Rightarrow> node_id list \<Rightarrow> score_result" where
  "score_route sc nodeIDs =
     (if nodeIDs = []
      then \<lparr>sr_NodeID = '''', sr_Score = 0, sr_Confidence = 0, sr_Reason = ReasonEmptyRoute\<rparr>
      else let (routeScore, minConfidence, unknown) = foldl (route_step sc) (1, 1, 0) nodeIDs
           in \<lparr>sr_NodeID = '''', sr_Score = routeScore, sr_Confidence = minConfidence,
               sr_Reason = ReasonRoute (length nodeIDs) unknown\<rparr>)"

text \<open>\<open>RankNodes\<close>: the inner loop moves element \<open>j\<close> to the left past smaller scores by
  swapping neighbours; the outer loop does so for \<open>i = 1, 2, \<dots>\<close>.\<close>

fun sift_down :: "nat \<Rightarrow> score_result list \<Rightarrow> score_result list" where
  "sift_down 0 rs = rs"
| "sift_down (Suc j) rs =
     (if sr_Score (rs ! Suc j) > sr_Score (rs ! j)
      then sift_down j (rs[Suc j := rs ! j, j := rs ! Suc j])
      else rs)"

definition sort_results :: "score_result list \<Rightarrow> score_result list" where
  "sort_results rs = foldl (\<lambda>rs i. sift_down i rs) rs [1..<length rs]"

definition rank_entry :: "(node_id \<Rightarrow> score_result option) \<Rightarrow> node_id \<Rightarrow> score_result" where
  "rank_entry sc nid =
     (case sc nid of
        None \<Rightarrow> \<lparr>sr_NodeID = nid, sr_Score = 1/2, sr_Confidence = 0, sr_Reason = ReasonNoData\<rparr>
      | Some sr \<Rightarrow> sr)"

definition rank_nodes :: "(node_id \<Rightarrow> score_result option) \<Rightarrow> node_id list \<Rightarrow> score_result list" where
  "rank_nodes sc nodeIDs = sort_results (map (rank_entry sc) nodeIDs)"

text \<open>The adapters used by the routing service: a score and whether there is one.\<close>

definition adapter_score_node :: "(node_id \<Rightarrow> score_result option) \<Rightarrow> node_id \<Rightarrow> real \<times> bool" where
  "adapter_score_node sc nid =
     (case sc nid of None \<Rightarrow> (0, False) | Some sr \<Rightarrow> (sr_Score sr, True))"

definition ml_adapter_score_node ::
  "(node_metrics \<Rightarrow> real option) \<Rightarrow> time \<Rightarrow> collector \<Rightarrow> scorer \<Rightarrow> node_id \<Rightarrow> real \<times> bool" where
  "ml_adapter_score_node ml now c s nid =
     (case metrics now nid c of
        None \<Rightarrow> (0, False)
      | Some m \<Rightarrow>
          (case ml m of
             None \<Rightarrow> adapter_score_node (score now c s) nid
           | Some sc \<Rightarrow> (sc, True)))"

section \<open>Sub-scores stay between 0 and 1\<close>

lemma latency_score_range: "0 < sc_maxLatencyMs s \<Longrightarrow> 0 \<le> latency_score s m \<and> latency_score s m \<le> 1"
  by (auto simp: latency_score_def min_def)

lemma throughput_score_range: "0 \<le> throughput_score m \<and> throughput_score m \<le> 1"
proof -
  have "0 \<le> log 2 (nm_AvgBytesPerOp m / 1024 + 1)" if "nm_AvgBytesPerOp m > 0"
    using that by (subst zero_le_log_cancel_iff) auto
  then show ?thesis by (auto simp: throughput_score_def min_def)
qed

lemma stability_score_range:
  "0 \<le> nm_Reroutes m \<Longrightarrow> 0 \<le> nm_CircuitOpens m \<Longrightarrow> 0 \<le> stability_score m \<and> stability_score m \<le> 1"
  by (auto simp: stability_score_def min_def intro!: mult_nonneg_nonneg divide_nonneg_nonneg)

lemma metrics_counts_nonneg:
  "metrics now nid c = Some m \<Longrightarrow>
     0 \<le> nm_Reroutes m \<and> 0 \<le> nm_CircuitOpens m \<and> 0 \<le> nm_Uptime m \<and> nm_Uptime m \<le> 1 \<and> nm_NodeID m = nid"
  using failure_rate_range [of failure_types "fresh_events now c nid"]
  by (auto simp: metrics_Some metrics_of_events_counts)

lemma convex_weights:
  fixes a b c d :: real
  assumes "0 \<le> a" "a \<le> 1" "0 \<le> b" "b \<le> 1" "0 \<le> c" "c \<le> 1" "0 \<le> d" "d \<le> 1"
  shows "0 \<le> 40/100 * a + 30/100 * b + 15/100 * c + 15/100 * d
    \<and> 40/100 * a + 30/100 * b + 15/100 * c + 15/100 * d \<le> 1"
  using assms by auto

lemma weighted_sum_range:
  assumes "metrics now nid c = Some m"
  shows "0 \<le> weighted_sum (new_scorer default_weights) m
    \<and> weighted_sum (new_scorer default_weights) m \<le> 1"
  using convex_weights [of "nm_Uptime m" "latency_score (new_scorer default_weights) m"
      "throughput_score m" "stability_score m"] metrics_counts_nonneg [OF assms]
    latency_score_range [of "new_scorer default_weights" m] throughput_score_range [of m]
    stability_score_range [of m]
  by (simp add: weighted_sum_def new_scorer_def default_weights_def)

section \<open>Routes\<close>

lemma route_fold:
  "foldl (route_step sc) (r, k, u) ids =
     (r * prod_list (map (\<lambda>n. case sc n of None \<Rightarrow> 1/2 | Some ns \<Rightarrow> sr_Score ns) ids),
      foldl (\<lambda>k n. case sc n of None \<Rightarrow> 0 | Some ns \<Rightarrow> min (sr_Confidence ns) k) k ids,
      u + length (filter (\<lambda>n. sc n = None) ids))"
proof (induction ids arbitrary: r k u)
  case (Cons n ids)
  then show ?case by (cases "sc n") (auto simp: route_step_def min_def Let_def mult.assoc)
qed simp

section \<open>The sorting loop\<close>

text \<open>Where the element lands: in front of the longest run of smaller scores on its left.\<close>

definition land :: "score_result \<Rightarrow> score_result list \<Rightarrow> score_result list" where
  "land x ys = rev (dropWhile (\<lambda>y. sr_Score y < sr_Score x) (rev ys)) @
     x # rev (takeWhile (\<lambda>y. sr_Score y < sr_Score x) (rev ys))"

lemma land_snoc:
  "land x (ys @ [y]) = (if sr_Score y < sr_Score x then land x ys @ [y] else ys @ [y, x])"
  by (simp add: land_def)

lemma sift_down_land:
  "j < length rs \<Longrightarrow> sift_down j rs = land (rs ! j) (take j rs) @ drop (Suc j) rs"
proof (induction j arbitrary: rs)
  case 0
  then show ?case by (cases rs) (simp_all add: land_def)
next
  case (Suc j)
  have j: "j < length rs" using Suc.prems by simp
  have tk: "take (Suc j) rs = take j rs @ [rs ! j]" using j by (rule take_Suc_conv_app_nth)
  let ?rs = "rs[Suc j := rs ! j, j := rs ! Suc j]"
  show ?case
  proof (cases "sr_Score (rs ! Suc j) > sr_Score (rs ! j)")
    case True
    have "drop (Suc j) ?rs = rs ! j # drop (Suc (Suc j)) rs"
      using Suc.prems by (simp add: drop_update_swap Cons_nth_drop_Suc [symmetric])
    then show ?thesis using True Suc.IH [of ?rs] Suc.prems
      by (simp add: tk land_snoc)
  next
    case False
    have "rs = take (Suc (Suc j)) rs @ drop (Suc (Suc j)) rs" by simp
    then show ?thesis using False Suc.prems
      by (simp add: tk land_snoc take_Suc_conv_app_nth)
  qed
qed

abbreviation rank_key :: "score_result \<Rightarrow> real" where
  "rank_key r \<equiv> - sr_Score r"

lemma land_split:
  assumes "sorted (map rank_key ys)"
  obtains A B where "ys = A @ B" "land x ys = A @ x # B"
    "\<forall>a\<in>set A. sr_Score x \<le> sr_Score a" "\<forall>b\<in>set B. sr_Score b < sr_Score x"
proof -
  let ?P = "\<lambda>y. sr_Score y < sr_Score x"
  let ?A = "rev (dropWhile ?P (rev ys))" and ?B = "rev (takeWhile ?P (rev ys))"
  have ys: "ys = ?A @ ?B" by (metis rev_append rev_rev_ident takeWhile_dropWhile_id)
  have srt: "sorted (map rank_key ?A)" using assms by (subst (asm) ys) (simp add: sorted_append)
  have "\<forall>a\<in>set ?A. sr_Score x \<le> sr_Score a"
  proof (cases "dropWhile ?P (rev ys)")
    case Nil
    show ?thesis unfolding Nil by simp
  next
    case (Cons z zs)
    have "sr_Score x \<le> sr_Score z"
      using Cons hd_dropWhile [of ?P "rev ys"] by simp
    then show ?thesis using srt unfolding Cons by (auto simp: sorted_append)
  qed
  moreover have "\<forall>b\<in>set ?B. sr_Score b < sr_Score x" by (auto dest: set_takeWhileD)
  moreover have "land x ys = ?A @ x # ?B" by (rule land_def)
  ultimately show thesis using ys by (intro that [of ?A ?B])
qed

lemma land_sort:
  "land x (sort_key rank_key xs) = sort_key rank_key (xs @ [x])"
proof -
  obtain A B where AB: "sort_key rank_key xs = A @ B" "land x (sort_key rank_key xs) = A @ x # B"
    "\<forall>a\<in>set A. sr_Score x \<le> sr_Score a" "\<forall>b\<in>set B. sr_Score b < sr_Score x"
    by (rule land_split [of "sort_key rank_key xs" x]) simp_all
  have "mset (sort_key rank_key xs) = mset (A @ B)" by (simp only: AB(1))
  then have ms: "mset xs = mset A + mset B" by simp
  have srt: "sorted (map rank_key (A @ B))" unfolding AB(1) [symmetric] by (rule sorted_sort_key)
  have flt: "filter (\<lambda>y. rank_key k = rank_key y) (A @ B) = filter (\<lambda>y. rank_key k = rank_key y) xs" for k
    unfolding AB(1) [symmetric] by (subst (1 2) eq_commute) (rule sort_key_stable)
  have none: "filter (\<lambda>y. rank_key x = rank_key y) B = []" using AB(4) by (auto simp: filter_empty_conv)
  have "sort_key rank_key (xs @ [x]) = A @ x # B"
  proof (rule properties_for_sort_key)
    show "mset (A @ x # B) = mset (xs @ [x])" using ms by simp
    show "sorted (map rank_key (A @ x # B))"
      using srt AB(3,4) by (auto simp: sorted_append less_imp_le)
    fix k
    have "filter (\<lambda>y. rank_key k = rank_key y) B = []" if "rank_key k = rank_key x"
      using none that by simp
    then show "filter (\<lambda>y. rank_key k = rank_key y) (A @ x # B) = filter (\<lambda>y. rank_key k = rank_key y) (xs @ [x])"
      using flt [of k] by (cases "rank_key k = rank_key x") simp_all
  qed
  then show ?thesis using AB(2) by simp
qed

lemma sort_results_prefix:
  "k < length rs \<Longrightarrow>
     foldl (\<lambda>rs i. sift_down i rs) rs [1..<Suc k] = sort_key rank_key (take (Suc k) rs) @ drop (Suc k) rs"
proof (induction k)
  case 0
  then show ?case by (cases rs) simp_all
next
  case (Suc k)
  let ?s = "sort_key rank_key (take (Suc k) rs)"
  have len: "length ?s = Suc k" using Suc.prems by simp
  have "foldl (\<lambda>rs i. sift_down i rs) rs [1..<Suc (Suc k)] = sift_down (Suc k) (?s @ drop (Suc k) rs)"
    using Suc by simp
  also have "\<dots> = land (rs ! Suc k) ?s @ drop (Suc (Suc k)) rs"
    using Suc.prems len by (subst sift_down_land) (simp_all add: nth_append)
  also have "land (rs ! Suc k) ?s = sort_key rank_key (take (Suc (Suc k)) rs)"
    unfolding land_sort using Suc.prems by (simp add: take_Suc_conv_app_nth)
  finally show ?case .
qed

lemma sort_results_sort: "sort_results rs = sort_key rank_key rs"
proof (cases "length rs")
  case 0
  then show ?thesis by (simp add: sort_results_def)
next
  case (Suc k)
  then show ?thesis using sort_results_prefix [of k rs] by (simp add: sort_results_def)
qed

lemma route_score_le:
  assumes "\<forall>n\<in>set xs. 0 \<le> f n \<and> f n \<le> (1::real)"
  shows "0 \<le> prod_list (map f xs) \<and> prod_list (map f xs) \<le> 1"
  using assms by (induction xs) (auto intro: mult_le_one)

lemma confidence_fold_le:
  "\<forall>n\<in>set xs. \<forall>ns. sc n = Some ns \<longrightarrow> 0 \<le> sr_Confidence ns \<Longrightarrow> 0 \<le> k \<Longrightarrow>
     foldl (\<lambda>k n. case sc n of None \<Rightarrow> 0 | Some ns \<Rightarrow> min (sr_Confidence ns) k) k xs \<le> k
     \<and> 0 \<le> foldl (\<lambda>k n. case sc n of None \<Rightarrow> 0 | Some ns \<Rightarrow> min (sr_Confidence ns) k) k xs"
proof (induction xs arbitrary: k)
  case (Cons n xs)
  let ?k = "case sc n of None \<Rightarrow> 0 | Some ns \<Rightarrow> min (sr_Confidence ns) k"
  have "0 \<le> ?k \<and> ?k \<le> k" using Cons.prems by (auto split: option.splits)
  then show ?case using Cons.IH [of ?k] Cons.prems(1) by simp
qed simp

section \<open>Properties\<close>

text \<open>The two nested swap loops of \<open>RankNodes\<close> are a stable sort by descending score of
  the requested nodes, each with its score or, without data, with score one half and
  confidence 0: nothing is lost or repeated, and nodes with equal scores keep the order
  of the request.\<close>

theorem rank_nodes_stable_sort:
  "rank_nodes sc nodeIDs = sort_key (\<lambda>r. - sr_Score r) (map (rank_entry sc) nodeIDs)"
  by (simp add: rank_nodes_def sort_results_sort)

text \<open>With the default weights the final clamp of \<open>scoreFromMetrics\<close> never changes the
  weighted sum of metrics taken from the collector: every reported score is exactly the
  convex combination of the four sub-scores, and lies in \<open>[0, 1]\<close>.\<close>

theorem score_is_weighted_sum:
  assumes "score now c (new_scorer default_weights) nid = Some r"
  shows "\<exists>m. metrics now nid c = Some m \<and> sr_NodeID r = nid
    \<and> sr_Score r = weighted_sum (new_scorer default_weights) m
    \<and> 0 \<le> sr_Score r \<and> sr_Score r \<le> 1"
proof -
  obtain m where m: "metrics now nid c = Some m"
    and r: "r = score_from_metrics (new_scorer default_weights) m"
    using assms by (auto simp: score_def)
  show ?thesis
    using m r weighted_sum_range [OF m] metrics_counts_nonneg [OF m]
    by (intro exI [of _ m]) (simp add: score_from_metrics_def)
qed

text \<open>The score of a route is the product of its nodes' scores (one half for an unknown
  node), so with scores in \<open>[0, 1]\<close> extending a route never raises its score or its
  confidence.\<close>

theorem longer_routes_score_lower:
  assumes "\<forall>n\<in>set (xs @ ys). \<forall>ns. sc n = Some ns \<longrightarrow> 0 \<le> sr_Score ns \<and> sr_Score ns \<le> 1 \<and> 0 \<le> sr_Confidence ns"
    and "xs \<noteq> []"
  shows "sr_Score (score_route sc (xs @ ys)) \<le> sr_Score (score_route sc xs)
    \<and> sr_Confidence (score_route sc (xs @ ys)) \<le> sr_Confidence (score_route sc xs)"
proof -
  let ?f = "\<lambda>n. case sc n of None \<Rightarrow> 1/2 | Some ns \<Rightarrow> sr_Score ns"
  let ?g = "\<lambda>k n. case sc n of None \<Rightarrow> 0 | Some ns \<Rightarrow> min (sr_Confidence ns) k"
  have f: "\<forall>n\<in>set (xs @ ys). 0 \<le> ?f n \<and> ?f n \<le> 1" using assms(1) by (auto split: option.splits)
  have xs: "0 \<le> prod_list (map ?f xs)" and ys: "prod_list (map ?f ys) \<le> 1"
    using f route_score_le [of xs ?f] route_score_le [of ys ?f] by auto
  have "0 \<le> foldl ?g 1 xs" using assms(1) confidence_fold_le [of xs sc 1] by auto
  then have "foldl ?g (foldl ?g 1 xs) ys \<le> foldl ?g 1 xs"
    using assms(1) confidence_fold_le [of ys sc "foldl ?g 1 xs"] by auto
  then show ?thesis
    using assms(2) mult_left_mono [OF ys xs] by (simp add: score_route_def route_fold)
qed

text \<open>Instances of the properties: one node with ten pings, one reroute among them.\<close>

definition demo_scores :: "node_id \<Rightarrow> score_result option" where
  "demo_scores n =
     (if n = ''a'' then Some \<lparr>sr_NodeID = n, sr_Score = 9/10, sr_Confidence = 1, sr_Reason = ReasonNoData\<rparr>
      else None)"

theorem longer_routes_score_lower_witness:
  "sr_Score (score_route demo_scores ([''a''] @ [''b''])) \<le> sr_Score (score_route demo_scores [''a''])
    \<and> sr_Confidence (score_route demo_scores ([''a''] @ [''b'']))
        \<le> sr_Confidence (score_route demo_scores [''a''])"
  by (rule longer_routes_score_lower) (simp_all add: demo_scores_def)

theorem score_is_weighted_sum_witness:
  "\<exists>r. score 10 (record_ping 1 ''n'' 7 True (new_collector 20)) (new_scorer default_weights) ''n'' = Some r
     \<and> sr_NodeID r = ''n'' \<and> 0 \<le> sr_Score r \<and> sr_Score r \<le> 1"
proof -
  let ?c = "record_ping 1 ''n'' 7 True (new_collector 20)"
  have es: "events_of ?c ''n'' =
      [\<lparr>ev_NodeID = ''n'', ev_Type = EventPingSuccess, ev_LatencyMs = 7, ev_DataBytes = 0, ev_Timestamp = 1\<rparr>]"
    by (simp add: events_of_def record_ping_def co_record_def new_collector_def)
  have w: "co_window ?c = 20" by (simp add: record_ping_def new_collector_def)
  obtain m where "metrics 10 ''n'' ?c = Some m" by (simp add: metrics_def es fresh_events_def w)
  then obtain r where "score 10 ?c (new_scorer default_weights) ''n'' = Some r" by (simp add: score_def)
  then show ?thesis using score_is_weighted_sum [of 10 ?c "''n''" r] by blast
qed

end
