(* ===== verification/Anomaly.thy ===== *)
theory Anomaly
  imports Scorer
begin

text \<open>
  The anomaly detector of \<open>internal/intelligence/anomaly.go\<close> and \<open>AnomalyAdapter\<close> of
  \<open>adapter.go\<close>. The two loops over the metrics map run in an order the runtime picks: each is
  a parameter, a list of the map's keys. \<open>float64\<close> is the reals.
\<close>

section \<open>The code\<close>

datatype alert_type =
    AnomalyLatencySpike | AnomalyHighFailureRate | AnomalyTrafficSpike | AnomalyNodeUnresponsive

record anomaly_alert =
  al_NodeID :: node_id
  al_Type :: alert_type
  al_Severity :: real
  al_Detail :: string
  al_Metric :: string
  al_Value :: real
  al_Threshold :: real
  al_Timestamp :: time

record anomaly_config =
  ac_LatencyZThreshold :: real
  ac_FailureRateThreshold :: real
  ac_TrafficZThreshold :: real
  ac_MinEventsRequired :: int64

definition default_anomaly_config :: anomaly_config where
  "default_anomaly_config =
     \<lparr>ac_LatencyZThreshold = 25/10, ac_FailureRateThreshold = 30/100, ac_TrafficZThreshold = 3,
      ac_MinEventsRequired = 10\<rparr>"

definition mean_std :: "real list \<Rightarrow> real \<times> real" where
  "mean_std xs =
     (if xs = [] then (0, 0)
      else let n = real (length xs);
               mean = foldl (\<lambda>s v. s + v) 0 xs / n;
               variance = foldl (\<lambda>s v. s + (v - mean) * (v - mean)) 0 xs / n
           in (mean, sqrt variance))"

definition clamp :: "real \<Rightarrow> real \<Rightarrow> real \<Rightarrow> real" where
  "clamp v lo hi = max lo (min v hi)"

definition eligible :: "anomaly_config \<Rightarrow> node_metrics \<Rightarrow> bool" where
  "eligible cfg m \<longleftrightarrow> nm_TotalEvents m \<ge> ac_MinEventsRequired cfg"

text \<open>Checks 1 to 4 of the second loop's body, for one node.\<close>

definition node_alerts ::
  "time \<Rightarrow> anomaly_config \<Rightarrow> real \<times> real \<Rightarrow> real \<times> real \<Rightarrow> node_metrics \<Rightarrow> anomaly_alert list" where
  "node_alerts now cfg lat traffic m =
     (let (latMean, latStd) = lat; (trafficMean, trafficStd) = traffic in
      (let z = (nm_AvgLatencyMs m - latMean) / latStd in
       if latStd > 0 \<and> z > ac_LatencyZThreshold cfg
       then [\<lparr>al_NodeID = nm_NodeID m, al_Type = AnomalyLatencySpike, al_Severity = clamp (z / 5) 0 1,
              al_Detail = ''average latency significantly above network mean'', al_Metric = ''avg_latency_ms'',
              al_Value = nm_AvgLatencyMs m,
              al_Threshold = latMean + ac_LatencyZThreshold cfg * latStd,
              al_Timestamp = now\<rparr>] else []) @
      (if nm_FailureRate m > ac_FailureRateThreshold cfg
       then [\<lparr>al_NodeID = nm_NodeID m, al_Type = AnomalyHighFailureRate,
              al_Severity = clamp (nm_FailureRate m) 0 1, al_Detail = ''failure rate exceeds threshold'', al_Metric = ''failure_rate'',
              al_Value = nm_FailureRate m,
              al_Threshold = ac_FailureRateThreshold cfg,
              al_Timestamp = now\<rparr>] else []) @
      (let z = (nm_AvgBytesPerOp m - trafficMean) / trafficStd in
       if trafficStd > 0 \<and> z > ac_TrafficZThreshold cfg
       then [\<lparr>al_NodeID = nm_NodeID m, al_Type = AnomalyTrafficSpike, al_Severity = clamp (z / 5) 0 1,
              al_Detail = ''traffic volume significantly above network mean'', al_Metric = ''avg_bytes_per_op'',
              al_Value = nm_AvgBytesPerOp m,
              al_Threshold = trafficMean + ac_TrafficZThreshold cfg * trafficStd,
              al_Timestamp = now\<rparr>] else []) @
      (if nm_Successes m = 0 \<and> nm_Failures m > 0
       then [\<lparr>al_NodeID = nm_NodeID m, al_Type = AnomalyNodeUnresponsive, al_Severity = 1,
              al_Detail = ''node has zero successful operations in the window'', al_Metric = ''success_count'',
              al_Value = 0, al_Threshold = 1,
              al_Timestamp = now\<rparr>] else []))"

text \<open>\<open>Detect\<close> over the metrics map \<open>M\<close>, its first loop in the order \<open>ks1\<close>, its second in
  the order \<open>ks2\<close>.\<close>

definition map_values :: "(node_id \<Rightarrow> node_metrics option) \<Rightarrow> node_id list \<Rightarrow> node_metrics list" where
  "map_values M ks = List.map_filter M ks"

definition detect ::
  "time \<Rightarrow> anomaly_config \<Rightarrow> (node_id \<Rightarrow> node_metrics option) \<Rightarrow> node_id list \<Rightarrow> node_id list \<Rightarrow> anomaly_alert list" where
  "detect now cfg M ks1 ks2 =
     (if length (map_values M ks1) < 2 then []
      else let ms = filter (eligible cfg) (map_values M ks1);
               lat = mean_std (map nm_AvgLatencyMs ms);
               traffic = mean_std (map nm_AvgBytesPerOp ms)
           in concat (map (node_alerts now cfg lat traffic) (filter (eligible cfg) (map_values M ks2))))"

definition detect_node ::
  "time \<Rightarrow> anomaly_config \<Rightarrow> (node_id \<Rightarrow> node_metrics option) \<Rightarrow> node_id list \<Rightarrow> node_id list \<Rightarrow> node_id \<Rightarrow> anomaly_alert list" where
  "detect_node now cfg M ks1 ks2 nid = filter (\<lambda>a. al_NodeID a = nid) (detect now cfg M ks1 ks2)"

definition is_anomalous ::
  "time \<Rightarrow> anomaly_config \<Rightarrow> (node_id \<Rightarrow> node_metrics option) \<Rightarrow> node_id list \<Rightarrow> node_id list \<Rightarrow> node_id \<Rightarrow> bool" where
  "is_anomalous now cfg M ks1 ks2 nid \<longleftrightarrow> length (detect_node now cfg M ks1 ks2 nid) > 0"

text \<open>The keys of the map, each once: the orders a loop over it can take.\<close>

definition iteration_order :: "(node_id \<Rightarrow> node_metrics option) \<Rightarrow> node_id list \<Rightarrow> bool" where
  "iteration_order M ks \<longleftrightarrow> distinct ks \<and> set ks = dom M"


definition ml_adapter_is_anomalous ::
  "(node_metrics \<Rightarrow> bool option) \<Rightarrow> time \<Rightarrow> collector \<Rightarrow> (node_id \<Rightarrow> bool) \<Rightarrow> node_id \<Rightarrow> bool" where
  "ml_adapter_is_anomalous ml now c local_anomalous nid =
     (case metrics now nid c of
        None \<Rightarrow> False
      | Some m \<Rightarrow> (case ml m of None \<Rightarrow> local_anomalous nid | Some b \<Rightarrow> b))"

section \<open>The spread of a sample bounds its members\<close>

lemma fold_sum: "foldl (\<lambda>s v. s + f v) a xs = a + sum_list (map f xs)" for a :: real
  by (induction xs arbitrary: a) (simp_all add: add.assoc)

lemma mean_std_sum:
  "xs \<noteq> [] \<Longrightarrow> mean_std xs = (sum_list xs / real (length xs),
     sqrt (sum_list (map (\<lambda>v. (v - sum_list xs / real (length xs))\<^sup>2) xs) / real (length xs)))"
  using fold_sum [of "\<lambda>v. v" 0 xs]
  by (simp add: mean_std_def Let_def fold_sum power2_eq_square)

lemma square_of_sum:
  "(sum_list ys)\<^sup>2 \<le> real (length ys) * sum_list (map (\<lambda>y. y\<^sup>2) ys)" for ys :: "real list"
proof (induction ys)
  case (Cons y ys)
  let ?n = "real (length ys)" and ?s = "sum_list ys" and ?q = "sum_list (map (\<lambda>y. y\<^sup>2) ys)"
  have "2 * ?s * y \<le> ?q + ?n * y\<^sup>2"
  proof (cases "ys = []")
    case False
    then have n: "?n > 0" by simp
    have "0 \<le> (?s - ?n * y)\<^sup>2" by simp
    then have "?n * (2 * ?s * y) \<le> ?s\<^sup>2 + ?n * (?n * y\<^sup>2)"
      by (simp add: power2_eq_square algebra_simps)
    also have "\<dots> \<le> ?n * (?q + ?n * y\<^sup>2)" using Cons.IH by (simp add: algebra_simps)
    finally show ?thesis using n by (simp add: mult_le_cancel_left_pos)
  qed simp
  then show ?case using Cons.IH by (simp add: power2_eq_square algebra_simps)
qed simp

lemma sum_list_minus_const: "sum_list (map (\<lambda>v. v - c) xs) = sum_list xs - real (length xs) * c"
  by (induction xs) (simp_all add: algebra_simps)

lemma samuelson:
  assumes "x \<in> set xs" "mean_std xs = (m, sd)"
  shows "(x - m)\<^sup>2 \<le> (real (length xs) - 1) * sd\<^sup>2"
proof -
  obtain as bs where xs: "xs = as @ x # bs" using assms(1) by (metis split_list)
  let ?n = "real (length xs)" and ?q = "\<lambda>zs. sum_list (map (\<lambda>v. (v - m)\<^sup>2) zs)"
  have n: "?n > 0" using xs by simp
  have m: "m = sum_list xs / ?n" and sd: "sd = sqrt (?q xs / ?n)"
    using assms xs mean_std_sum [of xs] by auto
  have "0 \<le> ?q xs" by (intro sum_list_nonneg) auto
  then have sd2: "?n * sd\<^sup>2 = ?q xs" using n sd by simp
  have "sum_list (map (\<lambda>v. v - m) xs) = 0" using n by (simp add: sum_list_minus_const m)
  then have d: "sum_list (map (\<lambda>v. v - m) (as @ bs)) = - (x - m)" by (simp add: xs)
  have "map (\<lambda>y. y\<^sup>2) (map (\<lambda>v. v - m) (as @ bs)) = map (\<lambda>v. (v - m)\<^sup>2) (as @ bs)" by simp
  then have "(- (x - m))\<^sup>2 \<le> real (length (as @ bs)) * ?q (as @ bs)"
    using square_of_sum [of "map (\<lambda>v. v - m) (as @ bs)"] unfolding d by (simp only: length_map)
  moreover have "real (length (as @ bs)) = ?n - 1" by (simp add: xs)
  ultimately have "(x - m)\<^sup>2 \<le> (?n - 1) * ?q (as @ bs)" by (simp only: power2_minus)
  also have "?q (as @ bs) = ?n * sd\<^sup>2 - (x - m)\<^sup>2" unfolding sd2 by (simp add: xs)
  finally have "?n * (x - m)\<^sup>2 \<le> ?n * ((?n - 1) * sd\<^sup>2)" by (simp add: algebra_simps)
  then show ?thesis using n by (simp add: mult_le_cancel_left_pos)
qed

lemma z_score_bound:
  assumes "x \<in> set xs" "mean_std xs = (m, sd)" "sd > 0" "real (length xs) - 1 \<le> k\<^sup>2" "0 \<le> k"
  shows "(x - m) / sd \<le> k"
proof -
  have "(x - m)\<^sup>2 \<le> k\<^sup>2 * sd\<^sup>2"
    using samuelson [OF assms(1,2)] mult_right_mono [OF assms(4) zero_le_power2 [of sd]] by linarith
  then have "(x - m)\<^sup>2 \<le> (k * sd)\<^sup>2" by (simp add: power_mult_distrib)
  moreover have "0 \<le> k * sd" using assms(3,5) by simp
  ultimately have "x - m \<le> k * sd" by (rule power2_le_imp_le)
  then show ?thesis using assms(3) by (simp add: divide_le_eq)
qed

section \<open>The detector does not depend on the iteration order\<close>

lemma map_values_mset:
  assumes "iteration_order M ks" "iteration_order M ks'"
  shows "mset (map_values M ks) = mset (map_values M ks')"
proof -
  have "mset ks = mset ks'" using assms by (metis iteration_order_def set_eq_iff_mset_eq_distinct)
  then show ?thesis by (simp add: map_values_def map_filter_def mset_map mset_filter)
qed

lemma mean_std_mset: "mset xs = mset ys \<Longrightarrow> mean_std xs = mean_std ys"
proof (cases "xs = []")
  case False
  assume e: "mset xs = mset ys"
  have "ys \<noteq> []" using e False by auto
  moreover have "sum_list xs = sum_list ys" using e by (metis sum_mset_sum_list)
  moreover have "length xs = length ys" using e by (rule mset_eq_length)
  moreover have "sum_list (map f xs) = sum_list (map f ys)" for f :: "real \<Rightarrow> real"
    using e by (metis mset_map sum_mset_sum_list)
  ultimately show ?thesis using False by (simp add: mean_std_sum)
qed auto


text \<open>What one node is judged against: the eligible nodes' figures.\<close>

definition network_stats ::
  "anomaly_config \<Rightarrow> (node_id \<Rightarrow> node_metrics option) \<Rightarrow> node_id list \<Rightarrow> (node_metrics \<Rightarrow> real) \<Rightarrow> real \<times> real" where
  "network_stats cfg M ks f = mean_std (map f (filter (eligible cfg) (map_values M ks)))"

lemma detect_stats:
  "detect now cfg M ks1 ks2 =
     (if length (map_values M ks1) < 2 then []
      else concat (map (node_alerts now cfg (network_stats cfg M ks1 nm_AvgLatencyMs)
                          (network_stats cfg M ks1 nm_AvgBytesPerOp))
             (filter (eligible cfg) (map_values M ks2))))"
  by (simp add: detect_def network_stats_def Let_def)

lemma network_stats_order:
  "iteration_order M ks \<Longrightarrow> iteration_order M ks' \<Longrightarrow> network_stats cfg M ks f = network_stats cfg M ks' f"
  unfolding network_stats_def
  by (rule mean_std_mset) (simp add: mset_map mset_filter map_values_mset [of M ks ks'])

lemma map_values_all: "iteration_order M ks \<Longrightarrow> map_values M ks = map (\<lambda>n. the (M n)) ks"
proof -
  assume "iteration_order M ks"
  then have "filter (\<lambda>n. M n \<noteq> None) ks = ks" by (auto simp: iteration_order_def filter_id_conv)
  then show ?thesis by (simp add: map_values_def map_filter_def)
qed

lemma map_values_length:
  "iteration_order M ks \<Longrightarrow> length (map_values M ks) = card (dom M)"
  by (simp add: map_values_all) (metis iteration_order_def distinct_card)

lemma map_values_set: "iteration_order M ks \<Longrightarrow> m \<in> set (map_values M ks) \<longleftrightarrow> (\<exists>n. M n = Some m)"
  by (simp add: map_values_all iteration_order_def image_iff dom_def) (metis option.sel)

lemma mset_concat_map: "mset xs = mset ys \<Longrightarrow> mset (concat (map f xs)) = mset (concat (map f ys))"
proof -
  assume "mset xs = mset ys"
  then have "mset (map (\<lambda>x. mset (f x)) xs) = mset (map (\<lambda>x. mset (f x)) ys)" by (simp only: mset_map)
  then have "sum_list (map (\<lambda>x. mset (f x)) xs) = sum_list (map (\<lambda>x. mset (f x)) ys)"
    by (metis sum_mset_sum_list)
  then show ?thesis by (simp add: mset_concat o_def)
qed

lemma node_alerts_in:
  "a \<in> set (node_alerts now cfg lat traffic m) \<Longrightarrow> al_NodeID a = nm_NodeID m \<and> 0 \<le> al_Severity a \<and> al_Severity a \<le> 1"
  by (cases lat; cases traffic) (auto simp: node_alerts_def clamp_def Let_def split: if_splits)

definition suspicious :: "anomaly_config \<Rightarrow> real \<times> real \<Rightarrow> real \<times> real \<Rightarrow> node_metrics \<Rightarrow> bool" where
  "suspicious cfg lat traffic m \<longleftrightarrow>
     (snd lat > 0 \<and> nm_AvgLatencyMs m > fst lat + ac_LatencyZThreshold cfg * snd lat)
     \<or> nm_FailureRate m > ac_FailureRateThreshold cfg
     \<or> (snd traffic > 0 \<and> nm_AvgBytesPerOp m > fst traffic + ac_TrafficZThreshold cfg * snd traffic)
     \<or> (nm_Successes m = 0 \<and> nm_Failures m > 0)"

lemma node_alerts_empty: "node_alerts now cfg lat traffic m \<noteq> [] \<longleftrightarrow> suspicious cfg lat traffic m"
  by (cases lat; cases traffic)
    (auto simp: node_alerts_def suspicious_def Let_def less_divide_eq algebra_simps split: if_splits)


section \<open>Properties\<close>

text \<open>Whatever order the two loops over the metrics map run in, \<open>Detect\<close> raises the same
  alerts, each as often; the order only permutes them.\<close>

theorem detect_order_independent:
  assumes "iteration_order M ks1" "iteration_order M ks2" "iteration_order M ks1'" "iteration_order M ks2'"
  shows "mset (detect now cfg M ks1 ks2) = mset (detect now cfg M ks1' ks2')"
proof -
  have "mset (concat (map f (filter (eligible cfg) (map_values M ks2))))
      = mset (concat (map f (filter (eligible cfg) (map_values M ks2'))))" for f :: "node_metrics \<Rightarrow> anomaly_alert list"
    by (rule mset_concat_map) (simp add: mset_filter map_values_mset [OF assms(2,4)])
  then show ?thesis
    using network_stats_order [OF assms(1,3)] map_values_length assms
    by (simp add: detect_stats)
qed

text \<open>With the default configuration the two z-score checks need a large network: no latency
  alert is ever raised with fewer than 8 nodes that have enough events, and no traffic alert
  with fewer than 11, however extreme a node's figures are (the code's own guard only asks
  for 2).\<close>

theorem small_networks_no_spikes:
  assumes "iteration_order M ks1" "iteration_order M ks2"
    and "a \<in> set (detect now default_anomaly_config M ks1 ks2)"
  shows "(al_Type a = AnomalyLatencySpike \<longrightarrow>
           8 \<le> length (filter (eligible default_anomaly_config) (map_values M ks1)))
       \<and> (al_Type a = AnomalyTrafficSpike \<longrightarrow>
           11 \<le> length (filter (eligible default_anomaly_config) (map_values M ks1)))"
proof -
  let ?cfg = default_anomaly_config
  let ?ms = "filter (eligible ?cfg) (map_values M ks1)"
  let ?lat = "network_stats ?cfg M ks1 nm_AvgLatencyMs"
  let ?tra = "network_stats ?cfg M ks1 nm_AvgBytesPerOp"
  obtain m where m: "m \<in> set (map_values M ks2)" "eligible ?cfg m"
    and a: "a \<in> set (node_alerts now ?cfg ?lat ?tra m)"
    using assms(3) by (auto simp: detect_stats split: if_splits)
  have ms: "m \<in> set ?ms" using m map_values_set [OF assms(1)] map_values_set [OF assms(2)] by simp
  have few: "(f m - fst (network_stats ?cfg M ks1 f)) / snd (network_stats ?cfg M ks1 f) \<le> k"
    if "snd (network_stats ?cfg M ks1 f) > 0" "real (length ?ms) - 1 \<le> k\<^sup>2" "0 \<le> k" for f k
    using that ms z_score_bound [of "f m" "map f ?ms" "fst (network_stats ?cfg M ks1 f)"
        "snd (network_stats ?cfg M ks1 f)" k]
    by (simp add: network_stats_def)
  have "8 \<le> length ?ms" if "al_Type a = AnomalyLatencySpike"
  proof (rule ccontr)
    assume "\<not> 8 \<le> length ?ms"
    then have "real (length ?ms) - 1 \<le> (25/10)\<^sup>2" by (simp add: power2_eq_square)
    then show False using a that few [of nm_AvgLatencyMs "25/10"]
      by (auto simp: node_alerts_def Let_def default_anomaly_config_def case_prod_beta split: if_splits)
  qed
  moreover have "11 \<le> length ?ms" if "al_Type a = AnomalyTrafficSpike"
  proof (rule ccontr)
    assume "\<not> 11 \<le> length ?ms"
    then have "real (length ?ms) - 1 \<le> 3\<^sup>2" by simp
    then show False using a that few [of nm_AvgBytesPerOp 3]
      by (auto simp: node_alerts_def Let_def default_anomaly_config_def case_prod_beta split: if_splits)
  qed
  ultimately show ?thesis by blast
qed

text \<open>A node is anomalous exactly when at least two nodes have metrics, it has enough
  events, and one of the four conditions holds against the mean and deviation over the eligible
  nodes.\<close>

theorem is_anomalous_iff:
  assumes "iteration_order M ks1" "iteration_order M ks2"
    and "\<forall>n m. M n = Some m \<longrightarrow> nm_NodeID m = n"
  shows "is_anomalous now cfg M ks1 ks2 nid \<longleftrightarrow>
     2 \<le> card (dom M) \<and> (\<exists>m. M nid = Some m \<and> eligible cfg m
       \<and> suspicious cfg (network_stats cfg M ks1 nm_AvgLatencyMs) (network_stats cfg M ks1 nm_AvgBytesPerOp) m)"
proof -
  let ?lat = "network_stats cfg M ks1 nm_AvgLatencyMs" and ?tra = "network_stats cfg M ks1 nm_AvgBytesPerOp"
  have "is_anomalous now cfg M ks1 ks2 nid \<longleftrightarrow> (\<exists>a\<in>set (detect now cfg M ks1 ks2). al_NodeID a = nid)"
    by (auto simp: is_anomalous_def detect_node_def filter_empty_conv)
  also have "\<dots> \<longleftrightarrow> 2 \<le> card (dom M)
      \<and> (\<exists>m\<in>set (map_values M ks2). eligible cfg m \<and> nm_NodeID m = nid \<and> node_alerts now cfg ?lat ?tra m \<noteq> [])"
    using map_values_length [OF assms(1)]
    by (auto simp: detect_stats not_less node_alerts_in ex_in_conv Bex_def)
      (metis hd_in_set node_alerts_in)
  also have "\<dots> \<longleftrightarrow> 2 \<le> card (dom M)
      \<and> (\<exists>m. M nid = Some m \<and> eligible cfg m \<and> suspicious cfg ?lat ?tra m)"
    using assms(3) by (auto simp: node_alerts_empty Bex_def map_values_set [OF assms(2)])
  finally show ?thesis .
qed


text \<open>Instances: a network of eleven nodes, one of which answers slowly and moves more data.\<close>

definition demo_metrics :: "node_id \<Rightarrow> real \<Rightarrow> node_metrics" where
  "demo_metrics n x =
     \<lparr>nm_NodeID = n, nm_TotalEvents = 20, nm_Successes = 20, nm_Failures = 0, nm_Timeouts = 0,
      nm_Reroutes = 0, nm_CircuitOpens = 0, nm_AvgLatencyMs = x, nm_MinLatencyMs = 0,
      nm_MaxLatencyMs = 0, nm_P95LatencyMs = 0, nm_TotalBytes = 0, nm_AvgBytesPerOp = x,
      nm_FailureRate = 0, nm_Uptime = 1, nm_WindowStart = 0, nm_WindowEnd = 1\<rparr>"

definition demo_ids :: "node_id list" where
  "demo_ids = [''a'', ''b'', ''c'', ''d'', ''e'', ''f'', ''g'', ''h'', ''i'', ''j'', ''k'']"

definition demo_network :: "node_id \<Rightarrow> node_metrics option" where
  "demo_network n =
     (if n \<in> set demo_ids then Some (demo_metrics n (if n = ''k'' then 11 else 0)) else None)"

lemma demo_order: "iteration_order demo_network demo_ids" "iteration_order demo_network (rev demo_ids)"
  by (auto simp: iteration_order_def demo_network_def demo_ids_def split: if_splits)

lemma demo_stats:
  "network_stats default_anomaly_config demo_network demo_ids nm_AvgLatencyMs = (1, sqrt 10)"
  "network_stats default_anomaly_config demo_network demo_ids nm_AvgBytesPerOp = (1, sqrt 10)"
  by (simp_all add: network_stats_def map_values_def map_filter_def demo_network_def demo_ids_def
      demo_metrics_def eligible_def default_anomaly_config_def mean_std_sum)

theorem detect_order_independent_witness:
  "mset (detect 0 default_anomaly_config demo_network demo_ids (rev demo_ids))
     = mset (detect 0 default_anomaly_config demo_network (rev demo_ids) demo_ids)"
  by (rule detect_order_independent) (rule demo_order)+

theorem small_networks_no_spikes_witness:
  "\<exists>a\<in>set (detect 0 default_anomaly_config demo_network demo_ids demo_ids).
     al_Type a = AnomalyTrafficSpike
     \<and> 11 \<le> length (filter (eligible default_anomaly_config) (map_values demo_network demo_ids))"
proof -
  have big: "3 < sqrt (10::real)" by (rule real_less_rsqrt) simp
  have z: "10 / sqrt 10 = sqrt (10::real)" by (simp add: real_div_sqrt)
  let ?k = "demo_metrics ''k'' 11"
  have mem: "?k \<in> set (filter (eligible default_anomaly_config) (map_values demo_network demo_ids))"
    "length (map_values demo_network demo_ids) = 11"
    by (simp_all add: map_values_def map_filter_def demo_network_def demo_ids_def
        demo_metrics_def eligible_def default_anomaly_config_def)
  have "\<exists>a\<in>set (node_alerts 0 default_anomaly_config (1, sqrt 10) (1, sqrt 10) ?k). al_Type a = AnomalyTrafficSpike"
    unfolding node_alerts_def Let_def prod.case
    using big z by (simp add: demo_metrics_def default_anomaly_config_def)
  then have "\<exists>a\<in>set (detect 0 default_anomaly_config demo_network demo_ids demo_ids). al_Type a = AnomalyTrafficSpike"
    using mem unfolding detect_stats demo_stats by auto
  then show ?thesis using small_networks_no_spikes [OF demo_order(1) demo_order(1)] by blast
qed

theorem is_anomalous_iff_witness:
  "is_anomalous 0 default_anomaly_config demo_network demo_ids demo_ids ''k''
     \<and> \<not> is_anomalous 0 default_anomaly_config demo_network demo_ids demo_ids ''a''"
proof -
  have d: "card (dom demo_network) = 11"
    using map_values_length [OF demo_order(1)]
    by (simp add: map_values_def map_filter_def demo_network_def demo_ids_def)
  have big: "5/2 < sqrt (10::real)" by (rule real_less_rsqrt) (simp add: power2_eq_square)
  then have "5/2 * sqrt 10 < sqrt 10 * sqrt (10::real)" by (intro mult_strict_right_mono) simp_all
  then have z: "1 + 5 * sqrt 10 / 2 < (11::real)" by simp
  have ids: "\<forall>n m. demo_network n = Some m \<longrightarrow> nm_NodeID m = n"
    by (simp add: demo_network_def demo_metrics_def)
  have pos: "0 < sqrt (10::real)" by simp
  then have "\<not> 1 + 5 * sqrt 10 / 2 < (0::real)" "\<not> 1 + 3 * sqrt 10 < (0::real)" by linarith+
  then show ?thesis
    using z d
    by (simp add: is_anomalous_iff [OF demo_order(1) demo_order(1) ids] demo_stats suspicious_def)
      (simp add: demo_network_def demo_metrics_def demo_ids_def eligible_def default_anomaly_config_def)
qed

end
