(* ===== verification/Routing.thy ===== *)
theory Routing
  imports Tables Anomaly
begin

text \<open>
  The routing service: the tables and queries of \<open>services/routing/repository\<close> and the
  handlers of \<open>services/routing/handler/handler.go\<close>. The intelligence interface is a pair of
  optional functions (\<open>None\<close> when it is not set); its score is only logged and is left out.
  The surrogate key \<open>id\<close> of a route is never read and is left out. Each query of a handler
  can fail: the fault predicate says which do.
\<close>

section \<open>The tables\<close>

record route =
  rt_NodeID :: node_id
  rt_TargetNodeID :: node_id
  rt_NextHopID :: node_id
  rt_Metric :: int32
  rt_LatencyMs :: int64
  rt_UpdatedAt :: time

record relay =
  ry_NodeID :: node_id
  ry_Address :: string
  ry_MaxCircuits :: int32
  ry_ActiveCircuits :: int32
  ry_LatencyMs :: int64
  ry_LastSeen :: time

record routing_db =
  db_routes :: "route list"
  db_relays :: "relay list"

definition route_key :: "route \<Rightarrow> node_id \<times> node_id" where
  "route_key r = (rt_NodeID r, rt_TargetNodeID r)"

definition upsert_route_sql :: "time \<Rightarrow> node_id \<Rightarrow> node_id \<Rightarrow> node_id \<Rightarrow> int32 \<Rightarrow> int64 \<Rightarrow> route list \<Rightarrow> route list" where
  "upsert_route_sql now nid target nextHop metric latency t =
     upsert route_key
       (\<lambda>old new. old\<lparr>rt_NextHopID := rt_NextHopID new, rt_Metric := rt_Metric new,
                     rt_LatencyMs := rt_LatencyMs new, rt_UpdatedAt := now\<rparr>)
       \<lparr>rt_NodeID = nid, rt_TargetNodeID = target, rt_NextHopID = nextHop, rt_Metric = metric,
        rt_LatencyMs = latency, rt_UpdatedAt = now\<rparr> t"

definition get_routes_sql :: "node_id \<Rightarrow> route list \<Rightarrow> route list" where
  "get_routes_sql nid t = sort_key rt_Metric (filter (\<lambda>r. rt_NodeID r = nid) t)"

definition find_route_sql :: "node_id \<Rightarrow> node_id \<Rightarrow> route list \<Rightarrow> route option" where
  "find_route_sql nid target t = row_at route_key (nid, target) t"

definition delete_route_sql :: "node_id \<Rightarrow> node_id \<Rightarrow> route list \<Rightarrow> route list" where
  "delete_route_sql nid target t = filter (\<lambda>r. route_key r \<noteq> (nid, target)) t"

definition upsert_relay_sql :: "time \<Rightarrow> node_id \<Rightarrow> string \<Rightarrow> int32 \<Rightarrow> int32 \<Rightarrow> int64 \<Rightarrow> relay list \<Rightarrow> relay list" where
  "upsert_relay_sql now nid addr maxC active latency t =
     upsert ry_NodeID
       (\<lambda>old new. old\<lparr>ry_Address := ry_Address new, ry_MaxCircuits := ry_MaxCircuits new,
                     ry_ActiveCircuits := ry_ActiveCircuits new, ry_LatencyMs := ry_LatencyMs new,
                     ry_LastSeen := now\<rparr>)
       \<lparr>ry_NodeID = nid, ry_Address = addr, ry_MaxCircuits = maxC, ry_ActiveCircuits = active,
        ry_LatencyMs = latency, ry_LastSeen = now\<rparr> t"

definition list_relays_sql :: "int32 \<Rightarrow> relay list \<Rightarrow> relay list" where
  "list_relays_sql n t = sql_limit n (sort_key ry_LatencyMs t)"

definition get_relay_sql :: "node_id \<Rightarrow> relay list \<Rightarrow> relay option" where
  "get_relay_sql nid t = row_at ry_NodeID nid t"

section \<open>The handlers\<close>

datatype routing_query =
    QDirect | QSourceRoutes | QHop nat | QUpsertRoute nat | QRouteTable | QListRelays | QUpsertRelay

type_synonym routing_faults = "routing_query \<Rightarrow> bool"

record route_hop =
  hop_NodeId :: node_id
  hop_HopIndex :: int32
  hop_IsRelay :: bool

record find_route_response =
  fr_Hops :: "route_hop list"
  fr_TotalHops :: int32
  fr_EstimatedLatencyMs :: int64
  fr_DirectPossible :: bool

text \<open>The loop of \<open>FindRoute\<close>: \<open>n\<close> rounds are left, the next has index \<open>i\<close>.\<close>

fun walk_hops ::
  "routing_faults \<Rightarrow> route list \<Rightarrow> node_id set \<Rightarrow> node_id \<Rightarrow> nat \<Rightarrow> nat \<Rightarrow> node_id \<Rightarrow>
   route_hop list \<Rightarrow> int64 \<Rightarrow> route_hop list \<times> int64" where
  "walk_hops flt t excluded target 0 i cur hops totalLatency = (hops, totalLatency)"
| "walk_hops flt t excluded target (Suc n) i cur hops totalLatency =
     (case db_row (flt (QHop i)) (find_route_sql cur target t) of
        Inl e \<Rightarrow> (hops, totalLatency)
      | Inr entry \<Rightarrow>
          if rt_NextHopID entry \<in> excluded then (hops, totalLatency)
          else
            let hops' = hops @ [\<lparr>hop_NodeId = rt_NextHopID entry, hop_HopIndex = wrap32 (int i + 1),
                                 hop_IsRelay = (rt_NextHopID entry \<noteq> target)\<rparr>];
                total' = wrap64 (totalLatency + rt_LatencyMs entry)
            in if rt_NextHopID entry = target then (hops', total')
               else walk_hops flt t excluded target n (i + 1) (rt_NextHopID entry) hops' total')"

definition auto_exclude ::
  "(node_id \<Rightarrow> bool) option \<Rightarrow> routing_faults \<Rightarrow> routing_db \<Rightarrow> node_id \<Rightarrow> node_id set \<Rightarrow> node_id set" where
  "auto_exclude intel flt db src excluded =
     (case intel of
        None \<Rightarrow> excluded
      | Some anomalous \<Rightarrow>
          (case db_run (flt QSourceRoutes) (get_routes_sql src (db_routes db)) of
             Inl e \<Rightarrow> excluded
           | Inr allRoutes \<Rightarrow>
               foldl (\<lambda>ex r. if rt_NextHopID r \<in> ex then ex
                            else if anomalous (rt_NextHopID r) then insert (rt_NextHopID r) ex
                            else ex) excluded allRoutes))"

definition effective_max_hops :: "int32 \<Rightarrow> int" where
  "effective_max_hops maxHops = (if maxHops \<le> 0 then 5 else maxHops)"

definition find_route ::
  "(node_id \<Rightarrow> bool) option \<Rightarrow> routing_faults \<Rightarrow> routing_db \<Rightarrow> node_id \<Rightarrow> node_id \<Rightarrow> int32 \<Rightarrow>
   node_id list \<Rightarrow> find_route_response result" where
  "find_route intel flt db src target maxHops excludeIds =
     (if src = '''' \<or> target = ''''
      then Inl (Status InvalidArgument ''source_node_id and target_node_id are required'')
      else
        let direct = db_row (flt QDirect) (find_route_sql src target (db_routes db)) in
        if direct = Inl QueryFailed
        then Inl (Status Internal ''failed to query route table'')
        else
          let directPossible = (case direct of Inl e \<Rightarrow> False | Inr r \<Rightarrow> rt_NextHopID r = target);
              excluded = auto_exclude intel flt db src (set excludeIds);
              (hops, totalLatency) =
                walk_hops flt (db_routes db) excluded target (nat (effective_max_hops maxHops)) 0 src [] 0
          in Inr \<lparr>fr_Hops = hops, fr_TotalHops = wrap32 (int (length hops)),
                  fr_EstimatedLatencyMs = totalLatency, fr_DirectPossible = directPossible\<rparr>)"

record route_entry =
  re_TargetNodeId :: node_id
  re_NextHopId :: node_id
  re_Metric :: int32
  re_LatencyMs :: int64

fun upsert_entries ::
  "time \<Rightarrow> routing_faults \<Rightarrow> node_id \<Rightarrow> nat \<Rightarrow> route_entry list \<Rightarrow> routing_db \<Rightarrow> int32 \<Rightarrow> routing_db \<times> int32" where
  "upsert_entries now flt nid i [] db updated = (db, updated)"
| "upsert_entries now flt nid i (e # es) db updated =
     (if flt (QUpsertRoute i) then upsert_entries now flt nid (i + 1) es db updated
      else upsert_entries now flt nid (i + 1) es
             (db\<lparr>db_routes := upsert_route_sql now nid (re_TargetNodeId e) (re_NextHopId e)
                               (re_Metric e) (re_LatencyMs e) (db_routes db)\<rparr>)
             (wrap32 (updated + 1)))"

text \<open>The response of \<open>UpdateRouteTable\<close>: success, the number of updated entries, the time.\<close>

definition update_route_table ::
  "time \<Rightarrow> routing_faults \<Rightarrow> node_id \<Rightarrow> route_entry list \<Rightarrow> routing_db \<Rightarrow>
   (bool \<times> int32 \<times> time) result \<times> routing_db" where
  "update_route_table now flt nid entries db =
     (if nid = '''' \<or> length entries = 0
      then (Inl (Status InvalidArgument ''node_id and at least one entry are required''), db)
      else let (db', updated) = upsert_entries now flt nid 0 entries db 0
           in (Inr (updated > 0, updated, now), db'))"

definition get_route_table ::
  "routing_faults \<Rightarrow> node_id \<Rightarrow> routing_db \<Rightarrow> (node_id \<times> route_entry list) result" where
  "get_route_table flt nid db =
     (if nid = '''' then Inl (Status InvalidArgument ''node_id is required'')
      else case db_run (flt QRouteTable) (get_routes_sql nid (db_routes db)) of
             Inl e \<Rightarrow> Inl (Status Internal ''failed to fetch route table'')
           | Inr rows \<Rightarrow>
               Inr (nid, map (\<lambda>r. \<lparr>re_TargetNodeId = rt_TargetNodeID r, re_NextHopId = rt_NextHopID r,
                                   re_Metric = rt_Metric r, re_LatencyMs = rt_LatencyMs r\<rparr>) rows))"

definition list_relays :: "routing_faults \<Rightarrow> int32 \<Rightarrow> routing_db \<Rightarrow> relay list result" where
  "list_relays flt reqLimit db =
     (let limit = (if reqLimit \<le> 0 then 20 else reqLimit)
      in case db_run (flt QListRelays) (list_relays_sql limit (db_relays db)) of
           Inl e \<Rightarrow> Inl (Status Internal ''failed to list relays'')
         | Inr rows \<Rightarrow> Inr rows)"

definition register_relay ::
  "time \<Rightarrow> routing_faults \<Rightarrow> node_id \<Rightarrow> string \<Rightarrow> int32 \<Rightarrow> routing_db \<Rightarrow> (bool \<times> time) result \<times> routing_db" where
  "register_relay now flt nid addr reqMax db =
     (if nid = '''' \<or> addr = ''''
      then (Inl (Status InvalidArgument ''node_id and address are required''), db)
      else
        let maxCircuits = (if reqMax \<le> 0 then 64 else reqMax) in
        if flt QUpsertRelay then (Inl (Status Internal ''failed to register relay''), db)
        else (Inr (True, now),
              db\<lparr>db_relays := upsert_relay_sql now nid addr maxCircuits 0 0 (db_relays db)\<rparr>))"

text \<open>\<open>GetNodeMetrics\<close>: without a provider the answer is empty; \<open>order\<close> is the order in which
  \<open>AllNodeIDs\<close> runs over the map.\<close>

definition get_node_metrics ::
  "((node_id \<Rightarrow> node_metrics option) \<times> node_id list) option \<Rightarrow> node_id list \<Rightarrow> (node_id \<times> node_metrics) list" where
  "get_node_metrics provider reqIds =
     (case provider of
        None \<Rightarrow> []
      | Some (node_metrics_of, order) \<Rightarrow>
          let nodeIDs = (if length reqIds = 0 then order else reqIds)
          in concat (map (\<lambda>i. case node_metrics_of i of None \<Rightarrow> [] | Some m \<Rightarrow> [(i, m)]) nodeIDs))"


text \<open>The provider that the routing service is given: the collector's metrics.\<close>

definition collector_metrics_provider ::
  "time \<Rightarrow> collector \<Rightarrow> node_id list \<Rightarrow> (node_id \<Rightarrow> node_metrics option) \<times> node_id list" where
  "collector_metrics_provider now c order = (\<lambda>i. metrics now i c, filter (\<lambda>i. all_metrics now c i \<noteq> None) order)"

section \<open>Routes are walks of the table\<close>

definition next_hop :: "route list \<Rightarrow> node_id \<Rightarrow> node_id \<Rightarrow> node_id option" where
  "next_hop t target n = map_option rt_NextHopID (find_route_sql n target t)"

fun links :: "route list \<Rightarrow> node_id \<Rightarrow> node_id \<Rightarrow> node_id list \<Rightarrow> bool" where
  "links t target cur [] = True"
| "links t target cur (n # ns) = (next_hop t target cur = Some n \<and> links t target n ns)"

fun hops_from :: "node_id \<Rightarrow> nat \<Rightarrow> node_id list \<Rightarrow> route_hop list" where
  "hops_from target i [] = []"
| "hops_from target i (n # ns) =
     \<lparr>hop_NodeId = n, hop_HopIndex = wrap32 (int i + 1), hop_IsRelay = (n \<noteq> target)\<rparr>
     # hops_from target (i + 1) ns"

lemma hops_from_ids: "map hop_NodeId (hops_from target i ns) = ns"
  by (induction ns arbitrary: i) simp_all

lemma hops_from_nth:
  "k < length ns \<Longrightarrow> hops_from target i ns ! k =
     \<lparr>hop_NodeId = ns ! k, hop_HopIndex = wrap32 (int (i + k) + 1), hop_IsRelay = (ns ! k \<noteq> target)\<rparr>"
  by (induction ns arbitrary: i k) (auto simp: nth_Cons' algebra_simps)

text \<open>What the walk visits, without its accumulators.\<close>

fun visited ::
  "routing_faults \<Rightarrow> route list \<Rightarrow> node_id set \<Rightarrow> node_id \<Rightarrow> nat \<Rightarrow> nat \<Rightarrow> node_id \<Rightarrow> node_id list" where
  "visited flt t excluded target 0 i cur = []"
| "visited flt t excluded target (Suc n) i cur =
     (case next_hop t target cur of
        None \<Rightarrow> []
      | Some m \<Rightarrow>
          if flt (QHop i) \<or> m \<in> excluded then []
          else m # (if m = target then [] else visited flt t excluded target n (i + 1) m))"

lemma walk_visited:
  "fst (walk_hops flt t ex target n i cur hops lat) = hops @ hops_from target i (visited flt t ex target n i cur)"
  by (induction flt t ex target n i cur hops lat rule: walk_hops.induct)
    (auto simp: next_hop_def db_row_def Let_def split: option.splits)

lemma visited_links: "links t target cur (visited flt t ex target n i cur)"
  by (induction flt t ex target n i cur rule: visited.induct) (auto split: option.splits)

lemma visited_length: "length (visited flt t ex target n i cur) \<le> n"
  by (induction flt t ex target n i cur rule: visited.induct) (auto split: option.splits)

lemma visited_excluded: "m \<in> set (visited flt t ex target n i cur) \<Longrightarrow> m \<notin> ex"
  by (induction n arbitrary: i cur) (auto split: option.splits if_splits)

lemma visited_target: "target \<notin> set (butlast (visited flt t ex target n i cur))"
  by (induction flt t ex target n i cur rule: visited.induct) (auto split: option.splits)

lemma visited_complete:
  assumes "links t target cur ns" "ns \<noteq> []" "last ns = target" "target \<notin> set (butlast ns)"
    "length ns \<le> n" "set ns \<inter> ex = {}" "\<forall>k. \<not> flt (QHop k)"
  shows "visited flt t ex target n i cur = ns"
  using assms
proof (induction ns arbitrary: cur n i)
  case (Cons m ns)
  obtain n' where n': "n = Suc n'" using Cons.prems(5) by (cases n) auto
  show ?case
    using Cons n' by (cases "ns = []") (auto split: if_splits)
qed simp

text \<open>The exclusion set: what the caller asked for, and anomalous next hops of the source.\<close>

lemma exclude_fold:
  "foldl (\<lambda>ex r. if f r \<in> ex then ex else if P (f r) then insert (f r) ex else ex) ex rs
     = ex \<union> {n \<in> f ` set rs. P n}"
  by (induction rs arbitrary: ex) auto

lemma auto_exclude_eq:
  "auto_exclude intel flt db src ex = ex \<union>
     (case intel of None \<Rightarrow> {}
      | Some anomalous \<Rightarrow> if flt QSourceRoutes then {}
          else {n. anomalous n \<and> (\<exists>r\<in>set (db_routes db). rt_NodeID r = src \<and> rt_NextHopID r = n)})"
  by (cases intel; cases "flt QSourceRoutes")
    (auto simp: auto_exclude_def exclude_fold get_routes_sql_def)

lemma hops_from_length: "length (hops_from target i ns) = length ns"
  by (induction ns arbitrary: i) simp_all

lemma find_route_Inr:
  assumes "find_route intel flt db src target maxHops exIds = Inr resp"
  obtains ns where
    "ns = visited flt (db_routes db) (auto_exclude intel flt db src (set exIds)) target
                  (nat (effective_max_hops maxHops)) 0 src"
    "fr_Hops resp = hops_from target 0 ns" "fr_TotalHops resp = wrap32 (int (length ns))"
proof -
  let ?w = "walk_hops flt (db_routes db) (auto_exclude intel flt db src (set exIds)) target
      (nat (effective_max_hops maxHops)) 0 src [] 0"
  have "fr_Hops resp = fst ?w \<and> fr_TotalHops resp = wrap32 (int (length (fst ?w)))"
    using assms by (auto simp: find_route_def Let_def split: if_splits prod.splits)
  then show thesis using that by (simp add: walk_visited hops_from_length)
qed

section \<open>The tables as keyed stores\<close>

lemma route_key_simps [simp]:
  "route_key (r\<lparr>rt_NextHopID := h\<rparr>) = route_key r"
  "route_key (r\<lparr>rt_Metric := m\<rparr>) = route_key r"
  "route_key (r\<lparr>rt_LatencyMs := l\<rparr>) = route_key r"
  "route_key (r\<lparr>rt_UpdatedAt := w\<rparr>) = route_key r"
  by (simp_all add: route_key_def)

lemma find_upsert_route:
  "find_route_sql n' g' (upsert_route_sql now n g h m l t) =
     (if (n', g') = (n, g)
      then Some (case find_route_sql n g t of
          None \<Rightarrow> \<lparr>rt_NodeID = n, rt_TargetNodeID = g, rt_NextHopID = h, rt_Metric = m,
                    rt_LatencyMs = l, rt_UpdatedAt = now\<rparr>
        | Some old \<Rightarrow> old\<lparr>rt_NextHopID := h, rt_Metric := m, rt_LatencyMs := l, rt_UpdatedAt := now\<rparr>)
      else find_route_sql n' g' t)"
  unfolding upsert_route_sql_def find_route_sql_def
  by (subst row_at_upsert) (auto simp: route_key_def split: option.splits)

definition route_values :: "route list \<Rightarrow> node_id \<times> node_id \<Rightarrow> (node_id \<times> int32 \<times> int64 \<times> time) option" where
  "route_values t k =
     map_option (\<lambda>r. (rt_NextHopID r, rt_Metric r, rt_LatencyMs r, rt_UpdatedAt r))
       (find_route_sql (fst k) (snd k) t)"

definition put_route :: "node_id \<times> node_id \<Rightarrow> node_id \<times> int32 \<times> int64 \<times> time \<Rightarrow> route list \<Rightarrow> route list" where
  "put_route k v t =
     (case v of (h, m, l, now) \<Rightarrow> upsert_route_sql now (fst k) (snd k) h m l t)"

definition routes_wf :: "route list \<Rightarrow> bool" where
  "routes_wf t \<longleftrightarrow> distinct (map route_key t)"

interpretation routes: keyed_store route_values put_route routes_wf
proof unfold_locales
  fix t k k' and v :: "node_id \<times> int32 \<times> int64 \<times> time"
  obtain h m l w where v: "v = (h, m, l, w)" by (cases v)
  show "route_values (put_route k v t) k' = (if k' = k then Some v else route_values t k')"
    by (cases k; cases k')
      (auto simp: v route_values_def put_route_def find_upsert_route split: option.splits)
  assume "routes_wf t"
  then show "routes_wf (put_route k v t)"
    by (auto simp: v routes_wf_def put_route_def upsert_route_sql_def intro!: distinct_upsert)
qed

definition relay_values :: "relay list \<Rightarrow> node_id \<Rightarrow> (string \<times> int32 \<times> int32 \<times> int64 \<times> time) option" where
  "relay_values t k =
     map_option (\<lambda>r. (ry_Address r, ry_MaxCircuits r, ry_ActiveCircuits r, ry_LatencyMs r, ry_LastSeen r))
       (get_relay_sql k t)"

definition put_relay :: "node_id \<Rightarrow> string \<times> int32 \<times> int32 \<times> int64 \<times> time \<Rightarrow> relay list \<Rightarrow> relay list" where
  "put_relay k v t = (case v of (a, mx, ac, l, now) \<Rightarrow> upsert_relay_sql now k a mx ac l t)"

definition relays_wf :: "relay list \<Rightarrow> bool" where
  "relays_wf t \<longleftrightarrow> distinct (map ry_NodeID t)"

interpretation relays: keyed_store relay_values put_relay relays_wf
proof unfold_locales
  fix t k k' and v :: "string \<times> int32 \<times> int32 \<times> int64 \<times> time"
  obtain a mx ac l w where v: "v = (a, mx, ac, l, w)" by (cases v)
  show "relay_values (put_relay k v t) k' = (if k' = k then Some v else relay_values t k')"
    by (auto simp: v relay_values_def put_relay_def upsert_relay_sql_def get_relay_sql_def
        row_at_upsert split: option.splits)
  assume "relays_wf t"
  then show "relays_wf (put_relay k v t)"
    by (auto simp: v relays_wf_def put_relay_def upsert_relay_sql_def intro!: distinct_upsert)
qed

lemma map_of_find: "map_of (map (\<lambda>e. (k e, v e)) xs) x = map_option v (find (\<lambda>e. k e = x) xs)"
  by (induction xs) auto

lemma put_route_pair: "put_route (n, g) (h, m, l, now) t = upsert_route_sql now n g h m l t"
  by (simp add: put_route_def)

definition entry_put :: "time \<Rightarrow> node_id \<Rightarrow> route_entry \<Rightarrow> (node_id \<times> node_id) \<times> (node_id \<times> int32 \<times> int64 \<times> time)" where
  "entry_put now nid e =
     ((nid, re_TargetNodeId e), (re_NextHopId e, re_Metric e, re_LatencyMs e, now))"

lemma upsert_entries_put_all:
  "0 \<le> u \<Longrightarrow> u + int (length es) < 2 ^ 31 \<Longrightarrow>
   upsert_entries now flt nid i es db u =
     (db\<lparr>db_routes := routes.put_all (map (entry_put now nid) (nths es {k. \<not> flt (QUpsertRoute (i + k))}))
                      (db_routes db)\<rparr>,
      u + int (length (nths es {k. \<not> flt (QUpsertRoute (i + k))})))"
proof (induction es arbitrary: i db u)
  case (Cons e es)
  have "wrap32 (u + 1) = u + 1" using Cons.prems by (intro wrap32_id) (simp add: in_int32_def)
  then show ?case
    using Cons by (simp add: nths_Cons entry_put_def put_route_pair)
qed (simp add: nths_def)

lemma find_route_walk:
  assumes "find_route intel flt db src target maxHops exIds = Inr resp" "in_int32 maxHops"
  defines "ns \<equiv> map hop_NodeId (fr_Hops resp)"
  shows "links (db_routes db) target src ns
    \<and> int (length ns) \<le> effective_max_hops maxHops
    \<and> fr_TotalHops resp = int (length ns)
    \<and> target \<notin> set (butlast ns)
    \<and> (\<forall>k < length ns. fr_Hops resp ! k =
          \<lparr>hop_NodeId = ns ! k, hop_HopIndex = int k + 1, hop_IsRelay = (ns ! k \<noteq> target)\<rparr>)
    \<and> (\<forall>n\<in>set ns. n \<notin> set exIds)
    \<and> (\<forall>anomalous. intel = Some anomalous \<longrightarrow> \<not> flt QSourceRoutes \<longrightarrow>
          (\<forall>r\<in>set (db_routes db). rt_NodeID r = src \<longrightarrow> anomalous (rt_NextHopID r) \<longrightarrow> rt_NextHopID r \<notin> set ns))"
proof -
  let ?ex = "auto_exclude intel flt db src (set exIds)"
  obtain ns' where ns': "ns' = visited flt (db_routes db) ?ex target (nat (effective_max_hops maxHops)) 0 src"
    "fr_Hops resp = hops_from target 0 ns'" "fr_TotalHops resp = wrap32 (int (length ns'))"
    using assms(1) by (rule find_route_Inr)
  have ns: "ns = ns'" by (simp add: ns_def ns'(2) hops_from_ids)
  have len: "int (length ns) \<le> effective_max_hops maxHops"
    using visited_length [of flt "db_routes db" ?ex target "nat (effective_max_hops maxHops)" 0 src]
    by (auto simp: ns ns'(1) effective_max_hops_def split: if_splits)
  moreover have "effective_max_hops maxHops < 2 ^ 31"
    using assms(2) by (auto simp: effective_max_hops_def in_int32_def)
  ultimately have w0: "wrap32 (int k) = int k" if "k \<le> length ns" for k
    using that by (intro wrap32_id) (simp add: in_int32_def)
  have w: "wrap32 (1 + int k) = 1 + int k" if "k < length ns" for k
    using w0 [of "Suc k"] that by simp
  have "\<forall>n\<in>set ns. n \<notin> ?ex" using visited_excluded ns ns'(1) by blast
  moreover have "set exIds \<subseteq> ?ex" by (auto simp: auto_exclude_eq)
  moreover have "rt_NextHopID r \<in> ?ex" if "intel = Some anomalous" "\<not> flt QSourceRoutes"
    "r \<in> set (db_routes db)" "rt_NodeID r = src" "anomalous (rt_NextHopID r)" for anomalous r
    using that by (auto simp: auto_exclude_eq)
  ultimately have "\<forall>n\<in>set ns. n \<notin> set exIds"
    and "\<forall>anomalous. intel = Some anomalous \<longrightarrow> \<not> flt QSourceRoutes \<longrightarrow>
      (\<forall>r\<in>set (db_routes db). rt_NodeID r = src \<longrightarrow> anomalous (rt_NextHopID r) \<longrightarrow> rt_NextHopID r \<notin> set ns)"
    by blast+
  moreover have "links (db_routes db) target src ns" "target \<notin> set (butlast ns)"
    unfolding ns ns'(1) by (rule visited_links visited_target)+
  moreover have "fr_TotalHops resp = int (length ns)"
    using w0 [of "length ns"] by (simp add: ns'(3) ns)
  moreover have "fr_Hops resp ! k = \<lparr>hop_NodeId = ns ! k, hop_HopIndex = int k + 1, hop_IsRelay = (ns ! k \<noteq> target)\<rparr>"
    if "k < length ns" for k
    using that w [of k] by (simp add: ns'(2) ns hops_from_nth add.commute)
  ultimately show ?thesis using len by blast
qed

lemma find_route_complete:
  assumes "links (db_routes db) target src ns" "ns \<noteq> []" "last ns = target" "target \<notin> set (butlast ns)"
    and "int (length ns) \<le> effective_max_hops maxHops"
    and "\<forall>n\<in>set ns. n \<notin> set exIds \<and> (\<forall>anomalous. intel = Some anomalous \<longrightarrow> \<not> anomalous n)"
    and "src \<noteq> [] \<and> target \<noteq> []" "\<forall>q. \<not> flt q"
  shows "\<exists>resp. find_route intel flt db src target maxHops exIds = Inr resp
    \<and> map hop_NodeId (fr_Hops resp) = ns \<and> (fr_DirectPossible resp \<longleftrightarrow> length ns = 1)"
proof -
  let ?ex = "auto_exclude intel flt db src (set exIds)"
  let ?n = "nat (effective_max_hops maxHops)"
  have "set ns \<inter> ?ex = {}" using assms(6) by (auto simp: auto_exclude_eq split: option.splits)
  then have v: "visited flt (db_routes db) ?ex target ?n 0 src = ns"
    using assms by (intro visited_complete) auto
  obtain m ms where ms: "ns = m # ms" using assms(2) by (cases ns) auto
  then have nh: "next_hop (db_routes db) target src = Some m" using assms(1) by simp
  then obtain r where r: "find_route_sql src target (db_routes db) = Some r" "rt_NextHopID r = m"
    by (auto simp: next_hop_def)
  have one: "m = target \<longleftrightarrow> length ns = 1" using assms(3,4) ms by (cases ms) auto
  show ?thesis
    using assms(7,8) r one walk_visited [of flt "db_routes db" ?ex target ?n 0 src "[]" 0]
    by (auto simp: find_route_def Let_def v hops_from_ids split: prod.splits)
qed

section \<open>Properties\<close>

text \<open>C20: A route that \<open>FindRoute\<close> returns is a walk of the route table from the source: each
  hop is the table's next hop of the one before towards the target, there are at most
  \<open>max_hops\<close> of them (5 when none is given), numbered from 1, exactly the last can be the
  target and every other is marked as a relay. No hop is a node that the request excludes. As to
  the anomalous nodes, only the next hops of the source itself are looked at, and only when its
  routes could be read: none of those is a hop, but a later hop may be an anomalous node.\<close>

theorem route_is_table_walk:
  assumes "find_route intel flt db src target maxHops exIds = Inr resp" "in_int32 maxHops"
  defines "ns \<equiv> map hop_NodeId (fr_Hops resp)"
  shows "links (db_routes db) target src ns
    \<and> int (length ns) \<le> effective_max_hops maxHops
    \<and> fr_TotalHops resp = int (length ns)
    \<and> target \<notin> set (butlast ns)
    \<and> (\<forall>k < length ns. fr_Hops resp ! k =
          \<lparr>hop_NodeId = ns ! k, hop_HopIndex = int k + 1, hop_IsRelay = (ns ! k \<noteq> target)\<rparr>)
    \<and> (\<forall>n\<in>set ns. n \<notin> set exIds)
    \<and> (\<forall>anomalous. intel = Some anomalous \<longrightarrow> \<not> flt QSourceRoutes \<longrightarrow>
          (\<forall>r\<in>set (db_routes db). rt_NodeID r = src \<longrightarrow> anomalous (rt_NextHopID r) \<longrightarrow> rt_NextHopID r \<notin> set ns))"
  unfolding ns_def using assms(1,2) by (rule find_route_walk)

text \<open>C32: \<open>FindRoute\<close> finds the route when there is one: if the table's next hops lead from the
  source to the target in at most \<open>max_hops\<close> steps through nodes that are neither excluded
  nor anomalous, and the queries succeed, the response is exactly that route.\<close>

theorem route_found:
  assumes "links (db_routes db) target src ns" "ns \<noteq> []" "last ns = target" "target \<notin> set (butlast ns)"
    and "int (length ns) \<le> effective_max_hops maxHops"
    and "\<forall>n\<in>set ns. n \<notin> set exIds \<and> (\<forall>anomalous. intel = Some anomalous \<longrightarrow> \<not> anomalous n)"
    and "src \<noteq> [] \<and> target \<noteq> []" "\<forall>q. \<not> flt q"
  shows "\<exists>resp. find_route intel flt db src target maxHops exIds = Inr resp
    \<and> map hop_NodeId (fr_Hops resp) = ns \<and> (fr_DirectPossible resp \<longleftrightarrow> length ns = 1)"
  using assms by (rule find_route_complete)

text \<open>\<open>UpdateRouteTable\<close> makes the sender's entry for each target the last one sent that
  the database accepted, leaves every other node's and target's entry alone, keeps one row per
  (node, target), and reports how many entries were accepted.\<close>

theorem update_route_table_effect:
  assumes "update_route_table now flt nid entries db = (Inr (ok, n, tm), db')"
    and "routes_wf (db_routes db)" "int (length entries) < 2 ^ 31"
  defines "accepted \<equiv> nths entries {k. \<not> flt (QUpsertRoute k)}"
  shows "n = int (length accepted) \<and> (ok \<longleftrightarrow> accepted \<noteq> []) \<and> tm = now
    \<and> routes_wf (db_routes db') \<and> db_relays db' = db_relays db
    \<and> (\<forall>m g. route_values (db_routes db') (m, g) =
         (case find (\<lambda>e. m = nid \<and> re_TargetNodeId e = g) (rev accepted) of
            Some e \<Rightarrow> Some (re_NextHopId e, re_Metric e, re_LatencyMs e, now)
          | None \<Rightarrow> route_values (db_routes db) (m, g)))"
proof -
  let ?put = "map (entry_put now nid) accepted"
  have res: "upsert_entries now flt nid 0 entries db 0 =
      (db\<lparr>db_routes := routes.put_all ?put (db_routes db)\<rparr>, int (length accepted))"
    using upsert_entries_put_all [of 0 entries now flt nid 0 db] assms(3) by (simp add: accepted_def)
  have "map_of (rev ?put) (m, g) =
      map_option (\<lambda>e. (re_NextHopId e, re_Metric e, re_LatencyMs e, now))
        (find (\<lambda>e. m = nid \<and> re_TargetNodeId e = g) (rev accepted))" for m g
    using map_of_find [of "\<lambda>e. (nid, re_TargetNodeId e)" "\<lambda>e. (re_NextHopId e, re_Metric e, re_LatencyMs e, now)"
        "rev accepted" "(m, g)"]
    by (simp add: entry_put_def [abs_def] rev_map eq_commute [of nid])
  then show ?thesis
    using assms(1,2) res routes.lookup_put_all [OF assms(2), of ?put] routes.wf_put_all [OF assms(2), of ?put]
    by (auto simp: update_route_table_def split: if_splits option.splits)
qed

text \<open>Instances: a chain \<open>a\<close> to \<open>b\<close> to \<open>c\<close>.\<close>

definition demo_routing :: routing_db where
  "demo_routing = \<lparr>db_routes =
     [\<lparr>rt_NodeID = ''a'', rt_TargetNodeID = ''c'', rt_NextHopID = ''b'', rt_Metric = 1, rt_LatencyMs = 4, rt_UpdatedAt = 0\<rparr>,
      \<lparr>rt_NodeID = ''b'', rt_TargetNodeID = ''c'', rt_NextHopID = ''c'', rt_Metric = 1, rt_LatencyMs = 5, rt_UpdatedAt = 0\<rparr>],
     db_relays = []\<rparr>"

theorem route_found_witness:
  "\<exists>resp. find_route (Some (\<lambda>n. n = ''z'')) (\<lambda>q. False) demo_routing ''a'' ''c'' 0 [''y''] = Inr resp
     \<and> map hop_NodeId (fr_Hops resp) = [''b'', ''c''] \<and> \<not> fr_DirectPossible resp"
  using route_found [of demo_routing "''c''" "''a''" "[''b'', ''c'']" 0 "[''y'']" "Some (\<lambda>n. n = ''z'')" "\<lambda>q. False"]
  by (simp add: next_hop_def find_route_sql_def row_at_def demo_routing_def route_key_def effective_max_hops_def)

theorem route_is_table_walk_witness:
  "\<exists>resp. find_route (Some (\<lambda>n. n = ''b'')) (\<lambda>q. q = QSourceRoutes) demo_routing ''a'' ''c'' 1 [] = Inr resp
     \<and> length (fr_Hops resp) = 1 \<and> links (db_routes demo_routing) ''c'' ''a'' (map hop_NodeId (fr_Hops resp))"
proof -
  obtain resp where r: "find_route (Some (\<lambda>n. n = ''b'')) (\<lambda>q. q = QSourceRoutes) demo_routing ''a'' ''c'' 1 [] = Inr resp"
    "length (fr_Hops resp) = 1"
    by (simp add: find_route_def demo_routing_def find_route_sql_def row_at_def route_key_def Let_def
        effective_max_hops_def auto_exclude_def)
  then show ?thesis using route_is_table_walk [OF r(1)] by (simp add: in_int32_def)
qed

theorem update_route_table_effect_witness:
  "\<exists>db'. update_route_table 9 (\<lambda>q. False) ''a'' [\<lparr>re_TargetNodeId = ''c'', re_NextHopId = ''d'', re_Metric = 2, re_LatencyMs = 3\<rparr>]
       demo_routing = (Inr (True, 1, 9), db')
     \<and> route_values (db_routes db') (''a'', ''c'') = Some (''d'', 2, 3, 9)
     \<and> route_values (db_routes db') (''b'', ''c'') = Some (''c'', 1, 5, 0)"
proof -
  let ?es = "[\<lparr>re_TargetNodeId = ''c'', re_NextHopId = ''d'', re_Metric = 2, re_LatencyMs = 3\<rparr>]"
  obtain db' where u: "update_route_table 9 (\<lambda>q. False) ''a'' ?es demo_routing = (Inr (True, 1, 9), db')"
    by (simp add: update_route_table_def wrap32_def)
  have wf: "routes_wf (db_routes demo_routing)"
    by (simp add: routes_wf_def demo_routing_def route_key_def)
  have old: "route_values (db_routes demo_routing) (''b'', ''c'') = Some (''c'', 1, 5, 0)"
    by (simp add: route_values_def demo_routing_def find_route_sql_def row_at_def route_key_def)
  show ?thesis using u update_route_table_effect [OF u wf] old by simp
qed

end
