(* ===== verification/Relay.thy ===== *)
theory Relay
  imports PeerPool ChunkStoreLaws Routing
begin

text \<open>
  The relay network: \<open>internal/relay/client.go\<close>, \<open>rerouter.go\<close>, \<open>replicator.go\<close> and the
  handlers of \<open>services/relay/handler/handler.go\<close>, run on a world of relay nodes. Each node
  has its peer pool and its chunk store; an RPC runs the handler of the node that listens at
  the dialled address, inside the caller's own call, as gRPC does. What is outside the
  program is a record of functions of the time: the answers of discovery and routing, which
  requests and which replies get through, how calls to the file system go, SHA-256. The
  world also keeps the list of handler runs, which the code only logs. The goroutine that
  replicates a chunk is a job added to a list, run by \<open>replicate_chunk\<close>.
\<close>

section \<open>Messages and the world\<close>

record relay_chunk_request =
  rq_TransferId :: string
  rq_ChunkIndex :: int32
  rq_Data :: bytes \<comment> \<open>protobuf delivers an empty field as nil\<close>
  rq_ChunkHash :: string
  rq_RemainingHops :: "route_hop list"
  rq_ReplicationFactor :: int32
  rq_Ttl :: int32
  rq_EncryptionKey :: string

record relay_chunk_response =
  rs_Success :: bool
  rs_NodeId :: node_id
  rs_ErrorMessage :: "relay_error option" \<comment> \<open>the error in the message, none when empty\<close>

record fetch_chunk_response =
  fc_Data :: bytes
  fc_ChunkHash :: string

record replicate_job =
  rj_Node :: node_id
  rj_TransferId :: string
  rj_ChunkIndex :: int32
  rj_Data :: bytes
  rj_ChunkHash :: string
  rj_Factor :: int32
  rj_Exclude :: "node_id list"

record relay_node =
  rn_pool :: peer_pool
  rn_store :: file_store
  rn_rerouter :: bool
  rn_replicator :: bool

record world =
  w_now :: time
  w_nodes :: "node_id \<Rightarrow> relay_node"
  w_jobs :: "replicate_job list"
  w_runs :: "(node_id \<times> relay_chunk_request) list"

record relay_env =
  env_sha :: "bytes \<Rightarrow> string" \<comment> \<open>hexadecimal SHA-256\<close>
  env_info :: "time \<Rightarrow> node_id \<Rightarrow> node_info"
  env_dialFails :: "string \<Rightarrow> bool"
  env_host :: "string \<Rightarrow> node_id option"
  env_up :: "time \<Rightarrow> node_id \<Rightarrow> node_id \<Rightarrow> bool" \<comment> \<open>the request arrives\<close>
  env_chain :: "time \<Rightarrow> string \<Rightarrow> node_id \<Rightarrow> node_id \<Rightarrow> status option" \<comment> \<open>how the interceptors of the called node
      answer a call of a method, \<open>None\<close> when they let it through\<close>
  env_reply :: "time \<Rightarrow> node_id \<Rightarrow> node_id \<Rightarrow> bool" \<comment> \<open>the reply arrives\<close>
  env_delay :: "time \<Rightarrow> time"
  env_route :: "time \<Rightarrow> node_id \<Rightarrow> node_id \<Rightarrow> int32 \<Rightarrow> node_id list \<Rightarrow> status + route_hop list"
  env_peers :: "time \<Rightarrow> node_id \<Rightarrow> int32 \<Rightarrow> status + node_id list"
  env_faults :: "time \<Rightarrow> node_id \<Rightarrow> os_faults"

definition set_pool :: "node_id \<Rightarrow> peer_pool \<Rightarrow> world \<Rightarrow> world" where
  "set_pool me p w = w\<lparr>w_nodes := (w_nodes w)(me := (w_nodes w me)\<lparr>rn_pool := p\<rparr>)\<rparr>"

definition set_store :: "node_id \<Rightarrow> file_store \<Rightarrow> world \<Rightarrow> world" where
  "set_store me st w = w\<lparr>w_nodes := (w_nodes w)(me := (w_nodes w me)\<lparr>rn_store := st\<rparr>)\<rparr>"

abbreviation pool_of :: "world \<Rightarrow> node_id \<Rightarrow> peer_pool" where
  "pool_of w me \<equiv> rn_pool (w_nodes w me)"

abbreviation store_of :: "world \<Rightarrow> node_id \<Rightarrow> file_store" where
  "store_of w me \<equiv> rn_store (w_nodes w me)"

section \<open>The client\<close>

text \<open>An RPC over a connection to an address: the interceptors of the node there, if the
  request arrives, and its handler, if they let the call through; the reply, if that arrives.\<close>

definition rpc_call ::
  "relay_env \<Rightarrow> string \<Rightarrow> (node_id \<Rightarrow> world \<Rightarrow> 'a result \<times> world) \<Rightarrow> node_id \<Rightarrow> string \<Rightarrow> world
     \<Rightarrow> 'a result \<times> world" where
  "rpc_call env fullMethod handler me addr w =
     (let w1 = w\<lparr>w_now := w_now w + env_delay env (w_now w)\<rparr> in
      case env_host env addr of
        None \<Rightarrow> (Inl (Status Unavailable ''connection refused''), w1)
      | Some h \<Rightarrow>
          if \<not> env_up env (w_now w1) me h then (Inl (Status Unavailable ''request lost''), w1)
          else
            let (r, w2) = (case env_chain env (w_now w1) fullMethod me h of
                             Some st \<Rightarrow> (Inl st, w1)
                           | None \<Rightarrow> handler h w1) in
            if \<not> env_reply env (w_now w2) h me then (Inl (Status Unavailable ''reply lost''), w2)
            else (r, w2))"

text \<open>The common shape of \<open>ForwardChunk\<close>, \<open>FetchChunk\<close> and \<open>PingNode\<close>: ask the breaker, get a
  connection, call, report the outcome to the breaker.\<close>

definition with_peer ::
  "relay_env \<Rightarrow> string \<Rightarrow> (node_id \<Rightarrow> world \<Rightarrow> 'a result \<times> world) \<Rightarrow> node_id \<Rightarrow> node_id \<Rightarrow> world
     \<Rightarrow> (relay_error + 'a) \<times> world" where
  "with_peer env fullMethod handler me nid w =
     (let (ok, p1) = peer_allow (w_now w) nid (pool_of w me); w1 = set_pool me p1 w in
      if \<not> ok then (Inl (ErrCircuitOpen nid), w1)
      else
        let (c, p2) = get_conn (env_info env (w_now w) nid) (env_dialFails env) nid p1 in
        case c of
          Inl e \<Rightarrow> (Inl e, set_pool me (peer_failure (w_now w) nid p2) w1)
        | Inr addr \<Rightarrow>
            let (r, w2) = rpc_call env fullMethod handler me addr (set_pool me p2 w1) in
            case r of
              Inl st \<Rightarrow> (Inl (ErrRpc st), set_pool me (peer_failure (w_now w2) nid (pool_of w2 me)) w2)
            | Inr v \<Rightarrow> (Inr v, set_pool me (peer_success nid (pool_of w2 me)) w2))"

definition relay_chunk_method :: string where
  "relay_chunk_method = ''/relay.v1.RelayService/RelayChunk''"

type_synonym relay_rpc =
  "node_id \<Rightarrow> relay_chunk_request \<Rightarrow> world \<Rightarrow> relay_chunk_response result \<times> world"

definition forward_chunk ::
  "relay_env \<Rightarrow> relay_rpc \<Rightarrow> node_id \<Rightarrow> node_id \<Rightarrow> relay_chunk_request \<Rightarrow> world
     \<Rightarrow> (relay_error + relay_chunk_response) \<times> world" where
  "forward_chunk env rpc me nid req w = with_peer env relay_chunk_method (\<lambda>h. rpc h req) me nid w"

section \<open>Rerouting\<close>

definition find_alternative_route ::
  "relay_env \<Rightarrow> time \<Rightarrow> node_id \<Rightarrow> node_id \<Rightarrow> node_id \<Rightarrow> route_hop list option" where
  "find_alternative_route env now src target failed =
     (case env_route env now src target 10 [failed] of
        Inl e \<Rightarrow> None
      | Inr hops \<Rightarrow> if length hops = 0 then None else Some hops)"

section \<open>The handlers\<close>

definition is_final_destination :: "node_id \<Rightarrow> route_hop list \<Rightarrow> bool" where
  "is_final_destination me hops \<longleftrightarrow>
     (if length hops = 0 then True else length hops = 1 \<and> hop_NodeId (hops ! 0) = me)"

definition save_at ::
  "relay_env \<Rightarrow> node_id \<Rightarrow> relay_chunk_request \<Rightarrow> world \<Rightarrow> (store_error + string) \<times> world" where
  "save_at env me req w =
     (let (r, st) = save_chunk (env_sha env) (env_faults env (w_now w) me) (rq_TransferId req)
                      (rq_ChunkIndex req) (rq_Data req) (store_of w me)
      in (r, set_store me st w))"

definition store_final ::
  "relay_env \<Rightarrow> node_id \<Rightarrow> relay_chunk_request \<Rightarrow> world \<Rightarrow> relay_chunk_response result \<times> world" where
  "store_final env me req w =
     (let (r, w1) = save_at env me req w in
      case r of
        Inl e \<Rightarrow> (Inl (Status Internal ''save chunk''), w1)
      | Inr _ \<Rightarrow>
          (Inr \<lparr>rs_Success = True, rs_NodeId = me, rs_ErrorMessage = None\<rparr>,
           if rn_replicator (w_nodes w1 me) \<and> rq_ReplicationFactor req > 1
           then w1\<lparr>w_jobs := w_jobs w1 @ [\<lparr>rj_Node = me, rj_TransferId = rq_TransferId req,
                    rj_ChunkIndex = rq_ChunkIndex req, rj_Data = rq_Data req,
                    rj_ChunkHash = rq_ChunkHash req, rj_Factor = rq_ReplicationFactor req,
                    rj_Exclude = [me]\<rparr>]\<rparr>
           else w1))"

definition store_fallback ::
  "relay_env \<Rightarrow> node_id \<Rightarrow> relay_chunk_request \<Rightarrow> relay_error \<Rightarrow> world
     \<Rightarrow> relay_chunk_response result \<times> world" where
  "store_fallback env me req err w =
     (let (r, w1) = save_at env me req w in
      case r of
        Inl e \<Rightarrow> (Inl (Status Internal ''forward and local save both failed''), w1)
      | Inr _ \<Rightarrow> (Inr \<lparr>rs_Success = False, rs_NodeId = me, rs_ErrorMessage = Some err\<rparr>, w1))"

definition forward_request :: "relay_chunk_request \<Rightarrow> route_hop list \<Rightarrow> relay_chunk_request" where
  "forward_request req hops = req\<lparr>rq_RemainingHops := hops, rq_Ttl := wrap32 (rq_Ttl req - 1)\<rparr>"

definition reroute ::
  "relay_env \<Rightarrow> relay_rpc \<Rightarrow> node_id \<Rightarrow> relay_chunk_request \<Rightarrow> relay_error \<Rightarrow> world
     \<Rightarrow> relay_chunk_response result \<times> world" where
  "reroute env rpc me req err w =
     (let nextHop = rq_RemainingHops req ! 0;
          finalDest = hop_NodeId (last (rq_RemainingHops req))
      in if rn_rerouter (w_nodes w me) \<and> length (rq_RemainingHops req) > 0
         then case find_alternative_route env (w_now w) me finalDest (hop_NodeId nextHop) of
                None \<Rightarrow> store_fallback env me req err w
              | Some newHops \<Rightarrow>
                  let (r, w1) = forward_chunk env rpc me (hop_NodeId (newHops ! 0))
                                  (forward_request req (drop 1 newHops)) w
                  in (case r of
                        Inr resp \<Rightarrow> (Inr resp, w1)
                      | Inl err' \<Rightarrow> store_fallback env me req err' w1)
         else store_fallback env me req err w)"

definition relay_body ::
  "relay_env \<Rightarrow> relay_rpc \<Rightarrow> relay_rpc" where
  "relay_body env rpc me req w0 =
     (let w = w0\<lparr>w_runs := w_runs w0 @ [(me, req)]\<rparr> in
      if rq_TransferId req = '''' \<or> rq_Data req = []
      then (Inl (Status InvalidArgument ''transfer_id and data are required''), w)
      else if rq_Ttl req \<le> 0
      then (Inl (Status ResourceExhausted ''TTL expired, dropping chunk''), w)
      else if rq_ChunkHash req \<noteq> '''' \<and> env_sha env (rq_Data req) \<noteq> rq_ChunkHash req
      then (Inl (Status DataLoss ''chunk hash mismatch''), w)
      else if length (rq_RemainingHops req) = 0 \<or> is_final_destination me (rq_RemainingHops req)
      then store_final env me req w
      else
        let (r, w1) = forward_chunk env rpc me (hop_NodeId (rq_RemainingHops req ! 0))
                        (forward_request req (drop 1 (rq_RemainingHops req))) w
        in case r of
             Inr resp \<Rightarrow> (Inr resp, w1)
           | Inl err \<Rightarrow> reroute env rpc me req err w1)"

text \<open>The handler calls itself on other nodes with a smaller time to live, so as many levels
  as that are enough.\<close>

primrec relay_levels :: "relay_env \<Rightarrow> nat \<Rightarrow> relay_rpc" where
  "relay_levels env 0 = (\<lambda>me req w. (Inl (Status Internal ''too deep''), w))"
| "relay_levels env (Suc k) = relay_body env (relay_levels env k)"

definition relay_chunk :: "relay_env \<Rightarrow> relay_rpc" where
  "relay_chunk env me req w = relay_levels env (Suc (nat (rq_Ttl req))) me req w"

definition fetch_chunk_handler ::
  "relay_env \<Rightarrow> string \<Rightarrow> int32 \<Rightarrow> node_id \<Rightarrow> world \<Rightarrow> fetch_chunk_response result \<times> world" where
  "fetch_chunk_handler env tid i me w =
     (if tid = '''' then (Inl (Status InvalidArgument ''transfer_id is required''), w)
      else case load_chunk (env_faults env (w_now w) me) tid i (store_of w me) of
             Inl e \<Rightarrow> (Inl (Status NotFound ''chunk not found''), w)
           | Inr data \<Rightarrow> (Inr \<lparr>fc_Data = data, fc_ChunkHash = env_sha env data\<rparr>, w))"

definition ping_handler :: "node_id \<Rightarrow> world \<Rightarrow> (node_id \<times> int64) result \<times> world" where
  "ping_handler me w = (Inr (me, w_now w div 1000000), w)"

definition fetch_chunk ::
  "relay_env \<Rightarrow> node_id \<Rightarrow> node_id \<Rightarrow> string \<Rightarrow> int32 \<Rightarrow> world
     \<Rightarrow> (relay_error + fetch_chunk_response) \<times> world" where
  "fetch_chunk env me nid tid i w = with_peer env ''/relay.v1.RelayService/FetchChunk'' (fetch_chunk_handler env tid i) me nid w"

definition ping_node ::
  "relay_env \<Rightarrow> node_id \<Rightarrow> node_id \<Rightarrow> world \<Rightarrow> (relay_error + time) \<times> world" where
  "ping_node env me nid w =
     (let (r, w1) = with_peer env ''/relay.v1.RelayService/Ping'' ping_handler me nid w
      in (case r of Inl e \<Rightarrow> Inl e | Inr _ \<Rightarrow> Inr (w_now w1 - w_now w), w1))"

section \<open>Replication\<close>

text \<open>The loop that picks targets; \<open>acc\<close> holds those picked so far.\<close>

fun pick_targets :: "node_id list \<Rightarrow> int32 \<Rightarrow> node_id list \<Rightarrow> node_id list \<Rightarrow> node_id list" where
  "pick_targets excluded factor [] acc = acc"
| "pick_targets excluded factor (peer # peers) acc =
     (if peer \<in> set excluded then pick_targets excluded factor peers acc
      else
        let acc' = acc @ [peer]
        in if wrap32 (int (length acc')) \<ge> wrap32 (factor - 1) then acc'
           else pick_targets excluded factor peers acc')"

definition replicate_targets :: "relay_env \<Rightarrow> time \<Rightarrow> replicate_job \<Rightarrow> node_id list" where
  "replicate_targets env now j =
     (if rj_Factor j \<le> 1 then []
      else case env_peers env now (rj_TransferId j) (wrap32 (rj_Factor j * 2)) of
             Inl e \<Rightarrow> []
           | Inr peers \<Rightarrow> pick_targets (rj_Exclude j) (rj_Factor j) peers [])"

definition replica_request :: "replicate_job \<Rightarrow> relay_chunk_request" where
  "replica_request j =
     \<lparr>rq_TransferId = rj_TransferId j, rq_ChunkIndex = rj_ChunkIndex j, rq_Data = rj_Data j,
      rq_ChunkHash = rj_ChunkHash j, rq_RemainingHops = [], rq_ReplicationFactor = 1, rq_Ttl = 1,
      rq_EncryptionKey = ''''\<rparr>"

text \<open>The goroutines forward to the targets in some order \<open>ts\<close>.\<close>

definition replicate_to :: "relay_env \<Rightarrow> replicate_job \<Rightarrow> node_id list \<Rightarrow> world \<Rightarrow> world" where
  "replicate_to env j ts w =
     foldl (\<lambda>w t. snd (forward_chunk env (relay_chunk env) (rj_Node j) t (replica_request j) w)) w ts"

definition replicate_chunk :: "relay_env \<Rightarrow> replicate_job \<Rightarrow> world \<Rightarrow> world" where
  "replicate_chunk env j w = replicate_to env j (replicate_targets env (w_now w) j) w"

end
