(* ===== verification/TransferDb.thy ===== *)
theory TransferDb
  imports Tables Relay
begin

text \<open>
  The tables of the transfer service and the queries of
  \<open>services/transfer/repository/queries.sql.go\<close>, one definition per query. The stored JSON of
  a route is kept as the list of hops it encodes. A status is the \<open>int32\<close> of the proto enum.
\<close>

section \<open>Enumerations of the protocol\<close>

abbreviation (input) st_UNSPECIFIED :: int32 where "st_UNSPECIFIED \<equiv> 0"
abbreviation (input) st_PENDING :: int32 where "st_PENDING \<equiv> 1"
abbreviation (input) st_IN_PROGRESS :: int32 where "st_IN_PROGRESS \<equiv> 2"
abbreviation (input) st_COMPLETED :: int32 where "st_COMPLETED \<equiv> 3"
abbreviation (input) st_FAILED :: int32 where "st_FAILED \<equiv> 4"
abbreviation (input) st_CANCELLED :: int32 where "st_CANCELLED \<equiv> 5"
abbreviation (input) st_AWAITING_APPROVAL :: int32 where "st_AWAITING_APPROVAL \<equiv> 6"
abbreviation (input) st_PAUSED :: int32 where "st_PAUSED \<equiv> 7"

abbreviation (input) mode_RELAY :: int32 where "mode_RELAY \<equiv> 1"
abbreviation (input) mode_P2P_DIRECT :: int32 where "mode_P2P_DIRECT \<equiv> 2"

section \<open>Tables\<close>

record transfer_row =
  tr_TransferID :: string
  tr_SenderNodeID :: node_id
  tr_ReceiverNodeID :: node_id
  tr_Filename :: string
  tr_TotalSizeBytes :: int64
  tr_ContentHash :: string
  tr_ChunkSizeBytes :: int32
  tr_TotalChunks :: int32
  tr_ChunksDone :: int32
  tr_Status :: int32
  tr_CreatedAt :: time
  tr_UpdatedAt :: time
  tr_EncryptionKey :: string
  tr_RouteHops :: "route_hop list"
  tr_ReplicationFactor :: int32
  tr_SenderEphemeralPubkey :: bytes
  tr_TransferMode :: int32
  tr_GroupTransferID :: "string option"
  tr_WrappedFileKey :: bytes

record group_row =
  gr_ID :: string
  gr_SessionID :: string
  gr_SenderNodeID :: node_id
  gr_Filename :: string
  gr_TotalSizeBytes :: int64
  gr_ContentHash :: string
  gr_ChunkSizeBytes :: int32
  gr_TotalChunks :: int32
  gr_SenderEphemeralPubkey :: bytes
  gr_CreatedAt :: time

record transfer_db =
  td_transfers :: "transfer_row list"
  td_groups :: "group_row list"

section \<open>Queries\<close>

text \<open>The parameters of \<open>CreateTransfer\<close> are the row without the columns that take their
  default: \<open>chunks_done\<close> 0, \<open>transfer_mode\<close> 1, both times now. A duplicate key is an error.\<close>

definition create_transfer_sql :: "time \<Rightarrow> transfer_row \<Rightarrow> transfer_row list \<Rightarrow> (transfer_row \<times> transfer_row list) option" where
  "create_transfer_sql now p t =
     (if tr_TransferID p \<in> set (map tr_TransferID t) then None
      else
        let r = p\<lparr>tr_ChunksDone := 0, tr_TransferMode := 1, tr_CreatedAt := now, tr_UpdatedAt := now\<rparr>
        in Some (r, t @ [r]))"

definition get_transfer_sql :: "string \<Rightarrow> transfer_row list \<Rightarrow> transfer_row option" where
  "get_transfer_sql tid t = row_at tr_TransferID tid t"

definition touches_node :: "node_id \<Rightarrow> transfer_row \<Rightarrow> bool" where
  "touches_node n r \<longleftrightarrow> tr_SenderNodeID r = n \<or> tr_ReceiverNodeID r = n"

definition newest_first :: "('r \<Rightarrow> time) \<Rightarrow> 'r list \<Rightarrow> 'r list" where
  "newest_first created t = sort_key (\<lambda>r. - created r) t"

definition list_transfers_by_node_sql :: "node_id \<Rightarrow> transfer_row list \<Rightarrow> transfer_row list" where
  "list_transfers_by_node_sql n t = newest_first tr_CreatedAt (filter (touches_node n) t)"

definition list_transfers_by_status_sql :: "node_id \<Rightarrow> int32 \<Rightarrow> transfer_row list \<Rightarrow> transfer_row list" where
  "list_transfers_by_status_sql n st t =
     newest_first tr_CreatedAt (filter (\<lambda>r. touches_node n r \<and> tr_Status r = st) t)"

definition update_transfer_progress_sql :: "time \<Rightarrow> string \<Rightarrow> int32 \<Rightarrow> transfer_row list \<Rightarrow> transfer_row list" where
  "update_transfer_progress_sql now tid n t =
     update_rows (\<lambda>r. tr_TransferID r = tid) (\<lambda>r. r\<lparr>tr_ChunksDone := n, tr_UpdatedAt := now\<rparr>) t"

definition update_transfer_status_sql :: "time \<Rightarrow> string \<Rightarrow> int32 \<Rightarrow> transfer_row list \<Rightarrow> transfer_row list" where
  "update_transfer_status_sql now tid st t =
     update_rows (\<lambda>r. tr_TransferID r = tid) (\<lambda>r. r\<lparr>tr_Status := st, tr_UpdatedAt := now\<rparr>) t"

definition complete_transfer_sql :: "time \<Rightarrow> string \<Rightarrow> transfer_row list \<Rightarrow> transfer_row list" where
  "complete_transfer_sql now tid t =
     update_rows (\<lambda>r. tr_TransferID r = tid)
       (\<lambda>r. r\<lparr>tr_Status := 3, tr_ChunksDone := tr_TotalChunks r, tr_UpdatedAt := now\<rparr>) t"

definition update_route_hops_sql :: "time \<Rightarrow> string \<Rightarrow> route_hop list \<Rightarrow> transfer_row list \<Rightarrow> transfer_row list" where
  "update_route_hops_sql now tid hops t =
     update_rows (\<lambda>r. tr_TransferID r = tid) (\<lambda>r. r\<lparr>tr_RouteHops := hops, tr_UpdatedAt := now\<rparr>) t"

definition update_transfer_mode_sql :: "time \<Rightarrow> string \<Rightarrow> int32 \<Rightarrow> transfer_row list \<Rightarrow> transfer_row list" where
  "update_transfer_mode_sql now tid m t =
     update_rows (\<lambda>r. tr_TransferID r = tid) (\<lambda>r. r\<lparr>tr_TransferMode := m, tr_UpdatedAt := now\<rparr>) t"

definition confirm_p2p_sql :: "time \<Rightarrow> string \<Rightarrow> int32 \<Rightarrow> int32 \<Rightarrow> int32 \<Rightarrow> transfer_row list \<Rightarrow> transfer_row list" where
  "confirm_p2p_sql now tid st n m t =
     update_rows (\<lambda>r. tr_TransferID r = tid)
       (\<lambda>r. r\<lparr>tr_Status := st, tr_ChunksDone := n, tr_TransferMode := m, tr_UpdatedAt := now\<rparr>) t"

definition create_group_sql :: "time \<Rightarrow> group_row \<Rightarrow> group_row list \<Rightarrow> (group_row \<times> group_row list) option" where
  "create_group_sql now p t =
     (if gr_ID p \<in> set (map gr_ID t) then None
      else let r = p\<lparr>gr_CreatedAt := now\<rparr> in Some (r, t @ [r]))"

definition get_group_sql :: "string \<Rightarrow> group_row list \<Rightarrow> group_row option" where
  "get_group_sql gid t = row_at gr_ID gid t"

definition list_groups_by_session_sql :: "string \<Rightarrow> group_row list \<Rightarrow> group_row list" where
  "list_groups_by_session_sql sid t = newest_first gr_CreatedAt (filter (\<lambda>g. gr_SessionID g = sid) t)"

definition list_transfers_by_group_sql :: "string \<Rightarrow> transfer_row list \<Rightarrow> transfer_row list" where
  "list_transfers_by_group_sql gid t = sort_key tr_CreatedAt (filter (\<lambda>r. tr_GroupTransferID r = Some gid) t)"

definition count_transfers_sql :: "transfer_row list \<Rightarrow> int64" where
  "count_transfers_sql t = int (length t)"

definition sum_transferred_sql :: "transfer_row list \<Rightarrow> int64" where
  "sum_transferred_sql t = sum_list (map tr_TotalSizeBytes (filter (\<lambda>r. tr_Status r = 3) t))"

definition admin_list_transfers_sql :: "int32 \<Rightarrow> int32 \<Rightarrow> transfer_row list \<Rightarrow> transfer_row list" where
  "admin_list_transfers_sql limit offset t = sql_page limit offset (newest_first tr_CreatedAt t)"

text \<open>Days are counted from the epoch; a day's row has the number of transfers created on it.\<close>

definition day_of :: "time \<Rightarrow> int" where
  "day_of x = x div (86400 * second)"

definition activity_heatmap_sql :: "time \<Rightarrow> node_id \<Rightarrow> transfer_row list \<Rightarrow> (int \<times> int64) list" where
  "activity_heatmap_sql now n t =
     (let rows = filter (\<lambda>r. touches_node n r \<and> tr_CreatedAt r \<ge> now - 364 * 86400 * second) t;
          days = sort (remdups (map (\<lambda>r. day_of (tr_CreatedAt r)) rows))
      in map (\<lambda>d. (d, int (length (filter (\<lambda>r. day_of (tr_CreatedAt r) = d) rows)))) days)"

definition speed_stats_sql :: "time \<Rightarrow> node_id \<Rightarrow> transfer_row list \<Rightarrow> int64 \<times> int64" where
  "speed_stats_sql now n t =
     (let rows = filter (\<lambda>r. touches_node n r \<and> tr_Status r = 3 \<and> tr_UpdatedAt r \<ge> now - 60 * second) t
      in (sum_list (map tr_TotalSizeBytes rows), int (length rows)))"

section \<open>Reading back\<close>

lemma get_update_progress [simp]:
  "get_transfer_sql tid (update_transfer_progress_sql now tid' n t) =
     map_option (\<lambda>r. if tr_TransferID r = tid' then r\<lparr>tr_ChunksDone := n, tr_UpdatedAt := now\<rparr> else r)
       (get_transfer_sql tid t)"
  by (simp add: get_transfer_sql_def update_transfer_progress_sql_def row_at_update_rows)

lemma get_update_status [simp]:
  "get_transfer_sql tid (update_transfer_status_sql now tid' st t) =
     map_option (\<lambda>r. if tr_TransferID r = tid' then r\<lparr>tr_Status := st, tr_UpdatedAt := now\<rparr> else r)
       (get_transfer_sql tid t)"
  by (simp add: get_transfer_sql_def update_transfer_status_sql_def row_at_update_rows)

lemma get_complete [simp]:
  "get_transfer_sql tid (complete_transfer_sql now tid' t) =
     map_option (\<lambda>r. if tr_TransferID r = tid'
       then r\<lparr>tr_Status := 3, tr_ChunksDone := tr_TotalChunks r, tr_UpdatedAt := now\<rparr> else r)
       (get_transfer_sql tid t)"
  by (simp add: get_transfer_sql_def complete_transfer_sql_def row_at_update_rows)

lemma get_confirm [simp]:
  "get_transfer_sql tid (confirm_p2p_sql now tid' st n m t) =
     map_option (\<lambda>r. if tr_TransferID r = tid'
       then r\<lparr>tr_Status := st, tr_ChunksDone := n, tr_TransferMode := m, tr_UpdatedAt := now\<rparr> else r)
       (get_transfer_sql tid t)"
  by (simp add: get_transfer_sql_def confirm_p2p_sql_def row_at_update_rows)

lemma get_transfer_key: "get_transfer_sql tid t = Some r \<Longrightarrow> tr_TransferID r = tid"
  by (auto simp: get_transfer_sql_def dest: row_at_key)

lemma get_create [simp]:
  "create_transfer_sql now p t = Some (r, t') \<Longrightarrow>
     get_transfer_sql tid t' = (if tid = tr_TransferID p then Some r else get_transfer_sql tid t)"
  using row_at_None [of tr_TransferID "tr_TransferID p" t]
  by (auto simp: create_transfer_sql_def get_transfer_sql_def row_at_append Let_def
      split: if_splits option.splits)

end
