(* ===== verification/TransferService.thy ===== *)
theory TransferService
  imports TransferDb
begin

text \<open>
  The transfer service, \<open>services/transfer/handler/handler.go\<close>, handler by handler. The state
  is the database and the relay world: the service shares the chunk store and the peer pool of
  the relay node it runs beside (\<open>cmd/transfer/main.go\<close>). The parts that may be nil are in the
  configuration; ids from \<open>uuid.NewString\<close> and the parser of session ids are arguments; the
  fault predicate says which queries fail. A stream is the list of its messages and how it ends.
\<close>

section \<open>State and configuration\<close>

record transfer_service =
  ts_db :: transfer_db
  ts_net :: world

record transfer_config =
  tc_NodeID :: node_id
  tc_routing :: "(node_id \<Rightarrow> node_id \<Rightarrow> int32 \<Rightarrow> find_route_response result) option"
  tc_chunks :: bool
  tc_relay :: bool
  tc_p2p :: "(string \<times> string list) option" \<comment> \<open>peer id and addresses\<close>

datatype transfer_query =
    QCreateTransfer nat | QGetTransfer | QGetGroup | QSiblings | QSiblingStatus nat | QSetStatus
  | QProgress nat nat | QComplete nat | QListTransfers | QConfirm | QCreateGroup | QListGroups
  | QGroupChildren nat | QAdminList | QCount | QSum | QActivity | QSpeed

type_synonym transfer_faults = "transfer_query \<Rightarrow> bool"

abbreviation transfers_of :: "transfer_service \<Rightarrow> transfer_row list" where
  "transfers_of s \<equiv> td_transfers (ts_db s)"

abbreviation groups_of :: "transfer_service \<Rightarrow> group_row list" where
  "groups_of s \<equiv> td_groups (ts_db s)"

abbreviation clock :: "transfer_service \<Rightarrow> time" where
  "clock s \<equiv> w_now (ts_net s)"

definition set_transfers :: "transfer_row list \<Rightarrow> transfer_service \<Rightarrow> transfer_service" where
  "set_transfers t s = s\<lparr>ts_db := (ts_db s)\<lparr>td_transfers := t\<rparr>\<rparr>"

definition set_groups :: "group_row list \<Rightarrow> transfer_service \<Rightarrow> transfer_service" where
  "set_groups t s = s\<lparr>ts_db := (ts_db s)\<lparr>td_groups := t\<rparr>\<rparr>"

text \<open>An update whose error the handler ignores.\<close>

definition try_update ::
  "bool \<Rightarrow> (transfer_row list \<Rightarrow> transfer_row list) \<Rightarrow> transfer_service \<Rightarrow> transfer_service" where
  "try_update failed f s = (if failed then s else set_transfers (f (transfers_of s)) s)"

section \<open>Initiating a transfer\<close>

definition default_chunk_size :: int32 where
  "default_chunk_size = 256 * 1024"

definition chunk_size_of :: "int32 \<Rightarrow> int32" where
  "chunk_size_of requested = (if requested \<le> 0 then default_chunk_size else requested)"

definition total_chunks_of :: "int64 \<Rightarrow> int32 \<Rightarrow> int32" where
  "total_chunks_of totalSize chunkSize = wrap32 (wrap64 (totalSize + chunkSize - 1) sdiv chunkSize)"

record initiate_request =
  ir_SenderNodeId :: node_id
  ir_ReceiverNodeId :: node_id
  ir_Filename :: string
  ir_TotalSizeBytes :: int64
  ir_ContentHash :: string
  ir_ChunkSizeBytes :: int32
  ir_EncryptionKey :: string
  ir_ReplicationFactor :: int32
  ir_SenderEphemeralPubkey :: bytes
  ir_AutoApprove :: bool

record initiate_response =
  is_TransferId :: string
  is_TotalChunks :: int32
  is_Status :: int32
  is_CreatedAt :: time
  is_RouteHops :: "route_hop list"
  is_SenderEphemeralPubkey :: bytes
  is_TransferMode :: int32
  is_ReceiverPeerId :: string
  is_ReceiverAddrs :: "string list"

definition initiate_transfer ::
  "transfer_config \<Rightarrow> transfer_faults \<Rightarrow> string \<Rightarrow> initiate_request \<Rightarrow> transfer_service
     \<Rightarrow> initiate_response result \<times> transfer_service" where
  "initiate_transfer cfg flt newID req s =
     (if ir_SenderNodeId req = '''' \<or> ir_ReceiverNodeId req = ''''
      then (Inl (Status InvalidArgument ''sender_node_id and receiver_node_id are required''), s)
      else if ir_TotalSizeBytes req \<le> 0
      then (Inl (Status InvalidArgument ''total_size_bytes must be positive''), s)
      else
        let routeHops =
              (case tc_routing cfg of
                 None \<Rightarrow> []
               | Some route \<Rightarrow>
                   (case route (ir_SenderNodeId req) (ir_ReceiverNodeId req) 10 of
                      Inl e \<Rightarrow> []
                    | Inr resp \<Rightarrow> fr_Hops resp));
            chunkSize = chunk_size_of (ir_ChunkSizeBytes req);
            totalChunks = total_chunks_of (ir_TotalSizeBytes req) chunkSize
        in if ir_EncryptionKey req \<noteq> ''''
           then (Inl (Status InvalidArgument
                   ''encryption_key must not be sent to server; encrypt chunks client-side''), s)
           else if length (ir_SenderEphemeralPubkey req) \<noteq> 32
           then (Inl (Status InvalidArgument
                   ''sender_ephemeral_pubkey must be exactly 32 bytes (X25519 public key)''), s)
           else
             let repl = (if ir_ReplicationFactor req \<le> 0 then 1 else ir_ReplicationFactor req);
                 initialStatus = (if \<not> ir_AutoApprove req then st_AWAITING_APPROVAL else st_PENDING);
                 row = \<lparr>tr_TransferID = newID, tr_SenderNodeID = ir_SenderNodeId req,
                        tr_ReceiverNodeID = ir_ReceiverNodeId req, tr_Filename = ir_Filename req,
                        tr_TotalSizeBytes = ir_TotalSizeBytes req, tr_ContentHash = ir_ContentHash req,
                        tr_ChunkSizeBytes = chunkSize, tr_TotalChunks = totalChunks, tr_ChunksDone = 0,
                        tr_Status = initialStatus, tr_CreatedAt = 0, tr_UpdatedAt = 0,
                        tr_EncryptionKey = '''', tr_RouteHops = routeHops, tr_ReplicationFactor = repl,
                        tr_SenderEphemeralPubkey = ir_SenderEphemeralPubkey req, tr_TransferMode = 1,
                        tr_GroupTransferID = None, tr_WrappedFileKey = []\<rparr>
             in case db_row (flt (QCreateTransfer 0)) (create_transfer_sql (clock s) row (transfers_of s)) of
                  Inl e \<Rightarrow> (Inl (Status Internal ''failed to create transfer''), s)
                | Inr (t, rows) \<Rightarrow>
                    (Inr \<lparr>is_TransferId = tr_TransferID t, is_TotalChunks = totalChunks,
                          is_Status = initialStatus, is_CreatedAt = tr_CreatedAt t,
                          is_RouteHops = routeHops,
                          is_SenderEphemeralPubkey = tr_SenderEphemeralPubkey t,
                          is_TransferMode = (if tc_p2p cfg = None then mode_RELAY else mode_P2P_DIRECT),
                          is_ReceiverPeerId = (case tc_p2p cfg of None \<Rightarrow> '''' | Some (p, _) \<Rightarrow> p),
                          is_ReceiverAddrs = (case tc_p2p cfg of None \<Rightarrow> [] | Some (_, a) \<Rightarrow> a)\<rparr>,
                     set_transfers rows s))"

section \<open>Uploading\<close>

record data_chunk =
  dc_TransferId :: string
  dc_ChunkIndex :: int32
  dc_Data :: bytes
  dc_ChunkHash :: string
  dc_IsLast :: bool

record send_response =
  sd_TransferId :: string
  sd_ChunksReceived :: int32
  sd_TotalChunks :: int32
  sd_Status :: int32

text \<open>The local variables of \<open>SendChunk\<close>.\<close>

record send_state =
  ss_transferID :: string
  ss_storageID :: string
  ss_received :: int32
  ss_total :: int32
  ss_hops :: "route_hop list"
  ss_replication :: int32
  ss_isGroup :: bool
  ss_siblings :: "string list"

definition send_start :: send_state where
  "send_start =
     \<lparr>ss_transferID = '''', ss_storageID = '''', ss_received = 0, ss_total = 0, ss_hops = [],
      ss_replication = 0, ss_isGroup = False, ss_siblings = []\<rparr>"

fun mark_siblings ::
  "transfer_faults \<Rightarrow> nat \<Rightarrow> transfer_row list \<Rightarrow> transfer_service \<Rightarrow> transfer_service" where
  "mark_siblings flt i [] s = s"
| "mark_siblings flt i (r # rs) s =
     mark_siblings flt (i + 1) rs
       (try_update (flt (QSiblingStatus i))
          (update_transfer_status_sql (clock s) (tr_TransferID r) st_IN_PROGRESS) s)"

definition open_group ::
  "transfer_faults \<Rightarrow> string \<Rightarrow> group_row \<Rightarrow> send_state \<Rightarrow> transfer_service \<Rightarrow> send_state \<times> transfer_service" where
  "open_group flt tid gt st s =
     (let siblings = (case db_run (flt QSiblings) (list_transfers_by_group_sql (gr_ID gt) (transfers_of s)) of
                        Inl e \<Rightarrow> [] | Inr rows \<Rightarrow> rows)
      in (st\<lparr>ss_transferID := tid, ss_isGroup := True, ss_storageID := gr_ID gt,
             ss_total := gr_TotalChunks gt, ss_replication := 1,
             ss_siblings := ss_siblings st @ map tr_TransferID siblings\<rparr>,
          mark_siblings flt 0 siblings s))"

definition open_single ::
  "transfer_faults \<Rightarrow> string \<Rightarrow> send_state \<Rightarrow> transfer_service \<Rightarrow> send_state result \<times> transfer_service" where
  "open_single flt tid st s =
     (case db_row (flt QGetTransfer) (get_transfer_sql tid (transfers_of s)) of
        Inl e \<Rightarrow> (Inl (Status NotFound ''transfer not found''), s)
      | Inr t \<Rightarrow>
          if tr_Status t = st_AWAITING_APPROVAL
          then (Inl (Status FailedPrecondition ''transfer is awaiting receiver approval''), s)
          else if tr_Status t = st_PAUSED
          then (Inl (Status FailedPrecondition ''transfer is paused''), s)
          else
            (Inr (st\<lparr>ss_transferID := tid,
                     ss_storageID := (case tr_GroupTransferID t of None \<Rightarrow> tr_TransferID t | Some g \<Rightarrow> g),
                     ss_total := tr_TotalChunks t, ss_replication := tr_ReplicationFactor t,
                     ss_hops := (if tr_RouteHops t = [] then ss_hops st else tr_RouteHops t)\<rparr>),
             if ss_isGroup st then s
             else try_update (flt QSetStatus) (update_transfer_status_sql (clock s) tid st_IN_PROGRESS) s))"

definition open_upload ::
  "transfer_faults \<Rightarrow> string \<Rightarrow> send_state \<Rightarrow> transfer_service \<Rightarrow> send_state result \<times> transfer_service" where
  "open_upload flt tid st s =
     (case db_row (flt QGetGroup) (get_group_sql tid (groups_of s)) of
        Inr gt \<Rightarrow> (let (st', s') = open_group flt tid gt st s in (Inr st', s'))
      | Inl e \<Rightarrow> open_single flt tid st s)"

definition filter_self_from_hops :: "node_id \<Rightarrow> route_hop list \<Rightarrow> route_hop list" where
  "filter_self_from_hops me hops =
     (case dropWhile (\<lambda>h. hop_NodeId h \<noteq> me) hops of [] \<Rightarrow> hops | _ # rest \<Rightarrow> rest)"

definition upload_request :: "send_state \<Rightarrow> data_chunk \<Rightarrow> route_hop list \<Rightarrow> relay_chunk_request" where
  "upload_request st c remaining =
     \<lparr>rq_TransferId = ss_transferID st, rq_ChunkIndex = dc_ChunkIndex c, rq_Data = dc_Data c,
      rq_ChunkHash = dc_ChunkHash c, rq_RemainingHops = remaining,
      rq_ReplicationFactor = ss_replication st, rq_Ttl = wrap32 (int (length remaining) + 2),
      rq_EncryptionKey = ''''\<rparr>"

definition relay_upload ::
  "transfer_config \<Rightarrow> relay_env \<Rightarrow> send_state \<Rightarrow> data_chunk \<Rightarrow> world \<Rightarrow> world" where
  "relay_upload cfg env st c w =
     (if tc_relay cfg \<and> length (ss_hops st) > 0
      then
        let remaining = filter_self_from_hops (tc_NodeID cfg) (ss_hops st)
        in if length remaining > 0
           then snd (forward_chunk env (relay_chunk env) (tc_NodeID cfg) (hop_NodeId (remaining ! 0))
                  (upload_request st c remaining) w)
           else w
      else w)"

fun progress_siblings ::
  "transfer_faults \<Rightarrow> nat \<Rightarrow> nat \<Rightarrow> int32 \<Rightarrow> string list \<Rightarrow> transfer_service \<Rightarrow> transfer_service" where
  "progress_siblings flt k i n [] s = s"
| "progress_siblings flt k i n (tid # tids) s =
     progress_siblings flt k (i + 1) n tids
       (try_update (flt (QProgress k i)) (update_transfer_progress_sql (clock s) tid n) s)"

definition persist_chunk ::
  "transfer_config \<Rightarrow> relay_env \<Rightarrow> send_state \<Rightarrow> data_chunk \<Rightarrow> world \<Rightarrow> bool \<times> world" where
  "persist_chunk cfg env st c w =
     (if tc_chunks cfg
      then let (r, fs) = save_chunk (env_sha env) (env_faults env (w_now w) (tc_NodeID cfg))
                           (ss_storageID st) (dc_ChunkIndex c) (dc_Data c) (store_of w (tc_NodeID cfg))
           in (is_ok r, set_store (tc_NodeID cfg) fs w)
      else (True, w))"

text \<open>The rest of the loop body for the \<open>k\<close>-th message.\<close>

definition upload_chunk ::
  "transfer_config \<Rightarrow> relay_env \<Rightarrow> transfer_faults \<Rightarrow> nat \<Rightarrow> send_state \<Rightarrow> data_chunk
     \<Rightarrow> transfer_service \<Rightarrow> send_state result \<times> transfer_service" where
  "upload_chunk cfg env flt k st c s =
     (if dc_ChunkHash c = ''''
      then (Inl (Status InvalidArgument ''chunk_hash is required for integrity verification''), s)
      else if env_sha env (dc_Data c) \<noteq> dc_ChunkHash c
      then (Inl (Status DataLoss ''chunk hash mismatch''), s)
      else
        let (ok, w1) = persist_chunk cfg env st c (ts_net s) in
        if \<not> ok then (Inl (Status Internal ''failed to persist chunk''), s\<lparr>ts_net := w1\<rparr>)
        else
          let s2 = s\<lparr>ts_net := relay_upload cfg env st c w1\<rparr>;
              received = wrap32 (dc_ChunkIndex c + 1)
          in (Inr (st\<lparr>ss_received := received\<rparr>),
              if ss_isGroup st then progress_siblings flt k 0 received (ss_siblings st) s2
              else try_update (flt (QProgress k 0))
                     (update_transfer_progress_sql (clock s2) (ss_transferID st) received) s2))"

fun complete_siblings ::
  "transfer_faults \<Rightarrow> nat \<Rightarrow> string list \<Rightarrow> transfer_service \<Rightarrow> transfer_service" where
  "complete_siblings flt i [] s = s"
| "complete_siblings flt i (tid # tids) s =
     complete_siblings flt (i + 1) tids
       (try_update (flt (QComplete i)) (complete_transfer_sql (clock s) tid) s)"

definition finish_upload ::
  "transfer_faults \<Rightarrow> send_state \<Rightarrow> transfer_service \<Rightarrow> send_response result \<times> transfer_service" where
  "finish_upload flt st s =
     (let all_received = ss_received st \<ge> ss_total st in
      (Inr \<lparr>sd_TransferId = ss_transferID st, sd_ChunksReceived = ss_received st,
            sd_TotalChunks = ss_total st,
            sd_Status = (if all_received then st_COMPLETED else st_IN_PROGRESS)\<rparr>,
       if all_received
       then (if ss_isGroup st then complete_siblings flt 0 (ss_siblings st) s
             else try_update (flt (QComplete 0)) (complete_transfer_sql (clock s) (ss_transferID st)) s)
       else s))"

text \<open>The body of the receive loop: the first message opens the transfer.\<close>

definition take_message ::
  "transfer_config \<Rightarrow> relay_env \<Rightarrow> transfer_faults \<Rightarrow> nat \<Rightarrow> send_state \<Rightarrow> data_chunk
     \<Rightarrow> transfer_service \<Rightarrow> send_state result \<times> transfer_service" where
  "take_message cfg env flt k st c s =
     (let (r, s1) = (if ss_transferID st = '''' then open_upload flt (dc_TransferId c) st s else (Inr st, s))
      in case r of
           Inl e \<Rightarrow> (Inl e, s1)
         | Inr st1 \<Rightarrow> upload_chunk cfg env flt k st1 c s1)"

text \<open>The receive loop: the messages still to come, and whether the stream then ends (or breaks).\<close>

fun send_loop ::
  "transfer_config \<Rightarrow> relay_env \<Rightarrow> transfer_faults \<Rightarrow> bool \<Rightarrow> nat \<Rightarrow> send_state \<Rightarrow> data_chunk list
     \<Rightarrow> transfer_service \<Rightarrow> send_response result \<times> transfer_service" where
  "send_loop cfg env flt eof k st [] s =
     (if eof then finish_upload flt st s
      else (Inl (Status Internal ''failed to receive chunk''), s))"
| "send_loop cfg env flt eof k st (c # cs) s =
     (let (r, s1) = take_message cfg env flt k st c s
      in case r of
           Inl e \<Rightarrow> (Inl e, s1)
         | Inr st1 \<Rightarrow> send_loop cfg env flt eof (k + 1) st1 cs s1)"

definition send_chunk ::
  "transfer_config \<Rightarrow> relay_env \<Rightarrow> transfer_faults \<Rightarrow> bool \<Rightarrow> data_chunk list
     \<Rightarrow> transfer_service \<Rightarrow> send_response result \<times> transfer_service" where
  "send_chunk cfg env flt eof cs s = send_loop cfg env flt eof 0 send_start cs s"

section \<open>Downloading\<close>

text \<open>The common first step of the handlers on one transfer.\<close>

definition fetch_transfer :: "transfer_faults \<Rightarrow> string \<Rightarrow> transfer_service \<Rightarrow> transfer_row result" where
  "fetch_transfer flt tid s =
     (if tid = '''' then Inl (Status InvalidArgument ''transfer_id is required'')
      else case db_row (flt QGetTransfer) (get_transfer_sql tid (transfers_of s)) of
             Inl NoRows \<Rightarrow> Inl (Status NotFound ''transfer not found'')
           | Inl QueryFailed \<Rightarrow> Inl (Status Internal ''failed to fetch transfer'')
           | Inr t \<Rightarrow> Inr t)"

definition storage_id :: "transfer_row \<Rightarrow> string" where
  "storage_id t = (case tr_GroupTransferID t of None \<Rightarrow> tr_TransferID t | Some g \<Rightarrow> g)"

text \<open>The loop of \<open>ReceiveChunks\<close> over the indices that are left; sending fails where
  \<open>sendFails\<close> says. The result is what the stream carried and the error, if any.\<close>

fun receive_loop ::
  "transfer_config \<Rightarrow> relay_env \<Rightarrow> (int32 \<Rightarrow> bool) \<Rightarrow> transfer_row \<Rightarrow> world \<Rightarrow> int32 list
     \<Rightarrow> data_chunk list \<Rightarrow> data_chunk list \<times> status option" where
  "receive_loop cfg env sendFails t w [] out = (out, None)"
| "receive_loop cfg env sendFails t w (i # is) out =
     (let loaded = (if tc_chunks cfg
                    then map_sum id (\<lambda>d. (d, env_sha env d))
                           (load_chunk (env_faults env (w_now w) (tc_NodeID cfg)) (storage_id t) i
                              (store_of w (tc_NodeID cfg)))
                    else Inr ([], ''''))
      in case loaded of
           Inl e \<Rightarrow> (out, Some (Status Internal ''failed to load chunk from storage''))
         | Inr (d, h) \<Rightarrow>
             if sendFails i then (out, Some (Status Internal ''failed to send chunk''))
             else receive_loop cfg env sendFails t w is
                    (out @ [\<lparr>dc_TransferId = tr_TransferID t, dc_ChunkIndex = i, dc_Data = d,
                             dc_ChunkHash = h, dc_IsLast = (i = tr_TotalChunks t - 1)\<rparr>]))"

definition receive_chunks ::
  "transfer_config \<Rightarrow> relay_env \<Rightarrow> transfer_faults \<Rightarrow> (int32 \<Rightarrow> bool) \<Rightarrow> string \<Rightarrow> int32
     \<Rightarrow> transfer_service \<Rightarrow> data_chunk list \<times> status option" where
  "receive_chunks cfg env flt sendFails tid start s =
     (case fetch_transfer flt tid s of
        Inl e \<Rightarrow> ([], Some e)
      | Inr t \<Rightarrow>
          let startChunk = (if start < 0 then 0 else start)
          in receive_loop cfg env sendFails t (ts_net s) [startChunk..tr_TotalChunks t - 1] [])"

section \<open>Status and lists\<close>

record status_response =
  sr_TransferId :: string
  sr_TransferStatus :: int32
  sr_ChunksTransferred :: int32
  sr_TotalChunks :: int32
  sr_BytesTransferred :: int64
  sr_TotalBytes :: int64
  sr_StartedAt :: time
  sr_UpdatedAt :: time
  sr_SenderEphemeralPubkey :: bytes
  sr_WrappedFileKey :: bytes
  sr_GroupTransferId :: string

definition get_transfer_status ::
  "transfer_faults \<Rightarrow> string \<Rightarrow> transfer_service \<Rightarrow> status_response result" where
  "get_transfer_status flt tid s =
     (case fetch_transfer flt tid s of
        Inl e \<Rightarrow> Inl e
      | Inr t \<Rightarrow>
          let bytesTransferred = wrap64 (tr_ChunksDone t * tr_ChunkSizeBytes t)
          in Inr \<lparr>sr_TransferId = tr_TransferID t, sr_TransferStatus = tr_Status t,
                  sr_ChunksTransferred = tr_ChunksDone t, sr_TotalChunks = tr_TotalChunks t,
                  sr_BytesTransferred = (if bytesTransferred > tr_TotalSizeBytes t
                                         then tr_TotalSizeBytes t else bytesTransferred),
                  sr_TotalBytes = tr_TotalSizeBytes t, sr_StartedAt = tr_CreatedAt t,
                  sr_UpdatedAt = tr_UpdatedAt t,
                  sr_SenderEphemeralPubkey = tr_SenderEphemeralPubkey t,
                  sr_WrappedFileKey = tr_WrappedFileKey t,
                  sr_GroupTransferId = (case tr_GroupTransferID t of None \<Rightarrow> '''' | Some g \<Rightarrow> g)\<rparr>)"

record transfer_info =
  ti_TransferId :: string
  ti_SenderNodeId :: node_id
  ti_ReceiverNodeId :: node_id
  ti_Filename :: string
  ti_TotalSizeBytes :: int64
  ti_Status :: int32
  ti_ProgressPercent :: int32
  ti_CreatedAt :: time
  ti_SenderEphemeralPubkey :: bytes
  ti_ContentHash :: string
  ti_WrappedFileKey :: bytes
  ti_GroupTransferId :: string

definition progress_percent :: "transfer_row \<Rightarrow> int32" where
  "progress_percent t =
     (if tr_TotalChunks t > 0 then wrap32 (tr_ChunksDone t * 100) sdiv tr_TotalChunks t else 0)"

definition transfer_info_of :: "transfer_row \<Rightarrow> transfer_info" where
  "transfer_info_of t =
     \<lparr>ti_TransferId = tr_TransferID t, ti_SenderNodeId = tr_SenderNodeID t,
      ti_ReceiverNodeId = tr_ReceiverNodeID t, ti_Filename = tr_Filename t,
      ti_TotalSizeBytes = tr_TotalSizeBytes t, ti_Status = tr_Status t,
      ti_ProgressPercent = progress_percent t, ti_CreatedAt = tr_CreatedAt t,
      ti_SenderEphemeralPubkey = tr_SenderEphemeralPubkey t, ti_ContentHash = tr_ContentHash t,
      ti_WrappedFileKey = tr_WrappedFileKey t,
      ti_GroupTransferId = (case tr_GroupTransferID t of None \<Rightarrow> '''' | Some g \<Rightarrow> g)\<rparr>"

definition list_transfers ::
  "transfer_faults \<Rightarrow> node_id \<Rightarrow> int32 \<Rightarrow> transfer_service \<Rightarrow> transfer_info list result" where
  "list_transfers flt nid filterStatus s =
     (if nid = '''' then Inl (Status InvalidArgument ''node_id is required'')
      else
        let rows = (if filterStatus \<noteq> st_UNSPECIFIED
                    then list_transfers_by_status_sql nid filterStatus (transfers_of s)
                    else list_transfers_by_node_sql nid (transfers_of s))
        in case db_run (flt QListTransfers) rows of
             Inl e \<Rightarrow> Inl (Status Internal ''failed to list transfers'')
           | Inr rs \<Rightarrow> Inr (map transfer_info_of rs))"

section \<open>Cancel, pause, resume\<close>

definition cancel_transfer ::
  "transfer_config \<Rightarrow> relay_env \<Rightarrow> transfer_faults \<Rightarrow> string \<Rightarrow> transfer_service
     \<Rightarrow> (bool \<times> string) result \<times> transfer_service" where
  "cancel_transfer cfg env flt tid s =
     (case fetch_transfer flt tid s of
        Inl e \<Rightarrow> (Inl e, s)
      | Inr t \<Rightarrow>
          if flt QSetStatus then (Inl (Status Internal ''failed to cancel transfer''), s)
          else
            let s1 = set_transfers (update_transfer_status_sql (clock s) tid st_CANCELLED (transfers_of s)) s;
                s2 = (if tc_chunks cfg
                      then let (r, fs) = delete_transfer (env_faults env (clock s) (tc_NodeID cfg)) tid
                                           (store_of (ts_net s1) (tc_NodeID cfg))
                           in s1\<lparr>ts_net := set_store (tc_NodeID cfg) fs (ts_net s1)\<rparr>
                      else s1)
            in (Inr (True, ''transfer cancelled''), s2))"

definition pause_transfer ::
  "transfer_faults \<Rightarrow> string \<Rightarrow> transfer_service \<Rightarrow> (string \<times> int32) result \<times> transfer_service" where
  "pause_transfer flt tid s =
     (case fetch_transfer flt tid s of
        Inl e \<Rightarrow> (Inl e, s)
      | Inr t \<Rightarrow>
          if tr_Status t \<noteq> st_IN_PROGRESS
          then (Inl (Status FailedPrecondition ''only in-progress transfers can be paused''), s)
          else if flt QSetStatus then (Inl (Status Internal ''failed to pause transfer''), s)
          else (Inr (tid, st_PAUSED),
                set_transfers (update_transfer_status_sql (clock s) tid st_PAUSED (transfers_of s)) s))"

definition resume_transfer ::
  "transfer_faults \<Rightarrow> string \<Rightarrow> transfer_service \<Rightarrow> (string \<times> int32) result \<times> transfer_service" where
  "resume_transfer flt tid s =
     (case fetch_transfer flt tid s of
        Inl e \<Rightarrow> (Inl e, s)
      | Inr t \<Rightarrow>
          if tr_Status t \<noteq> st_PAUSED
          then (Inl (Status FailedPrecondition ''only paused transfers can be resumed''), s)
          else if flt QSetStatus then (Inl (Status Internal ''failed to resume transfer''), s)
          else (Inr (tid, st_IN_PROGRESS),
                set_transfers (update_transfer_status_sql (clock s) tid st_IN_PROGRESS (transfers_of s)) s))"

section \<open>Watching\<close>

abbreviation (input) ev_NEW :: int32 where "ev_NEW \<equiv> 1"
abbreviation (input) ev_UPDATED :: int32 where "ev_UPDATED \<equiv> 2"
abbreviation (input) ev_COMPLETED :: int32 where "ev_COMPLETED \<equiv> 3"
abbreviation (input) ev_CANCELLED :: int32 where "ev_CANCELLED \<equiv> 4"
abbreviation (input) ev_PAUSED :: int32 where "ev_PAUSED \<equiv> 5"
abbreviation (input) ev_RESUMED :: int32 where "ev_RESUMED \<equiv> 6"

record transfer_event =
  te_Type :: int32
  te_Transfer :: transfer_info
  te_Timestamp :: time

text \<open>The snapshot of one transfer: status and chunks done.\<close>

type_synonym watch_known = "string \<rightharpoonup> int32 \<times> int32"

definition snapshot_of :: "transfer_row \<Rightarrow> int32 \<times> int32" where
  "snapshot_of t = (tr_Status t, tr_ChunksDone t)"

text \<open>What \<open>emit\<close> sends: nothing for a sender that asked for received transfers only.\<close>

definition emit_event ::
  "time \<Rightarrow> node_id \<Rightarrow> bool \<Rightarrow> transfer_row \<Rightarrow> int32 \<Rightarrow> transfer_event list" where
  "emit_event now nid receiverOnly t etype =
     (if receiverOnly \<and> tr_ReceiverNodeID t \<noteq> nid then []
      else [\<lparr>te_Type = etype,
             te_Transfer = (transfer_info_of t)\<lparr>ti_WrappedFileKey := [], ti_GroupTransferId := ''''\<rparr>,
             te_Timestamp = now\<rparr>])"

definition event_type_of :: "int32 \<times> int32 \<Rightarrow> transfer_row \<Rightarrow> int32" where
  "event_type_of prev t =
     (if tr_Status t = st_COMPLETED then ev_COMPLETED
      else if tr_Status t = st_CANCELLED \<or> tr_Status t = st_FAILED then ev_CANCELLED
      else if tr_Status t = st_PAUSED then ev_PAUSED
      else if tr_Status t = st_IN_PROGRESS \<and> fst prev = st_PAUSED then ev_RESUMED
      else ev_UPDATED)"

definition watch_row ::
  "time \<Rightarrow> node_id \<Rightarrow> bool \<Rightarrow> watch_known \<Rightarrow> transfer_row \<Rightarrow> transfer_event list" where
  "watch_row now nid receiverOnly known t =
     (case known (tr_TransferID t) of
        None \<Rightarrow> emit_event now nid receiverOnly t ev_NEW
      | Some prev \<Rightarrow>
          if prev = snapshot_of t then []
          else emit_event now nid receiverOnly t (event_type_of prev t))"

text \<open>One tick over the rows; sending an event fails where \<open>sendFails\<close> says, which ends the
  watch. The result is the events sent and the new snapshots, or none when the watch ended.\<close>

fun watch_rows ::
  "time \<Rightarrow> node_id \<Rightarrow> bool \<Rightarrow> (transfer_event \<Rightarrow> bool) \<Rightarrow> watch_known \<Rightarrow> transfer_row list
     \<Rightarrow> watch_known \<Rightarrow> transfer_event list \<Rightarrow> transfer_event list \<times> watch_known option" where
  "watch_rows now nid ro sendFails known [] current out = (out, Some current)"
| "watch_rows now nid ro sendFails known (t # ts) current out =
     (let evs = watch_row now nid ro known t in
      if list_ex sendFails evs then (out, None)
      else watch_rows now nid ro sendFails known ts
             (current(tr_TransferID t \<mapsto> snapshot_of t)) (out @ evs))"

definition watch_tick ::
  "transfer_faults \<Rightarrow> node_id \<Rightarrow> bool \<Rightarrow> (transfer_event \<Rightarrow> bool) \<Rightarrow> watch_known \<Rightarrow> transfer_service
     \<Rightarrow> transfer_event list \<times> watch_known option" where
  "watch_tick flt nid ro sendFails known s =
     (case db_run (flt QListTransfers) (list_transfers_by_node_sql nid (transfers_of s)) of
        Inl e \<Rightarrow> ([], Some known)
      | Inr rows \<Rightarrow> watch_rows (clock s) nid ro sendFails known rows Map.empty [])"

text \<open>The watch over the states seen at its ticks.\<close>

fun watch_loop ::
  "transfer_faults list \<Rightarrow> node_id \<Rightarrow> bool \<Rightarrow> (transfer_event \<Rightarrow> bool) \<Rightarrow> watch_known
     \<Rightarrow> transfer_service list \<Rightarrow> transfer_event list" where
  "watch_loop (flt # flts) nid ro sendFails known (s # ss) =
     (case watch_tick flt nid ro sendFails known s of
        (evs, None) \<Rightarrow> evs
      | (evs, Some known') \<Rightarrow> evs @ watch_loop flts nid ro sendFails known' ss)"
| "watch_loop flts nid ro sendFails known ss = []"

definition watch_transfers ::
  "transfer_faults list \<Rightarrow> node_id \<Rightarrow> bool \<Rightarrow> (transfer_event \<Rightarrow> bool) \<Rightarrow> transfer_service list
     \<Rightarrow> transfer_event list result" where
  "watch_transfers flts nid ro sendFails ss =
     (if nid = '''' then Inl (Status InvalidArgument ''node_id is required'')
      else Inr (watch_loop flts nid ro sendFails Map.empty ss))"

section \<open>Direct transfers and approval\<close>

definition get_p2p_connection_info ::
  "transfer_config \<Rightarrow> transfer_faults \<Rightarrow> string \<Rightarrow> transfer_service \<Rightarrow> (string \<times> string list \<times> bool) result" where
  "get_p2p_connection_info cfg flt tid s =
     (case fetch_transfer flt tid s of
        Inl e \<Rightarrow> Inl e
      | Inr t \<Rightarrow>
          Inr (case tc_p2p cfg of None \<Rightarrow> ('''', [], False) | Some (peer, addrs) \<Rightarrow> (peer, addrs, True)))"

definition confirm_p2p_transfer ::
  "transfer_faults \<Rightarrow> string \<Rightarrow> bool \<Rightarrow> int32 \<Rightarrow> transfer_service \<Rightarrow> (bool \<times> int32) result \<times> transfer_service" where
  "confirm_p2p_transfer flt tid success chunksTransferred s =
     (case fetch_transfer flt tid s of
        Inl e \<Rightarrow> (Inl e, s)
      | Inr t \<Rightarrow>
          let finalStatus = (if success then st_COMPLETED else tr_Status t);
              mode = (if success then mode_P2P_DIRECT else mode_RELAY)
          in if flt QConfirm then (Inl (Status Internal ''failed to update transfer''), s)
             else (Inr (success, finalStatus),
                   set_transfers (confirm_p2p_sql (clock s) tid finalStatus chunksTransferred mode (transfers_of s)) s))"

definition respond_to_transfer ::
  "transfer_faults \<Rightarrow> string \<Rightarrow> node_id \<Rightarrow> bool \<Rightarrow> transfer_service
     \<Rightarrow> (string \<times> int32) result \<times> transfer_service" where
  "respond_to_transfer flt tid receiver accept s =
     (if tid = '''' \<or> receiver = ''''
      then (Inl (Status InvalidArgument ''transfer_id and receiver_node_id are required''), s)
      else
        case db_row (flt QGetTransfer) (get_transfer_sql tid (transfers_of s)) of
          Inl e \<Rightarrow> (Inl (Status NotFound ''transfer not found''), s)
        | Inr t \<Rightarrow>
            if tr_ReceiverNodeID t \<noteq> receiver
            then (Inl (Status PermissionDenied ''you are not the receiver of this transfer''), s)
            else if tr_Status t \<noteq> st_AWAITING_APPROVAL
            then (Inl (Status FailedPrecondition ''transfer is not awaiting approval''), s)
            else
              let newStatus = (if accept then st_PENDING else st_CANCELLED)
              in if flt QSetStatus then (Inl (Status Internal ''failed to update transfer status''), s)
                 else (Inr (tid, newStatus),
                       set_transfers (update_transfer_status_sql (clock s) tid newStatus (transfers_of s)) s))"

section \<open>Group transfers\<close>

record recipient_key =
  rk_ReceiverNodeId :: node_id
  rk_WrappedFileKey :: bytes

record group_request =
  gq_SessionId :: string
  gq_SenderNodeId :: node_id
  gq_Filename :: string
  gq_TotalSizeBytes :: int64
  gq_ContentHash :: string
  gq_ChunkSizeBytes :: int32
  gq_SenderEphemeralPubkey :: bytes
  gq_RecipientKeys :: "recipient_key list"

record group_response =
  gs_GroupTransferId :: string
  gs_TotalChunks :: int32
  gs_Transfers :: "transfer_info list"
  gs_CreatedAt :: time

fun create_recipients ::
  "transfer_faults \<Rightarrow> (nat \<Rightarrow> string) \<Rightarrow> group_request \<Rightarrow> group_row \<Rightarrow> nat \<Rightarrow> recipient_key list
     \<Rightarrow> transfer_info list \<Rightarrow> transfer_service \<Rightarrow> transfer_info list result \<times> transfer_service" where
  "create_recipients flt newID req gt i [] infos s = (Inr infos, s)"
| "create_recipients flt newID req gt i (rk # rks) infos s =
     (if rk_ReceiverNodeId rk = '''' \<or> length (rk_WrappedFileKey rk) = 0
      then (Inl (Status InvalidArgument
              ''each recipient_key must have receiver_node_id and wrapped_file_key''), s)
      else
        let row = \<lparr>tr_TransferID = newID i, tr_SenderNodeID = gq_SenderNodeId req,
                   tr_ReceiverNodeID = rk_ReceiverNodeId rk, tr_Filename = gq_Filename req,
                   tr_TotalSizeBytes = gq_TotalSizeBytes req, tr_ContentHash = gq_ContentHash req,
                   tr_ChunkSizeBytes = gr_ChunkSizeBytes gt, tr_TotalChunks = gr_TotalChunks gt,
                   tr_ChunksDone = 0, tr_Status = st_AWAITING_APPROVAL, tr_CreatedAt = 0,
                   tr_UpdatedAt = 0, tr_EncryptionKey = '''', tr_RouteHops = [],
                   tr_ReplicationFactor = 1, tr_SenderEphemeralPubkey = gq_SenderEphemeralPubkey req,
                   tr_TransferMode = 1, tr_GroupTransferID = Some (gr_ID gt),
                   tr_WrappedFileKey = rk_WrappedFileKey rk\<rparr>
        in case db_row (flt (QCreateTransfer i)) (create_transfer_sql (clock s) row (transfers_of s)) of
             Inl e \<Rightarrow> (Inl (Status Internal ''failed to create recipient transfer''), s)
           | Inr (t, rows) \<Rightarrow>
               create_recipients flt newID req gt (i + 1) rks
                 (infos @ [(transfer_info_of t)\<lparr>ti_ProgressPercent := 0\<rparr>]) (set_transfers rows s))"

definition initiate_group_transfer ::
  "transfer_faults \<Rightarrow> (string \<Rightarrow> string option) \<Rightarrow> string \<Rightarrow> (nat \<Rightarrow> string) \<Rightarrow> group_request
     \<Rightarrow> transfer_service \<Rightarrow> group_response result \<times> transfer_service" where
  "initiate_group_transfer flt parseUUID groupID newID req s =
     (if gq_SessionId req = '''' \<or> gq_SenderNodeId req = ''''
      then (Inl (Status InvalidArgument ''session_id and sender_node_id are required''), s)
      else if gq_TotalSizeBytes req \<le> 0
      then (Inl (Status InvalidArgument ''total_size_bytes must be positive''), s)
      else if length (gq_SenderEphemeralPubkey req) \<noteq> 32
      then (Inl (Status InvalidArgument ''sender_ephemeral_pubkey must be exactly 32 bytes''), s)
      else if length (gq_RecipientKeys req) = 0
      then (Inl (Status InvalidArgument ''at least one recipient_key is required''), s)
      else
        let chunkSize = chunk_size_of (gq_ChunkSizeBytes req);
            totalChunks = total_chunks_of (gq_TotalSizeBytes req) chunkSize
        in case parseUUID (gq_SessionId req) of
             None \<Rightarrow> (Inl (Status InvalidArgument ''invalid session_id format''), s)
           | Some sid \<Rightarrow>
               let row = \<lparr>gr_ID = groupID, gr_SessionID = sid, gr_SenderNodeID = gq_SenderNodeId req,
                          gr_Filename = gq_Filename req, gr_TotalSizeBytes = gq_TotalSizeBytes req,
                          gr_ContentHash = gq_ContentHash req, gr_ChunkSizeBytes = chunkSize,
                          gr_TotalChunks = totalChunks,
                          gr_SenderEphemeralPubkey = gq_SenderEphemeralPubkey req, gr_CreatedAt = 0\<rparr>
               in case db_row (flt QCreateGroup) (create_group_sql (clock s) row (groups_of s)) of
                    Inl e \<Rightarrow> (Inl (Status Internal ''failed to create group transfer''), s)
                  | Inr (gt, groups) \<Rightarrow>
                      (let (r, s1) = create_recipients flt newID req gt 0 (gq_RecipientKeys req) [] (set_groups groups s)
                       in case r of
                            Inl e \<Rightarrow> (Inl e, s1)
                          | Inr infos \<Rightarrow>
                              (Inr \<lparr>gs_GroupTransferId = gr_ID gt, gs_TotalChunks = totalChunks,
                                    gs_Transfers = infos, gs_CreatedAt = gr_CreatedAt gt\<rparr>, s1)))"

record group_info =
  gi_GroupTransferId :: string
  gi_SessionId :: string
  gi_SenderNodeId :: node_id
  gi_Filename :: string
  gi_TotalSizeBytes :: int64
  gi_TotalChunks :: int32
  gi_Transfers :: "transfer_info list"
  gi_CreatedAt :: time

fun group_infos ::
  "transfer_faults \<Rightarrow> string \<Rightarrow> transfer_service \<Rightarrow> nat \<Rightarrow> group_row list \<Rightarrow> group_info list" where
  "group_infos flt sessionId s i [] = []"
| "group_infos flt sessionId s i (g # gs) =
     (case db_run (flt (QGroupChildren i)) (list_transfers_by_group_sql (gr_ID g) (transfers_of s)) of
        Inl e \<Rightarrow> group_infos flt sessionId s (i + 1) gs
      | Inr rows \<Rightarrow>
          \<lparr>gi_GroupTransferId = gr_ID g, gi_SessionId = sessionId, gi_SenderNodeId = gr_SenderNodeID g,
           gi_Filename = gr_Filename g, gi_TotalSizeBytes = gr_TotalSizeBytes g,
           gi_TotalChunks = gr_TotalChunks g,
           gi_Transfers = map (\<lambda>t. (transfer_info_of t)\<lparr>ti_GroupTransferId := gr_ID g\<rparr>) rows,
           gi_CreatedAt = gr_CreatedAt g\<rparr> # group_infos flt sessionId s (i + 1) gs)"

definition list_group_transfers ::
  "transfer_faults \<Rightarrow> (string \<Rightarrow> string option) \<Rightarrow> string \<Rightarrow> transfer_service \<Rightarrow> group_info list result" where
  "list_group_transfers flt parseUUID sessionId s =
     (if sessionId = '''' then Inl (Status InvalidArgument ''session_id is required'')
      else case parseUUID sessionId of
             None \<Rightarrow> Inl (Status InvalidArgument ''invalid session_id format'')
           | Some sid \<Rightarrow>
               (case db_run (flt QListGroups) (list_groups_by_session_sql sid (groups_of s)) of
                  Inl e \<Rightarrow> Inl (Status Internal ''failed to list group transfers'')
                | Inr gs \<Rightarrow> Inr (group_infos flt sessionId s 0 gs)))"

section \<open>Administration and statistics\<close>

text \<open>A page of rows and the number of all transfers (0 when that query fails).\<close>

definition admin_list_transfers ::
  "transfer_faults \<Rightarrow> int32 \<Rightarrow> int32 \<Rightarrow> transfer_service \<Rightarrow> (transfer_row list \<times> int64) result" where
  "admin_list_transfers flt reqLimit offset s =
     (let limit = (if reqLimit \<le> 0 \<or> reqLimit > 200 then 50 else reqLimit)
      in case db_run (flt QAdminList \<or> offset < 0) (admin_list_transfers_sql limit offset (transfers_of s)) of
           Inl e \<Rightarrow> Inl (Status Internal ''failed to list transfers'')
         | Inr rows \<Rightarrow>
             Inr (rows, (case db_run (flt QCount) (count_transfers_sql (transfers_of s)) of
                           Inl e \<Rightarrow> 0 | Inr n \<Rightarrow> n)))"

definition get_transfer_stats :: "transfer_faults \<Rightarrow> transfer_service \<Rightarrow> int64 \<times> int64" where
  "get_transfer_stats flt s =
     ((case db_run (flt QCount) (count_transfers_sql (transfers_of s)) of Inl e \<Rightarrow> 0 | Inr n \<Rightarrow> n),
      (case db_run (flt QSum) (sum_transferred_sql (transfers_of s)) of Inl e \<Rightarrow> 0 | Inr n \<Rightarrow> n))"

definition get_transfer_activity ::
  "transfer_faults \<Rightarrow> node_id \<Rightarrow> transfer_service \<Rightarrow> (int \<times> int64) list result" where
  "get_transfer_activity flt nid s =
     (if nid = '''' then Inl (Status InvalidArgument ''node_id is required'')
      else case db_run (flt QActivity) (activity_heatmap_sql (clock s) nid (transfers_of s)) of
             Inl e \<Rightarrow> Inl (Status Internal ''failed to get activity'')
           | Inr rows \<Rightarrow> Inr rows)"

definition get_transfer_speed ::
  "transfer_faults \<Rightarrow> node_id \<Rightarrow> transfer_service \<Rightarrow> (int64 \<times> int64) result" where
  "get_transfer_speed flt nid s =
     (if nid = '''' then Inl (Status InvalidArgument ''node_id is required'')
      else case db_run (flt QSpeed) (speed_stats_sql (clock s) nid (transfers_of s)) of
             Inl e \<Rightarrow> Inr (0, 0)
           | Inr (bytesLastMinute, n) \<Rightarrow>
               Inr (if bytesLastMinute > 0 then bytesLastMinute sdiv 60 else 0, n))"

end
