(* ===== verification/P2pProtocol.thy ===== *)
theory P2pProtocol
  imports TransferService
begin

text \<open>
  The direct transfer of \<open>internal/p2p/transfer_protocol.go\<close>: the loop that serves an incoming
  stream, with the callback that \<open>cmd/transfer/main.go\<close> gives it, and \<open>SendFile\<close>, which sends the
  chunks of a transfer one by one and waits for an acknowledgement of each. A stream is the
  sequence of results of reading from it; what the network and the reader of chunks do is an
  argument. At the end both ends are put together, with the limits on message sizes and with
  the callback still to run while the sender already has the acknowledgement.
\<close>

section \<open>Messages\<close>

record p2p_header =
  ph_TransferId :: string
  ph_TotalChunks :: int32
  ph_TotalSizeBytes :: int64
  ph_ContentHash :: string

record p2p_chunk =
  pc_ChunkIndex :: int32
  pc_Data :: bytes
  pc_ChunkHash :: string
  pc_IsLast :: bool

record p2p_ack =
  pa_ChunkIndex :: int32
  pa_Accepted :: bool
  pa_Error :: string

text \<open>Reading a message: the message, the end of the stream, or an error, which may leave an index
  in the message that was read into.\<close>

datatype 'm received = Got 'm | StreamEnds | ReadFails int32 string

section \<open>Receiving\<close>

text \<open>The service that receives: its configuration and environment, and the callback.\<close>

record p2p_receiver =
  pr_config :: transfer_config
  pr_env :: relay_env
  pr_onChunk :: "(string \<Rightarrow> int32 \<Rightarrow> int32 \<Rightarrow> transfer_service \<Rightarrow> transfer_service) option"

text \<open>The callback of \<open>cmd/transfer\<close>: errors of the queries are dropped.\<close>

definition update_p2p_progress ::
  "transfer_faults \<Rightarrow> string \<Rightarrow> int32 \<Rightarrow> int32 \<Rightarrow> transfer_service \<Rightarrow> transfer_service" where
  "update_p2p_progress flt transferID chunkIndex totalChunks s =
     (let s1 = try_update (flt (QProgress 0 0))
                 (update_transfer_progress_sql (clock s) transferID (wrap32 (chunkIndex + 1))) s
      in if wrap32 (chunkIndex + 1) \<ge> totalChunks
         then try_update (flt (QComplete 0)) (complete_transfer_sql (clock s1) transferID) s1 else s1)"

definition write_ack :: "int32 \<Rightarrow> bool \<Rightarrow> string \<Rightarrow> p2p_ack" where
  "write_ack i accepted msg = \<lparr>pa_ChunkIndex = i, pa_Accepted = accepted, pa_Error = msg\<rparr>"

text \<open>The receiver of \<open>cmd/transfer\<close>.\<close>

definition deployed_receiver :: "transfer_config \<Rightarrow> relay_env \<Rightarrow> transfer_faults \<Rightarrow> p2p_receiver" where
  "deployed_receiver cfg env flt = \<lparr>pr_config = cfg, pr_env = env, pr_onChunk = Some (update_p2p_progress flt)\<rparr>"

text \<open>The body of the loop for a chunk, up to the acknowledgement that is written; the loop goes on
  when it accepts the chunk. The acknowledgement may get lost; that is only logged.\<close>

definition receive_p2p_chunk ::
  "p2p_receiver \<Rightarrow> p2p_header \<Rightarrow> p2p_chunk \<Rightarrow> transfer_service \<Rightarrow> p2p_ack \<times> transfer_service" where
  "receive_p2p_chunk rc header c s =
     (let cfg = pr_config rc; env = pr_env rc; i = pc_ChunkIndex c in
      if pc_ChunkHash c \<noteq> '''' \<and> env_sha env (pc_Data c) \<noteq> pc_ChunkHash c
      then (write_ack i False ''chunk hash mismatch'', s)
      else
        let (ok, w) =
              (if tc_chunks cfg
               then let (r, fs) = save_chunk (env_sha env) (env_faults env (w_now (ts_net s)) (tc_NodeID cfg))
                                    (ph_TransferId header) i (pc_Data c) (store_of (ts_net s) (tc_NodeID cfg))
                    in (is_ok r, set_store (tc_NodeID cfg) fs (ts_net s))
               else (True, ts_net s))
        in (if \<not> ok then write_ack i False ''storage error'' else write_ack i True '''', s\<lparr>ts_net := w\<rparr>))"

text \<open>Then the callback runs.\<close>

definition notify_received ::
  "p2p_receiver \<Rightarrow> p2p_header \<Rightarrow> p2p_chunk \<Rightarrow> transfer_service \<Rightarrow> transfer_service" where
  "notify_received rc header c s =
     (case pr_onChunk rc of
        None \<Rightarrow> s
      | Some f \<Rightarrow> f (ph_TransferId header) (pc_ChunkIndex c) (ph_TotalChunks header) s)"

text \<open>The loop, over what the reads return; a stream on which nothing more arrives stays open.\<close>

fun receive_p2p_chunks ::
  "p2p_receiver \<Rightarrow> p2p_header \<Rightarrow> p2p_chunk received list \<Rightarrow> transfer_service \<Rightarrow> p2p_ack list \<times> transfer_service" where
  "receive_p2p_chunks rc header [] s = ([], s)"
| "receive_p2p_chunks rc header (Got c # rs) s =
     (let (ack, s1) = receive_p2p_chunk rc header c s in
      if \<not> pa_Accepted ack then ([ack], s1)
      else
        let s2 = notify_received rc header c s1
        in if pc_IsLast c then ([ack], s2)
           else let (acks, s3) = receive_p2p_chunks rc header rs s2 in (ack # acks, s3))"
| "receive_p2p_chunks rc header (StreamEnds # rs) s = ([], s)"
| "receive_p2p_chunks rc header (ReadFails i e # rs) s = ([write_ack i False e], s)"

definition handle_stream ::
  "p2p_receiver \<Rightarrow> p2p_header received \<Rightarrow> p2p_chunk received list \<Rightarrow> transfer_service \<Rightarrow> p2p_ack list \<times> transfer_service" where
  "handle_stream rc h rs s =
     (case h of Got header \<Rightarrow> receive_p2p_chunks rc header rs s | _ \<Rightarrow> ([], s))"

section \<open>Sending\<close>

datatype p2p_error =
    OpenStream | WriteHeader | ReadChunk int32 string | WriteChunk int32 | ReadAck int32 | Rejected int32 string

text \<open>The other end of a stream, as the sender sees it: what becomes of a message that is written
  (a failed write, or the result of reading the acknowledgement), and its state.\<close>

type_synonym 's p2p_peer = "p2p_chunk \<Rightarrow> 's \<Rightarrow> p2p_ack received option \<times> 's"

fun send_p2p_chunks ::
  "(int32 \<Rightarrow> string + (bytes \<times> string)) \<Rightarrow> int32 \<Rightarrow> 's p2p_peer \<Rightarrow> int32 list \<Rightarrow> 's \<Rightarrow> p2p_error option \<times> 's" where
  "send_p2p_chunks chunkReader totalChunks peer [] s = (None, s)"
| "send_p2p_chunks chunkReader totalChunks peer (i # is) s =
     (case chunkReader i of
        Inl e \<Rightarrow> (Some (ReadChunk i e), s)
      | Inr (data, hash) \<Rightarrow>
     (case peer \<lparr>pc_ChunkIndex = i, pc_Data = data, pc_ChunkHash = hash, pc_IsLast = (i = totalChunks - 1)\<rparr> s of
        (None, s1) \<Rightarrow> (Some (WriteChunk i), s1)
      | (Some (Got ack), s1) \<Rightarrow>
          if \<not> pa_Accepted ack then (Some (Rejected i (pa_Error ack)), s1)
          else send_p2p_chunks chunkReader totalChunks peer is s1
      | (Some _, s1) \<Rightarrow> (Some (ReadAck i), s1)))"

definition send_file ::
  "bool \<Rightarrow> bool \<Rightarrow> (int32 \<Rightarrow> string + (bytes \<times> string)) \<Rightarrow> int32 \<Rightarrow> 's p2p_peer \<Rightarrow> 's \<Rightarrow> p2p_error option \<times> 's" where
  "send_file opened headerWritten chunkReader totalChunks peer s =
     (if \<not> opened then (Some OpenStream, s)
      else if \<not> headerWritten then (Some WriteHeader, s)
      else send_p2p_chunks chunkReader totalChunks peer [0..totalChunks - 1] s)"

definition is_reachable :: "bool \<Rightarrow> string list \<Rightarrow> bool" where
  "is_reachable isConnected addrs = (isConnected \<or> length addrs > 0)"

section \<open>Both ends of a stream\<close>

text \<open>What protobuf makes of the messages, by the size of their encoding, and what becomes of each
  chunk: the link carries the message and its acknowledgement, loses the message, or loses the
  acknowledgement.\<close>

datatype link_state = LinkUp | WriteLost | AckLost

record p2p_wire =
  pw_link :: "int32 \<Rightarrow> link_state"
  pw_headerSize :: "p2p_header \<Rightarrow> nat"
  pw_chunkSize :: "p2p_chunk \<Rightarrow> nat"
  pw_ackSize :: "p2p_ack \<Rightarrow> nat"

definition receiver_max_size :: nat where
  "receiver_max_size = 10 * 2 ^ 20"

definition sender_max_size :: nat where
  "sender_max_size = 1024"

text \<open>\<open>UnmarshalFrom\<close> with a \<open>MaxSize\<close> refuses a longer message before it reads any of it.\<close>

definition read_message :: "('m \<Rightarrow> nat) \<Rightarrow> nat \<Rightarrow> 'm \<Rightarrow> 'm received" where
  "read_message len limit m = (if len m \<le> limit then Got m else ReadFails 0 ''message size exceeds the limit'')"

text \<open>The receiving end of a stream: the service, the accepted chunk whose callback is still to run,
  and whether the loop goes on.\<close>

record p2p_stream =
  st_service :: transfer_service
  st_notify :: "p2p_chunk option"
  st_reading :: bool

definition accept_stream :: "p2p_wire \<Rightarrow> p2p_header \<Rightarrow> transfer_service \<Rightarrow> p2p_stream" where
  "accept_stream pw header s =
     \<lparr>st_service = s, st_notify = None, st_reading = (pw_headerSize pw header \<le> receiver_max_size)\<rparr>"

definition run_callback :: "p2p_receiver \<Rightarrow> p2p_header \<Rightarrow> p2p_stream \<Rightarrow> p2p_stream" where
  "run_callback rc header st =
     (case st_notify st of
        None \<Rightarrow> st
      | Some c \<Rightarrow> st\<lparr>st_service := notify_received rc header c (st_service st), st_notify := None,
                    st_reading := \<not> pc_IsLast c\<rparr>)"

text \<open>The receiver reads the next chunk after the callback of the one before.\<close>

definition link_to :: "p2p_receiver \<Rightarrow> p2p_header \<Rightarrow> p2p_wire \<Rightarrow> p2p_stream p2p_peer" where
  "link_to rc header pw c st =
     (let deliver = (\<lambda>ack. Some (if pw_link pw (pc_ChunkIndex c) = AckLost then StreamEnds
                                 else read_message (pw_ackSize pw) sender_max_size ack)) in
      if pw_link pw (pc_ChunkIndex c) = WriteLost then (None, st)
      else
        let st1 = run_callback rc header st in
        if \<not> st_reading st1 then (Some StreamEnds, st1)
        else case read_message (pw_chunkSize pw) receiver_max_size c of
               Got c' \<Rightarrow>
                 let (ack, s1) = receive_p2p_chunk rc header c' (st_service st1)
                 in (deliver ack,
                     if pa_Accepted ack then st1\<lparr>st_service := s1, st_notify := Some c'\<rparr>
                     else st1\<lparr>st_service := s1, st_reading := False\<rparr>)
             | StreamEnds \<Rightarrow> (Some StreamEnds, st1\<lparr>st_reading := False\<rparr>)
             | ReadFails i e \<Rightarrow> (deliver (write_ack i False e), st1\<lparr>st_reading := False\<rparr>))"

end
