(* ===== verification/RelayLaws.thy ===== *)
theory RelayLaws
  imports Relay
begin

text \<open>
  Laws of the relay network: the recursion equation of \<open>RelayChunk\<close> and the bound on handler
  runs, integrity of what is stored, that an acknowledged chunk is stored, delivery when the
  network is up, and replication without cascades.
\<close>

section \<open>The depth is bounded by the time to live\<close>

lemma forward_chunk_cong:
  "(\<And>h w. rpc h req w = rpc' h req w) \<Longrightarrow> forward_chunk env rpc me nid req w = forward_chunk env rpc' me nid req w"
proof -
  assume "\<And>h w. rpc h req w = rpc' h req w"
  then have "(\<lambda>h. rpc h req) = (\<lambda>h. rpc' h req)" by (intro ext)
  then show ?thesis by (simp only: forward_chunk_def)
qed

lemma relay_body_cong:
  assumes "\<And>h r w. rq_Ttl r = wrap32 (rq_Ttl req - 1) \<Longrightarrow> 0 < rq_Ttl req \<Longrightarrow> rpc h r w = rpc' h r w"
  shows "relay_body env rpc me req w = relay_body env rpc' me req w"
proof (cases "0 < rq_Ttl req")
  case True
  have fwd: "forward_chunk env rpc me nid (forward_request req hops) w
      = forward_chunk env rpc' me nid (forward_request req hops) w" for nid hops w
    using True by (intro forward_chunk_cong assms) (simp_all add: forward_request_def)
  show ?thesis by (simp only: relay_body_def reroute_def fwd)
next
  case False
  then show ?thesis by (simp add: relay_body_def Let_def)
qed

lemma wrap32_pred: "0 < n \<Longrightarrow> in_int32 n \<Longrightarrow> wrap32 (n - 1) = n - 1"
  by (intro wrap32_id) (simp add: in_int32_def)

lemma relay_levels_enough:
  "in_int32 (rq_Ttl req) \<Longrightarrow> nat (rq_Ttl req) < k \<Longrightarrow> nat (rq_Ttl req) < k' \<Longrightarrow>
     relay_levels env k me req w = relay_levels env k' me req w"
proof (induction k arbitrary: k' me req w)
  case (Suc k)
  obtain k'' where k'': "k' = Suc k''" using Suc.prems(3) by (cases k') auto
  have "relay_levels env k h r w = relay_levels env k'' h r w"
    if r: "rq_Ttl r = wrap32 (rq_Ttl req - 1)" and pos: "0 < rq_Ttl req" for h r w
  proof (rule Suc.IH)
    have t: "rq_Ttl r = rq_Ttl req - 1" using r wrap32_pred [OF pos Suc.prems(1)] by simp
    show "in_int32 (rq_Ttl r)" using t pos Suc.prems(1) by (simp add: in_int32_def)
    show "nat (rq_Ttl r) < k" "nat (rq_Ttl r) < k''" using t pos Suc.prems(2,3) k'' by simp_all
  qed
  then show ?case unfolding k'' relay_levels.simps by (rule relay_body_cong)
qed simp

lemma relay_chunk_equation:
  assumes "in_int32 (rq_Ttl req)"
  shows "relay_chunk env me req w = relay_body env (relay_chunk env) me req w"
proof -
  have "relay_levels env (nat (rq_Ttl req)) h r w = relay_chunk env h r w"
    if r: "rq_Ttl r = wrap32 (rq_Ttl req - 1)" and pos: "0 < rq_Ttl req" for h r w
  proof -
    have t: "rq_Ttl r = rq_Ttl req - 1" using r wrap32_pred [OF pos assms] by simp
    show ?thesis unfolding relay_chunk_def
      using t pos assms by (intro relay_levels_enough) (simp_all add: in_int32_def)
  qed
  then have "relay_body env (relay_levels env (nat (rq_Ttl req))) me req w = relay_body env (relay_chunk env) me req w"
    by (rule relay_body_cong)
  then show ?thesis by (simp only: relay_chunk_def [of env me req w] relay_levels.simps)
qed

section \<open>What a call through the pool can do\<close>

text \<open>Steps that touch only the clock and the pools, and put only resolved addresses into them.\<close>

definition quiet :: "relay_env \<Rightarrow> world \<Rightarrow> world \<Rightarrow> bool" where
  "quiet env w w' \<longleftrightarrow> w_jobs w' = w_jobs w \<and> w_runs w' = w_runs w \<and>
     (\<forall>n. store_of w' n = store_of w n
       \<and> rn_rerouter (w_nodes w' n) = rn_rerouter (w_nodes w n)
       \<and> rn_replicator (w_nodes w' n) = rn_replicator (w_nodes w n)
       \<and> (\<forall>m a. pp_conns (pool_of w' n) m = Some a \<longrightarrow>
            pp_conns (pool_of w n) m = Some a \<or> (\<exists>t. resolve_addr (env_info env t m) m = Inr a)))"

lemma quiet_refl [simp]: "quiet env w w"
  by (simp add: quiet_def)

lemma quiet_trans: "quiet env u v \<Longrightarrow> quiet env v w \<Longrightarrow> quiet env u w"
  unfolding quiet_def by metis

lemma quiet_clock [simp]: "quiet env w (w\<lparr>w_now := t\<rparr>)"
  by (simp add: quiet_def)

lemma quiet_pool:
  "(\<And>m a. pp_conns p m = Some a \<Longrightarrow> pp_conns (pool_of w n) m = Some a \<or> (\<exists>t. resolve_addr (env_info env t m) m = Inr a))
     \<Longrightarrow> quiet env w (set_pool n p w)"
  by (simp add: quiet_def set_pool_def)

lemma get_conn_conns:
  "pp_conns (snd (get_conn i d nid p)) m = Some a \<Longrightarrow>
     pp_conns p m = Some a \<or> (m = nid \<and> resolve_addr i nid = Inr a)"
  by (auto simp: get_conn_def split: option.splits sum.splits if_splits)

lemma get_conn_addr:
  "fst (get_conn i d nid p) = Inr a \<Longrightarrow> pp_conns p nid = Some a \<or> (resolve_addr i nid = Inr a)"
  by (auto simp: get_conn_def split: option.splits sum.splits if_splits)

lemma pool_of_set_pool [simp]: "pool_of (set_pool me p w) n = (if n = me then p else pool_of w n)"
  by (simp add: set_pool_def)

text \<open>Either nothing ran, and the caller gets an error; or a handler ran at a node that listens
  at an address known for the peer, and a result is its result.\<close>

lemma rpc_call_outcome:
  "\<exists>w1. quiet env w w1 \<and>
     ((\<exists>st. fst (rpc_call env fullMethod handler me addr w) = Inl st) \<and> quiet env w (snd (rpc_call env fullMethod handler me addr w))
      \<or> (\<exists>h. env_host env addr = Some h \<and> (\<exists>t. env_chain env t fullMethod me h = None)
           \<and> snd (rpc_call env fullMethod handler me addr w) = snd (handler h w1)
           \<and> (\<forall>v. fst (rpc_call env fullMethod handler me addr w) = Inr v \<longrightarrow> fst (handler h w1) = Inr v)))"
proof -
  let ?w1 = "w\<lparr>w_now := w_now w + env_delay env (w_now w)\<rparr>"
  show ?thesis
    by (rule exI [of _ ?w1])
      (auto simp: rpc_call_def Let_def case_prod_beta split: option.splits)
qed

lemma with_peer_outcome:
  obtains (silent) e where "fst (with_peer env fullMethod handler me nid w) = Inl e"
      "quiet env w (snd (with_peer env fullMethod handler me nid w))"
  | (called) w1 h addr where "quiet env w w1" "env_host env addr = Some h"
      "pp_conns (pool_of w me) nid = Some addr \<or> (\<exists>t. resolve_addr (env_info env t nid) nid = Inr addr)"
      "quiet env (snd (handler h w1)) (snd (with_peer env fullMethod handler me nid w))"
      "\<And>v. fst (with_peer env fullMethod handler me nid w) = Inr v \<Longrightarrow> fst (handler h w1) = Inr v"
      "\<exists>t. env_chain env t fullMethod me h = None"
proof -
  let ?p1 = "snd (peer_allow (w_now w) nid (pool_of w me))"
  let ?w1 = "set_pool me ?p1 w"
  let ?g = "get_conn (env_info env (w_now w) nid) (env_dialFails env) nid ?p1"
  let ?w2 = "set_pool me (snd ?g) ?w1"
  have q1: "quiet env w ?w1" by (rule quiet_pool) simp
  have q2: "quiet env w ?w2"
    using get_conn_conns [of "env_info env (w_now w) nid" "env_dialFails env" nid ?p1]
    by (intro quiet_trans [OF q1] quiet_pool) auto
  have q3: "quiet env v (set_pool me (peer_failure t nid (pool_of v me)) v)"
    "quiet env v (set_pool me (peer_success nid (pool_of v me)) v)" for v t
    by (rule quiet_pool; simp)+
  have q4: "quiet env w (set_pool me (peer_failure (w_now w) nid (snd ?g)) ?w1)"
    using get_conn_conns [of "env_info env (w_now w) nid" "env_dialFails env" nid ?p1]
    by (intro quiet_trans [OF q1] quiet_pool) auto
  let ?R = "with_peer env fullMethod handler me nid w"
  show thesis
  proof (cases "fst (peer_allow (w_now w) nid (pool_of w me))")
    case False
    then have "?R = (Inl (ErrCircuitOpen nid), ?w1)"
      by (simp add: with_peer_def case_prod_beta Let_def)
    then show thesis using silent q1 by simp
  next
    case allowed: True
    show thesis
    proof (cases "fst ?g")
      case (Inl e)
      then have "?R = (Inl e, set_pool me (peer_failure (w_now w) nid (snd ?g)) ?w1)"
        using allowed by (simp add: with_peer_def case_prod_beta Let_def)
      then show thesis using silent q4 by simp
    next
      case (Inr addr)
      let ?c = "rpc_call env fullMethod handler me addr ?w2"
      have R: "?R = (case fst ?c of
            Inl st \<Rightarrow> (Inl (ErrRpc st), set_pool me (peer_failure (w_now (snd ?c)) nid (pool_of (snd ?c) me)) (snd ?c))
          | Inr v \<Rightarrow> (Inr v, set_pool me (peer_success nid (pool_of (snd ?c) me)) (snd ?c)))"
        using allowed Inr by (simp add: with_peer_def case_prod_beta Let_def)
      then have q: "quiet env (snd ?c) (snd ?R)" using q3 by (cases "fst ?c") simp_all
      have res: "fst ?c = Inr v" if "fst ?R = Inr v" for v
        using R that by (cases "fst ?c") simp_all
      have addr: "pp_conns (pool_of w me) nid = Some addr \<or> (\<exists>t. resolve_addr (env_info env t nid) nid = Inr addr)"
        using get_conn_addr [OF Inr] by auto
      obtain w1 where w1: "quiet env ?w2 w1" and
        o: "(\<exists>st. fst ?c = Inl st) \<and> quiet env ?w2 (snd ?c)
          \<or> (\<exists>h. env_host env addr = Some h \<and> (\<exists>t. env_chain env t fullMethod me h = None)
              \<and> snd ?c = snd (handler h w1)
              \<and> (\<forall>v. fst ?c = Inr v \<longrightarrow> fst (handler h w1) = Inr v))"
        using rpc_call_outcome [of env ?w2 fullMethod handler me addr] by blast
      from o show thesis
      proof
        assume a: "(\<exists>st. fst ?c = Inl st) \<and> quiet env ?w2 (snd ?c)"
        then have "\<exists>e. fst ?R = Inl e" using R by auto
        moreover have "quiet env w (snd ?R)" using a q q2 quiet_trans by blast
        ultimately show thesis using silent by blast
      next
        assume "\<exists>h. env_host env addr = Some h \<and> (\<exists>t. env_chain env t fullMethod me h = None)
              \<and> snd ?c = snd (handler h w1)
              \<and> (\<forall>v. fst ?c = Inr v \<longrightarrow> fst (handler h w1) = Inr v)"
        then obtain h where "env_host env addr = Some h" "\<exists>t. env_chain env t fullMethod me h = None" "snd ?c = snd (handler h w1)"
          "\<forall>v. fst ?c = Inr v \<longrightarrow> fst (handler h w1) = Inr v" by blast
        then show thesis
          using called [of w1 addr h] quiet_trans [OF q2 w1] addr q res by auto
      qed
    qed
  qed
qed

text \<open>When the interceptors of every node answer the calls of a method themselves, no handler of
  it runs.\<close>

lemma with_peer_refused:
  assumes "\<And>t h. env_chain env t fullMethod me h \<noteq> None"
  shows "\<exists>e. fst (with_peer env fullMethod handler me nid w) = Inl e"
    and "quiet env w (snd (with_peer env fullMethod handler me nid w))"
  by (rule with_peer_outcome [of env fullMethod handler me nid w]; use assms in blast)+

section \<open>Relations that every step of a relay keeps\<close>

locale relay_relation =
  fixes env :: relay_env
    and R :: "relay_chunk_request \<Rightarrow> world \<Rightarrow> world \<Rightarrow> bool"
  assumes trans_R: "R req u v \<Longrightarrow> R req v w \<Longrightarrow> R req u w"
    and quiet_R: "quiet env v w \<Longrightarrow> R req v w"
    and run_R: "R req w (w\<lparr>w_runs := w_runs w @ [x]\<rparr>)"
    and job_R: "R req w (w\<lparr>w_jobs := w_jobs w @ [j]\<rparr>)"
    and save_R: "rq_ChunkHash req = '''' \<or> env_sha env (rq_Data req) = rq_ChunkHash req \<Longrightarrow>
                   R req w (snd (save_at env me req w))"
    and forward_R: "R (forward_request req hops) v w \<Longrightarrow> R req v w"
begin

lemma refl_R: "R req w w"
  by (rule quiet_R) simp

lemma forward_call_R:
  assumes "\<And>h w. R req w (snd (rpc h req w))"
  shows "R req w (snd (forward_chunk env rpc me nid req w))"
proof -
  have "R req w (snd (with_peer env relay_chunk_method (\<lambda>h. rpc h req) me nid w))"
  proof (rule with_peer_outcome [of env relay_chunk_method "\<lambda>h. rpc h req" me nid w])
    fix e assume "quiet env w (snd (with_peer env relay_chunk_method (\<lambda>h. rpc h req) me nid w))"
    then show ?thesis by (rule quiet_R)
  next
    fix w1 h addr
    assume "quiet env w w1" "quiet env (snd (rpc h req w1)) (snd (with_peer env relay_chunk_method (\<lambda>h. rpc h req) me nid w))"
    moreover have "R req w1 (snd (rpc h req w1))" by (rule assms)
    ultimately show ?thesis using quiet_R trans_R by blast
  qed
  then show ?thesis by (simp only: forward_chunk_def)
qed

lemma forward_chunk_R:
  "(\<And>h w. R (forward_request req hops) w (snd (rpc h (forward_request req hops) w))) \<Longrightarrow>
     R req w (snd (forward_chunk env rpc me nid (forward_request req hops) w))"
  by (rule forward_R [OF forward_call_R])

lemma store_final_R:
  "rq_ChunkHash req = '''' \<or> env_sha env (rq_Data req) = rq_ChunkHash req \<Longrightarrow> R req w (snd (store_final env me req w))"
  using save_R [of req w me] trans_R [OF _ job_R, of req w]
  by (auto simp: store_final_def case_prod_beta Let_def split: sum.splits)

lemma store_fallback_R:
  "rq_ChunkHash req = '''' \<or> env_sha env (rq_Data req) = rq_ChunkHash req \<Longrightarrow> R req w (snd (store_fallback env me req err w))"
  using save_R [of req w me]
  by (auto simp: store_fallback_def case_prod_beta Let_def split: sum.splits)

lemma reroute_R:
  assumes "rq_ChunkHash req = '''' \<or> env_sha env (rq_Data req) = rq_ChunkHash req"
    and "\<And>hops h w. R (forward_request req hops) w (snd (rpc h (forward_request req hops) w))"
  shows "R req w (snd (reroute env rpc me req err w))"
proof -
  have fb: "R req w' (snd (store_fallback env me req err' w'))" for err' w'
    using assms(1) by (rule store_fallback_R)
  have fwd: "R req w (snd (forward_chunk env rpc me nid (forward_request req hops) w))" for nid hops
    using assms(2) by (rule forward_chunk_R)
  show ?thesis
    using fb fwd trans_R [OF fwd fb]
    by (auto simp: reroute_def case_prod_beta Let_def split: option.splits sum.splits)
qed

lemma relay_body_R:
  assumes "\<And>hops h w. R (forward_request req hops) w (snd (rpc h (forward_request req hops) w))"
  shows "R req w (snd (relay_body env rpc me req w))"
proof -
  let ?w = "w\<lparr>w_runs := w_runs w @ [(me, req)]\<rparr>"
  let ?f = "forward_chunk env rpc me (hop_NodeId (rq_RemainingHops req ! 0))
      (forward_request req (drop 1 (rq_RemainingHops req))) ?w"
  have run: "R req w ?w" by (rule run_R)
  have fwd: "R req ?w (snd ?f)" using assms by (rule forward_chunk_R)
  have rer: "R req w' (snd (reroute env rpc me req err w'))"
    if "rq_ChunkHash req = '''' \<or> env_sha env (rq_Data req) = rq_ChunkHash req" for err w'
    using that assms by (rule reroute_R)
  show ?thesis
    using run trans_R [OF run fwd] trans_R [OF run trans_R [OF fwd rer]] trans_R [OF run store_final_R]
    by (auto simp: relay_body_def case_prod_beta Let_def split: sum.splits)
qed

lemma relay_levels_R: "R req w (snd (relay_levels env k me req w))"
proof (induction k arbitrary: me req w)
  case 0
  then show ?case by (simp add: refl_R)
next
  case (Suc k)
  then show ?case by (simp add: relay_body_R)
qed

lemma relay_chunk_R: "R req w (snd (relay_chunk env me req w))"
  unfolding relay_chunk_def by (rule relay_levels_R)

lemma send_R: "R req w (snd (forward_chunk env (relay_chunk env) me nid req w))"
  by (rule forward_call_R) (rule relay_chunk_R)

end

section \<open>Three such relations\<close>

text \<open>Integrity: a chunk changes only to the request's data, under the request's id and index,
  and only data that has the announced hash.\<close>

definition verified :: "relay_env \<Rightarrow> relay_chunk_request \<Rightarrow> bool" where
  "verified env req \<longleftrightarrow> rq_ChunkHash req = '''' \<or> env_sha env (rq_Data req) = rq_ChunkHash req"

definition stored_only :: "relay_env \<Rightarrow> relay_chunk_request \<Rightarrow> world \<Rightarrow> world \<Rightarrow> bool" where
  "stored_only env req w w' \<longleftrightarrow>
     (plain_id (rq_TransferId req) \<longrightarrow> in_int32 (rq_ChunkIndex req) \<longrightarrow>
      (\<forall>n t i. plain_id t \<longrightarrow> in_int32 i \<longrightarrow>
         chunk_at (store_of w' n) t i = chunk_at (store_of w n) t i
         \<or> (t = rq_TransferId req \<and> i = rq_ChunkIndex req \<and> verified env req
            \<and> chunk_at (store_of w' n) t i = Some (rq_Data req))))"

lemma verified_forward [simp]: "verified env (forward_request req hops) = verified env req"
  by (simp add: verified_def forward_request_def)

lemma forward_request_payload [simp]:
  "rq_TransferId (forward_request req hops) = rq_TransferId req"
  "rq_ChunkIndex (forward_request req hops) = rq_ChunkIndex req"
  "rq_Data (forward_request req hops) = rq_Data req"
  "rq_ChunkHash (forward_request req hops) = rq_ChunkHash req"
  "rq_RemainingHops (forward_request req hops) = hops"
  "rq_ReplicationFactor (forward_request req hops) = rq_ReplicationFactor req"
  by (simp_all add: forward_request_def)

lemma set_store_simps [simp]:
  "store_of (set_store me st w) n = (if n = me then st else store_of w n)"
  "pool_of (set_store me st w) n = pool_of w n"
  "w_runs (set_store me st w) = w_runs w"
  "w_jobs (set_store me st w) = w_jobs w"
  "w_now (set_store me st w) = w_now w"
  "rn_rerouter (w_nodes (set_store me st w) n) = rn_rerouter (w_nodes w n)"
  "rn_replicator (w_nodes (set_store me st w) n) = rn_replicator (w_nodes w n)"
  by (simp_all add: set_store_def)

lemma save_at_chunk:
  assumes "plain_id (rq_TransferId req)" "in_int32 (rq_ChunkIndex req)" "plain_id t" "in_int32 i"
  shows "chunk_at (store_of (snd (save_at env me req w)) n) t i =
    (if is_ok (fst (save_at env me req w)) \<and> n = me \<and> t = rq_TransferId req \<and> i = rq_ChunkIndex req
     then Some (rq_Data req) else chunk_at (store_of w n) t i)"
  using chunk_at_save [OF assms, of "env_sha env" "env_faults env (w_now w) me" "rq_Data req" "store_of w me"]
  by (auto simp: save_at_def case_prod_beta Let_def)

interpretation integrity: relay_relation env "stored_only env" for env
proof unfold_locales
  show "stored_only env req u w" if "stored_only env req u v" "stored_only env req v w" for req u v w
    using that unfolding stored_only_def by metis
  show "stored_only env req v w" if "quiet env v w" for req v w
    using that by (simp add: stored_only_def quiet_def)
  show "stored_only env req w (snd (save_at env me req w))"
    if "rq_ChunkHash req = '''' \<or> env_sha env (rq_Data req) = rq_ChunkHash req" for req w me
    using that save_at_chunk [of req _ _ env me w] by (simp add: stored_only_def verified_def)
  show "stored_only env req v w" if "stored_only env (forward_request req hops) v w" for req hops v w
    using that by (simp add: stored_only_def)
qed (simp_all add: stored_only_def)

text \<open>Wiring: pools only gain resolved addresses, and the parts a node has stay.\<close>

definition same_wiring :: "relay_env \<Rightarrow> relay_chunk_request \<Rightarrow> world \<Rightarrow> world \<Rightarrow> bool" where
  "same_wiring env req w w' \<longleftrightarrow>
     (\<forall>n. rn_rerouter (w_nodes w' n) = rn_rerouter (w_nodes w n)
       \<and> rn_replicator (w_nodes w' n) = rn_replicator (w_nodes w n)
       \<and> (\<forall>m a. pp_conns (pool_of w' n) m = Some a \<longrightarrow>
            pp_conns (pool_of w n) m = Some a \<or> (\<exists>t. resolve_addr (env_info env t m) m = Inr a)))"

interpretation wiring: relay_relation env "same_wiring env" for env
proof unfold_locales
  show "same_wiring env req u w" if "same_wiring env req u v" "same_wiring env req v w" for req u v w
    using that unfolding same_wiring_def by metis
  show "same_wiring env req v w" if "quiet env v w" for req v w
    using that by (simp add: same_wiring_def quiet_def)
  show "same_wiring env req w (snd (save_at env me req w))" for req w me
    by (simp add: same_wiring_def save_at_def case_prod_beta Let_def)
qed (simp_all add: same_wiring_def)

text \<open>The jobs a request starts carry its payload and its replication factor.\<close>

definition jobs_of :: "relay_chunk_request \<Rightarrow> world \<Rightarrow> world \<Rightarrow> bool" where
  "jobs_of req w w' \<longleftrightarrow> (\<exists>js. w_jobs w' = w_jobs w @ js)"

interpretation jobs: relay_relation env jobs_of for env
proof unfold_locales
  show "jobs_of req w (snd (save_at env me req w))" for req w me
    by (simp add: jobs_of_def save_at_def case_prod_beta Let_def)
qed (auto simp: jobs_of_def quiet_def)

section \<open>How many handlers run\<close>

lemma with_peer_runs:
  assumes "\<And>h w. length (w_runs (snd (handler h w))) \<le> length (w_runs w) + c"
  shows "length (w_runs (snd (with_peer env fullMethod handler me nid w))) \<le> length (w_runs w) + c"
proof (rule with_peer_outcome [of env fullMethod handler me nid w])
  fix e assume "quiet env w (snd (with_peer env fullMethod handler me nid w))"
  then show ?thesis by (simp add: quiet_def)
next
  fix w1 h addr assume "quiet env w w1" "quiet env (snd (handler h w1)) (snd (with_peer env fullMethod handler me nid w))"
  then show ?thesis using assms [of h w1] by (simp add: quiet_def)
qed

lemma save_at_runs [simp]: "w_runs (snd (save_at env me req w)) = w_runs w"
  by (simp add: save_at_def case_prod_beta Let_def)

lemma store_runs [simp]:
  "w_runs (snd (store_final env me req w)) = w_runs w"
  "w_runs (snd (store_fallback env me req err w)) = w_runs w"
  by (auto simp: store_final_def store_fallback_def case_prod_beta Let_def split: sum.splits)

lemma relay_levels_runs:
  "length (w_runs (snd (relay_levels env k me req w))) + 1 \<le> length (w_runs w) + 2 ^ k"
proof (induction k arbitrary: me req w)
  case (Suc k)
  obtain c where c: "(2::nat) ^ k = c + 1" by (metis Suc_eq_plus1 not0_implies_Suc power_not_zero zero_neq_numeral)
  have IH: "length (w_runs (snd (relay_levels env k h r v))) \<le> length (w_runs v) + c" for h r v
    using Suc [of h r v] c by simp
  have fwd: "length (w_runs (snd (forward_chunk env (relay_levels env k) me nid r v))) \<le> length (w_runs v) + c"
    for nid r v
    unfolding forward_chunk_def using IH by (rule with_peer_runs)
  have rer: "length (w_runs (snd (reroute env (relay_levels env k) me req err v))) \<le> length (w_runs v) + c"
    for err v
    using fwd by (auto simp: reroute_def case_prod_beta Let_def split: option.splits sum.splits)
  have "length (w_runs (snd (relay_body env (relay_levels env k) me req w))) \<le> length (w_runs w) + 1 + c + c"
  proof -
    let ?w = "w\<lparr>w_runs := w_runs w @ [(me, req)]\<rparr>"
    let ?f = "forward_chunk env (relay_levels env k) me (hop_NodeId (rq_RemainingHops req ! 0))
        (forward_request req (drop 1 (rq_RemainingHops req))) ?w"
    have "length (w_runs (snd ?f)) \<le> length (w_runs w) + 1 + c" using fwd [of _ _ ?w] by simp
    moreover have "length (w_runs (snd (reroute env (relay_levels env k) me req err (snd ?f))))
        \<le> length (w_runs w) + 1 + c + c" for err
      using rer [of err "snd ?f"] calculation by linarith
    ultimately show ?thesis
      by (auto simp: relay_body_def case_prod_beta Let_def split: sum.splits)
  qed
  moreover have "1 + c + c + 1 = 2 ^ Suc k" using c by simp
  ultimately show ?case by simp
qed simp

section \<open>An acknowledged chunk is stored\<close>

lemma forward_chunk_called:
  assumes "fst (forward_chunk env rpc me nid req w) = Inr v"
  obtains w1 h addr where "quiet env w w1" "env_host env addr = Some h"
    "pp_conns (pool_of w me) nid = Some addr \<or> (\<exists>t. resolve_addr (env_info env t nid) nid = Inr addr)"
    "fst (rpc h req w1) = Inr v" "quiet env (snd (rpc h req w1)) (snd (forward_chunk env rpc me nid req w))"
proof (rule with_peer_outcome [of env relay_chunk_method "\<lambda>h. rpc h req" me nid w])
  fix e assume "fst (with_peer env relay_chunk_method (\<lambda>h. rpc h req) me nid w) = Inl e"
  then show thesis using assms by (simp add: forward_chunk_def)
next
  fix w1 h addr
  assume "quiet env w w1" "env_host env addr = Some h"
    "pp_conns (pool_of w me) nid = Some addr \<or> (\<exists>t. resolve_addr (env_info env t nid) nid = Inr addr)"
    "quiet env (snd (rpc h req w1)) (snd (with_peer env relay_chunk_method (\<lambda>h. rpc h req) me nid w))"
    "\<And>v. fst (with_peer env relay_chunk_method (\<lambda>h. rpc h req) me nid w) = Inr v \<Longrightarrow> fst (rpc h req w1) = Inr v"
  then show thesis using assms that [of w1 addr h] by (simp add: forward_chunk_def)
qed

text \<open>A result of the body is: stored here as the last hop; stored here after failed forwards;
  or the result of a forward to the next hop or to the first hop of a new route.\<close>

lemma store_fallback_Inr:
  "fst (store_fallback env me req err w) = Inr resp \<Longrightarrow>
     is_ok (fst (save_at env me req w)) \<and> resp = \<lparr>rs_Success = False, rs_NodeId = me, rs_ErrorMessage = Some err\<rparr>
     \<and> snd (store_fallback env me req err w) = snd (save_at env me req w)"
  by (auto simp: store_fallback_def case_prod_beta Let_def split: sum.splits)

lemma store_final_Inr:
  "fst (store_final env me req w) = Inr resp \<Longrightarrow>
     is_ok (fst (save_at env me req w)) \<and> resp = \<lparr>rs_Success = True, rs_NodeId = me, rs_ErrorMessage = None\<rparr>
     \<and> (\<forall>n. store_of (snd (store_final env me req w)) n = store_of (snd (save_at env me req w)) n)"
  by (auto simp: store_final_def case_prod_beta Let_def split: sum.splits)

lemma reroute_cases:
  assumes "fst (reroute env rpc me req err w) = Inr resp"
  obtains (rerouted) hops where
      "find_alternative_route env (w_now w) me (hop_NodeId (last (rq_RemainingHops req)))
         (hop_NodeId (rq_RemainingHops req ! 0)) = Some hops"
      "fst (forward_chunk env rpc me (hop_NodeId (hops ! 0)) (forward_request req (drop 1 hops)) w) = Inr resp"
      "snd (reroute env rpc me req err w) =
         snd (forward_chunk env rpc me (hop_NodeId (hops ! 0)) (forward_request req (drop 1 hops)) w)"
  | (kept) err' w' where "is_ok (fst (save_at env me req w'))"
      "resp = \<lparr>rs_Success = False, rs_NodeId = me, rs_ErrorMessage = Some err'\<rparr>"
      "snd (reroute env rpc me req err w) = snd (save_at env me req w')"
proof -
  let ?alt = "find_alternative_route env (w_now w) me (hop_NodeId (last (rq_RemainingHops req)))
         (hop_NodeId (rq_RemainingHops req ! 0))"
  consider (none) "reroute env rpc me req err w = store_fallback env me req err w"
    | (some) hops where "?alt = Some hops" "reroute env rpc me req err w =
        (let (r, w1) = forward_chunk env rpc me (hop_NodeId (hops ! 0)) (forward_request req (drop 1 hops)) w
         in (case r of Inr resp \<Rightarrow> (Inr resp, w1) | Inl err' \<Rightarrow> store_fallback env me req err' w1))"
  proof (cases "rn_rerouter (w_nodes w me) \<and> length (rq_RemainingHops req) > 0 \<and> ?alt \<noteq> None")
    case True
    then obtain hops where a: "?alt = Some hops" by blast
    show thesis using True a by (intro that(2) [OF a]) (simp add: reroute_def Let_def)
  next
    case False
    then show thesis by (intro that(1)) (auto simp: reroute_def Let_def)
  qed
  then show thesis
  proof cases
    case none
    then show thesis using assms store_fallback_Inr [of env me req err w resp] kept by auto
  next
    case (some hops)
    let ?f = "forward_chunk env rpc me (hop_NodeId (hops ! 0)) (forward_request req (drop 1 hops)) w"
    show thesis
    proof (cases "fst ?f")
      case (Inl err')
      then have "reroute env rpc me req err w = store_fallback env me req err' (snd ?f)"
        using some(2) by (simp add: case_prod_beta Let_def)
      then show thesis using assms store_fallback_Inr [of env me req err' "snd ?f" resp] kept by auto
    next
      case (Inr v)
      then have "reroute env rpc me req err w = (Inr v, snd ?f)"
        using some(2) by (simp add: case_prod_beta Let_def)
      then show thesis using assms rerouted [OF some(1)] Inr by simp
    qed
  qed
qed


lemma relay_body_cases:
  assumes "fst (relay_body env rpc me req w) = Inr resp"
    and rpc: "\<And>hops h w. same_wiring env (forward_request req hops) w (snd (rpc h (forward_request req hops) w))"
  obtains (final) w' where "is_ok (fst (save_at env me req w'))"
      "resp = \<lparr>rs_Success = True, rs_NodeId = me, rs_ErrorMessage = None\<rparr>"
      "\<And>n. store_of (snd (relay_body env rpc me req w)) n = store_of (snd (save_at env me req w')) n"
      "is_final_destination me (rq_RemainingHops req)"
  | (forwarded) w' nid hops where "\<not> is_final_destination me (rq_RemainingHops req)"
      "same_wiring env req w w'"
      "nid = hop_NodeId (rq_RemainingHops req ! 0) \<and> hops = drop 1 (rq_RemainingHops req)
       \<or> (\<exists>t new. find_alternative_route env t me (hop_NodeId (last (rq_RemainingHops req)))
             (hop_NodeId (rq_RemainingHops req ! 0)) = Some new \<and> nid = hop_NodeId (new ! 0) \<and> hops = drop 1 new)"
      "fst (forward_chunk env rpc me nid (forward_request req hops) w') = Inr resp"
      "snd (relay_body env rpc me req w) = snd (forward_chunk env rpc me nid (forward_request req hops) w')"
  | (kept) err' w' where "is_ok (fst (save_at env me req w'))"
      "resp = \<lparr>rs_Success = False, rs_NodeId = me, rs_ErrorMessage = Some err'\<rparr>"
      "snd (relay_body env rpc me req w) = snd (save_at env me req w')"
proof -
  let ?w = "w\<lparr>w_runs := w_runs w @ [(me, req)]\<rparr>"
  let ?f = "forward_chunk env rpc me (hop_NodeId (rq_RemainingHops req ! 0))
      (forward_request req (drop 1 (rq_RemainingHops req))) ?w"
  have run: "same_wiring env req w ?w" by (rule wiring.run_R)
  have fwd: "same_wiring env req w (snd ?f)"
    by (rule wiring.trans_R [OF run wiring.forward_chunk_R]) (rule rpc)
  consider (store) "is_final_destination me (rq_RemainingHops req)"
      "relay_body env rpc me req w = store_final env me req ?w"
    | (fwd) "\<not> is_final_destination me (rq_RemainingHops req)"
      "relay_body env rpc me req w =
        (let (r, w1) = ?f in case r of Inr resp \<Rightarrow> (Inr resp, w1) | Inl err \<Rightarrow> reroute env rpc me req err w1)"
    using assms(1)
    by (auto simp: relay_body_def Let_def is_final_destination_def split: if_splits)
  then show thesis
  proof cases
    case store
    then show thesis using assms(1) store_final_Inr [of env me req ?w resp] final [of ?w] by auto
  next
    case fwd2: fwd
    show thesis
    proof (cases "fst ?f")
      case (Inr v)
      then have "relay_body env rpc me req w = (Inr v, snd ?f)"
        using fwd2(2) by (simp add: case_prod_beta Let_def)
      then show thesis
        using assms(1) Inr forwarded [OF fwd2(1) run, of "hop_NodeId (rq_RemainingHops req ! 0)" "drop 1 (rq_RemainingHops req)"]
        by simp
    next
      case (Inl err)
      then have body: "relay_body env rpc me req w = reroute env rpc me req err (snd ?f)"
        using fwd2(2) by (simp add: case_prod_beta Let_def)
      then have "fst (reroute env rpc me req err (snd ?f)) = Inr resp" using assms(1) by simp
      then show thesis
      proof (cases rule: reroute_cases)
        case (rerouted hops)
        then show thesis
          using forwarded [OF fwd2(1) fwd, of "hop_NodeId (hops ! 0)" "drop 1 hops"] body by auto
      next
        case (kept err' w')
        then show thesis using that(3) [of w' err'] body by simp
      qed
    qed
  qed
qed

lemmas relay_level_cases [consumes 1, case_names final forwarded kept] =
  relay_body_cases [OF _ wiring.relay_levels_R]

lemma quiet_chunk: "quiet env w w' \<Longrightarrow> chunk_at (store_of w' n) t i = chunk_at (store_of w n) t i"
  by (simp add: quiet_def)

lemma relay_levels_ack:
  assumes "plain_id (rq_TransferId req)" "in_int32 (rq_ChunkIndex req)"
    and "fst (relay_levels env k me req w) = Inr resp"
  shows "chunk_at (store_of (snd (relay_levels env k me req w)) (rs_NodeId resp))
           (rq_TransferId req) (rq_ChunkIndex req) = Some (rq_Data req)"
  using assms
proof (induction k arbitrary: me req w resp)
  case (Suc k)
  note save = save_at_chunk [OF Suc.prems(1,2) Suc.prems(1,2)]
  have "fst (relay_body env (relay_levels env k) me req w) = Inr resp" using Suc.prems(3) by simp
  then show ?case
  proof (cases rule: relay_level_cases)
    case (final w')
    then show ?thesis using save by simp
  next
    case (kept err' w')
    then show ?thesis using save by simp
  next
    case (forwarded w' nid hops)
    obtain w1 h where r: "fst (relay_levels env k h (forward_request req hops) w1) = Inr resp"
      and q: "quiet env (snd (relay_levels env k h (forward_request req hops) w1))
        (snd (forward_chunk env (relay_levels env k) me nid (forward_request req hops) w'))"
      using forwarded(4) by (rule forward_chunk_called)
    show ?thesis
      using Suc.IH [OF _ _ r] Suc.prems(1,2) quiet_chunk [OF q] forwarded(5) by simp
  qed
qed simp

section \<open>A chunk reaches its destination\<close>

definition route_dest :: "node_id \<Rightarrow> route_hop list \<Rightarrow> node_id" where
  "route_dest me hops = (if hops = [] then me else hop_NodeId (last hops))"

text \<open>Addresses that discovery gives out, or that a pool keeps, are of the node asked for.\<close>

definition addressed :: "relay_env \<Rightarrow> world \<Rightarrow> bool" where
  "addressed env w \<longleftrightarrow>
     (\<forall>t n a. resolve_addr (env_info env t n) n = Inr a \<longrightarrow> env_host env a = None \<or> env_host env a = Some n)
     \<and> (\<forall>me n a. pp_conns (pool_of w me) n = Some a \<longrightarrow> env_host env a = None \<or> env_host env a = Some n)"

lemma addressed_wiring: "addressed env w \<Longrightarrow> same_wiring env req w w' \<Longrightarrow> addressed env w'"
  unfolding addressed_def same_wiring_def by (intro conjI allI impI) blast+

text \<open>Routes that the routing service gives out end at the target.\<close>

definition routes_complete :: "relay_env \<Rightarrow> bool" where
  "routes_complete env \<longleftrightarrow>
     (\<forall>t s d m ex hops. env_route env t s d m ex = Inr hops \<longrightarrow> hops \<noteq> [] \<longrightarrow> hop_NodeId (last hops) = d)"

lemma route_dest_step: "hops \<noteq> [] \<Longrightarrow> route_dest (hop_NodeId (hops ! 0)) (drop 1 hops) = route_dest me hops"
  by (cases hops) (auto simp: route_dest_def)

lemma final_dest: "is_final_destination me hops \<Longrightarrow> route_dest me hops = me"
  by (cases hops) (auto simp: is_final_destination_def route_dest_def split: if_splits)

lemma alternative_dest:
  assumes "routes_complete env" "find_alternative_route env t me d failed = Some new"
  shows "route_dest (hop_NodeId (new ! 0)) (drop 1 new) = d"
proof -
  have "new \<noteq> []" "hop_NodeId (last new) = d"
    using assms by (auto simp: find_alternative_route_def routes_complete_def split: sum.splits if_splits)
  then show ?thesis using route_dest_step [of new me] by (simp add: route_dest_def [of me])
qed

lemma relay_levels_dest:
  assumes "addressed env w" "routes_complete env"
    and "fst (relay_levels env k me req w) = Inr resp" "rs_Success resp"
  shows "rs_NodeId resp = route_dest me (rq_RemainingHops req)"
  using assms(1,3,4)
proof (induction k arbitrary: me req w resp)
  case (Suc k)
  have "fst (relay_body env (relay_levels env k) me req w) = Inr resp" using Suc.prems(2) by simp
  then show ?case
  proof (cases rule: relay_level_cases)
    case (final w')
    then show ?thesis using final_dest by simp
  next
    case (kept err' w')
    then show ?thesis using Suc.prems(3) by simp
  next
    case (forwarded w' nid hops)
    obtain w1 h a where w1: "quiet env w' w1" and a: "env_host env a = Some h"
      and known: "pp_conns (pool_of w' me) nid = Some a \<or> (\<exists>t. resolve_addr (env_info env t nid) nid = Inr a)"
      and r: "fst (relay_levels env k h (forward_request req hops) w1) = Inr resp"
      using forwarded(4) by (rule forward_chunk_called)
    have w': "addressed env w'" using addressed_wiring [OF Suc.prems(1) forwarded(2)] .
    then have "h = nid" using a known unfolding addressed_def by fastforce
    moreover have "addressed env w1" using addressed_wiring [OF w' wiring.quiet_R [OF w1]] .
    ultimately have "rs_NodeId resp = route_dest nid hops"
      using Suc.IH [OF _ r Suc.prems(3)] by simp
    moreover have "rq_RemainingHops req \<noteq> []"
      using forwarded(1) by (auto simp: is_final_destination_def)
    then have "route_dest nid hops = route_dest me (rq_RemainingHops req)"
      using forwarded(3) alternative_dest [OF assms(2)] route_dest_step [of "rq_RemainingHops req" me]
      by (elim disjE exE conjE) (simp_all add: route_dest_def [of me])
    ultimately show ?thesis by simp
  qed
qed simp

section \<open>A network that is up\<close>

text \<open>The nodes \<open>ns\<close> resolve, let calls through, answer and have working stores.\<close>

definition network_up :: "node_id set \<Rightarrow> relay_env \<Rightarrow> bool" where
  "network_up ns env \<longleftrightarrow>
     (\<forall>t. \<forall>n\<in>ns. \<exists>a. resolve_addr (env_info env t n) n = Inr a \<and> \<not> env_dialFails env a \<and> env_host env a = Some n)
     \<and> (\<forall>t x y. env_up env t x y \<and> env_chain env t relay_chunk_method x y = None \<and> env_reply env t x y)
     \<and> (\<forall>t. \<forall>n\<in>ns. env_faults env t n = no_faults)"

definition pools_up :: "relay_env \<Rightarrow> world \<Rightarrow> bool" where
  "pools_up env w \<longleftrightarrow>
     (\<forall>me n. cb_state (breaker_of (pool_of w me) n) = StateClosed
       \<and> (\<forall>a. pp_conns (pool_of w me) n = Some a \<longrightarrow> env_host env a = Some n))"

lemma pools_up_set_pool:
  "pools_up env w \<Longrightarrow> (\<And>n. cb_state (breaker_of p n) = StateClosed) \<Longrightarrow>
     (\<And>n a. pp_conns p n = Some a \<Longrightarrow> env_host env a = Some n) \<Longrightarrow> pools_up env (set_pool me p w)"
  by (simp add: pools_up_def)

lemma with_peer_up:
  assumes "network_up ns env" "nid \<in> ns" "pools_up env w"
    and "\<And>w. pools_up env w \<Longrightarrow> fst (handler nid w) = Inr v \<and> pools_up env (snd (handler nid w))"
  shows "fst (with_peer env relay_chunk_method handler me nid w) = Inr v \<and> pools_up env (snd (with_peer env relay_chunk_method handler me nid w))"
proof -
  let ?pa = "peer_allow (w_now w) nid (pool_of w me)"
  let ?w1 = "set_pool me (snd ?pa) w"
  let ?g = "get_conn (env_info env (w_now w) nid) (env_dialFails env) nid (snd ?pa)"
  let ?w2 = "set_pool me (snd ?g) ?w1"
  have allow: "cb_allow t cb = (True, cb)" if "cb_state cb = StateClosed" for cb t
    using that by (simp add: cb_allow_def)
  have closed: "cb_state (breaker_of (pool_of w n) m) = StateClosed" for n m
    using assms(3) by (simp add: pools_up_def)
  have pa: "fst ?pa" "breaker_of (snd ?pa) m = breaker_of (pool_of w me) m" for m
    using allow [OF closed] by (auto simp: peer_allow_ok breaker_of_peer)
  have here: "\<exists>b. resolve_addr (env_info env t nid) nid = Inr b \<and> \<not> env_dialFails env b \<and> env_host env b = Some nid" for t
    using assms(1,2) by (simp add: network_up_def)
  have known: "env_host env a = Some m" if "pp_conns (snd ?g) m = Some a" for m a
  proof -
    have "env_host env a = Some m" if "pp_conns (pool_of w me) m = Some a"
      using assms(3) that unfolding pools_up_def by blast
    moreover have "pp_conns (pool_of w me) m = Some a
        \<or> (m = nid \<and> resolve_addr (env_info env (w_now w) nid) nid = Inr a)"
      using get_conn_conns [OF that] unfolding conns_peer .
    ultimately show ?thesis using here [of "w_now w"] by (elim disjE conjE exE) simp_all
  qed
  obtain a where a: "fst ?g = Inr a" "env_host env a = Some nid"
  proof (cases "pp_conns (pool_of w me) nid")
    case None
    obtain b where "resolve_addr (env_info env (w_now w) nid) nid = Inr b" "\<not> env_dialFails env b"
      "env_host env b = Some nid"
      using here by blast
    then show thesis using None by (intro that [of b]) (simp_all add: get_conn_def)
  next
    case (Some b)
    moreover have "env_host env b = Some nid" using assms(3) Some unfolding pools_up_def by blast
    ultimately show thesis by (intro that [of b]) (simp_all add: get_conn_def)
  qed
  have w2: "pools_up env ?w2"
    using assms(3) closed pa known by (intro pools_up_set_pool) (auto simp: pools_up_def)
  let ?w3 = "?w2\<lparr>w_now := w_now ?w2 + env_delay env (w_now ?w2)\<rparr>"
  have w3: "pools_up env ?w3" using w2 by (simp add: pools_up_def)
  let ?c = "handler nid ?w3"
  have c: "fst ?c = Inr v" "pools_up env (snd ?c)" using assms(4) [OF w3] by simp_all
  have "rpc_call env relay_chunk_method handler me a ?w2 = ?c"
    using assms(1) a(2) by (simp add: rpc_call_def network_up_def Let_def case_prod_beta)
  then have "with_peer env relay_chunk_method handler me nid w = (Inr v, set_pool me (peer_success nid (pool_of (snd ?c) me)) (snd ?c))"
    using pa(1) a(1) c(1) by (simp add: with_peer_def case_prod_beta Let_def)
  moreover have "pools_up env (set_pool me (peer_success nid (pool_of (snd ?c) me)) (snd ?c))"
    using c(2) by (intro pools_up_set_pool) (auto simp: pools_up_def breaker_of_peer cb_record_success_def)
  ultimately show ?thesis by simp
qed

lemma pools_up_cong:
  "(\<And>n. pool_of w' n = pool_of w n) \<Longrightarrow> pools_up env w' = pools_up env w"
  by (simp add: pools_up_def)

lemma save_at_no_faults:
  "network_up ns env \<Longrightarrow> me \<in> ns \<Longrightarrow> fst (save_at env me req w) = Inr (env_sha env (rq_Data req))"
  by (simp add: network_up_def save_at_def save_chunk_no_faults Let_def)

lemma pools_save_at [simp]: "pool_of (snd (save_at env me req w)) n = pool_of w n"
  by (simp add: save_at_def case_prod_beta Let_def)

lemma store_final_up:
  "network_up ns env \<Longrightarrow> me \<in> ns \<Longrightarrow> fst (store_final env me req w) = Inr \<lparr>rs_Success = True, rs_NodeId = me, rs_ErrorMessage = None\<rparr>
     \<and> (\<forall>n. pool_of (snd (store_final env me req w)) n = pool_of w n)"
  by (simp add: store_final_def save_at_no_faults case_prod_beta Let_def)

lemma relay_levels_delivers:
  assumes up: "network_up ns env"
  shows "pools_up env w \<Longrightarrow> insert me (hop_NodeId ` set (rq_RemainingHops req)) \<subseteq> ns \<Longrightarrow> rq_TransferId req \<noteq> '''' \<Longrightarrow> rq_Data req \<noteq> [] \<Longrightarrow> verified env req \<Longrightarrow>
    in_int32 (rq_Ttl req) \<Longrightarrow> int (length (rq_RemainingHops req)) < rq_Ttl req \<Longrightarrow>
    length (rq_RemainingHops req) < k \<Longrightarrow>
    fst (relay_levels env k me req w) =
      Inr \<lparr>rs_Success = True, rs_NodeId = route_dest me (rq_RemainingHops req), rs_ErrorMessage = None\<rparr>
    \<and> pools_up env (snd (relay_levels env k me req w))"
proof (induction "length (rq_RemainingHops req)" arbitrary: k me req w rule: less_induct)
  case less
  let ?w = "w\<lparr>w_runs := w_runs w @ [(me, req)]\<rparr>"
  obtain k' where k: "k = Suc k'" using less.prems(8) by (cases k) auto
  have w: "pools_up env ?w" using less.prems(1) by (simp add: pools_up_def)
  have guards: "\<not> rq_Ttl req \<le> 0"
    "\<not> (rq_ChunkHash req \<noteq> '''' \<and> env_sha env (rq_Data req) \<noteq> rq_ChunkHash req)"
    using less.prems(5,7) by (auto simp: verified_def)
  show ?case
  proof (cases "is_final_destination me (rq_RemainingHops req)")
    case True
    have "pools_up env (snd (store_final env me req ?w))"
      using w store_final_up [OF up, of me req ?w] less.prems(2) pools_up_cong [of "snd (store_final env me req ?w)" ?w env]
      by simp
    then show ?thesis
      using True guards less.prems(3,4) store_final_up [OF up, of me req ?w] less.prems(2) final_dest [OF True]
      by (simp add: k relay_body_def Let_def)
  next
    case False
    then obtain h hs where hops: "rq_RemainingHops req = h # hs"
      by (cases "rq_RemainingHops req") (auto simp: is_final_destination_def)
    let ?req = "forward_request req hs"
    let ?v = "\<lparr>rs_Success = True, rs_NodeId = route_dest (hop_NodeId h) hs, rs_ErrorMessage = None\<rparr>"
    have ttl: "rq_Ttl ?req = rq_Ttl req - 1"
      using wrap32_pred [of "rq_Ttl req"] guards(1) less.prems(6) by (simp add: forward_request_def)
    have "fst (relay_levels env k' (hop_NodeId h) ?req v) = Inr ?v
        \<and> pools_up env (snd (relay_levels env k' (hop_NodeId h) ?req v))" if "pools_up env v" for v
      using less.hyps [where req = ?req and w = v and k = k' and me = "hop_NodeId h"] that less.prems ttl hops k
      by (simp add: in_int32_def)
    then have "fst (forward_chunk env (relay_levels env k') me (hop_NodeId h) ?req ?w) = Inr ?v
        \<and> pools_up env (snd (forward_chunk env (relay_levels env k') me (hop_NodeId h) ?req ?w))"
      unfolding forward_chunk_def using up w less.prems(2) hops by (intro with_peer_up) auto
    moreover have "route_dest (hop_NodeId h) hs = route_dest me (h # hs)" by (simp add: route_dest_def)
    ultimately show ?thesis
      using False guards less.prems(3,4) hops
      by (simp add: k relay_body_def Let_def case_prod_beta)
  qed
qed

section \<open>A network that refuses\<close>

text \<open>The interceptors of every node turn down \<open>RelayChunk\<close> calls of \<open>me\<close>.\<close>

definition relaying_refused :: "relay_env \<Rightarrow> node_id \<Rightarrow> bool" where
  "relaying_refused env me \<longleftrightarrow> (\<forall>t h. env_chain env t relay_chunk_method me h \<noteq> None)"

lemma forward_refused:
  assumes "relaying_refused env me"
  shows "\<exists>e. fst (forward_chunk env rpc me nid req w) = Inl e"
    and "quiet env w (snd (forward_chunk env rpc me nid req w))"
  unfolding forward_chunk_def
  using with_peer_refused [of env relay_chunk_method me] assms unfolding relaying_refused_def by blast+

lemma save_at_stores:
  assumes "\<And>t. env_faults env t me = no_faults"
  shows "is_ok (fst (save_at env me req w))"
  using assms by (simp add: save_at_def save_chunk_no_faults Let_def)

text \<open>What a node does with a chunk that is not for itself: it keeps it.\<close>

definition kept_here :: "node_id \<Rightarrow> relay_chunk_request \<Rightarrow> relay_env \<Rightarrow> world \<Rightarrow> relay_chunk_response result \<times> world \<Rightarrow> bool" where
  "kept_here me req env w r \<longleftrightarrow>
     (\<exists>err w'. fst r = Inr \<lparr>rs_Success = False, rs_NodeId = me, rs_ErrorMessage = Some err\<rparr>
        \<and> quiet env w w' \<and> snd r = snd (save_at env me req w'))"

lemma store_fallback_kept:
  assumes "\<And>t. env_faults env t me = no_faults" "quiet env w w'"
  shows "kept_here me req env w (store_fallback env me req err w')"
proof -
  obtain d where "fst (save_at env me req w') = Inr d"
    using save_at_stores [of env me req w'] assms(1) by (cases "fst (save_at env me req w')") auto
  then have "store_fallback env me req err w' =
      (Inr \<lparr>rs_Success = False, rs_NodeId = me, rs_ErrorMessage = Some err\<rparr>, snd (save_at env me req w'))"
    by (simp add: store_fallback_def case_prod_beta Let_def)
  then show ?thesis using assms(2) by (auto simp: kept_here_def)
qed

lemma reroute_refused:
  assumes "relaying_refused env me" "\<And>t. env_faults env t me = no_faults" "quiet env w w'"
  shows "kept_here me req env w (reroute env rpc me req err w')"
proof -
  have fb: "kept_here me req env w (store_fallback env me req e' v)" if "quiet env w v" for e' v
    using store_fallback_kept assms(2) that by blast
  have "kept_here me req env w (let (r, w1) = forward_chunk env rpc me nid r' w'
      in (case r of Inr resp \<Rightarrow> (Inr resp, w1) | Inl err' \<Rightarrow> store_fallback env me req err' w1))" for nid r'
  proof -
    obtain e where "fst (forward_chunk env rpc me nid r' w') = Inl e" using forward_refused(1) [OF assms(1)] by blast
    moreover have "quiet env w (snd (forward_chunk env rpc me nid r' w'))"
      using quiet_trans [OF assms(3) forward_refused(2) [OF assms(1)]] .
    ultimately show ?thesis using fb by (simp add: case_prod_beta Let_def)
  qed
  then show ?thesis using fb [OF assms(3)] by (auto simp: reroute_def Let_def split: option.split)
qed

lemma relay_body_refused:
  assumes "relaying_refused env me" "\<And>t. env_faults env t me = no_faults"
    and "rq_TransferId req \<noteq> ''''" "rq_Data req \<noteq> []" "verified env req" "0 < rq_Ttl req"
    and "\<not> is_final_destination me (rq_RemainingHops req)"
  shows "kept_here me req env (w\<lparr>w_runs := w_runs w @ [(me, req)]\<rparr>) (relay_body env rpc me req w)"
proof -
  let ?w = "w\<lparr>w_runs := w_runs w @ [(me, req)]\<rparr>"
  let ?f = "forward_chunk env rpc me (hop_NodeId (rq_RemainingHops req ! 0))
      (forward_request req (drop 1 (rq_RemainingHops req))) ?w"
  obtain e where e: "fst ?f = Inl e" using forward_refused(1) [OF assms(1)] by blast
  have "relay_body env rpc me req w = reroute env rpc me req e (snd ?f)"
    using assms(3-7) e
    by (auto simp: relay_body_def verified_def Let_def case_prod_beta is_final_destination_def split: if_splits)
  then show ?thesis using reroute_refused [OF assms(1,2) forward_refused(2) [OF assms(1)]] by simp
qed

section \<open>Replication\<close>

lemma pick_targets_bound:
  assumes "1 < factor" "in_int32 factor" "int (length acc) < factor - 1"
  shows "int (length (pick_targets excluded factor peers acc)) \<le> factor - 1
    \<and> set (pick_targets excluded factor peers acc) \<subseteq> set acc \<union> (set peers - set excluded)"
  using assms(3)
proof (induction peers arbitrary: acc)
  case (Cons p ps)
  have w: "wrap32 (factor - 1) = factor - 1" using assms(1,2) by (intro wrap32_id) (simp add: in_int32_def)
  have w': "wrap32 (1 + int (length acc)) = 1 + int (length acc)"
    using Cons.prems assms(2) by (intro wrap32_id) (simp add: in_int32_def)
  show ?case
    using Cons.IH [of acc] Cons.IH [of "acc @ [p]"] Cons.prems
    by (auto simp: Let_def w w' add.commute)
qed simp

lemma replica_request_no_jobs:
  "w_jobs (snd (relay_chunk env h (replica_request j) w)) = w_jobs w"
proof -
  have "w_jobs (snd (store_final env h (replica_request j) v)) = w_jobs v" for v
    by (auto simp: store_final_def replica_request_def save_at_def case_prod_beta Let_def split: sum.splits)
  then show ?thesis
    using relay_chunk_equation [of "replica_request j" env h w]
    by (simp add: replica_request_def in_int32_def relay_body_def Let_def)
qed

lemma forward_replica_no_jobs:
  "w_jobs (snd (forward_chunk env (relay_chunk env) me nid (replica_request j) w)) = w_jobs w"
proof (rule with_peer_outcome [of env relay_chunk_method "\<lambda>h. relay_chunk env h (replica_request j)" me nid w])
  fix e assume "quiet env w (snd (with_peer env relay_chunk_method (\<lambda>h. relay_chunk env h (replica_request j)) me nid w))"
  then show ?thesis by (simp add: quiet_def forward_chunk_def)
next
  fix w1 h addr
  assume "quiet env w w1" "quiet env (snd (relay_chunk env h (replica_request j) w1))
    (snd (with_peer env relay_chunk_method (\<lambda>h. relay_chunk env h (replica_request j)) me nid w))"
  then show ?thesis using replica_request_no_jobs [of env h j w1] by (simp add: quiet_def forward_chunk_def)
qed

section \<open>Properties\<close>

text \<open>C33: \<open>RelayChunk\<close> always returns: run with one level per unit of time to live, the model
  satisfies the handler's own recursion, in which forwarding runs \<open>RelayChunk\<close> on another
  node, with no bound on the depth left in the equation.\<close>

theorem relay_chunk_recursion:
  assumes "in_int32 (rq_Ttl req)"
  shows "relay_chunk env me req w = relay_body env (relay_chunk env) me req w"
  using assms by (rule relay_chunk_equation)

text \<open>The time to live bounds the work of a request: however links, routes and breakers
  behave, a chunk with time to live \<open>t\<close> makes at most \<open>2 ^ (t + 1) - 1\<close> handlers run in the
  whole network (each hop tries at most two next hops).\<close>

theorem relay_runs_bounded:
  "length (w_runs (snd (relay_chunk env me req w))) \<le> length (w_runs w) + (2 ^ (nat (rq_Ttl req) + 1) - 1)"
  using relay_levels_runs [of env "Suc (nat (rq_Ttl req))" me req w] by (simp add: relay_chunk_def)

text \<open>C3: Whatever the network does, a request whose transfer id is a plain file name changes no
  chunk of a transfer with a plain id, in any node's store, other than its own; and when it
  changes that, it stores its own data, which then has the announced hash unless the request
  announces none.\<close>

theorem relay_stores_only_verified:
  assumes "plain_id (rq_TransferId req)" "in_int32 (rq_ChunkIndex req)" "plain_id t" "in_int32 i"
    and "chunk_at (store_of (snd (relay_chunk env me req w)) n) t i \<noteq> chunk_at (store_of w n) t i"
  shows "t = rq_TransferId req \<and> i = rq_ChunkIndex req
    \<and> chunk_at (store_of (snd (relay_chunk env me req w)) n) t i = Some (rq_Data req)
    \<and> (rq_ChunkHash req = '''' \<or> env_sha env (rq_Data req) = rq_ChunkHash req)"
  using integrity.relay_chunk_R [of env req w me] assms
  unfolding stored_only_def verified_def by blast

text \<open>C6: No acknowledged chunk is lost: when \<open>RelayChunk\<close> returns a response, of success or of
  a local fallback, the node it names holds the data, and a fetch there returns it with its
  hash.\<close>

theorem relay_ack_stored:
  assumes "plain_id (rq_TransferId req)" "in_int32 (rq_ChunkIndex req)"
    and "relay_chunk env me req w = (Inr resp, w')"
    and "\<not> of_read (env_faults env (w_now w') (rs_NodeId resp)) (rq_ChunkIndex req)"
  shows "chunk_at (store_of w' (rs_NodeId resp)) (rq_TransferId req) (rq_ChunkIndex req) = Some (rq_Data req)
    \<and> fst (fetch_chunk_handler env (rq_TransferId req) (rq_ChunkIndex req) (rs_NodeId resp) w')
        = Inr \<lparr>fc_Data = rq_Data req, fc_ChunkHash = env_sha env (rq_Data req)\<rparr>"
proof -
  have "chunk_at (store_of w' (rs_NodeId resp)) (rq_TransferId req) (rq_ChunkIndex req) = Some (rq_Data req)"
    using relay_levels_ack [OF assms(1,2), of env "Suc (nat (rq_Ttl req))" me w resp] assms(3)
    by (simp add: relay_chunk_def)
  then show ?thesis
    using assms(1,4) by (auto simp: fetch_chunk_handler_def load_chunk_at plain_id_def)
qed

text \<open>A success names the destination: if addresses are those of the node asked for and the
  routing service's routes end at their target, a response with \<open>Success\<close> comes from the last
  of the remaining hops (the receiving node when there are none), rerouted or not.\<close>

theorem relay_success_at_destination:
  assumes "addressed env w" "routes_complete env"
    and "relay_chunk env me req w = (Inr resp, w')" "rs_Success resp"
  shows "rs_NodeId resp = route_dest me (rq_RemainingHops req)"
  using relay_levels_dest [OF assms(1,2), of "Suc (nat (rq_Ttl req))" me req resp] assms(3,4)
  by (simp add: relay_chunk_def)

text \<open>C23: What becomes of a well-formed chunk. When every node on its way resolves, stores and
  lets calls of other nodes through its interceptors, links work and no breaker has opened, a
  chunk with a time to live greater than its number of hops reaches its destination: the
  response is a success of the last hop, and that node's store holds the data. When the
  interceptors refuse the calls of a relay, as those of the deployed services do, it keeps a
  chunk that is not its own: it answers that the chunk is not delivered but stored here, its
  store holds the data, and the chunks of the other nodes are as before.\<close>

theorem relay_delivers:
  assumes "plain_id (rq_TransferId req)" "in_int32 (rq_ChunkIndex req)" "rq_Data req \<noteq> []"
    and "rq_ChunkHash req = '''' \<or> env_sha env (rq_Data req) = rq_ChunkHash req"
    and "in_int32 (rq_Ttl req)" "int (length (rq_RemainingHops req)) < rq_Ttl req"
    and "relay_chunk env me req w = (r, w')"
  shows "(network_up ns env \<and> pools_up env w \<and> insert me (hop_NodeId ` set (rq_RemainingHops req)) \<subseteq> ns \<longrightarrow>
      r = Inr \<lparr>rs_Success = True, rs_NodeId = route_dest me (rq_RemainingHops req), rs_ErrorMessage = None\<rparr>
      \<and> chunk_at (store_of w' (route_dest me (rq_RemainingHops req))) (rq_TransferId req) (rq_ChunkIndex req)
          = Some (rq_Data req))
    \<and> (relaying_refused env me \<and> (\<forall>t. env_faults env t me = no_faults)
        \<and> \<not> is_final_destination me (rq_RemainingHops req) \<longrightarrow>
      (\<exists>err. r = Inr \<lparr>rs_Success = False, rs_NodeId = me, rs_ErrorMessage = Some err\<rparr>)
      \<and> chunk_at (store_of w' me) (rq_TransferId req) (rq_ChunkIndex req) = Some (rq_Data req)
      \<and> (\<forall>n t i. n \<noteq> me \<longrightarrow> chunk_at (store_of w' n) t i = chunk_at (store_of w n) t i))"
proof (intro conjI impI allI; elim conjE)
  have id: "rq_TransferId req \<noteq> ''''" using assms(1) by (auto simp: plain_id_def)
  have r: "fst (relay_levels env (Suc (nat (rq_Ttl req))) me req w) = r"
    "snd (relay_levels env (Suc (nat (rq_Ttl req))) me req w) = w'"
    using assms(7) by (simp_all add: relay_chunk_def)
  assume "network_up ns env" "pools_up env w" "insert me (hop_NodeId ` set (rq_RemainingHops req)) \<subseteq> ns"
  from relay_levels_delivers [OF this, of "Suc (nat (rq_Ttl req))"] show d: "r =
      Inr \<lparr>rs_Success = True, rs_NodeId = route_dest me (rq_RemainingHops req), rs_ErrorMessage = None\<rparr>"
    using id assms(3-6) r(1) by (simp add: verified_def)
  show "chunk_at (store_of w' (route_dest me (rq_RemainingHops req))) (rq_TransferId req) (rq_ChunkIndex req)
      = Some (rq_Data req)"
    using relay_levels_ack [OF assms(1,2), of env "Suc (nat (rq_Ttl req))" me w] r d by simp
next
  have id: "rq_TransferId req \<noteq> ''''" "0 < rq_Ttl req" using assms(1,6) by (auto simp: plain_id_def)
  assume "relaying_refused env me" "\<forall>t. env_faults env t me = no_faults"
    and far: "\<not> is_final_destination me (rq_RemainingHops req)"
  then have k: "kept_here me req env (w\<lparr>w_runs := w_runs w @ [(me, req)]\<rparr>) (r, w')"
    using relay_body_refused [of env me req w "relay_levels env (nat (rq_Ttl req))"] id assms(3,4,7)
    by (simp add: relay_chunk_def verified_def)
  then show "\<exists>err. r = Inr \<lparr>rs_Success = False, rs_NodeId = me, rs_ErrorMessage = Some err\<rparr>"
    by (auto simp: kept_here_def)
  then show "chunk_at (store_of w' me) (rq_TransferId req) (rq_ChunkIndex req) = Some (rq_Data req)"
    using relay_levels_ack [OF assms(1,2), of env "Suc (nat (rq_Ttl req))" me w] assms(7) by (auto simp: relay_chunk_def)
  show "chunk_at (store_of w' n) t i = chunk_at (store_of w n) t i" if "n \<noteq> me" for n t i
    using k that by (auto simp: kept_here_def quiet_def save_at_def case_prod_beta Let_def)
qed

text \<open>Replication with factor \<open>k\<close> sends to at most \<open>k - 1\<close> of the peers that discovery
  returns, none of them excluded, and the replicas start no further replication.\<close>

theorem replication_bounded:
  assumes "in_int32 (rj_Factor j)"
  shows "int (length (replicate_targets env now j)) \<le> max 0 (rj_Factor j - 1)
    \<and> set (replicate_targets env now j) \<inter> set (rj_Exclude j) = {}
    \<and> w_jobs (replicate_chunk env j w) = w_jobs w"
proof -
  have "w_jobs (replicate_to env j ts w) = w_jobs w" for ts w
    by (induction ts arbitrary: w) (simp_all add: replicate_to_def forward_replica_no_jobs)
  moreover have "int (length (pick_targets (rj_Exclude j) (rj_Factor j) ps [])) \<le> rj_Factor j - 1
      \<and> set (pick_targets (rj_Exclude j) (rj_Factor j) ps []) \<inter> set (rj_Exclude j) = {}"
    if "1 < rj_Factor j" for ps
    using pick_targets_bound [OF that assms, of "[]" "rj_Exclude j" ps] that by auto
  ultimately show ?thesis
    by (auto simp: replicate_targets_def replicate_chunk_def split: sum.splits)
qed

text \<open>Instances: three nodes, a chunk from \<open>a\<close> over \<open>b\<close> to \<open>c\<close>.\<close>

definition demo_env :: relay_env where
  "demo_env =
     \<lparr>env_sha = (\<lambda>d. if d = [1, 2] then ''good'' else ''other''), env_info = (\<lambda>t n. Inr (Some [n])),
      env_dialFails = (\<lambda>_. False), env_host = Some, env_up = (\<lambda>_ _ _. True),
      env_chain = (\<lambda>_ _ _ _. None), env_reply = (\<lambda>_ _ _. True), env_delay = (\<lambda>_. 1), env_route = (\<lambda>_ _ _ _ _. Inr []),
      env_peers = (\<lambda>_ _ _. Inr [''a'', ''b'', ''c'', ''d'']), env_faults = (\<lambda>_ _. no_faults)\<rparr>"

definition demo_world :: world where
  "demo_world =
     \<lparr>w_now = 0, w_nodes = (\<lambda>n. \<lparr>rn_pool = new_peer_pool 3 (30 * second),
        rn_store = \<lparr>fs_base = ''d'', fs_files = []\<rparr>, rn_rerouter = True, rn_replicator = True\<rparr>),
      w_jobs = [], w_runs = []\<rparr>"

definition demo_chunk :: relay_chunk_request where
  "demo_chunk =
     \<lparr>rq_TransferId = ''t'', rq_ChunkIndex = 0, rq_Data = [1, 2], rq_ChunkHash = ''good'',
      rq_RemainingHops = [\<lparr>hop_NodeId = ''b'', hop_HopIndex = 1, hop_IsRelay = True\<rparr>,
        \<lparr>hop_NodeId = ''c'', hop_HopIndex = 2, hop_IsRelay = False\<rparr>],
      rq_ReplicationFactor = 3, rq_Ttl = 4, rq_EncryptionKey = ''''\<rparr>"

lemma demo_up: "network_up UNIV demo_env" "pools_up demo_env demo_world" "addressed demo_env demo_world"
  "routes_complete demo_env"
  by (auto simp: network_up_def pools_up_def addressed_def routes_complete_def demo_env_def demo_world_def
      resolve_addr_def new_peer_pool_def breaker_of_def get_breaker_def new_circuit_breaker_def Let_def)

lemma demo_response:
  "fst (relay_chunk demo_env ''a'' demo_chunk demo_world) = Inr \<lparr>rs_Success = True, rs_NodeId = ''c'', rs_ErrorMessage = None\<rparr>"
  using relay_levels_delivers [OF demo_up(1,2), where req = demo_chunk and k = "Suc (nat (rq_Ttl demo_chunk))" and me = "''a''"]
  by (simp add: relay_chunk_def demo_chunk_def verified_def demo_env_def in_int32_def route_dest_def)

lemma demo_chunk_plain: "plain_id (rq_TransferId demo_chunk)" "in_int32 (rq_ChunkIndex demo_chunk)"
  by (simp_all add: demo_chunk_def plain_id_def in_int32_def)

theorem relay_chunk_recursion_witness:
  "relay_chunk demo_env ''a'' demo_chunk demo_world = relay_body demo_env (relay_chunk demo_env) ''a'' demo_chunk demo_world"
  by (rule relay_chunk_recursion) (simp add: demo_chunk_def in_int32_def)

theorem relay_stores_only_verified_witness:
  "chunk_at (store_of (snd (relay_chunk demo_env ''a'' demo_chunk demo_world)) ''c'') ''t'' 0 = Some [1, 2]
     \<and> env_sha demo_env [1, 2] = ''good''"
proof -
  have "chunk_at (store_of (snd (relay_chunk demo_env ''a'' demo_chunk demo_world)) ''c'') ''t'' 0 = Some [1, 2]"
    using relay_levels_ack [OF demo_chunk_plain, of demo_env "Suc (nat (rq_Ttl demo_chunk))" "''a''" demo_world]
      demo_response by (simp add: relay_chunk_def demo_chunk_def)
  moreover have "chunk_at (store_of demo_world ''c'') ''t'' 0 = None"
    by (simp add: demo_world_def chunk_at_def)
  ultimately show ?thesis
    using relay_stores_only_verified [OF demo_chunk_plain, of "''t''" 0 demo_env "''a''" demo_world "''c''"]
    by (simp add: demo_chunk_def plain_id_def in_int32_def)
qed

theorem relay_ack_stored_witness:
  "\<exists>w'. relay_chunk demo_env ''a'' demo_chunk demo_world =
      (Inr \<lparr>rs_Success = True, rs_NodeId = ''c'', rs_ErrorMessage = None\<rparr>, w')
    \<and> fst (fetch_chunk_handler demo_env ''t'' 0 ''c'' w') = Inr \<lparr>fc_Data = [1, 2], fc_ChunkHash = ''good''\<rparr>"
proof -
  obtain w' where r: "relay_chunk demo_env ''a'' demo_chunk demo_world =
      (Inr \<lparr>rs_Success = True, rs_NodeId = ''c'', rs_ErrorMessage = None\<rparr>, w')"
    using demo_response by (cases "relay_chunk demo_env ''a'' demo_chunk demo_world") simp
  have "env_sha demo_env [1, 2] = ''good''" by (simp add: demo_env_def)
  moreover have "\<not> of_read (env_faults demo_env (w_now w') ''c'') 0" by (simp add: demo_env_def)
  ultimately show ?thesis
    using r relay_ack_stored [OF demo_chunk_plain r] by (simp add: demo_chunk_def)
qed

theorem relay_success_at_destination_witness:
  "\<exists>resp w'. relay_chunk demo_env ''a'' demo_chunk demo_world = (Inr resp, w') \<and> rs_NodeId resp = ''c''"
proof -
  obtain w' where r: "relay_chunk demo_env ''a'' demo_chunk demo_world =
      (Inr \<lparr>rs_Success = True, rs_NodeId = ''c'', rs_ErrorMessage = None\<rparr>, w')"
    using demo_response by (cases "relay_chunk demo_env ''a'' demo_chunk demo_world") simp
  then show ?thesis
    using relay_success_at_destination [OF demo_up(3,4) r] by (simp add: demo_chunk_def route_dest_def)
qed

definition demo_refusing :: relay_env where
  "demo_refusing = demo_env\<lparr>env_chain := \<lambda>_ _ _ _. Some (Status Unauthenticated ''missing'')\<rparr>"

theorem relay_delivers_witness:
  "(\<exists>w'. relay_chunk demo_env ''a'' demo_chunk demo_world =
      (Inr \<lparr>rs_Success = True, rs_NodeId = ''c'', rs_ErrorMessage = None\<rparr>, w')
    \<and> chunk_at (store_of w' ''c'') ''t'' 0 = Some [1, 2])
  \<and> (\<exists>err w'. relay_chunk demo_refusing ''a'' demo_chunk demo_world =
      (Inr \<lparr>rs_Success = False, rs_NodeId = ''a'', rs_ErrorMessage = Some err\<rparr>, w')
    \<and> chunk_at (store_of w' ''a'') ''t'' 0 = Some [1, 2] \<and> chunk_at (store_of w' ''c'') ''t'' 0 = None)"
proof (rule conjI)
  obtain r w' where w: "relay_chunk demo_env ''a'' demo_chunk demo_world = (r, w')" by (rule prod.exhaust)
  have "r = Inr \<lparr>rs_Success = True, rs_NodeId = ''c'', rs_ErrorMessage = None\<rparr> \<and> chunk_at (store_of w' ''c'') ''t'' 0 = Some [1, 2]"
    using relay_delivers [OF demo_chunk_plain _ _ _ _ w, of UNIV] demo_up(1,2)
    by (simp add: demo_chunk_def demo_env_def in_int32_def route_dest_def)
  then show "\<exists>w'. relay_chunk demo_env ''a'' demo_chunk demo_world =
      (Inr \<lparr>rs_Success = True, rs_NodeId = ''c'', rs_ErrorMessage = None\<rparr>, w')
    \<and> chunk_at (store_of w' ''c'') ''t'' 0 = Some [1, 2]"
    using w by simp
next
  obtain r w' where w: "relay_chunk demo_refusing ''a'' demo_chunk demo_world = (r, w')" by (rule prod.exhaust)
  have "relaying_refused demo_refusing ''a''" "\<forall>t. env_faults demo_refusing t ''a'' = no_faults"
    by (simp_all add: demo_refusing_def relaying_refused_def demo_env_def)
  then have "(\<exists>err. r = Inr \<lparr>rs_Success = False, rs_NodeId = ''a'', rs_ErrorMessage = Some err\<rparr>)
      \<and> chunk_at (store_of w' ''a'') ''t'' 0 = Some [1, 2]
      \<and> (\<forall>n t i. n \<noteq> ''a'' \<longrightarrow> chunk_at (store_of w' n) t i = chunk_at (store_of demo_world n) t i)"
    using relay_delivers [OF demo_chunk_plain _ _ _ _ w, of UNIV]
    by (simp add: demo_chunk_def demo_refusing_def demo_env_def in_int32_def is_final_destination_def)
  moreover have "chunk_at (store_of demo_world ''c'') ''t'' 0 = None" by (simp add: demo_world_def chunk_at_def)
  ultimately show "\<exists>err w'. relay_chunk demo_refusing ''a'' demo_chunk demo_world =
      (Inr \<lparr>rs_Success = False, rs_NodeId = ''a'', rs_ErrorMessage = Some err\<rparr>, w')
    \<and> chunk_at (store_of w' ''a'') ''t'' 0 = Some [1, 2] \<and> chunk_at (store_of w' ''c'') ''t'' 0 = None"
    using w by auto
qed

theorem replication_bounded_witness:
  "set (replicate_targets demo_env 0 \<lparr>rj_Node = ''a'', rj_TransferId = ''t'', rj_ChunkIndex = 0, rj_Data = [1, 2],
       rj_ChunkHash = ''good'', rj_Factor = 3, rj_Exclude = [''a'']\<rparr>) \<inter> {''a''} = {}"
  using replication_bounded [of "\<lparr>rj_Node = ''a'', rj_TransferId = ''t'', rj_ChunkIndex = 0, rj_Data = [1, 2],
       rj_ChunkHash = ''good'', rj_Factor = 3, rj_Exclude = [''a'']\<rparr>" demo_env 0]
  by (simp add: in_int32_def)

end
