(* ===== verification/TransferLaws.thy ===== *)
theory TransferLaws
  imports P2pProtocol RelayLaws
begin

text \<open>
  Laws of the transfer service: what a new transfer is, the invariant of its database over all
  operations, who can end the wait for approval, upload and download of a file (single and
  group) over any relay network, and the watch stream as a mirror of the database.
\<close>

section \<open>Chunk arithmetic\<close>

lemma total_chunks_exact:
  assumes "0 < n" "0 < c" "in_int32 c" "n \<le> (2 ^ 31 - 1) * c"
  shows "(total_chunks_of n c - 1) * c < n \<and> n \<le> total_chunks_of n c * c \<and> 0 < total_chunks_of n c"
proof -
  have c: "c < 2 ^ 31" using assms(3) by (simp add: in_int32_def)
  have "n + c - 1 \<le> 2 ^ 31 * c" using assms(4) by (simp add: algebra_simps)
  also have "\<dots> < 2 ^ 31 * 2 ^ 31" using c by (intro mult_strict_left_mono) simp_all
  finally have w64: "wrap64 (n + c - 1) = n + c - 1"
    using assms(1,2) by (intro wrap64_id) (simp add: in_int64_def)
  let ?q = "(n + c - 1) div c"
  have eq: "?q * c = n + c - 1 - (n + c - 1) mod c" by (simp add: minus_mod_eq_div_mult)
  have mod: "0 \<le> (n + c - 1) mod c" "(n + c - 1) mod c < c" using assms(2) by simp_all
  have "?q * c \<le> n + c - 1" using eq mod by linarith
  moreover have "(2 ^ 31 - 1) * c + c = 2 ^ 31 * c" by (simp add: algebra_simps)
  ultimately have "?q * c < 2 ^ 31 * c" using assms(2,4) by linarith
  then have "?q < 2 ^ 31" using assms(2) by (simp only: mult_less_cancel_right)
  moreover have "0 < ?q" using assms(1,2) by (simp add: pos_imp_zdiv_pos_iff)
  ultimately have "wrap32 ?q = ?q" by (intro wrap32_id) (simp add: in_int32_def)
  moreover have "(n + c - 1) sdiv c = ?q" using assms(1,2) by (intro sdiv_nonneg) auto
  ultimately have q: "total_chunks_of n c = ?q" by (simp add: total_chunks_of_def w64)
  have "(?q - 1) * c = ?q * c - c" by (simp add: algebra_simps)
  then show ?thesis unfolding q using \<open>0 < ?q\<close> eq mod by linarith
qed

section \<open>The operations as steps of one machine\<close>

datatype transfer_op =
    OpInitiate string initiate_request
  | OpSend bool "data_chunk list"
  | OpCancel string
  | OpPause string
  | OpResume string
  | OpConfirm string bool int32
  | OpRespond string node_id bool
  | OpGroup string "nat \<Rightarrow> string" group_request
  | OpP2pStream "p2p_header received" "p2p_chunk received list"

text \<open>A step of the service: an operation, which of its queries fail, and the clock before it. A stream
  that comes in over libp2p is one: \<open>cmd/transfer\<close> registers its handler when it has a P2P node.\<close>

fun transfer_step ::
  "transfer_config \<Rightarrow> relay_env \<Rightarrow> (string \<Rightarrow> string option) \<Rightarrow> transfer_service
     \<Rightarrow> transfer_faults \<times> transfer_op \<Rightarrow> transfer_service" where
  "transfer_step cfg env uuid s (flt, OpInitiate tid req) = snd (initiate_transfer cfg flt tid req s)"
| "transfer_step cfg env uuid s (flt, OpSend eof cs) = snd (send_chunk cfg env flt eof cs s)"
| "transfer_step cfg env uuid s (flt, OpCancel tid) = snd (cancel_transfer cfg env flt tid s)"
| "transfer_step cfg env uuid s (flt, OpPause tid) = snd (pause_transfer flt tid s)"
| "transfer_step cfg env uuid s (flt, OpResume tid) = snd (resume_transfer flt tid s)"
| "transfer_step cfg env uuid s (flt, OpConfirm tid ok n) = snd (confirm_p2p_transfer flt tid ok n s)"
| "transfer_step cfg env uuid s (flt, OpRespond tid rcv ok) = snd (respond_to_transfer flt tid rcv ok s)"
| "transfer_step cfg env uuid s (flt, OpGroup gid ids req) = snd (initiate_group_transfer flt uuid gid ids req s)"
| "transfer_step cfg env uuid s (flt, OpP2pStream h rs) =
     (if tc_p2p cfg = None then s else snd (handle_stream (deployed_receiver cfg env flt) h rs s))"

section \<open>The invariant of the database\<close>

definition row_ok :: "transfer_row \<Rightarrow> bool" where
  "row_ok r \<longleftrightarrow> tr_EncryptionKey r = '''' \<and> length (tr_SenderEphemeralPubkey r) = 32
     \<and> tr_Status r \<in> {st_PENDING, st_IN_PROGRESS, st_COMPLETED, st_CANCELLED, st_AWAITING_APPROVAL, st_PAUSED}
     \<and> tr_TransferMode r \<in> {mode_RELAY, mode_P2P_DIRECT}"

definition transfers_wf :: "transfer_service \<Rightarrow> bool" where
  "transfers_wf s \<longleftrightarrow> distinct (map tr_TransferID (transfers_of s)) \<and> distinct (map gr_ID (groups_of s))
     \<and> (\<forall>r\<in>set (transfers_of s). row_ok r)"

lemma service_simps [simp]:
  "transfers_of (set_transfers t s) = t" "groups_of (set_transfers t s) = groups_of s"
  "ts_net (set_transfers t s) = ts_net s"
  "transfers_of (set_groups g s) = transfers_of s" "groups_of (set_groups g s) = g"
  "ts_net (set_groups g s) = ts_net s"
  by (simp_all add: set_transfers_def set_groups_def)

lemma wf_net [simp]: "transfers_wf (s\<lparr>ts_net := w\<rparr>) = transfers_wf s"
  by (simp add: transfers_wf_def)

lemma wf_update_rows:
  assumes "transfers_wf s" "\<And>r. tr_TransferID (f r) = tr_TransferID r" "\<And>r. row_ok r \<Longrightarrow> row_ok (f r)"
  shows "transfers_wf (set_transfers (update_rows p f (transfers_of s)) s)"
  using assms unfolding transfers_wf_def
  by (auto simp: keys_update_rows) (auto simp: update_rows_def)

lemma wf_status [run_invs]:
  "transfers_wf s \<Longrightarrow> st \<in> {1, 2, 3, 5, 6, 7} \<Longrightarrow>
     transfers_wf (set_transfers (update_transfer_status_sql now tid st (transfers_of s)) s)"
  unfolding update_transfer_status_sql_def by (erule wf_update_rows) (auto simp: row_ok_def)

lemma wf_progress [run_invs]:
  "transfers_wf s \<Longrightarrow> transfers_wf (set_transfers (update_transfer_progress_sql now tid n (transfers_of s)) s)"
  unfolding update_transfer_progress_sql_def by (erule wf_update_rows) (auto simp: row_ok_def)

lemma wf_complete [run_invs]:
  "transfers_wf s \<Longrightarrow> transfers_wf (set_transfers (complete_transfer_sql now tid (transfers_of s)) s)"
  unfolding complete_transfer_sql_def by (erule wf_update_rows) (auto simp: row_ok_def)

lemma wf_confirm [run_invs]:
  "transfers_wf s \<Longrightarrow> st \<in> {1, 2, 3, 5, 6, 7} \<Longrightarrow> m \<in> {1, 2} \<Longrightarrow>
     transfers_wf (set_transfers (confirm_p2p_sql now tid st n m (transfers_of s)) s)"
  unfolding confirm_p2p_sql_def by (erule wf_update_rows) (auto simp: row_ok_def)

lemma wf_create [run_invs]:
  "transfers_wf s \<Longrightarrow> create_transfer_sql now p (transfers_of s) = Some (r, rows) \<Longrightarrow>
     row_ok (p\<lparr>tr_TransferMode := 1\<rparr>) \<Longrightarrow> transfers_wf (set_transfers rows s)"
  by (auto simp: transfers_wf_def create_transfer_sql_def row_ok_def Let_def split: if_splits)

lemma wf_try_update [run_invs]:
  "transfers_wf s \<Longrightarrow> transfers_wf (set_transfers (f (transfers_of s)) s) \<Longrightarrow> transfers_wf (try_update b f s)"
  by (simp add: try_update_def)

lemma wf_mark_siblings [run_invs]: "transfers_wf s \<Longrightarrow> transfers_wf (mark_siblings flt i rs s)"
  by (induction flt i rs s rule: mark_siblings.induct) (auto intro!: wf_try_update wf_status)

lemma wf_progress_siblings [run_invs]: "transfers_wf s \<Longrightarrow> transfers_wf (progress_siblings flt k i n ids s)"
  by (induction flt k i n ids s rule: progress_siblings.induct) (auto intro!: wf_try_update wf_progress)

lemma wf_complete_siblings [run_invs]: "transfers_wf s \<Longrightarrow> transfers_wf (complete_siblings flt i ids s)"
  by (induction flt i ids s rule: complete_siblings.induct) (auto intro!: wf_try_update wf_complete)

lemma wf_open_upload [run_invs]:
  "transfers_wf s \<Longrightarrow> transfers_wf (snd (open_upload flt tid st s))"
  by (auto simp: open_upload_def open_group_def open_single_def Let_def
      intro!: wf_mark_siblings wf_try_update wf_status split: sum.splits)

lemma wf_upload_chunk [run_invs]:
  "transfers_wf s \<Longrightarrow> transfers_wf (snd (upload_chunk cfg env flt k st c s))"
  by (auto simp: upload_chunk_def Let_def case_prod_beta
      intro!: wf_progress_siblings wf_try_update wf_progress)

lemma wf_finish_upload [run_invs]:
  "transfers_wf s \<Longrightarrow> transfers_wf (snd (finish_upload flt st s))"
  by (auto simp: finish_upload_def Let_def intro!: wf_complete_siblings wf_try_update wf_complete)

lemma wf_take_message [run_invs]:
  "transfers_wf s \<Longrightarrow> transfers_wf (snd (take_message cfg env flt k st c s))"
  using wf_open_upload [of s flt "dc_TransferId c" st]
  by (auto simp: take_message_def Let_def case_prod_beta intro!: wf_upload_chunk split: sum.splits)

lemma wf_send_loop [run_invs]:
  "transfers_wf s \<Longrightarrow> transfers_wf (snd (send_loop cfg env flt eof k st cs s))"
proof (induction cs arbitrary: k st s)
  case Nil
  then show ?case by (simp add: wf_finish_upload)
next
  case (Cons c cs)
  have t: "transfers_wf (snd (take_message cfg env flt k st c s))" using Cons.prems by (rule wf_take_message)
  show ?case using t Cons.IH [OF t] by (simp add: case_prod_beta Let_def split: sum.splits)
qed

lemma fetch_transfer_Inr:
  "fetch_transfer flt tid s = Inr t \<Longrightarrow> get_transfer_sql tid (transfers_of s) = Some t \<and> tid \<noteq> ''''"
  by (auto simp: fetch_transfer_def db_row_def split: if_splits sum.splits option.splits db_error.splits)

lemma get_transfer_row_ok: "transfers_wf s \<Longrightarrow> get_transfer_sql tid (transfers_of s) = Some t \<Longrightarrow> row_ok t"
  by (auto simp: transfers_wf_def get_transfer_sql_def dest: row_at_key)

lemma wf_initiate [run_invs]:
  "transfers_wf s \<Longrightarrow> transfers_wf (snd (initiate_transfer cfg flt tid req s))"
  by (auto simp: initiate_transfer_def Let_def row_ok_def split: sum.splits db_error.splits
      dest!: db_row_Inr [THEN iffD1] intro!: wf_create)

lemma wf_create_recipients [run_invs]:
  "transfers_wf s \<Longrightarrow> length (gq_SenderEphemeralPubkey req) = 32 \<Longrightarrow>
     transfers_wf (snd (create_recipients flt ids req gt i rks infos s))"
proof (induction rks arbitrary: i infos s)
  case (Cons rk rks)
  show ?case
    using Cons.prems
    by (auto simp: Let_def row_ok_def split: sum.splits dest!: db_row_Inr [THEN iffD1]
        intro!: Cons.IH wf_create [OF Cons.prems(1)])
qed simp

lemma wf_group [run_invs]:
  assumes "transfers_wf s"
  shows "transfers_wf (snd (initiate_group_transfer flt uuid gid ids req s))"
proof -
  have "transfers_wf (set_groups groups s)"
    if "create_group_sql (clock s) row (groups_of s) = Some (gt, groups)" for row gt groups
    using that assms by (auto simp: transfers_wf_def create_group_sql_def Let_def split: if_splits)
  then show ?thesis
    using assms
    by (auto simp: initiate_group_transfer_def Let_def case_prod_beta split: sum.splits option.splits
        dest!: db_row_Inr [THEN iffD1] intro!: wf_create_recipients)
qed

lemma wf_simple_handlers [run_invs]:
  assumes "transfers_wf s"
  shows "transfers_wf (snd (cancel_transfer cfg env flt tid s))"
    "transfers_wf (snd (pause_transfer flt tid s))"
    "transfers_wf (snd (resume_transfer flt tid s))"
    "transfers_wf (snd (respond_to_transfer flt tid rcv ok s))"
  using assms
  by (auto simp: cancel_transfer_def pause_transfer_def resume_transfer_def respond_to_transfer_def Let_def
      case_prod_beta intro!: wf_status split: sum.splits)

lemma wf_confirm_p2p [run_invs]:
  assumes "transfers_wf s"
  shows "transfers_wf (snd (confirm_p2p_transfer flt tid ok n s))"
proof -
  have "tr_Status t \<in> {1, 2, 3, 5, 6, 7}" if "fetch_transfer flt tid s = Inr t" for t
    using fetch_transfer_Inr [OF that] get_transfer_row_ok [OF assms] by (auto simp: row_ok_def)
  then show ?thesis
    using assms by (auto simp: confirm_p2p_transfer_def Let_def intro!: wf_confirm split: sum.splits)
qed

lemma receive_p2p_chunk_tables:
  "transfers_of (snd (receive_p2p_chunk rc header c s)) = transfers_of s"
  "groups_of (snd (receive_p2p_chunk rc header c s)) = groups_of s"
  by (simp_all add: receive_p2p_chunk_def Let_def case_prod_beta)

lemma wf_p2p_progress [run_invs]: "transfers_wf s \<Longrightarrow> transfers_wf (update_p2p_progress flt tid i n s)"
  by (auto simp: update_p2p_progress_def Let_def intro!: wf_try_update wf_progress wf_complete)

text \<open>What the chunks of an incoming stream keep, when the callback keeps it.\<close>

lemma received_stream_inv:
  assumes "\<And>s i n. keeps s \<Longrightarrow> keeps (update_p2p_progress flt (ph_TransferId header) i n s)"
    and "\<And>s w. keeps s \<Longrightarrow> keeps (s\<lparr>ts_net := w\<rparr>)"
  shows "keeps s \<Longrightarrow> keeps (snd (receive_p2p_chunks (deployed_receiver cfg env flt) header rs s))"
proof (induction rs arbitrary: s)
  case (Cons r rs)
  let ?rc = "deployed_receiver cfg env flt"
  have one: "keeps (snd (receive_p2p_chunk ?rc header c s))" for c
    using Cons.prems assms(2) by (simp add: receive_p2p_chunk_def Let_def case_prod_beta)
  then have notified: "keeps (notify_received ?rc header c (snd (receive_p2p_chunk ?rc header c s)))" for c
    using assms(1) by (simp add: notify_received_def deployed_receiver_def)
  show ?case
    using Cons.prems one notified Cons.IH [OF notified] by (cases r) (simp_all add: Let_def case_prod_beta)
qed simp

lemma wf_p2p_stream [run_invs]:
  "transfers_wf s \<Longrightarrow> transfers_wf (snd (handle_stream (deployed_receiver cfg env flt) h rs s))"
  by (cases h) (simp_all add: handle_stream_def received_stream_inv [of transfers_wf] wf_p2p_progress)

lemma wf_transfer_step [run_invs]: "transfers_wf s \<Longrightarrow> transfers_wf (transfer_step cfg env uuid s op)"
  by (cases op; cases "snd op")
    (auto simp: send_chunk_def intro: run_invs)

interpretation transfers: invariant_machine "transfer_step cfg env uuid" transfers_wf "\<lambda>_ _. True" for cfg env uuid
  by unfold_locales (rule wf_transfer_step)

section \<open>Waiting for approval\<close>

definition waiting :: "string \<Rightarrow> transfer_service \<Rightarrow> bool" where
  "waiting tid s \<longleftrightarrow>
     (case get_transfer_sql tid (transfers_of s) of
        None \<Rightarrow> False
      | Some t \<Rightarrow> tr_Status t = st_AWAITING_APPROVAL \<and> tr_GroupTransferID t = None)"

lemma waiting_updates [intro]:
  "waiting tid s \<Longrightarrow> tid' \<noteq> tid \<Longrightarrow> waiting tid (try_update b (update_transfer_status_sql now tid' st) s)"
  "waiting tid s \<Longrightarrow> waiting tid (try_update b (update_transfer_progress_sql now tid' n) s)"
  "waiting tid s \<Longrightarrow> tid' \<noteq> tid \<Longrightarrow> waiting tid (try_update b (complete_transfer_sql now tid') s)"
  by (auto simp: waiting_def try_update_def split: option.splits dest: get_transfer_key)

lemma waiting_net [simp]: "waiting tid (s\<lparr>ts_net := w\<rparr>) = waiting tid s"
  by (simp add: waiting_def)

lemma waiting_mark: "waiting tid s \<Longrightarrow> tid \<notin> tr_TransferID ` set rs \<Longrightarrow> waiting tid (mark_siblings flt i rs s)"
  by (induction flt i rs s rule: mark_siblings.induct) auto

lemma waiting_progress: "waiting tid s \<Longrightarrow> waiting tid (progress_siblings flt k i n ids s)"
  by (induction flt k i n ids s rule: progress_siblings.induct) auto

lemma waiting_complete: "waiting tid s \<Longrightarrow> tid \<notin> set ids \<Longrightarrow> waiting tid (complete_siblings flt i ids s)"
  by (induction flt i ids s rule: complete_siblings.induct) auto

text \<open>An upload in progress that is not about the transfer.\<close>

definition elsewhere :: "string \<Rightarrow> send_state \<Rightarrow> bool" where
  "elsewhere tid st \<longleftrightarrow> tid \<notin> set (ss_siblings st) \<and> (\<not> ss_isGroup st \<longrightarrow> ss_transferID st \<noteq> tid)"

lemma siblings_not_waiting:
  assumes "transfers_wf s" "waiting tid s"
  shows "tid \<notin> tr_TransferID ` set (list_transfers_by_group_sql gid (transfers_of s))"
proof
  assume "tid \<in> tr_TransferID ` set (list_transfers_by_group_sql gid (transfers_of s))"
  then obtain r where r: "r \<in> set (transfers_of s)" "tr_GroupTransferID r = Some gid" "tr_TransferID r = tid"
    by (auto simp: list_transfers_by_group_sql_def)
  then have "get_transfer_sql tid (transfers_of s) = Some r"
    using assms(1) row_at_unique [of tr_TransferID "transfers_of s" r]
    by (simp add: get_transfer_sql_def transfers_wf_def)
  then show False using assms(2) r by (simp add: waiting_def)
qed

lemma waiting_open:
  assumes "transfers_wf s" "waiting tid s" "elsewhere tid st"
  shows "waiting tid (snd (open_upload flt tid' st s))
    \<and> (\<forall>st'. fst (open_upload flt tid' st s) = Inr st' \<longrightarrow> elsewhere tid st')"
proof (cases "db_row (flt QGetGroup) (get_group_sql tid' (groups_of s))")
  case (Inr gt)
  then show ?thesis
    using assms siblings_not_waiting [OF assms(1,2), of "gr_ID gt"] waiting_mark [OF assms(2)]
    by (auto simp: open_upload_def open_group_def Let_def db_run_def elsewhere_def)
next
  case (Inl e)
  have "tid' \<noteq> tid" if "get_transfer_sql tid' (transfers_of s) = Some t" "tr_Status t \<noteq> st_AWAITING_APPROVAL" for t
    using that assms(2) by (auto simp: waiting_def)
  then show ?thesis
    using Inl assms
    by (auto simp: open_upload_def open_single_def elsewhere_def db_row_Inr split: sum.splits)
qed

lemma waiting_message:
  assumes "transfers_wf s" "waiting tid s" "elsewhere tid st"
  shows "waiting tid (snd (take_message cfg env flt k st c s))
    \<and> (\<forall>st'. fst (take_message cfg env flt k st c s) = Inr st' \<longrightarrow> elsewhere tid st')"
proof -
  have up: "waiting tid (snd (upload_chunk cfg env flt k st' c s'))
    \<and> (\<forall>st''. fst (upload_chunk cfg env flt k st' c s') = Inr st'' \<longrightarrow> elsewhere tid st'')"
    if "waiting tid s'" "elsewhere tid st'" for st' s'
    using that by (auto simp: upload_chunk_def Let_def case_prod_beta elsewhere_def intro: waiting_progress)
  show ?thesis
    using assms up waiting_open [OF assms, of flt "dc_TransferId c"]
    by (auto simp: take_message_def Let_def case_prod_beta split: sum.splits)
qed

lemma waiting_send_loop:
  "transfers_wf s \<Longrightarrow> waiting tid s \<Longrightarrow> elsewhere tid st \<Longrightarrow> waiting tid (snd (send_loop cfg env flt eof k st cs s))"
proof (induction cs arbitrary: k st s)
  case Nil
  then show ?case by (auto simp: finish_upload_def Let_def elsewhere_def intro: waiting_complete)
next
  case (Cons c cs)
  have m: "waiting tid (snd (take_message cfg env flt k st c s))
    \<and> (\<forall>st'. fst (take_message cfg env flt k st c s) = Inr st' \<longrightarrow> elsewhere tid st')"
    using Cons.prems by (rule waiting_message)
  have "transfers_wf (snd (take_message cfg env flt k st c s))" using Cons.prems(1) by (rule wf_take_message)
  then show ?case using m Cons.IH by (auto simp: case_prod_beta Let_def split: sum.splits)
qed

section \<open>Uploading a whole file\<close>

definition messages :: "relay_env \<Rightarrow> string \<Rightarrow> bytes list \<Rightarrow> data_chunk list" where
  "messages env tid parts =
     map (\<lambda>k. \<lparr>dc_TransferId = tid, dc_ChunkIndex = int k, dc_Data = parts ! k,
               dc_ChunkHash = env_sha env (parts ! k), dc_IsLast = (int k = int (length parts) - 1)\<rparr>)
       [0..<length parts]"

text \<open>The columns that an upload never changes.\<close>

definition shape :: "transfer_row \<Rightarrow> string \<times> int32 \<times> string option" where
  "shape t = (tr_TransferID t, tr_TotalChunks t, tr_GroupTransferID t)"

definition same_shapes :: "transfer_service \<Rightarrow> transfer_service \<Rightarrow> bool" where
  "same_shapes s s' \<longleftrightarrow>
     (\<forall>i. map_option shape (get_transfer_sql i (transfers_of s')) = map_option shape (get_transfer_sql i (transfers_of s)))
     \<and> groups_of s' = groups_of s"

lemma same_shapes_refl [simp]: "same_shapes s s"
  by (simp add: same_shapes_def)

lemma same_shapes_trans: "same_shapes s u \<Longrightarrow> same_shapes u v \<Longrightarrow> same_shapes s v"
  by (simp add: same_shapes_def)

lemma same_shapes_net [simp]: "same_shapes s (s'\<lparr>ts_net := w\<rparr>) = same_shapes s s'"
  by (simp add: same_shapes_def)

lemma map_option_shape:
  "(\<And>t. shape (f t) = shape t) \<Longrightarrow> map_option shape (map_option f x) = map_option shape x"
  by (cases x) auto

lemma same_shapes_updates [simp]:
  "same_shapes s (try_update b (update_transfer_status_sql now tid st) s)"
  "same_shapes s (try_update b (update_transfer_progress_sql now tid n) s)"
  "same_shapes s (try_update b (complete_transfer_sql now tid) s)"
  by (auto simp: same_shapes_def try_update_def shape_def intro!: map_option_shape)

lemma same_shapes_siblings [simp]:
  "same_shapes s (mark_siblings flt i rs s)"
  "same_shapes s (progress_siblings flt k i n ids s)"
  "same_shapes s (complete_siblings flt i ids s)"
proof -
  show "same_shapes s (mark_siblings flt i rs s)"
    by (induction flt i rs s rule: mark_siblings.induct)
      (auto intro: same_shapes_trans [OF same_shapes_updates(1)])
  show "same_shapes s (progress_siblings flt k i n ids s)"
    by (induction flt k i n ids s rule: progress_siblings.induct)
      (auto intro: same_shapes_trans [OF same_shapes_updates(2)])
  show "same_shapes s (complete_siblings flt i ids s)"
    by (induction flt i ids s rule: complete_siblings.induct)
      (auto intro: same_shapes_trans [OF same_shapes_updates(3)])
qed

lemma net_siblings [simp]:
  "ts_net (try_update b f s) = ts_net s"
  "ts_net (mark_siblings flt i rs s) = ts_net s"
  "ts_net (progress_siblings flt k i n ids s) = ts_net s"
  "ts_net (complete_siblings flt i ids s) = ts_net s"
proof -
  show *: "ts_net (try_update b f s) = ts_net s" for b f s by (simp add: try_update_def)
  show "ts_net (mark_siblings flt i rs s) = ts_net s"
    by (induction flt i rs s rule: mark_siblings.induct) (auto simp: *)
  show "ts_net (progress_siblings flt k i n ids s) = ts_net s"
    by (induction flt k i n ids s rule: progress_siblings.induct) (auto simp: *)
  show "ts_net (complete_siblings flt i ids s) = ts_net s"
    by (induction flt i ids s rule: complete_siblings.induct) (auto simp: *)
qed

text \<open>Relaying a chunk can only store the same chunk again.\<close>

lemma relay_upload_chunks:
  assumes "plain_id (ss_transferID st)" "in_int32 (dc_ChunkIndex c)" "plain_id sid" "in_int32 j"
  shows "chunk_at (store_of (relay_upload cfg env st c w) n) sid j = chunk_at (store_of w n) sid j
    \<or> (sid = ss_transferID st \<and> j = dc_ChunkIndex c
       \<and> chunk_at (store_of (relay_upload cfg env st c w) n) sid j = Some (dc_Data c))"
proof -
  consider "relay_upload cfg env st c w = w"
    | me nid hops where
      "relay_upload cfg env st c w = snd (forward_chunk env (relay_chunk env) me nid (upload_request st c hops) w)"
  proof (cases "tc_relay cfg \<and> ss_hops st \<noteq> [] \<and> filter_self_from_hops (tc_NodeID cfg) (ss_hops st) \<noteq> []")
    case True
    then show thesis
      by (intro that(2) [of "tc_NodeID cfg"
            "hop_NodeId (filter_self_from_hops (tc_NodeID cfg) (ss_hops st) ! 0)"
            "filter_self_from_hops (tc_NodeID cfg) (ss_hops st)"]) (simp add: relay_upload_def Let_def)
  next
    case False
    then show thesis by (intro that(1)) (auto simp: relay_upload_def Let_def)
  qed
  then show ?thesis
  proof cases
    case (2 me nid hops)
    have "stored_only env (upload_request st c hops) w (relay_upload cfg env st c w)"
      unfolding 2 by (rule integrity.send_R)
    then show ?thesis using assms unfolding stored_only_def by (auto simp: upload_request_def)
  qed simp
qed

text \<open>Where the own store works, a message adds exactly its chunk.\<close>

definition store_works :: "transfer_config \<Rightarrow> relay_env \<Rightarrow> bool" where
  "store_works cfg env \<longleftrightarrow> tc_chunks cfg \<and> (\<forall>t. env_faults env t (tc_NodeID cfg) = no_faults)"

lemma upload_chunk_effect:
  assumes "store_works cfg env" "plain_id (ss_transferID st)" "plain_id (ss_storageID st)"
    and "in_int32 (dc_ChunkIndex c)" "in_int32 (dc_ChunkIndex c + 1)"
    and "dc_ChunkHash c = env_sha env (dc_Data c)" "dc_ChunkHash c \<noteq> ''''"
  obtains s' where "upload_chunk cfg env flt k st c s = (Inr (st\<lparr>ss_received := dc_ChunkIndex c + 1\<rparr>), s')"
    "same_shapes s s'"
    "\<And>j. in_int32 j \<Longrightarrow> chunk_at (store_of (ts_net s') (tc_NodeID cfg)) (ss_storageID st) j =
       (if j = dc_ChunkIndex c then Some (dc_Data c)
        else chunk_at (store_of (ts_net s) (tc_NodeID cfg)) (ss_storageID st) j)"
proof -
  let ?me = "tc_NodeID cfg" and ?sid = "ss_storageID st"
  let ?w1 = "set_store ?me (put_chunk ?sid (dc_ChunkIndex c) (dc_Data c) (store_of (ts_net s) ?me)) (ts_net s)"
  let ?w2 = "relay_upload cfg env st c ?w1"
  have p: "persist_chunk cfg env st c (ts_net s) = (True, ?w1)"
    using assms(1) by (simp add: persist_chunk_def store_works_def save_chunk_no_faults)
  let ?u = "upload_chunk cfg env flt k st c s"
  have r: "fst ?u = Inr (st\<lparr>ss_received := dc_ChunkIndex c + 1\<rparr>)"
    using assms(5,6,7) p by (simp add: upload_chunk_def Let_def wrap32_id)
  have net: "ts_net (snd ?u) = ?w2"
    using assms(6,7) p by (simp add: upload_chunk_def Let_def)
  have "same_shapes (s\<lparr>ts_net := ?w2\<rparr>) (snd ?u)"
    using assms(6,7) p by (simp add: upload_chunk_def Let_def)
  then have sh: "same_shapes s (snd ?u)" by (simp add: same_shapes_def)
  have "chunk_at (store_of ?w1 ?me) ?sid j =
      (if j = dc_ChunkIndex c then Some (dc_Data c) else chunk_at (store_of (ts_net s) ?me) ?sid j)"
    if "in_int32 j" for j
    using that assms(3,4) by (simp add: chunk_at_put)
  then have "chunk_at (store_of ?w2 ?me) ?sid j =
      (if j = dc_ChunkIndex c then Some (dc_Data c) else chunk_at (store_of (ts_net s) ?me) ?sid j)"
    if "in_int32 j" for j
    using that relay_upload_chunks [OF assms(2,4,3) that, of cfg env ?w1 ?me] by auto
  then show thesis using that [of "snd ?u"] r net sh by (metis prod.collapse)
qed

text \<open>Uploading all messages keeps what every single one keeps.\<close>

lemma send_messages_inv:
  assumes "store_works cfg env" "plain_id (ss_transferID st)" "plain_id (ss_storageID st)"
    and "int (length parts) < 2 ^ 31" "\<forall>d\<in>set parts. env_sha env d \<noteq> ''''"
    and step: "\<And>k st' s s1. k < length parts \<Longrightarrow> ss_transferID st' = ss_transferID st \<Longrightarrow>
        ss_storageID st' = ss_storageID st \<Longrightarrow> ss_hops st' = ss_hops st \<Longrightarrow> held k s \<Longrightarrow>
        upload_chunk cfg env flt k st' (messages env tid parts ! k) s = (Inr (st'\<lparr>ss_received := int k + 1\<rparr>), s1) \<Longrightarrow>
        held (Suc k) s1"
    and "k0 \<le> length parts" "held k0 s"
  obtains s' where
    "send_loop cfg env flt True k0 st (drop k0 (messages env tid parts)) s =
       finish_upload flt (st\<lparr>ss_received := (if k0 = length parts then ss_received st else int (length parts))\<rparr>) s'"
    "same_shapes s s'" "held (length parts) s'"
  using assms(2,3,7,8) step
proof (induction "length parts - k0" arbitrary: k0 st s thesis)
  case 0
  then have k: "k0 = length parts" by simp
  show ?case by (rule "0.prems"(1) [of s]) (use "0.prems"(5) in \<open>auto simp: k messages_def\<close>)
next
  case (Suc n)
  let ?c = "messages env tid parts ! k0"
  have k: "k0 < length parts" using Suc.hyps(2) by simp
  have c: "dc_ChunkIndex ?c = int k0" "dc_Data ?c = parts ! k0" "dc_ChunkHash ?c = env_sha env (parts ! k0)"
    using k by (simp_all add: messages_def)
  have drop: "drop k0 (messages env tid parts) = ?c # drop (Suc k0) (messages env tid parts)"
    using k by (intro Cons_nth_drop_Suc [symmetric]) (simp add: messages_def)
  have ranges: "in_int32 (int k0)" "in_int32 (int k0 + 1)" using k assms(4) by (simp_all add: in_int32_def)
  obtain s1 where s1: "upload_chunk cfg env flt k0 st ?c s = (Inr (st\<lparr>ss_received := int k0 + 1\<rparr>), s1)" "same_shapes s s1"
  proof (rule upload_chunk_effect [OF assms(1) Suc.prems(2,3), of ?c flt k0 s])
    show "in_int32 (dc_ChunkIndex ?c)" "in_int32 (dc_ChunkIndex ?c + 1)"
      "dc_ChunkHash ?c = env_sha env (dc_Data ?c)" using c ranges by simp_all
    show "dc_ChunkHash ?c \<noteq> ''''" using c assms(5) k by simp
  qed (use that c in auto)
  have "ss_transferID st \<noteq> ''''" using Suc.prems(2) by (auto simp: plain_id_def)
  then have m: "take_message cfg env flt k0 st ?c s = (Inr (st\<lparr>ss_received := int k0 + 1\<rparr>), s1)"
    by (simp add: take_message_def s1(1))
  let ?st = "st\<lparr>ss_received := int k0 + 1\<rparr>"
  have inv: "held (Suc k0) s1" by (rule Suc.prems(6) [OF k refl refl refl Suc.prems(5) s1(1)])
  obtain s' where loop: "send_loop cfg env flt True (Suc k0) ?st (drop (Suc k0) (messages env tid parts)) s1 =
      finish_upload flt (?st\<lparr>ss_received := (if Suc k0 = length parts then ss_received ?st else int (length parts))\<rparr>) s'"
    and sh: "same_shapes s1 s'" and fin: "held (length parts) s'"
  proof (rule Suc.hyps(1) [of "Suc k0" ?st s1])
    show "n = length parts - Suc k0" using Suc.hyps(2) by simp
    show "plain_id (ss_transferID ?st)" "plain_id (ss_storageID ?st)" using Suc.prems(2,3) by simp_all
    show "Suc k0 \<le> length parts" using k by simp
  qed (use Suc.prems(6) inv that in auto)
  have "send_loop cfg env flt True k0 st (drop k0 (messages env tid parts)) s =
      finish_upload flt (st\<lparr>ss_received := (if k0 = length parts then ss_received st else int (length parts))\<rparr>) s'"
  proof (cases "Suc k0 = length parts")
    case True
    then have e: "int (length parts) = int k0 + 1" by linarith
    show ?thesis using loop k True by (simp add: drop m Let_def e)
  next
    case False
    then show ?thesis using loop k by (simp add: drop m Let_def)
  qed
  moreover have "same_shapes s s'" using s1(2) sh by (rule same_shapes_trans)
  ultimately show ?case using fin by (intro Suc.prems(1))
qed

lemma put_messages_loop:
  assumes "store_works cfg env" "plain_id (ss_transferID st)" "plain_id (ss_storageID st)"
    and "int (length parts) < 2 ^ 31" "\<forall>d\<in>set parts. env_sha env d \<noteq> ''''"
  obtains s' where
    "send_loop cfg env flt True 0 st (messages env tid parts) s =
       finish_upload flt (st\<lparr>ss_received := (if parts = [] then ss_received st else int (length parts))\<rparr>) s'"
    "same_shapes s s'"
    "\<And>j. j < length parts \<Longrightarrow> chunk_at (store_of (ts_net s') (tc_NodeID cfg)) (ss_storageID st) (int j) = Some (parts ! j)"
proof -
  let ?at = "\<lambda>s. chunk_at (store_of (ts_net s) (tc_NodeID cfg)) (ss_storageID st)"
  let ?inv = "\<lambda>k s. \<forall>j<k. ?at s (int j) = Some (parts ! j)"
  have step: "?inv (Suc k) s1"
    if k: "k < length parts" and st': "ss_transferID st' = ss_transferID st" "ss_storageID st' = ss_storageID st"
      and inv: "?inv k s"
      and u: "upload_chunk cfg env flt k st' (messages env tid parts ! k) s = (Inr (st'\<lparr>ss_received := int k + 1\<rparr>), s1)"
    for k st' s s1
  proof -
    have c: "dc_ChunkIndex (messages env tid parts ! k) = int k" "dc_Data (messages env tid parts ! k) = parts ! k"
      "dc_ChunkHash (messages env tid parts ! k) = env_sha env (parts ! k)" "env_sha env (parts ! k) \<noteq> ''''"
      using k assms(5) by (simp_all add: messages_def)
    have "?at s1 j = (if j = int k then Some (parts ! k) else ?at s j)" if "in_int32 j" for j
    proof (rule upload_chunk_effect [OF assms(1), of st' "messages env tid parts ! k" flt k s])
      fix s2
      assume "upload_chunk cfg env flt k st' (messages env tid parts ! k) s =
          (Inr (st'\<lparr>ss_received := dc_ChunkIndex (messages env tid parts ! k) + 1\<rparr>), s2)"
        and "\<And>j. in_int32 j \<Longrightarrow> chunk_at (store_of (ts_net s2) (tc_NodeID cfg)) (ss_storageID st') j =
           (if j = dc_ChunkIndex (messages env tid parts ! k) then Some (dc_Data (messages env tid parts ! k))
            else chunk_at (store_of (ts_net s) (tc_NodeID cfg)) (ss_storageID st') j)"
      then show ?thesis using that u c st' by simp
    qed (use assms(2,3,4) k c st' in \<open>auto simp: in_int32_def\<close>)
    then show ?thesis using inv k assms(4) by (auto simp: in_int32_def less_Suc_eq)
  qed
  show thesis
  proof (rule send_messages_inv [of cfg env st parts ?inv flt tid 0 s, OF assms])
    fix s' assume "send_loop cfg env flt True 0 st (drop 0 (messages env tid parts)) s =
        finish_upload flt (st\<lparr>ss_received := (if 0 = length parts then ss_received st else int (length parts))\<rparr>) s'"
      "same_shapes s s'" "?inv (length parts) s'"
    then show thesis using that [of s'] by simp
  qed ((rule step; assumption), simp_all)
qed

section \<open>Downloading what was uploaded\<close>

lemma receive_loop_messages:
  assumes "store_works cfg env" "storage_id t = sid" "tr_TotalChunks t = int (length parts)"
    and "\<And>j. j < length parts \<Longrightarrow> chunk_at (store_of w (tc_NodeID cfg)) sid (int j) = Some (parts ! j)"
    and "k0 \<le> length parts"
  shows "receive_loop cfg env (\<lambda>_. False) t w [int k0..int (length parts) - 1] out =
    (out @ drop k0 (messages env (tr_TransferID t) parts), None)"
  using assms(5)
proof (induction "length parts - k0" arbitrary: k0 out)
  case 0
  then show ?case by (simp add: messages_def)
next
  case (Suc n)
  have k: "k0 < length parts" using Suc.hyps(2) by simp
  have "[int k0..int (length parts) - 1] = int k0 # [int (Suc k0)..int (length parts) - 1]"
    using k upto_rec1 [of "int k0" "int (length parts) - 1"] by (simp add: add.commute)
  moreover have "drop k0 (messages env (tr_TransferID t) parts) =
      messages env (tr_TransferID t) parts ! k0 # drop (Suc k0) (messages env (tr_TransferID t) parts)"
    using k by (intro Cons_nth_drop_Suc [symmetric]) (simp add: messages_def)
  moreover have "messages env (tr_TransferID t) parts ! k0 =
      \<lparr>dc_TransferId = tr_TransferID t, dc_ChunkIndex = int k0, dc_Data = parts ! k0,
       dc_ChunkHash = env_sha env (parts ! k0), dc_IsLast = (int k0 = tr_TotalChunks t - 1)\<rparr>"
    using k by (simp add: messages_def assms(3))
  ultimately show ?case
    using Suc.hyps(1) [of "Suc k0"] Suc.hyps(2) k assms(1,2) assms(4) [OF k]
    by (simp add: store_works_def load_chunk_at)
qed

lemma send_opened:
  assumes "open_upload flt (dc_TransferId c) send_start s = (Inr st, s1)" "ss_transferID st \<noteq> ''''"
  shows "send_chunk cfg env flt eof (c # cs) s = send_loop cfg env flt eof 0 st (c # cs) s1"
proof -
  have "take_message cfg env flt 0 send_start c s = take_message cfg env flt 0 st c s1"
    using assms by (simp add: take_message_def send_start_def)
  then show ?thesis by (simp add: send_chunk_def)
qed

lemma upload_opened:
  assumes "open_upload flt tid send_start s = (Inr st, s1)" "store_works cfg env"
    and "plain_id (ss_transferID st)" "plain_id (ss_storageID st)"
    and "int (length parts) < 2 ^ 31" "parts \<noteq> []" "\<forall>d\<in>set parts. env_sha env d \<noteq> ''''"
  obtains s' where
    "send_chunk cfg env flt True (messages env tid parts) s =
       finish_upload flt (st\<lparr>ss_received := int (length parts)\<rparr>) s'"
    "same_shapes s1 s'"
    "\<And>j. j < length parts \<Longrightarrow> chunk_at (store_of (ts_net s') (tc_NodeID cfg)) (ss_storageID st) (int j) = Some (parts ! j)"
proof -
  obtain c cs where c: "messages env tid parts = c # cs" "dc_TransferId c = tid"
    using assms(6) by (cases parts) (auto simp: messages_def upt_conv_Cons simp del: upt_Suc)
  have "ss_transferID st \<noteq> ''''" using assms(3) by (auto simp: plain_id_def)
  then have start: "send_chunk cfg env flt True (messages env tid parts) s =
      send_loop cfg env flt True 0 st (drop 0 (messages env tid parts)) s1"
    using send_opened [of flt c s st s1 cfg env True cs] assms(1) c by simp
  show thesis
    by (rule put_messages_loop [OF assms(2,3,4,5,7), of flt tid s1]) (use that start assms(6) in simp)
qed

lemma same_shapes_get:
  assumes "same_shapes s s'" "get_transfer_sql i (transfers_of s) = Some t"
  obtains t' where "get_transfer_sql i (transfers_of s') = Some t'" "tr_TransferID t' = tr_TransferID t"
    "tr_TotalChunks t' = tr_TotalChunks t" "tr_GroupTransferID t' = tr_GroupTransferID t"
proof -
  have "map_option shape (get_transfer_sql i (transfers_of s')) = Some (shape t)"
    using assms by (simp add: same_shapes_def)
  then show thesis using that by (auto simp: shape_def)
qed

lemma receive_all:
  assumes "store_works cfg env" "get_transfer_sql tid (transfers_of s) = Some t" "tid \<noteq> ''''"
    and "\<forall>q. \<not> flt q" "tr_TotalChunks t = int (length parts)"
    and "\<And>j. j < length parts \<Longrightarrow> chunk_at (store_of (ts_net s) (tc_NodeID cfg)) (storage_id t) (int j) = Some (parts ! j)"
    and "0 \<le> start" "start \<le> int (length parts)"
  shows "receive_chunks cfg env flt (\<lambda>_. False) tid start s = (drop (nat start) (messages env tid parts), None)"
proof -
  have "fetch_transfer flt tid s = Inr t" using assms(2,3,4) by (simp add: fetch_transfer_def)
  moreover have "tr_TransferID t = tid" using assms(2) by (rule get_transfer_key)
  ultimately show ?thesis
    using receive_loop_messages [OF assms(1) refl assms(5,6), of "nat start" "[]"] assms(5,7,8)
    by (simp add: receive_chunks_def Let_def)
qed

lemma waiting_create:
  "waiting tid s \<Longrightarrow> create_transfer_sql now p (transfers_of s) = Some (r, rows) \<Longrightarrow>
     waiting tid (set_transfers rows s)"
  using row_at_None [of tr_TransferID "tr_TransferID p" "transfers_of s"]
  by (auto simp: waiting_def create_transfer_sql_def get_transfer_sql_def row_at_append Let_def
      split: if_splits option.splits)

lemma waiting_other:
  assumes "waiting tid s" "i \<noteq> tid"
  shows "waiting tid (set_transfers (update_transfer_status_sql now i st (transfers_of s)) s)"
    "waiting tid (set_transfers (confirm_p2p_sql now i st n m (transfers_of s)) s)"
  using assms by (auto simp: waiting_def split: option.splits dest: get_transfer_key)

lemma waiting_fetch:
  "waiting tid s \<Longrightarrow> fetch_transfer flt tid s = Inr t \<Longrightarrow> tr_Status t = st_AWAITING_APPROVAL"
  by (auto simp: waiting_def dest: fetch_transfer_Inr)

lemma waiting_initiate: "waiting tid s \<Longrightarrow> waiting tid (snd (initiate_transfer cfg flt i req s))"
  by (auto simp: initiate_transfer_def Let_def split: sum.splits
      dest!: db_row_Inr [THEN iffD1] intro: waiting_create)

lemma waiting_create_recipients:
  "waiting tid s \<Longrightarrow> waiting tid (snd (create_recipients flt ids req gt i rks infos s))"
proof (induction rks arbitrary: i infos s)
  case (Cons rk rks)
  then show ?case
    by (auto simp: Let_def split: sum.splits dest!: db_row_Inr [THEN iffD1]
        intro!: Cons.IH intro: waiting_create)
qed simp

lemma waiting_set_groups [simp]: "waiting tid (set_groups g s) = waiting tid s"
  by (simp add: waiting_def)

section \<open>The watch stream\<close>

lemma watch_rows_all:
  "(\<And>e. \<not> sendFails e) \<Longrightarrow>
   watch_rows now nid ro sendFails known ts current out =
     (out @ concat (map (watch_row now nid ro known) ts),
      Some (\<lambda>i. case map_of (rev (map (\<lambda>t. (tr_TransferID t, snapshot_of t)) ts)) i of
                  Some x \<Rightarrow> Some x | None \<Rightarrow> current i))"
proof (induction ts arbitrary: current out)
  case (Cons t ts)
  have "\<not> list_ex sendFails (watch_row now nid ro known t)" using Cons.prems by (auto simp: list_ex_iff)
  then show ?case
    using Cons.IH [OF Cons.prems] by (auto simp: fun_eq_iff map_add_def split: option.splits)
qed simp

lemma map_of_distinct_rev:
  "distinct (map fst xs) \<Longrightarrow> map_of (rev xs) = map_of xs"
  by (rule map_of_inject_set [THEN iffD2]) (auto simp flip: rev_map)

lemma map_of_rows:
  assumes "distinct (map tr_TransferID ts)"
  shows "map_of (map (\<lambda>t. (tr_TransferID t, snapshot_of t)) ts) i = map_option snapshot_of (row_at tr_TransferID i ts)"
  by (induction ts) (auto simp: row_at_def)

text \<open>The rows a watcher sees, by id.\<close>

definition watched :: "node_id \<Rightarrow> transfer_service \<Rightarrow> string \<Rightarrow> transfer_row option" where
  "watched nid s i =
     (case get_transfer_sql i (transfers_of s) of
        None \<Rightarrow> None
      | Some t \<Rightarrow> if touches_node nid t then Some t else None)"

lemma list_by_node_rows:
  assumes "distinct (map tr_TransferID (transfers_of s))"
  shows "distinct (map tr_TransferID (list_transfers_by_node_sql nid (transfers_of s)))"
    and "row_at tr_TransferID i (list_transfers_by_node_sql nid (transfers_of s)) = watched nid s i"
    and "t \<in> set (list_transfers_by_node_sql nid (transfers_of s)) \<longleftrightarrow> watched nid s (tr_TransferID t) = Some t"
proof -
  let ?l = "list_transfers_by_node_sql nid (transfers_of s)"
  have ms: "mset ?l = mset (filter (touches_node nid) (transfers_of s))"
    by (simp add: list_transfers_by_node_sql_def newest_first_def)
  have d: "distinct (map tr_TransferID (filter (touches_node nid) (transfers_of s)))"
    using assms by (simp add: distinct_map_filter)
  have "mset (map tr_TransferID ?l) = mset (map tr_TransferID (filter (touches_node nid) (transfers_of s)))"
    using ms by (simp only: mset_map)
  then show dl: "distinct (map tr_TransferID ?l)" using d by (metis mset_eq_imp_distinct_iff)
  have st: "set ?l = set (filter (touches_node nid) (transfers_of s))" using ms by (rule mset_eq_setD)
  have mem: "u \<in> set ?l \<longleftrightarrow> watched nid s (tr_TransferID u) = Some u" for u
  proof -
    have "u \<in> set (transfers_of s) \<longleftrightarrow> get_transfer_sql (tr_TransferID u) (transfers_of s) = Some u"
      using assms row_at_unique [of tr_TransferID "transfers_of s" u] row_at_key [of tr_TransferID _ "transfers_of s" u]
      by (auto simp: get_transfer_sql_def)
    then show ?thesis by (auto simp: st watched_def split: option.splits)
  qed
  then show "t \<in> set ?l \<longleftrightarrow> watched nid s (tr_TransferID t) = Some t" .
  show "row_at tr_TransferID i ?l = watched nid s i"
  proof (cases "watched nid s i")
    case None
    then have "i \<notin> tr_TransferID ` set ?l" using mem by (auto simp: image_iff)
    then show ?thesis using None row_at_None [of tr_TransferID i ?l] by simp
  next
    case (Some u)
    then have "tr_TransferID u = i" by (auto simp: watched_def split: option.splits if_splits dest: get_transfer_key)
    then show ?thesis using Some mem [of u] row_at_unique [OF dl, of u] by simp
  qed
qed

text \<open>A client that keeps the last event of each transfer.\<close>

definition client_view :: "transfer_event list \<Rightarrow> (string \<rightharpoonup> transfer_info) \<Rightarrow> string \<rightharpoonup> transfer_info" where
  "client_view evs v = foldl (\<lambda>v e. v(ti_TransferId (te_Transfer e) \<mapsto> te_Transfer e)) v evs"

definition shown :: "transfer_row \<Rightarrow> transfer_info" where
  "shown t = (transfer_info_of t)\<lparr>ti_WrappedFileKey := [], ti_GroupTransferId := ''''\<rparr>"

lemma client_view_rows:
  assumes "distinct (map tr_TransferID ts)"
  shows "client_view (concat (map (watch_row now nid False known) ts)) v i =
    (case row_at tr_TransferID i ts of
       None \<Rightarrow> v i
     | Some t \<Rightarrow> if known i = Some (snapshot_of t) then v i else Some (shown t))"
  using assms
proof (induction ts arbitrary: v)
  case Nil
  then show ?case by (simp add: client_view_def row_at_def)
next
  case (Cons t ts)
  have none: "row_at tr_TransferID (tr_TransferID t) ts = None"
    using Cons.prems by (simp add: row_at_None)
  have one: "client_view (watch_row now nid False known t) v =
      (if known (tr_TransferID t) = Some (snapshot_of t) then v else v(tr_TransferID t \<mapsto> shown t))" for v
    by (auto simp: client_view_def watch_row_def emit_event_def shown_def transfer_info_of_def split: option.splits)
  have "client_view (concat (map (watch_row now nid False known) (t # ts))) v =
      client_view (concat (map (watch_row now nid False known) ts)) (client_view (watch_row now nid False known t) v)"
    by (simp add: client_view_def)
  then show ?case
    using Cons.IH Cons.prems none by (auto simp: one row_at_def split: option.splits)
qed

definition in_sync :: "watch_known \<Rightarrow> (string \<rightharpoonup> transfer_info) \<Rightarrow> bool" where
  "in_sync known v \<longleftrightarrow> (\<forall>i x. known i = Some x \<longrightarrow> (\<exists>info. v i = Some info \<and> ti_Status info = fst x))"

definition mirrors :: "node_id \<Rightarrow> (string \<rightharpoonup> transfer_info) \<Rightarrow> transfer_service \<Rightarrow> bool" where
  "mirrors nid v s \<longleftrightarrow>
     (\<forall>i t. watched nid s i = Some t \<longrightarrow> (\<exists>info. v i = Some info \<and> ti_Status info = tr_Status t))"

lemma tick_mirrors:
  assumes "distinct (map tr_TransferID (transfers_of s))" "\<not> flt QListTransfers" "in_sync known v"
  obtains evs known' where "watch_tick flt nid False (\<lambda>_. False) known s = (evs, Some known')"
    "in_sync known' (client_view evs v)" "mirrors nid (client_view evs v) s"
proof -
  let ?ts = "list_transfers_by_node_sql nid (transfers_of s)"
  let ?evs = "concat (map (watch_row (clock s) nid False known) ?ts)"
  have d: "distinct (map tr_TransferID ?ts)" using assms(1) by (rule list_by_node_rows)
  have "map_of (rev (map (\<lambda>t. (tr_TransferID t, snapshot_of t)) ?ts)) i = map_option snapshot_of (watched nid s i)" for i
    using map_of_distinct_rev [of "map (\<lambda>t. (tr_TransferID t, snapshot_of t)) ?ts"] d map_of_rows [OF d]
      list_by_node_rows(2) [OF assms(1)] by (simp add: o_def)
  then have tick: "watch_tick flt nid False (\<lambda>_. False) known s = (?evs, Some (\<lambda>i. map_option snapshot_of (watched nid s i)))"
    using assms(2) by (auto simp: watch_tick_def watch_rows_all fun_eq_iff split: option.splits)
  have view: "client_view ?evs v i = (case watched nid s i of None \<Rightarrow> v i
      | Some t \<Rightarrow> if known i = Some (snapshot_of t) then v i else Some (shown t))" for i
    using client_view_rows [OF d] list_by_node_rows(2) [OF assms(1)] by simp
  have "mirrors nid (client_view ?evs v) s"
    using assms(3) by (auto simp: mirrors_def view in_sync_def snapshot_of_def shown_def transfer_info_of_def)
  moreover from this have "in_sync (\<lambda>i. map_option snapshot_of (watched nid s i)) (client_view ?evs v)"
    by (auto simp: mirrors_def in_sync_def snapshot_of_def)
  ultimately show thesis using that tick by blast
qed

lemma client_view_append: "client_view (xs @ ys) v = client_view ys (client_view xs v)"
  by (simp add: client_view_def)

lemma watch_loop_mirrors:
  assumes "length flts = length ss" "ss \<noteq> []" "\<forall>s\<in>set ss. distinct (map tr_TransferID (transfers_of s))"
    and "\<not> last flts QListTransfers" "in_sync known v"
  shows "mirrors nid (client_view (watch_loop flts nid False (\<lambda>_. False) known ss) v) (last ss)"
  using assms
proof (induction ss arbitrary: flts known v)
  case (Cons s ss)
  obtain flt fs where f: "flts = flt # fs" using Cons.prems(1) by (cases flts) auto
  show ?case
  proof (cases "flt QListTransfers")
    case True
    then have "ss \<noteq> []" using Cons.prems(1,4) f by auto
    then show ?thesis
      using True Cons.IH [of fs known v] Cons.prems f by (simp add: watch_tick_def split: if_splits)
  next
    case False
    obtain evs known' where t: "watch_tick flt nid False (\<lambda>_. False) known s = (evs, Some known')"
      and sync: "in_sync known' (client_view evs v)" and m: "mirrors nid (client_view evs v) s"
      using tick_mirrors [of s flt known v nid] False Cons.prems(3,5) by auto
    show ?thesis
    proof (cases "ss = []")
      case True
      then have "watch_loop flts nid False (\<lambda>_. False) known (s # ss) = evs" by (simp add: f t)
      then show ?thesis using m True by simp
    next
      case False
      then show ?thesis
        using Cons.IH [of fs known' "client_view evs v"] Cons.prems sync f t
        by (simp add: client_view_append split: if_splits)
    qed
  qed
qed simp

section \<open>Properties\<close>

text \<open>A transfer that \<open>InitiateTransfer\<close> accepts is a new row, and no other row changes: it
  has the requested parties, no key, a 32-byte public key, waits for approval unless the sender
  asked for automatic approval, and its chunks exactly cover the announced size.\<close>

theorem initiate_creates_row:
  assumes "initiate_transfer cfg flt newID req s = (Inr resp, s')"
    and "in_int32 (ir_ChunkSizeBytes req)"
    and "ir_TotalSizeBytes req \<le> (2 ^ 31 - 1) * chunk_size_of (ir_ChunkSizeBytes req)"
  shows "get_transfer_sql newID (transfers_of s) = None
    \<and> (\<exists>t. get_transfer_sql newID (transfers_of s') = Some t
        \<and> tr_SenderNodeID t = ir_SenderNodeId req \<and> tr_ReceiverNodeID t = ir_ReceiverNodeId req
        \<and> tr_EncryptionKey t = '''' \<and> length (tr_SenderEphemeralPubkey t) = 32
        \<and> tr_Status t = (if ir_AutoApprove req then st_PENDING else st_AWAITING_APPROVAL)
        \<and> tr_TotalChunks t = is_TotalChunks resp
        \<and> (is_TotalChunks resp - 1) * tr_ChunkSizeBytes t < tr_TotalSizeBytes t
        \<and> tr_TotalSizeBytes t \<le> is_TotalChunks resp * tr_ChunkSizeBytes t)
    \<and> (\<forall>i. i \<noteq> newID \<longrightarrow> get_transfer_sql i (transfers_of s') = get_transfer_sql i (transfers_of s))
    \<and> ts_net s' = ts_net s"
proof -
  let ?c = "chunk_size_of (ir_ChunkSizeBytes req)"
  have c: "0 < ?c" "in_int32 ?c"
    using assms(2) by (auto simp: chunk_size_of_def default_chunk_size_def in_int32_def)
  obtain row t rows where cr: "create_transfer_sql (clock s) row (transfers_of s) = Some (t, rows)"
    and row: "tr_TransferID row = newID" "tr_SenderNodeID row = ir_SenderNodeId req"
      "tr_ReceiverNodeID row = ir_ReceiverNodeId req" "tr_EncryptionKey row = ''''"
      "tr_SenderEphemeralPubkey row = ir_SenderEphemeralPubkey req"
      "tr_Status row = (if ir_AutoApprove req then st_PENDING else st_AWAITING_APPROVAL)"
      "tr_TotalChunks row = is_TotalChunks resp" "tr_ChunkSizeBytes row = ?c"
      "tr_TotalSizeBytes row = ir_TotalSizeBytes req"
    and s': "s' = set_transfers rows s" and pos: "0 < ir_TotalSizeBytes req"
      "length (ir_SenderEphemeralPubkey req) = 32" "is_TotalChunks resp = total_chunks_of (ir_TotalSizeBytes req) ?c"
    using assms(1)
    by (auto simp: initiate_transfer_def Let_def split: if_splits sum.splits prod.splits
        dest!: db_row_Inr [THEN iffD1])
  have t: "t = row\<lparr>tr_ChunksDone := 0, tr_TransferMode := 1, tr_CreatedAt := clock s, tr_UpdatedAt := clock s\<rparr>"
    and new: "get_transfer_sql newID (transfers_of s) = None"
    using cr row(1) row_at_None [of tr_TransferID newID "transfers_of s"]
    by (auto simp: create_transfer_sql_def get_transfer_sql_def Let_def split: if_splits)
  show ?thesis
    using total_chunks_exact [OF pos(1) c assms(3)] new pos(2,3) row s' get_create [OF cr]
    by (simp add: t)
qed

text \<open>C22: Whatever operations run, with whatever queries failing, on a database that started
  empty: transfer ids and group ids are unique, every status is one of the six that the
  service uses, and no encryption key is ever stored.\<close>

theorem transfer_database_invariant:
  "transfers_wf (foldl (transfer_step cfg env uuid)
     \<lparr>ts_db = \<lparr>td_transfers = [], td_groups = []\<rparr>, ts_net = w\<rparr> ops)"
proof (rule transfers.inv_run)
  show "transfers.legal_run cfg env uuid s ops" for s
    by (induction ops arbitrary: s) auto
qed (simp add: transfers_wf_def)

lemma waiting_p2p:
  assumes "ph_TransferId header \<noteq> tid" "waiting tid s"
  shows "waiting tid (snd (receive_p2p_chunks (deployed_receiver cfg env flt) header rs s))"
  by (rule received_stream_inv [of "waiting tid"])
    (use assms in \<open>auto simp: update_p2p_progress_def Let_def\<close>)

text \<open>A waiting direct transfer in one step of the service.\<close>

lemma approval_step:
  assumes "transfers_wf s" "waiting tid s" "tid \<noteq> ''''"
    and "\<not> waiting tid (transfer_step cfg env uuid s (flt, op))"
  shows "op = OpCancel tid \<or> (\<exists>n. op = OpConfirm tid True n)
    \<or> (\<exists>t ok. get_transfer_sql tid (transfers_of s) = Some t \<and> op = OpRespond tid (tr_ReceiverNodeID t) ok)
    \<or> (\<exists>header rs. op = OpP2pStream (Got header) rs \<and> ph_TransferId header = tid \<and> tc_p2p cfg \<noteq> None)"
proof (cases op)
  case (OpP2pStream h rs)
  have "ph_TransferId header = tid" if "h = Got header" for header
    using OpP2pStream assms(2,4) that waiting_p2p [of header tid s cfg env flt rs]
    by (auto simp: handle_stream_def split: if_splits)
  then show ?thesis
    using OpP2pStream assms(2,4) by (cases h) (auto simp: handle_stream_def split: if_splits)
next
  case (OpInitiate i req)
  then show ?thesis
    using assms(2,4) waiting_initiate by simp
next
  case (OpSend eof cs)
  have "elsewhere tid send_start" using assms(3) by (simp add: elsewhere_def send_start_def)
  then show ?thesis
    using OpSend assms(4) waiting_send_loop [OF assms(1,2)] by (simp add: send_chunk_def)
next
  case (OpGroup i ids req)
  then show ?thesis
    using assms(2,4) waiting_create_recipients
    by (auto simp: initiate_group_transfer_def Let_def case_prod_beta split: sum.splits option.splits if_splits)
next
  case (OpCancel i)
  have "waiting tid (snd (cancel_transfer cfg env flt i s))" if "i \<noteq> tid"
    using assms(2) waiting_other [OF assms(2) that]
    by (auto simp: cancel_transfer_def Let_def case_prod_beta split: sum.splits)
  then show ?thesis using OpCancel assms(4) by auto
next
  case (OpPause i)
  have "waiting tid (snd (pause_transfer flt i s))" if "i \<noteq> tid"
    using assms(2) waiting_other [OF assms(2) that] by (auto simp: pause_transfer_def split: sum.splits)
  then show ?thesis
    using OpPause assms(4) waiting_fetch [OF assms(2)] assms(2) by (cases "i = tid") (auto simp: pause_transfer_def split: sum.splits)
next
  case (OpResume i)
  have "waiting tid (snd (resume_transfer flt i s))" if "i \<noteq> tid"
    using assms(2) waiting_other [OF assms(2) that] by (auto simp: resume_transfer_def split: sum.splits)
  then show ?thesis
    using OpResume assms(4) waiting_fetch [OF assms(2)] assms(2) by (cases "i = tid") (auto simp: resume_transfer_def split: sum.splits)
next
  case (OpConfirm i ok n)
  have "waiting tid (snd (confirm_p2p_transfer flt i ok n s))" if "i \<noteq> tid"
    using assms(2) waiting_other [OF assms(2) that] by (auto simp: confirm_p2p_transfer_def Let_def split: sum.splits)
  moreover have "waiting tid (snd (confirm_p2p_transfer flt tid False n s))"
    using assms(2) waiting_fetch [OF assms(2)]
    by (auto simp: confirm_p2p_transfer_def Let_def waiting_def split: sum.splits option.splits)
  ultimately show ?thesis using OpConfirm assms(4) by (cases ok) auto
next
  case (OpRespond i rcv ok)
  have "waiting tid (snd (respond_to_transfer flt i rcv ok s))" if "i \<noteq> tid"
    using assms(2) waiting_other [OF assms(2) that] by (auto simp: respond_to_transfer_def Let_def split: sum.splits)
  moreover have "waiting tid (snd (respond_to_transfer flt tid rcv ok s))"
    if "\<forall>t. get_transfer_sql tid (transfers_of s) = Some t \<longrightarrow> tr_ReceiverNodeID t \<noteq> rcv"
    using assms(2) that by (auto simp: respond_to_transfer_def Let_def db_row_Inr split: sum.splits)
  ultimately show ?thesis using OpRespond assms(4) by (cases "i = tid") auto
qed

text \<open>C5: The ways out of waiting. A direct transfer that waits for approval leaves that state in one
  step of the transfer service only by a response to it that names the transfer's receiver
  node, by its cancellation, by the confirmation that it was delivered peer to peer, or, where
  the service has a P2P node, by an incoming stream whose header names it. No upload, of this or
  another transfer or group, no pause, no resumption, no new transfer and no stream for another
  transfer moves it on. The service takes the node that a response names from the request.\<close>

theorem approval_needed:
  assumes "transfers_wf s" "waiting tid s" "tid \<noteq> ''''"
    and "\<not> waiting tid (transfer_step cfg env uuid s (flt, op))"
  shows "op = OpCancel tid \<or> (\<exists>n. op = OpConfirm tid True n)
    \<or> (\<exists>t ok. get_transfer_sql tid (transfers_of s) = Some t \<and> op = OpRespond tid (tr_ReceiverNodeID t) ok)
    \<or> (\<exists>header rs. op = OpP2pStream (Got header) rs \<and> ph_TransferId header = tid \<and> tc_p2p cfg \<noteq> None)"
  by (rule approval_step [OF assms])

text \<open>C2: A file uploaded in order comes back: when the queries and the service's own chunk
  store work, sending all chunks of an approved transfer completes it, and every later download
  from any start index delivers the same chunks with the same hashes, the last marked as such,
  whatever the relay network did with the copies it was sent.\<close>

theorem upload_then_download:
  assumes "get_transfer_sql tid (transfers_of s) = Some t" "get_group_sql tid (groups_of s) = None"
    and "tr_Status t \<noteq> st_AWAITING_APPROVAL" "tr_Status t \<noteq> st_PAUSED"
    and "plain_id tid" "plain_id (storage_id t)" "tr_TotalChunks t = int (length parts)"
    and "parts \<noteq> []" "int (length parts) < 2 ^ 31" "\<forall>d\<in>set parts. env_sha env d \<noteq> ''''"
    and "store_works cfg env" "\<forall>q. \<not> flt q" "0 \<le> start" "start \<le> int (length parts)"
  shows "\<exists>resp s'. send_chunk cfg env flt True (messages env tid parts) s = (Inr resp, s')
    \<and> sd_Status resp = st_COMPLETED \<and> sd_ChunksReceived resp = int (length parts)
    \<and> map_option tr_Status (get_transfer_sql tid (transfers_of s')) = Some st_COMPLETED
    \<and> receive_chunks cfg env flt (\<lambda>_. False) tid start s' = (drop (nat start) (messages env tid parts), None)"
proof -
  let ?s1 = "set_transfers (update_transfer_status_sql (clock s) tid st_IN_PROGRESS (transfers_of s)) s"
  let ?st = "send_start\<lparr>ss_transferID := tid, ss_storageID := storage_id t, ss_total := tr_TotalChunks t,
      ss_replication := tr_ReplicationFactor t, ss_hops := tr_RouteHops t\<rparr>"
  have tid: "tid \<noteq> ''''" "tr_TransferID t = tid"
    using assms(1,5) by (auto simp: plain_id_def dest: get_transfer_key)
  have o: "open_upload flt tid send_start s = (Inr ?st, ?s1)"
    using assms(1-4,12) by (auto simp: open_upload_def open_single_def storage_id_def try_update_def send_start_def)
  obtain s' where s': "send_chunk cfg env flt True (messages env tid parts) s =
       finish_upload flt (?st\<lparr>ss_received := int (length parts)\<rparr>) s'" "same_shapes ?s1 s'"
    "\<And>j. j < length parts \<Longrightarrow> chunk_at (store_of (ts_net s') (tc_NodeID cfg)) (ss_storageID ?st) (int j) = Some (parts ! j)"
    by (rule upload_opened [OF o assms(11) _ _ assms(9,8,10)]) (use assms(5,6) in auto)
  let ?s2 = "set_transfers (complete_transfer_sql (clock s') tid (transfers_of s')) s'"
  have fin: "finish_upload flt (?st\<lparr>ss_received := int (length parts)\<rparr>) s' =
      (Inr \<lparr>sd_TransferId = tid, sd_ChunksReceived = int (length parts), sd_TotalChunks = int (length parts),
            sd_Status = st_COMPLETED\<rparr>, ?s2)"
    using assms(7,12) by (simp add: finish_upload_def try_update_def send_start_def)
  obtain t1 where t1: "get_transfer_sql tid (transfers_of s') = Some t1" "tr_TransferID t1 = tid"
    "tr_TotalChunks t1 = tr_TotalChunks t" "tr_GroupTransferID t1 = tr_GroupTransferID t"
    by (rule same_shapes_get [OF s'(2), of tid]) (use assms(1) tid in auto)
  let ?t2 = "t1\<lparr>tr_Status := 3, tr_ChunksDone := tr_TotalChunks t1, tr_UpdatedAt := clock s'\<rparr>"
  have t2: "get_transfer_sql tid (transfers_of ?s2) = Some ?t2" using t1 by simp
  have sid: "storage_id ?t2 = storage_id t" using t1 tid by (simp add: storage_id_def split: option.splits)
  have "receive_chunks cfg env flt (\<lambda>_. False) tid start ?s2 = (drop (nat start) (messages env tid parts), None)"
    using s'(3) sid t1 assms(7)
    by (intro receive_all [OF assms(11) t2 tid(1) assms(12) _ _ assms(13,14)]) auto
  moreover have "map_option tr_Status (get_transfer_sql tid (transfers_of ?s2)) = Some st_COMPLETED"
    unfolding t2 by simp
  ultimately show ?thesis unfolding s'(1) fin by (intro exI conjI) (rule refl, simp_all)
qed

lemma complete_siblings_row:
  assumes "\<forall>q. \<not> flt q" "tid \<in> set ids" "get_transfer_sql tid (transfers_of s) \<noteq> None"
  shows "map_option tr_Status (get_transfer_sql tid (transfers_of (complete_siblings flt i ids s))) = Some st_COMPLETED"
  using assms(2,3)
proof (induction ids arbitrary: i s)
  case (Cons x xs)
  let ?s = "try_update (flt (QComplete i)) (complete_transfer_sql (clock s) x) s"
  have eq: "complete_siblings flt i (x # xs) s = complete_siblings flt (i + 1) xs ?s" by simp
  have row: "get_transfer_sql tid (transfers_of ?s) \<noteq> None" using Cons.prems(2) assms(1) by (simp add: try_update_def)
  show ?case
  proof (cases "tid \<in> set xs")
    case True
    then show ?thesis unfolding eq using row by (rule Cons.IH)
  next
    case False
    then have x: "x = tid" using Cons.prems(1) by simp
    have keep: "map_option tr_Status (get_transfer_sql tid (transfers_of (complete_siblings flt j ys u)))
        = map_option tr_Status (get_transfer_sql tid (transfers_of u))" if "tid \<notin> set ys" for j ys u
      using that
    proof (induction ys arbitrary: j u)
      case (Cons y ys)
      then have "get_transfer_sql tid (transfers_of (try_update False (complete_transfer_sql (clock u) y) u))
          = get_transfer_sql tid (transfers_of u)"
        using get_transfer_key [of tid "transfers_of u"]
        by (cases "get_transfer_sql tid (transfers_of u)") (auto simp: try_update_def)
      with Cons show ?case using assms(1) by simp
    qed simp
    obtain t where t: "get_transfer_sql tid (transfers_of s) = Some t" using Cons.prems(2) by blast
    then have "tr_TransferID t = tid" by (rule get_transfer_key)
    then have "map_option tr_Status (get_transfer_sql tid (transfers_of ?s)) = Some st_COMPLETED"
      using assms(1) t by (simp add: x try_update_def)
    then show ?thesis unfolding eq using keep [OF False] by simp
  qed
qed simp

text \<open>C13: A group upload serves every recipient. When the queries and the service's own chunk store
  work, sending all chunks of a group transfer once completes the transfer of every recipient,
  and each recipient downloads all chunks, from any start index and with the same hashes, under
  its own transfer id, though they are stored once, under the id of the group.\<close>

theorem group_upload_then_download:
  assumes "get_group_sql gid (groups_of s) = Some g" "gr_TotalChunks g = int (length parts)"
    and "get_transfer_sql rid (transfers_of s) = Some t" "tr_GroupTransferID t = Some gid"
    and "tr_TotalChunks t = int (length parts)" "rid \<noteq> ''''" "plain_id gid"
    and "parts \<noteq> []" "int (length parts) < 2 ^ 31" "\<forall>d\<in>set parts. env_sha env d \<noteq> ''''"
    and "store_works cfg env" "\<forall>q. \<not> flt q" "0 \<le> start" "start \<le> int (length parts)"
  shows "\<exists>resp s'. send_chunk cfg env flt True (messages env gid parts) s = (Inr resp, s')
    \<and> sd_Status resp = st_COMPLETED
    \<and> map_option tr_Status (get_transfer_sql rid (transfers_of s')) = Some st_COMPLETED
    \<and> receive_chunks cfg env flt (\<lambda>_. False) rid start s' = (drop (nat start) (messages env rid parts), None)"
proof -
  have gid: "gr_ID g = gid" using assms(1) by (auto simp: get_group_sql_def dest: row_at_key)
  have "t \<in> set (transfers_of s)" "tr_TransferID t = rid"
    using assms(3) by (auto simp: get_transfer_sql_def dest: row_at_key)
  then have sibling: "rid \<in> set (map tr_TransferID (list_transfers_by_group_sql gid (transfers_of s)))"
    using assms(4) by (force simp: list_transfers_by_group_sql_def)
  obtain st s1 where o: "open_upload flt gid send_start s = (Inr st, s1)" "same_shapes s s1"
    and st: "ss_transferID st = gid" "ss_storageID st = gid" "ss_isGroup st" "ss_total st = int (length parts)"
      "rid \<in> set (ss_siblings st)"
    using assms(1,2,12) gid sibling by (simp add: open_upload_def open_group_def Let_def db_run_def)
  obtain s' where s': "send_chunk cfg env flt True (messages env gid parts) s =
       finish_upload flt (st\<lparr>ss_received := int (length parts)\<rparr>) s'" "same_shapes s1 s'"
    "\<And>j. j < length parts \<Longrightarrow> chunk_at (store_of (ts_net s') (tc_NodeID cfg)) (ss_storageID st) (int j) = Some (parts ! j)"
    by (rule upload_opened [OF o(1) assms(11) _ _ assms(9,8,10)]) (use assms(7) st in auto)
  let ?s2 = "complete_siblings flt 0 (ss_siblings st) s'"
  have fin: "\<exists>resp. finish_upload flt (st\<lparr>ss_received := int (length parts)\<rparr>) s' = (Inr resp, ?s2) \<and> sd_Status resp = st_COMPLETED"
    using st by (simp add: finish_upload_def)
  obtain t1 where t1: "get_transfer_sql rid (transfers_of s') = Some t1"
    using same_shapes_trans [OF o(2) s'(2)] assms(3) by (rule same_shapes_get)
  have all_completed: "map_option tr_Status (get_transfer_sql rid (transfers_of ?s2)) = Some st_COMPLETED"
    using complete_siblings_row [OF assms(12) st(5), of s' 0] t1 by simp
  have "same_shapes s ?s2"
    by (rule same_shapes_trans [OF same_shapes_trans [OF o(2) s'(2)]]) simp
  then obtain t2 where t2: "get_transfer_sql rid (transfers_of ?s2) = Some t2"
    "tr_TotalChunks t2 = tr_TotalChunks t" "tr_GroupTransferID t2 = tr_GroupTransferID t"
    using assms(3) by (rule same_shapes_get)
  have "receive_chunks cfg env flt (\<lambda>_. False) rid start ?s2 = (drop (nat start) (messages env rid parts), None)"
    using s'(3) st t2 assms(4,5)
    by (intro receive_all [OF assms(11) t2(1) assms(6,12) _ _ assms(13,14)]) (auto simp: storage_id_def)
  then show ?thesis using s'(1) fin all_completed by auto
qed

text \<open>While a transfer waits for approval or is paused, an upload that names it changes
  nothing: it is refused before any chunk is stored, relayed or counted.\<close>

theorem blocked_upload_changes_nothing:
  assumes "get_transfer_sql (dc_TransferId c) (transfers_of s) = Some t"
    and "tr_Status t = st_AWAITING_APPROVAL \<or> tr_Status t = st_PAUSED"
    and "get_group_sql (dc_TransferId c) (groups_of s) = None"
  shows "\<exists>code msg. send_chunk cfg env flt eof (c # cs) s = (Inl (Status code msg), s)"
proof -
  have "\<exists>code msg. open_upload flt (dc_TransferId c) send_start s = (Inl (Status code msg), s)"
    using assms by (cases "flt QGetGroup"; cases "flt QGetTransfer")
      (auto simp: open_upload_def open_single_def)
  then show ?thesis by (auto simp: send_chunk_def take_message_def send_start_def)
qed

text \<open>C9: The watch stream is a mirror of the database: a client that keeps the last event of
  each transfer holds, after any number of ticks whose last query succeeds, the current status
  of every transfer the node sends or receives, however the database changed in between.\<close>

theorem watch_mirrors_database:
  assumes "nid \<noteq> ''''" "length flts = length ss" "ss \<noteq> []"
    and "\<forall>s\<in>set ss. transfers_wf s" "\<not> last flts QListTransfers"
  shows "\<exists>evs. watch_transfers flts nid False (\<lambda>_. False) ss = Inr evs
    \<and> (\<forall>i t. watched nid (last ss) i = Some t \<longrightarrow>
         (\<exists>info. client_view evs Map.empty i = Some info \<and> ti_Status info = tr_Status t))"
  using watch_loop_mirrors [of flts ss Map.empty Map.empty nid] assms
  by (auto simp: watch_transfers_def mirrors_def in_sync_def transfers_wf_def)

text \<open>Instances: one approved transfer, one that waits, and a group of one recipient.\<close>

definition demo_row :: "string \<Rightarrow> int32 \<Rightarrow> string option \<Rightarrow> transfer_row" where
  "demo_row i st g =
     \<lparr>tr_TransferID = i, tr_SenderNodeID = ''a'', tr_ReceiverNodeID = ''c'', tr_Filename = ''f'',
      tr_TotalSizeBytes = 4, tr_ContentHash = '''', tr_ChunkSizeBytes = 2, tr_TotalChunks = 2,
      tr_ChunksDone = 0, tr_Status = st, tr_CreatedAt = 0, tr_UpdatedAt = 0, tr_EncryptionKey = '''',
      tr_RouteHops = [\<lparr>hop_NodeId = ''b'', hop_HopIndex = 1, hop_IsRelay = True\<rparr>],
      tr_ReplicationFactor = 1, tr_SenderEphemeralPubkey = replicate 32 0, tr_TransferMode = 1,
      tr_GroupTransferID = g, tr_WrappedFileKey = []\<rparr>"

definition demo_service :: transfer_service where
  "demo_service =
     \<lparr>ts_db = \<lparr>td_transfers = [demo_row ''t'' st_PENDING None, demo_row ''w'' st_AWAITING_APPROVAL None,
                              demo_row ''r'' st_AWAITING_APPROVAL (Some ''g'')],
              td_groups = [\<lparr>gr_ID = ''g'', gr_SessionID = ''s'', gr_SenderNodeID = ''a'', gr_Filename = ''f'',
                gr_TotalSizeBytes = 4, gr_ContentHash = '''', gr_ChunkSizeBytes = 2, gr_TotalChunks = 2,
                gr_SenderEphemeralPubkey = replicate 32 0, gr_CreatedAt = 0\<rparr>]\<rparr>,
      ts_net = demo_world\<rparr>"

definition demo_config :: transfer_config where
  "demo_config = \<lparr>tc_NodeID = ''a'', tc_routing = None, tc_chunks = True, tc_relay = True, tc_p2p = None\<rparr>"

lemma demo_service_facts:
  "get_transfer_sql ''t'' (transfers_of demo_service) = Some (demo_row ''t'' 1 None)"
  "get_transfer_sql ''w'' (transfers_of demo_service) = Some (demo_row ''w'' 6 None)"
  "get_transfer_sql ''r'' (transfers_of demo_service) = Some (demo_row ''r'' 6 (Some ''g''))"
  "get_group_sql ''t'' (groups_of demo_service) = None"
  "get_group_sql ''w'' (groups_of demo_service) = None"
  "transfers_wf demo_service"
  by (simp_all add: demo_service_def demo_row_def get_transfer_sql_def get_group_sql_def row_at_def
      transfers_wf_def row_ok_def)

lemma demo_store: "store_works demo_config demo_env"
  by (simp add: store_works_def demo_config_def demo_env_def)

theorem initiate_creates_row_witness:
  "\<exists>resp s'. initiate_transfer demo_config (\<lambda>_. False) ''n''
      \<lparr>ir_SenderNodeId = ''a'', ir_ReceiverNodeId = ''c'', ir_Filename = ''f'', ir_TotalSizeBytes = 5,
       ir_ContentHash = '''', ir_ChunkSizeBytes = 2, ir_EncryptionKey = '''', ir_ReplicationFactor = 0,
       ir_SenderEphemeralPubkey = replicate 32 0, ir_AutoApprove = False\<rparr> demo_service = (Inr resp, s')
    \<and> is_TotalChunks resp = 3
    \<and> map_option tr_Status (get_transfer_sql ''n'' (transfers_of s')) = Some st_AWAITING_APPROVAL"
proof -
  let ?req = "\<lparr>ir_SenderNodeId = ''a'', ir_ReceiverNodeId = ''c'', ir_Filename = ''f'', ir_TotalSizeBytes = 5,
       ir_ContentHash = '''', ir_ChunkSizeBytes = 2, ir_EncryptionKey = '''', ir_ReplicationFactor = 0,
       ir_SenderEphemeralPubkey = replicate 32 0, ir_AutoApprove = False\<rparr>"
  obtain resp s' where i: "initiate_transfer demo_config (\<lambda>_. False) ''n'' ?req demo_service = (Inr resp, s')"
    "is_TotalChunks resp = 3"
    by (simp add: initiate_transfer_def demo_config_def demo_service_def demo_row_def create_transfer_sql_def
        chunk_size_of_def total_chunks_of_def wrap32_def wrap64_def signed_divide_int_def Let_def)
  show ?thesis
    using i initiate_creates_row [OF i(1)] by (auto simp: in_int32_def chunk_size_of_def)
qed

theorem approval_needed_witness:
  "\<not> waiting ''w'' (transfer_step demo_config demo_env (\<lambda>_. None) demo_service
        ((\<lambda>_. False), OpRespond ''w'' ''c'' True))
   \<and> (\<exists>t ok. get_transfer_sql ''w'' (transfers_of demo_service) = Some t
        \<and> OpRespond ''w'' ''c'' True = OpRespond ''w'' (tr_ReceiverNodeID t) ok)"
proof -
  have w: "waiting ''w'' demo_service"
    by (simp add: waiting_def demo_service_facts) (simp add: demo_row_def)
  have n: "\<not> waiting ''w'' (transfer_step demo_config demo_env (\<lambda>_. None) demo_service
        ((\<lambda>_. False), OpRespond ''w'' ''c'' True))"
    by (simp add: respond_to_transfer_def demo_service_facts waiting_def Let_def) (simp add: demo_row_def)
  show ?thesis using approval_needed [OF demo_service_facts(6) w _ n] n by auto
qed

theorem upload_then_download_witness:
  "\<exists>resp s'. send_chunk demo_config demo_env (\<lambda>_. False) True (messages demo_env ''t'' [[1, 2], [3, 4]]) demo_service
      = (Inr resp, s')
    \<and> receive_chunks demo_config demo_env (\<lambda>_. False) (\<lambda>_. False) ''t'' 1 s'
      = (drop 1 (messages demo_env ''t'' [[1, 2], [3, 4]]), None)"
  using upload_then_download [OF demo_service_facts(1,4) _ _ _ _ _ _ _ _ demo_store, of "[[1, 2], [3, 4]]" "\<lambda>_. False" 1]
  by (auto simp: demo_row_def plain_id_def storage_id_def demo_env_def)

theorem group_upload_then_download_witness:
  "\<exists>resp s'. send_chunk demo_config demo_env (\<lambda>_. False) True (messages demo_env ''g'' [[1, 2], [3, 4]]) demo_service
      = (Inr resp, s')
    \<and> map_option tr_Status (get_transfer_sql ''r'' (transfers_of s')) = Some st_COMPLETED
    \<and> receive_chunks demo_config demo_env (\<lambda>_. False) (\<lambda>_. False) ''r'' 1 s'
      = (drop 1 (messages demo_env ''r'' [[1, 2], [3, 4]]), None)"
proof -
  obtain g where g: "get_group_sql ''g'' (groups_of demo_service) = Some g" "gr_TotalChunks g = 2"
    by (simp add: demo_service_def get_group_sql_def row_at_def)
  show ?thesis
    using group_upload_then_download [OF g(1) _ demo_service_facts(3) _ _ _ _ _ _ _ demo_store,
        of "[[1, 2], [3, 4]]" "\<lambda>_. False" 1] g(2)
    by (auto simp: demo_row_def plain_id_def demo_env_def)
qed

theorem blocked_upload_changes_nothing_witness:
  "\<exists>code msg. send_chunk demo_config demo_env (\<lambda>_. False) True
      [\<lparr>dc_TransferId = ''w'', dc_ChunkIndex = 0, dc_Data = [1], dc_ChunkHash = ''h'', dc_IsLast = True\<rparr>] demo_service
    = (Inl (Status code msg), demo_service)"
  by (rule blocked_upload_changes_nothing [of _ _ "demo_row ''w'' 6 None"])
    (simp_all add: demo_service_facts, simp add: demo_row_def)

theorem watch_mirrors_database_witness:
  "\<exists>evs. watch_transfers [\<lambda>_. False, \<lambda>_. False] ''c'' False (\<lambda>_. False) [demo_service, demo_service] = Inr evs
     \<and> (\<exists>info. client_view evs Map.empty ''w'' = Some info \<and> ti_Status info = st_AWAITING_APPROVAL)"
proof -
  have w: "watched ''c'' demo_service ''w'' = Some (demo_row ''w'' 6 None)"
    by (simp add: watched_def demo_service_facts) (simp add: demo_row_def touches_node_def)
  have "\<exists>evs. watch_transfers [\<lambda>_. False, \<lambda>_. False] ''c'' False (\<lambda>_. False) [demo_service, demo_service] = Inr evs
    \<and> (\<forall>i t. watched ''c'' (last [demo_service, demo_service]) i = Some t \<longrightarrow>
         (\<exists>info. client_view evs Map.empty i = Some info \<and> ti_Status info = tr_Status t))"
    by (rule watch_mirrors_database) (simp_all add: demo_service_facts)
  then show ?thesis using w by (force simp: demo_row_def)
qed

end
