(* ===== verification/Discovery.thy ===== *)
theory Discovery
  imports Tables
begin

text \<open>
  The discovery service: the peers table of \<open>services/discovery/repository\<close>, the handlers of
  \<open>services/discovery/handler/handler.go\<close> and the signed announcement of
  \<open>pkg/crypto/ed25519.go\<close>. Base64 decoding and Ed25519 verification are parameters; byte
  strings are lists of characters. The loop over the map of known peers, in which departures
  are reported, runs in an order that is a parameter. The overlay's addresses are only logged.
\<close>

section \<open>Signed announcements\<close>

record signing =
  sg_decode :: "string \<Rightarrow> string option" \<comment> \<open>base64\<close>
  sg_verify :: "string \<Rightarrow> string \<Rightarrow> string \<Rightarrow> bool" \<comment> \<open>key, message, signature\<close>

text \<open>\<open>strings.Join\<close>.\<close>

fun join_with :: "string \<Rightarrow> string list \<Rightarrow> string" where
  "join_with sep [] = ''''"
| "join_with sep [s] = s"
| "join_with sep (s # t # ss) = s @ sep @ join_with sep (t # ss)"

definition newline :: char where
  "newline = CHR 0x0A"

definition announce_payload :: "node_id \<Rightarrow> string list \<Rightarrow> string \<Rightarrow> string" where
  "announce_payload nid addrs publicKey = join_with [newline] ([nid] @ addrs @ [publicKey])"

datatype announce_error = BadKeyEncoding | BadKeyLength nat | BadSignature

definition verify_announcement ::
  "signing \<Rightarrow> node_id \<Rightarrow> string list \<Rightarrow> string \<Rightarrow> string \<Rightarrow> announce_error option" where
  "verify_announcement sg nid addrs publicKey signature =
     (case sg_decode sg publicKey of
        None \<Rightarrow> Some BadKeyEncoding
      | Some pub \<Rightarrow>
          if length pub \<noteq> 32 then Some (BadKeyLength (length pub))
          else if \<not> sg_verify sg pub (announce_payload nid addrs publicKey) signature
          then Some BadSignature
          else None)"

section \<open>The peers table\<close>

record peer =
  pe_NodeID :: node_id
  pe_Addrs :: "string list"
  pe_PublicKey :: string
  pe_IsRelay :: bool
  pe_LastSeen :: time

definition upsert_peer_sql :: "time \<Rightarrow> node_id \<Rightarrow> string list \<Rightarrow> string \<Rightarrow> bool \<Rightarrow> peer list \<Rightarrow> peer list" where
  "upsert_peer_sql now nid addrs pk relay t =
     upsert pe_NodeID
       (\<lambda>old new. old\<lparr>pe_Addrs := pe_Addrs new, pe_PublicKey := pe_PublicKey new,
                     pe_IsRelay := pe_IsRelay new, pe_LastSeen := now\<rparr>)
       \<lparr>pe_NodeID = nid, pe_Addrs = addrs, pe_PublicKey = pk, pe_IsRelay = relay, pe_LastSeen = now\<rparr> t"

definition get_peer_sql :: "node_id \<Rightarrow> peer list \<Rightarrow> peer option" where
  "get_peer_sql nid t = row_at pe_NodeID nid t"

definition list_peers_sql :: "peer list \<Rightarrow> peer list" where
  "list_peers_sql t = sort_key (\<lambda>p. - pe_LastSeen p) t"

section \<open>The handlers\<close>

record announce_request =
  an_NodeId :: node_id
  an_Addrs :: "string list"
  an_PublicKey :: string
  an_Signature :: string

definition announce_node ::
  "signing \<Rightarrow> time \<Rightarrow> bool \<Rightarrow> announce_request \<Rightarrow> peer list \<Rightarrow> (bool \<times> time) result \<times> peer list" where
  "announce_node sg now failed req t =
     (if an_NodeId req = '''' \<or> length (an_Addrs req) = 0
      then (Inl (Status InvalidArgument ''node_id and addrs are required''), t)
      else if an_PublicKey req = '''' \<or> length (an_Signature req) = 0
      then (Inl (Status InvalidArgument ''public_key and signature are required''), t)
      else if verify_announcement sg (an_NodeId req) (an_Addrs req) (an_PublicKey req) (an_Signature req) \<noteq> None
      then (Inl (Status Unauthenticated ''invalid announcement signature''), t)
      else if failed then (Inl (Status Internal ''failed to store peer''), t)
      else (Inr (True, now),
            upsert_peer_sql now (an_NodeId req) (an_Addrs req) (an_PublicKey req) False t))"

text \<open>The loop of \<open>FindPeers\<close>.\<close>

fun collect_peers :: "node_id \<Rightarrow> int \<Rightarrow> peer list \<Rightarrow> peer list \<Rightarrow> peer list" where
  "collect_peers nid limit [] acc = acc"
| "collect_peers nid limit (p # ps) acc =
     (if pe_NodeID p = nid then collect_peers nid limit ps acc
      else
        let acc' = acc @ [p]
        in if int (length acc') \<ge> limit then acc' else collect_peers nid limit ps acc')"

definition find_peers :: "bool \<Rightarrow> node_id \<Rightarrow> int32 \<Rightarrow> peer list \<Rightarrow> peer list result" where
  "find_peers failed nid count t =
     (if nid = '''' then Inl (Status InvalidArgument ''node_id is required'')
      else case db_run failed (list_peers_sql t) of
             Inl e \<Rightarrow> Inl (Status Internal ''failed to fetch peers'')
           | Inr all \<Rightarrow>
               let limit = (if count \<le> 0 \<or> count > int (length all) then int (length all) else count)
               in Inr (collect_peers nid limit all []))"

definition get_node_info :: "bool \<Rightarrow> node_id \<Rightarrow> peer list \<Rightarrow> peer result" where
  "get_node_info failed nid t =
     (if nid = '''' then Inl (Status InvalidArgument ''node_id is required'')
      else case db_row failed (get_peer_sql nid t) of
             Inl NoRows \<Rightarrow> Inl (Status NotFound ''peer not found'')
           | Inl QueryFailed \<Rightarrow> Inl (Status Internal ''failed to fetch peer'')
           | Inr p \<Rightarrow> Inr p)"

datatype update_type = PEER_JOINED | PEER_UPDATED | PEER_LEFT

record peer_update =
  pu_Type :: update_type
  pu_Peer :: peer
  pu_Timestamp :: time

definition peer_equal :: "peer \<Rightarrow> peer \<Rightarrow> bool" where
  "peer_equal a b \<longleftrightarrow>
     length (pe_Addrs a) = length (pe_Addrs b)
     \<and> list_all2 (=) (pe_Addrs a) (pe_Addrs b)
     \<and> pe_PublicKey a = pe_PublicKey b \<and> pe_IsRelay a = pe_IsRelay b"

type_synonym known_peers = "node_id \<rightharpoonup> peer"

definition peer_change :: "time \<Rightarrow> known_peers \<Rightarrow> peer \<Rightarrow> peer_update list" where
  "peer_change now known p =
     (case known (pe_NodeID p) of
        None \<Rightarrow> [\<lparr>pu_Type = PEER_JOINED, pu_Peer = p, pu_Timestamp = now\<rparr>]
      | Some prev \<Rightarrow>
          if \<not> peer_equal prev p then [\<lparr>pu_Type = PEER_UPDATED, pu_Peer = p, pu_Timestamp = now\<rparr>] else [])"

text \<open>The loop over the rows; a failing send ends the stream.\<close>

fun peer_rows ::
  "time \<Rightarrow> node_id \<Rightarrow> (peer_update \<Rightarrow> bool) \<Rightarrow> known_peers \<Rightarrow> peer list \<Rightarrow> known_peers \<Rightarrow> peer_update list
     \<Rightarrow> peer_update list \<times> known_peers option" where
  "peer_rows now nid sendFails known [] current out = (out, Some current)"
| "peer_rows now nid sendFails known (p # ps) current out =
     (if pe_NodeID p = nid then peer_rows now nid sendFails known ps current out
      else
        let evs = peer_change now known p in
        if list_ex sendFails evs then (out, None)
        else peer_rows now nid sendFails known ps (current(pe_NodeID p \<mapsto> p)) (out @ evs))"

text \<open>Departures, over the known ids in the order \<open>ids\<close>; a failing send is ignored.\<close>

definition peer_departures ::
  "time \<Rightarrow> (peer_update \<Rightarrow> bool) \<Rightarrow> known_peers \<Rightarrow> known_peers \<Rightarrow> node_id list \<Rightarrow> peer_update list" where
  "peer_departures now sendFails known current ids =
     filter (\<lambda>e. \<not> sendFails e)
       (map (\<lambda>i. \<lparr>pu_Type = PEER_LEFT, pu_Peer = the (known i), pu_Timestamp = now\<rparr>)
         (filter (\<lambda>i. known i \<noteq> None \<and> current i = None) ids))"

definition peer_tick ::
  "time \<Rightarrow> bool \<Rightarrow> node_id \<Rightarrow> (peer_update \<Rightarrow> bool) \<Rightarrow> node_id list \<Rightarrow> known_peers \<Rightarrow> peer list
     \<Rightarrow> peer_update list \<times> known_peers option" where
  "peer_tick now failed nid sendFails ids known t =
     (case db_run failed (list_peers_sql t) of
        Inl e \<Rightarrow> ([], Some known)
      | Inr all \<Rightarrow>
          (case peer_rows now nid sendFails known all Map.empty [] of
             (out, None) \<Rightarrow> (out, None)
           | (out, Some current) \<Rightarrow>
               (out @ peer_departures now sendFails known current ids, Some current)))"

text \<open>What a tick of the stream sees: the time, whether its query fails, the order of the
  departures and the table.\<close>

type_synonym peer_tick_input = "time \<times> bool \<times> node_id list \<times> peer list"

fun peer_loop ::
  "node_id \<Rightarrow> (peer_update \<Rightarrow> bool) \<Rightarrow> known_peers \<Rightarrow> peer_tick_input list \<Rightarrow> peer_update list" where
  "peer_loop nid sendFails known [] = []"
| "peer_loop nid sendFails known ((now, failed, ids, t) # ticks) =
     (case peer_tick now failed nid sendFails ids known t of
        (out, None) \<Rightarrow> out
      | (out, Some known') \<Rightarrow> out @ peer_loop nid sendFails known' ticks)"

definition stream_peer_updates ::
  "node_id \<Rightarrow> (peer_update \<Rightarrow> bool) \<Rightarrow> peer_tick_input list \<Rightarrow> peer_update list result" where
  "stream_peer_updates nid sendFails ticks =
     (if nid = '''' then Inl (Status InvalidArgument ''node_id is required'')
      else Inr (peer_loop nid sendFails Map.empty ticks))"

section \<open>The table as a keyed store\<close>

definition peer_values :: "peer list \<Rightarrow> node_id \<Rightarrow> (string list \<times> string \<times> bool \<times> time) option" where
  "peer_values t n = map_option (\<lambda>p. (pe_Addrs p, pe_PublicKey p, pe_IsRelay p, pe_LastSeen p)) (get_peer_sql n t)"

definition put_peer :: "node_id \<Rightarrow> string list \<times> string \<times> bool \<times> time \<Rightarrow> peer list \<Rightarrow> peer list" where
  "put_peer n v t = (case v of (a, k, r, now) \<Rightarrow> upsert_peer_sql now n a k r t)"

definition peers_wf :: "peer list \<Rightarrow> bool" where
  "peers_wf t \<longleftrightarrow> distinct (map pe_NodeID t)"

interpretation peers: keyed_store peer_values put_peer peers_wf
proof unfold_locales
  fix t n n' and v :: "string list \<times> string \<times> bool \<times> time"
  obtain a k r w where v: "v = (a, k, r, w)" by (cases v)
  show "peer_values (put_peer n v t) n' = (if n' = n then Some v else peer_values t n')"
    by (auto simp: v peer_values_def put_peer_def upsert_peer_sql_def get_peer_sql_def row_at_upsert
        split: option.splits)
  assume "peers_wf t"
  then show "peers_wf (put_peer n v t)"
    by (auto simp: v peers_wf_def put_peer_def upsert_peer_sql_def intro!: distinct_upsert)
qed

end
