(* ===== verification/DiscoveryLaws.thy ===== *)
theory DiscoveryLaws
  imports Discovery
begin

text \<open>
  What the discovery service promises: the peers table holds the last accepted announcement of
  every node, a signature covers exactly the announced data as long as no part of it contains a
  newline, and the client of the update stream keeps a mirror of the table.
\<close>

section \<open>The table under announcements\<close>

text \<open>A call of \<open>AnnounceNode\<close>: the clock, whether the database refuses it, the request.\<close>

type_synonym announce_call = "time \<times> bool \<times> announce_request"

fun run_announce :: "signing \<Rightarrow> announce_call list \<Rightarrow> peer list \<Rightarrow> peer list" where
  "run_announce sg [] t = t"
| "run_announce sg ((now, failed, req) # calls) t =
     run_announce sg calls (snd (announce_node sg now failed req t))"

text \<open>The announcements that count, and the row each of them stands for.\<close>

fun signed_announcement :: "signing \<Rightarrow> announce_request \<Rightarrow> bool" where
  "signed_announcement sg req \<longleftrightarrow>
     an_NodeId req \<noteq> '''' \<and> an_Addrs req \<noteq> [] \<and> an_PublicKey req \<noteq> '''' \<and> an_Signature req \<noteq> ''''
     \<and> (\<exists>pub. sg_decode sg (an_PublicKey req) = Some pub \<and> length pub = 32
          \<and> sg_verify sg pub (announce_payload (an_NodeId req) (an_Addrs req) (an_PublicKey req))
                (an_Signature req))"

definition counts :: "signing \<Rightarrow> announce_call \<Rightarrow> bool" where
  "counts sg c \<longleftrightarrow> \<not> fst (snd c) \<and> signed_announcement sg (snd (snd c))"

definition announced_row :: "announce_call \<Rightarrow> peer" where
  "announced_row c = (case c of (now, failed, req) \<Rightarrow>
     \<lparr>pe_NodeID = an_NodeId req, pe_Addrs = an_Addrs req, pe_PublicKey = an_PublicKey req,
      pe_IsRelay = False, pe_LastSeen = now\<rparr>)"

lemma verify_announcement_None:
  "verify_announcement sg nid addrs pk s = None \<longleftrightarrow>
     (\<exists>pub. sg_decode sg pk = Some pub \<and> length pub = 32
        \<and> sg_verify sg pub (announce_payload nid addrs pk) s)"
  by (auto simp: verify_announcement_def split: option.splits)

lemma announce_node_table:
  "snd (announce_node sg now failed req t) =
     (if counts sg (now, failed, req)
      then upsert_peer_sql now (an_NodeId req) (an_Addrs req) (an_PublicKey req) False t else t)"
  by (simp add: announce_node_def counts_def verify_announcement_None)

lemma announce_node_accepts:
  "fst (announce_node sg now failed req t) = Inr r \<longleftrightarrow>
     counts sg (now, failed, req) \<and> r = (True, now)"
  by (auto simp: announce_node_def counts_def verify_announcement_None)

lemma get_upsert_peer:
  "get_peer_sql n (upsert_peer_sql now nid a k r t) =
     (if n = nid then Some \<lparr>pe_NodeID = nid, pe_Addrs = a, pe_PublicKey = k, pe_IsRelay = r, pe_LastSeen = now\<rparr>
      else get_peer_sql n t)"
  by (auto simp: upsert_peer_sql_def get_peer_sql_def row_at_upsert split: option.splits dest: row_at_key)

lemma peers_wf_announce: "peers_wf t \<Longrightarrow> peers_wf (snd (announce_node sg now failed req t))"
  by (auto simp: announce_node_table peers_wf_def upsert_peer_sql_def intro!: distinct_upsert)

lemma peers_wf_run: "peers_wf t \<Longrightarrow> peers_wf (run_announce sg calls t)"
  by (induction sg calls t rule: run_announce.induct) (simp_all add: peers_wf_announce)

lemma get_run_announce:
  "get_peer_sql n (run_announce sg calls t) =
     (let cs = filter (\<lambda>c. counts sg c \<and> an_NodeId (snd (snd c)) = n) calls
      in if cs = [] then get_peer_sql n t else Some (announced_row (last cs)))"
proof (induction sg calls t rule: run_announce.induct)
  case (2 sg now failed req calls t)
  then show ?case
    by (auto simp: Let_def announce_node_table get_upsert_peer announced_row_def)
qed simp

lemma announced_row_fields:
  "an_NodeId (snd (snd c)) = pe_NodeID (announced_row c)"
  "pe_Addrs (announced_row c) = an_Addrs (snd (snd c))"
  "pe_PublicKey (announced_row c) = an_PublicKey (snd (snd c))"
  by (cases c; simp add: announced_row_def)+

lemma stored_peer_call:
  assumes "p \<in> set (run_announce sg calls [])"
  shows "\<exists>c\<in>set calls. counts sg c \<and> p = announced_row c"
proof -
  have "peers_wf (run_announce sg calls [])" by (rule peers_wf_run) (simp add: peers_wf_def)
  then have "get_peer_sql (pe_NodeID p) (run_announce sg calls []) = Some p"
    using assms by (simp add: get_peer_sql_def peers_wf_def row_at_unique)
  moreover define cs where "cs = filter (\<lambda>c. counts sg c \<and> an_NodeId (snd (snd c)) = pe_NodeID p) calls"
  moreover have "get_peer_sql (pe_NodeID p) [] = None" by (simp add: get_peer_sql_def row_at_def)
  ultimately have cs: "cs \<noteq> []" "p = announced_row (last cs)"
    by (auto simp: get_run_announce Let_def split: if_splits)
  then have "last cs \<in> set cs" by simp
  then show ?thesis using cs(2) unfolding cs_def by auto
qed

section \<open>What a signature covers\<close>

definition newline_free :: "string \<Rightarrow> bool" where
  "newline_free s \<longleftrightarrow> newline \<notin> set s"

lemma newline_split:
  "newline \<notin> set s \<Longrightarrow> newline \<notin> set s' \<Longrightarrow> s @ newline # r = s' @ newline # r' \<longleftrightarrow> s = s' \<and> r = r'"
proof (induction s arbitrary: s')
  case Nil
  then show ?case by (cases s') auto
next
  case (Cons a s)
  then show ?case by (cases s') auto
qed

lemma join_with_Cons: "join_with sep (s # ss) = (if ss = [] then s else s @ sep @ join_with sep ss)"
  by (cases ss) auto

lemma join_newline_inject:
  assumes "list_all newline_free ss" "list_all newline_free ts" "ss \<noteq> []" "ts \<noteq> []"
    and "join_with [newline] ss = join_with [newline] ts"
  shows "ss = ts"
  using assms
proof (induction ss arbitrary: ts)
  case (Cons s ss)
  then obtain t ts' where ts: "ts = t # ts'" by (cases ts) auto
  have "newline \<notin> set s" "newline \<notin> set t" using Cons.prems ts by (auto simp: newline_free_def)
  then have "s = t \<and> (ss = [] \<longleftrightarrow> ts' = []) \<and> (ss \<noteq> [] \<longrightarrow> join_with [newline] ss = join_with [newline] ts')"
    using Cons.prems(5) newline_split [of s t] by (auto simp: ts join_with_Cons split: if_splits)
  then show ?case using Cons.IH [of ts'] Cons.prems ts by (cases "ss = []") auto
qed simp

lemma announce_payload_inject:
  assumes "list_all newline_free (nid # pk # addrs)" "list_all newline_free (nid' # pk' # addrs')"
    and "announce_payload nid addrs pk = announce_payload nid' addrs' pk'"
  shows "nid = nid' \<and> addrs = addrs' \<and> pk = pk'"
  using join_newline_inject [of "[nid] @ addrs @ [pk]" "[nid'] @ addrs' @ [pk']"] assms
  by (simp add: announce_payload_def)

text \<open>With a newline in the node id the same signed bytes are read as another announcement.\<close>

lemma payload_resplit:
  "announce_payload nid (a # addrs) pk = announce_payload (nid @ [newline] @ a) addrs pk"
  by (simp add: announce_payload_def join_with_Cons)

text \<open>The peers table holds, for every node, exactly what its last accepted announcement
  said; an announcement is accepted only with a signature that its own key verifies. Refused
  announcements and failed queries leave no trace, and no node has two rows.\<close>

theorem peers_hold_last_announcement:
  "get_peer_sql n (run_announce sg calls []) =
     (let cs = filter (\<lambda>c. counts sg c \<and> an_NodeId (snd (snd c)) = n) calls
      in if cs = [] then None else Some (announced_row (last cs)))
   \<and> distinct (map pe_NodeID (run_announce sg calls []))"
  using peers_wf_run [of "[]" sg calls]
  by (simp add: get_run_announce Let_def) (simp add: peers_wf_def get_peer_sql_def row_at_def)

text \<open>C31: Stored peers are authentic: if signatures cannot be forged and the holder of a key
  signs only its own announcements, then a stored row with that key, whose texts have no
  newline, is one of the announcements the holder made.\<close>

theorem stored_peers_authentic:
  assumes "p \<in> set (run_announce sg calls [])" "sg_decode sg (pe_PublicKey p) = Some pub"
    and "\<And>m s. sg_verify sg pub m s \<Longrightarrow> m \<in> endorsed"
    and "\<And>m. m \<in> endorsed \<Longrightarrow> \<exists>(nid, addrs)\<in>made. m = announce_payload nid addrs (pe_PublicKey p)
             \<and> list_all newline_free (nid # addrs)"
    and "list_all newline_free (pe_NodeID p # pe_PublicKey p # pe_Addrs p)"
  shows "(pe_NodeID p, pe_Addrs p) \<in> made"
proof -
  obtain c where c: "counts sg c" "p = announced_row c" using stored_peer_call [OF assms(1)] by auto
  then obtain s where "sg_verify sg pub (announce_payload (pe_NodeID p) (pe_Addrs p) (pe_PublicKey p)) s"
    using assms(2) by (cases c) (auto simp: counts_def announced_row_def)
  then have "announce_payload (pe_NodeID p) (pe_Addrs p) (pe_PublicKey p) \<in> endorsed" by (rule assms(3))
  from assms(4) [OF this] obtain nid addrs where
    m: "(nid, addrs) \<in> made" "list_all newline_free (nid # addrs)"
    "announce_payload (pe_NodeID p) (pe_Addrs p) (pe_PublicKey p) = announce_payload nid addrs (pe_PublicKey p)"
    by (elim bexE) (simp split: prod.splits)
  then show ?thesis using announce_payload_inject [OF assms(5) _ m(3)] assms(5) by simp
qed

section \<open>The client of the update stream\<close>

definition apply_update :: "known_peers \<Rightarrow> peer_update \<Rightarrow> known_peers" where
  "apply_update view e =
     (if pu_Type e = PEER_LEFT then view(pe_NodeID (pu_Peer e) := None)
      else view(pe_NodeID (pu_Peer e) \<mapsto> pu_Peer e))"

definition peer_view :: "known_peers \<Rightarrow> peer_update list \<Rightarrow> known_peers" where
  "peer_view view evs = foldl apply_update view evs"

text \<open>The rows a stream of node \<open>nid\<close> shows.\<close>

definition others :: "node_id \<Rightarrow> peer list \<Rightarrow> peer list" where
  "others nid t = filter (\<lambda>p. pe_NodeID p \<noteq> nid) t"

definition by_id :: "peer list \<Rightarrow> known_peers" where
  "by_id t = map_of (map (\<lambda>p. (pe_NodeID p, p)) t)"

text \<open>Two records say the same when they differ at most in \<open>LastSeen\<close>.\<close>

definition same_peer :: "peer \<Rightarrow> peer \<Rightarrow> bool" where
  "same_peer a b \<longleftrightarrow> pe_NodeID a = pe_NodeID b \<and> peer_equal a b"

definition agree :: "known_peers \<Rightarrow> known_peers \<Rightarrow> bool" where
  "agree known view \<longleftrightarrow> (\<forall>i. rel_option same_peer (known i) (view i))"

lemma peer_equal_iff:
  "peer_equal a b \<longleftrightarrow>
     pe_Addrs a = pe_Addrs b \<and> pe_PublicKey a = pe_PublicKey b \<and> pe_IsRelay a = pe_IsRelay b"
  by (auto simp: peer_equal_def list.rel_eq)

lemma peer_view_append: "peer_view view (xs @ ys) = peer_view (peer_view view xs) ys"
  by (simp add: peer_view_def)

lemma by_id_key: "by_id t i = Some p \<Longrightarrow> pe_NodeID p = i"
  by (auto simp: by_id_def dest!: map_of_SomeD)

lemma by_id_get: "by_id t i = get_peer_sql i t"
  by (induction t) (auto simp: by_id_def get_peer_sql_def row_at_def)

lemma peer_rows_all:
  "peer_rows now nid (\<lambda>_. False) known ps current out =
     (out @ concat (map (peer_change now known) (others nid ps)),
      Some (current ++ map_of (rev (map (\<lambda>p. (pe_NodeID p, p)) (others nid ps)))))"
  by (induction ps arbitrary: current out) (simp_all add: others_def Let_def list_ex_iff)

lemma view_changes:
  assumes "distinct (map pe_NodeID ps)"
  shows "peer_view view (concat (map (peer_change now known) ps)) i =
     (case by_id ps i of
        Some p \<Rightarrow> if peer_change now known p = [] then view i else Some p
      | None \<Rightarrow> view i)"
  using assms
proof (induction ps arbitrary: view)
  case Nil
  then show ?case by (simp add: peer_view_def by_id_def)
next
  case (Cons p ps)
  have one: "peer_view view (peer_change now known p) i =
      (if i = pe_NodeID p \<and> peer_change now known p \<noteq> [] then Some p else view i)"
    by (auto simp: peer_view_def peer_change_def apply_update_def split: option.splits)
  have "by_id ps (pe_NodeID p) = None"
    using Cons.prems by (auto simp: by_id_def map_of_eq_None_iff)
  then show ?case
    using Cons one by (auto simp: peer_view_append by_id_def split: option.splits)
qed

lemma view_departures:
  assumes "\<And>i p. known i = Some p \<Longrightarrow> pe_NodeID p = i"
  shows "peer_view view (peer_departures now (\<lambda>_. False) known current ids) i =
     (if i \<in> set ids \<and> known i \<noteq> None \<and> current i = None then None else view i)"
proof (induction ids arbitrary: view)
  case Nil
  then show ?case by (simp add: peer_view_def peer_departures_def)
next
  case (Cons j ids)
  show ?case
  proof (cases "known j \<noteq> None \<and> current j = None")
    case True
    then have "pe_NodeID (the (known j)) = j" using assms by auto
    then have "peer_view view (peer_departures now (\<lambda>_. False) known current (j # ids)) i
        = peer_view (view(j := None)) (peer_departures now (\<lambda>_. False) known current ids) i"
      using True by (simp add: peer_departures_def peer_view_def apply_update_def)
    then show ?thesis using Cons True by auto
  next
    case False
    then have "peer_departures now (\<lambda>_. False) known current (j # ids)
        = peer_departures now (\<lambda>_. False) known current ids"
      by (auto simp: peer_departures_def)
    then show ?thesis using Cons False by auto
  qed
qed

definition keyed :: "known_peers \<Rightarrow> bool" where
  "keyed known \<longleftrightarrow> (\<forall>i p. known i = Some p \<longrightarrow> pe_NodeID p = i)"

lemma keyed_by_id [simp]: "keyed (by_id t)"
  by (simp add: keyed_def by_id_key)

lemma by_id_same_rows:
  assumes "distinct (map pe_NodeID xs)" "distinct (map pe_NodeID ys)" "set xs = set ys"
  shows "by_id xs = by_id ys"
  unfolding by_id_def
  by (rule map_of_inject_set [THEN iffD2]) (use assms in \<open>simp_all add: comp_def\<close>)

lemma others_sorted:
  assumes "peers_wf t"
  shows "distinct (map pe_NodeID (others nid (list_peers_sql t)))"
    and "by_id (others nid (list_peers_sql t)) = by_id (others nid t)"
proof -
  have t: "distinct (map pe_NodeID (others nid t))"
    using assms by (auto simp: others_def peers_wf_def distinct_map_filter)
  have s: "inj_on pe_NodeID (set t)" "distinct t" using assms by (auto simp: peers_wf_def distinct_map)
  then show d: "distinct (map pe_NodeID (others nid (list_peers_sql t)))"
    by (auto simp: others_def list_peers_sql_def distinct_map intro: inj_on_subset)
  show "by_id (others nid (list_peers_sql t)) = by_id (others nid t)"
    by (rule by_id_same_rows [OF d t]) (auto simp: others_def list_peers_sql_def)
qed

lemma map_of_rev_by_id:
  assumes "distinct (map pe_NodeID ps)"
  shows "map_of (rev (map (\<lambda>p. (pe_NodeID p, p)) ps)) = by_id ps"
  unfolding by_id_def
  by (rule map_of_inject_set [THEN iffD2]) (use assms in \<open>simp_all add: comp_def rev_map [symmetric]\<close>)

lemma peer_tick_mirrors:
  assumes "agree known view" "keyed known" "peers_wf t" "dom known \<subseteq> set ids"
  shows "\<exists>evs. peer_tick now False nid (\<lambda>_. False) ids known t = (evs, Some (by_id (others nid t)))
    \<and> agree (by_id (others nid t)) (peer_view view evs)"
proof -
  let ?ps = "others nid (list_peers_sql t)"
  let ?c = "concat (map (peer_change now known) ?ps)"
  let ?d = "peer_departures now (\<lambda>_. False) known (by_id (others nid t)) ids"
  have k: "\<And>i p. known i = Some p \<Longrightarrow> pe_NodeID p = i" using assms(2) by (simp add: keyed_def)
  have tick: "peer_tick now False nid (\<lambda>_. False) ids known t = (?c @ ?d, Some (by_id (others nid t)))"
    using others_sorted [OF assms(3), of nid] by (simp add: peer_tick_def peer_rows_all map_of_rev_by_id)
  have "rel_option same_peer (by_id (others nid t) i) (peer_view view (?c @ ?d) i)" for i
  proof -
    have v: "peer_view view ?c i = (case by_id (others nid t) i of
        Some p \<Rightarrow> if peer_change now known p = [] then view i else Some p | None \<Rightarrow> view i)"
      by (simp add: view_changes [OF others_sorted(1) [OF assms(3)]] others_sorted(2) [OF assms(3)])
    have a: "rel_option same_peer (known i) (view i)" using assms(1) by (simp add: agree_def)
    show ?thesis
    proof (cases "by_id (others nid t) i")
      case None
      then show ?thesis
        using a v assms(4) by (cases "known i") (auto simp: peer_view_append view_departures [OF k])
    next
      case (Some p)
      have "pe_NodeID p = i" using Some by (rule by_id_key)
      then have "peer_view view ?c i = (if peer_change now known p = [] then view i else Some p)"
        "peer_change now known p = [] \<longleftrightarrow> (\<exists>q. known i = Some q \<and> peer_equal q p)"
        using Some v by (auto simp: peer_change_def split: option.splits)
      then show ?thesis
        using Some a k \<open>pe_NodeID p = i\<close> by (auto simp: peer_view_append view_departures [OF k] same_peer_def peer_equal_iff
            split: if_splits elim!: option.rel_cases)
    qed
  qed
  then show ?thesis using tick by (simp add: agree_def)
qed

lemma by_id_others: "by_id (others nid t) i = (if i = nid then None else get_peer_sql i t)"
  by (induction t) (auto simp: by_id_def others_def get_peer_sql_def row_at_def)

lemma dom_by_id: "dom (by_id t) = pe_NodeID ` set t"
  by (simp add: by_id_def dom_map_of_conv_image_fst image_image)

text \<open>Ticks over well-formed tables, whose departure orders reach every id the tables mention.\<close>

definition ticks_ok :: "node_id set \<Rightarrow> peer_tick_input list \<Rightarrow> bool" where
  "ticks_ok seen ticks \<longleftrightarrow>
     (\<forall>(now, failed, ids, t)\<in>set ticks. peers_wf t \<and> pe_NodeID ` set t \<subseteq> seen \<and> seen \<subseteq> set ids)"

lemma peer_loop_mirrors:
  assumes "ticks_ok seen ticks" "agree known view" "keyed known" "dom known \<subseteq> seen"
  shows "\<exists>known'. agree known' (peer_view view (peer_loop nid (\<lambda>_. False) known ticks))
    \<and> (\<forall>now ids t. ticks \<noteq> [] \<and> last ticks = (now, False, ids, t) \<longrightarrow> known' = by_id (others nid t))"
  using assms
proof (induction ticks arbitrary: known view)
  case Nil
  then show ?case by (auto simp: peer_view_def)
next
  case (Cons tick ticks)
  obtain now failed ids t where tick: "tick = (now, failed, ids, t)" by (cases tick)
  have ok: "ticks_ok seen ticks" "peers_wf t" "dom known \<subseteq> set ids" "pe_NodeID ` set t \<subseteq> seen"
    using Cons.prems by (auto simp: ticks_ok_def tick)
  show ?case
  proof (cases failed)
    case True
    then have "peer_loop nid (\<lambda>_. False) known (tick # ticks) = peer_loop nid (\<lambda>_. False) known ticks"
      by (simp add: tick peer_tick_def)
    then show ?thesis
      using Cons.IH [OF ok(1) Cons.prems(2-4)] True by (cases "ticks = []") (auto simp: tick)
  next
    case False
    then obtain evs where evs: "peer_tick now failed nid (\<lambda>_. False) ids known t = (evs, Some (by_id (others nid t)))"
      "agree (by_id (others nid t)) (peer_view view evs)"
      using peer_tick_mirrors [OF Cons.prems(2,3) ok(2,3)] by auto
    have "dom (by_id (others nid t)) \<subseteq> seen" using ok(4) by (auto simp: dom_by_id others_def)
    from Cons.IH [OF ok(1) evs(2) keyed_by_id this] show ?thesis
      using evs by (cases "ticks = []") (auto simp: tick peer_view_append peer_view_def)
  qed
qed

text \<open>The update stream is a mirror of the peers table: a client that applies the updates
  knows, after any number of ticks of which the last reads the table, exactly the other nodes
  in it, with their current addresses, key and relay flag; nodes that left are gone.\<close>

theorem stream_mirrors_peers:
  assumes "nid \<noteq> ''''" "ticks_ok seen ticks" "ticks \<noteq> []" "last ticks = (now, False, ids, t)"
  shows "\<exists>evs. stream_peer_updates nid (\<lambda>_. False) ticks = Inr evs
    \<and> (\<forall>i. rel_option same_peer (if i = nid then None else get_peer_sql i t) (peer_view Map.empty evs i))"
proof -
  have "agree Map.empty Map.empty" "keyed Map.empty" by (simp_all add: agree_def keyed_def)
  from peer_loop_mirrors [OF assms(2) this, of nid] show ?thesis
    using assms by (auto simp: stream_peer_updates_def agree_def by_id_others)
qed

section \<open>What a node learns of the others\<close>

lemma collect_peers_take:
  assumes "int (length acc) < limit"
  shows "collect_peers nid limit ps acc = acc @ take (nat limit - length acc) (others nid ps)"
  using assms
proof (induction ps arbitrary: acc)
  case (Cons p ps)
  show ?case
  proof (cases "pe_NodeID p = nid \<or> int (length acc) + 1 < limit")
    case True
    then show ?thesis
      using Cons.IH [of acc] Cons.IH [of "acc @ [p]"] Cons.prems
      by (auto simp: others_def Let_def Suc_diff_Suc take_Cons')
  next
    case False
    then have "nat limit = Suc (length acc)" using Cons.prems by linarith
    then show ?thesis using False by (simp add: others_def Let_def)
  qed
qed (simp add: others_def)

lemma find_peers_take:
  assumes "nid \<noteq> ''''"
  shows "find_peers False nid count t =
     Inr (take (if count \<le> 0 then length t else nat count) (others nid (list_peers_sql t)))"
proof (cases "t = []")
  case True
  then show ?thesis using assms by (simp add: find_peers_def list_peers_sql_def others_def)
next
  case False
  have l: "length (list_peers_sql t) = length t" by (simp add: list_peers_sql_def)
  have le: "length (others nid (list_peers_sql t)) \<le> length t"
    using length_filter_le [of _ "list_peers_sql t"] by (simp add: others_def l)
  have "find_peers False nid count t =
     Inr (take (nat (if count \<le> 0 \<or> count > int (length t) then int (length t) else count))
            (others nid (list_peers_sql t)))"
    using assms False by (simp add: find_peers_def l Let_def collect_peers_take)
  then show ?thesis using le by (auto simp: nat_le_iff)
qed

text \<open>FindPeers answers with the most recently seen other nodes, newest first, as many as
  were asked for (all of them when no positive count is given).\<close>

theorem find_peers_most_recent:
  assumes "nid \<noteq> ''''"
  shows "find_peers False nid count t =
     Inr (take (if count \<le> 0 then length t else nat count) (others nid (list_peers_sql t)))"
  using assms by (rule find_peers_take)

text \<open>Instances: one key that signed one announcement.\<close>

definition demo_key :: string where
  "demo_key = replicate 32 (CHR ''k'')"

definition demo_signing :: signing where
  "demo_signing =
     \<lparr>sg_decode = Some,
      sg_verify = \<lambda>pub m s. m = announce_payload ''n'' [''a''] demo_key \<and> s = ''s''\<rparr>"

definition demo_peer :: "node_id \<Rightarrow> time \<Rightarrow> peer" where
  "demo_peer n now =
     \<lparr>pe_NodeID = n, pe_Addrs = [''a''], pe_PublicKey = demo_key, pe_IsRelay = False, pe_LastSeen = now\<rparr>"

lemma demo_announced:
  "run_announce demo_signing
     [(7, False, \<lparr>an_NodeId = ''n'', an_Addrs = [''a''], an_PublicKey = demo_key, an_Signature = ''s''\<rparr>)] []
   = [demo_peer ''n'' 7]"
  by (simp add: announce_node_def verify_announcement_def demo_signing_def demo_key_def demo_peer_def
      upsert_peer_sql_def upsert_def)

theorem stored_peers_authentic_witness:
  "(pe_NodeID (demo_peer ''n'' 7), pe_Addrs (demo_peer ''n'' 7)) \<in> {(''n'', [''a''])}"
proof (rule stored_peers_authentic [where sg = demo_signing and pub = demo_key
        and endorsed = "{announce_payload ''n'' [''a''] demo_key}"])
  show "demo_peer ''n'' 7 \<in> set (run_announce demo_signing
       [(7, False, \<lparr>an_NodeId = ''n'', an_Addrs = [''a''], an_PublicKey = demo_key, an_Signature = ''s''\<rparr>)] [])"
    unfolding demo_announced by simp
qed (auto simp: demo_signing_def demo_peer_def newline_free_def newline_def demo_key_def)

theorem stream_mirrors_peers_witness:
  "\<exists>evs. stream_peer_updates ''me'' (\<lambda>_. False)
       [(1, False, [''n'', ''m''], [demo_peer ''n'' 0]), (2, False, [''n'', ''m''], [demo_peer ''m'' 1])] = Inr evs
     \<and> peer_view Map.empty evs ''n'' = None \<and> peer_view Map.empty evs ''m'' \<noteq> None"
proof -
  let ?ticks = "[(1, False, [''n'', ''m''], [demo_peer ''n'' 0]), (2, False, [''n'', ''m''], [demo_peer ''m'' 1])]
    :: peer_tick_input list"
  have "ticks_ok {''n'', ''m''} ?ticks" by (simp add: ticks_ok_def peers_wf_def demo_peer_def)
  then obtain evs where e: "stream_peer_updates ''me'' (\<lambda>_. False) ?ticks = Inr evs"
    "\<forall>i. rel_option same_peer (if i = ''me'' then None else get_peer_sql i [demo_peer ''m'' 1])
          (peer_view Map.empty evs i)"
    using stream_mirrors_peers [of "''me''" "{''n'', ''m''}" ?ticks 2 "[''n'', ''m'']" "[demo_peer ''m'' 1]"] by auto
  have "rel_option same_peer None (peer_view Map.empty evs ''n'')"
    "rel_option same_peer (Some (demo_peer ''m'' 1)) (peer_view Map.empty evs ''m'')"
    using e(2) [rule_format, of "''n''"] e(2) [rule_format, of "''m''"]
    by (simp_all add: get_peer_sql_def row_at_def demo_peer_def)
  then show ?thesis using e(1) by (cases "peer_view Map.empty evs ''m''") auto
qed

theorem find_peers_most_recent_witness:
  "find_peers False ''me'' 1 [demo_peer ''me'' 5, demo_peer ''n'' 3, demo_peer ''m'' 9] = Inr [demo_peer ''m'' 9]"
  by (subst find_peers_most_recent) (simp_all add: list_peers_sql_def others_def demo_peer_def)

end
