(* ===== verification/Auth.thy ===== *)
theory Auth
  imports Prelude
begin

text \<open>
  Authentication: the token manager, the blacklist and the pairing codes of \<open>internal/auth\<close>
  and the interceptors of \<open>pkg/middleware/auth.go\<close>. The JWT library and Redis are parameters;
  what the code relies on is stated in \<open>jwt_laws\<close> and \<open>redis_laws\<close>. The random code is an
  argument. The JSON of a pairing is kept as the record it encodes.
\<close>

section \<open>Tokens\<close>

record claims =
  cl_Subject :: string
  cl_Email :: string
  cl_IssuedAt :: time
  cl_ExpiresAt :: time

text \<open>The library: signing with HS256, and parsing at a time with the key that a key function
  gives for the signing method (\<open>True\<close> for HMAC). Parsing checks the signature and the expiry.\<close>

record jwt_lib =
  jw_sign :: "string \<Rightarrow> claims \<Rightarrow> string option"
  jw_parse :: "time \<Rightarrow> (bool \<Rightarrow> string option) \<Rightarrow> string \<Rightarrow> claims option"

definition hmac_key :: "string \<Rightarrow> bool \<Rightarrow> string option" where
  "hmac_key secret isHMAC = (if \<not> isHMAC then None else Some secret)"

definition jwt_laws :: "jwt_lib \<Rightarrow> string \<Rightarrow> bool" where
  "jwt_laws lib secret \<longleftrightarrow>
     (\<forall>c t. jw_sign lib secret c = Some t \<longrightarrow>
        (\<forall>now. jw_parse lib now (hmac_key secret) t = (if now < cl_ExpiresAt c then Some c else None)))
     \<and> (\<forall>now now' t c. jw_parse lib now (hmac_key secret) t = Some c \<longrightarrow>
          now < cl_ExpiresAt c
          \<and> (now' < cl_ExpiresAt c \<longrightarrow> jw_parse lib now' (hmac_key secret) t = Some c)
          \<and> (cl_ExpiresAt c \<le> now' \<longrightarrow> jw_parse lib now' (hmac_key secret) t = None))"

record token_pair =
  tp_AccessToken :: string
  tp_RefreshToken :: string
  tp_ExpiresIn :: int64

record jwt_manager =
  jm_secret :: string
  jm_accessExpiry :: time
  jm_refreshExpiry :: time

definition new_manager :: "string \<Rightarrow> time \<Rightarrow> time \<Rightarrow> jwt_manager option" where
  "new_manager secret accessExpiry refreshExpiry =
     (if length secret < 32 then None
      else Some \<lparr>jm_secret = secret, jm_accessExpiry = accessExpiry, jm_refreshExpiry = refreshExpiry\<rparr>)"

text \<open>\<open>jwt.NewNumericDate\<close> cuts to whole seconds.\<close>

definition numeric_date :: "time \<Rightarrow> time" where
  "numeric_date t = t - t mod second"

definition sign_token :: "jwt_lib \<Rightarrow> jwt_manager \<Rightarrow> time \<Rightarrow> string \<Rightarrow> string \<Rightarrow> time \<Rightarrow> string option" where
  "sign_token lib m now userID email expiry =
     jw_sign lib (jm_secret m)
       \<lparr>cl_Subject = userID, cl_Email = email, cl_IssuedAt = numeric_date now,
        cl_ExpiresAt = numeric_date (now + expiry)\<rparr>"

definition issue :: "jwt_lib \<Rightarrow> jwt_manager \<Rightarrow> time \<Rightarrow> string \<Rightarrow> string \<Rightarrow> token_pair option" where
  "issue lib m now userID email =
     (case sign_token lib m now userID email (jm_accessExpiry m) of
        None \<Rightarrow> None
      | Some access \<Rightarrow>
          (case sign_token lib m now userID email (jm_refreshExpiry m) of
             None \<Rightarrow> None
           | Some refresh \<Rightarrow>
               Some \<lparr>tp_AccessToken = access, tp_RefreshToken = refresh,
                     tp_ExpiresIn = jm_accessExpiry m sdiv second\<rparr>))"

definition validate :: "jwt_lib \<Rightarrow> jwt_manager \<Rightarrow> time \<Rightarrow> string \<Rightarrow> claims option" where
  "validate lib m now tokenStr = jw_parse lib now (hmac_key (jm_secret m)) tokenStr"

section \<open>Redis\<close>

datatype redis_value = Marker | PairingData (pd_UserID: string) (pd_DeviceID: string)

datatype redis_error = RedisNil | RedisFailed

text \<open>The three commands the code sends: \<open>SET\<close> with an expiry, \<open>EXISTS\<close>, \<open>GETDEL\<close>.\<close>

record 'r redis =
  rd_set :: "time \<Rightarrow> string \<Rightarrow> redis_value \<Rightarrow> time \<Rightarrow> 'r \<Rightarrow> bool \<times> 'r"
  rd_exists :: "time \<Rightarrow> string \<Rightarrow> 'r \<Rightarrow> bool option"
  rd_getdel :: "time \<Rightarrow> string \<Rightarrow> 'r \<Rightarrow> (redis_error + redis_value) \<times> 'r"

text \<open>What a client may rely on, in terms of what a key holds at a time: a successful \<open>SET\<close>
  keeps its value until the expiry and touches no other key, one that fails has had its
  effect or none; \<open>EXISTS\<close> tells whether the key holds something; \<open>GETDEL\<close> returns what the key
  holds and empties it, and when it fails it may have emptied that key.\<close>

definition redis_laws :: "'r redis \<Rightarrow> ('r \<Rightarrow> time \<Rightarrow> string \<Rightarrow> redis_value option) \<Rightarrow> bool" where
  "redis_laws rd holds \<longleftrightarrow>
     (\<forall>s now k v ttl ok s'. rd_set rd now k v ttl s = (ok, s') \<longrightarrow>
        (\<forall>t k'. k' \<noteq> k \<longrightarrow> holds s' t k' = holds s t k')
        \<and> (0 < ttl \<longrightarrow> (\<forall>t. holds s' t k =
              (if ok \<or> s' \<noteq> s then (if t < now + ttl then Some v else None) else holds s t k))))
     \<and> (\<forall>s now k b. rd_exists rd now k s = Some b \<longrightarrow> (b \<longleftrightarrow> holds s now k \<noteq> None))
     \<and> (\<forall>s now k r s'. rd_getdel rd now k s = (r, s') \<longrightarrow>
        (case r of
           Inr v \<Rightarrow> holds s now k = Some v \<and> (\<forall>t. holds s' t k = None)
         | Inl RedisNil \<Rightarrow> holds s now k = None
         | Inl RedisFailed \<Rightarrow> True)
        \<and> (\<forall>t k'. k' \<noteq> k \<longrightarrow> holds s' t k' = holds s t k')
        \<and> (\<forall>t v. holds s' t k = Some v \<longrightarrow> holds s t k = Some v))"

lemma redis_laws_set:
  assumes "redis_laws rd holds" "rd_set rd now k v ttl s = (ok, s')"
  shows "(\<forall>t k'. k' \<noteq> k \<longrightarrow> holds s' t k' = holds s t k')
    \<and> (0 < ttl \<longrightarrow> (\<forall>t. holds s' t k =
         (if ok \<or> s' \<noteq> s then (if t < now + ttl then Some v else None) else holds s t k)))"
  using assms(1) [unfolded redis_laws_def, THEN conjunct1, rule_format (no_asm), OF assms(2)] by (simp only: simp_thms)

lemma redis_set_other:
  assumes "redis_laws rd holds" "rd_set rd now k v ttl s = (ok, s')" "k' \<noteq> k"
  shows "holds s' t k' = holds s t k'"
  using redis_laws_set [OF assms(1,2), THEN conjunct1] assms(3) by simp

lemma redis_set_key:
  assumes "redis_laws rd holds" "rd_set rd now k v ttl s = (ok, s')" "0 < ttl"
  shows "holds s' t k = (if ok \<or> s' \<noteq> s then (if t < now + ttl then Some v else None) else holds s t k)"
  using redis_laws_set [OF assms(1,2), THEN conjunct2, THEN mp, OF assms(3)] by (rule spec)

lemma redis_exists:
  assumes "redis_laws rd holds" "rd_exists rd now k s = Some b"
  shows "b \<longleftrightarrow> holds s now k \<noteq> None"
  using assms(1) [unfolded redis_laws_def, THEN conjunct2, THEN conjunct1] assms(2) by simp

lemma redis_laws_getdel:
  assumes "redis_laws rd holds" "rd_getdel rd now k s = (r, s')"
  shows "(case r of Inr v \<Rightarrow> holds s now k = Some v \<and> (\<forall>t. holds s' t k = None)
      | Inl RedisNil \<Rightarrow> holds s now k = None | Inl RedisFailed \<Rightarrow> True)
    \<and> (\<forall>t k'. k' \<noteq> k \<longrightarrow> holds s' t k' = holds s t k')
    \<and> (\<forall>t v. holds s' t k = Some v \<longrightarrow> holds s t k = Some v)"
  by (rule assms(1) [unfolded redis_laws_def, THEN conjunct2, THEN conjunct2, THEN spec, THEN spec, THEN spec,
        THEN spec, THEN spec, THEN mp, OF assms(2)])

lemma redis_getdel_other:
  assumes "redis_laws rd holds" "rd_getdel rd now k s = (r, s')" "k' \<noteq> k"
  shows "holds s' t k' = holds s t k'"
  using redis_laws_getdel [OF assms(1,2), THEN conjunct2, THEN conjunct1] assms(3) by simp

lemma redis_getdel_value:
  assumes "redis_laws rd holds" "rd_getdel rd now k s = (Inr v, s')"
  shows "holds s now k = Some v" "holds s' t k = None"
  using redis_laws_getdel [OF assms, THEN conjunct1] by simp_all

lemma redis_getdel_keeps_none:
  assumes "redis_laws rd holds" "rd_getdel rd now k s = (r, s')" "holds s t k = None"
  shows "holds s' t k = None"
proof (cases "holds s' t k")
  case (Some v)
  then have "holds s t k = Some v"
    using redis_laws_getdel [OF assms(1,2), THEN conjunct2, THEN conjunct2] by simp
  then show ?thesis using assms(3) by simp
qed

section \<open>The blacklist\<close>

definition blacklist_key :: "string \<Rightarrow> string" where
  "blacklist_key token = ''token:blacklist:'' @ token"

definition blacklist_add :: "'r redis \<Rightarrow> time \<Rightarrow> string \<Rightarrow> time \<Rightarrow> 'r \<Rightarrow> bool \<times> 'r" where
  "blacklist_add rd now token expiry s = rd_set rd now (blacklist_key token) Marker expiry s"

text \<open>The answer and whether there was an error; the answer is \<open>false\<close> then.\<close>

definition is_blacklisted :: "'r redis \<Rightarrow> time \<Rightarrow> string \<Rightarrow> 'r \<Rightarrow> bool \<times> bool" where
  "is_blacklisted rd now token s =
     (case rd_exists rd now (blacklist_key token) s of
        None \<Rightarrow> (False, True)
      | Some b \<Rightarrow> (b, False))"

section \<open>Pairing codes\<close>

definition pairing_key :: "string \<Rightarrow> string" where
  "pairing_key code = ''pairing:'' @ code"

definition pairing_ttl :: time where
  "pairing_ttl = 5 * minute"

definition code_chars :: string where
  "code_chars = ''ABCDEFGHJKLMNPQRSTUVWXYZ23456789''"

text \<open>The code for six random indices.\<close>

definition random_code :: "nat list \<Rightarrow> string" where
  "random_code ns = map (\<lambda>n. code_chars ! n) ns"

definition generate_code ::
  "'r redis \<Rightarrow> time \<Rightarrow> nat list \<Rightarrow> string \<Rightarrow> string \<Rightarrow> 'r \<Rightarrow> string option \<times> 'r" where
  "generate_code rd now ns userID deviceID s =
     (let code = random_code ns;
          (ok, s') = rd_set rd now (pairing_key code) (PairingData userID deviceID) pairing_ttl s
      in (if ok then Some code else None, s'))"

datatype pairing_error = InvalidCode | RedeemFailed | BadPairingData

definition redeem_code ::
  "'r redis \<Rightarrow> time \<Rightarrow> string \<Rightarrow> 'r \<Rightarrow> (pairing_error + (string \<times> string)) \<times> 'r" where
  "redeem_code rd now code s =
     (case rd_getdel rd now (pairing_key code) s of
        (Inl RedisNil, s') \<Rightarrow> (Inl InvalidCode, s')
      | (Inl RedisFailed, s') \<Rightarrow> (Inl RedeemFailed, s')
      | (Inr Marker, s') \<Rightarrow> (Inl BadPairingData, s')
      | (Inr (PairingData u d), s') \<Rightarrow> (Inr (u, d), s'))"

section \<open>The interceptors\<close>

record auth_ctx =
  ac_user :: "string option"
  ac_email :: "string option"

definition public_methods :: "string set" where
  "public_methods =
     {''/identity.v1.IdentityService/Register'', ''/identity.v1.IdentityService/Login'',
      ''/identity.v1.IdentityService/RefreshToken'', ''/identity.v1.IdentityService/VerifyEmail'',
      ''/identity.v1.IdentityService/ResendVerification'', ''/identity.v1.IdentityService/ValidateToken'',
      ''/discovery.v1.DiscoveryService/FindPeers'', ''/discovery.v1.DiscoveryService/GetNodeInfo'',
      ''/identity.v1.IdentityService/GetPlatformStats'', ''/transfer.v1.TransferService/GetTransferStats''}"

definition trim_prefix :: "string \<Rightarrow> string \<Rightarrow> string" where
  "trim_prefix p s = (if take (length p) s = p then drop (length p) s else s)"

text \<open>The values of the \<open>authorization\<close> key, \<open>None\<close> when the call has no metadata.\<close>

definition authenticate ::
  "jwt_lib \<Rightarrow> time \<Rightarrow> string \<Rightarrow> string list option \<Rightarrow> auth_ctx result" where
  "authenticate lib now jwtSecret md =
     (case md of
        None \<Rightarrow> Inl (Status Unauthenticated ''missing metadata'')
      | Some values \<Rightarrow>
          if length values = 0 then Inl (Status Unauthenticated ''missing authorization header'')
          else
            let tokenStr = trim_prefix ''Bearer '' (values ! 0) in
            case jw_parse lib now (hmac_key jwtSecret) tokenStr of
              None \<Rightarrow> Inl (Status Unauthenticated ''invalid token'')
            | Some c \<Rightarrow> Inr \<lparr>ac_user = Some (cl_Subject c), ac_email = Some (cl_Email c)\<rparr>)"

definition unary_auth_interceptor ::
  "jwt_lib \<Rightarrow> time \<Rightarrow> string \<Rightarrow> string \<Rightarrow> string list option \<Rightarrow> auth_ctx
     \<Rightarrow> (auth_ctx \<Rightarrow> 's \<Rightarrow> 'a result \<times> 's) \<Rightarrow> 's \<Rightarrow> 'a result \<times> 's" where
  "unary_auth_interceptor lib now jwtSecret fullMethod md ctx handler s =
     (if fullMethod \<in> public_methods then handler ctx s
      else case authenticate lib now jwtSecret md of
             Inl e \<Rightarrow> (Inl e, s)
           | Inr ctx' \<Rightarrow> handler ctx' s)"

text \<open>The stream interceptor passes on the stream it was given, whose context has no user.\<close>

definition stream_auth_interceptor ::
  "jwt_lib \<Rightarrow> time \<Rightarrow> string \<Rightarrow> string \<Rightarrow> string list option \<Rightarrow> auth_ctx
     \<Rightarrow> (auth_ctx \<Rightarrow> 's \<Rightarrow> 'a result \<times> 's) \<Rightarrow> 's \<Rightarrow> 'a result \<times> 's" where
  "stream_auth_interceptor lib now jwtSecret fullMethod md ctx handler s =
     (if fullMethod \<in> public_methods then handler ctx s
      else case authenticate lib now jwtSecret md of
             Inl e \<Rightarrow> (Inl e, s)
           | Inr _ \<Rightarrow> handler ctx s)"

definition user_id_from_context :: "auth_ctx \<Rightarrow> string option" where
  "user_id_from_context ctx = ac_user ctx"

end
