(* ===== verification/Float64.thy ===== *)
theory Float64
  imports Prelude
begin

text \<open>
  The rounding of Go's \<open>float64\<close>: every operation on values of that type is the operation on
  reals, followed by rounding to the nearest number with 53 significant bits, ties to the even
  one. The range of the exponent is not bounded here: values that overflow or are below the
  normal range do not occur in the code that uses this theory. A compiler that fuses a product
  and a sum rounds once where the model rounds twice.
\<close>

definition round_even :: "real \<Rightarrow> int" where
  "round_even x =
     (let n = \<lfloor>x\<rfloor>; d = x - of_int n in if d < 1 / 2 \<or> (d = 1 / 2 \<and> even n) then n else n + 1)"

text \<open>The value of the last bit of a number of the size of \<open>x\<close>.\<close>

definition ulp :: "real \<Rightarrow> real" where
  "ulp x = 2 powr (of_int \<lfloor>log 2 \<bar>x\<bar>\<rfloor> - 52)"

definition fl :: "real \<Rightarrow> real" where
  "fl x = (if x = 0 then 0 else of_int (round_even (x / ulp x)) * ulp x)"

lemma round_even_bounds:
  "of_int (round_even x) \<le> x + 1 / 2" "x - 1 / 2 \<le> of_int (round_even x)"
  unfolding round_even_def Let_def by (auto; linarith)+

lemma round_even_ge: "of_int i \<le> x \<Longrightarrow> i \<le> round_even x"
  using le_floor_iff [of i x] unfolding round_even_def Let_def by auto

lemma round_even_int [simp]: "round_even (of_int i) = i"
  by (simp add: round_even_def)

lemma ulp_pos [simp]: "0 < ulp x"
  by (simp add: ulp_def)

lemma fl_0 [simp]: "fl 0 = 0"
  by (simp add: fl_def)

lemma ulp_scale:
  assumes "0 < x"
  shows "2 ^ 52 \<le> x / ulp x" "ulp x * 2 ^ 52 = 2 powr of_int \<lfloor>log 2 x\<rfloor>"
proof -
  have u: "ulp x = 2 powr of_int \<lfloor>log 2 x\<rfloor> / 2 ^ 52"
    using assms by (simp add: ulp_def powr_diff)
  have "2 powr of_int \<lfloor>log 2 x\<rfloor> \<le> 2 powr log 2 x" by (rule powr_mono) auto
  also have "\<dots> = x" using assms by simp
  finally show "2 ^ 52 \<le> x / ulp x" by (simp add: u field_simps)
  show "ulp x * 2 ^ 52 = 2 powr of_int \<lfloor>log 2 x\<rfloor>" by (simp add: u)
qed

lemma fl_upper:
  assumes "0 \<le> x"
  shows "fl x \<le> x * (1 + 1 / 2 ^ 53)"
proof (cases "x = 0")
  case False
  then have x: "0 < x" using assms by simp
  let ?m = "x / ulp x"
  have "of_int (round_even ?m) \<le> ?m + 1 / 2" by (rule round_even_bounds)
  also have "\<dots> \<le> ?m * (1 + 1 / 2 ^ 53)" using ulp_scale(1) [OF x] by (simp add: algebra_simps)
  finally have "of_int (round_even ?m) * ulp x \<le> ?m * (1 + 1 / 2 ^ 53) * ulp x"
    by (rule mult_right_mono) (rule less_imp_le, rule ulp_pos)
  moreover have "?m * (1 + 1 / 2 ^ 53) * ulp x = x * (1 + 1 / 2 ^ 53)"
    using less_imp_neq [OF ulp_pos, of x] by (simp add: field_simps)
  ultimately show ?thesis using False by (simp add: fl_def)
qed simp

lemma fl_nonneg:
  assumes "0 \<le> x"
  shows "0 \<le> fl x"
proof -
  have "0 \<le> round_even (x / ulp x)" using assms by (intro round_even_ge) (simp add: divide_nonneg_pos)
  then show ?thesis by (simp add: fl_def mult_nonneg_nonneg less_imp_le)
qed

lemma fl_ge_1:
  assumes "1 \<le> x"
  shows "1 \<le> fl x"
proof -
  have x: "0 < x" using assms by simp
  have "2 ^ 52 \<le> round_even (x / ulp x)" using ulp_scale(1) [OF x] by (intro round_even_ge) simp
  then have "of_int (2 ^ 52) \<le> (of_int (round_even (x / ulp x)) :: real)" by (rule of_int_le_iff [THEN iffD2])
  then have "2 ^ 52 \<le> (of_int (round_even (x / ulp x)) :: real)" by simp
  then have "2 ^ 52 * ulp x \<le> fl x"
    using x by (simp add: fl_def mult_right_mono less_imp_le)
  moreover have "(1::real) \<le> 2 powr of_int \<lfloor>log 2 x\<rfloor>"
    using assms by (intro ge_one_powr_ge_zero) simp_all
  ultimately show ?thesis using ulp_scale(2) [OF x] by (simp add: mult.commute)
qed

text \<open>Integers below \<open>2 ^ 53\<close> are exact.\<close>

lemma fl_of_int:
  assumes "\<bar>i\<bar> < 2 ^ 53"
  shows "fl (of_int i) = of_int i"
proof (cases "i = 0")
  case False
  let ?k = "52 - \<lfloor>log 2 \<bar>of_int i\<bar>\<rfloor>"
  have "log 2 \<bar>of_int i\<bar> < 53"
  proof -
    have "real_of_int \<bar>i\<bar> < of_int (2 ^ 53)" using assms by (rule of_int_less_iff [THEN iffD2])
    then have "\<bar>real_of_int i\<bar> < 2 powr 53" by (simp add: powr_numeral)
    then show ?thesis using False by (simp add: log_less_iff)
  qed
  then have k: "0 \<le> ?k" by (simp add: floor_le_iff)
  have "ulp (of_int i) = 2 powr (- of_int ?k)" by (simp add: ulp_def)
  also have "\<dots> = 1 / 2 powr real (nat ?k)" using k by (simp only: powr_minus_divide of_nat_nat)
  also have "\<dots> = 1 / 2 ^ nat ?k" by (simp only: powr_realpow [of 2, simplified])
  finally have u: "ulp (of_int i) = 1 / 2 ^ nat ?k" .
  have "of_int i / ulp (of_int i) = of_int (i * 2 ^ nat ?k)" by (simp add: u)
  then have "round_even (of_int i / ulp (of_int i)) = i * 2 ^ nat ?k" by (simp only: round_even_int)
  then have "fl (of_int i) = of_int (i * 2 ^ nat ?k) * ulp (of_int i)" using False by (simp add: fl_def)
  then show ?thesis by (simp add: u)
qed simp

lemma fl_numeral [simp]: "(numeral n :: int) < 2 ^ 53 \<Longrightarrow> fl (numeral n) = numeral n"
  using fl_of_int [of "numeral n"] by simp

lemma fl_1 [simp]: "fl 1 = 1"
  using fl_of_int [of 1] by simp

end
