(* ===== verification/RateLimiter.thy ===== *)
theory RateLimiter
  imports Float64
begin

text \<open>
  The token-bucket rate limiter of \<open>pkg/middleware/ratelimit.go\<close>: the table of clients, one
  admission decision (\<open>allow\<close>), one sweep of the clean-up goroutine, the gRPC interceptors,
  and the bound they guarantee. Tokens are \<open>float64\<close>: every operation on them rounds as in
  \<open>Float64\<close>, and the bound has the error that this adds up to.
\<close>

section \<open>The code\<close>

record limiter_entry =
  le_tokens :: real
  le_lastSeen :: time

record rate_limiter =
  rl_clients :: "string \<Rightarrow> limiter_entry option"
  rl_rate :: real
  rl_burst :: real

definition new_rate_limiter :: "real \<Rightarrow> int \<Rightarrow> rate_limiter" where
  "new_rate_limiter rps burst =
     \<lparr>rl_clients = Map.empty, rl_rate = rps, rl_burst = fl (real_of_int burst)\<rparr>"

text \<open>\<open>Duration.Seconds()\<close>: the conversions of the whole seconds and of the rest are exact.\<close>

definition seconds :: "time \<Rightarrow> real" where
  "seconds d =
     (let sec = d sdiv 1000000000; nsec = d - sec * 1000000000
      in fl (real_of_int sec + fl (real_of_int nsec / 1000000000)))"

definition rl_allow :: "time \<Rightarrow> string \<Rightarrow> rate_limiter \<Rightarrow> bool \<times> rate_limiter" where
  "rl_allow now key rl =
     (case rl_clients rl key of
        None \<Rightarrow>
          (True, rl\<lparr>rl_clients :=
             (rl_clients rl)(key \<mapsto> \<lparr>le_tokens = fl (rl_burst rl - 1), le_lastSeen = now\<rparr>)\<rparr>)
      | Some e \<Rightarrow>
          (let elapsed = seconds (now - le_lastSeen e);
               t1 = fl (le_tokens e + fl (elapsed * rl_rate rl));
               t2 = (if t1 > rl_burst rl then rl_burst rl else t1)
           in if t2 < 1
              then (False, rl\<lparr>rl_clients :=
                     (rl_clients rl)(key \<mapsto> \<lparr>le_tokens = t2, le_lastSeen = now\<rparr>)\<rparr>)
              else (True, rl\<lparr>rl_clients :=
                     (rl_clients rl)(key \<mapsto> \<lparr>le_tokens = fl (t2 - 1), le_lastSeen = now\<rparr>)\<rparr>)))"

definition rl_cleanup :: "time \<Rightarrow> rate_limiter \<Rightarrow> rate_limiter" where
  "rl_cleanup now rl =
     (let cutoff = now - 10 * minute
      in rl\<lparr>rl_clients := (\<lambda>k. case rl_clients rl k of
             None \<Rightarrow> None
           | Some e \<Rightarrow> if le_lastSeen e < cutoff then None else Some e)\<rparr>)"

text \<open>The unary and the stream interceptor take the same decision on the peer's address
  before they run the handler, on a limiter and the state of what it guards.\<close>

definition peer_addr :: "string option \<Rightarrow> string" where
  "peer_addr p = (case p of Some a \<Rightarrow> a | None \<Rightarrow> ''unknown'')"

definition unary_rate_limit_interceptor ::
  "time \<Rightarrow> string option \<Rightarrow> ('s \<Rightarrow> 'a result \<times> 's) \<Rightarrow> rate_limiter \<times> 's \<Rightarrow> 'a result \<times> rate_limiter \<times> 's" where
  "unary_rate_limit_interceptor now p handler s =
     (let (ok, rl) = rl_allow now (peer_addr p) (fst s)
      in if \<not> ok then (Inl (Status ResourceExhausted ''rate limit exceeded''), rl, snd s)
         else let (r, s') = handler (snd s) in (r, rl, s'))"

definition stream_rate_limit_interceptor ::
  "time \<Rightarrow> string option \<Rightarrow> ('s \<Rightarrow> 'a result \<times> 's) \<Rightarrow> rate_limiter \<times> 's \<Rightarrow> 'a result \<times> rate_limiter \<times> 's" where
  "stream_rate_limit_interceptor now p handler s =
     (let (ok, rl) = rl_allow now (peer_addr p) (fst s)
      in if \<not> ok then (Inl (Status ResourceExhausted ''rate limit exceeded''), rl, snd s)
         else let (r, s') = handler (snd s) in (r, rl, s'))"

section \<open>Runs\<close>

datatype rl_event = RlRequest time string | RlCleanup time

fun rl_time :: "rl_event \<Rightarrow> time" where
  "rl_time (RlRequest t k) = t"
| "rl_time (RlCleanup t) = t"

fun rl_step :: "rate_limiter \<Rightarrow> rl_event \<Rightarrow> rate_limiter" where
  "rl_step rl (RlRequest t k) = snd (rl_allow t k rl)"
| "rl_step rl (RlCleanup t) = rl_cleanup t rl"

text \<open>Whether an event is an admitted request of the client \<open>key\<close>.\<close>

fun rl_admits :: "string \<Rightarrow> rate_limiter \<Rightarrow> rl_event \<Rightarrow> bool" where
  "rl_admits key rl (RlRequest t k) = (k = key \<and> fst (rl_allow t k rl))"
| "rl_admits key rl (RlCleanup t) = False"

fun admitted :: "string \<Rightarrow> rate_limiter \<Rightarrow> rl_event list \<Rightarrow> nat" where
  "admitted key rl [] = 0"
| "admitted key rl (e # es) =
     (if rl_admits key rl e then 1 else 0) + admitted key (rl_step rl e) es"

lemma rl_step_config [simp]:
  "rl_rate (rl_step rl e) = rl_rate rl" "rl_burst (rl_step rl e) = rl_burst rl"
  by (cases e; auto simp: rl_allow_def rl_cleanup_def Let_def split: option.splits)+

section \<open>Invariant\<close>

definition rl_wf :: "time \<times> rate_limiter \<Rightarrow> bool" where
  "rl_wf s \<longleftrightarrow> 1 \<le> rl_burst (snd s) \<and> 0 \<le> rl_rate (snd s) \<and>
     (\<forall>k e. rl_clients (snd s) k = Some e \<longrightarrow>
        0 \<le> le_tokens e \<and> le_tokens e \<le> 2 * rl_burst (snd s) \<and> le_lastSeen e \<le> fst s)"

definition clocked_step :: "time \<times> rate_limiter \<Rightarrow> rl_event \<Rightarrow> time \<times> rate_limiter" where
  "clocked_step s e = (rl_time e, rl_step (snd s) e)"

text \<open>Seconds without rounding.\<close>

definition exact_seconds :: "time \<Rightarrow> real" where
  "exact_seconds d = real_of_int d / 1000000000"

lemma exact_seconds_nonneg [simp]: "0 \<le> exact_seconds d \<longleftrightarrow> 0 \<le> d"
  by (simp add: exact_seconds_def)

lemma exact_seconds_diff: "exact_seconds (a - b) = exact_seconds a - exact_seconds b"
  by (simp add: exact_seconds_def diff_divide_distrib)

abbreviation fl_err :: real where
  "fl_err \<equiv> 1 / 2 ^ 53"

lemma fl_scaled: "0 \<le> x \<Longrightarrow> x \<le> y \<Longrightarrow> fl x \<le> y * (1 + fl_err)"
  using fl_upper [of x] mult_right_mono [of x y "1 + fl_err"] by simp

lemma seconds_bounds:
  assumes "0 \<le> d"
  shows "0 \<le> seconds d" "seconds d \<le> exact_seconds d * (1 + fl_err) ^ 2"
proof -
  let ?sec = "d div 1000000000" and ?nsec = "d mod 1000000000"
  have s: "d sdiv 1000000000 = ?sec" using assms by (intro sdiv_nonneg) simp_all
  have n: "d - ?sec * 1000000000 = ?nsec" by (simp add: minus_div_mult_eq_mod)
  have pos: "0 \<le> real_of_int ?sec" "0 \<le> real_of_int ?nsec / 1000000000" "0 \<le> fl (real_of_int ?nsec / 1000000000)"
    using assms by (auto intro!: fl_nonneg simp: pos_imp_zdiv_nonneg_iff)
  have eq: "seconds d = fl (real_of_int ?sec + fl (real_of_int ?nsec / 1000000000))"
    by (simp only: seconds_def s n Let_def)
  show "0 \<le> seconds d" unfolding eq using pos by (intro fl_nonneg) linarith
  have "real_of_int d = real_of_int (?sec * 1000000000 + ?nsec)" by simp
  then have d: "exact_seconds d = real_of_int ?sec + real_of_int ?nsec / 1000000000"
    unfolding exact_seconds_def of_int_add of_int_mult by simp
  have "real_of_int ?sec + fl (real_of_int ?nsec / 1000000000)
      \<le> real_of_int ?sec * (1 + fl_err) + real_of_int ?nsec / 1000000000 * (1 + fl_err)"
    using pos fl_upper [OF pos(2)] by (intro add_mono) (simp_all add: algebra_simps)
  then have "real_of_int ?sec + fl (real_of_int ?nsec / 1000000000) \<le> exact_seconds d * (1 + fl_err)"
    by (simp only: d distrib_right)
  then have "seconds d \<le> exact_seconds d * (1 + fl_err) * (1 + fl_err)"
    unfolding eq using pos by (intro fl_scaled) linarith
  then show "seconds d \<le> exact_seconds d * (1 + fl_err) ^ 2" by (simp only: power2_eq_square mult.assoc)
qed

text \<open>What a bucket holds after its refill, against the exact value: the error is a part in
  \<open>2 ^ 50\<close> of the refill and in \<open>2 ^ 52\<close> of the bucket.\<close>

lemma refill_bounds:
  assumes "0 \<le> tok" "tok \<le> 2 * b" "0 \<le> r" "0 \<le> d"
  shows "0 \<le> fl (tok + fl (seconds d * r))"
    and "fl (tok + fl (seconds d * r)) \<le> tok + exact_seconds d * r * (1 + 1 / 2 ^ 50) + b / 2 ^ 52"
proof -
  note sec = seconds_bounds [OF assms(4)]
  let ?x = "exact_seconds d * r"
  have x: "0 \<le> seconds d * r" "0 \<le> ?x" using sec(1) assms(3,4) by simp_all
  have "seconds d * r \<le> ?x * (1 + fl_err) ^ 2"
    using mult_right_mono [OF sec(2) assms(3)] by (simp only: mult.commute mult.left_commute)
  then have p: "fl (seconds d * r) \<le> ?x * (1 + fl_err) ^ 2 * (1 + fl_err)" using x(1) by (rule fl_scaled [rotated])
  have nn: "0 \<le> tok + fl (seconds d * r)" using assms(1) fl_nonneg [OF x(1)] by linarith
  then show "0 \<le> fl (tok + fl (seconds d * r))" by (rule fl_nonneg)
  have "fl (tok + fl (seconds d * r)) \<le> (tok + ?x * (1 + fl_err) ^ 2 * (1 + fl_err)) * (1 + fl_err)"
    using nn p by (intro fl_scaled) linarith+
  also have "\<dots> = tok + tok * fl_err + ?x * (1 + fl_err) ^ 4" by (simp only: algebra_simps power4_eq_xxxx power2_eq_square)
  also have "tok * fl_err \<le> b / 2 ^ 52" using assms(2) by simp
  also have "?x * (1 + fl_err) ^ 4 \<le> ?x * (1 + 1 / 2 ^ 50)" using x(2) by (intro mult_left_mono) (simp_all add: power4_eq_xxxx)
  finally show "fl (tok + fl (seconds d * r)) \<le> tok + ?x * (1 + 1 / 2 ^ 50) + b / 2 ^ 52" by simp
qed

lemma take_token_bounds:
  assumes "1 \<le> t" "t \<le> b"
  shows "0 \<le> fl (t - 1)" "fl (t - 1) \<le> t - 1 + b / 2 ^ 53" "fl (t - 1) \<le> 2 * b"
proof -
  show "0 \<le> fl (t - 1)" using assms by (intro fl_nonneg) simp
  have "fl (t - 1) \<le> (t - 1) * (1 + fl_err)" using assms by (intro fl_upper) simp
  also have "\<dots> = t - 1 + (t - 1) / 2 ^ 53" by (simp only: distrib_left mult_1_right times_divide_eq_right)
  also have "\<dots> \<le> t - 1 + b / 2 ^ 53" using assms by (intro add_left_mono divide_right_mono) simp_all
  finally show "fl (t - 1) \<le> t - 1 + b / 2 ^ 53" .
  then show "fl (t - 1) \<le> 2 * b" using assms by simp
qed

lemma rl_wf_step: "rl_wf s \<Longrightarrow> fst s \<le> rl_time e \<Longrightarrow> rl_wf (clocked_step s e)"
proof (cases e)
  case (RlRequest t k)
  let ?b = "rl_burst (snd s)"
  assume wf: "rl_wf s" and "fst s \<le> rl_time e"
  then have mono: "fst s \<le> t" and b: "1 \<le> ?b" using RlRequest by (simp_all add: rl_wf_def)
  have refill: "0 \<le> fl (le_tokens en + fl (seconds (t - le_lastSeen en) * rl_rate (snd s)))"
    if "rl_clients (snd s) k = Some en" for en
    using wf that mono by (intro refill_bounds(1) [where b = ?b]) (auto simp: rl_wf_def dest!: spec)
  show ?thesis
    using wf mono refill RlRequest b take_token_bounds(1,3) [of _ ?b] take_token_bounds(1,3) [OF b order_refl]
    by (fastforce simp: rl_wf_def clocked_step_def rl_allow_def Let_def split: option.splits)
next
  case (RlCleanup t)
  assume "rl_wf s" and "fst s \<le> rl_time e"
  then show ?thesis using RlCleanup
    by (fastforce simp: rl_wf_def clocked_step_def rl_cleanup_def Let_def split: option.splits if_splits)
qed

interpretation limiter_machine:
  invariant_machine clocked_step rl_wf "\<lambda>s e. fst s \<le> rl_time e"
  by unfold_locales (rule rl_wf_step)

section \<open>Tokens available to a client at a time\<close>

text \<open>The tokens a client can have, when they come in at the rate \<open>r\<close> per second.\<close>

definition avail :: "real \<Rightarrow> string \<Rightarrow> rate_limiter \<Rightarrow> time \<Rightarrow> real" where
  "avail r key rl now =
     (case rl_clients rl key of
        None \<Rightarrow> rl_burst rl
      | Some e \<Rightarrow> min (rl_burst rl) (le_tokens e + exact_seconds (now - le_lastSeen e) * r))"

text \<open>A rate that is at least the limiter's, with rounding, and at which a bucket is full again
  after ten minutes: an idle entry that is dropped comes back with a full bucket.\<close>

definition covers :: "real \<Rightarrow> rate_limiter \<Rightarrow> bool" where
  "covers r rl \<longleftrightarrow> rl_rate rl * (1 + 1 / 2 ^ 50) \<le> r \<and> rl_burst rl \<le> 600 * r"

lemma covers_step [simp]: "covers r (rl_step rl e) = covers r rl"
  by (simp add: covers_def)

lemma covers_nonneg: "rl_wf s \<Longrightarrow> covers r (snd s) \<Longrightarrow> 0 \<le> r"
  using mult_nonneg_nonneg [of "rl_rate (snd s)" "1 + 1 / 2 ^ 50"] by (auto simp: rl_wf_def covers_def)

lemma avail_nonneg: "rl_wf (t, rl) \<Longrightarrow> covers r rl \<Longrightarrow> t \<le> now \<Longrightarrow> 0 \<le> avail r key rl now"
  using covers_nonneg [of "(t, rl)" r]
  by (fastforce simp: avail_def rl_wf_def intro!: add_nonneg_nonneg mult_nonneg_nonneg
      split: option.splits)

lemma avail_le_burst: "avail r key rl now \<le> rl_burst rl"
  by (simp add: avail_def split: option.splits)

lemma avail_refill:
  assumes "0 \<le> r" and "t \<le> t'"
  shows "avail r key rl t' \<le> avail r key rl t + exact_seconds (t' - t) * r"
proof -
  have "0 \<le> exact_seconds (t' - t) * r" using assms by simp
  then show ?thesis
    by (auto simp: avail_def exact_seconds_diff algebra_simps split: option.splits)
qed

lemma stale_entry_refilled:
  assumes "rl_wf (t, rl)" and "covers r rl"
    and "rl_clients rl key = Some e" and "le_lastSeen e < now - 10 * minute"
  shows "rl_burst rl \<le> le_tokens e + exact_seconds (now - le_lastSeen e) * r"
proof -
  have "600 \<le> exact_seconds (now - le_lastSeen e)"
    using assms(4) by (simp add: exact_seconds_def minute_def second_def)
  then have "600 * r \<le> exact_seconds (now - le_lastSeen e) * r"
    using covers_nonneg [OF assms(1)] assms(2) by (intro mult_right_mono) simp_all
  moreover have "0 \<le> le_tokens e" using assms(1,3) by (auto simp: rl_wf_def)
  ultimately show ?thesis using assms(2) by (simp add: covers_def)
qed

text \<open>An event creates no tokens, up to rounding: what it admits and what is left then is what was
  there, and at most a part in \<open>2 ^ 51\<close> of the bucket more for a request of the client.\<close>

fun rl_asks :: "string \<Rightarrow> rl_event \<Rightarrow> bool" where
  "rl_asks key (RlRequest t k) = (k = key)"
| "rl_asks key (RlCleanup t) = False"

lemma avail_request:
  assumes "rl_wf (t0, rl)" and "t0 \<le> t" and "covers r rl"
  shows "(if fst (rl_allow t key rl) then 1 else 0) + avail r key (snd (rl_allow t key rl)) t
           \<le> avail r key rl t + rl_burst rl / 2 ^ 51"
proof (cases "rl_clients rl key")
  case None
  have b: "1 \<le> rl_burst rl" using assms(1) by (simp add: rl_wf_def)
  then show ?thesis
    using None take_token_bounds(2) [OF b order_refl] by (simp add: rl_allow_def avail_def exact_seconds_def)
next
  case (Some e)
  let ?b = "rl_burst rl" and ?d = "t - le_lastSeen e"
  have e: "0 \<le> le_tokens e" "le_tokens e \<le> 2 * ?b" "0 \<le> ?d" "0 \<le> rl_rate rl" and b: "1 \<le> ?b"
    using assms(1,2) Some by (auto simp: rl_wf_def dest!: spec)
  define t1 where "t1 = fl (le_tokens e + fl (seconds ?d * rl_rate rl))"
  define t2 where "t2 = (if t1 > ?b then ?b else t1)"
  have "exact_seconds ?d * rl_rate rl * (1 + 1 / 2 ^ 50) \<le> exact_seconds ?d * r"
    using assms(3) e(3) mult_left_mono [of "rl_rate rl * (1 + 1 / 2 ^ 50)" r "exact_seconds ?d"]
    by (simp add: covers_def mult.assoc)
  then have "t1 \<le> le_tokens e + exact_seconds ?d * r + ?b / 2 ^ 52"
    using refill_bounds(2) [OF e(1,2,4,3)] unfolding t1_def by linarith
  then have t2: "t2 \<le> avail r key rl t + ?b / 2 ^ 52" "t2 \<le> ?b"
    using b by (auto simp: t2_def avail_def Some min_def)
  have allow: "rl_allow t key rl = (if t2 < 1
      then (False, rl\<lparr>rl_clients := (rl_clients rl)(key \<mapsto> \<lparr>le_tokens = t2, le_lastSeen = t\<rparr>)\<rparr>)
      else (True, rl\<lparr>rl_clients := (rl_clients rl)(key \<mapsto> \<lparr>le_tokens = fl (t2 - 1), le_lastSeen = t\<rparr>)\<rparr>))"
    by (simp only: rl_allow_def Some option.case Let_def t1_def [symmetric] t2_def [symmetric])
  show ?thesis
  proof (cases "t2 < 1")
    case True
    then show ?thesis using t2 b by (simp add: allow avail_def [of r key "_\<lparr>rl_clients := _\<rparr>"] exact_seconds_def)
  next
    case False
    then show ?thesis
      using t2 b take_token_bounds(2) [of t2 ?b]
      by (simp add: allow avail_def [of r key "_\<lparr>rl_clients := _\<rparr>"] exact_seconds_def)
  qed
qed

lemma avail_step:
  assumes "rl_wf (t, rl)" and "t \<le> rl_time e" and "covers r rl"
  shows "(if rl_admits key rl e then 1 else 0) + avail r key (rl_step rl e) (rl_time e)
           \<le> avail r key rl (rl_time e) + (if rl_asks key e then rl_burst rl / 2 ^ 51 else 0)"
proof (cases e)
  case (RlRequest t' k)
  show ?thesis
  proof (cases "k = key")
    case True
    then show ?thesis using avail_request [OF assms(1) _ assms(3), of t' key] assms(2) by (simp add: RlRequest)
  next
    case False
    then show ?thesis
      by (simp add: RlRequest rl_allow_def avail_def Let_def split: option.split)
  qed
next
  case (RlCleanup t')
  show ?thesis
  proof (cases "rl_clients rl key")
    case None
    then show ?thesis by (simp add: RlCleanup rl_cleanup_def avail_def Let_def)
  next
    case (Some en)
    then show ?thesis using stale_entry_refilled [OF assms(1,3) Some, of t']
      by (simp add: RlCleanup rl_cleanup_def avail_def Let_def)
  qed
qed

lemma admitted_avail:
  assumes "rl_wf (t, rl)" and "sorted (t # map rl_time es)" and "covers r rl"
  shows "real (admitted key rl es) + avail r key (foldl rl_step rl es) (last (t # map rl_time es))
           \<le> avail r key rl t + exact_seconds (last (t # map rl_time es) - t) * r
              + real (length (filter (rl_asks key) es)) * (rl_burst rl / 2 ^ 51)"
  using assms
proof (induction es arbitrary: t rl)
  case Nil
  then show ?case by (simp add: exact_seconds_def)
next
  case (Cons e es)
  let ?t = "rl_time e" and ?stop = "last (rl_time e # map rl_time es)"
  have le: "t \<le> ?t" using Cons.prems(2) by simp
  have wf': "rl_wf (?t, rl_step rl e)"
    using rl_wf_step [OF Cons.prems(1), of e] le by (simp add: clocked_step_def)
  have "real (admitted key (rl_step rl e) es) + avail r key (foldl rl_step (rl_step rl e) es) ?stop
      \<le> avail r key (rl_step rl e) ?t + exact_seconds (?stop - ?t) * r
        + real (length (filter (rl_asks key) es)) * (rl_burst rl / 2 ^ 51)"
    using Cons.IH [OF wf'] Cons.prems by simp
  moreover have "(if rl_admits key rl e then 1 else 0) + avail r key (rl_step rl e) ?t
      \<le> avail r key rl ?t + (if rl_asks key e then rl_burst rl / 2 ^ 51 else 0)"
    by (rule avail_step [OF Cons.prems(1) le Cons.prems(3)])
  moreover have "avail r key rl ?t \<le> avail r key rl t + exact_seconds (?t - t) * r"
    using covers_nonneg [OF Cons.prems(1)] Cons.prems(3) le by (intro avail_refill) simp_all
  moreover have eqs: "last (t # map rl_time (e # es)) = ?stop"
    "foldl rl_step rl (e # es) = foldl rl_step (rl_step rl e) es"
    "real (admitted key rl (e # es)) = (if rl_admits key rl e then 1 else 0) + real (admitted key (rl_step rl e) es)"
    "exact_seconds (?stop - t) * r = exact_seconds (?t - t) * r + exact_seconds (?stop - ?t) * r"
    "real (length (filter (rl_asks key) (e # es))) * (rl_burst rl / 2 ^ 51) =
      (if rl_asks key e then rl_burst rl / 2 ^ 51 else 0) + real (length (filter (rl_asks key) es)) * (rl_burst rl / 2 ^ 51)"
    by (simp_all add: exact_seconds_diff left_diff_distrib add_divide_distrib distrib_right)
  ultimately show ?case unfolding eqs by linarith
qed

lemma rl_wf_new: "0 \<le> rps \<Longrightarrow> 1 \<le> burst \<Longrightarrow> rl_wf (t, new_rate_limiter rps burst)"
  by (simp add: rl_wf_def new_rate_limiter_def fl_ge_1)

text \<open>The rate at which a client can get tokens: that of the limiter, or a whole bucket in the ten
  minutes after which the clean-up drops an idle entry, with the rounding of the refill.\<close>

definition token_rate :: "real \<Rightarrow> int \<Rightarrow> real" where
  "token_rate rps burst = max rps (fl (real_of_int burst) / 600) * (1 + 1 / 2 ^ 50)"

lemma token_rate_covers:
  assumes "0 \<le> rps" "1 \<le> burst"
  shows "covers (token_rate rps burst) (new_rate_limiter rps burst)"
proof -
  have "1 \<le> fl (real_of_int burst)" using assms(2) by (intro fl_ge_1) simp
  then have b: "0 \<le> fl (real_of_int burst) / 600" by simp
  let ?m = "max rps (fl (real_of_int burst) / 600)"
  have "rps * (1 + 1 / 2 ^ 50) \<le> ?m * (1 + 1 / 2 ^ 50)" by (rule mult_right_mono) simp_all
  moreover have "?m * 1 \<le> ?m * (1 + 1 / 2 ^ 50)" by (rule mult_left_mono) (use b in simp_all)
  then have "fl (real_of_int burst) / 600 \<le> ?m * (1 + 1 / 2 ^ 50)" by simp
  ultimately show ?thesis by (simp add: covers_def token_rate_def new_rate_limiter_def)
qed

lemma token_rate_nonneg: "0 \<le> rps \<Longrightarrow> 1 \<le> burst \<Longrightarrow> 0 \<le> token_rate rps burst"
  using covers_nonneg [of "(0, new_rate_limiter rps burst)"] rl_wf_new token_rate_covers by simp

lemma admitted_bound:
  assumes "0 \<le> rps" and "1 \<le> burst" and "sorted (t # map rl_time es)"
  shows "real (admitted key (new_rate_limiter rps burst) es)
           \<le> fl (real_of_int burst) + exact_seconds (last (t # map rl_time es) - t) * token_rate rps burst
              + real (length (filter (rl_asks key) es)) * (fl (real_of_int burst) / 2 ^ 51)"
proof -
  let ?rl = "new_rate_limiter rps burst" and ?r = "token_rate rps burst"
  have cfg: "rl_burst ?rl = fl (real_of_int burst)" by (simp add: new_rate_limiter_def)
  have wf: "rl_wf (t, ?rl)" using assms(1,2) by (rule rl_wf_new)
  have covers: "covers ?r ?rl" using assms(1,2) by (rule token_rate_covers)
  have legal: "limiter_machine.legal_run (t, rl) es" if "sorted (t # map rl_time es)" for t rl
    using that by (induction es arbitrary: t rl) (auto simp: clocked_step_def)
  have run: "foldl clocked_step (t, rl) es = (last (t # map rl_time es), foldl rl_step rl es)" for t rl
    by (induction es arbitrary: t rl) (auto simp: clocked_step_def)
  have covers': "covers ?r (foldl rl_step rl es)" if "covers ?r rl" for rl es
    using that by (induction es arbitrary: rl) simp_all
  have "rl_wf (last (t # map rl_time es), foldl rl_step ?rl es)"
    using limiter_machine.inv_run [OF wf legal [OF assms(3)]] by (simp add: run)
  then have "0 \<le> avail ?r key (foldl rl_step ?rl es) (last (t # map rl_time es))"
    by (rule avail_nonneg) (simp_all add: covers' covers)
  moreover have "avail ?r key ?rl t \<le> fl (real_of_int burst)"
    using avail_le_burst [of ?r key ?rl t] by (simp add: cfg)
  ultimately show ?thesis
    using admitted_avail [OF wf assms(3) covers, of key] unfolding cfg by linarith
qed

text \<open>
  over any interleaving of requests of any clients and clean-up sweeps, with a clock that
  does not run backwards, one client gets at most \<open>burst + rate * elapsed\<close> requests through, where
  the rate is the configured one or that of a bucket in ten minutes, if that is more, and the
  rounding of \<open>float64\<close> adds at most a part in \<open>2 ^ 51\<close> of a bucket for each of its requests.
\<close>

theorem rate_bound:
  assumes "0 \<le> rps" and "1 \<le> burst" and "sorted (t # map rl_time es)"
  shows "real (admitted key (new_rate_limiter rps burst) es)
           \<le> fl (real_of_int burst) + exact_seconds (last (t # map rl_time es) - t) * token_rate rps burst
              + real (length (filter (rl_asks key) es)) * (fl (real_of_int burst) / 2 ^ 51)"
  using assms by (rule admitted_bound)

theorem rate_bound_witness:
  "real (admitted ''a'' (new_rate_limiter 1 2)
     [RlRequest 0 ''a'', RlRequest 0 ''a'', RlRequest 0 ''b'', RlRequest 0 ''a'',
      RlRequest 1000000000 ''a'']) < 4"
  using rate_bound [of 1 2 0 "[RlRequest 0 ''a'', RlRequest 0 ''a'', RlRequest 0 ''b'',
      RlRequest 0 ''a'', RlRequest 1000000000 ''a'']" "''a''"]
  by (simp add: exact_seconds_def token_rate_def)

end
