(* ===== verification/IdentityDb.thy ===== *)
theory IdentityDb
  imports Tables "HOL-Library.List_Lexorder" "HOL-Library.Char_ord"
begin

text \<open>
  The tables of the identity service and the queries of
  \<open>services/identity/repository/queries.sql.go\<close>, one definition per query, with the key, unique
  and foreign-key constraints of \<open>scripts/migrations\<close>. What PostgreSQL computes on its own is a
  parameter: the cast \<open>::uuid\<close>, which maps every spelling of a UUID to its canonical text and
  refuses other strings, and \<open>ILIKE\<close>. New ids are arguments. A query is its error or its
  result; one that changes a table returns the new table.
\<close>

section \<open>Tables\<close>

record user =
  us_ID :: string
  us_Username :: string
  us_Email :: string
  us_PasswordHash :: string
  us_CreatedAt :: time
  us_EmailVerified :: bool
  us_VerificationToken :: "string option"
  us_VerificationExpiresAt :: "time option"
  us_AvatarData :: "string option"

record device =
  dv_ID :: string
  dv_UserID :: string
  dv_Name :: string
  dv_DeviceType :: string
  dv_NodeID :: "string option"
  dv_Fingerprint :: string
  dv_IsApproved :: bool
  dv_ApprovedAt :: "time option"
  dv_ApprovedBy :: "string option"
  dv_LastActive :: time
  dv_CreatedAt :: time
  dv_RevokedAt :: "time option"
  dv_IsPublic :: bool

record device_key =
  dk_DeviceID :: string
  dk_KexAlgo :: string
  dk_KexPublicKey :: bytes
  dk_CreatedAt :: time
  dk_RotatedAt :: "time option"

record friend_row =
  fd_ID :: string
  fd_RequesterID :: string
  fd_AddresseeID :: string
  fd_Status :: string
  fd_CreatedAt :: time
  fd_UpdatedAt :: time

record peer_session =
  ps_ID :: string
  ps_UserID :: string
  ps_Name :: string
  ps_IsActive :: bool
  ps_CreatedAt :: time
  ps_ClosedAt :: "time option"

record session_member =
  sm_SessionID :: string
  sm_DeviceID :: string
  sm_JoinedAt :: time
  sm_LeftAt :: "time option"

record presence =
  pr_DeviceID :: string
  pr_UserID :: string
  pr_LastSeen :: time

record audit_log =
  al_ID :: int64
  al_UserID :: string
  al_Method :: string
  al_Code :: string
  al_PeerAddr :: string
  al_DurationMs :: int64
  al_CreatedAt :: time

record identity_db =
  db_users :: "user list"
  db_devices :: "device list"
  db_keys :: "device_key list"
  db_friends :: "friend_row list"
  db_sessions :: "peer_session list"
  db_members :: "session_member list"
  db_presence :: "presence list"
  db_audit :: "audit_log list"

section \<open>Shapes of queries\<close>

type_synonym uuid_cast = "string \<Rightarrow> string option"

definition cast :: "uuid_cast \<Rightarrow> string \<Rightarrow> (string \<Rightarrow> 'a query) \<Rightarrow> 'a query" where
  "cast u s k = (case u s of None \<Rightarrow> Inl QueryFailed | Some i \<Rightarrow> k i)"

definition one_row :: "('r \<Rightarrow> bool) \<Rightarrow> 'r list \<Rightarrow> 'r query" where
  "one_row p t = db_row False (find p t)"

text \<open>A query that the database or the network refuses.\<close>

definition ask :: "bool \<Rightarrow> 'a query \<Rightarrow> 'a query" where
  "ask failed q = (if failed then Inl QueryFailed else q)"

definition paged :: "int32 \<Rightarrow> int32 \<Rightarrow> 'r list \<Rightarrow> 'r list query" where
  "paged limit offset t = (if limit < 0 \<or> offset < 0 then Inl QueryFailed else Inr (sql_page limit offset t))"

definition latest :: "('r \<Rightarrow> time) \<Rightarrow> 'r list \<Rightarrow> 'r list" where
  "latest at_time t = sort_key (\<lambda>r. - at_time r) t"

lemma ask_Inr [simp]: "ask failed q = Inr v \<longleftrightarrow> \<not> failed \<and> q = Inr v"
  by (simp add: ask_def)

lemma cast_Inr: "cast u s k = Inr v \<longleftrightarrow> (\<exists>i. u s = Some i \<and> k i = Inr v)"
  by (auto simp: cast_def split: option.splits)

lemma one_row_Inr: "one_row p t = Inr r \<longleftrightarrow> find p t = Some r"
  by (simp add: one_row_def db_row_Inr)

lemma one_row_sound: "one_row p t = Inr r \<Longrightarrow> r \<in> set t \<and> p r"
  by (auto simp: one_row_Inr find_Some_iff)

section \<open>Users\<close>

definition create_user_sql ::
  "time \<Rightarrow> string \<Rightarrow> string \<Rightarrow> string \<Rightarrow> string \<Rightarrow> user list \<Rightarrow> (user \<times> user list) query" where
  "create_user_sql now newID username email hash t =
     (if newID \<in> us_ID ` set t \<or> email \<in> us_Email ` set t then Inl QueryFailed
      else
        let r = \<lparr>us_ID = newID, us_Username = username, us_Email = email, us_PasswordHash = hash,
                 us_CreatedAt = now, us_EmailVerified = False, us_VerificationToken = None,
                 us_VerificationExpiresAt = None, us_AvatarData = None\<rparr>
        in Inr (r, t @ [r]))"

definition get_user_by_email_sql :: "string \<Rightarrow> user list \<Rightarrow> user query" where
  "get_user_by_email_sql email t = one_row (\<lambda>r. us_Email r = email) t"

definition get_user_by_id_sql :: "uuid_cast \<Rightarrow> string \<Rightarrow> user list \<Rightarrow> user query" where
  "get_user_by_id_sql u uid t = cast u uid (\<lambda>i. one_row (\<lambda>r. us_ID r = i) t)"

definition get_user_by_token_sql :: "time \<Rightarrow> string \<Rightarrow> user list \<Rightarrow> user query" where
  "get_user_by_token_sql now token t =
     one_row (\<lambda>r. us_VerificationToken r = Some token
                \<and> (\<exists>e \<in> set_option (us_VerificationExpiresAt r). e > now)) t"

definition set_verification_token_sql ::
  "uuid_cast \<Rightarrow> string \<Rightarrow> string option \<Rightarrow> time option \<Rightarrow> user list \<Rightarrow> user list query" where
  "set_verification_token_sql u uid token expires t =
     cast u uid (\<lambda>i. Inr (update_rows (\<lambda>r. us_ID r = i)
       (\<lambda>r. r\<lparr>us_VerificationToken := token, us_VerificationExpiresAt := expires\<rparr>) t))"

definition verify_user_email_sql :: "uuid_cast \<Rightarrow> string \<Rightarrow> user list \<Rightarrow> user list query" where
  "verify_user_email_sql u uid t =
     cast u uid (\<lambda>i. Inr (update_rows (\<lambda>r. us_ID r = i)
       (\<lambda>r. r\<lparr>us_EmailVerified := True, us_VerificationToken := None, us_VerificationExpiresAt := None\<rparr>) t))"

definition update_user_avatar_sql :: "uuid_cast \<Rightarrow> string \<Rightarrow> string option \<Rightarrow> user list \<Rightarrow> user list query" where
  "update_user_avatar_sql u uid avatar t =
     cast u uid (\<lambda>i. Inr (update_rows (\<lambda>r. us_ID r = i) (\<lambda>r. r\<lparr>us_AvatarData := avatar\<rparr>) t))"

definition get_user_avatar_sql :: "uuid_cast \<Rightarrow> string \<Rightarrow> user list \<Rightarrow> string option query" where
  "get_user_avatar_sql u uid t = map_sum id us_AvatarData (cast u uid (\<lambda>i. one_row (\<lambda>r. us_ID r = i) t))"

definition count_users_sql :: "user list \<Rightarrow> int64" where
  "count_users_sql t = int (length (filter us_EmailVerified t))"

definition admin_list_users_sql :: "int32 \<Rightarrow> int32 \<Rightarrow> user list \<Rightarrow> user list query" where
  "admin_list_users_sql limit offset t = paged limit offset (latest us_CreatedAt t)"

definition search_users_sql ::
  "uuid_cast \<Rightarrow> (string \<Rightarrow> string \<Rightarrow> bool) \<Rightarrow> string \<Rightarrow> string \<Rightarrow> user list \<Rightarrow> user list query" where
  "search_users_sql u ilike q uid t =
     cast u uid (\<lambda>i. Inr (take 20 (filter (\<lambda>r. ilike (us_Username r) (''%'' @ q @ ''%'') \<and> us_ID r \<noteq> i) t)))"

section \<open>Devices\<close>

text \<open>The unique index on \<open>(user_id, fingerprint)\<close> holds for devices that are not revoked. The
  fields of the argument are the columns that the statement sets.\<close>

definition create_device_sql ::
  "uuid_cast \<Rightarrow> time \<Rightarrow> string \<Rightarrow> device \<Rightarrow> user list \<Rightarrow> device list \<Rightarrow> (device \<times> device list) query" where
  "create_device_sql u now newID p us t =
     cast u (dv_UserID p) (\<lambda>i.
       if newID \<in> dv_ID ` set t \<or> i \<notin> us_ID ` set us
          \<or> (\<exists>d\<in>set t. dv_UserID d = i \<and> dv_Fingerprint d = dv_Fingerprint p \<and> dv_RevokedAt d = None)
          \<or> (\<exists>b\<in>set_option (dv_ApprovedBy p). b \<notin> dv_ID ` set t)
       then Inl QueryFailed
       else
         let r = p\<lparr>dv_ID := newID, dv_UserID := i, dv_LastActive := now, dv_CreatedAt := now,
                   dv_RevokedAt := None\<rparr>
         in Inr (r, t @ [r]))"

definition get_device_by_fingerprint_sql :: "uuid_cast \<Rightarrow> string \<Rightarrow> string \<Rightarrow> device list \<Rightarrow> device query" where
  "get_device_by_fingerprint_sql u uid fp t =
     cast u uid (\<lambda>i. one_row (\<lambda>d. dv_UserID d = i \<and> dv_Fingerprint d = fp \<and> dv_RevokedAt d = None) t)"

definition get_device_by_id_sql :: "uuid_cast \<Rightarrow> string \<Rightarrow> device list \<Rightarrow> device query" where
  "get_device_by_id_sql u did t = cast u did (\<lambda>i. one_row (\<lambda>d. dv_ID d = i \<and> dv_RevokedAt d = None) t)"

definition list_devices_by_user_sql :: "uuid_cast \<Rightarrow> string \<Rightarrow> device list \<Rightarrow> device list query" where
  "list_devices_by_user_sql u uid t =
     cast u uid (\<lambda>i. Inr (latest dv_CreatedAt (filter (\<lambda>d. dv_UserID d = i \<and> dv_RevokedAt d = None) t)))"

definition list_devices_public_sql :: "uuid_cast \<Rightarrow> string \<Rightarrow> device list \<Rightarrow> device list query" where
  "list_devices_public_sql u uid t =
     cast u uid (\<lambda>i. Inr (latest dv_LastActive
       (filter (\<lambda>d. dv_UserID d = i \<and> dv_RevokedAt d = None \<and> dv_IsApproved d \<and> dv_IsPublic d) t)))"

definition revoke_device_sql :: "uuid_cast \<Rightarrow> time \<Rightarrow> string \<Rightarrow> string \<Rightarrow> device list \<Rightarrow> device list query" where
  "revoke_device_sql u now did uid t =
     cast u did (\<lambda>i. cast u uid (\<lambda>j. Inr (update_rows (\<lambda>d. dv_ID d = i \<and> dv_UserID d = j)
       (\<lambda>d. d\<lparr>dv_RevokedAt := Some now\<rparr>) t)))"

definition update_device_activity_sql ::
  "uuid_cast \<Rightarrow> time \<Rightarrow> string \<Rightarrow> string option \<Rightarrow> device list \<Rightarrow> device list query" where
  "update_device_activity_sql u now did nid t =
     cast u did (\<lambda>i. Inr (update_rows (\<lambda>d. dv_ID d = i \<and> dv_RevokedAt d = None)
       (\<lambda>d. d\<lparr>dv_LastActive := now,
              dv_NodeID := (case nid of None \<Rightarrow> dv_NodeID d | Some n \<Rightarrow> Some n)\<rparr>) t))"

definition update_device_visibility_sql :: "uuid_cast \<Rightarrow> string \<Rightarrow> bool \<Rightarrow> device list \<Rightarrow> device list query" where
  "update_device_visibility_sql u did public t =
     cast u did (\<lambda>i. Inr (update_rows (\<lambda>d. dv_ID d = i \<and> dv_RevokedAt d = None)
       (\<lambda>d. d\<lparr>dv_IsPublic := public\<rparr>) t))"

definition approve_device_sql :: "uuid_cast \<Rightarrow> time \<Rightarrow> string \<Rightarrow> string \<Rightarrow> device list \<Rightarrow> device list query" where
  "approve_device_sql u now did approver t =
     cast u did (\<lambda>i. cast u approver (\<lambda>j.
       if i \<in> dv_ID ` set t \<and> j \<notin> dv_ID ` set t then Inl QueryFailed
       else Inr (update_rows (\<lambda>d. dv_ID d = i)
         (\<lambda>d. d\<lparr>dv_IsApproved := True, dv_ApprovedAt := Some now, dv_ApprovedBy := Some j\<rparr>) t)))"

definition reject_device_sql :: "uuid_cast \<Rightarrow> time \<Rightarrow> string \<Rightarrow> device list \<Rightarrow> device list query" where
  "reject_device_sql u now did t =
     cast u did (\<lambda>i. Inr (update_rows (\<lambda>d. dv_ID d = i \<and> \<not> dv_IsApproved d)
       (\<lambda>d. d\<lparr>dv_RevokedAt := Some now\<rparr>) t))"

definition count_devices_sql :: "device list \<Rightarrow> int64" where
  "count_devices_sql t = int (length (filter (\<lambda>d. dv_RevokedAt d = None \<and> dv_IsApproved d) t))"

text \<open>Each device with its owner's row.\<close>

definition admin_list_devices_sql ::
  "int32 \<Rightarrow> int32 \<Rightarrow> user list \<Rightarrow> device list \<Rightarrow> (device \<times> user) list query" where
  "admin_list_devices_sql limit offset us t =
     paged limit offset (latest (\<lambda>(d, w). dv_CreatedAt d)
       [(d, w). d \<leftarrow> t, w \<leftarrow> us, us_ID w = dv_UserID d])"

section \<open>Device keys\<close>

definition upsert_device_key_sql ::
  "uuid_cast \<Rightarrow> time \<Rightarrow> string \<Rightarrow> string \<Rightarrow> bytes \<Rightarrow> device list \<Rightarrow> device_key list
     \<Rightarrow> (device_key \<times> device_key list) query" where
  "upsert_device_key_sql u now did algo key ds t =
     cast u did (\<lambda>i.
       if i \<notin> dv_ID ` set ds then Inl QueryFailed
       else
         let t' = upsert dk_DeviceID
               (\<lambda>old new. old\<lparr>dk_KexAlgo := dk_KexAlgo new, dk_KexPublicKey := dk_KexPublicKey new,
                             dk_RotatedAt := Some now\<rparr>)
               \<lparr>dk_DeviceID = i, dk_KexAlgo = algo, dk_KexPublicKey = key, dk_CreatedAt = now,
                dk_RotatedAt = None\<rparr> t
         in map_sum id (\<lambda>k. (k, t')) (one_row (\<lambda>k. dk_DeviceID k = i) t'))"

definition get_device_key_sql :: "uuid_cast \<Rightarrow> string \<Rightarrow> device_key list \<Rightarrow> device_key query" where
  "get_device_key_sql u did t = cast u did (\<lambda>i. one_row (\<lambda>k. dk_DeviceID k = i) t)"

definition get_device_key_by_node_sql :: "string \<Rightarrow> device list \<Rightarrow> device_key list \<Rightarrow> device_key query" where
  "get_device_key_by_node_sql nid ds t =
     one_row (\<lambda>k. \<exists>d\<in>set ds. dv_ID d = dk_DeviceID k \<and> dv_NodeID d = Some nid \<and> dv_RevokedAt d = None
                \<and> dv_IsApproved d) t"

section \<open>Peer sessions\<close>

definition create_session_sql ::
  "uuid_cast \<Rightarrow> time \<Rightarrow> string \<Rightarrow> string \<Rightarrow> string \<Rightarrow> user list \<Rightarrow> peer_session list
     \<Rightarrow> (peer_session \<times> peer_session list) query" where
  "create_session_sql u now newID uid name us t =
     cast u uid (\<lambda>i.
       if newID \<in> ps_ID ` set t \<or> i \<notin> us_ID ` set us then Inl QueryFailed
       else
         let r = \<lparr>ps_ID = newID, ps_UserID = i, ps_Name = name, ps_IsActive = True,
                  ps_CreatedAt = now, ps_ClosedAt = None\<rparr>
         in Inr (r, t @ [r]))"

definition get_session_sql :: "uuid_cast \<Rightarrow> string \<Rightarrow> peer_session list \<Rightarrow> peer_session query" where
  "get_session_sql u sid t = cast u sid (\<lambda>i. one_row (\<lambda>s. ps_ID s = i) t)"

definition list_active_sessions_sql :: "uuid_cast \<Rightarrow> string \<Rightarrow> peer_session list \<Rightarrow> peer_session list query" where
  "list_active_sessions_sql u uid t =
     cast u uid (\<lambda>i. Inr (latest ps_CreatedAt (filter (\<lambda>s. ps_UserID s = i \<and> ps_IsActive s) t)))"

definition close_session_sql ::
  "uuid_cast \<Rightarrow> time \<Rightarrow> string \<Rightarrow> string \<Rightarrow> peer_session list \<Rightarrow> peer_session list query" where
  "close_session_sql u now sid uid t =
     cast u sid (\<lambda>i. cast u uid (\<lambda>j. Inr (update_rows (\<lambda>s. ps_ID s = i \<and> ps_UserID s = j)
       (\<lambda>s. s\<lparr>ps_IsActive := False, ps_ClosedAt := Some now\<rparr>) t)))"

definition add_device_to_session_sql ::
  "uuid_cast \<Rightarrow> time \<Rightarrow> string \<Rightarrow> string \<Rightarrow> peer_session list \<Rightarrow> device list \<Rightarrow> session_member list
     \<Rightarrow> session_member list query" where
  "add_device_to_session_sql u now sid did ss ds t =
     cast u sid (\<lambda>i. cast u did (\<lambda>j.
       if i \<notin> ps_ID ` set ss \<or> j \<notin> dv_ID ` set ds then Inl QueryFailed
       else Inr (upsert (\<lambda>m. (sm_SessionID m, sm_DeviceID m)) (\<lambda>old new. old\<lparr>sm_LeftAt := None\<rparr>)
              \<lparr>sm_SessionID = i, sm_DeviceID = j, sm_JoinedAt = now, sm_LeftAt = None\<rparr> t)))"

definition remove_device_from_session_sql ::
  "uuid_cast \<Rightarrow> time \<Rightarrow> string \<Rightarrow> string \<Rightarrow> session_member list \<Rightarrow> session_member list query" where
  "remove_device_from_session_sql u now sid did t =
     cast u sid (\<lambda>i. cast u did (\<lambda>j. Inr (update_rows (\<lambda>m. sm_SessionID m = i \<and> sm_DeviceID m = j)
       (\<lambda>m. m\<lparr>sm_LeftAt := Some now\<rparr>) t)))"

definition list_session_devices_sql ::
  "uuid_cast \<Rightarrow> string \<Rightarrow> session_member list \<Rightarrow> device list \<Rightarrow> device list query" where
  "list_session_devices_sql u sid ms ds =
     cast u sid (\<lambda>i. Inr [d. d \<leftarrow> ds, m \<leftarrow> ms, dv_ID d = sm_DeviceID m \<and> sm_SessionID m = i
                            \<and> sm_LeftAt m = None \<and> dv_RevokedAt d = None])"

definition list_session_device_keys_sql ::
  "uuid_cast \<Rightarrow> string \<Rightarrow> session_member list \<Rightarrow> device list \<Rightarrow> device_key list \<Rightarrow> device_key list query" where
  "list_session_device_keys_sql u sid ms ds ks =
     cast u sid (\<lambda>i. Inr [k. k \<leftarrow> ks, m \<leftarrow> ms, dk_DeviceID k = sm_DeviceID m, d \<leftarrow> ds,
                            dv_ID d = dk_DeviceID k \<and> sm_SessionID m = i \<and> sm_LeftAt m = None
                            \<and> dv_RevokedAt d = None])"

section \<open>Friends\<close>

definition create_friend_request_sql ::
  "uuid_cast \<Rightarrow> time \<Rightarrow> string \<Rightarrow> string \<Rightarrow> string \<Rightarrow> user list \<Rightarrow> friend_row list
     \<Rightarrow> (friend_row \<times> friend_row list) query" where
  "create_friend_request_sql u now newID requester addressee us t =
     cast u requester (\<lambda>i. cast u addressee (\<lambda>j.
       if newID \<in> fd_ID ` set t \<or> i \<notin> us_ID ` set us \<or> j \<notin> us_ID ` set us
          \<or> (\<exists>f\<in>set t. fd_RequesterID f = i \<and> fd_AddresseeID f = j)
       then Inl QueryFailed
       else
         let r = \<lparr>fd_ID = newID, fd_RequesterID = i, fd_AddresseeID = j, fd_Status = ''pending'',
                  fd_CreatedAt = now, fd_UpdatedAt = now\<rparr>
         in Inr (r, t @ [r])))"

definition answer_friend_request_sql ::
  "string \<Rightarrow> uuid_cast \<Rightarrow> time \<Rightarrow> string \<Rightarrow> string \<Rightarrow> friend_row list \<Rightarrow> friend_row list query" where
  "answer_friend_request_sql answer u now fid uid t =
     cast u fid (\<lambda>i. cast u uid (\<lambda>j. Inr (update_rows
       (\<lambda>f. fd_ID f = i \<and> fd_AddresseeID f = j \<and> fd_Status f = ''pending'')
       (\<lambda>f. f\<lparr>fd_Status := answer, fd_UpdatedAt := now\<rparr>) t)))"

definition accept_friend_request_sql ::
  "uuid_cast \<Rightarrow> time \<Rightarrow> string \<Rightarrow> string \<Rightarrow> friend_row list \<Rightarrow> friend_row list query" where
  "accept_friend_request_sql = answer_friend_request_sql ''accepted''"

definition reject_friend_request_sql ::
  "uuid_cast \<Rightarrow> time \<Rightarrow> string \<Rightarrow> string \<Rightarrow> friend_row list \<Rightarrow> friend_row list query" where
  "reject_friend_request_sql = answer_friend_request_sql ''rejected''"

definition remove_friend_sql :: "uuid_cast \<Rightarrow> string \<Rightarrow> string \<Rightarrow> friend_row list \<Rightarrow> friend_row list query" where
  "remove_friend_sql u fid uid t =
     cast u fid (\<lambda>i. cast u uid (\<lambda>j. Inr (filter
       (\<lambda>f. \<not> (fd_ID f = i \<and> (fd_RequesterID f = j \<or> fd_AddresseeID f = j))) t)))"

definition get_friendship_sql :: "uuid_cast \<Rightarrow> string \<Rightarrow> friend_row list \<Rightarrow> friend_row query" where
  "get_friendship_sql u fid t = cast u fid (\<lambda>i. one_row (\<lambda>f. fd_ID f = i) t)"

definition get_friendship_between_sql :: "uuid_cast \<Rightarrow> string \<Rightarrow> string \<Rightarrow> friend_row list \<Rightarrow> friend_row query" where
  "get_friendship_between_sql u a b t =
     cast u a (\<lambda>i. cast u b (\<lambda>j. one_row
       (\<lambda>f. (fd_RequesterID f = i \<and> fd_AddresseeID f = j) \<or> (fd_RequesterID f = j \<and> fd_AddresseeID f = i)) t))"

text \<open>Each friendship with the row of the other user.\<close>

definition list_accepted_friends_sql ::
  "uuid_cast \<Rightarrow> string \<Rightarrow> user list \<Rightarrow> friend_row list \<Rightarrow> (friend_row \<times> user) list query" where
  "list_accepted_friends_sql u uid us t =
     cast u uid (\<lambda>i. Inr (latest (\<lambda>(f, w). fd_UpdatedAt f)
       [(f, w). f \<leftarrow> t, w \<leftarrow> us,
          us_ID w = (if fd_RequesterID f = i then fd_AddresseeID f else fd_RequesterID f)
          \<and> (fd_RequesterID f = i \<or> fd_AddresseeID f = i) \<and> fd_Status f = ''accepted'']))"

definition list_pending_requests_sql ::
  "uuid_cast \<Rightarrow> string \<Rightarrow> user list \<Rightarrow> friend_row list \<Rightarrow> (friend_row \<times> user) list query" where
  "list_pending_requests_sql u uid us t =
     cast u uid (\<lambda>i. Inr (latest (\<lambda>(f, w). fd_CreatedAt f)
       [(f, w). f \<leftarrow> t, w \<leftarrow> us, us_ID w = fd_RequesterID f
          \<and> fd_AddresseeID f = i \<and> fd_Status f = ''pending'']))"

definition count_pending_requests_sql :: "uuid_cast \<Rightarrow> string \<Rightarrow> friend_row list \<Rightarrow> int64 query" where
  "count_pending_requests_sql u uid t =
     cast u uid (\<lambda>i. Inr (int (length (filter (\<lambda>f. fd_AddresseeID f = i \<and> fd_Status f = ''pending'') t))))"

section \<open>Presence and audit logs\<close>

definition upsert_presence_sql ::
  "uuid_cast \<Rightarrow> time \<Rightarrow> string \<Rightarrow> string \<Rightarrow> user list \<Rightarrow> presence list \<Rightarrow> presence list query" where
  "upsert_presence_sql u now did uid us t =
     cast u uid (\<lambda>i.
       if i \<notin> us_ID ` set us then Inl QueryFailed
       else Inr (upsert pr_DeviceID (\<lambda>old new. old\<lparr>pr_LastSeen := now, pr_UserID := pr_UserID new\<rparr>)
              \<lparr>pr_DeviceID = did, pr_UserID = i, pr_LastSeen = now\<rparr> t))"

text \<open>\<open>SELECT DISTINCT ON\<close>: of rows sorted by the key, the first of each group. Canonical
  UUIDs sort as their texts do.\<close>

fun distinct_on :: "('r \<Rightarrow> 'k) \<Rightarrow> 'k option \<Rightarrow> 'r list \<Rightarrow> 'r list" where
  "distinct_on key prev [] = []"
| "distinct_on key prev (r # rs) =
     (if prev = Some (key r) then distinct_on key prev rs else r # distinct_on key (Some (key r)) rs)"

definition get_presence_sql :: "uuid_cast \<Rightarrow> string list \<Rightarrow> presence list \<Rightarrow> presence list query" where
  "get_presence_sql u uids t =
     (if \<exists>s\<in>set uids. u s = None then Inl QueryFailed
      else
        let rows = filter (\<lambda>p. pr_UserID p \<in> set (map (\<lambda>s. the (u s)) uids)) t
        in Inr (distinct_on pr_UserID None (sort_key pr_UserID (latest pr_LastSeen rows))))"

definition admin_list_audit_sql :: "int32 \<Rightarrow> int32 \<Rightarrow> audit_log list \<Rightarrow> audit_log list query" where
  "admin_list_audit_sql limit offset t = paged limit offset (latest al_CreatedAt t)"

definition admin_count_audit_sql :: "audit_log list \<Rightarrow> int64" where
  "admin_count_audit_sql t = int (length t)"

end
