(* ===== verification/Chain.thy ===== *)
theory Chain
  imports Auth RateLimiter IdentityDb
begin

text \<open>
  The interceptors that every service of \<open>cmd\<close> puts before its handlers, in their order:
  metrics, rate limit, authentication, audit. \<open>pkg/middleware/metrics.go\<close> and
  \<open>pkg/middleware/audit.go\<close> are modelled here, the other two in \<open>RateLimiter\<close> and \<open>Auth\<close>.
  The state of a server is the metrics, the limiter, the audit table and the state of its
  handlers. A call brings its method, the address of its peer and the values of its
  \<open>authorization\<close> metadata; the instants at which the interceptors read the clock, and
  whether the database refuses the audit row, are part of it. A streaming handler returns
  \<open>Inr ()\<close> when it ends without error.
\<close>

section \<open>Calls\<close>

record grpc_call =
  gc_FullMethod :: string
  gc_Peer :: "string option"
  gc_Metadata :: "string list option"
  gc_Arrives :: time \<comment> \<open>start of the metrics interceptor\<close>
  gc_Limited :: time \<comment> \<open>clock of the rate limiter\<close>
  gc_Parsed :: time \<comment> \<open>clock of the token check\<close>
  gc_Starts :: time \<comment> \<open>start of the audit interceptor\<close>
  gc_Stops :: time \<comment> \<open>return of the handler\<close>
  gc_Leaves :: time \<comment> \<open>return of the call\<close>
  gc_AuditFails :: bool

text \<open>\<open>status.Code(err).String()\<close>\<close>

fun code_name :: "code \<Rightarrow> string" where
  "code_name InvalidArgument = ''InvalidArgument''"
| "code_name NotFound = ''NotFound''"
| "code_name AlreadyExists = ''AlreadyExists''"
| "code_name PermissionDenied = ''PermissionDenied''"
| "code_name Unauthenticated = ''Unauthenticated''"
| "code_name FailedPrecondition = ''FailedPrecondition''"
| "code_name ResourceExhausted = ''ResourceExhausted''"
| "code_name DataLoss = ''DataLoss''"
| "code_name Internal = ''Internal''"
| "code_name Unavailable = ''Unavailable''"

fun status_name :: "'a result \<Rightarrow> string" where
  "status_name (Inr v) = ''OK''"
| "status_name (Inl (Status c m)) = code_name c"

section \<open>Metrics\<close>

record grpc_metrics =
  mt_Active :: int
  mt_Requests :: "string \<times> string \<Rightarrow> nat" \<comment> \<open>counter per method and code\<close>
  mt_Durations :: "(string \<times> real) list" \<comment> \<open>observations of the histogram, latest last\<close>

definition no_metrics :: grpc_metrics where
  "no_metrics = \<lparr>mt_Active = 0, mt_Requests = (\<lambda>_. 0), mt_Durations = []\<rparr>"

definition metrics_enter :: "grpc_metrics \<Rightarrow> grpc_metrics" where
  "metrics_enter m = m\<lparr>mt_Active := mt_Active m + 1\<rparr>"

definition metrics_leave :: "string \<Rightarrow> string \<Rightarrow> time \<Rightarrow> grpc_metrics \<Rightarrow> grpc_metrics" where
  "metrics_leave method code dur m =
     m\<lparr>mt_Requests := (mt_Requests m)((method, code) := mt_Requests m (method, code) + 1),
       mt_Durations := mt_Durations m @ [(method, seconds dur)],
       mt_Active := mt_Active m - 1\<rparr>"

definition unary_metrics_interceptor ::
  "grpc_call \<Rightarrow> ('s \<Rightarrow> 'a result \<times> 's) \<Rightarrow> grpc_metrics \<times> 's \<Rightarrow> 'a result \<times> grpc_metrics \<times> 's" where
  "unary_metrics_interceptor c handler s =
     (let m = metrics_enter (fst s);
          (r, s') = handler (snd s)
      in (r, metrics_leave (gc_FullMethod c) (status_name r) (gc_Leaves c - gc_Arrives c) m, s'))"

definition stream_metrics_interceptor ::
  "grpc_call \<Rightarrow> ('s \<Rightarrow> unit result \<times> 's) \<Rightarrow> grpc_metrics \<times> 's \<Rightarrow> unit result \<times> grpc_metrics \<times> 's" where
  "stream_metrics_interceptor c handler s =
     (let m = metrics_enter (fst s);
          (r, s') = handler (snd s)
      in (r, metrics_leave (gc_FullMethod c) (status_name r) (gc_Leaves c - gc_Arrives c) m, s'))"

section \<open>Audit\<close>

text \<open>\<open>BIGSERIAL\<close> numbers the rows; a refused insert is only logged. The empty user stands for
  a context without one.\<close>

definition audit_record ::
  "grpc_call \<Rightarrow> auth_ctx \<Rightarrow> 'a result \<Rightarrow> audit_log list \<Rightarrow> audit_log list" where
  "audit_record c ctx r t =
     (let userID = (case user_id_from_context ctx of Some u \<Rightarrow> u | None \<Rightarrow> '''');
          code = status_name r;
          addr = (case gc_Peer c of Some a \<Rightarrow> a | None \<Rightarrow> '''')
      in if gc_AuditFails c then t
         else t @ [\<lparr>al_ID = int (length t) + 1, al_UserID = userID, al_Method = gc_FullMethod c,
                    al_Code = code, al_PeerAddr = addr,
                    al_DurationMs = (gc_Stops c - gc_Starts c) sdiv 1000000, al_CreatedAt = gc_Stops c\<rparr>])"

definition audit_unary_interceptor ::
  "grpc_call \<Rightarrow> (auth_ctx \<Rightarrow> 's \<Rightarrow> 'a result \<times> 's)
     \<Rightarrow> auth_ctx \<Rightarrow> audit_log list \<times> 's \<Rightarrow> 'a result \<times> audit_log list \<times> 's" where
  "audit_unary_interceptor c handler ctx s =
     (let (r, s') = handler ctx (snd s) in (r, audit_record c ctx r (fst s), s'))"

definition audit_stream_interceptor ::
  "grpc_call \<Rightarrow> (auth_ctx \<Rightarrow> 's \<Rightarrow> unit result \<times> 's)
     \<Rightarrow> auth_ctx \<Rightarrow> audit_log list \<times> 's \<Rightarrow> unit result \<times> audit_log list \<times> 's" where
  "audit_stream_interceptor c handler ctx s =
     (let (r, s') = handler ctx (snd s) in (r, audit_record c ctx r (fst s), s'))"

section \<open>A server\<close>

type_synonym 's server = "grpc_metrics \<times> rate_limiter \<times> audit_log list \<times> 's"

definition no_user :: auth_ctx where
  "no_user = \<lparr>ac_user = None, ac_email = None\<rparr>"

definition new_server :: "'s \<Rightarrow> 's server" where
  "new_server s = (no_metrics, new_rate_limiter 100 200, [], s)"

definition unary_chain ::
  "jwt_lib \<Rightarrow> string \<Rightarrow> grpc_call \<Rightarrow> (auth_ctx \<Rightarrow> 's \<Rightarrow> 'a result \<times> 's)
     \<Rightarrow> 's server \<Rightarrow> 'a result \<times> 's server" where
  "unary_chain lib jwtSecret c handler =
     unary_metrics_interceptor c
       (unary_rate_limit_interceptor (gc_Limited c) (gc_Peer c)
         (unary_auth_interceptor lib (gc_Parsed c) jwtSecret (gc_FullMethod c) (gc_Metadata c) no_user
           (audit_unary_interceptor c handler)))"

definition stream_chain ::
  "jwt_lib \<Rightarrow> string \<Rightarrow> grpc_call \<Rightarrow> (auth_ctx \<Rightarrow> 's \<Rightarrow> unit result \<times> 's)
     \<Rightarrow> 's server \<Rightarrow> unit result \<times> 's server" where
  "stream_chain lib jwtSecret c handler =
     stream_metrics_interceptor c
       (stream_rate_limit_interceptor (gc_Limited c) (gc_Peer c)
         (stream_auth_interceptor lib (gc_Parsed c) jwtSecret (gc_FullMethod c) (gc_Metadata c) no_user
           (audit_stream_interceptor c handler)))"

section \<open>Which calls reach a handler\<close>

text \<open>The context with which the chain runs the handler of a call, if it gets past the
  authentication.\<close>

definition unary_context :: "jwt_lib \<Rightarrow> string \<Rightarrow> grpc_call \<Rightarrow> auth_ctx result" where
  "unary_context lib jwtSecret c =
     (if gc_FullMethod c \<in> public_methods then Inr no_user
      else authenticate lib (gc_Parsed c) jwtSecret (gc_Metadata c))"

definition stream_context :: "jwt_lib \<Rightarrow> string \<Rightarrow> grpc_call \<Rightarrow> auth_ctx result" where
  "stream_context lib jwtSecret c =
     (if gc_FullMethod c \<in> public_methods then Inr no_user
      else map_sum id (\<lambda>_. no_user) (authenticate lib (gc_Parsed c) jwtSecret (gc_Metadata c)))"

text \<open>What a chain does to a server, with the context it runs the handler in.\<close>

definition chain_result ::
  "grpc_call \<Rightarrow> auth_ctx result \<Rightarrow> (auth_ctx \<Rightarrow> 's \<Rightarrow> 'a result \<times> 's) \<Rightarrow> 's server \<Rightarrow> 'a result \<times> 's server" where
  "chain_result c access handler sv =
     (case sv of (m, rl, t, s) \<Rightarrow>
        let (ok, rl') = rl_allow (gc_Limited c) (peer_addr (gc_Peer c)) rl;
            (r, t', s') =
              (if \<not> ok then (Inl (Status ResourceExhausted ''rate limit exceeded''), t, s)
               else case access of
                      Inl e \<Rightarrow> (Inl e, t, s)
                    | Inr ctx \<Rightarrow> let (r, s') = handler ctx s in (r, audit_record c ctx r t, s'))
        in (r, metrics_leave (gc_FullMethod c) (status_name r) (gc_Leaves c - gc_Arrives c) (metrics_enter m),
            rl', t', s'))"

lemma unary_chain_result: "unary_chain lib secret c h sv = chain_result c (unary_context lib secret c) h sv"
  by (cases sv)
    (auto simp: unary_chain_def chain_result_def unary_context_def unary_metrics_interceptor_def
      unary_rate_limit_interceptor_def unary_auth_interceptor_def audit_unary_interceptor_def Let_def
      split: prod.splits sum.splits)

lemma stream_chain_result: "stream_chain lib secret c h sv = chain_result c (stream_context lib secret c) h sv"
  by (cases sv)
    (auto simp: stream_chain_def chain_result_def stream_context_def stream_metrics_interceptor_def
      stream_rate_limit_interceptor_def stream_auth_interceptor_def audit_stream_interceptor_def Let_def
      split: prod.splits sum.splits)

lemma authenticate_Inr:
  "authenticate lib now secret md = Inr ctx \<longleftrightarrow>
     (\<exists>v vs c. md = Some (v # vs) \<and> jw_parse lib now (hmac_key secret) (trim_prefix ''Bearer '' v) = Some c
        \<and> ctx = \<lparr>ac_user = Some (cl_Subject c), ac_email = Some (cl_Email c)\<rparr>)"
  by (cases md) (auto simp: authenticate_def Let_def neq_Nil_conv split: option.splits)

section \<open>Runs of a server\<close>

datatype ('a, 's) request =
    UnaryRequest grpc_call "auth_ctx \<Rightarrow> 's \<Rightarrow> 'a result \<times> 's"
  | StreamRequest grpc_call "auth_ctx \<Rightarrow> 's \<Rightarrow> unit result \<times> 's"

fun serve :: "jwt_lib \<Rightarrow> string \<Rightarrow> 's server \<Rightarrow> ('a, 's) request \<Rightarrow> 's server" where
  "serve lib secret sv (UnaryRequest c h) = snd (unary_chain lib secret c h sv)"
| "serve lib secret sv (StreamRequest c h) = snd (stream_chain lib secret c h sv)"

text \<open>A handler that also writes down how it was run.\<close>

type_synonym trace = "(bool \<times> grpc_call \<times> auth_ctx \<times> string) list"

definition traced ::
  "bool \<Rightarrow> grpc_call \<Rightarrow> (auth_ctx \<Rightarrow> 's \<Rightarrow> 'a result \<times> 's) \<Rightarrow> auth_ctx \<Rightarrow> trace \<times> 's \<Rightarrow> 'a result \<times> trace \<times> 's" where
  "traced unary c h ctx s =
     (let (r, s') = h ctx (snd s) in (r, fst s @ [(unary, c, ctx, status_name r)], s'))"

fun with_trace :: "('a, 's) request \<Rightarrow> ('a, trace \<times> 's) request" where
  "with_trace (UnaryRequest c h) = UnaryRequest c (traced True c h)"
| "with_trace (StreamRequest c h) = StreamRequest c (traced False c h)"

fun call_of :: "('a, 's) request \<Rightarrow> grpc_call" where
  "call_of (UnaryRequest c h) = c"
| "call_of (StreamRequest c h) = c"

definition token_of :: "jwt_lib \<Rightarrow> string \<Rightarrow> grpc_call \<Rightarrow> claims option" where
  "token_of lib secret c =
     (case gc_Metadata c of
        Some (v # _) \<Rightarrow> jw_parse lib (gc_Parsed c) (hmac_key secret) (trim_prefix ''Bearer '' v)
      | _ \<Rightarrow> None)"

text \<open>A handler run that the authentication allows, and the audit row it should leave.\<close>

definition run_allowed :: "jwt_lib \<Rightarrow> string \<Rightarrow> bool \<times> grpc_call \<times> auth_ctx \<times> string \<Rightarrow> bool" where
  "run_allowed lib secret run =
     (case run of (unary, c, ctx, code) \<Rightarrow>
        if gc_FullMethod c \<in> public_methods then ctx = no_user
        else case token_of lib secret c of
               None \<Rightarrow> False
             | Some k \<Rightarrow> user_id_from_context ctx = (if unary then Some (cl_Subject k) else None))"

definition row_for :: "bool \<times> grpc_call \<times> auth_ctx \<times> string \<Rightarrow> audit_log \<Rightarrow> bool" where
  "row_for run row =
     (case run of (unary, c, ctx, code) \<Rightarrow>
        al_UserID row = (case user_id_from_context ctx of Some u \<Rightarrow> u | None \<Rightarrow> '''')
        \<and> al_Method row = gc_FullMethod c \<and> al_Code row = code \<and> al_CreatedAt row = gc_Stops c)"

definition trail :: "jwt_lib \<Rightarrow> string \<Rightarrow> (trace \<times> 's) server \<Rightarrow> bool" where
  "trail lib secret sv =
     (case sv of (m, rl, t, tr, s) \<Rightarrow>
        list_all2 row_for tr t \<and> (\<forall>run\<in>set tr. run_allowed lib secret run)
        \<and> mt_Active m = 0 \<and> map al_ID t = map (\<lambda>i. int i + 1) [0..<length t])"

lemma trail_chain_result:
  assumes "trail lib secret sv" "\<not> gc_AuditFails c"
    and "\<And>ctx code. access = Inr ctx \<Longrightarrow> run_allowed lib secret (unary, c, ctx, code)"
  shows "trail lib secret (snd (chain_result c access (traced unary c h) sv))"
  using assms
  by (cases sv; cases access)
    (auto simp: trail_def chain_result_def traced_def audit_record_def row_for_def metrics_enter_def
      metrics_leave_def Let_def list_all2_append list_all2_lengthD split: prod.splits if_splits option.splits)

lemma unary_context_allowed: "unary_context lib secret c = Inr ctx \<Longrightarrow> run_allowed lib secret (True, c, ctx, code)"
  by (auto simp: unary_context_def run_allowed_def token_of_def authenticate_Inr user_id_from_context_def split: if_splits)

lemma stream_context_allowed: "stream_context lib secret c = Inr ctx \<Longrightarrow> run_allowed lib secret (False, c, ctx, code)"
  by (auto simp: stream_context_def run_allowed_def token_of_def map_sum_Inr authenticate_Inr user_id_from_context_def
      no_user_def split: if_splits)

lemma trail_serve:
  "trail lib secret sv \<Longrightarrow> \<not> gc_AuditFails (call_of e) \<Longrightarrow> trail lib secret (serve lib secret sv (with_trace e))"
  by (cases e)
    (auto simp: unary_chain_result stream_chain_result
      intro!: trail_chain_result unary_context_allowed stream_context_allowed)

interpretation audited: invariant_machine
  "\<lambda>sv e. serve lib secret sv (with_trace e)" "trail lib secret" "\<lambda>sv e. \<not> gc_AuditFails (call_of e)"
  for lib secret
  by unfold_locales (rule trail_serve)

lemma audited_legal:
  "audited.legal_run lib secret sv es" if "\<forall>e\<in>set es. \<not> gc_AuditFails (call_of e)"
  using that by (induction es arbitrary: sv) auto


section \<open>Calls without a token\<close>

text \<open>gRPC gives every call that comes over the network metadata; one that sets no
  \<open>authorization\<close> has no value for it.\<close>

definition no_token :: "grpc_call \<Rightarrow> bool" where
  "no_token c \<longleftrightarrow> gc_Metadata c = None \<or> gc_Metadata c = Some []"

lemma no_token_unauthenticated:
  "no_token c \<Longrightarrow> \<exists>msg. authenticate lib now secret (gc_Metadata c) = Inl (Status Unauthenticated msg)"
  by (auto simp: no_token_def authenticate_def)

lemma chain_result_refused:
  assumes "\<exists>msg. access = Inl (Status Unauthenticated msg)"
  shows "\<exists>k msg m rl. k \<in> {Unauthenticated, ResourceExhausted}
    \<and> chain_result c access h (m0, rl0, t, s) = (Inl (Status k msg), m, rl, t, s)"
  using assms by (auto simp: chain_result_def Let_def split: prod.splits)

lemma unary_refused:
  assumes "no_token c" "gc_FullMethod c \<notin> public_methods"
  shows "\<exists>k msg m rl. k \<in> {Unauthenticated, ResourceExhausted}
    \<and> unary_chain lib secret c h (m0, rl0, t, s) = (Inl (Status k msg), m, rl, t, s)"
  unfolding unary_chain_result unary_context_def if_not_P [OF assms(2)]
  by (rule chain_result_refused [OF no_token_unauthenticated [OF assms(1)]])

lemma stream_refused:
  assumes "no_token c" "gc_FullMethod c \<notin> public_methods"
  shows "\<exists>k msg m rl. k \<in> {Unauthenticated, ResourceExhausted}
    \<and> stream_chain lib secret c h (m0, rl0, t, s) = (Inl (Status k msg), m, rl, t, s)"
  unfolding stream_chain_result stream_context_def if_not_P [OF assms(2)]
  using no_token_unauthenticated [OF assms(1), of lib "gc_Parsed c" secret]
  by (intro chain_result_refused) auto

section \<open>Example\<close>

definition demo_call :: "string \<Rightarrow> string list \<Rightarrow> time \<Rightarrow> grpc_call" where
  "demo_call method md t =
     \<lparr>gc_FullMethod = method, gc_Peer = Some ''10.0.0.1:5'', gc_Metadata = Some md, gc_Arrives = t, gc_Limited = t,
      gc_Parsed = t, gc_Starts = t, gc_Stops = t + 2000000, gc_Leaves = t + 2000000, gc_AuditFails = False\<rparr>"

definition demo_tokens :: jwt_lib where
  "demo_tokens =
     \<lparr>jw_sign = (\<lambda>_ _. None),
      jw_parse = (\<lambda>now key t. if t = ''T''
         then Some \<lparr>cl_Subject = ''u1'', cl_Email = ''ann@x.io'', cl_IssuedAt = 0, cl_ExpiresAt = second\<rparr> else None)\<rparr>"

definition demo_requests :: "(unit, nat) request list" where
  "demo_requests =
     [UnaryRequest (demo_call ''/transfer.v1.TransferService/CancelTransfer'' [''Bearer T''] 0) (\<lambda>ctx s. (Inr (), s + 1)),
      UnaryRequest (demo_call ''/transfer.v1.TransferService/PauseTransfer'' [] 1000000000) (\<lambda>ctx s. (Inr (), s + 1)),
      StreamRequest (demo_call ''/transfer.v1.TransferService/SendChunk'' [''Bearer T''] 2000000000)
        (\<lambda>ctx s. (Inl (Status NotFound ''''), s + 1))]"

lemma demo_requests_served:
  "\<exists>m rl. foldl (\<lambda>sv e. serve demo_tokens ''s'' sv (with_trace e)) (new_server ([], 0)) demo_requests =
     (m, rl,
      [\<lparr>al_ID = 1, al_UserID = ''u1'', al_Method = ''/transfer.v1.TransferService/CancelTransfer'', al_Code = ''OK'',
        al_PeerAddr = ''10.0.0.1:5'', al_DurationMs = 2, al_CreatedAt = 2000000\<rparr>,
       \<lparr>al_ID = 2, al_UserID = '''', al_Method = ''/transfer.v1.TransferService/SendChunk'', al_Code = ''NotFound'',
        al_PeerAddr = ''10.0.0.1:5'', al_DurationMs = 2, al_CreatedAt = 2002000000\<rparr>],
      [(True, demo_call ''/transfer.v1.TransferService/CancelTransfer'' [''Bearer T''] 0,
          \<lparr>ac_user = Some ''u1'', ac_email = Some ''ann@x.io''\<rparr>, ''OK''),
       (False, demo_call ''/transfer.v1.TransferService/SendChunk'' [''Bearer T''] 2000000000, no_user, ''NotFound'')], 2)"
  by (simp add: demo_requests_def new_server_def new_rate_limiter_def unary_chain_result stream_chain_result
      chain_result_def unary_context_def stream_context_def public_methods_def demo_call_def authenticate_def
      trim_prefix_def demo_tokens_def rl_allow_def traced_def audit_record_def user_id_from_context_def no_user_def
      peer_addr_def seconds_def Let_def signed_divide_int_def)


end
