(* ===== verification/System.thy ===== *)
theory System
  imports TransferLaws DiscoveryLaws Chain
begin

text \<open>
  The services together: relay nodes whose clients call the discovery service, the routing
  service and each other, and a transfer service that asks the routing service for its routes.
  Every such call runs through the interceptors that \<open>cmd\<close> installs in the called service, and
  none of the clients adds a token to it. What the called service holds may change while a
  request travels: it is a function of the time.
\<close>

section \<open>Calls between services\<close>

text \<open>The methods that services call on each other.\<close>

definition internal_methods :: "string list" where
  "internal_methods =
     [''/routing.v1.RoutingService/FindRoute'', ''/discovery.v1.DiscoveryService/FindPeers'',
      ''/discovery.v1.DiscoveryService/GetNodeInfo'', ''/discovery.v1.DiscoveryService/StreamPeerUpdates'',
      ''/relay.v1.RelayService/RelayChunk'', ''/relay.v1.RelayService/FetchChunk'',
      ''/relay.v1.RelayService/Ping'']"

text \<open>A call as those clients make it: they pass on a context to which no \<open>authorization\<close> was
  added, and gRPC sends nothing of the metadata that came in. The rest of the call, its peer
  and the clocks it meets, is that of \<open>c\<close>.\<close>

definition internal_call :: "string \<Rightarrow> grpc_call \<Rightarrow> grpc_call" where
  "internal_call fullMethod c = c\<lparr>gc_FullMethod := fullMethod, gc_Metadata := Some []\<rparr>"

text \<open>How the interceptors of a server answer a call, \<open>None\<close> when the call gets to its handler.\<close>

definition chain_verdict :: "jwt_lib \<Rightarrow> string \<Rightarrow> grpc_call \<Rightarrow> 's server \<Rightarrow> status option" where
  "chain_verdict lib secret c sv =
     (case fst (unary_chain lib secret c (\<lambda>ctx s. (Inr (), s)) sv) of Inl e \<Rightarrow> Some e | Inr _ \<Rightarrow> None)"

definition server_state :: "'s server \<Rightarrow> 's" where
  "server_state sv = snd (snd (snd sv))"

lemma internal_call_simps [simp]:
  "gc_FullMethod (internal_call m c) = m" "no_token (internal_call m c)"
  by (simp_all add: internal_call_def no_token_def)

text \<open>The verdict is what the chain does, whatever the handler.\<close>

lemma chain_verdict_sound:
  "case chain_verdict lib secret c sv of
     Some e \<Rightarrow> fst (unary_chain lib secret c h sv) = Inl e
       \<and> server_state (snd (unary_chain lib secret c h sv)) = server_state sv
   | None \<Rightarrow> \<exists>ctx. fst (unary_chain lib secret c h sv) = fst (h ctx (server_state sv))
       \<and> server_state (snd (unary_chain lib secret c h sv)) = snd (h ctx (server_state sv))"
  by (cases sv)
    (auto simp: chain_verdict_def unary_chain_result chain_result_def server_state_def Let_def case_prod_beta
      split: sum.splits if_splits)

lemma private_refused:
  assumes "m \<notin> public_methods"
  shows "chain_verdict lib secret (internal_call m c) sv \<noteq> None"
    and "\<exists>e. fst (unary_chain lib secret (internal_call m c) h sv) = Inl e"
    and "\<exists>e. fst (stream_chain lib secret (internal_call m c) h' sv) = Inl e"
proof -
  obtain m0 rl0 t s where sv: "sv = (m0, rl0, t, s)" by (cases sv)
  have p: "gc_FullMethod (internal_call m c) \<notin> public_methods" using assms by simp
  note u = unary_refused [OF internal_call_simps(2) p, of lib secret _ m0 rl0 t s]
  show "\<exists>e. fst (unary_chain lib secret (internal_call m c) h sv) = Inl e"
    using u [of h] unfolding sv by (elim exE conjE) simp
  show "\<exists>e. fst (stream_chain lib secret (internal_call m c) h' sv) = Inl e"
    using stream_refused [OF internal_call_simps(2) p, of lib secret h' m0 rl0 t s] unfolding sv by (elim exE conjE) simp
  show "chain_verdict lib secret (internal_call m c) sv \<noteq> None"
    unfolding chain_verdict_def sv using u [of "\<lambda>ctx s. (Inr (), s)"] by (elim exE conjE) simp
qed

lemma private_methods:
  "relay_chunk_method \<notin> public_methods" "''/relay.v1.RelayService/FetchChunk'' \<notin> public_methods"
  "''/relay.v1.RelayService/Ping'' \<notin> public_methods" "''/routing.v1.RoutingService/FindRoute'' \<notin> public_methods"
  "''/discovery.v1.DiscoveryService/StreamPeerUpdates'' \<notin> public_methods"
  by (simp_all add: public_methods_def relay_chunk_method_def)

section \<open>The wiring\<close>

text \<open>The called services at each instant: JWT library and secret, which they share, the servers
  with the state of their interceptors and handlers, what fails in them, and the call that
  reaches them.\<close>

record services =
  sv_lib :: jwt_lib
  sv_secret :: string
  sv_call :: "time \<Rightarrow> grpc_call"
  sv_discovery :: "time \<Rightarrow> peer list server"
  sv_peersFail :: "time \<Rightarrow> bool" \<comment> \<open>a query on the peers table fails\<close>
  sv_routing :: "time \<Rightarrow> routing_db server"
  sv_routingFails :: "time \<Rightarrow> routing_faults"
  sv_intel :: "time \<Rightarrow> (node_id \<Rightarrow> bool) option"
  sv_transfer :: "time \<Rightarrow> node_id \<Rightarrow> unit server" \<comment> \<open>the interceptors before a node's relay handler\<close>

definition deployed_find_route ::
  "services \<Rightarrow> time \<Rightarrow> node_id \<Rightarrow> node_id \<Rightarrow> int32 \<Rightarrow> node_id list \<Rightarrow> find_route_response result" where
  "deployed_find_route sv t src target maxHops exclude =
     fst (unary_chain (sv_lib sv) (sv_secret sv) (internal_call ''/routing.v1.RoutingService/FindRoute'' (sv_call sv t))
       (\<lambda>ctx db. (find_route (sv_intel sv t) (sv_routingFails sv t) db src target maxHops exclude, db))
       (sv_routing sv t))"

definition deployed_get_node_info :: "services \<Rightarrow> time \<Rightarrow> node_id \<Rightarrow> peer result" where
  "deployed_get_node_info sv t n =
     fst (unary_chain (sv_lib sv) (sv_secret sv)
       (internal_call ''/discovery.v1.DiscoveryService/GetNodeInfo'' (sv_call sv t))
       (\<lambda>ctx ps. (get_node_info (sv_peersFail sv t) n ps, ps)) (sv_discovery sv t))"

definition deployed_find_peers :: "services \<Rightarrow> time \<Rightarrow> node_id \<Rightarrow> int32 \<Rightarrow> peer list result" where
  "deployed_find_peers sv t n num =
     fst (unary_chain (sv_lib sv) (sv_secret sv)
       (internal_call ''/discovery.v1.DiscoveryService/FindPeers'' (sv_call sv t))
       (\<lambda>ctx ps. (find_peers (sv_peersFail sv t) n num ps, ps)) (sv_discovery sv t))"

text \<open>The relay's environment with the deployed services in place of the remote ones:
  \<open>PeerPool.resolveAddr\<close> calls \<open>GetNodeInfo\<close>, the rerouter \<open>FindRoute\<close>, the replicator \<open>FindPeers\<close>, and
  a call to another node meets the interceptors there.\<close>

definition wire :: "services \<Rightarrow> relay_env \<Rightarrow> relay_env" where
  "wire sv env = env\<lparr>
     env_info := \<lambda>t n. map_sum id (\<lambda>p. Some (pe_Addrs p)) (deployed_get_node_info sv t n),
     env_chain := \<lambda>t fullMethod me h.
       chain_verdict (sv_lib sv) (sv_secret sv) (internal_call fullMethod (sv_call sv t)) (sv_transfer sv t h),
     env_route := \<lambda>t src target maxHops exclude.
       map_sum id fr_Hops (deployed_find_route sv t src target maxHops exclude),
     env_peers := \<lambda>t n num. map_sum id (map pe_NodeID) (deployed_find_peers sv t n num)\<rparr>"

text \<open>The routing client of the transfer service, at the instant of an \<open>InitiateTransfer\<close>.\<close>

definition with_deployed_routing :: "services \<Rightarrow> time \<Rightarrow> transfer_config \<Rightarrow> transfer_config" where
  "with_deployed_routing sv t cfg =
     cfg\<lparr>tc_routing := Some (\<lambda>src target maxHops. deployed_find_route sv t src target maxHops [])\<rparr>"

lemma wire_simps [simp]:
  "env_sha (wire sv env) = env_sha env"
  "env_dialFails (wire sv env) = env_dialFails env"
  "env_host (wire sv env) = env_host env"
  "env_up (wire sv env) = env_up env"
  "env_reply (wire sv env) = env_reply env"
  "env_faults (wire sv env) = env_faults env"
  by (simp_all add: wire_def)

lemma deployed_find_route_refused: "\<exists>e. deployed_find_route sv t src target maxHops exclude = Inl e"
  unfolding deployed_find_route_def by (rule private_refused(2) [OF private_methods(4)])

lemma wire_refuses: "relaying_refused (wire sv env) me"
  by (simp add: relaying_refused_def wire_def private_refused(1) [OF private_methods(1)])

text \<open>A relay never finds another way round a node that failed it.\<close>

theorem deployed_reroute_finds_nothing: "find_alternative_route (wire sv env) t me target failed = None"
  using deployed_find_route_refused [of sv t me target 10 "[failed]"]
  by (auto simp: find_alternative_route_def wire_def)

text \<open>What the discovery service answers is answered, when the limiter admits the call.\<close>

lemma deployed_discovery_answers:
  assumes "chain_verdict (sv_lib sv) (sv_secret sv)
      (internal_call ''/discovery.v1.DiscoveryService/FindPeers'' (sv_call sv t)) (sv_discovery sv t) = None"
  shows "deployed_find_peers sv t n num = find_peers (sv_peersFail sv t) n num (server_state (sv_discovery sv t))"
  using chain_verdict_sound [where lib = "sv_lib sv" and secret = "sv_secret sv" and sv = "sv_discovery sv t"
      and c = "internal_call ''/discovery.v1.DiscoveryService/FindPeers'' (sv_call sv t)" and h = "\<lambda>ctx ps. (find_peers (sv_peersFail sv t) n num ps, ps)"] assms
  by (auto simp: deployed_find_peers_def)

section \<open>Replication over the discovery service\<close>

lemma pick_targets_take:
  assumes "in_int32 k" "1 < k" "int (length acc) + int (length ps) < 2 ^ 31" "int (length acc) < k - 1"
  shows "pick_targets ex k ps acc = acc @ take (nat (k - 1) - length acc) (filter (\<lambda>p. p \<notin> set ex) ps)"
  using assms(3,4)
proof (induction ps arbitrary: acc)
  case (Cons p ps)
  have w: "wrap32 (k - 1) = k - 1" "wrap32 (1 + int (length acc)) = 1 + int (length acc)"
    using assms(1,2) Cons.prems by (auto intro!: wrap32_id simp: in_int32_def)
  show ?case
  proof (cases "p \<in> set ex \<or> int (length acc) + 1 < k - 1")
    case True
    then show ?thesis
      using Cons.IH [of acc] Cons.IH [of "acc @ [p]"] Cons.prems
      by (auto simp: Let_def w Suc_diff_Suc take_Cons')
  next
    case False
    then have "nat (k - 1) = Suc (length acc)" using Cons.prems by linarith
    then show ?thesis using False by (simp add: Let_def w)
  qed
qed simp

text \<open>Replicas would go to the most recently announced nodes: with factor \<open>k\<close>, to the first
  \<open>k - 1\<close> nodes, other than the excluded ones, among the \<open>2 k\<close> that discovery saw last.\<close>

theorem replicas_at_recent_peers:
  assumes "1 < rj_Factor j" "2 * rj_Factor j < 2 ^ 31" "rj_TransferId j \<noteq> ''''" "\<not> sv_peersFail sv now"
    and "chain_verdict (sv_lib sv) (sv_secret sv)
      (internal_call ''/discovery.v1.DiscoveryService/FindPeers'' (sv_call sv now)) (sv_discovery sv now) = None"
  shows "replicate_targets (wire sv env) now j =
     take (nat (rj_Factor j - 1))
       (filter (\<lambda>n. n \<notin> set (rj_Exclude j))
         (map pe_NodeID (take (nat (2 * rj_Factor j))
           (others (rj_TransferId j) (list_peers_sql (server_state (sv_discovery sv now)))))))"
proof -
  let ?ps = "server_state (sv_discovery sv now)"
  have w: "wrap32 (rj_Factor j * 2) = 2 * rj_Factor j" "in_int32 (rj_Factor j)"
    using assms(1,2) by (auto intro!: wrap32_id simp: in_int32_def mult.commute)
  have f: "find_peers False (rj_TransferId j) (2 * rj_Factor j) ?ps =
      Inr (take (nat (2 * rj_Factor j)) (others (rj_TransferId j) (list_peers_sql ?ps)))"
    using find_peers_take [OF assms(3)] assms(1) by simp
  show ?thesis
    using assms(1,2,4) pick_targets_take [OF w(2) assms(1), of "[]"] deployed_discovery_answers [OF assms(5)]
    by (simp add: replicate_targets_def wire_def w(1) f)
qed

section \<open>What a service that others refuse does\<close>

text \<open>A step in which no other node's store changes, no relay handler runs and no replication
  starts.\<close>

definition local_step :: "node_id \<Rightarrow> world \<Rightarrow> world \<Rightarrow> bool" where
  "local_step me w w' \<longleftrightarrow> (\<forall>n. n \<noteq> me \<longrightarrow> store_of w' n = store_of w n)
     \<and> w_runs w' = w_runs w \<and> w_jobs w' = w_jobs w"

lemma local_refl [simp]: "local_step me w w"
  by (simp add: local_step_def)

lemma local_trans: "local_step me u v \<Longrightarrow> local_step me v w \<Longrightarrow> local_step me u w"
  by (simp add: local_step_def)

lemma local_quiet: "quiet env w w' \<Longrightarrow> local_step me w w'"
  by (simp add: local_step_def quiet_def)

lemma local_relay_upload: "local_step me w (relay_upload cfg (wire sv env) st c w)"
  using local_quiet [OF forward_refused(2) [OF wire_refuses]] by (simp add: relay_upload_def Let_def)

lemma local_upload_chunk:
  "local_step (tc_NodeID cfg) (ts_net s) (ts_net (snd (upload_chunk cfg (wire sv env) flt k st c s)))"
proof -
  have p: "local_step (tc_NodeID cfg) (ts_net s) (snd (persist_chunk cfg (wire sv env) st c (ts_net s)))"
    by (simp add: persist_chunk_def local_step_def case_prod_beta Let_def)
  show ?thesis
    using p local_trans [OF p local_relay_upload] by (simp add: upload_chunk_def case_prod_beta Let_def)
qed

lemma local_take_message:
  "local_step (tc_NodeID cfg) (ts_net s) (ts_net (snd (take_message cfg (wire sv env) flt k st c s)))"
proof -
  have "ts_net (snd (open_upload flt tid st s)) = ts_net s" for tid
    by (auto simp: open_upload_def open_group_def open_single_def Let_def split: sum.splits)
  then show ?thesis
    using local_upload_chunk [of cfg "snd (open_upload flt (dc_TransferId c) st s)" sv env flt k _ c]
      local_upload_chunk [of cfg s sv env flt k _ c]
    by (auto simp: take_message_def case_prod_beta Let_def split: sum.splits)
qed

lemma local_send_loop:
  "local_step (tc_NodeID cfg) (ts_net s) (ts_net (snd (send_loop cfg (wire sv env) flt eof k st cs s)))"
proof (induction cs arbitrary: k st s)
  case Nil
  then show ?case by (simp add: finish_upload_def Let_def)
next
  case (Cons c cs)
  note m = local_take_message [of cfg s sv env flt k st c]
  show ?case
    using m local_trans [OF m Cons.IH] by (simp add: case_prod_beta Let_def split: sum.splits)
qed

section \<open>Uploads\<close>

lemma initiated_row:
  assumes "initiate_transfer cfg flt newID req s = (Inr resp, s')" "tc_routing cfg = Some route"
    and "route (ir_SenderNodeId req) (ir_ReceiverNodeId req) 10 = Inl e" "ir_AutoApprove req"
  shows "\<exists>t. get_transfer_sql newID (transfers_of s') = Some t \<and> tr_RouteHops t = []
    \<and> tr_Status t = st_PENDING \<and> tr_TotalChunks t = is_TotalChunks resp \<and> tr_GroupTransferID t = None
    \<and> tr_TransferID t = newID"
    and "ts_net s' = ts_net s" "groups_of s' = groups_of s" "is_RouteHops resp = []"
proof -
  obtain row t rows where cr: "create_transfer_sql (clock s) row (transfers_of s) = Some (t, rows)"
    and row: "tr_TransferID row = newID" "tr_RouteHops row = []" "tr_Status row = st_PENDING"
      "tr_TotalChunks row = is_TotalChunks resp" "tr_GroupTransferID row = None"
    and s': "s' = set_transfers rows s" "is_RouteHops resp = []"
    using assms
    by (auto simp: initiate_transfer_def Let_def split: if_splits sum.splits prod.splits
        dest!: db_row_Inr [THEN iffD1])
  have t: "t = row\<lparr>tr_ChunksDone := 0, tr_TransferMode := 1, tr_CreatedAt := clock s, tr_UpdatedAt := clock s\<rparr>"
    using cr by (auto simp: create_transfer_sql_def Let_def split: if_splits)
  show "\<exists>t. get_transfer_sql newID (transfers_of s') = Some t \<and> tr_RouteHops t = []
    \<and> tr_Status t = st_PENDING \<and> tr_TotalChunks t = is_TotalChunks resp \<and> tr_GroupTransferID t = None
    \<and> tr_TransferID t = newID"
    using get_create [OF cr] row s' by (simp add: t)
  show "ts_net s' = ts_net s" "groups_of s' = groups_of s" "is_RouteHops resp = []" using s' by simp_all
qed

text \<open>C1: Where an uploaded file ends up in the deployment of \<open>cmd\<close>. A transfer that needs no
  approval, initiated at a service whose routing client calls the deployed routing service, is
  created without a route; uploading all its chunks completes it; and then the transfer
  service's own node holds every chunk, the store of every other node, the receiver's included,
  is what it was when the transfer was initiated, and no relay handler has run: the receiver
  gets the file only by downloading it from this service.\<close>

theorem deployed_file_stays_local:
  assumes "initiate_transfer (with_deployed_routing sv t cfg) flt tid req s0 = (Inr resp, s)" "ir_AutoApprove req"
    and "plain_id tid" "get_group_sql tid (groups_of s0) = None" "is_TotalChunks resp = int (length parts)"
    and "parts \<noteq> []" "int (length parts) < 2 ^ 31" "\<forall>d\<in>set parts. env_sha env d \<noteq> ''''"
    and "store_works cfg env" "\<forall>q. \<not> flt q"
  shows "is_RouteHops resp = []
    \<and> (\<exists>up s'. send_chunk cfg (wire sv env) flt True (messages env tid parts) s = (Inr up, s')
      \<and> sd_Status up = st_COMPLETED
      \<and> (\<forall>j < length parts. chunk_at (store_of (ts_net s') (tc_NodeID cfg)) tid (int j) = Some (parts ! j))
      \<and> (\<forall>n. n \<noteq> tc_NodeID cfg \<longrightarrow> store_of (ts_net s') n = store_of (ts_net s0) n)
      \<and> w_runs (ts_net s') = w_runs (ts_net s0))"
proof -
  obtain e where e: "deployed_find_route sv t (ir_SenderNodeId req) (ir_ReceiverNodeId req) 10 [] = Inl e"
    using deployed_find_route_refused by blast
  obtain t0 where t0: "get_transfer_sql tid (transfers_of s) = Some t0" "tr_Status t0 = st_PENDING"
    "tr_TotalChunks t0 = int (length parts)" "tr_GroupTransferID t0 = None" "tr_TransferID t0 = tid"
    and s: "ts_net s = ts_net s0" "groups_of s = groups_of s0" and hops: "is_RouteHops resp = []"
    using initiated_row [OF assms(1), of "\<lambda>src target n. deployed_find_route sv t src target n []" e] e assms(2,5) by (auto simp: with_deployed_routing_def)
  let ?env = "wire sv env"
  let ?s1 = "set_transfers (update_transfer_status_sql (clock s) tid st_IN_PROGRESS (transfers_of s)) s"
  let ?st = "send_start\<lparr>ss_transferID := tid, ss_storageID := tid, ss_total := int (length parts),
      ss_replication := tr_ReplicationFactor t0, ss_hops := tr_RouteHops t0\<rparr>"
  have o: "open_upload flt tid send_start s = (Inr ?st, ?s1)"
    using t0 assms(4,10) s by (simp add: open_upload_def open_single_def send_start_def try_update_def)
  have m: "messages env tid parts = messages ?env tid parts" by (simp add: messages_def)
  have works: "store_works cfg ?env" "\<forall>d\<in>set parts. env_sha ?env d \<noteq> ''''"
    using assms(8,9) by (simp_all add: store_works_def)
  obtain s' where s': "send_chunk cfg ?env flt True (messages ?env tid parts) s =
       finish_upload flt (?st\<lparr>ss_received := int (length parts)\<rparr>) s'"
    "\<And>j. j < length parts \<Longrightarrow> chunk_at (store_of (ts_net s') (tc_NodeID cfg)) (ss_storageID ?st) (int j) = Some (parts ! j)"
    by (rule upload_opened [OF o works(1) _ _ assms(7,6) works(2)]) (use assms(3) in auto)
  let ?s2 = "set_transfers (complete_transfer_sql (clock s') tid (transfers_of s')) s'"
  have fin: "\<exists>up. send_chunk cfg ?env flt True (messages env tid parts) s = (Inr up, ?s2) \<and> sd_Status up = st_COMPLETED"
    using assms(10) unfolding m s'(1) by (simp add: finish_upload_def try_update_def send_start_def)
  then have "local_step (tc_NodeID cfg) (ts_net s) (ts_net ?s2)"
    using local_send_loop [of cfg s sv env flt True 0 send_start "messages env tid parts"]
    by (auto simp: send_chunk_def)
  then show ?thesis using hops fin s'(2) s by (auto simp: local_step_def)
qed

section \<open>A network whose nodes admit each other's calls\<close>

lemma filter_self_suffix:
  assumes "hops \<noteq> []" "hop_NodeId (last hops) \<noteq> me"
  shows "filter_self_from_hops me hops \<noteq> []" "last (filter_self_from_hops me hops) = last hops"
    "set (filter_self_from_hops me hops) \<subseteq> set hops" "length (filter_self_from_hops me hops) \<le> length hops"
proof -
  let ?f = "filter_self_from_hops me hops"
  have "?f \<noteq> [] \<and> last ?f = last hops \<and> set ?f \<subseteq> set hops \<and> length ?f \<le> length hops"
  proof (cases "dropWhile (\<lambda>h. hop_NodeId h \<noteq> me) hops")
    case Nil
    then have "?f = hops" unfolding filter_self_from_hops_def by (simp only: list.case)
    then show ?thesis using assms(1) by simp
  next
    case (Cons x rest)
    then obtain pre where hops: "hops = pre @ x # rest" by (metis takeWhile_dropWhile_id)
    have x: "hop_NodeId x = me" using Cons by (simp add: dropWhile_eq_Cons_conv)
    have "rest \<noteq> []" using hops x assms(2) by auto
    moreover have "?f = rest" unfolding filter_self_from_hops_def by (simp only: Cons list.case)
    ultimately show ?thesis by (auto simp: hops)
  qed
  then show "?f \<noteq> []" "last ?f = last hops" "set ?f \<subseteq> set hops" "length ?f \<le> length hops" by simp_all
qed

lemma relay_upload_up:
  assumes "network_up ns env" "pools_up env w" "tc_relay cfg" "ss_hops st \<noteq> []"
    and "hop_NodeId (last (ss_hops st)) \<noteq> tc_NodeID cfg" "hop_NodeId ` set (ss_hops st) \<subseteq> ns"
    and "plain_id (ss_transferID st)" "in_int32 (dc_ChunkIndex c)" "dc_Data c \<noteq> []"
    and "env_sha env (dc_Data c) = dc_ChunkHash c" "int (length (ss_hops st)) + 2 < 2 ^ 31"
  shows "chunk_at (store_of (relay_upload cfg env st c w) (hop_NodeId (last (ss_hops st))))
      (ss_transferID st) (dc_ChunkIndex c) = Some (dc_Data c)"
    and "pools_up env (relay_upload cfg env st c w)"
proof -
  let ?r = "filter_self_from_hops (tc_NodeID cfg) (ss_hops st)"
  let ?req = "upload_request st c ?r"
  let ?n = "hop_NodeId (?r ! 0)"
  let ?f = "forward_chunk env (relay_chunk env) (tc_NodeID cfg) ?n ?req w"
  note r = filter_self_suffix [OF assms(4,5)]
  have f: "relay_upload cfg env st c w = snd ?f" using assms(3,4) r(1) by (simp add: relay_upload_def Let_def)
  have ttl: "rq_Ttl ?req = int (length ?r) + 2"
    using r(4) assms(11) by (auto simp: upload_request_def in_int32_def intro!: wrap32_id)
  have req: "rq_TransferId ?req = ss_transferID st" "rq_ChunkIndex ?req = dc_ChunkIndex c" "rq_Data ?req = dc_Data c"
    "rq_RemainingHops ?req = ?r" "verified env ?req"
    using assms(10) by (simp_all add: upload_request_def verified_def)
  have n: "insert ?n (hop_NodeId ` set ?r) \<subseteq> ns" using r(1,3) assms(6) by auto
  let ?v = "\<lparr>rs_Success = True, rs_NodeId = hop_NodeId (last (ss_hops st)), rs_ErrorMessage = None\<rparr>"
  have "fst (relay_chunk env ?n ?req v) = Inr ?v \<and> pools_up env (snd (relay_chunk env ?n ?req v))" if "pools_up env v" for v
    using relay_levels_delivers [OF assms(1) that, where me = ?n and req = ?req and k = "Suc (nat (rq_Ttl ?req))"]
      n req ttl assms(7,9,11) r
    by (simp add: relay_chunk_def route_dest_def in_int32_def plain_id_def)
  then have up: "fst ?f = Inr ?v \<and> pools_up env (snd ?f)"
    unfolding forward_chunk_def using assms(1,2) n by (intro with_peer_up) auto
  then show "pools_up env (relay_upload cfg env st c w)" using f by simp
  obtain w1 h where w1: "fst (relay_chunk env h ?req w1) = Inr ?v" "quiet env (snd (relay_chunk env h ?req w1)) (snd ?f)"
    using up by (metis forward_chunk_called)
  have "chunk_at (store_of (snd (relay_chunk env h ?req w1)) (rs_NodeId ?v)) (ss_transferID st) (dc_ChunkIndex c) = Some (dc_Data c)"
    using relay_levels_ack [of ?req env "Suc (nat (rq_Ttl ?req))" h w1 ?v] w1(1) req assms(7,8)
    by (simp add: relay_chunk_def)
  then show "chunk_at (store_of (relay_upload cfg env st c w) (hop_NodeId (last (ss_hops st))))
      (ss_transferID st) (dc_ChunkIndex c) = Some (dc_Data c)"
    using quiet_chunk [OF w1(2)] f by simp
qed

lemma upload_chunk_relays:
  assumes "store_works cfg env" "upload_chunk cfg env flt k st c s = (Inr st1, s1)"
  shows "dc_ChunkHash c = env_sha env (dc_Data c)"
    and "\<exists>fs. ts_net s1 = relay_upload cfg env st c (set_store (tc_NodeID cfg) fs (ts_net s))"
proof -
  let ?w1 = "set_store (tc_NodeID cfg)
      (put_chunk (ss_storageID st) (dc_ChunkIndex c) (dc_Data c) (store_of (ts_net s) (tc_NodeID cfg))) (ts_net s)"
  have p: "persist_chunk cfg env st c (ts_net s) = (True, ?w1)"
    using assms(1) by (simp add: persist_chunk_def store_works_def save_chunk_no_faults)
  show "dc_ChunkHash c = env_sha env (dc_Data c)"
    using assms(2) by (auto simp: upload_chunk_def split: if_splits)
  have "ts_net s1 = relay_upload cfg env st c ?w1"
    using assms(2) p by (auto simp: upload_chunk_def Let_def split: if_splits)
  then show "\<exists>fs. ts_net s1 = relay_upload cfg env st c (set_store (tc_NodeID cfg) fs (ts_net s))" by blast
qed

text \<open>What holds of the receiver's store while the first \<open>k\<close> chunks have been sent.\<close>

definition delivered :: "relay_env \<Rightarrow> node_id \<Rightarrow> string \<Rightarrow> bytes list \<Rightarrow> nat \<Rightarrow> transfer_service \<Rightarrow> bool" where
  "delivered env dest tid parts k s \<longleftrightarrow>
     pools_up env (ts_net s) \<and> (\<forall>j<k. chunk_at (store_of (ts_net s) dest) tid (int j) = Some (parts ! j))"

lemma upload_chunk_delivers:
  assumes "network_up ns env" "tc_relay cfg" "store_works cfg env" "ss_hops st \<noteq> []"
    and "hop_NodeId (last (ss_hops st)) = dest" "dest \<noteq> tc_NodeID cfg" "hop_NodeId ` set (ss_hops st) \<subseteq> ns"
    and "plain_id (ss_transferID st)" "int (length parts) < 2 ^ 31" "int (length (ss_hops st)) + 2 < 2 ^ 31"
    and "k < length parts" "parts ! k \<noteq> []" "delivered env dest (ss_transferID st) parts k s"
    and "upload_chunk cfg env flt k st (messages env tid parts ! k) s = (Inr st1, s1)"
  shows "delivered env dest (ss_transferID st) parts (Suc k) s1"
proof -
  let ?c = "messages env tid parts ! k" and ?tid = "ss_transferID st"
  have c: "dc_ChunkIndex ?c = int k" "dc_Data ?c = parts ! k" using assms(11) by (simp_all add: messages_def)
  obtain fs where w: "ts_net s1 = relay_upload cfg env st ?c (set_store (tc_NodeID cfg) fs (ts_net s))"
    using upload_chunk_relays(2) [OF assms(3,14)] by blast
  let ?w1 = "set_store (tc_NodeID cfg) fs (ts_net s)"
  have up: "pools_up env ?w1" using assms(13) by (simp add: delivered_def pools_up_def)
  have i: "in_int32 (int j)" if "j < length parts" for j using that assms(9) by (simp add: in_int32_def)
  note here = relay_upload_up [OF assms(1) up assms(2,4), of ?c]
  have "chunk_at (store_of (ts_net s1) dest) ?tid (int k) = Some (parts ! k)"
    and "pools_up env (ts_net s1)"
    using here assms(5,6,7,8,10,12) upload_chunk_relays(1) [OF assms(3,14)] c i [OF assms(11)] by (simp_all add: w)
  moreover have "chunk_at (store_of (ts_net s1) dest) ?tid (int j) = Some (parts ! j)" if "j < k" for j
  proof -
    have "chunk_at (store_of ?w1 dest) ?tid (int j) = Some (parts ! j)"
      using assms(6,13) that by (simp add: delivered_def)
    then show ?thesis
      using relay_upload_chunks [OF assms(8) _ assms(8), of ?c "int j" cfg env ?w1 dest] that c i assms(11)
      by (auto simp: w)
  qed
  ultimately show ?thesis by (auto simp: delivered_def less_Suc_eq)
qed

text \<open>The upload of a transfer that has a route, in a network whose nodes let the calls of other
  nodes through: every chunk goes along it, and the last node of the route holds them all.\<close>

lemma routed_upload_delivers:
  assumes row: "get_transfer_sql tid (transfers_of s) = Some t" "tr_Status t = st_PENDING"
      "tr_TotalChunks t = int (length parts)" "tr_GroupTransferID t = None" "tr_TransferID t = tid"
    and hops: "tr_RouteHops t \<noteq> []" "length (tr_RouteHops t) \<le> 10" "hop_NodeId (last (tr_RouteHops t)) = dst"
    and network: "network_up (hop_NodeId ` set (tr_RouteHops t)) env" "pools_up env (ts_net s)" "tc_relay cfg"
      "dst \<noteq> tc_NodeID cfg"
    and data: "plain_id tid" "get_group_sql tid (groups_of s) = None" "parts \<noteq> []" "int (length parts) < 2 ^ 31"
      "\<forall>d\<in>set parts. d \<noteq> [] \<and> env_sha env d \<noteq> ''''" "store_works cfg env" "\<forall>q. \<not> flt q"
  shows "\<exists>up s'. send_chunk cfg env flt True (messages env tid parts) s = (Inr up, s')
    \<and> sd_Status up = st_COMPLETED
    \<and> (\<forall>j < length parts. chunk_at (store_of (ts_net s') dst) tid (int j) = Some (parts ! j))"
proof -
  let ?s1 = "set_transfers (update_transfer_status_sql (clock s) tid st_IN_PROGRESS (transfers_of s)) s"
  let ?st = "send_start\<lparr>ss_transferID := tid, ss_storageID := tid, ss_total := int (length parts),
      ss_replication := tr_ReplicationFactor t, ss_hops := tr_RouteHops t\<rparr>"
  have o: "open_upload flt tid send_start s = (Inr ?st, ?s1)"
    using row data(2,7) hops(1) by (simp add: open_upload_def open_single_def send_start_def try_update_def)
  obtain c cs where c: "messages env tid parts = c # cs" "dc_TransferId c = tid"
    using data(3) by (cases parts) (auto simp: messages_def upt_conv_Cons simp del: upt_Suc)
  have tid: "tid \<noteq> ''''" using data(1) by (auto simp: plain_id_def)
  have start: "send_chunk cfg env flt True (messages env tid parts) s =
      send_loop cfg env flt True 0 ?st (drop 0 (messages env tid parts)) ?s1"
    using send_opened [of flt c s ?st ?s1 cfg env True cs] o c tid by simp
  have none: "delivered env dst tid parts 0 ?s1" using network(2) by (simp add: delivered_def)
  have step: "delivered env dst tid parts (Suc k) s1"
    if "k < length parts" "ss_transferID st' = ss_transferID ?st" "ss_hops st' = ss_hops ?st"
      "delivered env dst tid parts k s"
      "upload_chunk cfg env flt k st' (messages env tid parts ! k) s = (Inr (st'\<lparr>ss_received := int k + 1\<rparr>), s1)"
    for k st' s s1
    using upload_chunk_delivers [OF network(1,3) data(6), of st' dst parts k s flt tid _ s1]
      that hops network(4) data(1,4,5) by auto
  obtain s' where loop: "send_chunk cfg env flt True (messages env tid parts) s =
      finish_upload flt (?st\<lparr>ss_received := int (length parts)\<rparr>) s'" and d: "delivered env dst tid parts (length parts) s'"
  proof (rule send_messages_inv [of cfg env ?st parts "delivered env dst tid parts" flt tid 0 ?s1, OF data(6) _ _ data(4)])
    fix s'
    assume "send_loop cfg env flt True 0 ?st (drop 0 (messages env tid parts)) ?s1 =
        finish_upload flt (?st\<lparr>ss_received := (if 0 = length parts then ss_received ?st else int (length parts))\<rparr>) s'"
      "delivered env dst tid parts (length parts) s'"
    then show thesis using that [of s'] start data(3) by simp
  next
    show "plain_id (ss_transferID ?st)" "plain_id (ss_storageID ?st)" using data(1) by simp_all
    show "\<forall>d\<in>set parts. env_sha env d \<noteq> ''''" using data(5) by simp
  qed ((rule step; assumption), simp, rule none)
  have "chunk_at (store_of (ts_net (snd (finish_upload flt (?st\<lparr>ss_received := int (length parts)\<rparr>) s'))) dst) tid (int j)
      = chunk_at (store_of (ts_net s') dst) tid (int j)" for j
    by (simp add: finish_upload_def try_update_def Let_def)
  then show ?thesis
    unfolding loop using d by (auto simp: finish_upload_def delivered_def Let_def)
qed

section \<open>Examples\<close>

text \<open>Instances: discovery has been told of \<open>b\<close> and \<open>c\<close>, the route table leads from \<open>a\<close> over \<open>b\<close> to \<open>c\<close>, and
  every server has just started.\<close>

definition demo_announced_peer :: "node_id \<Rightarrow> time \<Rightarrow> peer" where
  "demo_announced_peer n now =
     \<lparr>pe_NodeID = n, pe_Addrs = [n], pe_PublicKey = ''k'', pe_IsRelay = False, pe_LastSeen = now\<rparr>"

definition demo_services :: services where
  "demo_services =
     \<lparr>sv_lib = demo_tokens, sv_secret = ''s'', sv_call = demo_call ''m'' [],
      sv_discovery = \<lambda>t. new_server [demo_announced_peer ''b'' 1, demo_announced_peer ''c'' 2],
      sv_peersFail = \<lambda>t. False, sv_routing = \<lambda>t. new_server demo_routing, sv_routingFails = \<lambda>t q. False,
      sv_intel = \<lambda>t. None, sv_transfer = \<lambda>t n. new_server ()\<rparr>"

definition demo_upload_request :: initiate_request where
  "demo_upload_request =
     \<lparr>ir_SenderNodeId = ''a'', ir_ReceiverNodeId = ''c'', ir_Filename = ''f'', ir_TotalSizeBytes = 4,
      ir_ContentHash = '''', ir_ChunkSizeBytes = 2, ir_EncryptionKey = '''', ir_ReplicationFactor = 0,
      ir_SenderEphemeralPubkey = replicate 32 0, ir_AutoApprove = True\<rparr>"

definition demo_empty_service :: transfer_service where
  "demo_empty_service = \<lparr>ts_db = \<lparr>td_transfers = [], td_groups = []\<rparr>, ts_net = demo_world\<rparr>"

lemma demo_initiated:
  "\<exists>resp s. initiate_transfer (with_deployed_routing demo_services 0 demo_config) (\<lambda>_. False) ''n'' demo_upload_request
       demo_empty_service = (Inr resp, s)
     \<and> is_TotalChunks resp = 2"
  by (simp add: initiate_transfer_def with_deployed_routing_def demo_config_def demo_upload_request_def demo_empty_service_def
      create_transfer_sql_def chunk_size_of_def total_chunks_of_def wrap32_def wrap64_def signed_divide_int_def
      Let_def split: sum.split)

theorem deployed_file_stays_local_witness:
  "\<exists>resp s up s'. initiate_transfer (with_deployed_routing demo_services 0 demo_config) (\<lambda>_. False) ''n''
        demo_upload_request demo_empty_service = (Inr resp, s)
    \<and> send_chunk demo_config (wire demo_services demo_env) (\<lambda>_. False) True
        (messages demo_env ''n'' [[1, 2], [3, 4]]) s = (Inr up, s')
    \<and> chunk_at (store_of (ts_net s') ''a'') ''n'' 1 = Some [3, 4] \<and> chunk_at (store_of (ts_net s') ''c'') ''n'' 1 = None"
proof -
  obtain resp s where i: "initiate_transfer (with_deployed_routing demo_services 0 demo_config) (\<lambda>_. False) ''n''
      demo_upload_request demo_empty_service = (Inr resp, s)" "is_TotalChunks resp = 2"
    using demo_initiated by blast
  have "is_RouteHops resp = [] \<and> (\<exists>up s'. send_chunk demo_config (wire demo_services demo_env) (\<lambda>_. False) True
        (messages demo_env ''n'' [[1, 2], [3, 4]]) s = (Inr up, s')
    \<and> sd_Status up = st_COMPLETED
    \<and> (\<forall>j < length ([[1, 2], [3, 4]] :: bytes list).
         chunk_at (store_of (ts_net s') (tc_NodeID demo_config)) ''n'' (int j) = Some ([[1, 2], [3, 4]] ! j))
    \<and> (\<forall>n. n \<noteq> tc_NodeID demo_config \<longrightarrow> store_of (ts_net s') n = store_of (ts_net demo_empty_service) n)
    \<and> w_runs (ts_net s') = w_runs (ts_net demo_empty_service))"
    by (rule deployed_file_stays_local [OF i(1)])
      (use i(2) demo_store in \<open>simp_all add: demo_upload_request_def demo_empty_service_def get_group_sql_def
        row_at_def plain_id_def\<close>, simp_all add: demo_env_def)
  then obtain up s' where s': "send_chunk demo_config (wire demo_services demo_env) (\<lambda>_. False) True
        (messages demo_env ''n'' [[1, 2], [3, 4]]) s = (Inr up, s')"
    and own: "\<forall>j < length ([[1, 2], [3, 4]] :: bytes list).
         chunk_at (store_of (ts_net s') (tc_NodeID demo_config)) ''n'' (int j) = Some ([[1, 2], [3, 4]] ! j)"
    and rest: "\<forall>n. n \<noteq> tc_NodeID demo_config \<longrightarrow> store_of (ts_net s') n = store_of (ts_net demo_empty_service) n"
    by auto
  have "chunk_at (store_of (ts_net s') ''a'') ''n'' 1 = Some [3, 4]"
    using own [rule_format, of 1] by (simp add: demo_config_def)
  moreover have "chunk_at (store_of (ts_net s') ''c'') ''n'' 1 = None"
    using rest by (simp add: demo_config_def demo_empty_service_def demo_world_def chunk_at_def)
  ultimately show ?thesis using i(1) s' by blast
qed

theorem replicas_at_recent_peers_witness:
  "replicate_targets (wire demo_services demo_env) 0 \<lparr>rj_Node = ''b'', rj_TransferId = ''t'', rj_ChunkIndex = 0,
       rj_Data = [1, 2], rj_ChunkHash = ''good'', rj_Factor = 2, rj_Exclude = [''b'']\<rparr> = [''c'']"
proof -
  have "chain_verdict (sv_lib demo_services) (sv_secret demo_services)
      (internal_call ''/discovery.v1.DiscoveryService/FindPeers'' (sv_call demo_services 0)) (sv_discovery demo_services 0) = None"
    by (simp add: chain_verdict_def unary_chain_result chain_result_def unary_context_def public_methods_def
        demo_services_def internal_call_def demo_call_def new_server_def new_rate_limiter_def rl_allow_def Let_def
        case_prod_beta)
  then show ?thesis
    by (subst replicas_at_recent_peers)
      (simp_all add: demo_services_def new_server_def server_state_def others_def list_peers_sql_def demo_announced_peer_def)
qed

end
