(* ===== verification/Deployment.thy ===== *)
theory Deployment
  imports System
begin

text \<open>
  How \<open>cmd/routing/main.go\<close> and \<open>cmd/transfer/main.go\<close> wire the services: the routing service
  subscribes to the peer updates of discovery and enters a direct route for every peer it is
  told of; the calls that services make on each other, through the interceptors of \<open>Chain\<close>, are
  those of \<open>System\<close>.
\<close>

section \<open>The subscription of the routing service\<close>

text \<open>One message of the stream, with the clock and the faults of the database when it is
  handled; a message may come without a peer. The peers that left stay in the table.\<close>

type_synonym watch_input = "time \<times> routing_faults \<times> (update_type \<times> peer option)"

definition watch_update :: "node_id \<Rightarrow> routing_db \<Rightarrow> watch_input \<Rightarrow> routing_db" where
  "watch_update nid db u =
     (case u of (now, flt, type, p) \<Rightarrow>
        case p of
          None \<Rightarrow> db
        | Some peer \<Rightarrow>
            (case type of
               PEER_LEFT \<Rightarrow> db
             | _ \<Rightarrow> snd (update_route_table now flt nid
                      [\<lparr>re_TargetNodeId = pe_NodeID peer, re_NextHopId = pe_NodeID peer,
                        re_Metric = 1, re_LatencyMs = 0\<rparr>] db)))"

text \<open>The stream is an error when it could not be opened; \<open>Recv\<close> ends it after its messages.\<close>

definition watch_peer_updates :: "node_id \<Rightarrow> status + watch_input list \<Rightarrow> routing_db \<Rightarrow> routing_db" where
  "watch_peer_updates nid stream db =
     (case stream of
        Inl e \<Rightarrow> db
      | Inr msgs \<Rightarrow> foldl (watch_update nid) db msgs)"

section \<open>Internal calls are refused\<close>

lemma initiate_without_route:
  assumes "\<And>src target n. \<exists>e. route src target n = Inl e"
  shows "initiate_transfer (cfg\<lparr>tc_routing := Some route\<rparr>) flt newID req s =
    initiate_transfer (cfg\<lparr>tc_routing := None\<rparr>) flt newID req s"
proof -
  obtain e where "route (ir_SenderNodeId req) (ir_ReceiverNodeId req) 10 = Inl e" using assms by blast
  then show ?thesis
    by (cases cfg) (simp only: initiate_transfer_def transfer_config.simps option.case sum.case)
qed

text \<open>
  C19: the calls that the services make on each other carry no token. FindPeers and GetNodeInfo
  are public: when the limiter admits such a call its handler runs, without a user, its answer is
  the call's answer and the run is audited. Every other internal call, unary or streaming, is
  refused by the chain of the called service, whatever the service and the limiter hold, and
  neither its handler nor its audit table sees the call.
\<close>

theorem internal_calls_refused:
  assumes "fullMethod \<in> set internal_methods"
  shows "if fullMethod = ''/discovery.v1.DiscoveryService/FindPeers''
        \<or> fullMethod = ''/discovery.v1.DiscoveryService/GetNodeInfo''
    then fst (rl_allow (gc_Limited c) (peer_addr (gc_Peer c)) rl0) \<longrightarrow>
      (\<exists>m rl. unary_chain lib secret (internal_call fullMethod c) h (m0, rl0, t, s) =
        (fst (h no_user s), m, rl, audit_record (internal_call fullMethod c) no_user (fst (h no_user s)) t,
         snd (h no_user s)))
    else (\<exists>k msg m rl. k \<in> {Unauthenticated, ResourceExhausted}
        \<and> unary_chain lib secret (internal_call fullMethod c) h (m0, rl0, t, s) = (Inl (Status k msg), m, rl, t, s))
      \<and> (\<exists>k msg m rl. k \<in> {Unauthenticated, ResourceExhausted}
        \<and> stream_chain lib secret (internal_call fullMethod c) h' (m0, rl0, t, s) = (Inl (Status k msg), m, rl, t, s))"
proof (cases "fullMethod = ''/discovery.v1.DiscoveryService/FindPeers''
    \<or> fullMethod = ''/discovery.v1.DiscoveryService/GetNodeInfo''")
  case True
  then have "unary_context lib secret (internal_call fullMethod c) = Inr no_user"
    by (auto simp: unary_context_def public_methods_def)
  then show ?thesis
    using True by (auto simp: unary_chain_result chain_result_def internal_call_def case_prod_beta Let_def)
next
  case False
  then have "fullMethod \<notin> public_methods"
    using assms unfolding internal_methods_def by (simp, elim disjE) (simp_all add: public_methods_def)
  then have p: "gc_FullMethod (internal_call fullMethod c) \<notin> public_methods" by simp
  note refused = unary_refused [OF internal_call_simps(2) p] stream_refused [OF internal_call_simps(2) p]
  show ?thesis unfolding if_not_P [OF False] by (intro conjI refused)
qed

text \<open>
  a transfer service whose routing client calls the deployed routing service starts every
  transfer exactly as one that has no routing client: the response and the new state are the
  same, so no transfer has hops to be relayed over.
\<close>

theorem deployed_transfers_unrouted:
  "initiate_transfer (with_deployed_routing sv t cfg) flt newID req st =
    initiate_transfer (cfg\<lparr>tc_routing := None\<rparr>) flt newID req st"
  unfolding with_deployed_routing_def by (rule initiate_without_route) (rule deployed_find_route_refused)

text \<open>
  the subscription of the routing service ends with the refusal of its call, so peer updates
  never enter a route.
\<close>

theorem deployed_subscription_ends:
  "watch_peer_updates nid (case fst (stream_chain lib secret
      (internal_call ''/discovery.v1.DiscoveryService/StreamPeerUpdates'' c) h sv) of Inl e \<Rightarrow> Inl e | Inr _ \<Rightarrow> Inr us) db = db"
  using private_refused(3) [OF private_methods(5), of lib secret c h sv] by (auto simp: watch_peer_updates_def)

section \<open>What the subscription gives\<close>

lemma watch_update_route:
  assumes "nid \<noteq> ''''" "\<forall>q. \<not> flt q"
  shows "find_route_sql nid g (db_routes (watch_update nid db (now, flt, type, p))) =
    (case p of
       Some peer \<Rightarrow>
         if type \<noteq> PEER_LEFT \<and> pe_NodeID peer = g
         then Some (case find_route_sql nid g (db_routes db) of
             None \<Rightarrow> \<lparr>rt_NodeID = nid, rt_TargetNodeID = g, rt_NextHopID = g, rt_Metric = 1,
                       rt_LatencyMs = 0, rt_UpdatedAt = now\<rparr>
           | Some old \<Rightarrow> old\<lparr>rt_NextHopID := g, rt_Metric := 1, rt_LatencyMs := 0, rt_UpdatedAt := now\<rparr>)
         else find_route_sql nid g (db_routes db)
     | None \<Rightarrow> find_route_sql nid g (db_routes db))"
  using assms
  by (cases type) (auto simp: watch_update_def update_route_table_def find_upsert_route split: option.split)

definition direct_route :: "node_id \<Rightarrow> routing_db \<Rightarrow> node_id \<Rightarrow> bool" where
  "direct_route nid db g \<longleftrightarrow> map_option rt_NextHopID (find_route_sql nid g (db_routes db)) = Some g"

lemma direct_route_watch:
  assumes "nid \<noteq> ''''" "\<forall>q. \<not> flt q"
  shows "direct_route nid (watch_update nid db (now, flt, type, p)) g \<longleftrightarrow>
    (\<exists>peer. p = Some peer \<and> type \<noteq> PEER_LEFT \<and> pe_NodeID peer = g) \<or> direct_route nid db g"
  unfolding direct_route_def watch_update_route [OF assms]
  by (cases p) (auto split: option.splits)

lemma direct_route_run:
  assumes "nid \<noteq> ''''" "\<forall>(now, flt, m)\<in>set us. \<forall>q. \<not> flt q"
  shows "direct_route nid (foldl (watch_update nid) db us) g \<longleftrightarrow>
    (\<exists>(now, flt, type, p)\<in>set us. \<exists>peer. p = Some peer \<and> type \<noteq> PEER_LEFT \<and> pe_NodeID peer = g)
      \<or> direct_route nid db g"
  using assms(2)
proof (induction us arbitrary: db)
  case (Cons u us)
  obtain now flt type p where u: "u = (now, flt, type, p)" by (cases u)
  show ?case
    using Cons direct_route_watch [OF assms(1), of flt db now type p g] by (auto simp: u)
qed simp

lemma peer_view_announced:
  "peer_view view evs g \<noteq> None \<Longrightarrow>
     view g \<noteq> None \<or> (\<exists>e\<in>set evs. pu_Type e \<noteq> PEER_LEFT \<and> pe_NodeID (pu_Peer e) = g)"
proof (induction evs arbitrary: view)
  case (Cons e evs)
  then have "apply_update view e g \<noteq> None \<or> (\<exists>e\<in>set evs. pu_Type e \<noteq> PEER_LEFT \<and> pe_NodeID (pu_Peer e) = g)"
    by (simp add: peer_view_def)
  then show ?case by (cases "pu_Type e") (auto simp: apply_update_def split: if_splits)
qed (simp add: peer_view_def)

lemma find_direct_route:
  assumes "direct_route nid db g" "nid \<noteq> ''''" "g \<noteq> ''''" "in_int32 maxHops" "g \<notin> set exIds"
    and "\<forall>anomalous. intel = Some anomalous \<longrightarrow> \<not> anomalous g" "\<forall>q. \<not> flt q"
  shows "\<exists>resp. find_route intel flt db nid g maxHops exIds = Inr resp
    \<and> map hop_NodeId (fr_Hops resp) = [g] \<and> fr_DirectPossible resp"
proof -
  have "links (db_routes db) g nid [g]" using assms(1) by (simp add: direct_route_def next_hop_def)
  from find_route_complete [OF this, of maxHops exIds intel flt] assms show ?thesis
    by (auto simp: effective_max_hops_def)
qed

text \<open>
  if the update stream reached the routing service, its table would follow the peers of
  discovery: after any number of ticks, the last of which reads the peers table, FindRoute
  answers for every other node in that table with the direct route to it, unless the node is
  excluded or counts as anomalous.
\<close>

theorem watch_routes_to_peers:
  assumes "nid \<noteq> ''''" "ticks_ok seen ticks" "ticks \<noteq> []" "last ticks = (now, False, ids, t)"
    and "stream_peer_updates nid (\<lambda>_. False) ticks = Inr evs"
    and "map (\<lambda>(w, flt, m). m) us = map (\<lambda>e. (pu_Type e, Some (pu_Peer e))) evs"
    and "\<forall>(w, flt, m)\<in>set us. \<forall>q. \<not> flt q"
    and "p \<in> set t" "pe_NodeID p \<noteq> nid" "pe_NodeID p \<noteq> ''''" "in_int32 maxHops" "pe_NodeID p \<notin> set exIds"
    and "\<forall>anomalous. intel = Some anomalous \<longrightarrow> \<not> anomalous (pe_NodeID p)" "\<forall>q. \<not> rflt q"
  shows "\<exists>resp. find_route intel rflt (watch_peer_updates nid (Inr us) db) nid (pe_NodeID p) maxHops exIds = Inr resp
    \<and> map hop_NodeId (fr_Hops resp) = [pe_NodeID p] \<and> fr_DirectPossible resp"
proof -
  let ?g = "pe_NodeID p"
  have evs: "evs = peer_loop nid (\<lambda>_. False) Map.empty ticks"
    using assms(1,5) by (simp add: stream_peer_updates_def)
  have "agree Map.empty Map.empty" "keyed Map.empty" by (simp_all add: agree_def keyed_def)
  from peer_loop_mirrors [OF assms(2) this, of nid] have
    "agree (by_id (others nid t)) (peer_view Map.empty evs)"
    using assms(3,4) by (auto simp: evs)
  moreover have "by_id (others nid t) ?g \<noteq> None"
    using assms(8,9) row_at_None [of pe_NodeID ?g t] by (auto simp: by_id_others get_peer_sql_def)
  ultimately have "peer_view Map.empty evs ?g \<noteq> None"
    by (auto simp: agree_def rel_option_iff split: option.splits dest!: spec [of _ ?g])
  from peer_view_announced [OF this] obtain e where e: "e \<in> set evs" "pu_Type e \<noteq> PEER_LEFT" "pe_NodeID (pu_Peer e) = ?g"
    by auto
  then have "(pu_Type e, Some (pu_Peer e)) \<in> (\<lambda>(w, flt, m). m) ` set us"
    using assms(6) by (metis (no_types, lifting) image_eqI list.set_map)
  then have "direct_route nid (foldl (watch_update nid) db us) ?g"
    unfolding direct_route_run [OF assms(1,7)] using e(2,3) by fastforce
  then show ?thesis
    using find_direct_route [OF _ assms(1,10,11,12,13,14)] by (simp add: watch_peer_updates_def)
qed

section \<open>Examples\<close>

theorem internal_calls_refused_witness:
  "(\<exists>k msg m rl. k \<in> {Unauthenticated, ResourceExhausted}
     \<and> unary_chain demo_tokens ''s'' (internal_call ''/relay.v1.RelayService/RelayChunk'' (demo_call ''m'' [''t''] 0))
         (\<lambda>ctx s. (Inr (), s + 1)) (no_metrics, new_rate_limiter 100 200, [], 0::nat) = (Inl (Status k msg), m, rl, [], 0))
   \<and> (\<exists>m rl t. unary_chain demo_tokens ''s'' (internal_call ''/discovery.v1.DiscoveryService/GetNodeInfo'' (demo_call ''m'' [''t''] 0))
         (\<lambda>ctx s. (Inr (), s + 1)) (no_metrics, new_rate_limiter 100 200, [], 0::nat) = (Inr (), m, rl, t, 1))"
proof (rule conjI)
  have m: "''/relay.v1.RelayService/RelayChunk'' \<in> set internal_methods"
    "''/discovery.v1.DiscoveryService/GetNodeInfo'' \<in> set internal_methods"
    by (simp_all add: internal_methods_def)
  let ?h = "\<lambda>ctx s. (Inr (), s + (1::nat))"
  show "\<exists>k msg m rl. k \<in> {Unauthenticated, ResourceExhausted}
     \<and> unary_chain demo_tokens ''s'' (internal_call ''/relay.v1.RelayService/RelayChunk'' (demo_call ''m'' [''t''] 0))
         ?h (no_metrics, new_rate_limiter 100 200, [], 0::nat) = (Inl (Status k msg), m, rl, [], 0)"
    using internal_calls_refused [OF m(1), of "demo_call ''m'' [''t''] 0" "new_rate_limiter 100 200" demo_tokens "''s''"
      ?h no_metrics "[]" 0] by auto
  have "fst (rl_allow 0 (peer_addr (Some ''10.0.0.1:5'')) (new_rate_limiter 100 200))"
    by (simp add: rl_allow_def new_rate_limiter_def Let_def)
  then show "\<exists>m rl t. unary_chain demo_tokens ''s''
      (internal_call ''/discovery.v1.DiscoveryService/GetNodeInfo'' (demo_call ''m'' [''t''] 0))
         ?h (no_metrics, new_rate_limiter 100 200, [], 0::nat) = (Inr (), m, rl, t, 1)"
    using internal_calls_refused [OF m(2), of "demo_call ''m'' [''t''] 0" "new_rate_limiter 100 200" demo_tokens "''s''"
      ?h no_metrics "[]" 0] by (auto simp: demo_call_def)
qed

definition demo_peer :: peer where
  "demo_peer = \<lparr>pe_NodeID = ''b'', pe_Addrs = [''10.0.0.2:1''], pe_PublicKey = ''k'', pe_IsRelay = False, pe_LastSeen = 3\<rparr>"

theorem watch_routes_to_peers_witness:
  "\<exists>resp. find_route None (\<lambda>_. False)
       (watch_peer_updates ''a'' (Inr [(7, (\<lambda>_. False), (PEER_JOINED, Some demo_peer))])
         \<lparr>db_routes = [], db_relays = []\<rparr>) ''a'' ''b'' 0 [] = Inr resp
     \<and> map hop_NodeId (fr_Hops resp) = [''b'']"
proof -
  let ?us = "[(7, (\<lambda>_. False), (PEER_JOINED, Some demo_peer))]"
  let ?ticks = "[(7, False, [''b''], [demo_peer])]"
  have evs: "stream_peer_updates ''a'' (\<lambda>_. False) ?ticks =
      Inr [\<lparr>pu_Type = PEER_JOINED, pu_Peer = demo_peer, pu_Timestamp = 7\<rparr>]"
    by (simp add: stream_peer_updates_def peer_tick_def list_peers_sql_def peer_change_def peer_departures_def
        demo_peer_def)
  have "\<exists>resp. find_route None (\<lambda>_. False) (watch_peer_updates ''a'' (Inr ?us) \<lparr>db_routes = [], db_relays = []\<rparr>)
       ''a'' (pe_NodeID demo_peer) 0 [] = Inr resp
     \<and> map hop_NodeId (fr_Hops resp) = [pe_NodeID demo_peer] \<and> fr_DirectPossible resp"
  proof (rule watch_routes_to_peers [OF _ _ _ _ evs])
    show "ticks_ok {''b''} ?ticks" by (simp add: ticks_ok_def peers_wf_def demo_peer_def)
    show "last ?ticks = (7, False, [''b''], [demo_peer])" by simp
  qed (simp_all add: demo_peer_def in_int32_def)
  then show ?thesis by (auto simp: demo_peer_def)
qed

end
