(* ===== verification/Accounts.thy ===== *)
theory Accounts
  imports Auth IdentityDb
begin

text \<open>
  Accounts of the identity service: the validation helpers and the handlers for registration,
  login, email verification and tokens in \<open>services/identity/handler/handler.go\<close>. Bcrypt, the
  mailer and the random token are parameters. Strings are the bytes of their UTF-8 encoding.
\<close>

section \<open>Validation\<close>

text \<open>\<open>strings.TrimSpace\<close>: the encodings of the code points that Go counts as white space.\<close>

definition white_space :: "string list" where
  "white_space =
     [[CHR 0x09], [CHR 0x0A], [CHR 0x0B], [CHR 0x0C], [CHR 0x0D], [CHR 0x20],
      [CHR 0xC2, CHR 0x85], [CHR 0xC2, CHR 0xA0], [CHR 0xE1, CHR 0x9A, CHR 0x80]]
     @ map (\<lambda>n. [CHR 0xE2, CHR 0x80, char_of n]) ([0x80..<0x8B] @ [0xA8, 0xA9, 0xAF :: nat])
     @ [[CHR 0xE2, CHR 0x81, CHR 0x9F], [CHR 0xE3, CHR 0x80, CHR 0x80]]"

definition starting :: "string list \<Rightarrow> string \<Rightarrow> string option" where
  "starting ws s = find (\<lambda>w. w \<noteq> [] \<and> take (length w) s = w) ws"

function strip_front :: "string list \<Rightarrow> string \<Rightarrow> string" where
  "strip_front ws s = (case starting ws s of None \<Rightarrow> s | Some w \<Rightarrow> strip_front ws (drop (length w) s))"
  by pat_completeness auto

termination strip_front
proof (relation "measure (\<lambda>(ws, s). length s)")
  fix ws s w
  assume "starting ws s = Some w"
  then have "w \<noteq> []" "take (length w) s = w" by (auto simp: starting_def find_Some_iff)
  then have "length w \<le> length s" "0 < length w" by (auto dest: arg_cong [of _ _ length])
  then have "length s - length w < length s" by linarith
  then show "((ws, drop (length w) s), ws, s) \<in> measure (\<lambda>(ws, s). length s)" by simp
qed simp

declare strip_front.simps [simp del]

definition trim_space :: "string \<Rightarrow> string" where
  "trim_space s = rev (strip_front (map rev white_space) (rev (strip_front white_space s)))"

text \<open>\<open>emailRE\<close>: its three character classes and a matcher. No class has an at sign and the
  last has no dot, so the first at sign and the last dot split the address.\<close>

definition letters :: string where
  "letters = ''abcdefghijklmnopqrstuvwxyzABCDEFGHIJKLMNOPQRSTUVWXYZ''"

definition digits :: string where
  "digits = ''0123456789''"

definition local_chars :: string where
  "local_chars = letters @ digits @ ''._%+-''"

definition domain_chars :: string where
  "domain_chars = letters @ digits @ ''.-''"

definition email_matches :: "string \<Rightarrow> bool" where
  "email_matches s =
     (let user = takeWhile (\<lambda>c. c \<noteq> CHR ''@'') s;
          rest = drop (length user) s;
          tld = rev (takeWhile (\<lambda>c. c \<noteq> CHR ''.'') (rev rest));
          host = take (length rest - length tld - 1) rest
      in user \<noteq> [] \<and> set user \<subseteq> set local_chars \<and> rest \<noteq> [] \<and> length tld < length rest
         \<and> length tld \<ge> 2 \<and> set tld \<subseteq> set letters
         \<and> length host \<ge> 2 \<and> set (tl host) \<subseteq> set domain_chars)"

definition validate_email :: "string \<Rightarrow> string option" where
  "validate_email s =
     (let email = trim_space s in
      if email = '''' then Some ''email is required''
      else if length email > 254 then Some ''email must be at most 254 characters''
      else if \<not> email_matches email then Some ''email format is invalid''
      else None)"

definition validate_password :: "string \<Rightarrow> string option" where
  "validate_password pw =
     (if length pw < 8 then Some ''password must be at least 8 characters''
      else if length pw > 128 then Some ''password must be at most 128 characters''
      else None)"

definition validate_username :: "string \<Rightarrow> string option" where
  "validate_username s =
     (let username = trim_space s in
      if length username < 3 then Some ''username must be at least 3 characters''
      else if length username > 32 then Some ''username must be at most 32 characters''
      else None)"

section \<open>The service\<close>

record 'r ident_env =
  ie_uuid :: uuid_cast
  ie_ilike :: "string \<Rightarrow> string \<Rightarrow> bool"
  ie_hash :: "string \<Rightarrow> string option" \<comment> \<open>bcrypt at the configured cost\<close>
  ie_check :: "string \<Rightarrow> string \<Rightarrow> bool"
  ie_jwt :: jwt_lib
  ie_manager :: jwt_manager
  ie_redis :: "'r redis"
  ie_mailer :: "(string \<Rightarrow> string \<Rightarrow> bool) option" \<comment> \<open>whether a mail is sent\<close>

record 'r ident_state =
  ii_db :: identity_db
  ii_redis :: 'r

text \<open>Each query of a handler, with a number where a handler sends it more than once.\<close>

datatype ident_query =
    QCreateUser | QSetToken | QUserByEmail | QUserByToken | QVerifyUser | QUserByID nat
  | QDeviceByFingerprint | QDeviceActivity | QCreateDevice | QListDevices | QDeviceByID nat
  | QRevokeDevice | QVisibility | QApprove | QReject
  | QCreateSession | QAddMember | QSessionDevices nat | QListSessions | QCloseSession | QGetSession
  | QRemoveMember | QUpsertKey | QGetKey | QSessionKeys
  | QFriendBetween | QCreateFriend | QAnswerFriend | QGetFriend | QListFriends | QListPending
  | QRemoveFriend | QSearchUsers | QCountPending | QListPublic | QCountUsers | QCountDevices
  | QUpsertPresence | QPresence | QUpdateAvatar | QGetAvatar | QAdminUsers | QAdminDevices
  | QAdminAudit | QCountAudit

type_synonym ident_faults = "ident_query \<Rightarrow> bool"

text \<open>The tables as fields of the service's state.\<close>

abbreviation set_users :: "user list \<Rightarrow> 'r ident_state \<Rightarrow> 'r ident_state" where
  "set_users t s \<equiv> s\<lparr>ii_db := (ii_db s)\<lparr>db_users := t\<rparr>\<rparr>"

abbreviation set_redis :: "'r \<Rightarrow> 'r ident_state \<Rightarrow> 'r ident_state" where
  "set_redis r s \<equiv> s\<lparr>ii_redis := r\<rparr>"

section \<open>Registration and verification\<close>

record register_response =
  rr_UserId :: string
  rr_Username :: string
  rr_Email :: string
  rr_CreatedAt :: time

definition day :: time where
  "day = 24 * 60 * minute"

text \<open>The verification token of a new user, \<open>None\<close> when the generator fails; neither that nor a
  mail that is not sent makes the registration fail.\<close>

definition start_verification ::
  "'r ident_env \<Rightarrow> ident_faults \<Rightarrow> time \<Rightarrow> string option \<Rightarrow> string \<Rightarrow> 'r ident_state \<Rightarrow> 'r ident_state" where
  "start_verification env flt now token userID s =
     (case token of
        None \<Rightarrow> s
      | Some tok \<Rightarrow>
          (case ask (flt QSetToken) (set_verification_token_sql (ie_uuid env) userID (Some tok)
                  (Some (now + day)) (db_users (ii_db s))) of
             Inl e \<Rightarrow> s
           | Inr t \<Rightarrow> set_users t s))"

definition register ::
  "'r ident_env \<Rightarrow> ident_faults \<Rightarrow> time \<Rightarrow> string \<Rightarrow> string option \<Rightarrow> string \<Rightarrow> string \<Rightarrow> string
     \<Rightarrow> 'r ident_state \<Rightarrow> register_response result \<times> 'r ident_state" where
  "register env flt now newID token username email password s =
     (case validate_email email of
        Some e \<Rightarrow> (Inl (Status InvalidArgument e), s)
      | None \<Rightarrow>
     (case validate_password password of
        Some e \<Rightarrow> (Inl (Status InvalidArgument e), s)
      | None \<Rightarrow>
     (case validate_username username of
        Some e \<Rightarrow> (Inl (Status InvalidArgument e), s)
      | None \<Rightarrow>
     (case ie_hash env password of
        None \<Rightarrow> (Inl (Status Internal ''failed to process password''), s)
      | Some hash \<Rightarrow>
     (case ask (flt QCreateUser) (create_user_sql now newID username email hash (db_users (ii_db s))) of
        Inl e \<Rightarrow> (Inl (Status AlreadyExists ''email already registered''), s)
      | Inr (user, t) \<Rightarrow>
          (Inr \<lparr>rr_UserId = us_ID user, rr_Username = us_Username user, rr_Email = us_Email user,
                rr_CreatedAt = us_CreatedAt user\<rparr>,
           start_verification env flt now token (us_ID user) (set_users t s)))))))"

text \<open>The response of \<open>VerifyEmail\<close> and \<open>ResendVerification\<close>: success and a message.\<close>

definition verify_email ::
  "'r ident_env \<Rightarrow> ident_faults \<Rightarrow> time \<Rightarrow> string \<Rightarrow> 'r ident_state
     \<Rightarrow> (bool \<times> string) result \<times> 'r ident_state" where
  "verify_email env flt now token s =
     (if token = '''' then (Inl (Status InvalidArgument ''token is required''), s)
      else case ask (flt QUserByToken) (get_user_by_token_sql now token (db_users (ii_db s))) of
             Inl NoRows \<Rightarrow> (Inr (False, ''invalid or expired verification token''), s)
           | Inl QueryFailed \<Rightarrow> (Inl (Status Internal ''failed to verify token''), s)
           | Inr user \<Rightarrow>
               if us_EmailVerified user then (Inr (True, ''email already verified''), s)
               else case ask (flt QVerifyUser)
                           (verify_user_email_sql (ie_uuid env) (us_ID user) (db_users (ii_db s))) of
                      Inl e \<Rightarrow> (Inl (Status Internal ''failed to verify email''), s)
                    | Inr t \<Rightarrow> (Inr (True, ''email verified successfully''), set_users t s))"

definition resend_verification ::
  "'r ident_env \<Rightarrow> ident_faults \<Rightarrow> time \<Rightarrow> string option \<Rightarrow> string \<Rightarrow> 'r ident_state
     \<Rightarrow> (bool \<times> string) result \<times> 'r ident_state" where
  "resend_verification env flt now token email s =
     (if email = '''' then (Inl (Status InvalidArgument ''email is required''), s)
      else case ask (flt QUserByEmail) (get_user_by_email_sql email (db_users (ii_db s))) of
             Inl NoRows \<Rightarrow> (Inr (True, ''if the email exists, a verification link has been sent''), s)
           | Inl QueryFailed \<Rightarrow> (Inl (Status Internal ''failed to fetch user''), s)
           | Inr user \<Rightarrow>
               if us_EmailVerified user then (Inr (True, ''email is already verified''), s)
               else case token of
                      None \<Rightarrow> (Inl (Status Internal ''failed to generate token''), s)
                    | Some tok \<Rightarrow>
                        (case ask (flt QSetToken) (set_verification_token_sql (ie_uuid env) (us_ID user)
                                (Some tok) (Some (now + day)) (db_users (ii_db s))) of
                           Inl e \<Rightarrow> (Inl (Status Internal ''failed to set verification token''), s)
                         | Inr t \<Rightarrow>
                             if (case ie_mailer env of None \<Rightarrow> False | Some send \<Rightarrow> \<not> send (us_Email user) tok)
                             then (Inl (Status Internal ''failed to send email''), set_users t s)
                             else (Inr (True, ''verification email sent''), set_users t s)))"

section \<open>Login and tokens\<close>

record user_msg =
  um_UserId :: string
  um_Username :: string
  um_Email :: string
  um_CreatedAt :: time
  um_EmailVerified :: bool

definition user_to_msg :: "user \<Rightarrow> user_msg" where
  "user_to_msg user =
     \<lparr>um_UserId = us_ID user, um_Username = us_Username user, um_Email = us_Email user,
      um_CreatedAt = us_CreatedAt user, um_EmailVerified = us_EmailVerified user\<rparr>"

record login_response =
  lo_Tokens :: token_pair
  lo_User :: user_msg

definition login ::
  "'r ident_env \<Rightarrow> ident_faults \<Rightarrow> time \<Rightarrow> string \<Rightarrow> string \<Rightarrow> 'r ident_state
     \<Rightarrow> login_response result \<times> 'r ident_state" where
  "login env flt now email password s =
     (case validate_email email of
        Some e \<Rightarrow> (Inl (Status InvalidArgument e), s)
      | None \<Rightarrow>
     (if password = '''' then (Inl (Status InvalidArgument ''password is required''), s)
      else case ask (flt QUserByEmail) (get_user_by_email_sql email (db_users (ii_db s))) of
             Inl NoRows \<Rightarrow> (Inl (Status NotFound ''invalid credentials''), s)
           | Inl QueryFailed \<Rightarrow> (Inl (Status Internal ''failed to fetch user''), s)
           | Inr user \<Rightarrow>
               if \<not> ie_check env password (us_PasswordHash user)
               then (Inl (Status Unauthenticated ''invalid credentials''), s)
               else if \<not> us_EmailVerified user
               then (Inl (Status Unauthenticated ''email address has not been verified''), s)
               else case issue (ie_jwt env) (ie_manager env) now (us_ID user) (us_Email user) of
                      None \<Rightarrow> (Inl (Status Internal ''failed to issue token''), s)
                    | Some pair \<Rightarrow> (Inr \<lparr>lo_Tokens = pair, lo_User = user_to_msg user\<rparr>, s)))"

text \<open>The answer of \<open>ValidateToken\<close>: the user and email of a valid token, else \<open>None\<close>.\<close>

definition validate_token ::
  "'r ident_env \<Rightarrow> time \<Rightarrow> string \<Rightarrow> 'r ident_state \<Rightarrow> (string \<times> string) option result" where
  "validate_token env now token s =
     (if token = '''' then Inl (Status InvalidArgument ''token is required'')
      else
        let (blacklisted, _) = is_blacklisted (ie_redis env) now token (ii_redis s) in
        if blacklisted then Inr None
        else case validate (ie_jwt env) (ie_manager env) now token of
               None \<Rightarrow> Inr None
             | Some c \<Rightarrow> Inr (Some (cl_Subject c, cl_Email c)))"

text \<open>The lifetime that the blacklist entry of a token gets.\<close>

definition token_ttl :: "claims \<Rightarrow> time" where
  "token_ttl c = cl_ExpiresAt c - cl_IssuedAt c"

definition refresh_token ::
  "'r ident_env \<Rightarrow> time \<Rightarrow> string \<Rightarrow> 'r ident_state \<Rightarrow> token_pair result \<times> 'r ident_state" where
  "refresh_token env now token s =
     (if token = '''' then (Inl (Status InvalidArgument ''refresh_token is required''), s)
      else
        let (blacklisted, _) = is_blacklisted (ie_redis env) now token (ii_redis s) in
        if blacklisted then (Inl (Status Unauthenticated ''refresh token has been revoked''), s)
        else case validate (ie_jwt env) (ie_manager env) now token of
               None \<Rightarrow> (Inl (Status Unauthenticated ''invalid or expired refresh token''), s)
             | Some c \<Rightarrow>
                 let (ok, r) = blacklist_add (ie_redis env) now token (token_ttl c) (ii_redis s);
                     s1 = set_redis r s
                 in (case issue (ie_jwt env) (ie_manager env) now (cl_Subject c) (cl_Email c) of
                       None \<Rightarrow> (Inl (Status Internal ''failed to issue token''), s1)
                     | Some pair \<Rightarrow> (Inr pair, s1)))"

definition logout ::
  "'r ident_env \<Rightarrow> time \<Rightarrow> string \<Rightarrow> 'r ident_state \<Rightarrow> bool result \<times> 'r ident_state" where
  "logout env now token s =
     (if token = '''' then (Inl (Status InvalidArgument ''refresh_token is required''), s)
      else case validate (ie_jwt env) (ie_manager env) now token of
             None \<Rightarrow> (Inl (Status Unauthenticated ''invalid token''), s)
           | Some c \<Rightarrow>
               let (ok, r) = blacklist_add (ie_redis env) now token (token_ttl c) (ii_redis s);
                   s1 = set_redis r s
               in if \<not> ok then (Inl (Status Internal ''failed to invalidate token''), s1)
                  else (Inr True, s1))"

end
