(* ===== verification/Devices.thy ===== *)
theory Devices
  imports Accounts
begin

text \<open>
  Devices of the identity service: registration, pairing, peer sessions and device keys, the
  handlers of \<open>services/identity/handler/handler.go\<close> in the order of the file. The device type
  is the number of the proto enum.
\<close>

section \<open>Messages\<close>

definition device_type_to_string :: "int32 \<Rightarrow> string" where
  "device_type_to_string dt = (if dt = 2 then ''phone'' else if dt = 3 then ''tablet'' else ''pc'')"

definition string_to_device_type :: "string \<Rightarrow> int32" where
  "string_to_device_type s = (if s = ''phone'' then 2 else if s = ''tablet'' then 3 else 1)"

record device_msg =
  dm_DeviceId :: string
  dm_UserId :: string
  dm_Name :: string
  dm_DeviceType :: int32
  dm_NodeId :: string
  dm_Fingerprint :: string
  dm_IsApproved :: bool
  dm_ApprovedAt :: "time option"
  dm_ApprovedByDeviceId :: string
  dm_LastActive :: time
  dm_CreatedAt :: time
  dm_IsRevoked :: bool
  dm_IsPublic :: bool

definition text_or_empty :: "string option \<Rightarrow> string" where
  "text_or_empty s = (case s of None \<Rightarrow> '''' | Some x \<Rightarrow> x)"

definition nullable :: "string \<Rightarrow> string option" where
  "nullable s = (if s \<noteq> '''' then Some s else None)"

definition device_to_proto :: "device \<Rightarrow> device_msg" where
  "device_to_proto d =
     \<lparr>dm_DeviceId = dv_ID d, dm_UserId = dv_UserID d, dm_Name = dv_Name d,
      dm_DeviceType = string_to_device_type (dv_DeviceType d), dm_NodeId = text_or_empty (dv_NodeID d),
      dm_Fingerprint = dv_Fingerprint d, dm_IsApproved = dv_IsApproved d, dm_ApprovedAt = dv_ApprovedAt d,
      dm_ApprovedByDeviceId = text_or_empty (dv_ApprovedBy d), dm_LastActive = dv_LastActive d,
      dm_CreatedAt = dv_CreatedAt d, dm_IsRevoked = (dv_RevokedAt d \<noteq> None), dm_IsPublic = dv_IsPublic d\<rparr>"

text \<open>The session message: the session and its devices.\<close>

type_synonym session_msg = "peer_session \<times> device_msg list"

definition session_to_proto :: "peer_session \<Rightarrow> device list \<Rightarrow> session_msg" where
  "session_to_proto p ds = (p, map device_to_proto ds)"

definition user_of :: "auth_ctx \<Rightarrow> string result" where
  "user_of ctx =
     (case user_id_from_context ctx of
        None \<Rightarrow> Inl (Status Unauthenticated ''not authenticated'')
      | Some uid \<Rightarrow> Inr uid)"

abbreviation set_devices :: "device list \<Rightarrow> 'r ident_state \<Rightarrow> 'r ident_state" where
  "set_devices t s \<equiv> s\<lparr>ii_db := (ii_db s)\<lparr>db_devices := t\<rparr>\<rparr>"

abbreviation set_sessions :: "peer_session list \<Rightarrow> 'r ident_state \<Rightarrow> 'r ident_state" where
  "set_sessions t s \<equiv> s\<lparr>ii_db := (ii_db s)\<lparr>db_sessions := t\<rparr>\<rparr>"

abbreviation set_members :: "session_member list \<Rightarrow> 'r ident_state \<Rightarrow> 'r ident_state" where
  "set_members t s \<equiv> s\<lparr>ii_db := (ii_db s)\<lparr>db_members := t\<rparr>\<rparr>"

abbreviation set_keys :: "device_key list \<Rightarrow> 'r ident_state \<Rightarrow> 'r ident_state" where
  "set_keys t s \<equiv> s\<lparr>ii_db := (ii_db s)\<lparr>db_keys := t\<rparr>\<rparr>"

section \<open>Device management\<close>

record register_device_request =
  rd_Name :: string
  rd_DeviceType :: int32
  rd_NodeId :: string
  rd_Fingerprint :: string
  rd_IsPublic :: bool

text \<open>\<open>newID\<close> is the row's id, \<open>genNode\<close> the node id the service makes up. An error of the lookup,
  whatever it is, is taken for an unknown fingerprint; one of the activity update is dropped.\<close>

definition register_device ::
  "'r ident_env \<Rightarrow> ident_faults \<Rightarrow> time \<Rightarrow> string \<Rightarrow> string \<Rightarrow> auth_ctx \<Rightarrow> register_device_request
     \<Rightarrow> 'r ident_state \<Rightarrow> device_msg result \<times> 'r ident_state" where
  "register_device env flt now newID genNode ctx req s =
     (case user_of ctx of
        Inl e \<Rightarrow> (Inl e, s)
      | Inr userID \<Rightarrow>
     (if rd_Name req = '''' \<or> rd_Fingerprint req = ''''
      then (Inl (Status InvalidArgument ''name and fingerprint are required''), s)
      else
        let u = ie_uuid env; devices = db_devices (ii_db s);
            nodeID = (if rd_NodeId req = '''' then genNode else rd_NodeId req)
        in case ask (flt QDeviceByFingerprint) (get_device_by_fingerprint_sql u userID (rd_Fingerprint req) devices) of
             Inr existing \<Rightarrow>
               let updateNodeID = (if dv_NodeID existing \<noteq> None \<and> the (dv_NodeID existing) \<noteq> ''''
                                   then the (dv_NodeID existing) else nodeID)
               in (Inr (device_to_proto (existing\<lparr>dv_NodeID := Some updateNodeID\<rparr>)),
                   (case ask (flt QDeviceActivity)
                           (update_device_activity_sql u now (dv_ID existing) (Some updateNodeID) devices) of
                      Inl e \<Rightarrow> s
                    | Inr t \<Rightarrow> set_devices t s))
           | Inl _ \<Rightarrow>
               (case ask (flt QCreateDevice) (create_device_sql u now newID
                       \<lparr>dv_ID = '''', dv_UserID = userID, dv_Name = rd_Name req,
                        dv_DeviceType = device_type_to_string (rd_DeviceType req), dv_NodeID = Some nodeID,
                        dv_Fingerprint = rd_Fingerprint req, dv_IsApproved = True, dv_ApprovedAt = Some now,
                        dv_ApprovedBy = None, dv_LastActive = 0, dv_CreatedAt = 0, dv_RevokedAt = None,
                        dv_IsPublic = rd_IsPublic req\<rparr>
                       (db_users (ii_db s)) devices) of
                  Inl e \<Rightarrow> (Inl (Status Internal ''failed to register device''), s)
                | Inr (d, t) \<Rightarrow> (Inr (device_to_proto d), set_devices t s))))"

definition list_devices ::
  "'r ident_env \<Rightarrow> ident_faults \<Rightarrow> auth_ctx \<Rightarrow> 'r ident_state \<Rightarrow> device_msg list result" where
  "list_devices env flt ctx s =
     (case user_of ctx of
        Inl e \<Rightarrow> Inl e
      | Inr userID \<Rightarrow>
          (case ask (flt QListDevices) (list_devices_by_user_sql (ie_uuid env) userID (db_devices (ii_db s))) of
             Inl e \<Rightarrow> Inl (Status Internal ''failed to list devices'')
           | Inr ds \<Rightarrow> Inr (map device_to_proto ds)))"

definition get_device ::
  "'r ident_env \<Rightarrow> ident_faults \<Rightarrow> auth_ctx \<Rightarrow> string \<Rightarrow> 'r ident_state \<Rightarrow> device_msg result" where
  "get_device env flt ctx deviceId s =
     (case user_of ctx of
        Inl e \<Rightarrow> Inl e
      | Inr userID \<Rightarrow>
          (case ask (flt (QDeviceByID 0)) (get_device_by_id_sql (ie_uuid env) deviceId (db_devices (ii_db s))) of
             Inl NoRows \<Rightarrow> Inl (Status NotFound ''device not found'')
           | Inl QueryFailed \<Rightarrow> Inl (Status Internal ''failed to get device'')
           | Inr d \<Rightarrow>
               if dv_UserID d \<noteq> userID then Inl (Status PermissionDenied ''device does not belong to you'')
               else Inr (device_to_proto d)))"

definition revoke_device ::
  "'r ident_env \<Rightarrow> ident_faults \<Rightarrow> time \<Rightarrow> auth_ctx \<Rightarrow> string \<Rightarrow> 'r ident_state \<Rightarrow> bool result \<times> 'r ident_state" where
  "revoke_device env flt now ctx deviceId s =
     (case user_of ctx of
        Inl e \<Rightarrow> (Inl e, s)
      | Inr userID \<Rightarrow>
          (case ask (flt QRevokeDevice) (revoke_device_sql (ie_uuid env) now deviceId userID (db_devices (ii_db s))) of
             Inl e \<Rightarrow> (Inl (Status Internal ''failed to revoke device''), s)
           | Inr t \<Rightarrow> (Inr True, set_devices t s)))"

definition update_device_activity ::
  "'r ident_env \<Rightarrow> ident_faults \<Rightarrow> time \<Rightarrow> auth_ctx \<Rightarrow> string \<Rightarrow> string \<Rightarrow> 'r ident_state
     \<Rightarrow> bool result \<times> 'r ident_state" where
  "update_device_activity env flt now ctx deviceId nodeId s =
     (case user_of ctx of
        Inl e \<Rightarrow> (Inl e, s)
      | Inr userID \<Rightarrow>
          (case ask (flt (QDeviceByID 0)) (get_device_by_id_sql (ie_uuid env) deviceId (db_devices (ii_db s))) of
             Inl e \<Rightarrow> (Inl (Status NotFound ''device not found''), s)
           | Inr d \<Rightarrow>
               if dv_UserID d \<noteq> userID
               then (Inl (Status PermissionDenied ''device does not belong to you''), s)
               else case ask (flt QDeviceActivity) (update_device_activity_sql (ie_uuid env) now deviceId
                           (nullable nodeId) (db_devices (ii_db s))) of
                      Inl e \<Rightarrow> (Inl (Status Internal ''failed to update device activity''), s)
                    | Inr t \<Rightarrow> (Inr True, set_devices t s)))"

definition update_device_visibility ::
  "'r ident_env \<Rightarrow> ident_faults \<Rightarrow> auth_ctx \<Rightarrow> string \<Rightarrow> bool \<Rightarrow> 'r ident_state \<Rightarrow> bool result \<times> 'r ident_state" where
  "update_device_visibility env flt ctx deviceId public s =
     (case user_of ctx of
        Inl e \<Rightarrow> (Inl e, s)
      | Inr userID \<Rightarrow>
     (if deviceId = '''' then (Inl (Status InvalidArgument ''device_id is required''), s)
      else case ask (flt (QDeviceByID 0)) (get_device_by_id_sql (ie_uuid env) deviceId (db_devices (ii_db s))) of
             Inl e \<Rightarrow> (Inl (Status NotFound ''device not found''), s)
           | Inr d \<Rightarrow>
               if dv_UserID d \<noteq> userID then (Inl (Status PermissionDenied ''not your device''), s)
               else case ask (flt QVisibility)
                           (update_device_visibility_sql (ie_uuid env) deviceId public (db_devices (ii_db s))) of
                      Inl e \<Rightarrow> (Inl (Status Internal ''failed to update visibility''), s)
                    | Inr t \<Rightarrow> (Inr True, set_devices t s)))"

section \<open>Pairing\<close>

text \<open>The response is the code and its lifetime in seconds.\<close>

definition generate_pairing_code ::
  "'r ident_env \<Rightarrow> ident_faults \<Rightarrow> time \<Rightarrow> nat list \<Rightarrow> auth_ctx \<Rightarrow> string \<Rightarrow> 'r ident_state
     \<Rightarrow> (string \<times> int32) result \<times> 'r ident_state" where
  "generate_pairing_code env flt now random ctx deviceId s =
     (case user_of ctx of
        Inl e \<Rightarrow> (Inl e, s)
      | Inr userID \<Rightarrow>
          (case ask (flt (QDeviceByID 0)) (get_device_by_id_sql (ie_uuid env) deviceId (db_devices (ii_db s))) of
             Inl e \<Rightarrow> (Inl (Status NotFound ''device not found''), s)
           | Inr d \<Rightarrow>
               if dv_UserID d \<noteq> userID \<or> \<not> dv_IsApproved d
               then (Inl (Status PermissionDenied ''device not approved''), s)
               else
                 let (code, r) = generate_code (ie_redis env) now random userID deviceId (ii_redis s);
                     s1 = set_redis r s
                 in case code of
                      None \<Rightarrow> (Inl (Status Internal ''failed to generate pairing code''), s1)
                    | Some c \<Rightarrow> (Inr (c, 300), s1)))"

record redeem_request =
  rp_PairingCode :: string
  rp_Name :: string
  rp_DeviceType :: int32
  rp_NodeId :: string
  rp_Fingerprint :: string

text \<open>The response is the new device and the one that has to approve it.\<close>

definition redeem_pairing_code ::
  "'r ident_env \<Rightarrow> ident_faults \<Rightarrow> time \<Rightarrow> string \<Rightarrow> auth_ctx \<Rightarrow> redeem_request \<Rightarrow> 'r ident_state
     \<Rightarrow> (string \<times> string) result \<times> 'r ident_state" where
  "redeem_pairing_code env flt now newID ctx req s =
     (case user_of ctx of
        Inl e \<Rightarrow> (Inl e, s)
      | Inr userID \<Rightarrow>
     (if rp_PairingCode req = '''' \<or> rp_Name req = '''' \<or> rp_Fingerprint req = ''''
      then (Inl (Status InvalidArgument ''pairing_code, name and fingerprint are required''), s)
      else
        let (data, r) = redeem_code (ie_redis env) now (rp_PairingCode req) (ii_redis s);
            s1 = set_redis r s
        in case data of
             Inl e \<Rightarrow> (Inl (Status NotFound ''invalid or expired pairing code''), s1)
           | Inr (dataUser, dataDevice) \<Rightarrow>
               if dataUser \<noteq> userID
               then (Inl (Status PermissionDenied ''pairing code belongs to a different account''), s1)
               else case ask (flt QCreateDevice) (create_device_sql (ie_uuid env) now newID
                           \<lparr>dv_ID = '''', dv_UserID = userID, dv_Name = rp_Name req,
                            dv_DeviceType = device_type_to_string (rp_DeviceType req),
                            dv_NodeID = nullable (rp_NodeId req), dv_Fingerprint = rp_Fingerprint req,
                            dv_IsApproved = False, dv_ApprovedAt = None, dv_ApprovedBy = None,
                            dv_LastActive = 0, dv_CreatedAt = 0, dv_RevokedAt = None, dv_IsPublic = False\<rparr>
                           (db_users (ii_db s1)) (db_devices (ii_db s1))) of
                      Inl e \<Rightarrow> (Inl (Status Internal ''failed to create device''), s1)
                    | Inr (d, t) \<Rightarrow> (Inr (dv_ID d, dataDevice), set_devices t s1)))"

text \<open>The response is the pending device as it is afterwards, none when it is gone.\<close>

definition approve_pairing ::
  "'r ident_env \<Rightarrow> ident_faults \<Rightarrow> time \<Rightarrow> auth_ctx \<Rightarrow> string \<Rightarrow> string \<Rightarrow> bool \<Rightarrow> 'r ident_state
     \<Rightarrow> device_msg option result \<times> 'r ident_state" where
  "approve_pairing env flt now ctx approverId pendingId approve s =
     (case user_of ctx of
        Inl e \<Rightarrow> (Inl e, s)
      | Inr userID \<Rightarrow>
        let u = ie_uuid env; devices = db_devices (ii_db s) in
        case ask (flt (QDeviceByID 0)) (get_device_by_id_sql u approverId devices) of
          Inl e \<Rightarrow> (Inl (Status PermissionDenied ''approver device not valid''), s)
        | Inr approver \<Rightarrow>
            if dv_UserID approver \<noteq> userID \<or> \<not> dv_IsApproved approver
            then (Inl (Status PermissionDenied ''approver device not valid''), s)
            else case ask (flt (QDeviceByID 1)) (get_device_by_id_sql u pendingId devices) of
              Inl e \<Rightarrow> (Inl (Status NotFound ''pending device not found''), s)
            | Inr pending \<Rightarrow>
                if dv_UserID pending \<noteq> userID then (Inl (Status NotFound ''pending device not found''), s)
                else case (if approve then ask (flt QApprove) (approve_device_sql u now pendingId approverId devices)
                           else ask (flt QReject) (reject_device_sql u now pendingId devices)) of
                  Inl e \<Rightarrow> (Inl (Status Internal (if approve then ''failed to approve device''
                                                 else ''failed to reject device'')), s)
                | Inr t \<Rightarrow>
                    (case ask (flt (QDeviceByID 2)) (get_device_by_id_sql u pendingId t) of
                       Inl e \<Rightarrow> (Inr None, set_devices t s)
                     | Inr d \<Rightarrow> (Inr (Some (device_to_proto d)), set_devices t s)))"

section \<open>Peer sessions\<close>

definition session_devices :: "'r ident_env \<Rightarrow> bool \<Rightarrow> string \<Rightarrow> 'r ident_state \<Rightarrow> device list query" where
  "session_devices env failed sid s =
     ask failed (list_session_devices_sql (ie_uuid env) sid (db_members (ii_db s)) (db_devices (ii_db s)))"

definition rows_or_none :: "'a list query \<Rightarrow> 'a list" where
  "rows_or_none q = (case q of Inl e \<Rightarrow> [] | Inr rows \<Rightarrow> rows)"

text \<open>The creating device joins whoever owns it; an error of that is dropped.\<close>

definition create_peer_session ::
  "'r ident_env \<Rightarrow> ident_faults \<Rightarrow> time \<Rightarrow> string \<Rightarrow> auth_ctx \<Rightarrow> string \<Rightarrow> string \<Rightarrow> 'r ident_state
     \<Rightarrow> session_msg result \<times> 'r ident_state" where
  "create_peer_session env flt now newID ctx reqName deviceId s =
     (case user_of ctx of
        Inl e \<Rightarrow> (Inl e, s)
      | Inr userID \<Rightarrow>
        let name = (if reqName = '''' then ''Default Session'' else reqName) in
        case ask (flt QCreateSession) (create_session_sql (ie_uuid env) now newID userID name
               (db_users (ii_db s)) (db_sessions (ii_db s))) of
          Inl e \<Rightarrow> (Inl (Status Internal ''failed to create session''), s)
        | Inr (session, t) \<Rightarrow>
            let s1 = set_sessions t s;
                s2 = (if deviceId \<noteq> ''''
                      then (case ask (flt QAddMember) (add_device_to_session_sql (ie_uuid env) now (ps_ID session)
                                    deviceId (db_sessions (ii_db s1)) (db_devices (ii_db s1)) (db_members (ii_db s1))) of
                              Inl e \<Rightarrow> s1
                            | Inr ms \<Rightarrow> set_members ms s1)
                      else s1)
            in (Inr (session_to_proto session (rows_or_none (session_devices env (flt (QSessionDevices 0)) (ps_ID session) s2))), s2))"

text \<open>The loop over the sessions; the \<open>i\<close>th of them sends the \<open>i\<close>th query.\<close>

fun sessions_with_devices ::
  "'r ident_env \<Rightarrow> ident_faults \<Rightarrow> 'r ident_state \<Rightarrow> nat \<Rightarrow> peer_session list \<Rightarrow> session_msg list" where
  "sessions_with_devices env flt s i [] = []"
| "sessions_with_devices env flt s i (p # ps) =
     session_to_proto p (rows_or_none (session_devices env (flt (QSessionDevices i)) (ps_ID p) s))
     # sessions_with_devices env flt s (i + 1) ps"

definition list_peer_sessions ::
  "'r ident_env \<Rightarrow> ident_faults \<Rightarrow> auth_ctx \<Rightarrow> 'r ident_state \<Rightarrow> session_msg list result" where
  "list_peer_sessions env flt ctx s =
     (case user_of ctx of
        Inl e \<Rightarrow> Inl e
      | Inr userID \<Rightarrow>
          (case ask (flt QListSessions) (list_active_sessions_sql (ie_uuid env) userID (db_sessions (ii_db s))) of
             Inl e \<Rightarrow> Inl (Status Internal ''failed to list sessions'')
           | Inr ps \<Rightarrow> Inr (sessions_with_devices env flt s 0 ps)))"

definition close_peer_session ::
  "'r ident_env \<Rightarrow> ident_faults \<Rightarrow> time \<Rightarrow> auth_ctx \<Rightarrow> string \<Rightarrow> 'r ident_state \<Rightarrow> bool result \<times> 'r ident_state" where
  "close_peer_session env flt now ctx sessionId s =
     (case user_of ctx of
        Inl e \<Rightarrow> (Inl e, s)
      | Inr userID \<Rightarrow>
          (case ask (flt QCloseSession) (close_session_sql (ie_uuid env) now sessionId userID (db_sessions (ii_db s))) of
             Inl e \<Rightarrow> (Inl (Status Internal ''failed to close session''), s)
           | Inr t \<Rightarrow> (Inr True, set_sessions t s)))"

text \<open>The common check of the handlers on one session: it exists and is the caller's.\<close>

definition own_session ::
  "'r ident_env \<Rightarrow> ident_faults \<Rightarrow> string \<Rightarrow> string \<Rightarrow> 'r ident_state \<Rightarrow> peer_session result" where
  "own_session env flt userID sessionId s =
     (case ask (flt QGetSession) (get_session_sql (ie_uuid env) sessionId (db_sessions (ii_db s))) of
        Inl e \<Rightarrow> Inl (Status NotFound ''session not found'')
      | Inr session \<Rightarrow>
          if ps_UserID session \<noteq> userID
          then Inl (Status PermissionDenied ''session does not belong to you'')
          else Inr session)"

definition join_peer_session ::
  "'r ident_env \<Rightarrow> ident_faults \<Rightarrow> time \<Rightarrow> auth_ctx \<Rightarrow> string \<Rightarrow> string \<Rightarrow> 'r ident_state
     \<Rightarrow> bool result \<times> 'r ident_state" where
  "join_peer_session env flt now ctx sessionId deviceId s =
     (case user_of ctx of
        Inl e \<Rightarrow> (Inl e, s)
      | Inr userID \<Rightarrow>
     (case own_session env flt userID sessionId s of
        Inl e \<Rightarrow> (Inl e, s)
      | Inr session \<Rightarrow>
          if \<not> ps_IsActive session then (Inl (Status FailedPrecondition ''session is closed''), s)
          else case ask (flt (QDeviceByID 0)) (get_device_by_id_sql (ie_uuid env) deviceId (db_devices (ii_db s))) of
                 Inl e \<Rightarrow> (Inl (Status NotFound ''device not found''), s)
               | Inr d \<Rightarrow>
                   if dv_UserID d \<noteq> userID then (Inl (Status NotFound ''device not found''), s)
                   else case ask (flt QAddMember) (add_device_to_session_sql (ie_uuid env) now sessionId deviceId
                               (db_sessions (ii_db s)) (db_devices (ii_db s)) (db_members (ii_db s))) of
                          Inl e \<Rightarrow> (Inl (Status Internal ''failed to join session''), s)
                        | Inr ms \<Rightarrow> (Inr True, set_members ms s)))"

definition list_session_devices ::
  "'r ident_env \<Rightarrow> ident_faults \<Rightarrow> auth_ctx \<Rightarrow> string \<Rightarrow> 'r ident_state \<Rightarrow> device_msg list result" where
  "list_session_devices env flt ctx sessionId s =
     (case user_of ctx of
        Inl e \<Rightarrow> Inl e
      | Inr userID \<Rightarrow>
     (case own_session env flt userID sessionId s of
        Inl e \<Rightarrow> Inl e
      | Inr session \<Rightarrow>
          (case session_devices env (flt (QSessionDevices 0)) sessionId s of
             Inl e \<Rightarrow> Inl (Status Internal ''failed to list session devices'')
           | Inr ds \<Rightarrow> Inr (map device_to_proto ds))))"

definition leave_peer_session ::
  "'r ident_env \<Rightarrow> ident_faults \<Rightarrow> time \<Rightarrow> auth_ctx \<Rightarrow> string \<Rightarrow> string \<Rightarrow> 'r ident_state
     \<Rightarrow> bool result \<times> 'r ident_state" where
  "leave_peer_session env flt now ctx sessionId deviceId s =
     (case user_of ctx of
        Inl e \<Rightarrow> (Inl e, s)
      | Inr userID \<Rightarrow>
     (case own_session env flt userID sessionId s of
        Inl e \<Rightarrow> (Inl e, s)
      | Inr session \<Rightarrow>
          (case ask (flt QRemoveMember) (remove_device_from_session_sql (ie_uuid env) now sessionId deviceId
                  (db_members (ii_db s))) of
             Inl e \<Rightarrow> (Inl (Status Internal ''failed to leave session''), s)
           | Inr ms \<Rightarrow> (Inr True, set_members ms s))))"

section \<open>Device keys\<close>

definition upload_device_key ::
  "'r ident_env \<Rightarrow> ident_faults \<Rightarrow> time \<Rightarrow> auth_ctx \<Rightarrow> string \<Rightarrow> string \<Rightarrow> bytes \<Rightarrow> 'r ident_state
     \<Rightarrow> device_key result \<times> 'r ident_state" where
  "upload_device_key env flt now ctx deviceId kexAlgo key s =
     (case user_of ctx of
        Inl e \<Rightarrow> (Inl e, s)
      | Inr userID \<Rightarrow>
     (if deviceId = '''' \<or> length key = 0
      then (Inl (Status InvalidArgument ''device_id and kex_public_key are required''), s)
      else
        let algo = (if kexAlgo = '''' then ''x25519'' else kexAlgo) in
        if algo = ''x25519'' \<and> length key \<noteq> 32
        then (Inl (Status InvalidArgument ''x25519 public key must be 32 bytes''), s)
        else case ask (flt (QDeviceByID 0)) (get_device_by_id_sql (ie_uuid env) deviceId (db_devices (ii_db s))) of
               Inl e \<Rightarrow> (Inl (Status NotFound ''device not found''), s)
             | Inr d \<Rightarrow>
                 if dv_UserID d \<noteq> userID
                 then (Inl (Status PermissionDenied ''device does not belong to you''), s)
                 else if \<not> dv_IsApproved d
                 then (Inl (Status FailedPrecondition ''device is not approved''), s)
                 else case ask (flt QUpsertKey) (upsert_device_key_sql (ie_uuid env) now deviceId algo key
                             (db_devices (ii_db s)) (db_keys (ii_db s))) of
                        Inl e \<Rightarrow> (Inl (Status Internal ''failed to store device key''), s)
                      | Inr (k, t) \<Rightarrow> (Inr k, set_keys t s)))"

definition get_device_key ::
  "'r ident_env \<Rightarrow> ident_faults \<Rightarrow> auth_ctx \<Rightarrow> string \<Rightarrow> 'r ident_state \<Rightarrow> device_key result" where
  "get_device_key env flt ctx deviceId s =
     (case user_of ctx of
        Inl e \<Rightarrow> Inl e
      | Inr _ \<Rightarrow>
     (if deviceId = '''' then Inl (Status InvalidArgument ''device_id is required'')
      else
        let found = (if length deviceId > 5 \<and> take 5 deviceId = ''node:''
                     then get_device_key_by_node_sql (drop 5 deviceId) (db_devices (ii_db s)) (db_keys (ii_db s))
                     else get_device_key_sql (ie_uuid env) deviceId (db_keys (ii_db s)))
        in case ask (flt QGetKey) found of
             Inl NoRows \<Rightarrow> Inl (Status NotFound ''device key not found'')
           | Inl QueryFailed \<Rightarrow> Inl (Status Internal ''failed to fetch device key'')
           | Inr k \<Rightarrow> Inr k))"

definition get_session_device_keys ::
  "'r ident_env \<Rightarrow> ident_faults \<Rightarrow> auth_ctx \<Rightarrow> string \<Rightarrow> 'r ident_state \<Rightarrow> device_key list result" where
  "get_session_device_keys env flt ctx sessionId s =
     (case user_of ctx of
        Inl e \<Rightarrow> Inl e
      | Inr userID \<Rightarrow>
     (if sessionId = '''' then Inl (Status InvalidArgument ''session_id is required'')
      else case own_session env flt userID sessionId s of
             Inl e \<Rightarrow> Inl e
           | Inr session \<Rightarrow>
               (case ask (flt QSessionKeys) (list_session_device_keys_sql (ie_uuid env) sessionId
                       (db_members (ii_db s)) (db_devices (ii_db s)) (db_keys (ii_db s))) of
                  Inl e \<Rightarrow> Inl (Status Internal ''failed to list session device keys'')
                | Inr ks \<Rightarrow> Inr ks)))"

end
