(* ===== verification/Friends.thy ===== *)
theory Friends
  imports Devices
begin

text \<open>
  Friends, presence, avatars and the administration of the identity service: the rest of the
  handlers of \<open>services/identity/handler/handler.go\<close>.
\<close>

abbreviation set_friends :: "friend_row list \<Rightarrow> 'r ident_state \<Rightarrow> 'r ident_state" where
  "set_friends t s \<equiv> s\<lparr>ii_db := (ii_db s)\<lparr>db_friends := t\<rparr>\<rparr>"

abbreviation set_presence :: "presence list \<Rightarrow> 'r ident_state \<Rightarrow> 'r ident_state" where
  "set_presence t s \<equiv> s\<lparr>ii_db := (ii_db s)\<lparr>db_presence := t\<rparr>\<rparr>"

section \<open>Friends\<close>

record user_info =
  ui_UserId :: string
  ui_Username :: string
  ui_Email :: string

record friend_msg =
  fm_Id :: string
  fm_User :: user_info
  fm_Status :: string
  fm_CreatedAt :: time

definition user_to_info :: "user \<Rightarrow> user_info" where
  "user_to_info r = \<lparr>ui_UserId = us_ID r, ui_Username = us_Username r, ui_Email = us_Email r\<rparr>"

text \<open>A user whose row could not be read is the zero value of the struct.\<close>

definition info_or_zero :: "user query \<Rightarrow> user_info" where
  "info_or_zero q =
     (case q of
        Inl e \<Rightarrow> \<lparr>ui_UserId = '''', ui_Username = '''', ui_Email = ''''\<rparr>
      | Inr r \<Rightarrow> user_to_info r)"

definition friend_to_proto :: "friend_row \<Rightarrow> user_info \<Rightarrow> friend_msg" where
  "friend_to_proto f user =
     \<lparr>fm_Id = fd_ID f, fm_User = user, fm_Status = fd_Status f, fm_CreatedAt = fd_CreatedAt f\<rparr>"

definition send_friend_request ::
  "'r ident_env \<Rightarrow> ident_faults \<Rightarrow> time \<Rightarrow> string \<Rightarrow> auth_ctx \<Rightarrow> string \<Rightarrow> 'r ident_state
     \<Rightarrow> friend_msg result \<times> 'r ident_state" where
  "send_friend_request env flt now newID ctx addresseeId s =
     (case user_of ctx of
        Inl e \<Rightarrow> (Inl e, s)
      | Inr userID \<Rightarrow>
     (if addresseeId = '''' then (Inl (Status InvalidArgument ''addressee_user_id is required''), s)
      else if addresseeId = userID
      then (Inl (Status InvalidArgument ''cannot send friend request to yourself''), s)
      else
        let u = ie_uuid env; users = db_users (ii_db s); friends = db_friends (ii_db s) in
        case ask (flt QFriendBetween) (get_friendship_between_sql u userID addresseeId friends) of
          Inr _ \<Rightarrow> (Inl (Status AlreadyExists ''friendship already exists''), s)
        | Inl _ \<Rightarrow>
            (case ask (flt (QUserByID 0)) (get_user_by_id_sql u addresseeId users) of
               Inl e \<Rightarrow> (Inl (Status NotFound ''user not found''), s)
             | Inr _ \<Rightarrow>
                 (case ask (flt QCreateFriend) (create_friend_request_sql u now newID userID addresseeId users friends) of
                    Inl e \<Rightarrow> (Inl (Status Internal ''failed to create friend request''), s)
                  | Inr (f, t) \<Rightarrow>
                      (Inr (friend_to_proto f (info_or_zero
                          (ask (flt (QUserByID 1)) (get_user_by_id_sql u addresseeId users)))),
                       set_friends t s)))))"

definition respond_to_friend_request ::
  "'r ident_env \<Rightarrow> ident_faults \<Rightarrow> time \<Rightarrow> auth_ctx \<Rightarrow> string \<Rightarrow> bool \<Rightarrow> 'r ident_state
     \<Rightarrow> friend_msg result \<times> 'r ident_state" where
  "respond_to_friend_request env flt now ctx friendshipId accept s =
     (case user_of ctx of
        Inl e \<Rightarrow> (Inl e, s)
      | Inr userID \<Rightarrow>
     (if friendshipId = '''' then (Inl (Status InvalidArgument ''friendship_id is required''), s)
      else
        let u = ie_uuid env in
        case ask (flt QAnswerFriend)
               (if accept then accept_friend_request_sql u now friendshipId userID (db_friends (ii_db s))
                else reject_friend_request_sql u now friendshipId userID (db_friends (ii_db s))) of
          Inl e \<Rightarrow> (Inl (Status Internal (if accept then ''failed to accept friend request''
                                         else ''failed to reject friend request'')), s)
        | Inr t \<Rightarrow>
            let s1 = set_friends t s in
            case ask (flt QGetFriend) (get_friendship_sql u friendshipId t) of
              Inl e \<Rightarrow> (Inl (Status Internal ''failed to fetch friendship''), s1)
            | Inr f \<Rightarrow>
                (Inr (friend_to_proto f (info_or_zero
                    (ask (flt (QUserByID 0)) (get_user_by_id_sql u (fd_RequesterID f) (db_users (ii_db s)))))), s1)))"

definition friend_rows :: "(friend_row \<times> user) list \<Rightarrow> friend_msg list" where
  "friend_rows rows = map (\<lambda>(f, w). friend_to_proto f (user_to_info w)) rows"

definition list_friends ::
  "'r ident_env \<Rightarrow> ident_faults \<Rightarrow> auth_ctx \<Rightarrow> 'r ident_state \<Rightarrow> friend_msg list result" where
  "list_friends env flt ctx s =
     (case user_of ctx of
        Inl e \<Rightarrow> Inl e
      | Inr userID \<Rightarrow>
          (case ask (flt QListFriends) (list_accepted_friends_sql (ie_uuid env) userID
                  (db_users (ii_db s)) (db_friends (ii_db s))) of
             Inl e \<Rightarrow> Inl (Status Internal ''failed to list friends'')
           | Inr rows \<Rightarrow> Inr (friend_rows rows)))"

definition list_friend_requests ::
  "'r ident_env \<Rightarrow> ident_faults \<Rightarrow> auth_ctx \<Rightarrow> 'r ident_state \<Rightarrow> friend_msg list result" where
  "list_friend_requests env flt ctx s =
     (case user_of ctx of
        Inl e \<Rightarrow> Inl e
      | Inr userID \<Rightarrow>
          (case ask (flt QListPending) (list_pending_requests_sql (ie_uuid env) userID
                  (db_users (ii_db s)) (db_friends (ii_db s))) of
             Inl e \<Rightarrow> Inl (Status Internal ''failed to list friend requests'')
           | Inr rows \<Rightarrow> Inr (friend_rows rows)))"

definition remove_friend ::
  "'r ident_env \<Rightarrow> ident_faults \<Rightarrow> auth_ctx \<Rightarrow> string \<Rightarrow> 'r ident_state \<Rightarrow> bool result \<times> 'r ident_state" where
  "remove_friend env flt ctx friendshipId s =
     (case user_of ctx of
        Inl e \<Rightarrow> (Inl e, s)
      | Inr userID \<Rightarrow>
     (if friendshipId = '''' then (Inl (Status InvalidArgument ''friendship_id is required''), s)
      else case ask (flt QRemoveFriend) (remove_friend_sql (ie_uuid env) friendshipId userID (db_friends (ii_db s))) of
             Inl e \<Rightarrow> (Inl (Status Internal ''failed to remove friend''), s)
           | Inr t \<Rightarrow> (Inr True, set_friends t s)))"

definition search_users ::
  "'r ident_env \<Rightarrow> ident_faults \<Rightarrow> auth_ctx \<Rightarrow> string \<Rightarrow> 'r ident_state \<Rightarrow> user_info list result" where
  "search_users env flt ctx q s =
     (case user_of ctx of
        Inl e \<Rightarrow> Inl e
      | Inr userID \<Rightarrow>
     (if q = '''' then Inl (Status InvalidArgument ''query is required'')
      else case ask (flt QSearchUsers) (search_users_sql (ie_uuid env) (ie_ilike env) q userID (db_users (ii_db s))) of
             Inl e \<Rightarrow> Inl (Status Internal ''failed to search users'')
           | Inr rows \<Rightarrow> Inr (map user_to_info rows)))"

text \<open>Friend requests, incoming transfers (left to the gateway) and their total.\<close>

definition get_notification_count ::
  "'r ident_env \<Rightarrow> ident_faults \<Rightarrow> auth_ctx \<Rightarrow> 'r ident_state \<Rightarrow> (int32 \<times> int32 \<times> int32) result" where
  "get_notification_count env flt ctx s =
     (case user_of ctx of
        Inl e \<Rightarrow> Inl e
      | Inr userID \<Rightarrow>
          let count = (case ask (flt QCountPending) (count_pending_requests_sql (ie_uuid env) userID (db_friends (ii_db s))) of
                         Inl e \<Rightarrow> 0 | Inr n \<Rightarrow> n);
              fr = wrap32 count
          in Inr (fr, 0, fr))"

definition list_friend_devices ::
  "'r ident_env \<Rightarrow> ident_faults \<Rightarrow> auth_ctx \<Rightarrow> string \<Rightarrow> 'r ident_state \<Rightarrow> device_msg list result" where
  "list_friend_devices env flt ctx friendId s =
     (case user_of ctx of
        Inl e \<Rightarrow> Inl e
      | Inr userID \<Rightarrow>
     (if friendId = '''' then Inl (Status InvalidArgument ''friend_user_id is required'')
      else
        let u = ie_uuid env in
        case ask (flt QFriendBetween) (get_friendship_between_sql u userID friendId (db_friends (ii_db s))) of
          Inl e \<Rightarrow> Inl (Status PermissionDenied ''not friends with this user'')
        | Inr f \<Rightarrow>
            if fd_Status f \<noteq> ''accepted'' then Inl (Status PermissionDenied ''not friends with this user'')
            else case ask (flt QListPublic) (list_devices_public_sql u friendId (db_devices (ii_db s))) of
                   Inl e \<Rightarrow> Inl (Status Internal ''failed to list devices'')
                 | Inr ds \<Rightarrow> Inr (map device_to_proto ds)))"

definition get_platform_stats :: "ident_faults \<Rightarrow> 'r ident_state \<Rightarrow> int64 \<times> int64" where
  "get_platform_stats flt s =
     ((if flt QCountUsers then 0 else count_users_sql (db_users (ii_db s))),
      (if flt QCountDevices then 0 else count_devices_sql (db_devices (ii_db s))))"

section \<open>Presence\<close>

definition heartbeat ::
  "'r ident_env \<Rightarrow> ident_faults \<Rightarrow> time \<Rightarrow> auth_ctx \<Rightarrow> string \<Rightarrow> 'r ident_state \<Rightarrow> bool result \<times> 'r ident_state" where
  "heartbeat env flt now ctx deviceId s =
     (case user_of ctx of
        Inl e \<Rightarrow> (Inl e, s)
      | Inr userID \<Rightarrow>
     (if deviceId = '''' then (Inl (Status InvalidArgument ''device_id is required''), s)
      else case ask (flt QUpsertPresence) (upsert_presence_sql (ie_uuid env) now deviceId userID
                  (db_users (ii_db s)) (db_presence (ii_db s))) of
             Inl e \<Rightarrow> (Inl (Status Internal ''failed to update presence''), s)
           | Inr t \<Rightarrow> (Inr True, set_presence t s)))"

record presence_info =
  pi_UserId :: string
  pi_DeviceId :: string
  pi_LastSeen :: time
  pi_Online :: bool

definition get_presence ::
  "'r ident_env \<Rightarrow> ident_faults \<Rightarrow> time \<Rightarrow> auth_ctx \<Rightarrow> string list \<Rightarrow> 'r ident_state
     \<Rightarrow> presence_info list result" where
  "get_presence env flt now ctx userIds s =
     (case user_of ctx of
        Inl e \<Rightarrow> Inl e
      | Inr _ \<Rightarrow>
     (if length userIds = 0 then Inr []
      else case ask (flt QPresence) (get_presence_sql (ie_uuid env) userIds (db_presence (ii_db s))) of
             Inl e \<Rightarrow> Inl (Status Internal ''failed to get presence'')
           | Inr rows \<Rightarrow>
               let onlineThreshold = now - 60 * second
               in Inr (map (\<lambda>r. \<lparr>pi_UserId = pr_UserID r, pi_DeviceId = pr_DeviceID r,
                                 pi_LastSeen = pr_LastSeen r, pi_Online = (pr_LastSeen r > onlineThreshold)\<rparr>) rows)))"

section \<open>Avatars\<close>

definition update_avatar ::
  "'r ident_env \<Rightarrow> ident_faults \<Rightarrow> auth_ctx \<Rightarrow> string \<Rightarrow> 'r ident_state \<Rightarrow> bool result \<times> 'r ident_state" where
  "update_avatar env flt ctx data s =
     (case user_of ctx of
        Inl e \<Rightarrow> (Inl e, s)
      | Inr userID \<Rightarrow>
     (if length data > 1 * 1024 * 1024 then (Inl (Status InvalidArgument ''avatar_data exceeds 1 MB limit''), s)
      else case ask (flt QUpdateAvatar) (update_user_avatar_sql (ie_uuid env) userID (nullable data) (db_users (ii_db s))) of
             Inl e \<Rightarrow> (Inl (Status Internal ''failed to update avatar''), s)
           | Inr t \<Rightarrow> (Inr True, set_users t s)))"

definition get_avatar ::
  "'r ident_env \<Rightarrow> ident_faults \<Rightarrow> auth_ctx \<Rightarrow> string \<Rightarrow> 'r ident_state \<Rightarrow> string result" where
  "get_avatar env flt ctx userId s =
     (case user_of ctx of
        Inl e \<Rightarrow> Inl e
      | Inr _ \<Rightarrow>
     (if userId = '''' then Inl (Status InvalidArgument ''user_id is required'')
      else case ask (flt QGetAvatar) (get_user_avatar_sql (ie_uuid env) userId (db_users (ii_db s))) of
             Inl e \<Rightarrow> Inr ''''
           | Inr a \<Rightarrow> Inr (text_or_empty a)))"

section \<open>Administration\<close>

text \<open>These handlers ask for no user; the gateway guards them. A total that cannot be read is 0.\<close>

definition page_limit :: "int32 \<Rightarrow> int32" where
  "page_limit limit = (if limit \<le> 0 \<or> limit > 200 then 50 else limit)"

definition admin_list_users ::
  "ident_faults \<Rightarrow> int32 \<Rightarrow> int32 \<Rightarrow> 'r ident_state \<Rightarrow> (user_msg list \<times> int64) result" where
  "admin_list_users flt limit offset s =
     (case ask (flt QAdminUsers) (admin_list_users_sql (page_limit limit) offset (db_users (ii_db s))) of
        Inl e \<Rightarrow> Inl (Status Internal ''failed to list users'')
      | Inr rows \<Rightarrow>
          Inr (map user_to_msg rows, if flt QCountUsers then 0 else count_users_sql (db_users (ii_db s))))"

record admin_device =
  ad_DeviceId :: string
  ad_UserId :: string
  ad_Name :: string
  ad_DeviceType :: int32
  ad_NodeId :: string
  ad_IsApproved :: bool
  ad_IsRevoked :: bool
  ad_IsPublic :: bool
  ad_OwnerUsername :: string
  ad_OwnerEmail :: string
  ad_LastActive :: time
  ad_CreatedAt :: time

definition admin_device_of :: "device \<Rightarrow> user \<Rightarrow> admin_device" where
  "admin_device_of d w =
     \<lparr>ad_DeviceId = dv_ID d, ad_UserId = dv_UserID d, ad_Name = dv_Name d,
      ad_DeviceType = string_to_device_type (dv_DeviceType d), ad_NodeId = text_or_empty (dv_NodeID d),
      ad_IsApproved = dv_IsApproved d, ad_IsRevoked = (dv_RevokedAt d \<noteq> None), ad_IsPublic = dv_IsPublic d,
      ad_OwnerUsername = us_Username w, ad_OwnerEmail = us_Email w, ad_LastActive = dv_LastActive d,
      ad_CreatedAt = dv_CreatedAt d\<rparr>"

definition admin_list_devices ::
  "ident_faults \<Rightarrow> int32 \<Rightarrow> int32 \<Rightarrow> 'r ident_state \<Rightarrow> (admin_device list \<times> int64) result" where
  "admin_list_devices flt limit offset s =
     (case ask (flt QAdminDevices) (admin_list_devices_sql (page_limit limit) offset
             (db_users (ii_db s)) (db_devices (ii_db s))) of
        Inl e \<Rightarrow> Inl (Status Internal ''failed to list devices'')
      | Inr rows \<Rightarrow>
          Inr (map (\<lambda>(d, w). admin_device_of d w) rows,
               if flt QCountDevices then 0 else count_devices_sql (db_devices (ii_db s))))"

definition admin_list_audit_logs ::
  "ident_faults \<Rightarrow> int32 \<Rightarrow> int32 \<Rightarrow> 'r ident_state \<Rightarrow> (audit_log list \<times> int64) result" where
  "admin_list_audit_logs flt limit offset s =
     (case ask (flt QAdminAudit) (admin_list_audit_sql (page_limit limit) offset (db_audit (ii_db s))) of
        Inl e \<Rightarrow> Inl (Status Internal ''failed to list audit logs'')
      | Inr rows \<Rightarrow>
          Inr (rows, if flt QCountAudit then 0 else admin_count_audit_sql (db_audit (ii_db s))))"

end
