(* ===== verification/IdentityLaws.thy ===== *)
theory IdentityLaws
  imports Friends
begin

text \<open>
  What the identity service keeps: its tables stay well-formed under any run of its handlers
  with any failing queries, a device is changed only by its owner, and a friendship is
  answered only by its addressee.
\<close>

section \<open>Runs\<close>

datatype ident_op =
    OpRegister string "string option" string string string
  | OpVerifyEmail string
  | OpResend "string option" string
  | OpRefresh string
  | OpLogout string
  | OpRegisterDevice string string register_device_request
  | OpRevokeDevice string
  | OpActivity string string
  | OpVisibility string bool
  | OpGenerateCode "nat list" string
  | OpRedeemCode string redeem_request
  | OpApprove string string bool
  | OpCreateSession string string string
  | OpCloseSession string
  | OpJoin string string
  | OpLeave string string
  | OpUploadKey string string bytes
  | OpSendFriendRequest string string
  | OpRespond string bool
  | OpRemoveFriend string
  | OpHeartbeat string
  | OpAvatar string

text \<open>A call: the time, the queries that fail, the authenticated context, the request.\<close>

type_synonym ident_call = "time \<times> ident_faults \<times> auth_ctx \<times> ident_op"

fun ident_step :: "'r ident_env \<Rightarrow> 'r ident_state \<Rightarrow> ident_call \<Rightarrow> 'r ident_state" where
  "ident_step env s (now, flt, ctx, op) =
     (case op of
        OpRegister newID token username email password \<Rightarrow> snd (register env flt now newID token username email password s)
      | OpVerifyEmail token \<Rightarrow> snd (verify_email env flt now token s)
      | OpResend token email \<Rightarrow> snd (resend_verification env flt now token email s)
      | OpRefresh token \<Rightarrow> snd (refresh_token env now token s)
      | OpLogout token \<Rightarrow> snd (logout env now token s)
      | OpRegisterDevice newID genNode req \<Rightarrow> snd (register_device env flt now newID genNode ctx req s)
      | OpRevokeDevice did \<Rightarrow> snd (revoke_device env flt now ctx did s)
      | OpActivity did nid \<Rightarrow> snd (update_device_activity env flt now ctx did nid s)
      | OpVisibility did public \<Rightarrow> snd (update_device_visibility env flt ctx did public s)
      | OpGenerateCode random did \<Rightarrow> snd (generate_pairing_code env flt now random ctx did s)
      | OpRedeemCode newID req \<Rightarrow> snd (redeem_pairing_code env flt now newID ctx req s)
      | OpApprove approver pending ok \<Rightarrow> snd (approve_pairing env flt now ctx approver pending ok s)
      | OpCreateSession newID name did \<Rightarrow> snd (create_peer_session env flt now newID ctx name did s)
      | OpCloseSession sid \<Rightarrow> snd (close_peer_session env flt now ctx sid s)
      | OpJoin sid did \<Rightarrow> snd (join_peer_session env flt now ctx sid did s)
      | OpLeave sid did \<Rightarrow> snd (leave_peer_session env flt now ctx sid did s)
      | OpUploadKey did algo key \<Rightarrow> snd (upload_device_key env flt now ctx did algo key s)
      | OpSendFriendRequest newID addressee \<Rightarrow> snd (send_friend_request env flt now newID ctx addressee s)
      | OpRespond fid accept \<Rightarrow> snd (respond_to_friend_request env flt now ctx fid accept s)
      | OpRemoveFriend fid \<Rightarrow> snd (remove_friend env flt ctx fid s)
      | OpHeartbeat did \<Rightarrow> snd (heartbeat env flt now ctx did s)
      | OpAvatar data \<Rightarrow> snd (update_avatar env flt ctx data s))"

section \<open>Well-formed tables\<close>

definition users_wf :: "user list \<Rightarrow> bool" where
  "users_wf us \<longleftrightarrow> distinct (map us_ID us) \<and> distinct (map us_Email us)"

text \<open>An approved device says when it was, and the device that approved it, if another one did,
  is an approved device of the same user.\<close>

definition approval_ok :: "device list \<Rightarrow> device \<Rightarrow> bool" where
  "approval_ok ds d \<longleftrightarrow>
     (if dv_IsApproved d
      then dv_ApprovedAt d \<noteq> None
        \<and> (\<forall>b. dv_ApprovedBy d = Some b \<longrightarrow>
             (\<exists>d'\<in>set ds. dv_ID d' = b \<and> dv_UserID d' = dv_UserID d \<and> dv_IsApproved d'))
      else dv_ApprovedAt d = None \<and> dv_ApprovedBy d = None)"

definition device_slot :: "device \<Rightarrow> string \<times> string" where
  "device_slot d = (dv_UserID d, dv_Fingerprint d)"

definition devices_wf :: "user list \<Rightarrow> device list \<Rightarrow> bool" where
  "devices_wf us ds \<longleftrightarrow>
     distinct (map dv_ID ds)
     \<and> distinct (map device_slot (filter (\<lambda>d. dv_RevokedAt d = None) ds))
     \<and> (\<forall>d\<in>set ds. dv_UserID d \<in> us_ID ` set us \<and> approval_ok ds d)"

text \<open>Keys belong to approved devices, and X25519 keys have 32 bytes.\<close>

definition keys_wf :: "device list \<Rightarrow> device_key list \<Rightarrow> bool" where
  "keys_wf ds ks \<longleftrightarrow>
     distinct (map dk_DeviceID ks)
     \<and> (\<forall>k\<in>set ks. (\<exists>d\<in>set ds. dv_ID d = dk_DeviceID k \<and> dv_IsApproved d)
          \<and> dk_KexPublicKey k \<noteq> [] \<and> (dk_KexAlgo k = ''x25519'' \<longrightarrow> length (dk_KexPublicKey k) = 32))"

definition friends_wf :: "user list \<Rightarrow> friend_row list \<Rightarrow> bool" where
  "friends_wf us fs \<longleftrightarrow>
     distinct (map fd_ID fs) \<and> distinct (map (\<lambda>f. (fd_RequesterID f, fd_AddresseeID f)) fs)
     \<and> (\<forall>f\<in>set fs. fd_RequesterID f \<in> us_ID ` set us \<and> fd_AddresseeID f \<in> us_ID ` set us
          \<and> fd_Status f \<in> {''pending'', ''accepted'', ''rejected''})"

definition sessions_wf :: "user list \<Rightarrow> peer_session list \<Rightarrow> bool" where
  "sessions_wf us ss \<longleftrightarrow>
     distinct (map ps_ID ss)
     \<and> (\<forall>p\<in>set ss. ps_UserID p \<in> us_ID ` set us \<and> (ps_IsActive p \<longleftrightarrow> ps_ClosedAt p = None))"

definition members_wf :: "peer_session list \<Rightarrow> device list \<Rightarrow> session_member list \<Rightarrow> bool" where
  "members_wf ss ds ms \<longleftrightarrow>
     distinct (map (\<lambda>m. (sm_SessionID m, sm_DeviceID m)) ms)
     \<and> (\<forall>m\<in>set ms. sm_SessionID m \<in> ps_ID ` set ss \<and> sm_DeviceID m \<in> dv_ID ` set ds)"

definition presence_wf :: "user list \<Rightarrow> presence list \<Rightarrow> bool" where
  "presence_wf us ps \<longleftrightarrow> distinct (map pr_DeviceID ps) \<and> (\<forall>p\<in>set ps. pr_UserID p \<in> us_ID ` set us)"

definition identity_wf :: "identity_db \<Rightarrow> bool" where
  "identity_wf db \<longleftrightarrow>
     users_wf (db_users db) \<and> devices_wf (db_users db) (db_devices db)
     \<and> keys_wf (db_devices db) (db_keys db) \<and> friends_wf (db_users db) (db_friends db)
     \<and> sessions_wf (db_users db) (db_sessions db)
     \<and> members_wf (db_sessions db) (db_devices db) (db_members db)
     \<and> presence_wf (db_users db) (db_presence db)"

section \<open>Changes that keep references alive\<close>

definition users_grow :: "user list \<Rightarrow> user list \<Rightarrow> bool" where
  "users_grow us us' \<longleftrightarrow> us_ID ` set us \<subseteq> us_ID ` set us'"

definition devices_grow :: "device list \<Rightarrow> device list \<Rightarrow> bool" where
  "devices_grow ds ds' \<longleftrightarrow>
     (\<forall>d\<in>set ds. \<exists>d'\<in>set ds'. dv_ID d' = dv_ID d \<and> dv_UserID d' = dv_UserID d
        \<and> (dv_IsApproved d \<longrightarrow> dv_IsApproved d'))"

lemma devices_grow_refl [simp]: "devices_grow ds ds"
  by (auto simp: devices_grow_def)

lemma grow_devices_wf: "users_grow us us' \<Longrightarrow> devices_wf us ds \<Longrightarrow> devices_wf us' ds"
  by (auto simp: users_grow_def devices_wf_def)

lemma grow_friends_wf: "users_grow us us' \<Longrightarrow> friends_wf us fs \<Longrightarrow> friends_wf us' fs"
  by (auto simp: users_grow_def friends_wf_def)

lemma grow_sessions_wf: "users_grow us us' \<Longrightarrow> sessions_wf us ss \<Longrightarrow> sessions_wf us' ss"
  by (auto simp: users_grow_def sessions_wf_def)

lemma grow_presence_wf: "users_grow us us' \<Longrightarrow> presence_wf us ps \<Longrightarrow> presence_wf us' ps"
  by (auto simp: users_grow_def presence_wf_def)

lemma devices_growE:
  assumes "devices_grow ds ds'" "d \<in> set ds"
  obtains d' where "d' \<in> set ds'" "dv_ID d' = dv_ID d" "dv_UserID d' = dv_UserID d"
    "dv_IsApproved d \<longrightarrow> dv_IsApproved d'"
  using assms unfolding devices_grow_def by blast

lemma devices_grow_ids:
  assumes "devices_grow ds ds'"
  shows "dv_ID ` set ds \<subseteq> dv_ID ` set ds'"
proof
  fix i assume "i \<in> dv_ID ` set ds"
  then obtain d where "d \<in> set ds" "i = dv_ID d" by auto
  then show "i \<in> dv_ID ` set ds'" using devices_growE [OF assms] by (metis image_eqI)
qed

lemma grow_keys_wf:
  assumes "devices_grow ds ds'" "keys_wf ds ks"
  shows "keys_wf ds' ks"
proof -
  have "\<exists>d\<in>set ds'. dv_ID d = dk_DeviceID k \<and> dv_IsApproved d" if "k \<in> set ks" for k
  proof -
    obtain d where "d \<in> set ds" "dv_ID d = dk_DeviceID k" "dv_IsApproved d"
      using assms(2) \<open>k \<in> set ks\<close> by (auto simp: keys_wf_def)
    then show ?thesis using devices_growE [OF assms(1)] by metis
  qed
  then show ?thesis using assms(2) by (simp add: keys_wf_def)
qed

lemma grow_members_wf:
  assumes "devices_grow ds ds'" "ps_ID ` set ss \<subseteq> ps_ID ` set ss'" "members_wf ss ds ms"
  shows "members_wf ss' ds' ms"
  using assms(2,3) devices_grow_ids [OF assms(1)] unfolding members_wf_def by blast

lemma grow_approval_ok:
  assumes "devices_grow ds ds'" "approval_ok ds d"
  shows "approval_ok ds' d"
proof (cases "dv_IsApproved d")
  case True
  have "\<exists>e\<in>set ds'. dv_ID e = b \<and> dv_UserID e = dv_UserID d \<and> dv_IsApproved e"
    if "dv_ApprovedBy d = Some b" for b
  proof -
    have "\<exists>d1\<in>set ds. dv_ID d1 = b \<and> dv_UserID d1 = dv_UserID d \<and> dv_IsApproved d1"
      using assms(2) True that by (simp add: approval_ok_def)
    then obtain d1 where "d1 \<in> set ds" "dv_ID d1 = b" "dv_UserID d1 = dv_UserID d" "dv_IsApproved d1" by blast
    then show ?thesis using devices_growE [OF assms(1)] by metis
  qed
  then show ?thesis using assms(2) True by (simp add: approval_ok_def)
next
  case False
  then show ?thesis using assms(2) by (simp add: approval_ok_def)
qed

section \<open>What each table's queries keep\<close>

lemma create_user_wf:
  assumes "create_user_sql now newID username email hash t = Inr (r, t')" "users_wf t"
  shows "users_wf t' \<and> users_grow t t'"
  using assms by (auto simp: create_user_sql_def users_wf_def users_grow_def Let_def split: if_splits)

lemma update_users_wf:
  assumes "users_wf t" "\<And>r. us_ID (f r) = us_ID r" "\<And>r. us_Email (f r) = us_Email r"
  shows "users_wf (update_rows p f t) \<and> users_grow t (update_rows p f t)"
proof -
  have k: "map us_ID (update_rows p f t) = map us_ID t" "map us_Email (update_rows p f t) = map us_Email t"
    using assms(2,3) by (simp_all add: keys_update_rows)
  have "us_ID ` set (update_rows p f t) = us_ID ` set t" using k(1) by (metis set_map)
  then show ?thesis using assms(1) k by (simp add: users_wf_def users_grow_def)
qed

lemma devices_update:
  assumes "devices_wf us ds"
    and "\<And>d. d \<in> set ds \<Longrightarrow> p d \<Longrightarrow> dv_ID (f d) = dv_ID d \<and> dv_UserID (f d) = dv_UserID d
           \<and> dv_Fingerprint (f d) = dv_Fingerprint d \<and> (dv_RevokedAt (f d) = None \<longrightarrow> dv_RevokedAt d = None)
           \<and> (dv_IsApproved d \<longrightarrow> dv_IsApproved (f d)) \<and> approval_ok ds (f d)"
  shows "devices_wf us (update_rows p f ds) \<and> devices_grow ds (update_rows p f ds)"
proof -
  let ?g = "\<lambda>d. if p d then f d else d"
  have g: "dv_ID (?g d) = dv_ID d" "dv_UserID (?g d) = dv_UserID d" "device_slot (?g d) = device_slot d"
    "dv_RevokedAt (?g d) = None \<Longrightarrow> dv_RevokedAt d = None" "dv_IsApproved d \<Longrightarrow> dv_IsApproved (?g d)"
    "approval_ok ds (?g d)" if "d \<in> set ds" for d
    using assms(1) assms(2) [OF that] that by (auto simp: device_slot_def devices_wf_def split: if_splits)
  have grow: "devices_grow ds (map ?g ds)"
    unfolding devices_grow_def
  proof
    fix d assume "d \<in> set ds"
    then show "\<exists>d'\<in>set (map ?g ds). dv_ID d' = dv_ID d \<and> dv_UserID d' = dv_UserID d \<and> (dv_IsApproved d \<longrightarrow> dv_IsApproved d')"
      using g(1,2,5) [of d] by (intro bexI [of _ "?g d"]) auto
  qed
  have ids: "map dv_ID (map ?g ds) = map dv_ID ds" using g(1) by auto
  have "filter (\<lambda>d. dv_RevokedAt d = None) (map ?g ds) = map ?g (filter (\<lambda>d. dv_RevokedAt (?g d) = None) ds)"
    by (simp add: filter_map comp_def)
  then have "map device_slot (filter (\<lambda>d. dv_RevokedAt d = None) (map ?g ds))
      = map device_slot (filter (\<lambda>d. dv_RevokedAt (?g d) = None) ds)"
    using g(3) by simp
  also have "filter (\<lambda>d. dv_RevokedAt (?g d) = None) ds
      = filter (\<lambda>d. dv_RevokedAt (?g d) = None) (filter (\<lambda>d. dv_RevokedAt d = None) ds)"
    unfolding filter_filter using g(4) by (intro filter_cong) auto
  finally have live: "map device_slot (filter (\<lambda>d. dv_RevokedAt d = None) (map ?g ds)) = map device_slot
      (filter (\<lambda>d. dv_RevokedAt (?g d) = None) (filter (\<lambda>d. dv_RevokedAt d = None) ds))" .
  have "distinct (map device_slot (filter (\<lambda>d. dv_RevokedAt d = None) ds))"
    using assms(1) by (simp add: devices_wf_def)
  then have "distinct (map device_slot (filter (\<lambda>d. dv_RevokedAt d = None) (map ?g ds)))"
    unfolding live by (rule distinct_map_filter)
  moreover have "dv_UserID (?g d) \<in> us_ID ` set us \<and> approval_ok (map ?g ds) (?g d)" if "d \<in> set ds" for d
    unfolding g(2) [OF that] using assms(1) that grow_approval_ok [OF grow g(6) [OF that]]
    by (simp add: devices_wf_def)
  then have all: "\<forall>d\<in>set (map ?g ds). dv_UserID d \<in> us_ID ` set us \<and> approval_ok (map ?g ds) d"
    unfolding set_map by blast
  moreover have "distinct (map dv_ID ds)" using assms(1) by (simp add: devices_wf_def)
  ultimately have "devices_wf us (map ?g ds)" unfolding devices_wf_def ids by (intro conjI)
  then show ?thesis using grow by (simp add: update_rows_def)
qed

text \<open>Updates that leave the identity, the approval and the owner of a device alone.\<close>

lemma devices_update_plain:
  assumes "devices_wf us ds"
    and "\<And>d. dv_ID (f d) = dv_ID d \<and> dv_UserID (f d) = dv_UserID d \<and> dv_Fingerprint (f d) = dv_Fingerprint d
           \<and> (dv_RevokedAt (f d) = None \<longrightarrow> dv_RevokedAt d = None) \<and> dv_IsApproved (f d) = dv_IsApproved d
           \<and> dv_ApprovedAt (f d) = dv_ApprovedAt d \<and> dv_ApprovedBy (f d) = dv_ApprovedBy d"
  shows "devices_wf us (update_rows p f ds) \<and> devices_grow ds (update_rows p f ds)"
proof (rule devices_update [OF assms(1)])
  fix d assume "d \<in> set ds" "p d"
  then have "approval_ok ds d" using assms(1) by (simp add: devices_wf_def)
  then show "dv_ID (f d) = dv_ID d \<and> dv_UserID (f d) = dv_UserID d
           \<and> dv_Fingerprint (f d) = dv_Fingerprint d \<and> (dv_RevokedAt (f d) = None \<longrightarrow> dv_RevokedAt d = None)
           \<and> (dv_IsApproved d \<longrightarrow> dv_IsApproved (f d)) \<and> approval_ok ds (f d)"
    using assms(2) [of d] by (simp add: approval_ok_def)
qed

lemma create_device_wf:
  assumes "create_device_sql u now newID p us t = Inr (r, t')" "devices_wf us t"
    and "dv_ApprovedBy p = None" "dv_IsApproved p \<longleftrightarrow> dv_ApprovedAt p \<noteq> None"
  shows "devices_wf us t' \<and> devices_grow t t'"
proof -
  obtain i where i: "u (dv_UserID p) = Some i" "newID \<notin> dv_ID ` set t" "i \<in> us_ID ` set us"
    "\<forall>d\<in>set t. \<not> (dv_UserID d = i \<and> dv_Fingerprint d = dv_Fingerprint p \<and> dv_RevokedAt d = None)"
    and r: "r = p\<lparr>dv_ID := newID, dv_UserID := i, dv_LastActive := now, dv_CreatedAt := now, dv_RevokedAt := None\<rparr>"
    and t': "t' = t @ [r]"
    using assms(1) by (auto simp: create_device_sql_def cast_Inr Let_def split: if_splits)
  have grow: "devices_grow t t'" by (auto simp: devices_grow_def t')
  have "approval_ok t' r" using assms(3,4) by (auto simp: approval_ok_def r)
  moreover have "approval_ok t' d" if "d \<in> set t" for d
    using grow_approval_ok [OF grow] assms(2) that by (simp add: devices_wf_def)
  moreover have "device_slot r \<notin> device_slot ` {d \<in> set t. dv_RevokedAt d = None}"
    using i(4) by (auto simp: device_slot_def r)
  ultimately have "devices_wf us t'"
    using assms(2) i(2,3) by (auto simp: devices_wf_def t') (auto simp: r)
  then show ?thesis using grow by simp
qed

lemma approve_device_wf:
  assumes "approve_device_sql u now did approver ds = Inr t" "devices_wf us ds"
    and "get_device_by_id_sql u approver ds = Inr a" "dv_IsApproved a"
    and "get_device_by_id_sql u did ds = Inr d" "dv_UserID d = dv_UserID a"
  shows "devices_wf us t \<and> devices_grow ds t"
proof -
  obtain i j where ij: "u did = Some i" "u approver = Some j"
    and t: "t = update_rows (\<lambda>d. dv_ID d = i)
       (\<lambda>d. d\<lparr>dv_IsApproved := True, dv_ApprovedAt := Some now, dv_ApprovedBy := Some j\<rparr>) ds"
    using assms(1) by (auto simp: approve_device_sql_def cast_Inr split: if_splits)
  have a: "a \<in> set ds" "dv_ID a = j" using assms(3) ij by (auto simp: get_device_by_id_sql_def cast_Inr dest: one_row_sound)
  have d: "d \<in> set ds" "dv_ID d = i" using assms(5) ij by (auto simp: get_device_by_id_sql_def cast_Inr dest: one_row_sound)
  have "inj_on dv_ID (set ds)" using assms(2) by (simp add: devices_wf_def distinct_map)
  then have same: "x = d" if "x \<in> set ds" "dv_ID x = i" for x using that d by (auto dest: inj_onD)
  show ?thesis
    unfolding t
  proof (rule devices_update [OF assms(2)])
    fix x assume "x \<in> set ds" "dv_ID x = i"
    then have "x = d" by (rule same)
    then show "dv_ID (x\<lparr>dv_IsApproved := True, dv_ApprovedAt := Some now, dv_ApprovedBy := Some j\<rparr>) = dv_ID x
      \<and> dv_UserID (x\<lparr>dv_IsApproved := True, dv_ApprovedAt := Some now, dv_ApprovedBy := Some j\<rparr>) = dv_UserID x
      \<and> dv_Fingerprint (x\<lparr>dv_IsApproved := True, dv_ApprovedAt := Some now, dv_ApprovedBy := Some j\<rparr>) = dv_Fingerprint x
      \<and> (dv_RevokedAt (x\<lparr>dv_IsApproved := True, dv_ApprovedAt := Some now, dv_ApprovedBy := Some j\<rparr>) = None \<longrightarrow> dv_RevokedAt x = None)
      \<and> (dv_IsApproved x \<longrightarrow> dv_IsApproved (x\<lparr>dv_IsApproved := True, dv_ApprovedAt := Some now, dv_ApprovedBy := Some j\<rparr>))
      \<and> approval_ok ds (x\<lparr>dv_IsApproved := True, dv_ApprovedAt := Some now, dv_ApprovedBy := Some j\<rparr>)"
      using a assms(4,6) by (auto simp: approval_ok_def intro!: bexI [of _ a])
  qed
qed

lemma upsert_key_wf:
  assumes "upsert_device_key_sql u now did algo key ds t = Inr (r, t')" "keys_wf ds t"
    and "get_device_by_id_sql u did ds = Inr d" "dv_IsApproved d"
    and "key \<noteq> []" "algo = ''x25519'' \<longrightarrow> length key = 32"
  shows "keys_wf ds t'"
proof -
  obtain i where i: "u did = Some i" 
    using assms(1) unfolding upsert_device_key_sql_def cast_Inr by blast
  let ?new = "\<lparr>dk_DeviceID = i, dk_KexAlgo = algo, dk_KexPublicKey = key, dk_CreatedAt = now, dk_RotatedAt = None\<rparr>"
  let ?merge = "\<lambda>old new. old\<lparr>dk_KexAlgo := dk_KexAlgo new, dk_KexPublicKey := dk_KexPublicKey new, dk_RotatedAt := Some now\<rparr>"
  have t': "t' = upsert dk_DeviceID ?merge ?new t"
    using assms(1) i by (auto simp: upsert_device_key_sql_def cast_Inr map_sum_Inr Let_def split: if_splits)
  have d: "d \<in> set ds" "dv_ID d = i" using assms(3) i by (auto simp: get_device_by_id_sql_def cast_Inr dest: one_row_sound)
  have dist: "distinct (map dk_DeviceID t')"
    using assms(2) unfolding t' keys_wf_def by (intro distinct_upsert) auto
  have "(\<exists>d\<in>set ds. dv_ID d = dk_DeviceID k \<and> dv_IsApproved d)
      \<and> dk_KexPublicKey k \<noteq> [] \<and> (dk_KexAlgo k = ''x25519'' \<longrightarrow> length (dk_KexPublicKey k) = 32)"
    if "k \<in> set t'" for k
    using that assms(2,4,5,6) d unfolding t' upsert_def keys_wf_def by (auto split: if_splits)
  then show ?thesis using dist by (simp add: keys_wf_def)
qed

lemma create_friend_wf:
  assumes "create_friend_request_sql u now newID a b us t = Inr (r, t')" "friends_wf us t"
  shows "friends_wf us t'"
  using assms by (auto simp: create_friend_request_sql_def cast_Inr friends_wf_def Let_def split: if_splits) blast

lemma update_friends_wf:
  assumes "friends_wf us t" "st \<in> {''pending'', ''accepted'', ''rejected''}"
  shows "friends_wf us (update_rows p (\<lambda>f. f\<lparr>fd_Status := st, fd_UpdatedAt := now\<rparr>) t)"
proof -
  have k: "map fd_ID (update_rows p (\<lambda>f. f\<lparr>fd_Status := st, fd_UpdatedAt := now\<rparr>) t) = map fd_ID t"
    "map (\<lambda>f. (fd_RequesterID f, fd_AddresseeID f)) (update_rows p (\<lambda>f. f\<lparr>fd_Status := st, fd_UpdatedAt := now\<rparr>) t)
      = map (\<lambda>f. (fd_RequesterID f, fd_AddresseeID f)) t"
    by (simp_all add: update_rows_def)
  have "\<forall>f\<in>set (update_rows p (\<lambda>f. f\<lparr>fd_Status := st, fd_UpdatedAt := now\<rparr>) t).
      fd_RequesterID f \<in> us_ID ` set us \<and> fd_AddresseeID f \<in> us_ID ` set us
      \<and> fd_Status f \<in> {''pending'', ''accepted'', ''rejected''}"
    using assms by (auto simp: friends_wf_def update_rows_def)
  then show ?thesis using assms(1) k by (simp add: friends_wf_def)
qed

lemma answer_friend_wf:
  assumes "answer_friend_request_sql st u now fid uid t = Inr t'" "friends_wf us t"
    and "st \<in> {''pending'', ''accepted'', ''rejected''}"
  shows "friends_wf us t'"
  using assms update_friends_wf [OF assms(2,3)] by (auto simp: answer_friend_request_sql_def cast_Inr)

lemma remove_friend_wf:
  "remove_friend_sql u fid uid t = Inr t' \<Longrightarrow> friends_wf us t \<Longrightarrow> friends_wf us t'"
  by (auto simp: remove_friend_sql_def cast_Inr friends_wf_def distinct_map_filter)

lemma create_session_wf:
  assumes "create_session_sql u now newID uid name us t = Inr (r, t')" "sessions_wf us t"
  shows "sessions_wf us t' \<and> ps_ID ` set t \<subseteq> ps_ID ` set t'"
  using assms by (auto simp: create_session_sql_def cast_Inr sessions_wf_def Let_def split: if_splits)

lemma close_session_wf:
  assumes "close_session_sql u now sid uid t = Inr t'" "sessions_wf us t"
  shows "sessions_wf us t' \<and> ps_ID ` set t \<subseteq> ps_ID ` set t'"
proof -
  obtain p where t': "t' = update_rows p (\<lambda>s. s\<lparr>ps_IsActive := False, ps_ClosedAt := Some now\<rparr>) t"
    using assms(1) by (auto simp: close_session_sql_def cast_Inr)
  have k: "map ps_ID t' = map ps_ID t" by (simp add: t' keys_update_rows)
  then have "ps_ID ` set t' = ps_ID ` set t" by (metis set_map)
  moreover have "\<forall>p\<in>set t'. ps_UserID p \<in> us_ID ` set us \<and> (ps_IsActive p \<longleftrightarrow> ps_ClosedAt p = None)"
    using assms(2) by (auto simp: sessions_wf_def t' update_rows_def)
  ultimately show ?thesis using assms(2) k by (simp add: sessions_wf_def)
qed

lemma add_member_wf:
  assumes "add_device_to_session_sql u now sid did ss ds t = Inr t'" "members_wf ss ds t"
  shows "members_wf ss ds t'"
proof -
  let ?key = "\<lambda>m. (sm_SessionID m, sm_DeviceID m)"
  obtain i j where ij: "i \<in> ps_ID ` set ss" "j \<in> dv_ID ` set ds"
    and t': "t' = upsert ?key (\<lambda>old new. old\<lparr>sm_LeftAt := None\<rparr>)
              \<lparr>sm_SessionID = i, sm_DeviceID = j, sm_JoinedAt = now, sm_LeftAt = None\<rparr> t"
    using assms(1) by (auto simp: add_device_to_session_sql_def cast_Inr split: if_splits)
  have "distinct (map ?key t')"
    using assms(2) unfolding t' members_wf_def by (intro distinct_upsert) auto
  moreover have "\<forall>m\<in>set t'. sm_SessionID m \<in> ps_ID ` set ss \<and> sm_DeviceID m \<in> dv_ID ` set ds"
    using assms(2) ij unfolding t' upsert_def members_wf_def by auto
  ultimately show ?thesis by (simp add: members_wf_def)
qed

lemma remove_member_wf:
  assumes "remove_device_from_session_sql u now sid did t = Inr t'" "members_wf ss ds t"
  shows "members_wf ss ds t'"
proof -
  obtain p where t': "t' = update_rows p (\<lambda>m. m\<lparr>sm_LeftAt := Some now\<rparr>) t"
    using assms(1) by (auto simp: remove_device_from_session_sql_def cast_Inr)
  have "map (\<lambda>m. (sm_SessionID m, sm_DeviceID m)) t' = map (\<lambda>m. (sm_SessionID m, sm_DeviceID m)) t"
    by (simp add: t' update_rows_def)
  moreover have "\<forall>m\<in>set t'. sm_SessionID m \<in> ps_ID ` set ss \<and> sm_DeviceID m \<in> dv_ID ` set ds"
    using assms(2) by (auto simp: members_wf_def t' update_rows_def)
  ultimately show ?thesis using assms(2) by (simp add: members_wf_def)
qed

lemma upsert_presence_wf:
  assumes "upsert_presence_sql u now did uid us t = Inr t'" "presence_wf us t"
  shows "presence_wf us t'"
proof -
  obtain i where i: "i \<in> us_ID ` set us"
    and t': "t' = upsert pr_DeviceID (\<lambda>old new. old\<lparr>pr_LastSeen := now, pr_UserID := pr_UserID new\<rparr>)
              \<lparr>pr_DeviceID = did, pr_UserID = i, pr_LastSeen = now\<rparr> t"
    using assms(1) by (auto simp: upsert_presence_sql_def cast_Inr split: if_splits)
  have "distinct (map pr_DeviceID t')"
    using assms(2) unfolding t' presence_wf_def by (intro distinct_upsert) auto
  then show ?thesis using assms(2) i unfolding t' presence_wf_def upsert_def by (auto split: if_splits)
qed

section \<open>The invariant of the service\<close>

named_theorems wf_parts \<open>replacing one table keeps the database well-formed\<close>

lemma wf_set_users [wf_parts]:
  "identity_wf db \<Longrightarrow> users_wf us \<and> users_grow (db_users db) us \<Longrightarrow> identity_wf (db\<lparr>db_users := us\<rparr>)"
  by (auto simp: identity_wf_def intro: grow_devices_wf grow_friends_wf grow_sessions_wf grow_presence_wf)

lemma wf_set_devices [wf_parts]:
  "identity_wf db \<Longrightarrow> devices_wf (db_users db) ds \<and> devices_grow (db_devices db) ds \<Longrightarrow>
     identity_wf (db\<lparr>db_devices := ds\<rparr>)"
  by (auto simp: identity_wf_def intro: grow_keys_wf grow_members_wf)

lemma wf_set_keys [wf_parts]:
  "identity_wf db \<Longrightarrow> keys_wf (db_devices db) ks \<Longrightarrow> identity_wf (db\<lparr>db_keys := ks\<rparr>)"
  by (simp add: identity_wf_def)

lemma wf_set_friends [wf_parts]:
  "identity_wf db \<Longrightarrow> friends_wf (db_users db) fs \<Longrightarrow> identity_wf (db\<lparr>db_friends := fs\<rparr>)"
  by (simp add: identity_wf_def)

lemma wf_set_sessions [wf_parts]:
  "identity_wf db \<Longrightarrow> sessions_wf (db_users db) ss \<and> ps_ID ` set (db_sessions db) \<subseteq> ps_ID ` set ss \<Longrightarrow>
     identity_wf (db\<lparr>db_sessions := ss\<rparr>)"
  using grow_members_wf [OF devices_grow_refl, of "db_sessions db" ss] by (simp add: identity_wf_def)

lemma wf_set_members [wf_parts]:
  "identity_wf db \<Longrightarrow> members_wf (db_sessions db) (db_devices db) ms \<Longrightarrow> identity_wf (db\<lparr>db_members := ms\<rparr>)"
  by (simp add: identity_wf_def)

lemma wf_set_presence [wf_parts]:
  "identity_wf db \<Longrightarrow> presence_wf (db_users db) ps \<Longrightarrow> identity_wf (db\<lparr>db_presence := ps\<rparr>)"
  by (simp add: identity_wf_def)

lemma identity_wfD:
  assumes "identity_wf db"
  shows "users_wf (db_users db)" "devices_wf (db_users db) (db_devices db)" "keys_wf (db_devices db) (db_keys db)"
    "friends_wf (db_users db) (db_friends db)" "sessions_wf (db_users db) (db_sessions db)"
    "members_wf (db_sessions db) (db_devices db) (db_members db)" "presence_wf (db_users db) (db_presence db)"
  using assms by (simp_all add: identity_wf_def)

lemma users_sql_wf:
  assumes "users_wf t"
  shows "set_verification_token_sql u uid tok ex t = Inr t' \<Longrightarrow> users_wf t' \<and> users_grow t t'"
    and "verify_user_email_sql u uid t = Inr t' \<Longrightarrow> users_wf t' \<and> users_grow t t'"
    and "update_user_avatar_sql u uid av t = Inr t' \<Longrightarrow> users_wf t' \<and> users_grow t t'"
  using update_users_wf [OF assms]
  by (auto simp: set_verification_token_sql_def verify_user_email_sql_def update_user_avatar_sql_def cast_Inr)

lemma devices_sql_wf:
  assumes "devices_wf us t"
  shows "revoke_device_sql u now did uid t = Inr t' \<Longrightarrow> devices_wf us t' \<and> devices_grow t t'"
    and "update_device_activity_sql u now did nid t = Inr t' \<Longrightarrow> devices_wf us t' \<and> devices_grow t t'"
    and "update_device_visibility_sql u did public t = Inr t' \<Longrightarrow> devices_wf us t' \<and> devices_grow t t'"
    and "reject_device_sql u now did t = Inr t' \<Longrightarrow> devices_wf us t' \<and> devices_grow t t'"
  unfolding revoke_device_sql_def update_device_activity_sql_def update_device_visibility_sql_def
    reject_device_sql_def cast_Inr
  by (elim exE conjE, drule sum.inject(2) [THEN iffD1], hypsubst, rule devices_update_plain [OF assms], simp)+

text \<open>Every query that changes a table keeps the whole database well-formed.\<close>

lemma wf_users_sql:
  assumes "identity_wf db"
  shows "create_user_sql now newID name email hash (db_users db) = Inr (r, us) \<Longrightarrow> identity_wf (db\<lparr>db_users := us\<rparr>)"
    and "set_verification_token_sql u uid tok ex (db_users db) = Inr us \<Longrightarrow> identity_wf (db\<lparr>db_users := us\<rparr>)"
    and "verify_user_email_sql u uid (db_users db) = Inr us \<Longrightarrow> identity_wf (db\<lparr>db_users := us\<rparr>)"
    and "update_user_avatar_sql u uid av (db_users db) = Inr us \<Longrightarrow> identity_wf (db\<lparr>db_users := us\<rparr>)"
  subgoal by (rule wf_set_users [OF assms], rule create_user_wf [OF _ identity_wfD(1) [OF assms]])
  subgoal by (rule wf_set_users [OF assms], rule users_sql_wf(1) [OF identity_wfD(1) [OF assms]])
  subgoal by (rule wf_set_users [OF assms], rule users_sql_wf(2) [OF identity_wfD(1) [OF assms]])
  subgoal by (rule wf_set_users [OF assms], rule users_sql_wf(3) [OF identity_wfD(1) [OF assms]])
  done

lemma wf_devices_sql:
  assumes "identity_wf db"
  shows "create_device_sql u now newID p (db_users db) (db_devices db) = Inr (r, ds) \<Longrightarrow>
      dv_ApprovedBy p = None \<Longrightarrow> dv_IsApproved p = (dv_ApprovedAt p \<noteq> None) \<Longrightarrow> identity_wf (db\<lparr>db_devices := ds\<rparr>)"
    and "revoke_device_sql u now did uid (db_devices db) = Inr ds \<Longrightarrow> identity_wf (db\<lparr>db_devices := ds\<rparr>)"
    and "update_device_activity_sql u now did nid (db_devices db) = Inr ds \<Longrightarrow> identity_wf (db\<lparr>db_devices := ds\<rparr>)"
    and "update_device_visibility_sql u did public (db_devices db) = Inr ds \<Longrightarrow> identity_wf (db\<lparr>db_devices := ds\<rparr>)"
    and "reject_device_sql u now did (db_devices db) = Inr ds \<Longrightarrow> identity_wf (db\<lparr>db_devices := ds\<rparr>)"
    and "approve_device_sql u now did approver (db_devices db) = Inr ds \<Longrightarrow>
      get_device_by_id_sql u approver (db_devices db) = Inr a \<Longrightarrow> dv_IsApproved a \<Longrightarrow>
      get_device_by_id_sql u did (db_devices db) = Inr d \<Longrightarrow> dv_UserID d = dv_UserID a \<Longrightarrow>
      identity_wf (db\<lparr>db_devices := ds\<rparr>)"
  subgoal by (rule wf_set_devices [OF assms], rule create_device_wf [OF _ identity_wfD(2) [OF assms]])
  subgoal by (rule wf_set_devices [OF assms], rule devices_sql_wf(1) [OF identity_wfD(2) [OF assms]])
  subgoal by (rule wf_set_devices [OF assms], rule devices_sql_wf(2) [OF identity_wfD(2) [OF assms]])
  subgoal by (rule wf_set_devices [OF assms], rule devices_sql_wf(3) [OF identity_wfD(2) [OF assms]])
  subgoal by (rule wf_set_devices [OF assms], rule devices_sql_wf(4) [OF identity_wfD(2) [OF assms]])
  subgoal by (rule wf_set_devices [OF assms], rule approve_device_wf [OF _ identity_wfD(2) [OF assms]])
  done

lemma wf_other_sql:
  assumes "identity_wf db"
  shows "upsert_device_key_sql u now did algo key (db_devices db) (db_keys db) = Inr (k, ks) \<Longrightarrow>
      get_device_by_id_sql u did (db_devices db) = Inr d \<Longrightarrow> dv_IsApproved d \<Longrightarrow> key \<noteq> [] \<Longrightarrow>
      (algo = ''x25519'' \<longrightarrow> length key = 32) \<Longrightarrow> identity_wf (db\<lparr>db_keys := ks\<rparr>)"
    and "create_friend_request_sql u now newID x y (db_users db) (db_friends db) = Inr (f, fs) \<Longrightarrow>
      identity_wf (db\<lparr>db_friends := fs\<rparr>)"
    and "accept_friend_request_sql u now fid uid (db_friends db) = Inr fs \<Longrightarrow> identity_wf (db\<lparr>db_friends := fs\<rparr>)"
    and "reject_friend_request_sql u now fid uid (db_friends db) = Inr fs \<Longrightarrow> identity_wf (db\<lparr>db_friends := fs\<rparr>)"
    and "remove_friend_sql u fid uid (db_friends db) = Inr fs \<Longrightarrow> identity_wf (db\<lparr>db_friends := fs\<rparr>)"
    and "create_session_sql u now newID uid name (db_users db) (db_sessions db) = Inr (p, ss) \<Longrightarrow>
      identity_wf (db\<lparr>db_sessions := ss\<rparr>)"
    and "close_session_sql u now sid uid (db_sessions db) = Inr ss \<Longrightarrow> identity_wf (db\<lparr>db_sessions := ss\<rparr>)"
    and "add_device_to_session_sql u now sid did (db_sessions db) (db_devices db) (db_members db) = Inr ms \<Longrightarrow>
      identity_wf (db\<lparr>db_members := ms\<rparr>)"
    and "remove_device_from_session_sql u now sid did (db_members db) = Inr ms \<Longrightarrow> identity_wf (db\<lparr>db_members := ms\<rparr>)"
    and "upsert_presence_sql u now did uid (db_users db) (db_presence db) = Inr ps \<Longrightarrow>
      identity_wf (db\<lparr>db_presence := ps\<rparr>)"
  unfolding accept_friend_request_sql_def reject_friend_request_sql_def
  subgoal by (rule wf_set_keys [OF assms], rule upsert_key_wf [OF _ identity_wfD(3) [OF assms]])
  subgoal by (rule wf_set_friends [OF assms], rule create_friend_wf [OF _ identity_wfD(4) [OF assms]])
  subgoal by (rule wf_set_friends [OF assms], rule answer_friend_wf [OF _ identity_wfD(4) [OF assms]], assumption, simp)
  subgoal by (rule wf_set_friends [OF assms], rule answer_friend_wf [OF _ identity_wfD(4) [OF assms]], assumption, simp)
  subgoal by (rule wf_set_friends [OF assms], rule remove_friend_wf [OF _ identity_wfD(4) [OF assms]])
  subgoal by (rule wf_set_sessions [OF assms], rule create_session_wf [OF _ identity_wfD(5) [OF assms]])
  subgoal by (rule wf_set_sessions [OF assms], rule close_session_wf [OF _ identity_wfD(5) [OF assms]])
  subgoal by (rule wf_set_members [OF assms], rule add_member_wf [OF _ identity_wfD(6) [OF assms]])
  subgoal by (rule wf_set_members [OF assms], rule remove_member_wf [OF _ identity_wfD(6) [OF assms]])
  subgoal by (rule wf_set_presence [OF assms], rule upsert_presence_wf [OF _ identity_wfD(7) [OF assms]])
  done

lemma wf_users_handlers [run_invs]:
  assumes "identity_wf (ii_db s)"
  shows "identity_wf (ii_db (start_verification env flt now token uid s))"
    and "identity_wf (ii_db (snd (verify_email env flt now tok s)))"
    and "identity_wf (ii_db (snd (resend_verification env flt now token email s)))"
    and "identity_wf (ii_db (snd (refresh_token env now tok s)))"
    and "identity_wf (ii_db (snd (logout env now tok s)))"
    and "identity_wf (ii_db (snd (update_avatar env flt ctx data s)))"
  using assms wf_users_sql [OF assms]
  by (auto simp: start_verification_def verify_email_def resend_verification_def refresh_token_def logout_def
      update_avatar_def Let_def split: option.split sum.split db_error.split prod.split)

lemma wf_register [run_invs]:
  assumes "identity_wf (ii_db s)"
  shows "identity_wf (ii_db (snd (register env flt now newID token username email password s)))"
  using assms wf_users_sql(1) [OF assms]
  by (auto simp: register_def intro!: wf_users_handlers(1) split: option.split sum.split)

lemma wf_register_device [run_invs]:
  assumes "identity_wf (ii_db s)"
  shows "identity_wf (ii_db (snd (register_device env flt now newID genNode ctx req s)))"
proof (cases "user_of ctx")
  case (Inr uid)
  let ?u = "ie_uuid env"
  show ?thesis
  proof (cases "ask (flt QDeviceByFingerprint) (get_device_by_fingerprint_sql ?u uid (rd_Fingerprint req) (db_devices (ii_db s)))")
    case (Inr d)
    note found = this
    have 1: "identity_wf (ii_db (case ask f (update_device_activity_sql ?u now i n (db_devices (ii_db s))) of
        Inl e \<Rightarrow> s | Inr t \<Rightarrow> set_devices t s))" for f i n
      using assms by (auto intro: wf_devices_sql(3) [OF assms] split: sum.split)
    show ?thesis
      unfolding register_device_def Let_def \<open>user_of ctx = Inr uid\<close> found sum.case if_distrib [of snd] snd_conv
      using assms 1 by simp
  next
    case (Inl e)
    note missing = this
    show ?thesis
      using assms wf_devices_sql(1) [OF assms] unfolding register_device_def Let_def \<open>user_of ctx = Inr uid\<close> missing sum.case
      by (auto split: sum.split)
  qed
qed (simp add: register_device_def assms)

lemma wf_device_handlers [run_invs]:
  assumes "identity_wf (ii_db s)"
  shows "identity_wf (ii_db (snd (revoke_device env flt now ctx did s)))"
    and "identity_wf (ii_db (snd (update_device_activity env flt now ctx did nid s)))"
    and "identity_wf (ii_db (snd (update_device_visibility env flt ctx did public s)))"
    and "identity_wf (ii_db (snd (generate_pairing_code env flt now random ctx did s)))"
  using assms wf_devices_sql(2-4) [OF assms]
  by (auto simp: revoke_device_def update_device_activity_def update_device_visibility_def
      generate_pairing_code_def Let_def split: option.split sum.split prod.split)

lemma wf_redeem [run_invs]:
  assumes "identity_wf (ii_db s)"
  shows "identity_wf (ii_db (snd (redeem_pairing_code env flt now newID ctx req s)))"
  using assms
  by (auto simp: redeem_pairing_code_def Let_def intro: wf_devices_sql(1) [OF assms] split: option.split sum.split prod.split)

lemma wf_approve [run_invs]:
  assumes "identity_wf (ii_db s)"
  shows "identity_wf (ii_db (snd (approve_pairing env flt now ctx approver pending ok s)))"
  using assms
  by (auto simp: approve_pairing_def Let_def intro: wf_devices_sql(5,6) [OF assms] split: option.split sum.split prod.split)

lemma wf_create_session [run_invs]:
  assumes "identity_wf (ii_db s)"
  shows "identity_wf (ii_db (snd (create_peer_session env flt now newID ctx name did s)))"
proof -
  let ?u = "ie_uuid env"
  have 1: "identity_wf ((ii_db s)\<lparr>db_sessions := t\<rparr>)"
    if "create_session_sql ?u now newID uid n (db_users (ii_db s)) (db_sessions (ii_db s)) = Inr (r, t)" for uid n r t
    using wf_other_sql(6) [OF assms that] .
  have 2: "identity_wf ((ii_db s)\<lparr>db_sessions := t, db_members := ms\<rparr>)"
    if "create_session_sql ?u now newID uid n (db_users (ii_db s)) (db_sessions (ii_db s)) = Inr (r, t)"
      "add_device_to_session_sql ?u now sid did t (db_devices (ii_db s)) (db_members (ii_db s)) = Inr ms"
    for uid n r t sid ms
    using wf_other_sql(8) [OF 1 [OF that(1)], of ?u now sid did ms] that(2) by simp
  show ?thesis
    using assms 1 2 by (auto simp: create_peer_session_def Let_def split: sum.split prod.split)
qed

lemma wf_session_handlers [run_invs]:
  assumes "identity_wf (ii_db s)"
  shows "identity_wf (ii_db (snd (close_peer_session env flt now ctx sid s)))"
    and "identity_wf (ii_db (snd (join_peer_session env flt now ctx sid did s)))"
    and "identity_wf (ii_db (snd (leave_peer_session env flt now ctx sid did s)))"
    and "identity_wf (ii_db (snd (upload_device_key env flt now ctx did algo key s)))"
  using assms wf_other_sql(1,7-9) [OF assms]
  by (auto simp: close_peer_session_def join_peer_session_def leave_peer_session_def upload_device_key_def Let_def
      split: option.split sum.split prod.split)

lemma wf_friend_handlers [run_invs]:
  assumes "identity_wf (ii_db s)"
  shows "identity_wf (ii_db (snd (send_friend_request env flt now newID ctx addressee s)))"
    and "identity_wf (ii_db (snd (respond_to_friend_request env flt now ctx fid accept s)))"
    and "identity_wf (ii_db (snd (remove_friend env flt ctx fid s)))"
    and "identity_wf (ii_db (snd (heartbeat env flt now ctx did s)))"
  using assms wf_other_sql(2-5,10) [OF assms]
  by (auto simp: send_friend_request_def respond_to_friend_request_def remove_friend_def heartbeat_def Let_def
      split: option.split sum.split prod.split)

lemma wf_ident_step [run_invs]:
  "identity_wf (ii_db s) \<Longrightarrow> identity_wf (ii_db (ident_step env s call))"
  by (cases call; rename_tac op; case_tac op) (simp_all add: run_invs)

interpretation identity: invariant_machine "ident_step env" "\<lambda>s. identity_wf (ii_db s)" "\<lambda>_ _. True" for env
  by unfold_locales (rule run_invs)

end
