(* ===== verification/IdentityExample.thy ===== *)
theory IdentityExample
  imports IdentityLaws
begin

text \<open>
  A small instance of the identity service on which the theorems are applied: a Redis that
  keeps each key until its expiry, a JWT library that knows two tokens of one user, two users
  and two devices.
\<close>

section \<open>Redis and tokens\<close>

type_synonym map_redis = "string \<Rightarrow> (redis_value \<times> time) option"

definition map_holds :: "map_redis \<Rightarrow> time \<Rightarrow> string \<Rightarrow> redis_value option" where
  "map_holds s t k = (case s k of None \<Rightarrow> None | Some (v, e) \<Rightarrow> if t < e then Some v else None)"

definition map_redis :: "map_redis redis" where
  "map_redis =
     \<lparr>rd_set = (\<lambda>now k v ttl s. (True, s(k \<mapsto> (v, now + ttl)))),
      rd_exists = (\<lambda>now k s. Some (map_holds s now k \<noteq> None)),
      rd_getdel = (\<lambda>now k s. case map_holds s now k of
         None \<Rightarrow> (Inl RedisNil, s)
       | Some v \<Rightarrow> (Inr v, s(k := None)))\<rparr>"

lemma map_redis_laws: "redis_laws map_redis map_holds"
  by (auto simp: redis_laws_def map_redis_def map_holds_def split: option.splits if_splits)

definition ann_access :: claims where
  "ann_access = \<lparr>cl_Subject = ''u1'', cl_Email = ''ann@x.io'', cl_IssuedAt = 0, cl_ExpiresAt = 60 * second\<rparr>"

definition ann_refresh :: claims where
  "ann_refresh = \<lparr>cl_Subject = ''u1'', cl_Email = ''ann@x.io'', cl_IssuedAt = 0, cl_ExpiresAt = 600 * second\<rparr>"

definition two_tokens :: jwt_lib where
  "two_tokens =
     \<lparr>jw_sign = (\<lambda>secret c. if c = ann_access then Some ''A'' else if c = ann_refresh then Some ''R'' else None),
      jw_parse = (\<lambda>now key t.
         if t = ''A'' \<and> now < cl_ExpiresAt ann_access then Some ann_access
         else if t = ''R'' \<and> now < cl_ExpiresAt ann_refresh then Some ann_refresh
         else None)\<rparr>"

lemma ann_tokens_differ [simp]: "ann_access \<noteq> ann_refresh"
  by (simp add: ann_access_def ann_refresh_def second_def)

lemma two_tokens_laws: "jwt_laws two_tokens secret"
  by (auto simp: jwt_laws_def two_tokens_def split: if_splits)

section \<open>The service\<close>

definition small_env :: "map_redis ident_env" where
  "small_env =
     \<lparr>ie_uuid = Some, ie_ilike = (=), ie_hash = Some, ie_check = (=), ie_jwt = two_tokens,
      ie_manager = \<lparr>jm_secret = ''s'', jm_accessExpiry = 60 * second, jm_refreshExpiry = 600 * second\<rparr>,
      ie_redis = map_redis, ie_mailer = None\<rparr>"

definition ann :: user where
  "ann =
     \<lparr>us_ID = ''u1'', us_Username = ''ann'', us_Email = ''ann@x.io'', us_PasswordHash = ''secret pw'',
      us_CreatedAt = 0, us_EmailVerified = True, us_VerificationToken = None, us_VerificationExpiresAt = None,
      us_AvatarData = None\<rparr>"

definition bob :: user where
  "bob =
     \<lparr>us_ID = ''u2'', us_Username = ''bob'', us_Email = ''bob@x.io'', us_PasswordHash = ''other pw'',
      us_CreatedAt = 0, us_EmailVerified = False, us_VerificationToken = Some ''tok'',
      us_VerificationExpiresAt = Some 50, us_AvatarData = None\<rparr>"

definition laptop :: device where
  "laptop =
     \<lparr>dv_ID = ''d1'', dv_UserID = ''u1'', dv_Name = ''laptop'', dv_DeviceType = ''pc'', dv_NodeID = Some ''n1'',
      dv_Fingerprint = ''f1'', dv_IsApproved = True, dv_ApprovedAt = Some 0, dv_ApprovedBy = None,
      dv_LastActive = 0, dv_CreatedAt = 0, dv_RevokedAt = None, dv_IsPublic = True\<rparr>"

definition phone :: device where
  "phone =
     \<lparr>dv_ID = ''d2'', dv_UserID = ''u1'', dv_Name = ''phone'', dv_DeviceType = ''phone'', dv_NodeID = None,
      dv_Fingerprint = ''f2'', dv_IsApproved = False, dv_ApprovedAt = None, dv_ApprovedBy = None,
      dv_LastActive = 0, dv_CreatedAt = 0, dv_RevokedAt = None, dv_IsPublic = False\<rparr>"

definition request :: "string \<Rightarrow> friend_row" where
  "request st =
     \<lparr>fd_ID = ''f'', fd_RequesterID = ''u2'', fd_AddresseeID = ''u1'', fd_Status = st, fd_CreatedAt = 0,
      fd_UpdatedAt = 0\<rparr>"

definition small_state :: "string \<Rightarrow> map_redis ident_state" where
  "small_state st =
     \<lparr>ii_db = \<lparr>db_users = [ann, bob], db_devices = [laptop, phone], db_keys = [], db_friends = [request st],
               db_sessions = [], db_members = [], db_presence = [], db_audit = []\<rparr>,
      ii_redis = Map.empty\<rparr>"

definition as_user :: "string \<Rightarrow> auth_ctx" where
  "as_user uid = \<lparr>ac_user = Some uid, ac_email = None\<rparr>"

definition no_faults :: ident_faults where
  "no_faults q = False"

lemmas small_defs = small_state_def small_env_def ann_def bob_def laptop_def phone_def request_def
  as_user_def no_faults_def

lemma small_state_wf: "st \<in> {''pending'', ''accepted'', ''rejected''} \<Longrightarrow> identity_wf (ii_db (small_state st))"
  by (auto simp: identity_wf_def users_wf_def devices_wf_def device_slot_def approval_ok_def keys_wf_def
      friends_wf_def sessions_wf_def members_wf_def presence_wf_def small_defs)

lemma user_of_as_user [simp]: "user_of (as_user uid) = Inr uid" "user_id_from_context (as_user uid) = Some uid"
  by (simp_all add: user_of_def user_id_from_context_def as_user_def)

lemma ask_no_faults [simp]: "ask (no_faults q) = (\<lambda>r. r)"
  by (simp add: ask_def no_faults_def fun_eq_iff)

end
