(* ===== verification/IdentityGuards.thy ===== *)
theory IdentityGuards
  imports IdentityExample
begin

text \<open>
  Who may change what in the identity service: every handler's effect on the devices is an
  event of the calling user, friendships are answered by their addressee, emails are
  verified by their token.
\<close>

section \<open>Tables that a handler leaves alone\<close>

named_theorems kept \<open>a handler leaves a table or the Redis store as it was\<close>

lemma register_device_effect:
  obtains (same) "snd (register_device env flt now newID genNode ctx req s) = s"
  | (activity) uid d n t where "user_of ctx = Inr uid"
      "get_device_by_fingerprint_sql (ie_uuid env) uid (rd_Fingerprint req) (db_devices (ii_db s)) = Inr d"
      "update_device_activity_sql (ie_uuid env) now (dv_ID d) n (db_devices (ii_db s)) = Inr t"
      "snd (register_device env flt now newID genNode ctx req s) = set_devices t s"
  | (added) uid p r t where "user_of ctx = Inr uid" "dv_UserID p = uid" "dv_ApprovedBy p = None"
      "dv_Fingerprint p = rd_Fingerprint req"
      "create_device_sql (ie_uuid env) now newID p (db_users (ii_db s)) (db_devices (ii_db s)) = Inr (r, t)"
      "snd (register_device env flt now newID genNode ctx req s) = set_devices t s"
proof (cases "user_of ctx")
  case (Inl e)
  then show ?thesis by (intro same) (simp add: register_device_def)
next
  case (Inr uid)
  let ?u = "ie_uuid env"
  show ?thesis
  proof (cases "ask (flt QDeviceByFingerprint) (get_device_by_fingerprint_sql ?u uid (rd_Fingerprint req) (db_devices (ii_db s)))")
    case (Inl e)
    note missing = this
    let ?p = "\<lparr>dv_ID = '''', dv_UserID = uid, dv_Name = rd_Name req,
      dv_DeviceType = device_type_to_string (rd_DeviceType req),
      dv_NodeID = Some (if rd_NodeId req = '''' then genNode else rd_NodeId req),
      dv_Fingerprint = rd_Fingerprint req, dv_IsApproved = True, dv_ApprovedAt = Some now,
      dv_ApprovedBy = None, dv_LastActive = 0, dv_CreatedAt = 0, dv_RevokedAt = None,
      dv_IsPublic = rd_IsPublic req\<rparr>"
    let ?q = "ask (flt QCreateDevice) (create_device_sql ?u now newID ?p (db_users (ii_db s)) (db_devices (ii_db s)))"
    have eff: "snd (register_device env flt now newID genNode ctx req s) =
        (if rd_Name req = '''' \<or> rd_Fingerprint req = '''' then s
         else case ?q of Inl e \<Rightarrow> s | Inr (d, t) \<Rightarrow> set_devices t s)"
      unfolding register_device_def Let_def \<open>user_of ctx = Inr uid\<close> missing sum.case
      by (cases ?q) (simp_all only: sum.case if_distrib [of snd] snd_conv split_def)
    show ?thesis
    proof (cases "rd_Name req = '''' \<or> rd_Fingerprint req = ''''")
      case True
      then show ?thesis using same eff by simp
    next
      case False
      show ?thesis
      proof (cases ?q)
        case (Inl e)
        then show ?thesis using same eff by (simp only: sum.case if_cancel)
      next
        case q: (Inr rt)
        obtain r t where rt: "rt = (r, t)" by fastforce
        have "create_device_sql ?u now newID ?p (db_users (ii_db s)) (db_devices (ii_db s)) = Inr (r, t)"
          using q unfolding rt ask_Inr by blast
        then show ?thesis
          using eff False unfolding q rt sum.case prod.case
          by (intro added [OF \<open>user_of ctx = Inr uid\<close>, of ?p]) simp_all
      qed
    qed
  next
    case (Inr d)
    note found = this
    let ?n = "if dv_NodeID d \<noteq> None \<and> the (dv_NodeID d) \<noteq> '''' then the (dv_NodeID d)
              else (if rd_NodeId req = '''' then genNode else rd_NodeId req)"
    let ?q = "ask (flt QDeviceActivity) (update_device_activity_sql ?u now (dv_ID d) (Some ?n) (db_devices (ii_db s)))"
    have eff: "snd (register_device env flt now newID genNode ctx req s) =
        (if rd_Name req = '''' \<or> rd_Fingerprint req = '''' then s
         else case ?q of Inl e \<Rightarrow> s | Inr t \<Rightarrow> set_devices t s)"
      unfolding register_device_def Let_def \<open>user_of ctx = Inr uid\<close> found sum.case if_distrib [of snd] snd_conv ..
    show ?thesis
    proof (cases ?q)
      case (Inl e)
      then show ?thesis using same eff by (simp split: if_splits)
    next
      case q: (Inr t)
      show ?thesis
      proof (cases "rd_Name req = '''' \<or> rd_Fingerprint req = ''''")
        case True
        then show ?thesis using same eff by simp
      next
        case False
        have "get_device_by_fingerprint_sql ?u uid (rd_Fingerprint req) (db_devices (ii_db s)) = Inr d"
          "update_device_activity_sql ?u now (dv_ID d) (Some ?n) (db_devices (ii_db s)) = Inr t"
          using found q unfolding ask_Inr by blast+
        then show ?thesis
          using eff False unfolding q sum.case
          by (intro activity [OF \<open>user_of ctx = Inr uid\<close>]) simp_all
      qed
    qed
  qed
qed

lemma register_device_kept [kept]:
  shows "db_users (ii_db (snd (register_device env flt now newID genNode ctx req s))) = db_users (ii_db s)"
    and "db_friends (ii_db (snd (register_device env flt now newID genNode ctx req s))) = db_friends (ii_db s)"
    and "ii_redis (snd (register_device env flt now newID genNode ctx req s)) = ii_redis s"
  by (rule register_device_effect [of env flt now newID genNode ctx req s]; simp)+

lemma account_handlers_kept [kept]:
  shows "db_devices (ii_db (start_verification env flt now token uid s)) = db_devices (ii_db s)"
    and "db_friends (ii_db (start_verification env flt now token uid s)) = db_friends (ii_db s)"
    and "ii_redis (start_verification env flt now token uid s) = ii_redis s"
    and "db_devices (ii_db (snd (verify_email env flt now tok s))) = db_devices (ii_db s)"
    and "db_friends (ii_db (snd (verify_email env flt now tok s))) = db_friends (ii_db s)"
    and "ii_redis (snd (verify_email env flt now tok s)) = ii_redis s"
    and "db_devices (ii_db (snd (resend_verification env flt now token email s))) = db_devices (ii_db s)"
    and "db_friends (ii_db (snd (resend_verification env flt now token email s))) = db_friends (ii_db s)"
    and "ii_redis (snd (resend_verification env flt now token email s)) = ii_redis s"
    and "ii_db (snd (refresh_token env now rtok s)) = ii_db s"
    and "ii_db (snd (logout env now rtok s)) = ii_db s"
    and "db_devices (ii_db (snd (update_avatar env flt ctx data s))) = db_devices (ii_db s)"
    and "db_friends (ii_db (snd (update_avatar env flt ctx data s))) = db_friends (ii_db s)"
    and "ii_redis (snd (update_avatar env flt ctx data s)) = ii_redis s"
  by (simp_all add: start_verification_def verify_email_def resend_verification_def refresh_token_def logout_def
      update_avatar_def Let_def split: option.split sum.split db_error.split prod.split)

lemma register_kept [kept]:
  shows "db_devices (ii_db (snd (register env flt now newID token username email password s))) = db_devices (ii_db s)"
    and "db_friends (ii_db (snd (register env flt now newID token username email password s))) = db_friends (ii_db s)"
    and "ii_redis (snd (register env flt now newID token username email password s)) = ii_redis s"
  by (simp_all add: register_def account_handlers_kept split: option.split sum.split prod.split)

lemma device_handlers_kept [kept]:
  shows "db_users (ii_db (snd (revoke_device env flt now ctx did s))) = db_users (ii_db s)"
    and "db_friends (ii_db (snd (revoke_device env flt now ctx did s))) = db_friends (ii_db s)"
    and "ii_redis (snd (revoke_device env flt now ctx did s)) = ii_redis s"
    and "db_users (ii_db (snd (update_device_activity env flt now ctx did nid s))) = db_users (ii_db s)"
    and "db_friends (ii_db (snd (update_device_activity env flt now ctx did nid s))) = db_friends (ii_db s)"
    and "ii_redis (snd (update_device_activity env flt now ctx did nid s)) = ii_redis s"
    and "db_users (ii_db (snd (update_device_visibility env flt ctx did public s))) = db_users (ii_db s)"
    and "db_friends (ii_db (snd (update_device_visibility env flt ctx did public s))) = db_friends (ii_db s)"
    and "ii_redis (snd (update_device_visibility env flt ctx did public s)) = ii_redis s"
    and "ii_db (snd (generate_pairing_code env flt now random ctx did s)) = ii_db s"
    and "db_users (ii_db (snd (redeem_pairing_code env flt now newID ctx rp s))) = db_users (ii_db s)"
    and "db_friends (ii_db (snd (redeem_pairing_code env flt now newID ctx rp s))) = db_friends (ii_db s)"
    and "db_users (ii_db (snd (approve_pairing env flt now ctx ap did ok s))) = db_users (ii_db s)"
    and "db_friends (ii_db (snd (approve_pairing env flt now ctx ap did ok s))) = db_friends (ii_db s)"
    and "ii_redis (snd (approve_pairing env flt now ctx ap did ok s)) = ii_redis s"
  by (simp_all add: revoke_device_def update_device_activity_def update_device_visibility_def
      generate_pairing_code_def redeem_pairing_code_def approve_pairing_def Let_def
      split: sum.split option.split prod.split)

lemma session_handlers_kept [kept]:
  shows "db_users (ii_db (snd (create_peer_session env flt now newID ctx name did s))) = db_users (ii_db s)"
    and "db_devices (ii_db (snd (create_peer_session env flt now newID ctx name did s))) = db_devices (ii_db s)"
    and "db_friends (ii_db (snd (create_peer_session env flt now newID ctx name did s))) = db_friends (ii_db s)"
    and "ii_redis (snd (create_peer_session env flt now newID ctx name did s)) = ii_redis s"
    and "db_users (ii_db (snd (close_peer_session env flt now ctx sid s))) = db_users (ii_db s)"
    and "db_devices (ii_db (snd (close_peer_session env flt now ctx sid s))) = db_devices (ii_db s)"
    and "db_friends (ii_db (snd (close_peer_session env flt now ctx sid s))) = db_friends (ii_db s)"
    and "ii_redis (snd (close_peer_session env flt now ctx sid s)) = ii_redis s"
    and "db_users (ii_db (snd (join_peer_session env flt now ctx sid did s))) = db_users (ii_db s)"
    and "db_devices (ii_db (snd (join_peer_session env flt now ctx sid did s))) = db_devices (ii_db s)"
    and "db_friends (ii_db (snd (join_peer_session env flt now ctx sid did s))) = db_friends (ii_db s)"
    and "ii_redis (snd (join_peer_session env flt now ctx sid did s)) = ii_redis s"
    and "db_users (ii_db (snd (leave_peer_session env flt now ctx sid did s))) = db_users (ii_db s)"
    and "db_devices (ii_db (snd (leave_peer_session env flt now ctx sid did s))) = db_devices (ii_db s)"
    and "db_friends (ii_db (snd (leave_peer_session env flt now ctx sid did s))) = db_friends (ii_db s)"
    and "ii_redis (snd (leave_peer_session env flt now ctx sid did s)) = ii_redis s"
    and "db_users (ii_db (snd (upload_device_key env flt now ctx did algo key s))) = db_users (ii_db s)"
    and "db_devices (ii_db (snd (upload_device_key env flt now ctx did algo key s))) = db_devices (ii_db s)"
    and "db_friends (ii_db (snd (upload_device_key env flt now ctx did algo key s))) = db_friends (ii_db s)"
    and "ii_redis (snd (upload_device_key env flt now ctx did algo key s)) = ii_redis s"
  by (simp_all add: create_peer_session_def close_peer_session_def join_peer_session_def
      leave_peer_session_def upload_device_key_def Let_def split: sum.split prod.split)

lemma friend_handlers_kept [kept]:
  shows "db_users (ii_db (snd (send_friend_request env flt now newID ctx addressee s))) = db_users (ii_db s)"
    and "db_devices (ii_db (snd (send_friend_request env flt now newID ctx addressee s))) = db_devices (ii_db s)"
    and "ii_redis (snd (send_friend_request env flt now newID ctx addressee s)) = ii_redis s"
    and "db_users (ii_db (snd (respond_to_friend_request env flt now ctx fid accept s))) = db_users (ii_db s)"
    and "db_devices (ii_db (snd (respond_to_friend_request env flt now ctx fid accept s))) = db_devices (ii_db s)"
    and "ii_redis (snd (respond_to_friend_request env flt now ctx fid accept s)) = ii_redis s"
    and "db_users (ii_db (snd (remove_friend env flt ctx fid s))) = db_users (ii_db s)"
    and "db_devices (ii_db (snd (remove_friend env flt ctx fid s))) = db_devices (ii_db s)"
    and "ii_redis (snd (remove_friend env flt ctx fid s)) = ii_redis s"
    and "db_users (ii_db (snd (heartbeat env flt now ctx did s))) = db_users (ii_db s)"
    and "db_devices (ii_db (snd (heartbeat env flt now ctx did s))) = db_devices (ii_db s)"
    and "db_friends (ii_db (snd (heartbeat env flt now ctx did s))) = db_friends (ii_db s)"
    and "ii_redis (snd (heartbeat env flt now ctx did s)) = ii_redis s"
  by (simp_all add: send_friend_request_def respond_to_friend_request_def remove_friend_def heartbeat_def Let_def
      split: sum.split prod.split)

section \<open>Events on devices\<close>

text \<open>The registration of a device with this fingerprint.\<close>

definition registers :: "ident_op \<Rightarrow> string \<Rightarrow> bool" where
  "registers op fingerprint \<longleftrightarrow> (\<exists>i g req. op = OpRegisterDevice i g req \<and> rd_Fingerprint req = fingerprint)"

text \<open>What an operation of a user \<open>uid\<close> can do to the devices: add a device of their own, an
  approved one only as a registration; change fields of their own devices without touching identity
  and approval; as an \<open>ApprovePairing\<close> that says yes, approve the device of theirs that it names
  with the approved one of theirs that it names.\<close>

inductive device_event :: "uuid_cast \<Rightarrow> ident_op \<Rightarrow> string \<Rightarrow> device list \<Rightarrow> device list \<Rightarrow> bool"
  for u :: uuid_cast and op :: ident_op and uid :: string and ds :: "device list" where
  device_kept: "device_event u op uid ds ds"
| device_added: "u uid = Some (dv_UserID r) \<Longrightarrow> dv_ID r \<notin> dv_ID ` set ds \<Longrightarrow> dv_ApprovedBy r = None \<Longrightarrow>
     u (dv_ID r) = Some (dv_ID r) \<Longrightarrow> (dv_IsApproved r \<Longrightarrow> registers op (dv_Fingerprint r)) \<Longrightarrow>
     device_event u op uid ds (ds @ [r])"
| device_changed: "(\<And>d. d \<in> set ds \<Longrightarrow> p d \<Longrightarrow> dv_UserID d = uid \<or> u uid = Some (dv_UserID d)) \<Longrightarrow>
     (\<And>d. dv_ID (f d) = dv_ID d \<and> dv_UserID (f d) = dv_UserID d \<and> dv_IsApproved (f d) = dv_IsApproved d
        \<and> dv_ApprovedBy (f d) = dv_ApprovedBy d) \<Longrightarrow>
     device_event u op uid ds (update_rows p f ds)"
| device_approved: "a \<in> set ds \<Longrightarrow> dv_IsApproved a \<Longrightarrow> dv_RevokedAt a = None \<Longrightarrow> dv_UserID a = uid \<Longrightarrow>
     d \<in> set ds \<Longrightarrow> dv_RevokedAt d = None \<Longrightarrow> dv_UserID d = uid \<Longrightarrow>
     op = OpApprove approver pending True \<Longrightarrow> u approver = Some (dv_ID a) \<Longrightarrow> u pending = Some (dv_ID d) \<Longrightarrow>
     device_event u op uid ds (update_rows (\<lambda>x. dv_ID x = dv_ID d)
       (\<lambda>x. x\<lparr>dv_IsApproved := True, dv_ApprovedAt := Some now, dv_ApprovedBy := Some (dv_ID a)\<rparr>) ds)"

inductive_cases device_eventE: "device_event u op uid ds ds'"

text \<open>Ids that are stored are canonical UUID texts.\<close>

definition ids_canonical :: "uuid_cast \<Rightarrow> device list \<Rightarrow> bool" where
  "ids_canonical u ds \<longleftrightarrow> (\<forall>d\<in>set ds. u (dv_ID d) = Some (dv_ID d))"

lemma device_by_id:
  assumes "get_device_by_id_sql u did ds = Inr d"
  shows "d \<in> set ds" "u did = Some (dv_ID d)" "dv_RevokedAt d = None"
  using assms by (auto simp: get_device_by_id_sql_def cast_Inr dest: one_row_sound)

lemma same_device:
  assumes "devices_wf us ds" "x \<in> set ds" "d \<in> set ds" "dv_ID x = dv_ID d"
  shows "x = d"
  using assms by (auto simp: devices_wf_def distinct_map dest: inj_onD)

lemma activity_event:
  assumes "devices_wf us ds" "d \<in> set ds" "u i = Some (dv_ID d)"
    and "dv_UserID d = uid \<or> u uid = Some (dv_UserID d)"
    and "update_device_activity_sql u now i n ds = Inr t"
  shows "device_event u op uid ds t"
proof -
  have "t = update_rows (\<lambda>x. dv_ID x = dv_ID d \<and> dv_RevokedAt x = None)
      (\<lambda>x. x\<lparr>dv_LastActive := now, dv_NodeID := (case n of None \<Rightarrow> dv_NodeID x | Some n \<Rightarrow> Some n)\<rparr>) ds"
    using assms(3,5) by (simp add: update_device_activity_sql_def cast_Inr)
  then show ?thesis
    using same_device [OF assms(1) _ assms(2)] assms(4)
    by (simp, intro device_changed, blast, simp)
qed

lemma register_device_event:
  assumes "devices_wf us (db_devices (ii_db s))" "ids_canonical (ie_uuid env) (db_devices (ii_db s))"
    and "user_of ctx = Inr uid" "ie_uuid env newID = Some newID"
  shows "device_event (ie_uuid env) (OpRegisterDevice newID genNode req) uid (db_devices (ii_db s))
     (db_devices (ii_db (snd (register_device env flt now newID genNode ctx req s))))"
proof (rule register_device_effect [of env flt now newID genNode ctx req s])
  assume "snd (register_device env flt now newID genNode ctx req s) = s"
  then show ?thesis by (simp add: device_kept)
next
  fix uid' d n t
  assume a: "user_of ctx = Inr uid'"
    "get_device_by_fingerprint_sql (ie_uuid env) uid' (rd_Fingerprint req) (db_devices (ii_db s)) = Inr d"
    "update_device_activity_sql (ie_uuid env) now (dv_ID d) n (db_devices (ii_db s)) = Inr t"
    "snd (register_device env flt now newID genNode ctx req s) = set_devices t s"
  have d: "d \<in> set (db_devices (ii_db s))" "ie_uuid env uid = Some (dv_UserID d)"
    using a(1,2) assms(3) by (auto simp: get_device_by_fingerprint_sql_def cast_Inr dest: one_row_sound)
  then have "device_event (ie_uuid env) (OpRegisterDevice newID genNode req) uid (db_devices (ii_db s)) t"
    using assms(2) by (intro activity_event [OF assms(1) d(1) _ _ a(3)]) (auto simp: ids_canonical_def)
  then show ?thesis by (simp add: a(4))
next
  fix uid' p r t
  assume a: "user_of ctx = Inr uid'" "dv_UserID p = uid'" "dv_ApprovedBy p = None" "dv_Fingerprint p = rd_Fingerprint req"
    "create_device_sql (ie_uuid env) now newID p (db_users (ii_db s)) (db_devices (ii_db s)) = Inr (r, t)"
    "snd (register_device env flt now newID genNode ctx req s) = set_devices t s"
  have "device_event (ie_uuid env) (OpRegisterDevice newID genNode req) uid (db_devices (ii_db s)) t"
    using a(1-5) assms(3,4)
    by (auto simp: create_device_sql_def cast_Inr Let_def registers_def split: if_splits intro!: device_added)
  then show ?thesis by (simp add: a(6))
qed

lemma revoke_device_event:
  assumes "user_of ctx = Inr uid"
  shows "device_event (ie_uuid env) op uid (db_devices (ii_db s)) (db_devices (ii_db (snd (revoke_device env flt now ctx did s))))"
proof -
  have "device_event (ie_uuid env) op uid ds t" if rev: "revoke_device_sql (ie_uuid env) now did uid ds = Inr t" for ds t
  proof -
    obtain i j where ij: "ie_uuid env did = Some i" "ie_uuid env uid = Some j"
      and t: "t = update_rows (\<lambda>d. dv_ID d = i \<and> dv_UserID d = j) (\<lambda>d. d\<lparr>dv_RevokedAt := Some now\<rparr>) ds"
      using rev by (auto simp: revoke_device_sql_def cast_Inr)
    show ?thesis unfolding t by (rule device_changed) (use ij in simp_all)
  qed
  then show ?thesis using assms by (auto simp: revoke_device_def split: sum.split intro: device_kept)
qed

lemma update_device_activity_event:
  assumes "devices_wf us (db_devices (ii_db s))" "user_of ctx = Inr uid"
  shows "device_event (ie_uuid env) op uid (db_devices (ii_db s))
     (db_devices (ii_db (snd (update_device_activity env flt now ctx did nid s))))"
  using assms(2) by (auto simp: update_device_activity_def split: sum.split
      intro: device_kept activity_event [OF assms(1)] dest: device_by_id)

lemma update_device_visibility_event:
  assumes "devices_wf us (db_devices (ii_db s))" "user_of ctx = Inr uid"
  shows "device_event (ie_uuid env) op uid (db_devices (ii_db s))
     (db_devices (ii_db (snd (update_device_visibility env flt ctx did public s))))"
proof -
  have "device_event (ie_uuid env) op uid (db_devices (ii_db s)) t"
    if "get_device_by_id_sql (ie_uuid env) did (db_devices (ii_db s)) = Inr d" "dv_UserID d = uid"
      "update_device_visibility_sql (ie_uuid env) did public (db_devices (ii_db s)) = Inr t" for d t
  proof -
    note d = device_by_id [OF that(1)]
    have t: "t = update_rows (\<lambda>x. dv_ID x = dv_ID d \<and> dv_RevokedAt x = None) (\<lambda>x. x\<lparr>dv_IsPublic := public\<rparr>) (db_devices (ii_db s))"
      using that(3) d(2) by (simp add: update_device_visibility_sql_def cast_Inr)
    show ?thesis unfolding t
      using same_device [OF assms(1) _ d(1)] that(2) by (intro device_changed, blast, simp)
  qed
  then show ?thesis using assms(2) by (auto simp: update_device_visibility_def split: sum.split intro: device_kept)
qed

lemma redeem_event:
  assumes "user_of ctx = Inr uid" "ie_uuid env newID = Some newID"
  shows "device_event (ie_uuid env) op uid (db_devices (ii_db s))
     (db_devices (ii_db (snd (redeem_pairing_code env flt now newID ctx req s))))"
proof -
  have "device_event (ie_uuid env) op uid (db_devices (ii_db s)) t"
    if "create_device_sql (ie_uuid env) now newID p (db_users (ii_db s)) (db_devices (ii_db s)) = Inr (r, t)"
      "dv_UserID p = uid" "dv_ApprovedBy p = None" "\<not> dv_IsApproved p" for p r t
    using that assms(2) by (auto simp: create_device_sql_def cast_Inr Let_def split: if_splits intro!: device_added)
  then show ?thesis
    using assms(1) by (auto simp: redeem_pairing_code_def Let_def split: sum.split prod.split intro: device_kept)
qed

lemma approve_event:
  assumes "devices_wf us (db_devices (ii_db s))" "user_of ctx = Inr uid"
  shows "device_event (ie_uuid env) (OpApprove approver pending ok) uid (db_devices (ii_db s))
     (db_devices (ii_db (snd (approve_pairing env flt now ctx approver pending ok s))))"
proof -
  let ?u = "ie_uuid env" and ?ds = "db_devices (ii_db s)"
  have approved: "device_event ?u (OpApprove approver pending ok) uid ?ds t"
    if "ok" "get_device_by_id_sql ?u approver ?ds = Inr a" "dv_UserID a = uid" "dv_IsApproved a"
      "get_device_by_id_sql ?u pending ?ds = Inr d" "dv_UserID d = uid"
      "approve_device_sql ?u now pending approver ?ds = Inr t" for a d t
  proof -
    note a = device_by_id [OF that(2)] and d = device_by_id [OF that(5)]
    have t: "t = update_rows (\<lambda>x. dv_ID x = dv_ID d)
       (\<lambda>x. x\<lparr>dv_IsApproved := True, dv_ApprovedAt := Some now, dv_ApprovedBy := Some (dv_ID a)\<rparr>) ?ds"
      using that(7) a d by (auto simp: approve_device_sql_def cast_Inr split: if_splits)
    show ?thesis unfolding t by (rule device_approved) (use a d that in simp_all)
  qed
  have rejected: "device_event ?u (OpApprove approver pending ok) uid ?ds t"
    if "get_device_by_id_sql ?u pending ?ds = Inr d" "dv_UserID d = uid"
      "reject_device_sql ?u now pending ?ds = Inr t" for d t
  proof -
    note d = device_by_id [OF that(1)]
    have t: "t = update_rows (\<lambda>x. dv_ID x = dv_ID d \<and> \<not> dv_IsApproved x) (\<lambda>x. x\<lparr>dv_RevokedAt := Some now\<rparr>) ?ds"
      using that(3) d(2) by (simp add: reject_device_sql_def cast_Inr)
    show ?thesis unfolding t
      using same_device [OF assms(1) _ d(1)] that(2) by (intro device_changed, blast, simp)
  qed
  show ?thesis
    using assms(2) approved rejected
    by (cases ok) (simp_all add: approve_pairing_def Let_def device_kept split: sum.split)
qed

text \<open>One step of the service: the devices stay as they are, or the caller did something to them.\<close>

definition new_id_canonical :: "uuid_cast \<Rightarrow> ident_op \<Rightarrow> bool" where
  "new_id_canonical u op =
     (case op of OpRegisterDevice i g req \<Rightarrow> u i = Some i | OpRedeemCode i req \<Rightarrow> u i = Some i | _ \<Rightarrow> True)"

lemma ident_step_devices:
  assumes "identity_wf (ii_db s)" "ids_canonical (ie_uuid env) (db_devices (ii_db s))"
    and "new_id_canonical (ie_uuid env) op"
  shows "db_devices (ii_db (ident_step env s (now, flt, ctx, op))) = db_devices (ii_db s)
    \<or> (\<exists>uid. user_id_from_context ctx = Some uid
         \<and> device_event (ie_uuid env) op uid (db_devices (ii_db s)) (db_devices (ii_db (ident_step env s (now, flt, ctx, op)))))"
proof (cases "user_of ctx")
  case (Inl e)
  then show ?thesis
    by (cases op)
      (simp_all add: kept, simp_all add: register_device_def revoke_device_def update_device_activity_def
        update_device_visibility_def redeem_pairing_code_def approve_pairing_def)
next
  case (Inr uid)
  then have "user_id_from_context ctx = Some uid" by (simp add: user_of_def split: option.splits)
  moreover have "device_event (ie_uuid env) op uid (db_devices (ii_db s)) (db_devices (ii_db (ident_step env s (now, flt, ctx, op))))"
    using assms(3) register_device_event [OF identity_wfD(2) [OF assms(1)] assms(2) Inr]
      revoke_device_event [OF Inr] redeem_event [OF Inr]
      update_device_activity_event [OF identity_wfD(2) [OF assms(1)] Inr]
      update_device_visibility_event [OF identity_wfD(2) [OF assms(1)] Inr]
      approve_event [OF identity_wfD(2) [OF assms(1)] Inr]
    by (cases op) (simp_all add: kept device_kept new_id_canonical_def)
  ultimately show ?thesis by blast
qed

lemma device_event_owner:
  assumes "device_event u op uid ds ds'" "devices_wf us ds" "d \<in> set ds" "dv_UserID d \<noteq> uid" "u uid \<noteq> Some (dv_UserID d)"
  shows "d \<in> set ds'"
  using assms(1)
proof (cases rule: device_event.cases)
  case (device_changed p f)
  then show ?thesis using assms(3-5) by (force simp: update_rows_def)
next
  case (device_approved a e approver pending now)
  then have "dv_ID d \<noteq> dv_ID e" using same_device [OF assms(2,3)] assms(4) by auto
  then show ?thesis using assms(3) device_approved(1) by (force simp: update_rows_def)
qed (use assms(3) in simp_all)

lemma device_event_canonical:
  assumes "device_event u op uid ds ds'" "ids_canonical u ds"
  shows "ids_canonical u ds'"
  using assms by (cases rule: device_event.cases) (auto simp: ids_canonical_def update_rows_def)

lemma device_event_approval:
  assumes "device_event u op uid ds ds'" "d' \<in> set ds'" "dv_IsApproved d'"
    and "\<forall>d\<in>set ds. dv_ID d = dv_ID d' \<longrightarrow> \<not> dv_IsApproved d" "devices_wf us ds"
  shows "(registers op (dv_Fingerprint d') \<and> dv_ID d' \<notin> dv_ID ` set ds \<and> u uid = Some (dv_UserID d')
        \<and> dv_ApprovedBy d' = None)
    \<or> (dv_UserID d' = uid \<and> (\<exists>approver pending. \<exists>a\<in>set ds. op = OpApprove approver pending True
          \<and> u approver = Some (dv_ID a) \<and> u pending = Some (dv_ID d') \<and> dv_ApprovedBy d' = Some (dv_ID a)
          \<and> dv_UserID a = uid \<and> dv_IsApproved a \<and> dv_RevokedAt a = None))"
  using assms(1)
proof (cases rule: device_event.cases)
  case (device_changed p f)
  then obtain d where "d \<in> set ds" "d' = (if p d then f d else d)"
    using assms(2) by (auto simp: update_rows_def)
  then show ?thesis using assms(3,4) device_changed(3) by (auto split: if_splits)
next
  case (device_approved a e approver pending now)
  obtain d where d: "d \<in> set ds" "d' = (if dv_ID d = dv_ID e
      then d\<lparr>dv_IsApproved := True, dv_ApprovedAt := Some now, dv_ApprovedBy := Some (dv_ID a)\<rparr> else d)"
    using assms(2) unfolding device_approved(1) update_rows_def by auto
  show ?thesis
  proof (cases "dv_ID d = dv_ID e")
    case True
    then have "d = e" using same_device [OF assms(5)] d(1) device_approved by blast
    then show ?thesis using d(2) True device_approved by auto
  next
    case False
    then show ?thesis using d assms(3,4) by auto
  qed
qed (use assms(2-4) in auto)

section \<open>Devices\<close>

definition empty_identity_db :: identity_db where
  "empty_identity_db =
     \<lparr>db_users = [], db_devices = [], db_keys = [], db_friends = [], db_sessions = [], db_members = [],
      db_presence = [], db_audit = []\<rparr>"

lemma empty_identity_wf: "identity_wf empty_identity_db"
  by (simp add: empty_identity_db_def identity_wf_def users_wf_def devices_wf_def keys_wf_def friends_wf_def
      sessions_wf_def members_wf_def presence_wf_def)

text \<open>C21: Whatever requests the identity service gets, with whatever users, clocks, new ids,
  failing queries, JWT library and Redis, its tables stay well-formed: ids and emails are
  unique, a user has one live device per fingerprint, every device, friendship, session and
  presence row refers to an existing user and every session member to an existing session and
  device, an approved device was approved by itself or by an approved device of the same user,
  an unapproved one has no approval, keys exist only for approved devices and an X25519 key
  has 32 bytes, a friendship is pending, accepted or rejected, and a session is closed exactly
  when it has a closing time.\<close>

theorem identity_tables_well_formed:
  "identity_wf (ii_db (foldl (ident_step env) \<lparr>ii_db = empty_identity_db, ii_redis = r\<rparr> calls))"
proof -
  have "identity.legal_run env s calls" for s :: "'a ident_state" by (induction calls arbitrary: s) auto
  then show ?thesis
    using identity.inv_run [of "\<lparr>ii_db = empty_identity_db, ii_redis = r\<rparr>" env calls] by (simp add: empty_identity_wf)
qed

text \<open>The calls in which nobody acts for the owner of a device.\<close>

definition by_stranger :: "uuid_cast \<Rightarrow> device \<Rightarrow> ident_call \<Rightarrow> bool" where
  "by_stranger u d call \<longleftrightarrow>
     (case call of (now, flt, ctx, op) \<Rightarrow>
        new_id_canonical u op
        \<and> (\<forall>uid. user_id_from_context ctx = Some uid \<longrightarrow> uid \<noteq> dv_UserID d \<and> u uid \<noteq> Some (dv_UserID d)))"

interpretation device_owner: invariant_machine "ident_step env"
  "\<lambda>s. identity_wf (ii_db s) \<and> ids_canonical (ie_uuid env) (db_devices (ii_db s)) \<and> d \<in> set (db_devices (ii_db s))"
  "\<lambda>_. by_stranger (ie_uuid env) d" for env d
proof
  fix s :: "'a ident_state" and call
  assume i: "identity_wf (ii_db s) \<and> ids_canonical (ie_uuid env) (db_devices (ii_db s)) \<and> d \<in> set (db_devices (ii_db s))"
    and l: "by_stranger (ie_uuid env) d call"
  obtain now flt ctx op where call: "call = (now, flt, ctx, op)" by (cases call)
  have "db_devices (ii_db (ident_step env s call)) = db_devices (ii_db s)
    \<or> (\<exists>uid. user_id_from_context ctx = Some uid
         \<and> device_event (ie_uuid env) op uid (db_devices (ii_db s)) (db_devices (ii_db (ident_step env s call))))"
    using i l unfolding call by_stranger_def prod.case by (intro ident_step_devices) simp_all
  then have "ids_canonical (ie_uuid env) (db_devices (ii_db (ident_step env s call)))
      \<and> d \<in> set (db_devices (ii_db (ident_step env s call)))"
    using i l device_event_owner [OF _ identity_wfD(2)] device_event_canonical
    unfolding call by_stranger_def prod.case by metis
  then show "identity_wf (ii_db (ident_step env s call))
      \<and> ids_canonical (ie_uuid env) (db_devices (ii_db (ident_step env s call)))
      \<and> d \<in> set (db_devices (ii_db (ident_step env s call)))"
    using i wf_ident_step by blast
qed

lemma device_owner_legal:
  "\<forall>call\<in>set calls. by_stranger (ie_uuid env) d call \<Longrightarrow> device_owner.legal_run env d s calls"
  by (induction calls arbitrary: s) auto

text \<open>C4: Only its owner can change a device. In any run of the service in which no call is
  authenticated as the owner of a device, the row of that device stays exactly as it is: nobody
  else revokes it, shows or hides it, moves it to another node, approves or rejects it. (The
  database makes canonical UUIDs for new rows.)\<close>

theorem device_changed_only_by_owner:
  assumes "identity_wf (ii_db s)" "ids_canonical (ie_uuid env) (db_devices (ii_db s))"
    and "d \<in> set (db_devices (ii_db s))" "\<forall>call\<in>set calls. by_stranger (ie_uuid env) d call"
  shows "d \<in> set (db_devices (ii_db (foldl (ident_step env) s calls)))"
  using device_owner.inv_run [of s env d calls] device_owner_legal [OF assms(4)] assms(1-3) by blast

theorem device_changed_only_by_owner_witness:
  "laptop \<in> set (db_devices (ii_db (foldl (ident_step small_env) (small_state ''pending'')
     [(5, no_faults, as_user ''u2'', OpRevokeDevice ''d1''), (6, no_faults, as_user ''u2'', OpVisibility ''d1'' False)])))"
  by (rule device_changed_only_by_owner [OF small_state_wf])
    (simp_all add: ids_canonical_def by_stranger_def new_id_canonical_def user_id_from_context_def small_defs)

text \<open>C24: How a device becomes approved. When a step leaves an approved device that was not
  approved before, there are only two ways. The step is a \<open>RegisterDevice\<close> of the caller with the
  fingerprint of the device, and the device is new, belongs to the caller and names no approver. Or
  it is an \<open>ApprovePairing\<close>, with a yes, of the caller: the device is the caller's and the named
  pending one, and the approver that was named, and is recorded, is a device of the caller that is
  itself approved and not revoked. In particular, redeeming a pairing code approves nothing.\<close>

theorem device_approval_needs_owner:
  assumes "identity_wf (ii_db s)" "ids_canonical (ie_uuid env) (db_devices (ii_db s))"
    and "new_id_canonical (ie_uuid env) op"
    and "d' \<in> set (db_devices (ii_db (ident_step env s (now, flt, ctx, op))))" "dv_IsApproved d'"
    and "\<forall>d\<in>set (db_devices (ii_db s)). dv_ID d = dv_ID d' \<longrightarrow> \<not> dv_IsApproved d"
  shows "\<exists>uid. user_id_from_context ctx = Some uid \<and>
     ((registers op (dv_Fingerprint d') \<and> dv_ID d' \<notin> dv_ID ` set (db_devices (ii_db s))
         \<and> ie_uuid env uid = Some (dv_UserID d') \<and> dv_ApprovedBy d' = None)
      \<or> (dv_UserID d' = uid \<and> (\<exists>approver pending. \<exists>a\<in>set (db_devices (ii_db s)).
            op = OpApprove approver pending True \<and> ie_uuid env approver = Some (dv_ID a)
            \<and> ie_uuid env pending = Some (dv_ID d') \<and> dv_ApprovedBy d' = Some (dv_ID a)
            \<and> dv_UserID a = uid \<and> dv_IsApproved a \<and> dv_RevokedAt a = None)))"
  using ident_step_devices [OF assms(1-3), of now flt ctx]
proof
  assume "db_devices (ii_db (ident_step env s (now, flt, ctx, op))) = db_devices (ii_db s)"
  then show ?thesis using assms(4-6) by simp
next
  assume "\<exists>uid. user_id_from_context ctx = Some uid
     \<and> device_event (ie_uuid env) op uid (db_devices (ii_db s)) (db_devices (ii_db (ident_step env s (now, flt, ctx, op))))"
  then obtain uid where uid: "user_id_from_context ctx = Some uid" and
    event: "device_event (ie_uuid env) op uid (db_devices (ii_db s)) (db_devices (ii_db (ident_step env s (now, flt, ctx, op))))"
    by blast
  show ?thesis using uid device_event_approval [OF event assms(4-6) identity_wfD(2) [OF assms(1)]] by blast
qed

definition approved_phone :: device where
  "approved_phone = phone\<lparr>dv_IsApproved := True, dv_ApprovedAt := Some 7, dv_ApprovedBy := Some ''d1''\<rparr>"

lemma approve_phone:
  "db_devices (ii_db (ident_step small_env (small_state ''pending'')
     (7, no_faults, as_user ''u1'', OpApprove ''d1'' ''d2'' True))) = [laptop, approved_phone]"
  by (simp add: approve_pairing_def user_of_as_user [unfolded as_user_def] get_device_by_id_sql_def approve_device_sql_def
      cast_def one_row_def update_rows_def approved_phone_def Let_def ask_def small_defs)

theorem device_approval_needs_owner_witness:
  "\<exists>uid. user_id_from_context (as_user ''u1'') = Some uid \<and>
     ((registers (OpApprove ''d1'' ''d2'' True) (dv_Fingerprint approved_phone)
         \<and> dv_ID approved_phone \<notin> dv_ID ` set (db_devices (ii_db (small_state ''pending'')))
         \<and> ie_uuid small_env uid = Some (dv_UserID approved_phone) \<and> dv_ApprovedBy approved_phone = None)
      \<or> (dv_UserID approved_phone = uid \<and> (\<exists>approver pending. \<exists>a\<in>set (db_devices (ii_db (small_state ''pending''))).
            OpApprove ''d1'' ''d2'' True = OpApprove approver pending True \<and> ie_uuid small_env approver = Some (dv_ID a)
            \<and> ie_uuid small_env pending = Some (dv_ID approved_phone) \<and> dv_ApprovedBy approved_phone = Some (dv_ID a)
            \<and> dv_UserID a = uid \<and> dv_IsApproved a \<and> dv_RevokedAt a = None)))"
  by (rule device_approval_needs_owner [OF small_state_wf, of _ _ "OpApprove ''d1'' ''d2'' True" _ 7 no_faults])
    (simp_all only: approve_phone, simp_all add: ids_canonical_def new_id_canonical_def approved_phone_def small_defs)

end
