(* ===== verification/Friendships.thy ===== *)
theory Friendships
  imports IdentityGuards
begin

text \<open>
  Friendships and verified emails: only the addressee of a pending request makes it a
  friendship, only friends see devices and only the public ones, and only the token that was
  mailed verifies an email.
\<close>

section \<open>Friendships\<close>

lemma step_friends:
  "db_friends (ii_db (ident_step env s (now, flt, ctx, op))) = db_friends (ii_db s)
   \<or> (\<exists>i a. op = OpSendFriendRequest i a) \<or> (\<exists>fid ok. op = OpRespond fid ok) \<or> (\<exists>fid. op = OpRemoveFriend fid)"
  by (cases op) (simp_all add: kept)

lemma user_of_Inr: "user_of ctx = Inr uid \<longleftrightarrow> user_id_from_context ctx = Some uid"
  by (auto simp: user_of_def split: option.splits)

lemma send_request_friends:
  "f \<in> set (db_friends (ii_db (snd (send_friend_request env flt now i ctx a s)))) \<Longrightarrow>
     f \<in> set (db_friends (ii_db s)) \<or> fd_Status f = ''pending''"
  by (auto simp: send_friend_request_def create_friend_request_sql_def cast_Inr Let_def
      split: sum.splits if_splits)

lemma remove_friend_friends:
  "f \<in> set (db_friends (ii_db (snd (remove_friend env flt ctx fid s)))) \<Longrightarrow> f \<in> set (db_friends (ii_db s))"
  by (auto simp: remove_friend_def remove_friend_sql_def cast_Inr split: sum.splits if_splits)

lemma answer_friends:
  assumes "answer_friend_request_sql st u now fid uid t = Inr t'" "f' \<in> set t'" "f' \<notin> set t"
  shows "\<exists>f\<in>set t. fd_Status f = ''pending'' \<and> f' = f\<lparr>fd_Status := st, fd_UpdatedAt := now\<rparr>
    \<and> u uid = Some (fd_AddresseeID f) \<and> u fid = Some (fd_ID f)"
  using assms by (auto simp: answer_friend_request_sql_def cast_Inr update_rows_def split: if_splits)

lemma respond_friends:
  assumes "f' \<in> set (db_friends (ii_db (snd (respond_to_friend_request env flt now ctx fid ok s))))"
    and "f' \<notin> set (db_friends (ii_db s))"
  shows "\<exists>uid. \<exists>f\<in>set (db_friends (ii_db s)). user_id_from_context ctx = Some uid \<and> fd_Status f = ''pending''
    \<and> f' = f\<lparr>fd_Status := (if ok then ''accepted'' else ''rejected''), fd_UpdatedAt := now\<rparr>
    \<and> ie_uuid env uid = Some (fd_AddresseeID f) \<and> ie_uuid env fid = Some (fd_ID f)"
proof (cases "user_of ctx")
  case (Inl e)
  then show ?thesis using assms by (simp add: respond_to_friend_request_def)
next
  case (Inr uid)
  let ?q = "answer_friend_request_sql (if ok then ''accepted'' else ''rejected'') (ie_uuid env) now fid uid (db_friends (ii_db s))"
  have "db_friends (ii_db (snd (respond_to_friend_request env flt now ctx fid ok s))) = db_friends (ii_db s)
      \<or> ?q = Inr (db_friends (ii_db (snd (respond_to_friend_request env flt now ctx fid ok s))))"
    using Inr by (cases ok) (auto simp: respond_to_friend_request_def accept_friend_request_sql_def
        reject_friend_request_sql_def Let_def split: sum.splits)
  then have "?q = Inr (db_friends (ii_db (snd (respond_to_friend_request env flt now ctx fid ok s))))"
    using assms by auto
  from answer_friends [OF this assms] show ?thesis using Inr by (auto simp: user_of_Inr)
qed

text \<open>C25: A friendship begins only with its addressee. When a step of the service leaves an
  accepted friendship that was not there before, the step is the answer yes of the addressee
  of that very friendship, which was pending until then; asking, removing, answering no and
  everything else never makes one.\<close>

theorem friendship_accepted_by_addressee:
  assumes "f' \<in> set (db_friends (ii_db (ident_step env s (now, flt, ctx, op))))"
    and "f' \<notin> set (db_friends (ii_db s))" "fd_Status f' = ''accepted''"
  shows "\<exists>fid uid. \<exists>f\<in>set (db_friends (ii_db s)). op = OpRespond fid True \<and> user_id_from_context ctx = Some uid
    \<and> ie_uuid env uid = Some (fd_AddresseeID f) \<and> ie_uuid env fid = Some (fd_ID f)
    \<and> fd_Status f = ''pending'' \<and> f' = f\<lparr>fd_Status := ''accepted'', fd_UpdatedAt := now\<rparr>"
proof -
  have "\<exists>fid ok. op = OpRespond fid ok"
    using step_friends [of env s now flt ctx op] assms send_request_friends [of f'] remove_friend_friends [of f']
    by fastforce
  then obtain fid ok where op: "op = OpRespond fid ok" by blast
  then show ?thesis
    using respond_friends [of f' env flt now ctx fid ok s] assms by (cases ok) auto
qed

lemma answer_yes:
  "db_friends (ii_db (ident_step small_env (small_state ''pending'') (7, no_faults, as_user ''u1'', OpRespond ''f'' True)))
     = [(request ''accepted'')\<lparr>fd_UpdatedAt := 7\<rparr>]"
  by (simp add: respond_to_friend_request_def user_of_as_user [unfolded as_user_def] accept_friend_request_sql_def
      answer_friend_request_sql_def get_friendship_sql_def cast_def one_row_def update_rows_def Let_def ask_def small_defs)

theorem friendship_accepted_by_addressee_witness:
  "\<exists>fid uid. \<exists>f\<in>set (db_friends (ii_db (small_state ''pending''))).
    OpRespond ''f'' True = OpRespond fid True \<and> user_id_from_context (as_user ''u1'') = Some uid
    \<and> ie_uuid small_env uid = Some (fd_AddresseeID f) \<and> ie_uuid small_env fid = Some (fd_ID f)
    \<and> fd_Status f = ''pending''
    \<and> (request ''accepted'')\<lparr>fd_UpdatedAt := 7\<rparr> = f\<lparr>fd_Status := ''accepted'', fd_UpdatedAt := 7\<rparr>"
  by (rule friendship_accepted_by_addressee [of _ small_env "small_state ''pending''" 7 no_faults])
    (simp_all only: answer_yes, simp_all add: small_defs)

text \<open>A row that joins two users, whichever of them asked.\<close>

definition joins :: "friend_row \<Rightarrow> string \<Rightarrow> string \<Rightarrow> bool" where
  "joins f i j \<longleftrightarrow> {fd_RequesterID f, fd_AddresseeID f} = {i, j}"

lemma friendship_between:
  "get_friendship_between_sql u a b t = cast u a (\<lambda>i. cast u b (\<lambda>j. one_row (\<lambda>f. joins f i j) t))"
  by (simp add: get_friendship_between_sql_def joins_def doubleton_eq_iff)

lemma one_row_all:
  assumes "f \<in> set t" "p f" "\<forall>g\<in>set t. p g \<longrightarrow> q g"
  shows "\<exists>g. one_row p t = Inr g \<and> q g"
proof (cases "one_row p t")
  case (Inl e)
  then have "find p t = None" by (cases "find p t") (simp_all add: one_row_def db_row_def)
  then show ?thesis using assms(1,2) by (simp add: find_None_iff)
next
  case (Inr g)
  then show ?thesis using assms(3) one_row_sound [OF Inr] by blast
qed

text \<open>C26: Which devices a friend sees. \<open>ListFriendDevices\<close> answers only a caller who has an
  accepted friendship with that user, whichever of the two asked for it, and then with exactly the
  devices of the user that are approved, public and not revoked. And each of the two is answered:
  when the queries work and every row that joins them is accepted, the list is given, to the one who
  asked for the friendship as to the one who was asked.\<close>

theorem friend_devices_exact:
  "(\<forall>msgs. list_friend_devices env flt ctx friendId s = Inr msgs \<longrightarrow>
      (\<exists>uid i j. user_id_from_context ctx = Some uid \<and> ie_uuid env uid = Some i \<and> ie_uuid env friendId = Some j
       \<and> (\<exists>f\<in>set (db_friends (ii_db s)). fd_Status f = ''accepted'' \<and> joins f i j)
       \<and> set msgs = device_to_proto ` {d \<in> set (db_devices (ii_db s)). dv_UserID d = j \<and> dv_IsApproved d
            \<and> dv_IsPublic d \<and> dv_RevokedAt d = None}))
   \<and> (\<forall>uid i j. user_id_from_context ctx = Some uid \<and> ie_uuid env uid = Some i
       \<and> friendId \<noteq> '''' \<and> ie_uuid env friendId = Some j \<and> \<not> flt QFriendBetween \<and> \<not> flt QListPublic
       \<and> (\<exists>f\<in>set (db_friends (ii_db s)). joins f i j)
       \<and> (\<forall>f\<in>set (db_friends (ii_db s)). joins f i j \<longrightarrow> fd_Status f = ''accepted'') \<longrightarrow>
      (\<exists>msgs. list_friend_devices env flt ctx friendId s = Inr msgs))"
proof (intro conjI allI impI)
  fix msgs
  assume answer: "list_friend_devices env flt ctx friendId s = Inr msgs"
  obtain uid f ds where uid: "user_of ctx = Inr uid"
    and f: "get_friendship_between_sql (ie_uuid env) uid friendId (db_friends (ii_db s)) = Inr f" "fd_Status f = ''accepted''"
    and ds: "list_devices_public_sql (ie_uuid env) friendId (db_devices (ii_db s)) = Inr ds" "msgs = map device_to_proto ds"
    using answer by (auto simp: list_friend_devices_def Let_def split: sum.splits if_splits)
  obtain i j where ij: "ie_uuid env uid = Some i" "ie_uuid env friendId = Some j" "f \<in> set (db_friends (ii_db s))" "joins f i j"
    using f(1) by (auto simp: friendship_between cast_Inr dest!: one_row_sound)
  have "set ds = {d \<in> set (db_devices (ii_db s)). dv_UserID d = j \<and> dv_IsApproved d \<and> dv_IsPublic d \<and> dv_RevokedAt d = None}"
    using ds(1) ij(2) by (auto simp: list_devices_public_sql_def cast_Inr latest_def)
  then show "\<exists>uid i j. user_id_from_context ctx = Some uid \<and> ie_uuid env uid = Some i \<and> ie_uuid env friendId = Some j
       \<and> (\<exists>f\<in>set (db_friends (ii_db s)). fd_Status f = ''accepted'' \<and> joins f i j)
       \<and> set msgs = device_to_proto ` {d \<in> set (db_devices (ii_db s)). dv_UserID d = j \<and> dv_IsApproved d
            \<and> dv_IsPublic d \<and> dv_RevokedAt d = None}"
    using uid f(2) ij ds(2) user_of_Inr by (intro exI [of _ uid] exI [of _ i] exI [of _ j]) auto
next
  fix uid i j
  assume a: "user_id_from_context ctx = Some uid \<and> ie_uuid env uid = Some i
       \<and> friendId \<noteq> '''' \<and> ie_uuid env friendId = Some j \<and> \<not> flt QFriendBetween \<and> \<not> flt QListPublic
       \<and> (\<exists>f\<in>set (db_friends (ii_db s)). joins f i j)
       \<and> (\<forall>f\<in>set (db_friends (ii_db s)). joins f i j \<longrightarrow> fd_Status f = ''accepted'')"
  then obtain g where "one_row (\<lambda>f. joins f i j) (db_friends (ii_db s)) = Inr g" "fd_Status g = ''accepted''"
    using one_row_all [of _ "db_friends (ii_db s)" "\<lambda>f. joins f i j" "\<lambda>f. fd_Status f = ''accepted''"] by blast
  then show "\<exists>msgs. list_friend_devices env flt ctx friendId s = Inr msgs"
    using a user_of_Inr [of ctx uid]
    by (simp add: list_friend_devices_def friendship_between cast_def ask_def list_devices_public_sql_def Let_def)
qed

lemma bob_sees_laptop:
  "list_friend_devices small_env no_faults (as_user ''u2'') ''u1'' (small_state ''accepted'') = Inr [device_to_proto laptop]"
  by (simp add: list_friend_devices_def user_of_as_user [unfolded as_user_def] get_friendship_between_sql_def
      list_devices_public_sql_def latest_def cast_def one_row_def Let_def ask_def small_defs)

text \<open>Bob asked for the friendship, ann was asked; both see the other's devices.\<close>

theorem friend_devices_exact_witness:
  "(\<exists>uid i j. user_id_from_context (as_user ''u2'') = Some uid \<and> ie_uuid small_env uid = Some i \<and> ie_uuid small_env ''u1'' = Some j
    \<and> (\<exists>f\<in>set (db_friends (ii_db (small_state ''accepted''))). fd_Status f = ''accepted'' \<and> joins f i j)
    \<and> set [device_to_proto laptop] = device_to_proto ` {d \<in> set (db_devices (ii_db (small_state ''accepted''))).
         dv_UserID d = j \<and> dv_IsApproved d \<and> dv_IsPublic d \<and> dv_RevokedAt d = None})
   \<and> (\<exists>msgs. list_friend_devices small_env no_faults (as_user ''u1'') ''u2'' (small_state ''accepted'') = Inr msgs)"
proof
  show "\<exists>uid i j. user_id_from_context (as_user ''u2'') = Some uid \<and> ie_uuid small_env uid = Some i \<and> ie_uuid small_env ''u1'' = Some j
    \<and> (\<exists>f\<in>set (db_friends (ii_db (small_state ''accepted''))). fd_Status f = ''accepted'' \<and> joins f i j)
    \<and> set [device_to_proto laptop] = device_to_proto ` {d \<in> set (db_devices (ii_db (small_state ''accepted''))).
         dv_UserID d = j \<and> dv_IsApproved d \<and> dv_IsPublic d \<and> dv_RevokedAt d = None}"
    using friend_devices_exact [THEN conjunct1] bob_sees_laptop by blast
  show "\<exists>msgs. list_friend_devices small_env no_faults (as_user ''u1'') ''u2'' (small_state ''accepted'') = Inr msgs"
    by (rule friend_devices_exact [THEN conjunct2, rule_format, where uid = "''u1''" and i = "''u1''" and j = "''u2''"])
      (simp add: user_id_from_context_def joins_def doubleton_eq_iff small_defs)
qed

section \<open>Emails\<close>

lemma step_users:
  "db_users (ii_db (ident_step env s (now, flt, ctx, op))) = db_users (ii_db s)
   \<or> (\<exists>i t n e p. op = OpRegister i t n e p) \<or> (\<exists>t. op = OpVerifyEmail t) \<or> (\<exists>t e. op = OpResend t e)
   \<or> (\<exists>d. op = OpAvatar d)"
  by (cases op) (simp_all add: kept)

text \<open>A row's verified mark is not set by anything but \<open>VerifyUserEmail\<close>.\<close>

lemma start_verification_users:
  "w' \<in> set (db_users (ii_db (start_verification env flt now token uid s))) \<Longrightarrow>
     \<exists>w\<in>set (db_users (ii_db s)). us_ID w = us_ID w' \<and> us_EmailVerified w = us_EmailVerified w'"
  by (fastforce simp: start_verification_def set_verification_token_sql_def cast_Inr update_rows_def
      split: option.splits sum.splits if_splits)

lemma register_users:
  "w' \<in> set (db_users (ii_db (snd (register env flt now i token n e p s)))) \<Longrightarrow> us_EmailVerified w' \<Longrightarrow>
     \<exists>w\<in>set (db_users (ii_db s)). us_ID w = us_ID w' \<and> us_EmailVerified w"
  by (fastforce simp: register_def create_user_sql_def Let_def split: option.splits sum.splits if_splits
      dest!: start_verification_users)

lemma resend_users:
  "w' \<in> set (db_users (ii_db (snd (resend_verification env flt now token e s)))) \<Longrightarrow>
     \<exists>w\<in>set (db_users (ii_db s)). us_ID w = us_ID w' \<and> us_EmailVerified w = us_EmailVerified w'"
  by (fastforce simp: resend_verification_def set_verification_token_sql_def cast_Inr update_rows_def
      split: option.splits sum.splits db_error.splits if_splits)

lemma avatar_users:
  "w' \<in> set (db_users (ii_db (snd (update_avatar env flt ctx data s)))) \<Longrightarrow>
     \<exists>w\<in>set (db_users (ii_db s)). us_ID w = us_ID w' \<and> us_EmailVerified w = us_EmailVerified w'"
  by (fastforce simp: update_avatar_def update_user_avatar_sql_def cast_Inr update_rows_def
      split: sum.splits if_splits)

lemma verify_users:
  assumes "w' \<in> set (db_users (ii_db (snd (verify_email env flt now tok s))))" "us_EmailVerified w'"
    and "\<forall>w\<in>set (db_users (ii_db s)). us_ID w = us_ID w' \<longrightarrow> \<not> us_EmailVerified w"
  shows "\<exists>w\<in>set (db_users (ii_db s)). ie_uuid env (us_ID w) = Some (us_ID w')
    \<and> us_VerificationToken w = Some tok \<and> (\<exists>e. us_VerificationExpiresAt w = Some e \<and> now < e)"
proof -
  have "w' \<notin> set (db_users (ii_db s))" using assms(2,3) by blast
  then obtain w t where w: "get_user_by_token_sql now tok (db_users (ii_db s)) = Inr w"
    and t: "verify_user_email_sql (ie_uuid env) (us_ID w) (db_users (ii_db s)) = Inr t" "w' \<in> set t"
    using assms(1) by (auto simp: verify_email_def split: if_splits sum.splits db_error.splits)
  obtain i where i: "ie_uuid env (us_ID w) = Some i"
    and t': "t = update_rows (\<lambda>r. us_ID r = i)
       (\<lambda>r. r\<lparr>us_EmailVerified := True, us_VerificationToken := None, us_VerificationExpiresAt := None\<rparr>) (db_users (ii_db s))"
    using t(1) by (auto simp: verify_user_email_sql_def cast_Inr)
  have "us_ID w' = i" using t(2) \<open>w' \<notin> set (db_users (ii_db s))\<close> unfolding t' by (auto simp: update_rows_def split: if_splits)
  then show ?thesis
    using i w by (auto simp: get_user_by_token_sql_def dest!: one_row_sound)
qed

text \<open>Only the mailed token verifies an email. When a step of the service leaves a user
  verified who was not, the step is \<open>VerifyEmail\<close> with the token stored for that user before,
  and that token had not expired.\<close>

theorem email_verified_by_token:
  assumes "w' \<in> set (db_users (ii_db (ident_step env s (now, flt, ctx, op))))" "us_EmailVerified w'"
    and "\<forall>w\<in>set (db_users (ii_db s)). us_ID w = us_ID w' \<longrightarrow> \<not> us_EmailVerified w"
    and "\<forall>w\<in>set (db_users (ii_db s)). ie_uuid env (us_ID w) = Some (us_ID w)"
  shows "\<exists>tok. \<exists>w\<in>set (db_users (ii_db s)). op = OpVerifyEmail tok \<and> us_ID w = us_ID w'
    \<and> us_VerificationToken w = Some tok \<and> (\<exists>e. us_VerificationExpiresAt w = Some e \<and> now < e)"
proof -
  have "\<exists>tok. op = OpVerifyEmail tok"
    using step_users [of env s now flt ctx op] assms(1-3)
      register_users [of w'] resend_users [of w'] avatar_users [of w'] by fastforce
  then obtain tok where op: "op = OpVerifyEmail tok" by blast
  then obtain w where "w \<in> set (db_users (ii_db s))" "ie_uuid env (us_ID w) = Some (us_ID w')"
    "us_VerificationToken w = Some tok" "\<exists>e. us_VerificationExpiresAt w = Some e \<and> now < e"
    using verify_users [of w' env flt now tok s] assms(1-3) by auto
  then show ?thesis using assms(4) op by (intro exI [of _ tok] bexI [of _ w]) auto
qed

definition verified_bob :: user where
  "verified_bob = bob\<lparr>us_EmailVerified := True, us_VerificationToken := None, us_VerificationExpiresAt := None\<rparr>"

lemma verify_bob:
  "db_users (ii_db (ident_step small_env (small_state ''pending'') (7, no_faults, as_user ''u2'', OpVerifyEmail ''tok'')))
     = [ann, verified_bob]"
  by (simp add: verify_email_def get_user_by_token_sql_def verify_user_email_sql_def cast_def one_row_def
      update_rows_def verified_bob_def ask_def small_defs)

theorem email_verified_by_token_witness:
  "\<exists>tok. \<exists>w\<in>set (db_users (ii_db (small_state ''pending''))). OpVerifyEmail ''tok'' = OpVerifyEmail tok
    \<and> us_ID w = us_ID verified_bob
    \<and> us_VerificationToken w = Some tok \<and> (\<exists>e. us_VerificationExpiresAt w = Some e \<and> 7 < e)"
  by (rule email_verified_by_token [of _ small_env "small_state ''pending''" 7 no_faults "as_user ''u2''"])
    (simp_all only: verify_bob, simp_all add: verified_bob_def small_defs)

section \<open>Sessions\<close>

text \<open>Creating a session with any device id joins that device and answers with its message,
  whoever owns it; joining an existing session checks the owner.\<close>

lemma session_adopts_any_device:
  assumes "user_of ctx = Inr uid" "ie_uuid env uid = Some i" "i \<in> us_ID ` set (db_users (ii_db s))"
    and "ie_uuid env newID = Some newID" "newID \<notin> ps_ID ` set (db_sessions (ii_db s))"
    and "d \<in> set (db_devices (ii_db s))" "dv_RevokedAt d = None" "ie_uuid env did = Some (dv_ID d)" "did \<noteq> ''''"
  shows "\<exists>p msgs. fst (create_peer_session env no_faults now newID ctx name did s) = Inr (p, msgs) \<and> device_to_proto d \<in> set msgs"
proof -
  let ?key = "\<lambda>m. (sm_SessionID m, sm_DeviceID m)"
  let ?new = "\<lparr>sm_SessionID = newID, sm_DeviceID = dv_ID d, sm_JoinedAt = now, sm_LeftAt = None\<rparr>"
  let ?ms = "upsert ?key (\<lambda>old new. old\<lparr>sm_LeftAt := None\<rparr>) ?new (db_members (ii_db s))"
  have "\<exists>m\<in>set ?ms. sm_SessionID m = newID \<and> sm_DeviceID m = dv_ID d \<and> sm_LeftAt m = None"
  proof (cases "?key ?new \<in> set (map ?key (db_members (ii_db s)))")
    case True
    then obtain m where "m \<in> set (db_members (ii_db s))" "?key m = ?key ?new" by auto
    then have "m\<lparr>sm_LeftAt := None\<rparr> \<in> set ?ms" by (force simp: upsert_def)
    then show ?thesis using \<open>?key m = ?key ?new\<close> by (intro bexI) simp_all
  qed (simp add: upsert_def)
  then have "d \<in> set [d. d \<leftarrow> db_devices (ii_db s), m \<leftarrow> ?ms, dv_ID d = sm_DeviceID m \<and> sm_SessionID m = newID
      \<and> sm_LeftAt m = None \<and> dv_RevokedAt d = None]"
    using assms(6,7) by auto
  then show ?thesis
    using assms by (simp add: create_peer_session_def create_session_sql_def add_device_to_session_sql_def cast_def
        session_devices_def list_session_devices_sql_def session_to_proto_def rows_or_none_def Let_def)
qed

end
