(* ===== verification/PairingLaws.thy ===== *)
theory PairingLaws
  imports IdentityGuards
begin

text \<open>
  Pairing codes over runs of the identity service: a code works once, for five minutes, for the
  account that made it, and gives a device that is not approved yet.
\<close>

section \<open>What a step does to a code\<close>

lemma pairing_not_blacklist [simp]:
  "pairing_key c \<noteq> blacklist_key tok" "blacklist_key tok \<noteq> pairing_key c"
  by (simp_all add: pairing_key_def blacklist_key_def)

lemma pairing_key_inject [simp]: "pairing_key c = pairing_key c' \<longleftrightarrow> c = c'"
  by (simp add: pairing_key_def)

lemma refresh_redis:
  "ii_redis (snd (refresh_token env now tok s)) = ii_redis s
   \<or> (\<exists>c ok. validate (ie_jwt env) (ie_manager env) now tok = Some c
        \<and> rd_set (ie_redis env) now (blacklist_key tok) Marker (token_ttl c) (ii_redis s)
            = (ok, ii_redis (snd (refresh_token env now tok s))))"
  by (auto simp: refresh_token_def blacklist_add_def Let_def split: prod.split option.split)

lemma logout_redis:
  "ii_redis (snd (logout env now tok s)) = ii_redis s
   \<or> (\<exists>c ok. validate (ie_jwt env) (ie_manager env) now tok = Some c
        \<and> rd_set (ie_redis env) now (blacklist_key tok) Marker (token_ttl c) (ii_redis s)
            = (ok, ii_redis (snd (logout env now tok s))))"
  by (auto simp: logout_def blacklist_add_def Let_def split: prod.split option.split)

lemma generate_redis:
  "ii_redis (snd (generate_pairing_code env flt now random ctx did s)) = ii_redis s
   \<or> (\<exists>uid ok. rd_set (ie_redis env) now (pairing_key (random_code random)) (PairingData uid did) pairing_ttl (ii_redis s)
        = (ok, ii_redis (snd (generate_pairing_code env flt now random ctx did s))))"
  by (auto simp: generate_pairing_code_def generate_code_def Let_def split: prod.split option.split sum.split)

lemma redeem_redis:
  "ii_redis (snd (redeem_pairing_code env flt now i ctx req s)) = ii_redis s
   \<or> (\<exists>r. rd_getdel (ie_redis env) now (pairing_key (rp_PairingCode req)) (ii_redis s)
        = (r, ii_redis (snd (redeem_pairing_code env flt now i ctx req s))))"
  by (auto simp: redeem_pairing_code_def redeem_code_def Let_def
      split: prod.split option.split sum.split redis_error.split redis_value.split)

lemma ident_step_redis:
  "ii_redis (ident_step env s (now, flt, ctx, op)) = ii_redis s
   \<or> (\<exists>tok c ok. op \<in> {OpRefresh tok, OpLogout tok} \<and> validate (ie_jwt env) (ie_manager env) now tok = Some c
        \<and> rd_set (ie_redis env) now (blacklist_key tok) Marker (token_ttl c) (ii_redis s)
            = (ok, ii_redis (ident_step env s (now, flt, ctx, op))))
   \<or> (\<exists>random did uid ok. op = OpGenerateCode random did
        \<and> rd_set (ie_redis env) now (pairing_key (random_code random)) (PairingData uid did) pairing_ttl (ii_redis s)
            = (ok, ii_redis (ident_step env s (now, flt, ctx, op))))
   \<or> (\<exists>i req r. op = OpRedeemCode i req
        \<and> rd_getdel (ie_redis env) now (pairing_key (rp_PairingCode req)) (ii_redis s)
            = (r, ii_redis (ident_step env s (now, flt, ctx, op))))"
proof (cases op)
  case (OpRefresh tok)
  then show ?thesis using refresh_redis [of env now tok s] by auto
next
  case (OpLogout tok)
  then show ?thesis using logout_redis [of env now tok s] by auto
next
  case (OpGenerateCode random did)
  then show ?thesis using generate_redis [of env flt now random ctx did s] by auto
next
  case (OpRedeemCode i req)
  then show ?thesis using redeem_redis [of env flt now i ctx req s] by auto
qed (simp_all add: kept)

section \<open>Redeeming a code\<close>

lemma redeem_code_Inr:
  "redeem_code rd now code r = (Inr (u, d), r') \<longleftrightarrow> rd_getdel rd now (pairing_key code) r = (Inr (PairingData u d), r')"
  by (auto simp: redeem_code_def split: prod.splits sum.splits redis_error.splits redis_value.splits)

lemma redeem_success:
  assumes "redeem_pairing_code env flt now i ctx req s = (Inr (pid, aid), s')"
  obtains uid d where "user_id_from_context ctx = Some uid"
    "rd_getdel (ie_redis env) now (pairing_key (rp_PairingCode req)) (ii_redis s) = (Inr (PairingData uid aid), ii_redis s')"
    "d \<in> set (db_devices (ii_db s'))" "dv_ID d = pid" "\<not> dv_IsApproved d" "ie_uuid env uid = Some (dv_UserID d)"
proof -
  obtain uid where uid: "user_of ctx = Inr uid"
    using assms by (auto simp: redeem_pairing_code_def split: sum.splits)
  obtain data r where rc: "redeem_code (ie_redis env) now (rp_PairingCode req) (ii_redis s) = (data, r)" by fastforce
  obtain u' d' where d': "data = Inr (u', d')"
    using assms uid rc by (cases data) (auto simp: redeem_pairing_code_def split: if_splits)
  let ?p = "\<lparr>dv_ID = '''', dv_UserID = uid, dv_Name = rp_Name req,
       dv_DeviceType = device_type_to_string (rp_DeviceType req), dv_NodeID = nullable (rp_NodeId req),
       dv_Fingerprint = rp_Fingerprint req, dv_IsApproved = False, dv_ApprovedAt = None, dv_ApprovedBy = None,
       dv_LastActive = 0, dv_CreatedAt = 0, dv_RevokedAt = None, dv_IsPublic = False\<rparr>"
  have u': "u' = uid" "d' = aid"
    and "\<exists>d t. create_device_sql (ie_uuid env) now i ?p (db_users (ii_db s)) (db_devices (ii_db s)) = Inr (d, t)
       \<and> pid = dv_ID d \<and> s' = set_devices t (set_redis r s)"
    using assms uid rc d' by (auto simp: redeem_pairing_code_def Let_def split: if_splits sum.splits)
  then obtain d t where d: "create_device_sql (ie_uuid env) now i ?p (db_users (ii_db s)) (db_devices (ii_db s)) = Inr (d, t)"
    "pid = dv_ID d" "s' = set_devices t (set_redis r s)" by blast
  then have "d \<in> set t" "\<not> dv_IsApproved d" "ie_uuid env uid = Some (dv_UserID d)"
    by (auto simp: create_device_sql_def cast_Inr Let_def split: if_splits)
  then show thesis
    using that [of uid d] uid rc d' u' d by (simp add: redeem_code_Inr user_of_def split: option.splits)
qed

lemma redeem_failure_db:
  "redeem_pairing_code env flt now i ctx req s = (Inl e, s') \<Longrightarrow> ii_db s' = ii_db s"
  by (auto simp: redeem_pairing_code_def Let_def split: sum.splits if_splits prod.splits)

lemma redeem_unknown:
  assumes "redis_laws (ie_redis env) holds" "holds (ii_redis s) now (pairing_key (rp_PairingCode req)) = None"
  shows "\<exists>e s'. redeem_pairing_code env flt now i ctx req s = (Inl e, s') \<and> ii_db s' = ii_db s"
proof -
  obtain r s' where rs: "redeem_pairing_code env flt now i ctx req s = (r, s')" by fastforce
  show ?thesis
  proof (cases r)
    case (Inl e)
    then show ?thesis using rs redeem_failure_db by blast
  next
    case (Inr pa)
    obtain pid aid where pa: "pa = (pid, aid)" by fastforce
    from rs [unfolded Inr pa] show ?thesis
      by (rule redeem_success) (use redis_getdel_value(1) [OF assms(1)] assms(2) in fastforce)
  qed
qed

section \<open>Runs\<close>

text \<open>A call that makes or uses a code.\<close>

definition makes_code :: "string \<Rightarrow> ident_call \<Rightarrow> bool" where
  "makes_code c call \<longleftrightarrow> (case call of (now, flt, ctx, OpGenerateCode random did) \<Rightarrow> random_code random = c | _ \<Rightarrow> False)"

definition uses_code :: "string \<Rightarrow> ident_call \<Rightarrow> bool" where
  "uses_code c call \<longleftrightarrow> (case call of (now, flt, ctx, OpRedeemCode i req) \<Rightarrow> rp_PairingCode req = c | _ \<Rightarrow> False)"

lemma step_code_gone:
  assumes "redis_laws (ie_redis env) holds" "\<forall>t. holds (ii_redis s) t (pairing_key c) = None" "\<not> makes_code c call"
  shows "holds (ii_redis (ident_step env s call)) t (pairing_key c) = None"
proof -
  obtain now flt ctx op where call: "call = (now, flt, ctx, op)" by (cases call)
  show ?thesis
    using ident_step_redis [of env s now flt ctx op] assms(2)
  proof (elim disjE exE conjE, goal_cases)
    case (4 i req r)
    then show ?case
      using redis_getdel_keeps_none [OF assms(1) 4(3)] redis_getdel_other [OF assms(1) 4(3), of "pairing_key c"] call
      by (cases "rp_PairingCode req = c") simp_all
  next
    case (3 random did uid ok)
    then show ?case
      using redis_set_other [OF assms(1) 3(3), of "pairing_key c"] assms(3) unfolding call makes_code_def by simp
  next
    case (2 tok cl ok)
    then show ?case using redis_set_other [OF assms(1) 2(4), of "pairing_key c"] call by simp
  qed (simp add: call)
qed

lemma step_code_kept:
  assumes "redis_laws (ie_redis env) holds" "\<not> makes_code c call" "\<not> uses_code c call"
  shows "holds (ii_redis (ident_step env s call)) t (pairing_key c) = holds (ii_redis s) t (pairing_key c)"
proof -
  obtain now flt ctx op where call: "call = (now, flt, ctx, op)" by (cases call)
  show ?thesis
    using ident_step_redis [of env s now flt ctx op]
  proof (elim disjE exE conjE, goal_cases)
    case (4 i req r)
    then show ?case
      using redis_getdel_other [OF assms(1) 4(2), of "pairing_key c"] assms(3) unfolding call uses_code_def by simp
  next
    case (3 random did uid ok)
    then show ?case
      using redis_set_other [OF assms(1) 3(2), of "pairing_key c"] assms(2) unfolding call makes_code_def by simp
  next
    case (2 tok cl ok)
    then show ?case using redis_set_other [OF assms(1) 2(3), of "pairing_key c"] call by simp
  qed (simp add: call)
qed

interpretation used_code: invariant_machine "ident_step env"
  "\<lambda>s. redis_laws (ie_redis env) holds \<and> (\<forall>t. holds (ii_redis s) t (pairing_key c) = None)"
  "\<lambda>_ call. \<not> makes_code c call" for env holds c
  by unfold_locales (blast intro: step_code_gone)

lemma used_code_legal: "\<forall>call\<in>set calls. \<not> makes_code c call \<Longrightarrow> used_code.legal_run env c s calls"
  by (induction calls arbitrary: s) auto

lemma run_code_kept:
  assumes "redis_laws (ie_redis env) holds" "\<forall>call\<in>set calls. \<not> makes_code c call \<and> \<not> uses_code c call"
  shows "holds (ii_redis (foldl (ident_step env) s calls)) t (pairing_key c) = holds (ii_redis s) t (pairing_key c)"
  using assms(2) by (induction calls arbitrary: s) (auto simp: step_code_kept [OF assms(1)])

text \<open>C7: A pairing code works at most once. After a request has redeemed a code, no later
  request with that code is accepted, by whomever and after whatever other calls, unless the
  service happens to give out the same code again, and the refused request changes nothing in
  the database.\<close>

theorem pairing_code_single_use:
  assumes "redis_laws (ie_redis env) holds"
    and "redeem_pairing_code env flt now i ctx req s = (Inr res, s1)"
    and "\<forall>call\<in>set calls. \<not> makes_code (rp_PairingCode req) call"
    and "rp_PairingCode req' = rp_PairingCode req"
  shows "\<exists>e s3. redeem_pairing_code env flt' now' i' ctx' req' (foldl (ident_step env) s1 calls) = (Inl e, s3)
     \<and> ii_db s3 = ii_db (foldl (ident_step env) s1 calls)"
proof -
  obtain pid aid where res: "res = (pid, aid)" by fastforce
  have "\<forall>t. holds (ii_redis s1) t (pairing_key (rp_PairingCode req)) = None"
    using assms(2)[unfolded res] by (rule redeem_success) (use redis_getdel_value(2) [OF assms(1)] in blast)
  with assms(1) have gone: "redis_laws (ie_redis env) holds
      \<and> (\<forall>t. holds (ii_redis s1) t (pairing_key (rp_PairingCode req)) = None)" ..
  have "holds (ii_redis (foldl (ident_step env) s1 calls)) now' (pairing_key (rp_PairingCode req')) = None"
    using used_code.inv_run [OF gone used_code_legal [OF assms(3)]] assms(4) by simp
  then show ?thesis by (rule redeem_unknown [OF assms(1)])
qed

text \<open>The laptop makes a code, a tablet redeems it.\<close>

definition coded_state :: "map_redis ident_state" where
  "coded_state = (small_state ''pending'')\<lparr>ii_redis := [pairing_key ''AAAAAA'' \<mapsto> (PairingData ''u1'' ''d1'', pairing_ttl)]\<rparr>"

definition tablet_request :: redeem_request where
  "tablet_request =
     \<lparr>rp_PairingCode = ''AAAAAA'', rp_Name = ''tablet'', rp_DeviceType = 3, rp_NodeId = '''', rp_Fingerprint = ''f3''\<rparr>"

lemma tablet_code: "rp_PairingCode tablet_request = ''AAAAAA''"
  by (simp add: tablet_request_def)

lemma laptop_makes_code:
  "generate_pairing_code small_env no_faults 0 [0, 0, 0, 0, 0, 0] (as_user ''u1'') ''d1'' (small_state ''pending'')
     = (Inr (''AAAAAA'', 300), coded_state)"
  by (simp add: generate_pairing_code_def generate_code_def random_code_def code_chars_def coded_state_def
      user_of_as_user [unfolded as_user_def] get_device_by_id_sql_def cast_def one_row_def map_redis_def Let_def
      ask_def pairing_ttl_def small_defs)

lemma tablet_redeems:
  "fst (redeem_pairing_code small_env no_faults 10 ''d3'' (as_user ''u1'') tablet_request coded_state) = Inr (''d3'', ''d1'')"
  by (simp add: redeem_pairing_code_def redeem_code_def coded_state_def tablet_request_def map_redis_def map_holds_def
      user_of_as_user [unfolded as_user_def] create_device_sql_def cast_def Let_def ask_def pairing_ttl_def
      minute_def second_def small_defs)

theorem pairing_code_single_use_witness:
  "\<exists>e s3. redeem_pairing_code small_env no_faults 30 ''d4'' (as_user ''u2'') tablet_request
       (foldl (ident_step small_env) (snd (redeem_pairing_code small_env no_faults 10 ''d3'' (as_user ''u1'') tablet_request coded_state))
          [(20, no_faults, as_user ''u1'', OpRevokeDevice ''d1'')]) = (Inl e, s3)
     \<and> ii_db s3 = ii_db (foldl (ident_step small_env)
          (snd (redeem_pairing_code small_env no_faults 10 ''d3'' (as_user ''u1'') tablet_request coded_state))
          [(20, no_faults, as_user ''u1'', OpRevokeDevice ''d1'')])"
proof (rule pairing_code_single_use)
  show "redis_laws (ie_redis small_env) map_holds" by (simp add: small_env_def map_redis_laws)
  show "redeem_pairing_code small_env no_faults 10 ''d3'' (as_user ''u1'') tablet_request coded_state
      = (Inr (''d3'', ''d1''), snd (redeem_pairing_code small_env no_faults 10 ''d3'' (as_user ''u1'') tablet_request coded_state))"
    using tablet_redeems by (simp add: prod_eq_iff)
qed (simp_all add: makes_code_def)

text \<open>What a code is good for. When an approved device made a code and later, with any
  calls between that do not make or use that code, a request redeems it, then the request came
  within five minutes, its caller is the user who made the code, it names the device that made it
  as the approver, and the new device belongs to the caller and is not approved. A request that is
  refused leaves the database as it was.\<close>

theorem pairing_code_for_account:
  assumes "redis_laws (ie_redis env) holds"
    and "generate_pairing_code env flt now random ctx did s = (Inr (code, secs), s1)"
    and "\<forall>call\<in>set calls. \<not> makes_code code call \<and> \<not> uses_code code call"
    and "redeem_pairing_code env flt' now' i ctx' req (foldl (ident_step env) s1 calls) = (res, s3)"
    and "rp_PairingCode req = code"
  shows "case res of
      Inl e \<Rightarrow> ii_db s3 = ii_db (foldl (ident_step env) s1 calls)
    | Inr (pid, aid) \<Rightarrow>
        now' < now + 5 * minute \<and> user_id_from_context ctx' = user_id_from_context ctx \<and> aid = did
        \<and> (\<exists>d\<in>set (db_devices (ii_db s)). ie_uuid env did = Some (dv_ID d) \<and> dv_IsApproved d
             \<and> Some (dv_UserID d) = user_id_from_context ctx')
        \<and> (\<exists>d\<in>set (db_devices (ii_db s3)). dv_ID d = pid \<and> \<not> dv_IsApproved d
             \<and> Option.bind (user_id_from_context ctx') (ie_uuid env) = Some (dv_UserID d))"
proof (cases res)
  case (Inl e)
  then show ?thesis using assms(4) redeem_failure_db by fastforce
next
  case (Inr pa)
  obtain pid aid where pa: "pa = (pid, aid)" by fastforce
  obtain uid d where uid: "user_id_from_context ctx = Some uid"
    and d: "get_device_by_id_sql (ie_uuid env) did (db_devices (ii_db s)) = Inr d" "dv_UserID d = uid" "dv_IsApproved d"
    and set: "rd_set (ie_redis env) now (pairing_key code) (PairingData uid did) pairing_ttl (ii_redis s) = (True, ii_redis s1)"
    using assms(2) by (auto simp: generate_pairing_code_def generate_code_def user_of_def Let_def
        split: sum.splits option.splits if_splits prod.splits)
  have holds: "holds (ii_redis (foldl (ident_step env) s1 calls)) t (pairing_key code)
      = (if t < now + pairing_ttl then Some (PairingData uid did) else None)" for t
    using run_code_kept [OF assms(1,3)] redis_set_key [OF assms(1) set] by (simp add: pairing_ttl_def minute_def second_def)
  show ?thesis
    using assms(4) unfolding Inr pa
  proof (rule redeem_success)
    fix uid' d'
    assume a: "user_id_from_context ctx' = Some uid'"
      "rd_getdel (ie_redis env) now' (pairing_key (rp_PairingCode req)) (ii_redis (foldl (ident_step env) s1 calls))
         = (Inr (PairingData uid' aid), ii_redis s3)"
      "d' \<in> set (db_devices (ii_db s3))" "dv_ID d' = pid" "\<not> dv_IsApproved d'" "ie_uuid env uid' = Some (dv_UserID d')"
    have "now' < now + pairing_ttl \<and> uid' = uid \<and> aid = did"
      using redis_getdel_value(1) [OF assms(1) a(2)] holds [of now'] assms(5) by (auto split: if_splits)
    then show "case Inr (pid, aid) of
      Inl e \<Rightarrow> ii_db s3 = ii_db (foldl (ident_step env) s1 calls)
    | Inr (pid, aid) \<Rightarrow>
        now' < now + 5 * minute \<and> user_id_from_context ctx' = user_id_from_context ctx \<and> aid = did
        \<and> (\<exists>d\<in>set (db_devices (ii_db s)). ie_uuid env did = Some (dv_ID d) \<and> dv_IsApproved d
             \<and> Some (dv_UserID d) = user_id_from_context ctx')
        \<and> (\<exists>d\<in>set (db_devices (ii_db s3)). dv_ID d = pid \<and> \<not> dv_IsApproved d
             \<and> Option.bind (user_id_from_context ctx') (ie_uuid env) = Some (dv_UserID d))"
      using uid a(1,3-6) device_by_id [OF d(1)] d(2,3) by (auto simp: pairing_ttl_def)
  qed
qed

theorem pairing_code_for_account_witness:
  "case fst (redeem_pairing_code small_env no_faults 10 ''d3'' (as_user ''u1'') tablet_request coded_state) of
      Inl e \<Rightarrow> ii_db (snd (redeem_pairing_code small_env no_faults 10 ''d3'' (as_user ''u1'') tablet_request coded_state))
         = ii_db (foldl (ident_step small_env) coded_state [])
    | Inr (pid, aid) \<Rightarrow>
        10 < 0 + 5 * minute \<and> user_id_from_context (as_user ''u1'') = user_id_from_context (as_user ''u1'') \<and> aid = ''d1''
        \<and> (\<exists>d\<in>set (db_devices (ii_db (small_state ''pending''))). ie_uuid small_env ''d1'' = Some (dv_ID d) \<and> dv_IsApproved d
             \<and> Some (dv_UserID d) = user_id_from_context (as_user ''u1''))
        \<and> (\<exists>d\<in>set (db_devices (ii_db (snd (redeem_pairing_code small_env no_faults 10 ''d3'' (as_user ''u1'') tablet_request coded_state)))).
             dv_ID d = pid \<and> \<not> dv_IsApproved d
             \<and> Option.bind (user_id_from_context (as_user ''u1'')) (ie_uuid small_env) = Some (dv_UserID d))"
proof (rule pairing_code_for_account)
  show "redis_laws (ie_redis small_env) map_holds" by (simp add: small_env_def map_redis_laws)
  show "generate_pairing_code small_env no_faults 0 [0, 0, 0, 0, 0, 0] (as_user ''u1'') ''d1'' (small_state ''pending'')
     = (Inr (''AAAAAA'', 300), coded_state)" by (rule laptop_makes_code)
  show "rp_PairingCode tablet_request = ''AAAAAA''" by (rule tablet_code)
qed simp_all

end
