(* ===== verification/AccountLaws.thy ===== *)
theory AccountLaws
  imports PairingLaws
begin

text \<open>
  Accounts: the email check is the regular expression of the code, login gives tokens that the
  interceptors accept until they expire, and a revoked token stays revoked over any run.
\<close>

section \<open>Emails\<close>

text \<open>The language of \<open>emailRE\<close>.\<close>

definition email_language :: "string set" where
  "email_language =
     {user @ ''@'' @ domain @ ''.'' @ tld | user domain tld.
        user \<noteq> [] \<and> set user \<subseteq> set local_chars \<and> domain \<noteq> [] \<and> set domain \<subseteq> set domain_chars
        \<and> 2 \<le> length tld \<and> set tld \<subseteq> set letters}"

lemma at_not_local [simp]: "CHR ''@'' \<notin> set local_chars"
  by (simp add: local_chars_def letters_def digits_def)

lemma dot_not_letter [simp]: "CHR ''.'' \<notin> set letters"
  by (simp add: letters_def)

lemma takeWhile_stop: "\<forall>x\<in>set xs. P x \<Longrightarrow> \<not> P y \<Longrightarrow> takeWhile P (xs @ y # ys) = xs"
  by (simp add: takeWhile_tail)

lemma email_matches_complete:
  assumes "s \<in> email_language"
  shows "email_matches s"
proof -
  obtain user domain tld where s: "s = user @ CHR ''@'' # domain @ CHR ''.'' # tld"
    and u: "user \<noteq> []" "set user \<subseteq> set local_chars" and d: "domain \<noteq> []" "set domain \<subseteq> set domain_chars"
    and t: "2 \<le> length tld" "set tld \<subseteq> set letters"
    using assms by (auto simp: email_language_def)
  have user: "takeWhile (\<lambda>c. c \<noteq> CHR ''@'') s = user"
    unfolding s using u(2) at_not_local by (intro takeWhile_stop) auto
  have rest: "drop (length user) s = CHR ''@'' # domain @ CHR ''.'' # tld" by (simp add: s)
  have "takeWhile (\<lambda>c. c \<noteq> CHR ''.'') (rev tld @ CHR ''.'' # rev domain @ [CHR ''@'']) = rev tld"
    using t(2) dot_not_letter by (intro takeWhile_stop) auto
  then have tld: "rev (takeWhile (\<lambda>c. c \<noteq> CHR ''.'') (rev (CHR ''@'' # domain @ CHR ''.'' # tld))) = tld" by simp
  have host: "take (length (CHR ''@'' # domain @ CHR ''.'' # tld) - length tld - 1) (CHR ''@'' # domain @ CHR ''.'' # tld)
      = CHR ''@'' # domain" by simp
  show ?thesis
    unfolding email_matches_def Let_def user rest tld host
    using u d t by (cases domain) auto
qed

lemma email_matches_sound:
  assumes "email_matches s"
  shows "s \<in> email_language"
proof -
  define user where "user = takeWhile (\<lambda>c. c \<noteq> CHR ''@'') s"
  define rest where "rest = drop (length user) s"
  define tld where "tld = rev (takeWhile (\<lambda>c. c \<noteq> CHR ''.'') (rev rest))"
  define host where "host = take (length rest - length tld - 1) rest"
  have m: "user \<noteq> []" "set user \<subseteq> set local_chars" "rest \<noteq> []" "length tld < length rest"
    "length tld \<ge> 2" "set tld \<subseteq> set letters" "length host \<ge> 2" "set (tl host) \<subseteq> set domain_chars"
    using assms unfolding email_matches_def Let_def user_def rest_def tld_def host_def by blast+
  have s: "s = user @ rest"
    unfolding rest_def user_def by (metis takeWhile_eq_take append_take_drop_id length_takeWhile_le min_def length_take)
  have at_sign: "hd rest = CHR ''@''"
  proof -
    have "rest = dropWhile (\<lambda>c. c \<noteq> CHR ''@'') s"
      unfolding rest_def user_def by (simp add: dropWhile_eq_drop)
    then show ?thesis using m(3) hd_dropWhile [of "\<lambda>c. c \<noteq> CHR ''@''" s] by auto
  qed
  define front where "front = rev (dropWhile (\<lambda>c. c \<noteq> CHR ''.'') (rev rest))"
  have rest: "rest = front @ tld"
    unfolding front_def tld_def by (metis rev_append rev_rev_ident takeWhile_dropWhile_id)
  then have front: "front \<noteq> []" using m(4) by auto
  have "last front = CHR ''.''"
    using front hd_dropWhile [of "\<lambda>c. c \<noteq> CHR ''.''" "rev rest"] unfolding front_def by (auto simp: last_rev)
  then have fr: "front = butlast front @ [CHR ''.'']" using front by (metis append_butlast_last_id)
  have host: "host = butlast front" unfolding host_def rest by (simp add: butlast_conv_take)
  have "hd host = CHR ''@''" using m(7) at_sign unfolding rest host by (cases front) (auto split: if_splits)
  then have h: "host = CHR ''@'' # tl host" using m(7) by (cases host) auto
  have "rest = CHR ''@'' # tl host @ CHR ''.'' # tld"
    using rest fr h unfolding host [symmetric] by (metis append_Cons append_Nil append_assoc)
  moreover have "tl host \<noteq> []" using m(7) by (cases host) (auto simp: Suc_le_eq)
  ultimately show ?thesis using s m by (auto simp: email_language_def)
qed

text \<open>The email check is the regular expression of the code: an address is accepted exactly
  when, with the white space at both ends cut off, it is a non-empty user part, an at sign, a
  non-empty domain, a dot and a top-level domain of two or more letters, in the character classes of
  the expression, and has at most 254 bytes.\<close>

theorem email_check_is_regex:
  "validate_email s = None \<longleftrightarrow> trim_space s \<in> email_language \<and> length (trim_space s) \<le> 254"
proof -
  have "'''' \<notin> email_language" by (auto simp: email_language_def)
  then show ?thesis
    using email_matches_sound email_matches_complete by (auto simp: validate_email_def Let_def)
qed

section \<open>Login\<close>

lemma issue_Some:
  assumes "issue lib m now uid email = Some pair"
  shows "jw_sign lib (jm_secret m) \<lparr>cl_Subject = uid, cl_Email = email, cl_IssuedAt = numeric_date now,
           cl_ExpiresAt = numeric_date (now + jm_accessExpiry m)\<rparr> = Some (tp_AccessToken pair)"
    and "jw_sign lib (jm_secret m) \<lparr>cl_Subject = uid, cl_Email = email, cl_IssuedAt = numeric_date now,
           cl_ExpiresAt = numeric_date (now + jm_refreshExpiry m)\<rparr> = Some (tp_RefreshToken pair)"
  using assms by (auto simp: issue_def sign_token_def split: option.splits)

lemma signed_parse:
  assumes "jwt_laws lib secret" "jw_sign lib secret c = Some t"
  shows "jw_parse lib now (hmac_key secret) t = (if now < cl_ExpiresAt c then Some c else None)"
  using assms(1) [unfolded jwt_laws_def, THEN conjunct1] assms(2) by simp

lemma parse_again:
  assumes "jwt_laws lib secret" "jw_parse lib now (hmac_key secret) t = Some c"
  shows "now < cl_ExpiresAt c" "jw_parse lib now' (hmac_key secret) t = (if now' < cl_ExpiresAt c then Some c else None)"
proof -
  have "now < cl_ExpiresAt c
      \<and> (now' < cl_ExpiresAt c \<longrightarrow> jw_parse lib now' (hmac_key secret) t = Some c)
      \<and> (cl_ExpiresAt c \<le> now' \<longrightarrow> jw_parse lib now' (hmac_key secret) t = None)" for now'
    by (rule assms(1) [unfolded jwt_laws_def, THEN conjunct2, THEN spec, THEN spec, THEN spec, THEN spec, THEN mp, OF assms(2)])
  then show "now < cl_ExpiresAt c" "jw_parse lib now' (hmac_key secret) t = (if now' < cl_ExpiresAt c then Some c else None)"
    by auto
qed

lemma trim_prefix_append [simp]: "trim_prefix p (p @ s) = s"
  by (simp add: trim_prefix_def)

text \<open>C27: From login to an authenticated call. Login succeeds only for a user whose email is
  verified and whose password hash accepts the password, and changes nothing. With the access
  token it returns as bearer token, every method that is not public runs its handler for exactly
  that user, until the access expiry of the manager (in whole seconds) has passed; from then on
  the interceptor refuses the call and the handler is not run.\<close>

theorem login_authenticates_calls:
  assumes "jwt_laws (ie_jwt env) (jm_secret (ie_manager env))"
    and "login env flt now email password s = (Inr resp, s')"
    and "method \<notin> public_methods"
  shows "s' = s
    \<and> (\<exists>w\<in>set (db_users (ii_db s)). us_Email w = email \<and> us_EmailVerified w
         \<and> ie_check env password (us_PasswordHash w) \<and> um_UserId (lo_User resp) = us_ID w)
    \<and> unary_auth_interceptor (ie_jwt env) t (jm_secret (ie_manager env)) method
         (Some ((''Bearer '' @ tp_AccessToken (lo_Tokens resp)) # others)) ctx handler st =
       (if t < numeric_date (now + jm_accessExpiry (ie_manager env))
        then handler \<lparr>ac_user = Some (um_UserId (lo_User resp)), ac_email = Some email\<rparr> st
        else (Inl (Status Unauthenticated ''invalid token''), st))"
proof -
  obtain w pair where w: "get_user_by_email_sql email (db_users (ii_db s)) = Inr w" "us_EmailVerified w"
      "ie_check env password (us_PasswordHash w)"
    and pair: "issue (ie_jwt env) (ie_manager env) now (us_ID w) (us_Email w) = Some pair"
    and r: "resp = \<lparr>lo_Tokens = pair, lo_User = user_to_msg w\<rparr>" "s' = s"
    using assms(2) by (auto simp: login_def split: option.splits if_splits sum.splits db_error.splits)
  have "w \<in> set (db_users (ii_db s))" "us_Email w = email"
    using one_row_sound [OF w(1) [unfolded get_user_by_email_sql_def]] by simp_all
  then show ?thesis
    using assms(3) w(2,3) r signed_parse [OF assms(1) issue_Some(1) [OF pair], of t]
    by (auto simp: unary_auth_interceptor_def authenticate_def user_to_msg_def trim_prefix_def)
qed

lemma ann_email_valid: "validate_email ''ann@x.io'' = None"
  by code_simp

lemma ann_logs_in:
  "login small_env no_faults 0 ''ann@x.io'' ''secret pw'' (small_state ''pending'') =
     (Inr \<lparr>lo_Tokens = \<lparr>tp_AccessToken = ''A'', tp_RefreshToken = ''R'', tp_ExpiresIn = 60\<rparr>, lo_User = user_to_msg ann\<rparr>,
      small_state ''pending'')"
  by (simp add: login_def ann_email_valid get_user_by_email_sql_def one_row_def issue_def sign_token_def two_tokens_def
      numeric_date_def ann_access_def ann_refresh_def second_def ask_def signed_divide_int_def small_defs)

theorem login_authenticates_calls_witness:
  "small_state ''pending'' = small_state ''pending''
    \<and> (\<exists>w\<in>set (db_users (ii_db (small_state ''pending''))). us_Email w = ''ann@x.io'' \<and> us_EmailVerified w
         \<and> ie_check small_env ''secret pw'' (us_PasswordHash w)
         \<and> um_UserId (lo_User \<lparr>lo_Tokens = \<lparr>tp_AccessToken = ''A'', tp_RefreshToken = ''R'', tp_ExpiresIn = 60\<rparr>,
              lo_User = user_to_msg ann\<rparr>) = us_ID w)
    \<and> unary_auth_interceptor (ie_jwt small_env) (30 * second) (jm_secret (ie_manager small_env))
         ''/identity.v1.IdentityService/Logout''
         (Some [''Bearer '' @ tp_AccessToken (lo_Tokens \<lparr>lo_Tokens = \<lparr>tp_AccessToken = ''A'', tp_RefreshToken = ''R'',
              tp_ExpiresIn = 60\<rparr>, lo_User = user_to_msg ann\<rparr>)])
         \<lparr>ac_user = None, ac_email = None\<rparr> (\<lambda>c s. (Inr (ac_user c), s)) (small_state ''pending'') =
       (if 30 * second < numeric_date (0 + jm_accessExpiry (ie_manager small_env))
        then (Inr (ac_user \<lparr>ac_user = Some (um_UserId (lo_User \<lparr>lo_Tokens = \<lparr>tp_AccessToken = ''A'', tp_RefreshToken = ''R'',
              tp_ExpiresIn = 60\<rparr>, lo_User = user_to_msg ann\<rparr>)), ac_email = Some ''ann@x.io''\<rparr>), small_state ''pending'')
        else (Inl (Status Unauthenticated ''invalid token''), small_state ''pending''))"
proof (rule login_authenticates_calls [OF _ ann_logs_in])
  show "jwt_laws (ie_jwt small_env) (jm_secret (ie_manager small_env))"
    using two_tokens_laws by (simp add: small_env_def)
  show "''/identity.v1.IdentityService/Logout'' \<notin> public_methods" by (simp add: public_methods_def)
qed

section \<open>Revoked tokens\<close>

text \<open>The blacklist holds a token until it expires.\<close>

definition blocked :: "('r \<Rightarrow> time \<Rightarrow> string \<Rightarrow> redis_value option) \<Rightarrow> string \<Rightarrow> claims \<Rightarrow> 'r \<Rightarrow> bool" where
  "blocked holds tok c r \<longleftrightarrow> (\<forall>t < cl_ExpiresAt c. holds r t (blacklist_key tok) \<noteq> None)"

lemma blacklist_key_inject [simp]: "blacklist_key t = blacklist_key t' \<longleftrightarrow> t = t'"
  by (simp add: blacklist_key_def)

lemma blacklisting_blocks:
  assumes "redis_laws rd holds" "rd_set rd now (blacklist_key tok) Marker (token_ttl c) r = (ok, r')"
    and "cl_IssuedAt c \<le> now" "now < cl_ExpiresAt c" "ok \<or> blocked holds tok c r"
  shows "blocked holds tok c r'"
proof -
  have ttl: "0 < token_ttl c" "cl_ExpiresAt c \<le> now + token_ttl c"
    using assms(3,4) by (simp_all add: token_ttl_def)
  show ?thesis
    using redis_set_key [OF assms(1,2) ttl(1)] ttl(2) assms(5) by (auto simp: blocked_def)
qed

text \<open>The facts about one token that a run keeps.\<close>

definition token_facts ::
  "'r ident_env \<Rightarrow> ('r \<Rightarrow> time \<Rightarrow> string \<Rightarrow> redis_value option) \<Rightarrow> string \<Rightarrow> claims \<Rightarrow> bool" where
  "token_facts env holds tok c \<longleftrightarrow>
     redis_laws (ie_redis env) holds \<and> jwt_laws (ie_jwt env) (jm_secret (ie_manager env))
     \<and> (\<exists>t. validate (ie_jwt env) (ie_manager env) t tok = Some c)"

lemma validate_token_facts:
  assumes "token_facts env holds tok c"
  shows "validate (ie_jwt env) (ie_manager env) now tok = (if now < cl_ExpiresAt c then Some c else None)"
  using assms parse_again(2) unfolding token_facts_def validate_def by blast

lemma blocked_step:
  assumes "token_facts env holds tok c" "blocked holds tok c (ii_redis s)" "cl_IssuedAt c \<le> fst call"
  shows "blocked holds tok c (ii_redis (ident_step env s call))"
proof -
  obtain now flt ctx op where call: "call = (now, flt, ctx, op)" by (cases call)
  have laws: "redis_laws (ie_redis env) holds" using assms(1) by (simp add: token_facts_def)
  show ?thesis
    using ident_step_redis [of env s now flt ctx op]
  proof (elim disjE exE conjE, goal_cases)
    case (4 i req r)
    then show ?case
      using redis_getdel_other [OF laws 4(2), of "blacklist_key tok"] assms(2) call by (simp add: blocked_def)
  next
    case (3 random did uid ok)
    then show ?case
      using redis_set_other [OF laws 3(2), of "blacklist_key tok"] assms(2) call by (simp add: blocked_def)
  next
    case (2 tok' c' ok)
    show ?case
    proof (cases "tok' = tok")
      case True
      then have "c' = c" "now < cl_ExpiresAt c"
        using validate_token_facts [OF assms(1), of now] 2(2) by (auto split: if_splits)
      then show ?thesis
        using blacklisting_blocks [OF laws 2(3) [unfolded True \<open>c' = c\<close>]] assms(2,3) call by simp
    next
      case False
      then show ?thesis
        using redis_set_other [OF laws 2(3), of "blacklist_key tok"] assms(2) call by (simp add: blocked_def)
    qed
  qed (use assms(2) call in simp)
qed

interpretation revoked: invariant_machine "ident_step env"
  "\<lambda>s. token_facts env holds tok c \<and> blocked holds tok c (ii_redis s)"
  "\<lambda>_ call. cl_IssuedAt c \<le> fst call" for env holds tok c
  by unfold_locales (blast intro: blocked_step)

lemma revoked_legal: "\<forall>call\<in>set calls. cl_IssuedAt c \<le> fst call \<Longrightarrow> revoked.legal_run env c s calls"
  by (induction calls arbitrary: s) auto

lemma blocked_answers:
  assumes "token_facts env holds tok c" "blocked holds tok c (ii_redis s)"
    and "rd_exists (ie_redis env) t (blacklist_key tok) (ii_redis s) \<noteq> None"
  shows "t < cl_ExpiresAt c \<Longrightarrow> is_blacklisted (ie_redis env) t tok (ii_redis s) = (True, False)"
proof -
  assume "t < cl_ExpiresAt c"
  then have "holds (ii_redis s) t (blacklist_key tok) \<noteq> None" using assms(2) by (simp add: blocked_def)
  then show "is_blacklisted (ie_redis env) t tok (ii_redis s) = (True, False)"
    using assms(1,3) redis_exists by (fastforce simp: is_blacklisted_def token_facts_def)
qed

text \<open>C8: When Redis took the blacklist entry of a token, that is when a logout succeeded, or when
  an exchange of the token for a new pair succeeded and its entry was written, which the exchange
  itself does not insist on, then whatever calls follow, at whatever times after the token was
  issued, \<open>ValidateToken\<close> says that the token is not valid and \<open>RefreshToken\<close> refuses it without
  changing anything, provided that Redis answers the look-up of that call; if it does not, the
  token passes again. The entry outlives the token because its lifetime is the whole one of the
  token, not the rest of it.\<close>

theorem revoked_token_stays_revoked:
  assumes "redis_laws (ie_redis env) holds" "jwt_laws (ie_jwt env) (jm_secret (ie_manager env))"
    and "validate (ie_jwt env) (ie_manager env) now tok = Some c" "cl_IssuedAt c \<le> now"
    and "logout env now tok s = (Inr True, s1)
       \<or> (\<exists>pair. refresh_token env now tok s = (Inr pair, s1)
            \<and> fst (blacklist_add (ie_redis env) now tok (token_ttl c) (ii_redis s)))"
    and "\<forall>call\<in>set calls. cl_IssuedAt c \<le> fst call"
    and "rd_exists (ie_redis env) t (blacklist_key tok) (ii_redis (foldl (ident_step env) s1 calls)) \<noteq> None"
  shows "validate_token env t tok (foldl (ident_step env) s1 calls) = Inr None
    \<and> (\<exists>msg. refresh_token env t tok (foldl (ident_step env) s1 calls)
         = (Inl (Status Unauthenticated msg), foldl (ident_step env) s1 calls))"
proof -
  let ?s = "foldl (ident_step env) s1 calls"
  have facts: "token_facts env holds tok c" using assms(1-3) by (auto simp: token_facts_def)
  have live: "now < cl_ExpiresAt c" using validate_token_facts [OF facts, of now] assms(3) by (auto split: if_splits)
  have tok: "tok \<noteq> ''''"
    and set: "rd_set (ie_redis env) now (blacklist_key tok) Marker (token_ttl c) (ii_redis s) = (True, ii_redis s1)"
    using assms(3,5) by (auto simp: logout_def refresh_token_def blacklist_add_def Let_def
        split: if_splits prod.splits option.splits)
  have "token_facts env holds tok c \<and> blocked holds tok c (ii_redis s1)"
    using facts blacklisting_blocks [OF assms(1) set assms(4) live] by simp
  then have blocked: "blocked holds tok c (ii_redis ?s)"
    using revoked.inv_run [OF _ revoked_legal [OF assms(6)]] by blast
  show ?thesis
  proof (cases "t < cl_ExpiresAt c")
    case True
    then show ?thesis
      using blocked_answers [OF facts blocked assms(7)] tok by (simp add: validate_token_def refresh_token_def)
  next
    case False
    then show ?thesis
      using validate_token_facts [OF facts, of t] tok
      by (auto simp: validate_token_def refresh_token_def split: prod.split)
  qed
qed

lemma ann_logs_out:
  "logout small_env 5 ''R'' (small_state ''pending'') =
     (Inr True, (small_state ''pending'')\<lparr>ii_redis := [blacklist_key ''R'' \<mapsto> (Marker, 5 + 600 * second)]\<rparr>)"
  by (simp add: logout_def validate_def two_tokens_def blacklist_add_def map_redis_def token_ttl_def ann_refresh_def
      second_def small_defs)

theorem revoked_token_stays_revoked_witness:
  "validate_token small_env 30 ''R'' (foldl (ident_step small_env)
       ((small_state ''pending'')\<lparr>ii_redis := [blacklist_key ''R'' \<mapsto> (Marker, 5 + 600 * second)]\<rparr>)
       [(20, no_faults, as_user ''u1'', OpRevokeDevice ''d1'')]) = Inr None
    \<and> (\<exists>msg. refresh_token small_env 30 ''R'' (foldl (ident_step small_env)
       ((small_state ''pending'')\<lparr>ii_redis := [blacklist_key ''R'' \<mapsto> (Marker, 5 + 600 * second)]\<rparr>)
       [(20, no_faults, as_user ''u1'', OpRevokeDevice ''d1'')])
         = (Inl (Status Unauthenticated msg), foldl (ident_step small_env)
       ((small_state ''pending'')\<lparr>ii_redis := [blacklist_key ''R'' \<mapsto> (Marker, 5 + 600 * second)]\<rparr>)
       [(20, no_faults, as_user ''u1'', OpRevokeDevice ''d1'')]))"
proof (rule revoked_token_stays_revoked [of small_env map_holds 5 "''R''" ann_refresh "small_state ''pending''"])
  show "redis_laws (ie_redis small_env) map_holds" by (simp add: small_env_def map_redis_laws)
  show "jwt_laws (ie_jwt small_env) (jm_secret (ie_manager small_env))"
    using two_tokens_laws by (simp add: small_env_def)
  show "validate (ie_jwt small_env) (ie_manager small_env) 5 ''R'' = Some ann_refresh"
    by (simp add: validate_def small_env_def two_tokens_def ann_refresh_def second_def)
qed (simp_all only: ann_logs_out, simp_all add: ann_refresh_def small_env_def map_redis_def)

end
