(* ===== verification/Gateway.thy ===== *)
theory Gateway
  imports Deployment IdentityLaws
begin

text \<open>
  The HTTP gateway of \<open>services/gateway/handler/handler.go\<close>: what its handlers share. The
  platform is the three services behind their interceptors. A handler is a function of the
  request and the platform; it answers with a status code and a body. Bodies are kept as the
  values they encode, a body that does not decode as the text of the error. For every RPC a
  handler makes, by its number, the request carries what the model cannot know: the clock
  readings, whether the network delivers the call and the answer, which queries of the called
  service fail, and what that service draws at random.
\<close>

section \<open>The platform\<close>

record 'r platform =
  pf_identity :: "'r ident_state server"
  pf_routing :: "routing_db server"
  pf_transfer :: "transfer_service server"

text \<open>The machine-learning service behind HTTP: its answer to a proxied request (\<open>None\<close> when it
  cannot be reached), whether its health check succeeds, and the fields that \<open>callMLJSON\<close> finds in
  its answers, each \<open>None\<close> when it is missing or of another type.\<close>

record ml_service =
  ml_proxy :: "string \<Rightarrow> string \<Rightarrow> string \<Rightarrow> (nat \<times> string) option" \<comment> \<open>method, path, body\<close>
  ml_healthy :: bool
  ml_score :: "node_id \<Rightarrow> node_metrics \<Rightarrow> real option \<times> real option" \<comment> \<open>score, confidence\<close>
  ml_anomaly :: "node_id \<Rightarrow> node_metrics \<Rightarrow> real \<Rightarrow> bool option \<times> real option" \<comment> \<open>anomaly, its score\<close>

text \<open>The gateway's clients may be nil; the rest is the configuration of the services.\<close>

record 'r gateway =
  gw_identity :: bool
  gw_routing :: bool
  gw_transfer :: bool
  gw_secret :: string \<comment> \<open>\<open>cfg.Auth.JWTSecret\<close> of the services\<close>
  gw_ident :: "'r ident_env"
  gw_intel :: "(node_id \<Rightarrow> bool) option"
  gw_metrics :: "((node_id \<Rightarrow> node_metrics option) \<times> node_id list) option"
  gw_transfers :: transfer_config
  gw_relay :: relay_env
  gw_uuid :: "string \<Rightarrow> string option" \<comment> \<open>\<open>uuid.Parse\<close>\<close>
  gw_ml :: "ml_service option" \<comment> \<open>none when no address is configured\<close>

text \<open>A call is delivered and answered; or it does not get through; or it runs but of its answer
  only the first messages of a stream come back.\<close>

datatype network = Delivered | RequestLost | ReplyCut nat

record circumstances =
  ci_call :: grpc_call
  ci_network :: network
  ci_ident :: ident_faults
  ci_routing :: routing_faults
  ci_transfer :: transfer_faults
  ci_newID :: string
  ci_newIDs :: "nat \<Rightarrow> string"
  ci_genNode :: string
  ci_token :: "string option"
  ci_random :: "nat list"

definition handled_at :: "circumstances \<Rightarrow> time" where
  "handled_at x = gc_Starts (ci_call x)"

record http_request =
  hr_Authorization :: string \<comment> \<open>empty when the header is missing\<close>
  hr_Query :: "string \<Rightarrow> string"
  hr_rpc :: "nat \<Rightarrow> circumstances"

section \<open>Answers\<close>

datatype 'a http = Reply nat 'a | Failed nat string

fun http_code :: "'a http \<Rightarrow> nat" where
  "http_code (Reply code v) = code"
| "http_code (Failed code msg) = code"

type_synonym ('r, 'a) http_handler = "'r platform \<Rightarrow> 'a http \<times> 'r platform"

text \<open>The text of a gRPC error.\<close>

fun grpc_error :: "status \<Rightarrow> string" where
  "grpc_error (Status c msg) = ''rpc error: code = '' @ code_name c @ '' desc = '' @ msg"

definition write_grpc_error :: "status \<Rightarrow> 'a http" where
  "write_grpc_error e = Failed 502 (grpc_error e)"

text \<open>The first steps of most handlers: the client must be there, the body must decode. The last:
  the error of the call or its answer.\<close>

definition served :: "bool \<Rightarrow> string \<Rightarrow> ('r, 'a) http_handler \<Rightarrow> ('r, 'a) http_handler" where
  "served present name k pf =
     (if \<not> present then (Failed 503 (name @ '' service unavailable''), pf) else k pf)"

definition decoded :: "string + 'b \<Rightarrow> ('b \<Rightarrow> ('r, 'a) http_handler) \<Rightarrow> ('r, 'a) http_handler" where
  "decoded body k pf = (case body of Inl e \<Rightarrow> (Failed 400 e, pf) | Inr req \<Rightarrow> k req pf)"

definition reply :: "nat \<Rightarrow> ('r platform \<Rightarrow> 'a result \<times> 'r platform) \<Rightarrow> ('r, 'a) http_handler" where
  "reply code call pf =
     (case call pf of
        (Inl e, pf') \<Rightarrow> (write_grpc_error e, pf')
      | (Inr v, pf') \<Rightarrow> (Reply code v, pf'))"

section \<open>Calls to the services\<close>

definition forward_auth :: "http_request \<Rightarrow> string list" where
  "forward_auth rq = (if hr_Authorization rq \<noteq> '''' then [hr_Authorization rq] else [])"

definition call_with :: "circumstances \<Rightarrow> string \<Rightarrow> string list \<Rightarrow> grpc_call" where
  "call_with x method md = (ci_call x)\<lparr>gc_FullMethod := method, gc_Metadata := Some md\<rparr>"

definition connection_lost :: status where
  "connection_lost = Status Unavailable ''connection error''"

definition rpc ::
  "'r gateway \<Rightarrow> circumstances \<Rightarrow> string \<Rightarrow> string list \<Rightarrow> (auth_ctx \<Rightarrow> 's \<Rightarrow> 'a result \<times> 's)
     \<Rightarrow> 's server \<Rightarrow> 'a result \<times> 's server" where
  "rpc gw x method md h sv =
     (if ci_network x = RequestLost then (Inl connection_lost, sv)
      else
        let (r, sv') = unary_chain (ie_jwt (gw_ident gw)) (gw_secret gw) (call_with x method md) h sv
        in (if ci_network x = Delivered then r else Inl connection_lost, sv'))"

text \<open>A handler that only reads.\<close>

definition query :: "(auth_ctx \<Rightarrow> 's \<Rightarrow> 'a result) \<Rightarrow> auth_ctx \<Rightarrow> 's \<Rightarrow> 'a result \<times> 's" where
  "query f ctx s = (f ctx s, s)"

definition identity_rpc ::
  "'r gateway \<Rightarrow> circumstances \<Rightarrow> string \<Rightarrow> string list \<Rightarrow> (auth_ctx \<Rightarrow> 'r ident_state \<Rightarrow> 'a result \<times> 'r ident_state)
     \<Rightarrow> 'r platform \<Rightarrow> 'a result \<times> 'r platform" where
  "identity_rpc gw x method md h pf =
     (let (r, sv) = rpc gw x (''/identity.v1.IdentityService/'' @ method) md h (pf_identity pf)
      in (r, pf\<lparr>pf_identity := sv\<rparr>))"

definition routing_rpc ::
  "'r gateway \<Rightarrow> circumstances \<Rightarrow> string \<Rightarrow> string list \<Rightarrow> (auth_ctx \<Rightarrow> routing_db \<Rightarrow> 'a result \<times> routing_db)
     \<Rightarrow> 'r platform \<Rightarrow> 'a result \<times> 'r platform" where
  "routing_rpc gw x method md h pf =
     (let (r, sv) = rpc gw x (''/routing.v1.RoutingService/'' @ method) md h (pf_routing pf)
      in (r, pf\<lparr>pf_routing := sv\<rparr>))"

definition transfer_rpc ::
  "'r gateway \<Rightarrow> circumstances \<Rightarrow> string \<Rightarrow> string list \<Rightarrow> (auth_ctx \<Rightarrow> transfer_service \<Rightarrow> 'a result \<times> transfer_service)
     \<Rightarrow> 'r platform \<Rightarrow> 'a result \<times> 'r platform" where
  "transfer_rpc gw x method md h pf =
     (let (r, sv) = rpc gw x (''/transfer.v1.TransferService/'' @ method) md h (pf_transfer pf)
      in (r, pf\<lparr>pf_transfer := sv\<rparr>))"

text \<open>A streaming call: an error when the stream cannot be opened, else the messages that the
  handler sends and how the stream ends.\<close>

definition stream_rpc ::
  "'r gateway \<Rightarrow> circumstances \<Rightarrow> string \<Rightarrow> string list \<Rightarrow> (auth_ctx \<Rightarrow> 's \<Rightarrow> ('m list \<times> status option) \<times> 's)
     \<Rightarrow> 's server \<Rightarrow> ('m list \<times> status option) result \<times> 's server" where
  "stream_rpc gw x method md h sv =
     (if ci_network x = RequestLost then (Inl connection_lost, sv)
      else case sv of (m, rl, t, s) \<Rightarrow>
        case stream_chain (ie_jwt (gw_ident gw)) (gw_secret gw) (call_with x method md)
               (\<lambda>ctx (s, out).
                  case h ctx s of ((msgs, e), s') \<Rightarrow>
                    (case e of None \<Rightarrow> Inr () | Some st \<Rightarrow> Inl st, s', msgs))
               (m, rl, t, s, []) of
          (r, m', rl', t', s', out) \<Rightarrow>
            (Inr (case ci_network x of
                    ReplyCut n \<Rightarrow> (take n out, Some connection_lost)
                  | _ \<Rightarrow> (out, case r of Inl e \<Rightarrow> Some e | Inr _ \<Rightarrow> None)),
             m', rl', t', s'))"

definition transfer_stream ::
  "'r gateway \<Rightarrow> circumstances \<Rightarrow> string \<Rightarrow> string list
     \<Rightarrow> (auth_ctx \<Rightarrow> transfer_service \<Rightarrow> ('m list \<times> status option) \<times> transfer_service)
     \<Rightarrow> 'r platform \<Rightarrow> ('m list \<times> status option) result \<times> 'r platform" where
  "transfer_stream gw x method md h pf =
     (let (r, sv) = stream_rpc gw x (''/transfer.v1.TransferService/'' @ method) md h (pf_transfer pf)
      in (r, pf\<lparr>pf_transfer := sv\<rparr>))"

section \<open>Ownership\<close>

definition list_own_devices ::
  "'r gateway \<Rightarrow> circumstances \<Rightarrow> string list \<Rightarrow> 'r platform \<Rightarrow> device_msg list result \<times> 'r platform" where
  "list_own_devices gw x md =
     identity_rpc gw x ''ListDevices'' md (query (list_devices (gw_ident gw) (ci_ident x)))"

definition user_owns_node ::
  "'r gateway \<Rightarrow> circumstances \<Rightarrow> string list \<Rightarrow> node_id \<Rightarrow> 'r platform \<Rightarrow> bool \<times> 'r platform" where
  "user_owns_node gw x md nodeID pf =
     (if \<not> gw_identity gw \<or> nodeID = '''' then (False, pf)
      else case list_own_devices gw x md pf of
             (Inl e, pf') \<Rightarrow> (False, pf')
           | (Inr ds, pf') \<Rightarrow> (list_ex (\<lambda>d. dm_NodeId d = nodeID) ds, pf'))"

definition get_user_node_ids ::
  "'r gateway \<Rightarrow> circumstances \<Rightarrow> string list \<Rightarrow> 'r platform \<Rightarrow> node_id list \<times> 'r platform" where
  "get_user_node_ids gw x md pf =
     (if \<not> gw_identity gw then ([], pf)
      else case list_own_devices gw x md pf of
             (Inl e, pf') \<Rightarrow> ([], pf')
           | (Inr ds, pf') \<Rightarrow> (filter (\<lambda>n. n \<noteq> '''') (map dm_NodeId ds), pf'))"

section \<open>Numbers in requests\<close>

text \<open>\<open>fmt.Sscanf(s, "%d", &n)\<close> into an integer of \<open>w\<close> bits: white space but no new line, a sign,
  digits; what follows is ignored.\<close>

definition blanks :: "string list" where
  "blanks = filter (\<lambda>w. w \<noteq> [CHR 0x0A]) white_space"

definition decimal :: "string \<Rightarrow> int" where
  "decimal ds = foldl (\<lambda>n c. 10 * n + (int (of_char c) - 48)) 0 ds"

definition sscanf_d :: "nat \<Rightarrow> string \<Rightarrow> int option" where
  "sscanf_d w s =
     (let s1 = strip_front blanks s;
          neg = (s1 \<noteq> [] \<and> hd s1 = CHR ''-'');
          s2 = (if s1 \<noteq> [] \<and> hd s1 \<in> {CHR ''+'', CHR ''-''} then tl s1 else s1);
          ds = takeWhile (\<lambda>c. c \<in> set digits) s2;
          n = (if neg then - decimal ds else decimal ds)
      in if ds = [] then None
         else if - (2 ^ (w - 1)) \<le> n \<and> n < 2 ^ (w - 1) then Some n else None)"

definition parse_pagination :: "http_request \<Rightarrow> int32 \<times> int32" where
  "parse_pagination rq =
     (let limit = (if hr_Query rq ''limit'' = '''' then 50
                   else case sscanf_d 32 (hr_Query rq ''limit'') of
                          None \<Rightarrow> 50
                        | Some n \<Rightarrow> if n > 0 \<and> n \<le> 200 then n else 50);
          offset = (if hr_Query rq ''offset'' = '''' then 0
                    else case sscanf_d 32 (hr_Query rq ''offset'') of
                           None \<Rightarrow> 0
                         | Some n \<Rightarrow> if n \<ge> 0 then n else 0)
      in (limit, offset))"

section \<open>Administration\<close>

definition admin_email :: string where
  "admin_email = ''saitdndr51@gmail.com''"

text \<open>The token is what follows the first seven bytes of the header, whatever they are.\<close>

definition admin_only ::
  "'r gateway \<Rightarrow> http_request \<Rightarrow> circumstances \<Rightarrow> ('r, 'a) http_handler \<Rightarrow> ('r, 'a) http_handler" where
  "admin_only gw rq x k =
     served (gw_identity gw) ''identity'' (\<lambda>pf.
       let auth = hr_Authorization rq in
       if auth = '''' \<or> length auth < 8 then (Failed 401 ''unauthorized'', pf)
       else
         let token = drop 7 auth in
         case identity_rpc gw x ''ValidateToken'' [] (query (\<lambda>ctx. validate_token (gw_ident gw) (handled_at x) token)) pf of
           (Inl e, pf') \<Rightarrow> (Failed 401 ''unauthorized'', pf')
         | (Inr None, pf') \<Rightarrow> (Failed 401 ''unauthorized'', pf')
         | (Inr (Some (user, email)), pf') \<Rightarrow>
             if email \<noteq> admin_email then (Failed 403 ''forbidden'', pf') else k pf')"

end
