(* ===== verification/GatewayFront.thy ===== *)
theory GatewayFront
  imports Gateway
begin

text \<open>
  What \<open>cmd/gateway/main.go\<close> puts before the handlers of the gateway: a token bucket per client,
  security and CORS headers, the checks of method, content type and size. The handlers are an
  argument: a function that is told whether the body is longer than the limit, so that reading
  it fails. Tokens are \<open>float64\<close>, with the rounding of \<open>Float64\<close>.
\<close>

section \<open>Rate limiter\<close>

record http_limiter_entry =
  he_tokens :: real
  he_lastSeen :: time

record http_rate_limiter =
  hl_clients :: "string \<Rightarrow> http_limiter_entry option"
  hl_rate :: real
  hl_burst :: real

definition new_http_rate_limiter :: "real \<Rightarrow> int \<Rightarrow> http_rate_limiter" where
  "new_http_rate_limiter rps burst = \<lparr>hl_clients = Map.empty, hl_rate = rps, hl_burst = fl (real_of_int burst)\<rparr>"

definition http_allow :: "time \<Rightarrow> string \<Rightarrow> http_rate_limiter \<Rightarrow> bool \<times> http_rate_limiter" where
  "http_allow now ip rl =
     (case hl_clients rl ip of
        None \<Rightarrow>
          (True, rl\<lparr>hl_clients := (hl_clients rl)(ip \<mapsto> \<lparr>he_tokens = fl (hl_burst rl - 1), he_lastSeen = now\<rparr>)\<rparr>)
      | Some e \<Rightarrow>
          let elapsed = seconds (now - he_lastSeen e);
              tokens = fl (he_tokens e + fl (elapsed * hl_rate rl));
              tokens = (if tokens > hl_burst rl then hl_burst rl else tokens);
              allowed = \<not> tokens < 1;
              tokens = (if allowed then fl (tokens - 1) else tokens)
          in (allowed, rl\<lparr>hl_clients := (hl_clients rl)(ip \<mapsto> \<lparr>he_tokens = tokens, he_lastSeen = now\<rparr>)\<rparr>))"

definition http_cleanup :: "time \<Rightarrow> http_rate_limiter \<Rightarrow> http_rate_limiter" where
  "http_cleanup now rl =
     (let cutoff = now - 10 * minute
      in rl\<lparr>hl_clients := (\<lambda>k. case hl_clients rl k of
             None \<Rightarrow> None
           | Some e \<Rightarrow> if he_lastSeen e < cutoff then None else Some e)\<rparr>)"

section \<open>Requests\<close>

text \<open>A header that is missing is the empty string.\<close>

record raw_request =
  fr_Method :: string
  fr_Path :: string
  fr_RemoteAddr :: string
  fr_Header :: "string \<Rightarrow> string"
  fr_BodySize :: nat

definition before_last :: "char \<Rightarrow> string \<Rightarrow> string" where
  "before_last c s = (if c \<in> set s then rev (tl (dropWhile (\<lambda>x. x \<noteq> c) (rev s))) else s)"

definition client_ip :: "raw_request \<Rightarrow> string" where
  "client_ip r =
     (let xff = fr_Header r ''X-Forwarded-For'' in
      if xff \<noteq> '''' then trim_space (hd (split_on (CHR '','') xff))
      else before_last (CHR '':'') (fr_RemoteAddr r))"

definition auth_paths :: "string set" where
  "auth_paths = {''/api/v1/auth/login'', ''/api/v1/auth/register''}"

datatype 'a front_answer = Refused nat string | NoContent | Handled 'a

text \<open>The headers that the front sets, and the answer.\<close>

type_synonym 'a front = "(string \<times> string) list \<times> 'a front_answer"

type_synonym 's front_state = "http_rate_limiter \<times> http_rate_limiter \<times> 's"

definition rate_limit_middleware ::
  "(raw_request \<Rightarrow> 's \<Rightarrow> 'a front \<times> 's) \<Rightarrow> time \<Rightarrow> raw_request \<Rightarrow> 's front_state \<Rightarrow> 'a front \<times> 's front_state" where
  "rate_limit_middleware handler now r s =
     (case s of (general, auth, rest) \<Rightarrow>
        let ip = client_ip r;
            strict = fr_Path r \<in> auth_paths;
            (ok, rl) = http_allow now ip (if strict then auth else general);
            general' = (if strict then general else rl);
            auth' = (if strict then rl else auth)
        in if \<not> ok
           then (([(''Retry-After'', ''1'')], Refused 429 ''rate limit exceeded''), general', auth', rest)
           else let (a, rest') = handler r rest in (a, general', auth', rest'))"

section \<open>Security headers and checks\<close>

definition max_request_body_size :: nat where
  "max_request_body_size = 10 * 1024 * 1024"

definition parse_origins :: "string \<Rightarrow> string set" where
  "parse_origins raw = set (filter (\<lambda>p. p \<noteq> '''') (map trim_space (split_on (CHR '','') raw)))"

definition security_headers :: "(string \<times> string) list" where
  "security_headers =
     [(''X-Content-Type-Options'', ''nosniff''), (''X-Frame-Options'', ''DENY''),
      (''X-XSS-Protection'', ''1; mode=block''), (''Referrer-Policy'', ''strict-origin-when-cross-origin''),
      (''Strict-Transport-Security'', ''max-age=31536000; includeSubDomains''),
      (''Content-Security-Policy'', ''default-src 'self'; frame-ancestors 'none'' @ [CHR 0x27])]"

definition cors_headers :: "string set \<Rightarrow> string \<Rightarrow> (string \<times> string) list" where
  "cors_headers allowedOrigins origin =
     (if origin \<noteq> '''' \<and> origin \<in> allowedOrigins
      then [(''Access-Control-Allow-Origin'', origin), (''Access-Control-Allow-Credentials'', ''true''), (''Vary'', ''Origin'')]
      else [])
     @ [(''Access-Control-Allow-Methods'', ''GET, POST, PUT, DELETE, OPTIONS''),
        (''Access-Control-Allow-Headers'', ''Content-Type, Authorization, X-API-Key''),
        (''Access-Control-Max-Age'', ''86400'')]"

definition has_prefix :: "string \<Rightarrow> string \<Rightarrow> bool" where
  "has_prefix p s \<longleftrightarrow> take (length p) s = p"

definition security_middleware ::
  "string set \<Rightarrow> (raw_request \<Rightarrow> bool \<Rightarrow> 's \<Rightarrow> 'a \<times> 's) \<Rightarrow> raw_request \<Rightarrow> 's \<Rightarrow> 'a front \<times> 's" where
  "security_middleware allowedOrigins handler r s =
     (let headers = security_headers @ cors_headers allowedOrigins (fr_Header r ''Origin'');
          ct = fr_Header r ''Content-Type''
      in if fr_Method r = ''OPTIONS'' then ((headers, NoContent), s)
         else if (fr_Method r = ''POST'' \<or> fr_Method r = ''PUT'')
                 \<and> \<not> has_prefix ''application/json'' ct \<and> \<not> has_prefix ''multipart/form-data'' ct
         then ((headers, Refused 415 ''Content-Type must be application/json or multipart/form-data''), s)
         else let (a, s') = handler r (max_request_body_size < fr_BodySize r) s in ((headers, Handled a), s'))"

definition gateway_front ::
  "string set \<Rightarrow> (raw_request \<Rightarrow> bool \<Rightarrow> 's \<Rightarrow> 'a \<times> 's) \<Rightarrow> time \<Rightarrow> raw_request
     \<Rightarrow> 's front_state \<Rightarrow> 'a front \<times> 's front_state" where
  "gateway_front allowedOrigins mux = rate_limit_middleware (security_middleware allowedOrigins mux)"

section \<open>Configuration\<close>

text \<open>An environment variable that is not set is the empty string.\<close>

definition env_or_default :: "string \<Rightarrow> string \<Rightarrow> string" where
  "env_or_default v fallback = (if v \<noteq> '''' then v else fallback)"

definition env_or_default_int :: "string \<Rightarrow> int \<Rightarrow> int" where
  "env_or_default_int v fallback =
     (if v \<noteq> ''''
      then let n = (case sscanf_d 64 v of None \<Rightarrow> 0 | Some n \<Rightarrow> n) in if n > 0 then n else fallback
      else fallback)"

section \<open>The same bucket as the services'\<close>

definition as_limiter :: "http_rate_limiter \<Rightarrow> rate_limiter" where
  "as_limiter rl =
     \<lparr>rl_clients = (\<lambda>k. map_option (\<lambda>e. \<lparr>le_tokens = he_tokens e, le_lastSeen = he_lastSeen e\<rparr>) (hl_clients rl k)),
      rl_rate = hl_rate rl, rl_burst = hl_burst rl\<rparr>"

lemma http_limiter_as_limiter:
  "as_limiter (new_http_rate_limiter rps burst) = new_rate_limiter rps burst"
  "fst (http_allow now ip rl) = fst (rl_allow now ip (as_limiter rl))"
  "as_limiter (snd (http_allow now ip rl)) = snd (rl_allow now ip (as_limiter rl))"
  "as_limiter (http_cleanup now rl) = rl_cleanup now (as_limiter rl)"
  by (auto simp: as_limiter_def new_http_rate_limiter_def new_rate_limiter_def http_allow_def rl_allow_def
      http_cleanup_def rl_cleanup_def Let_def fun_eq_iff split: option.splits)

section \<open>Runs\<close>

datatype front_event = FrontRequest time raw_request | FrontCleanup time

fun front_time :: "front_event \<Rightarrow> time" where
  "front_time (FrontRequest t r) = t"
| "front_time (FrontCleanup t) = t"

fun front_step ::
  "string set \<Rightarrow> (raw_request \<Rightarrow> bool \<Rightarrow> 's \<Rightarrow> 'a \<times> 's) \<Rightarrow> 's front_state \<Rightarrow> front_event \<Rightarrow> 's front_state" where
  "front_step allowed mux s (FrontRequest t r) = snd (gateway_front allowed mux t r s)"
| "front_step allowed mux (general, auth, rest) (FrontCleanup t) = (http_cleanup t general, http_cleanup t auth, rest)"

text \<open>Whether the front answers a request with 429.\<close>

definition limited :: "string set \<Rightarrow> (raw_request \<Rightarrow> bool \<Rightarrow> 's \<Rightarrow> 'a \<times> 's) \<Rightarrow> 's front_state \<Rightarrow> time \<Rightarrow> raw_request \<Rightarrow> bool" where
  "limited allowed mux s t r \<longleftrightarrow> (\<exists>h msg. fst (gateway_front allowed mux t r s) = (h, Refused 429 msg))"

text \<open>How many requests of a client to the paths of its class were not limited.\<close>

fun passed ::
  "string set \<Rightarrow> (raw_request \<Rightarrow> bool \<Rightarrow> 's \<Rightarrow> 'a \<times> 's) \<Rightarrow> bool \<Rightarrow> string \<Rightarrow> 's front_state \<Rightarrow> front_event list \<Rightarrow> nat" where
  "passed allowed mux strict ip s [] = 0"
| "passed allowed mux strict ip s (e # es) =
     (case e of
        FrontRequest t r \<Rightarrow>
          if client_ip r = ip \<and> (fr_Path r \<in> auth_paths \<longleftrightarrow> strict) \<and> \<not> limited allowed mux s t r then 1 else 0
      | FrontCleanup t \<Rightarrow> 0)
     + passed allowed mux strict ip (front_step allowed mux s e) es"

fun of_class :: "bool \<Rightarrow> front_event \<Rightarrow> rl_event list" where
  "of_class strict (FrontRequest t r) = (if fr_Path r \<in> auth_paths \<longleftrightarrow> strict then [RlRequest t (client_ip r)] else [])"
| "of_class strict (FrontCleanup t) = [RlCleanup t]"

definition bucket :: "bool \<Rightarrow> 's front_state \<Rightarrow> rate_limiter" where
  "bucket strict s = as_limiter (if strict then fst (snd s) else fst s)"

lemma limited_iff:
  "limited allowed mux s t r \<longleftrightarrow> \<not> fst (rl_allow t (client_ip r) (bucket (fr_Path r \<in> auth_paths) s))"
  by (cases s)
    (auto simp: limited_def gateway_front_def rate_limit_middleware_def security_middleware_def bucket_def Let_def
      http_limiter_as_limiter(2) [symmetric] split: prod.splits if_splits)

lemma bucket_step: "bucket strict (front_step allowed mux s e) = foldl rl_step (bucket strict s) (of_class strict e)"
proof (cases s)
  case (fields general auth rest)
  show ?thesis
  proof (cases e)
    case (FrontRequest t r)
    then show ?thesis
      by (auto simp: fields gateway_front_def rate_limit_middleware_def bucket_def Let_def
          http_limiter_as_limiter(3) [symmetric] split: prod.splits)
  qed (simp add: fields bucket_def http_limiter_as_limiter(4))
qed

lemma admitted_append: "admitted k rl (es @ fs) = admitted k rl es + admitted k (foldl rl_step rl es) fs"
  by (induction es arbitrary: rl) auto

lemma passed_Cons:
  "passed allowed mux strict ip s (e # es) =
     admitted ip (bucket strict s) (of_class strict e) + passed allowed mux strict ip (front_step allowed mux s e) es"
  by (cases e) (auto simp: limited_iff simp del: front_step.simps)

lemma passed_admitted:
  "passed allowed mux strict ip s es = admitted ip (bucket strict s) (concat (map (of_class strict) es))"
  by (induction es arbitrary: s)
    (simp_all add: passed_Cons bucket_step admitted_append del: passed.simps(2) front_step.simps)

lemma of_class_cases:
  "of_class strict e = [] \<or> (\<exists>x. of_class strict e = [x] \<and> rl_time x = front_time e)"
  by (cases e) auto

lemma of_class_times:
  assumes "sorted (t # map front_time es)"
  shows "sorted (t # map rl_time (concat (map (of_class strict) es)))
    \<and> last (t # map rl_time (concat (map (of_class strict) es))) \<le> last (t # map front_time es)"
  using assms
proof (induction es arbitrary: t)
  case (Cons e es)
  let ?t = "front_time e"
  define X where "X = map rl_time (concat (map (of_class strict) es))"
  define L where "L = last (?t # map front_time es)"
  have t: "t \<le> ?t" "sorted (?t # map front_time es)" using Cons.prems by auto
  have X: "sorted (?t # X)" "last (?t # X) \<le> L" using Cons.IH [OF t(2)] unfolding X_def L_def by blast+
  have L: "?t \<le> L" using t(2) unfolding L_def by (cases es rule: rev_cases) auto
  have "sorted (t # X)" using X(1) t(1) by auto
  moreover have "last (t # X) \<le> L" using X(2) L t(1) by (cases X) auto
  moreover have L': "last (t # map front_time (e # es)) = L" by (simp add: L_def)
  moreover have "sorted (t # ?t # X)" "last (t # ?t # X) \<le> L" using X t(1) by auto
  moreover from of_class_cases [of strict e]
  have "map rl_time (concat (map (of_class strict) (e # es))) = X
      \<or> map rl_time (concat (map (of_class strict) (e # es))) = ?t # X" unfolding X_def by auto
  ultimately show ?case by (elim disjE) (simp_all only: L')
qed simp

text \<open>A request of a client to the paths of a class.\<close>

fun front_asks :: "bool \<Rightarrow> string \<Rightarrow> front_event \<Rightarrow> bool" where
  "front_asks strict ip (FrontRequest t r) = (client_ip r = ip \<and> (fr_Path r \<in> auth_paths \<longleftrightarrow> strict))"
| "front_asks strict ip (FrontCleanup t) = False"

lemma front_asks_class:
  "length (filter (rl_asks ip) (concat (map (of_class strict) es))) = length (filter (front_asks strict ip) es)"
proof (induction es)
  case (Cons e es)
  then show ?case by (cases e) auto
qed simp

text \<open>C35: The HTTP front bounds the rate of a client, that is, of one value of the forwarded address
  or of the remote one: over any interleaving of requests and clean-up sweeps, with a clock that
  does not run backwards, at most \<open>burst + elapsed * rate\<close> requests of one client to the paths of
  one class are not answered with 429, where the class, login and registration or all others,
  has a bucket of its own. The rate is the configured one, or that of a full bucket in ten
  minutes when that is more, since a sweep drops an idle entry and the next request starts with
  a full bucket. The tokens are \<open>float64\<close>: rounding adds at most a part in \<open>2 ^ 50\<close> to the rate,
  and a part in \<open>2 ^ 51\<close> of the bucket for each request of the client.\<close>

theorem gateway_rate_bound:
  assumes "s = (new_http_rate_limiter rps1 burst1, new_http_rate_limiter rps2 burst2, rest)"
    and "(rps, burst) = (if strict then (rps2, burst2) else (rps1, burst1))"
    and "0 \<le> rps" "1 \<le> burst" "sorted (t # map front_time es)"
  shows "real (passed allowed mux strict ip s es) \<le> fl (real_of_int burst)
    + exact_seconds (last (t # map front_time es) - t) * (max rps (fl (real_of_int burst) / 600) * (1 + 1 / 2 ^ 50))
    + real (length (filter (front_asks strict ip) es)) * (fl (real_of_int burst) / 2 ^ 51)"
proof -
  let ?es = "concat (map (of_class strict) es)"
  note times = of_class_times [OF assms(5), of strict]
  have "bucket strict s = new_rate_limiter rps burst"
    using assms(2) by (simp add: assms(1) bucket_def http_limiter_as_limiter(1) split: if_splits)
  then have "real (passed allowed mux strict ip s es) \<le> fl (real_of_int burst)
      + exact_seconds (last (t # map rl_time ?es) - t) * token_rate rps burst
      + real (length (filter (front_asks strict ip) es)) * (fl (real_of_int burst) / 2 ^ 51)"
    using admitted_bound [OF assms(3,4), of t ?es ip] times unfolding passed_admitted front_asks_class by simp
  moreover have "0 \<le> token_rate rps burst" using assms(3,4) by (rule token_rate_nonneg)
  then have "exact_seconds (last (t # map rl_time ?es) - t) * token_rate rps burst
      \<le> exact_seconds (last (t # map front_time es) - t) * token_rate rps burst"
    using times by (intro mult_right_mono) (simp_all add: exact_seconds_def divide_right_mono)
  ultimately show ?thesis unfolding token_rate_def by linarith
qed

section \<open>Who is a client\<close>

definition forwarded_for :: "raw_request \<Rightarrow> string \<Rightarrow> raw_request" where
  "forwarded_for r ip = r\<lparr>fr_Header := (fr_Header r)(''X-Forwarded-For'' := ip)\<rparr>"

definition plain_ip :: "string \<Rightarrow> bool" where
  "plain_ip ip \<longleftrightarrow> ip \<noteq> '''' \<and> CHR '','' \<notin> set ip \<and> trim_space ip = ip"

lemma split_on_absent: "c \<notin> set s \<Longrightarrow> split_on c s = [s]"
  by (induction s) auto

lemma client_ip_forwarded: "plain_ip ip \<Longrightarrow> client_ip (forwarded_for r ip) = ip"
  by (simp add: client_ip_def forwarded_for_def plain_ip_def split_on_absent)

text \<open>The clients that the limiters know.\<close>

definition known :: "'s front_state \<Rightarrow> string set" where
  "known s = dom (hl_clients (fst s)) \<union> dom (hl_clients (fst (snd s)))"

lemma known_step: "known (front_step allowed mux s (FrontRequest t r)) \<subseteq> insert (client_ip r) (known s)"
  by (cases s)
    (auto simp: known_def gateway_front_def rate_limit_middleware_def http_allow_def Let_def
      split: prod.splits option.splits if_splits)

lemma unknown_not_limited: "client_ip r \<notin> known s \<Longrightarrow> \<not> limited allowed mux s t r"
  by (cases s)
    (auto simp: limited_iff known_def bucket_def as_limiter_def rl_allow_def domIff split: if_splits)

text \<open>The bound is one per value of a header that the client writes itself: whoever sends another
  \<open>X-Forwarded-For\<close> with every request is never limited, from any address, at any speed, on any
  path.\<close>

theorem forwarded_header_evades_limit:
  assumes "known s \<inter> set ips = {}" "distinct ips" "\<forall>ip\<in>set ips. plain_ip ip" "length rs = length ips" "k < length rs"
  shows "\<not> limited allowed mux
      (foldl (front_step allowed mux) s (map2 (\<lambda>(t, r) ip. FrontRequest t (forwarded_for r ip)) (take k rs) (take k ips)))
      (fst (rs ! k)) (forwarded_for (snd (rs ! k)) (ips ! k))"
  using assms
proof (induction k arbitrary: s rs ips)
  case 0
  then show ?case by (intro unknown_not_limited) (auto simp: client_ip_forwarded)
next
  case (Suc k)
  obtain t r rs' where rs: "rs = (t, r) # rs'" using Suc.prems by (cases rs) auto
  obtain ip ips' where ips: "ips = ip # ips'" using Suc.prems by (cases ips) auto
  let ?s = "front_step allowed mux s (FrontRequest t (forwarded_for r ip))"
  have "known ?s \<inter> set ips' = {}"
    using known_step [of allowed mux s t "forwarded_for r ip"] Suc.prems by (auto simp: ips client_ip_forwarded)
  from Suc.IH [OF this, of rs'] show ?case using Suc.prems by (simp add: rs ips)
qed

section \<open>Cross-origin answers\<close>

lemma cors_only_listed:
  assumes "(''Access-Control-Allow-Origin'', v) \<in> set (fst (fst (gateway_front (parse_origins raw) mux t r s)))"
  shows "v = fr_Header r ''Origin'' \<and> v \<in> trim_space ` set (split_on (CHR '','') raw)"
  using assms
  by (cases s)
    (auto simp: gateway_front_def rate_limit_middleware_def security_middleware_def security_headers_def cors_headers_def
      parse_origins_def Let_def split: prod.splits if_splits)

section \<open>Examples\<close>

definition demo_raw :: "string \<Rightarrow> raw_request" where
  "demo_raw path =
     \<lparr>fr_Method = ''GET'', fr_Path = path, fr_RemoteAddr = ''10.0.0.1:5'', fr_Header = (\<lambda>_. ''''), fr_BodySize = 0\<rparr>"

definition demo_front :: "unit front_state" where
  "demo_front = (new_http_rate_limiter 20 60, new_http_rate_limiter 5 2, ())"

theorem gateway_rate_bound_witness:
  "real (passed {} (\<lambda>r big s. ((), s)) True ''10.0.0.1'' demo_front
     (replicate 9 (FrontRequest 0 (demo_raw ''/api/v1/auth/login'')))) < 3"
proof -
  let ?es = "replicate 9 (FrontRequest 0 (demo_raw ''/api/v1/auth/login''))"
  have "real (length (filter (front_asks True ''10.0.0.1'') ?es)) \<le> 9"
    using length_filter_le [of "front_asks True ''10.0.0.1''" ?es] by simp
  then show ?thesis
    using gateway_rate_bound [of demo_front 20 60 5 2 "()" 5 2 True 0 ?es "{}" "\<lambda>r big s. ((), s)" "''10.0.0.1''"]
    by (simp add: demo_front_def exact_seconds_def sorted_replicate)
qed

theorem forwarded_header_evades_limit_witness:
  "\<not> limited {} (\<lambda>r big s. ((), s))
     (foldl (front_step {} (\<lambda>r big s. ((), s))) demo_front
       [FrontRequest 0 (forwarded_for (demo_raw ''/api/v1/auth/login'') ''a''),
        FrontRequest 0 (forwarded_for (demo_raw ''/api/v1/auth/login'') ''b'')])
     0 (forwarded_for (demo_raw ''/api/v1/auth/login'') ''c'')"
proof -
  let ?rs = "replicate 3 (0, demo_raw ''/api/v1/auth/login'')" and ?ips = "[''a'', ''b'', ''c'']"
  have "\<forall>ip\<in>set ?ips. plain_ip ip"
    by (simp add: plain_ip_def trim_space_def) code_simp
  then show ?thesis
    using forwarded_header_evades_limit [of demo_front ?ips ?rs 2 "{}" "\<lambda>r big s. ((), s)"]
    by (simp add: demo_front_def known_def new_http_rate_limiter_def numeral_2_eq_2 numeral_3_eq_3)
qed

end
