(* ===== verification/P2p.thy ===== *)
theory P2p
  imports TransferLaws
begin

text \<open>
  Laws of the direct transfer of \<open>P2pProtocol\<close>: what a stream can store, that it completes any
  transfer it names, and what \<open>SendFile\<close> achieves over a link, where the callback for the last
  chunk may still be to run when it returns.
\<close>

section \<open>What a received chunk does\<close>

lemma try_update_net [simp]: "ts_net (try_update b f s) = ts_net s"
  by (simp add: try_update_def)

lemma update_p2p_progress_net [simp]: "ts_net (update_p2p_progress flt t i n s) = ts_net s"
  by (simp add: update_p2p_progress_def Let_def)

lemma notify_net [simp]: "ts_net (notify_received (deployed_receiver cfg env flt) header c s) = ts_net s"
  by (simp add: notify_received_def deployed_receiver_def)

abbreviation held_at :: "transfer_config \<Rightarrow> transfer_service \<Rightarrow> string \<Rightarrow> int32 \<Rightarrow> bytes option" where
  "held_at cfg s t i \<equiv> chunk_at (store_of (ts_net s) (tc_NodeID cfg)) t i"

lemma received_chunk_store:
  assumes "receive_p2p_chunk (deployed_receiver cfg env flt) header c s = (ack, s')"
    and "plain_id (ph_TransferId header)" "in_int32 (pc_ChunkIndex c)" "plain_id t" "in_int32 i"
  shows "held_at cfg s' t i = held_at cfg s t i
    \<or> t = ph_TransferId header \<and> i = pc_ChunkIndex c \<and> held_at cfg s' t i = Some (pc_Data c)
      \<and> (pc_ChunkHash c = '''' \<or> env_sha env (pc_Data c) = pc_ChunkHash c)"
proof -
  let ?save = "save_chunk (env_sha env) (env_faults env (w_now (ts_net s)) (tc_NodeID cfg)) (ph_TransferId header)
      (pc_ChunkIndex c) (pc_Data c) (store_of (ts_net s) (tc_NodeID cfg))"
  note at = chunk_at_save [OF assms(2-5), of "env_sha env" "env_faults env (w_now (ts_net s)) (tc_NodeID cfg)" "pc_Data c"
      "store_of (ts_net s) (tc_NodeID cfg)"]
  show ?thesis
    using assms(1) at
    by (cases ?save)
      (auto simp: receive_p2p_chunk_def deployed_receiver_def set_store_def Let_def split: if_splits)
qed

lemma received_chunk_accepted:
  assumes "receive_p2p_chunk (deployed_receiver cfg env flt) header c s = (ack, s')"
    and "pa_Accepted ack" "tc_chunks cfg" "plain_id (ph_TransferId header)" "in_int32 (pc_ChunkIndex c)"
  shows "held_at cfg s' (ph_TransferId header) (pc_ChunkIndex c) = Some (pc_Data c)"
proof -
  let ?save = "save_chunk (env_sha env) (env_faults env (w_now (ts_net s)) (tc_NodeID cfg)) (ph_TransferId header)
      (pc_ChunkIndex c) (pc_Data c) (store_of (ts_net s) (tc_NodeID cfg))"
  note at = chunk_at_save [OF assms(4,5,4,5), of "env_sha env" "env_faults env (w_now (ts_net s)) (tc_NodeID cfg)" "pc_Data c"
      "store_of (ts_net s) (tc_NodeID cfg)"]
  show ?thesis
    using assms(1-3) at
    by (cases ?save)
      (auto simp: receive_p2p_chunk_def deployed_receiver_def set_store_def write_ack_def Let_def split: if_splits)
qed

section \<open>Streams\<close>

text \<open>Whatever arrives on an incoming stream, the store changes only for the transfer that the
  header names, and what it then holds are chunks that came with their hash or without any.\<close>

theorem p2p_stores_only_verified:
  assumes "handle_stream (deployed_receiver cfg env flt) (Got header) rs s = (acks, s')"
    and "plain_id (ph_TransferId header)" "\<forall>c. Got c \<in> set rs \<longrightarrow> in_int32 (pc_ChunkIndex c)"
    and "plain_id t" "in_int32 i"
  shows "held_at cfg s' t i = held_at cfg s t i
    \<or> t = ph_TransferId header \<and> (\<exists>c. Got c \<in> set rs \<and> pc_ChunkIndex c = i \<and> held_at cfg s' t i = Some (pc_Data c)
          \<and> (pc_ChunkHash c = '''' \<or> env_sha env (pc_Data c) = pc_ChunkHash c))"
  using assms(1,3) unfolding handle_stream_def received.case
proof (induction rs arbitrary: s acks)
  case (Cons r rs)
  show ?case
  proof (cases r)
    case (Got c)
    obtain ack s1 where one: "receive_p2p_chunk (deployed_receiver cfg env flt) header c s = (ack, s1)"
      by (metis prod.exhaust)
    have "in_int32 (pc_ChunkIndex c)" using Cons.prems(2) Got by simp
    note first = received_chunk_store [OF one assms(2) this assms(4,5)]
    let ?s2 = "notify_received (deployed_receiver cfg env flt) header c s1"
    consider "s' = s1" | "s' = ?s2"
      | acks' where "receive_p2p_chunks (deployed_receiver cfg env flt) header rs ?s2 = (acks', s')"
      using Cons.prems(1) one by (auto simp: Got Let_def split: if_splits prod.splits)
    then show ?thesis
    proof cases
      case 3
      show ?thesis using Cons.IH [OF 3] Cons.prems(2) first by (auto simp: Got)
    qed (use first in \<open>auto simp: Got\<close>)
  qed (use Cons.prems in simp_all)
qed simp

lemma complete_by_last:
  assumes "n \<le> wrap32 (i + 1)" "\<forall>q. \<not> flt q" "get_transfer_sql t (transfers_of s) = Some r"
  shows "map_option tr_Status (get_transfer_sql t (transfers_of (update_p2p_progress flt t i n s))) = Some st_COMPLETED"
proof -
  have "tr_TransferID r = t" using assms(3) by (rule get_transfer_key)
  then show ?thesis using assms by (simp add: update_p2p_progress_def try_update_def Let_def)
qed

text \<open>C36: Anybody who can open a stream ends any transfer of the service, whatever its status, with any
  data in its last chunk: the header names the transfer, no token is asked for, a chunk without a
  hash is not checked, and the callback completes the row.\<close>

theorem p2p_stream_completes_any_transfer:
  assumes "get_transfer_sql tid (transfers_of s) = Some row" "plain_id tid" "store_works cfg env"
    and "0 < n" "n < 2 ^ 31" "\<forall>q. \<not> flt q"
    and "c = \<lparr>pc_ChunkIndex = n - 1, pc_Data = d, pc_ChunkHash = '''', pc_IsLast = True\<rparr>"
  shows "\<exists>s'. handle_stream (deployed_receiver cfg env flt)
        (Got \<lparr>ph_TransferId = tid, ph_TotalChunks = n, ph_TotalSizeBytes = z, ph_ContentHash = h\<rparr>) [Got c] s
      = ([write_ack (n - 1) True ''''], s')
    \<and> map_option tr_Status (get_transfer_sql tid (transfers_of s')) = Some st_COMPLETED
    \<and> held_at cfg s' tid (n - 1) = Some d"
proof -
  let ?h = "\<lparr>ph_TransferId = tid, ph_TotalChunks = n, ph_TotalSizeBytes = z, ph_ContentHash = h\<rparr>"
  let ?rc = "deployed_receiver cfg env flt"
  let ?w = "set_store (tc_NodeID cfg) (put_chunk tid (n - 1) d (store_of (ts_net s) (tc_NodeID cfg))) (ts_net s)"
  let ?s1 = "s\<lparr>ts_net := ?w\<rparr>"
  let ?s' = "update_p2p_progress flt tid (n - 1) n ?s1"
  have r: "receive_p2p_chunk ?rc ?h c s = (write_ack (n - 1) True '''', ?s1)"
    using assms(3) by (simp add: receive_p2p_chunk_def deployed_receiver_def store_works_def assms(7) save_chunk_no_faults Let_def)
  have i: "in_int32 (n - 1)" "in_int32 n" using assms(4,5) by (simp_all add: in_int32_def)
  have "held_at cfg ?s' tid (n - 1) = Some d"
    using received_chunk_accepted [OF r] assms(2,3) i(1) by (simp add: write_ack_def store_works_def assms(7))
  moreover have "map_option tr_Status (get_transfer_sql tid (transfers_of ?s')) = Some st_COMPLETED"
    by (rule complete_by_last [OF _ assms(6), of _ _ _ _ row]) (use assms(1) i(2) in \<open>simp_all add: wrap32_id\<close>)
  moreover have "notify_received ?rc ?h c ?s1 = ?s'" "pc_IsLast c" "pa_Accepted (write_ack (n - 1) True '''')"
    by (simp_all add: notify_received_def deployed_receiver_def write_ack_def assms(7))
  then have "handle_stream ?rc (Got ?h) [Got c] s = ([write_ack (n - 1) True ''''], ?s')"
    by (simp add: handle_stream_def r Let_def)
  ultimately show ?thesis by blast
qed

section \<open>Sending a transfer\<close>

definition parts_held :: "transfer_config \<Rightarrow> string \<Rightarrow> bytes list \<Rightarrow> nat \<Rightarrow> transfer_service \<Rightarrow> bool" where
  "parts_held cfg tid parts k s \<longleftrightarrow> (\<forall>j<k. held_at cfg s tid (int j) = Some (parts ! j))"

text \<open>The chunk that \<open>SendFile\<close> makes of the \<open>i\<close>-th part.\<close>

abbreviation part_chunk :: "relay_env \<Rightarrow> bytes list \<Rightarrow> int32 \<Rightarrow> p2p_chunk" where
  "part_chunk env parts i \<equiv> \<lparr>pc_ChunkIndex = i, pc_Data = parts ! nat i, pc_ChunkHash = env_sha env (parts ! nat i),
     pc_IsLast = (i = int (length parts) - 1)\<rparr>"

abbreviation part_reader :: "relay_env \<Rightarrow> bytes list \<Rightarrow> int32 \<Rightarrow> string + (bytes \<times> string)" where
  "part_reader env parts \<equiv> \<lambda>i. Inr (parts ! nat i, env_sha env (parts ! nat i))"

lemma run_callback_net [simp]:
  "ts_net (st_service (run_callback (deployed_receiver cfg env flt) header st)) = ts_net (st_service st)"
  by (simp add: run_callback_def split: option.split)

text \<open>An accepting acknowledgement that reaches the sender: the chunk was received after the
  callback of the one before, its own callback is still to run.\<close>

lemma link_accepted:
  assumes "link_to rc header pw c st = (Some (Got ack), st')" "pa_Accepted ack"
  shows "\<exists>s1. receive_p2p_chunk rc header c (st_service (run_callback rc header st)) = (ack, s1)
    \<and> st' = (run_callback rc header st)\<lparr>st_service := s1, st_notify := Some c\<rparr>"
  using assms
  by (auto simp: link_to_def read_message_def write_ack_def Let_def split: if_splits prod.splits)

lemma send_from:
  assumes "send_p2p_chunks (part_reader env parts) (int (length parts))
      (link_to (deployed_receiver cfg env flt) header pw) [int k..int (length parts) - 1] st = (None, st')"
    and "plain_id (ph_TransferId header)" "tc_chunks cfg" "int (length parts) < 2 ^ 31" "k \<le> length parts"
    and "parts_held cfg (ph_TransferId header) parts k (st_service st)"
  shows "parts_held cfg (ph_TransferId header) parts (length parts) (st_service st')
    \<and> (k < length parts \<longrightarrow> st_notify st' = Some (part_chunk env parts (int (length parts) - 1)))"
  using assms(1,5,6)
proof (induction "length parts - k" arbitrary: k st)
  case 0
  then show ?case by simp
next
  case (Suc m)
  let ?rc = "deployed_receiver cfg env flt" and ?tid = "ph_TransferId header" and ?c = "part_chunk env parts (int k)"
  have k: "k < length parts" using Suc.hyps(2) by simp
  have upto: "[int k..int (length parts) - 1] = int k # [int (Suc k)..int (length parts) - 1]"
    using k by (simp add: upto_rec1 add.commute)
  obtain ack st1 where link: "link_to ?rc header pw ?c st = (Some (Got ack), st1)" and acc: "pa_Accepted ack"
    and rest: "send_p2p_chunks (part_reader env parts) (int (length parts)) (link_to ?rc header pw)
        [int (Suc k)..int (length parts) - 1] st1 = (None, st')"
    using Suc.prems(1) unfolding upto
    by (auto split: prod.splits option.splits received.splits if_splits)
  obtain s1 where one: "receive_p2p_chunk ?rc header ?c (st_service (run_callback ?rc header st)) = (ack, s1)"
    and st1: "st1 = (run_callback ?rc header st)\<lparr>st_service := s1, st_notify := Some ?c\<rparr>"
    using link_accepted [OF link acc] by blast
  have int32: "in_int32 (int j)" if "j \<le> k" for j using that k assms(4) by (simp add: in_int32_def)
  have "held_at cfg s1 ?tid (int j) = Some (parts ! j)" if "j < Suc k" for j
  proof (cases "j = k")
    case True
    then show ?thesis using received_chunk_accepted [OF one acc assms(3,2)] int32 by simp
  next
    case False
    then have "j < k" using that by simp
    then have "held_at cfg (st_service st) ?tid (int j) = Some (parts ! j)" using Suc.prems(3) by (simp add: parts_held_def)
    then show ?thesis
      using received_chunk_store [OF one assms(2) _ assms(2) int32 [of j]] int32 [of k] \<open>j < k\<close> by auto
  qed
  then have "parts_held cfg ?tid parts (Suc k) (st_service st1)" by (simp add: parts_held_def st1)
  with rest have IH: "parts_held cfg ?tid parts (length parts) (st_service st')"
    "Suc k < length parts \<Longrightarrow> st_notify st' = Some (part_chunk env parts (int (length parts) - 1))"
    using Suc.hyps(1) [of "Suc k" st1] Suc.hyps(2) k by auto
  show ?case
  proof (cases "Suc k = length parts")
    case True
    then have last: "int (length parts) - 1 = int k" "st' = st1" using rest by simp_all
    have "st_notify st' = Some ?c" by (simp add: last(2) st1)
    then show ?thesis using IH(1) last(1) by simp
  next
    case False
    then show ?thesis using IH k by simp
  qed
qed

text \<open>Over a link that is up, to a receiver whose store works, with messages within the limits,
  \<open>SendFile\<close> returns without an error.\<close>

definition link_works :: "p2p_wire \<Rightarrow> p2p_header \<Rightarrow> relay_env \<Rightarrow> bytes list \<Rightarrow> bool" where
  "link_works pw header env parts \<longleftrightarrow> (\<forall>i. pw_link pw i = LinkUp)
     \<and> pw_headerSize pw header \<le> receiver_max_size
     \<and> (\<forall>i < length parts. pw_chunkSize pw (part_chunk env parts (int i)) \<le> receiver_max_size
          \<and> pw_ackSize pw (write_ack (int i) True '''') \<le> sender_max_size)"

lemma send_over_link:
  assumes "store_works cfg env" "link_works pw header env parts" "k \<le> length parts"
    and "st_reading (run_callback (deployed_receiver cfg env flt) header st) \<or> k = length parts"
  shows "fst (send_p2p_chunks (part_reader env parts) (int (length parts))
      (link_to (deployed_receiver cfg env flt) header pw) [int k..int (length parts) - 1] st) = None"
  using assms(3,4)
proof (induction "length parts - k" arbitrary: k st)
  case 0
  then show ?case by simp
next
  case (Suc m)
  let ?rc = "deployed_receiver cfg env flt" and ?c = "part_chunk env parts (int k)"
  have k: "k < length parts" using Suc.hyps(2) by simp
  have upto: "[int k..int (length parts) - 1] = int k # [int (Suc k)..int (length parts) - 1]"
    using k by (simp add: upto_rec1 add.commute)
  let ?st = "run_callback ?rc header st"
  obtain s1 where one: "receive_p2p_chunk ?rc header ?c (st_service ?st) = (write_ack (int k) True '''', s1)"
    using assms(1) by (simp add: receive_p2p_chunk_def deployed_receiver_def store_works_def save_chunk_no_faults Let_def)
  let ?st1 = "?st\<lparr>st_service := s1, st_notify := Some ?c\<rparr>"
  have link: "link_to ?rc header pw ?c st = (Some (Got (write_ack (int k) True '''')), ?st1)"
    using assms(2) Suc.prems(2) k one by (simp add: link_to_def link_works_def read_message_def write_ack_def Let_def)
  have "st_reading (run_callback ?rc header ?st1) \<or> Suc k = length parts"
    using k by (auto simp: run_callback_def)
  then have "fst (send_p2p_chunks (part_reader env parts) (int (length parts)) (link_to ?rc header pw)
        [int (Suc k)..int (length parts) - 1] ?st1) = None"
    using Suc.hyps k by (intro Suc.hyps(1)) auto
  then show ?case using link unfolding upto by (simp add: write_ack_def)
qed

text \<open>C15: What \<open>SendFile\<close> achieves. Over a link that is up, to a receiver whose chunk store works, with
  all messages within the size limits of both ends, it returns without an error. And whenever
  it returns without an error, whatever the link did, the receiver holds every chunk of the
  transfer; the callback of the last chunk may still be to run, since the acknowledgement is
  written before it, and once it has run, with a working database, the receiver's row for the
  transfer, if it has one, is completed.\<close>

theorem p2p_send_file_delivers:
  assumes "plain_id (ph_TransferId header)" "tc_chunks cfg" "int (length parts) < 2 ^ 31"
    and "ph_TotalChunks header = int (length parts)"
    and "send_file opened headerWritten (part_reader env parts) (int (length parts))
      (link_to (deployed_receiver cfg env flt) header pw) (accept_stream pw header s) = (r, st')"
  shows "(opened \<and> headerWritten \<and> store_works cfg env \<and> link_works pw header env parts \<longrightarrow> r = None)
    \<and> (r = None \<longrightarrow> parts_held cfg (ph_TransferId header) parts (length parts) (st_service st'))
    \<and> (r = None \<and> parts \<noteq> [] \<and> (\<forall>q. \<not> flt q)
         \<and> get_transfer_sql (ph_TransferId header) (transfers_of (st_service st')) \<noteq> None \<longrightarrow>
       map_option tr_Status (get_transfer_sql (ph_TransferId header)
         (transfers_of (st_service (run_callback (deployed_receiver cfg env flt) header st')))) = Some st_COMPLETED)"
proof (intro conjI impI)
  let ?send = "send_p2p_chunks (part_reader env parts) (int (length parts))
      (link_to (deployed_receiver cfg env flt) header pw) [int 0..int (length parts) - 1] (accept_stream pw header s)"
  show "r = None" if up: "opened \<and> headerWritten \<and> store_works cfg env \<and> link_works pw header env parts"
  proof -
    have works: "store_works cfg env" "link_works pw header env parts" using up by simp_all
    have "fst ?send = None"
      using works(2) by (intro send_over_link [OF works]) (simp_all add: accept_stream_def run_callback_def link_works_def)
    then show ?thesis using assms(5) up by (auto simp: send_file_def)
  qed
  have sent: "?send = (None, st')" if "r = None"
    using assms(5) that by (simp add: send_file_def split: if_splits)
  note all = send_from [OF sent assms(1-3) le0, unfolded parts_held_def, simplified]
  show "parts_held cfg (ph_TransferId header) parts (length parts) (st_service st')" if "r = None"
    using all [OF that] by (simp add: parts_held_def)
  assume "r = None \<and> parts \<noteq> [] \<and> (\<forall>q. \<not> flt q)
    \<and> get_transfer_sql (ph_TransferId header) (transfers_of (st_service st')) \<noteq> None"
  then have none: "r = None" and parts: "parts \<noteq> []" and flt: "\<forall>q. \<not> flt q"
    and row: "get_transfer_sql (ph_TransferId header) (transfers_of (st_service st')) \<noteq> None" by simp_all
  from all [OF none] parts have n: "st_notify st' = Some (part_chunk env parts (int (length parts) - 1))" by simp
  have "int (length parts) \<le> wrap32 (int (length parts) - 1 + 1)" using assms(3) by (simp add: wrap32_id in_int32_def)
  then show "map_option tr_Status (get_transfer_sql (ph_TransferId header)
         (transfers_of (st_service (run_callback (deployed_receiver cfg env flt) header st')))) = Some st_COMPLETED"
    using row assms(4) complete_by_last [OF _ flt]
    by (auto simp: run_callback_def n notify_received_def deployed_receiver_def)
qed

section \<open>Examples\<close>

theorem p2p_stores_only_verified_witness:
  "\<exists>acks s'. handle_stream (deployed_receiver demo_config demo_env (\<lambda>_. False))
      (Got \<lparr>ph_TransferId = ''t'', ph_TotalChunks = 2, ph_TotalSizeBytes = 4, ph_ContentHash = ''''\<rparr>)
      [Got \<lparr>pc_ChunkIndex = 0, pc_Data = [1], pc_ChunkHash = ''bad'', pc_IsLast = False\<rparr>] demo_service = (acks, s')
    \<and> held_at demo_config s' ''t'' 0 = held_at demo_config demo_service ''t'' 0"
proof -
  let ?h = "\<lparr>ph_TransferId = ''t'', ph_TotalChunks = 2, ph_TotalSizeBytes = 4, ph_ContentHash = ''''\<rparr>"
  let ?c = "\<lparr>pc_ChunkIndex = 0, pc_Data = [1], pc_ChunkHash = ''bad'', pc_IsLast = False\<rparr>"
  obtain acks s' where h: "handle_stream (deployed_receiver demo_config demo_env (\<lambda>_. False)) (Got ?h) [Got ?c] demo_service = (acks, s')"
    by (metis prod.exhaust)
  show ?thesis
    using h p2p_stores_only_verified [OF h, of "''t''" 0] by (auto simp: plain_id_def in_int32_def demo_env_def)
qed

theorem p2p_stream_completes_any_transfer_witness:
  "\<exists>acks s'. handle_stream (deployed_receiver demo_config demo_env (\<lambda>_. False))
      (Got \<lparr>ph_TransferId = ''w'', ph_TotalChunks = 1, ph_TotalSizeBytes = 0, ph_ContentHash = ''''\<rparr>)
      [Got \<lparr>pc_ChunkIndex = 0, pc_Data = [7], pc_ChunkHash = '''', pc_IsLast = True\<rparr>] demo_service = (acks, s')
    \<and> map_option tr_Status (get_transfer_sql ''w'' (transfers_of demo_service)) = Some st_AWAITING_APPROVAL
    \<and> map_option tr_Status (get_transfer_sql ''w'' (transfers_of s')) = Some st_COMPLETED"
  using p2p_stream_completes_any_transfer [OF demo_service_facts(2) _ demo_store, of 1 "\<lambda>_. False" _ "[7]" 0 "''''"]
  by (auto simp: plain_id_def demo_service_facts) (auto simp: demo_row_def)

definition demo_pieces :: "bytes list" where
  "demo_pieces = [[1, 2], [3, 4]]"

definition demo_header :: p2p_header where
  "demo_header = \<lparr>ph_TransferId = ''t'', ph_TotalChunks = 2, ph_TotalSizeBytes = 4, ph_ContentHash = ''''\<rparr>"

definition demo_wire :: p2p_wire where
  "demo_wire = \<lparr>pw_link = (\<lambda>_. LinkUp), pw_headerSize = (\<lambda>h. 20),
     pw_chunkSize = (\<lambda>c. 80 + length (pc_Data c)), pw_ackSize = (\<lambda>a. 8 + length (pa_Error a))\<rparr>"

theorem p2p_send_file_delivers_witness:
  "\<exists>st'. send_file True True (part_reader demo_env demo_pieces) (int (length demo_pieces))
      (link_to (deployed_receiver demo_config demo_env (\<lambda>_. False)) demo_header demo_wire)
      (accept_stream demo_wire demo_header demo_service) = (None, st')
    \<and> parts_held demo_config ''t'' demo_pieces 2 (st_service st')"
proof -
  let ?send = "send_file True True (part_reader demo_env demo_pieces) (int (length demo_pieces))
      (link_to (deployed_receiver demo_config demo_env (\<lambda>_. False)) demo_header demo_wire)
      (accept_stream demo_wire demo_header demo_service)"
  obtain r st' where s: "?send = (r, st')" by (rule prod.exhaust)
  have h: "ph_TransferId demo_header = ''t''" "ph_TotalChunks demo_header = int (length demo_pieces)" "length demo_pieces = 2"
    by (simp_all add: demo_header_def demo_pieces_def)
  have "link_works demo_wire demo_header demo_env demo_pieces"
    by (auto simp: link_works_def demo_wire_def write_ack_def receiver_max_size_def sender_max_size_def demo_pieces_def
        less_Suc_eq)
  then have "r = None \<and> parts_held demo_config ''t'' demo_pieces 2 (st_service st')"
    using p2p_send_file_delivers [OF _ _ _ h(2) s] demo_store by (simp add: h plain_id_def demo_config_def)
  with s show ?thesis by blast
qed

end
