(* ===== verification/Migrator.thy ===== *)
theory Migrator
  imports ChunkStore "HOL-Library.List_Lexorder" "HOL-Library.Char_ord"
begin

text \<open>
  The schema migrations of \<open>internal/migrator/migrator.go\<close>, which every service runs when it
  starts. What a script does to a database is an argument: PostgreSQL runs a script that is
  sent without parameters in one transaction, so it takes effect as a whole or fails.
\<close>

section \<open>The code\<close>

record 'd migration_db =
  md_versions :: "string list option" \<comment> \<open>the table \<open>schema_migrations\<close>, once it exists\<close>
  md_schema :: 'd

datatype migration_error =
    CreatingTable | ListingFiles | Checking string | Reading string | Applying string | Recording string

record migration_faults =
  mf_create :: bool
  mf_walk :: bool
  mf_check :: "string \<Rightarrow> bool"
  mf_read :: "string \<Rightarrow> bool"
  mf_record :: "string \<Rightarrow> bool"

text \<open>The files of the embedded file system with their contents.\<close>

type_synonym sql_fs = "(string \<times> string) list"

definition list_sql :: "migration_faults \<Rightarrow> sql_fs \<Rightarrow> migration_error + string list" where
  "list_sql flt fs =
     (if mf_walk flt then Inl ListingFiles
      else Inr (sort (filter (has_suffix ''.sql'') (map fst fs))))"

fun run_files ::
  "(string \<Rightarrow> 'd \<Rightarrow> 'd option) \<Rightarrow> migration_faults \<Rightarrow> sql_fs \<Rightarrow> string list \<Rightarrow> string list \<Rightarrow> 'd
     \<Rightarrow> migration_error option \<times> string list \<times> 'd" where
  "run_files exec flt fs [] vs d = (None, vs, d)"
| "run_files exec flt fs (file # files) vs d =
     (if mf_check flt file then (Some (Checking file), vs, d)
      else if file \<in> set vs then run_files exec flt fs files vs d
      else case (if mf_read flt file then None else map_of fs file) of
             None \<Rightarrow> (Some (Reading file), vs, d)
           | Some content \<Rightarrow>
               (case exec content d of
                  None \<Rightarrow> (Some (Applying file), vs, d)
                | Some d' \<Rightarrow>
                    if mf_record flt file then (Some (Recording file), vs, d')
                    else run_files exec flt fs files (vs @ [file]) d'))"

definition run_migrations ::
  "(string \<Rightarrow> 'd \<Rightarrow> 'd option) \<Rightarrow> migration_faults \<Rightarrow> sql_fs \<Rightarrow> 'd migration_db
     \<Rightarrow> migration_error option \<times> 'd migration_db" where
  "run_migrations exec flt fs db =
     (if mf_create flt then (Some CreatingTable, db)
      else
        let vs = (case md_versions db of None \<Rightarrow> [] | Some vs \<Rightarrow> vs);
            db1 = db\<lparr>md_versions := Some vs\<rparr>
        in case list_sql flt fs of
             Inl e \<Rightarrow> (Some e, db1)
           | Inr files \<Rightarrow>
               let (e, vs', d) = run_files exec flt fs files vs (md_schema db)
               in (e, db1\<lparr>md_versions := Some vs', md_schema := d\<rparr>))"

section \<open>What a run does\<close>

text \<open>The scripts that are still to be applied, in the order of their names.\<close>

definition pending :: "sql_fs \<Rightarrow> 'd migration_db \<Rightarrow> string list" where
  "pending fs db =
     filter (\<lambda>f. f \<notin> set (case md_versions db of None \<Rightarrow> [] | Some vs \<Rightarrow> vs))
       (sort (filter (has_suffix ''.sql'') (map fst fs)))"

fun apply_all :: "(string \<Rightarrow> 'd \<Rightarrow> 'd option) \<Rightarrow> sql_fs \<Rightarrow> string list \<Rightarrow> 'd \<Rightarrow> 'd option" where
  "apply_all exec fs [] d = Some d"
| "apply_all exec fs (f # files) d =
     Option.bind (map_of fs f) (\<lambda>content. Option.bind (exec content d) (apply_all exec fs files))"

lemma run_files_success:
  assumes "run_files exec flt fs files vs d = (None, vs', d')" "distinct files"
  shows "vs' = vs @ filter (\<lambda>f. f \<notin> set vs) files
    \<and> apply_all exec fs (filter (\<lambda>f. f \<notin> set vs) files) d = Some d'"
  using assms
proof (induction exec flt fs files vs d rule: run_files.induct)
  case (2 exec flt fs name files vs d)
  have "filter (\<lambda>f. f \<notin> set (vs @ [name])) files = filter (\<lambda>f. f \<notin> set vs) files"
    using "2.prems"(2) by (intro filter_cong) auto
  then show ?case
    using 2 by (auto split: if_splits option.splits)
qed simp

theorem migrations_in_order:
  assumes "run_migrations exec flt fs db = (None, db')" "distinct (map fst fs)"
  shows "apply_all exec fs (pending fs db) (md_schema db) = Some (md_schema db')
    \<and> md_versions db' = Some ((case md_versions db of None \<Rightarrow> [] | Some vs \<Rightarrow> vs) @ pending fs db)
    \<and> sorted (pending fs db) \<and> distinct (pending fs db)"
proof -
  let ?files = "sort (filter (has_suffix ''.sql'') (map fst fs))"
  let ?vs = "case md_versions db of None \<Rightarrow> [] | Some vs \<Rightarrow> vs"
  have dist: "distinct ?files" using assms(2) by simp
  obtain vs' d' where run: "run_files exec flt fs ?files ?vs (md_schema db) = (None, vs', d')"
    and db': "db' = db\<lparr>md_versions := Some vs', md_schema := d'\<rparr>"
    using assms(1) by (auto simp: run_migrations_def list_sql_def Let_def split: if_splits prod.splits)
  show ?thesis
    using run_files_success [OF run dist] dist
    by (simp add: pending_def db' sorted_filter [of "\<lambda>x. x", simplified])
qed

text \<open>After a successful run another one changes nothing, whatever fails in it.\<close>

lemma run_files_recorded:
  "set files \<subseteq> set vs \<Longrightarrow> snd (run_files exec flt fs files vs d) = (vs, d)"
  by (induction files) auto

theorem migrations_idempotent:
  assumes "run_migrations exec flt fs db = (None, db')" "distinct (map fst fs)"
  shows "snd (run_migrations exec flt' fs db') = db'"
proof -
  let ?files = "sort (filter (has_suffix ''.sql'') (map fst fs))"
  let ?vs = "(case md_versions db of None \<Rightarrow> [] | Some vs \<Rightarrow> vs) @ pending fs db"
  have v: "md_versions db' = Some ?vs" using migrations_in_order [OF assms] by simp
  have "set ?files \<subseteq> set ?vs" by (auto simp: pending_def)
  from run_files_recorded [OF this, of exec flt' fs "md_schema db'"]
  have "snd (run_files exec flt' fs ?files ?vs (md_schema db')) = (?vs, md_schema db')" .
  then show ?thesis using v
    by (auto simp: run_migrations_def list_sql_def Let_def split: prod.splits)
qed

section \<open>Interrupted runs\<close>

definition quiet_run :: migration_faults where
  "quiet_run = \<lparr>mf_create = False, mf_walk = False, mf_check = (\<lambda>_. False), mf_read = (\<lambda>_. False), mf_record = (\<lambda>_. False)\<rparr>"

lemma run_files_quiet:
  "run_files exec flt fs files vs d = (None, r) \<Longrightarrow> run_files exec quiet_run fs files vs d = (None, r)"
  by (induction exec flt fs files vs d rule: run_files.induct)
    (auto simp: quiet_run_def split: if_splits option.splits)

lemma run_files_grows: "run_files exec flt fs files vs d = (e, vs', d') \<Longrightarrow> set vs \<subseteq> set vs'"
  by (induction exec flt fs files vs d rule: run_files.induct) (auto split: if_splits option.splits)

lemma run_files_resumed:
  assumes "run_files exec flt fs files vs d = (Some e, vs1, d1)" "\<forall>f. e \<noteq> Recording f" "distinct files"
    and "run_files exec quiet_run fs files vs1 d1 = (None, r)"
  shows "run_files exec quiet_run fs files vs d = (None, r)"
  using assms
proof (induction exec flt fs files vs d rule: run_files.induct)
  case (2 exec flt fs name files vs d)
  have quiet: "mf_check quiet_run name = False" "mf_read quiet_run name = False" "mf_record quiet_run name = False"
    by (simp_all add: quiet_run_def)
  show ?case
  proof (cases "name \<in> set vs \<or> mf_check flt name")
    case True
    show ?thesis
    proof (cases "mf_check flt name")
      case False
      then have run: "run_files exec flt fs files vs d = (Some e, vs1, d1)" "name \<in> set vs" using True "2.prems"(1) by auto
      then have "name \<in> set vs1" using run_files_grows [OF run(1)] by blast
      then show ?thesis using 2 run False by (simp add: quiet)
    qed (use "2.prems" in simp)
  next
    case False
    show ?thesis
    proof (cases "(if mf_read flt name then None else map_of fs name)")
      case None
      then show ?thesis using "2.prems" False by simp
    next
      case (Some content)
      then have c: "\<not> mf_read flt name" "map_of fs name = Some content" by (auto split: if_splits)
      show ?thesis
      proof (cases "exec content d")
        case None
        then show ?thesis using "2.prems" False c by simp
      next
        case (Some d')
        then have run: "run_files exec flt fs files (vs @ [name]) d' = (Some e, vs1, d1)" "\<not> mf_record flt name"
          using "2.prems"(1,2) False c by (auto split: if_splits)
        then have "name \<in> set vs1" using run_files_grows [OF run(1)] by simp
        then have "run_files exec quiet_run fs files vs1 d1 = (None, r)" using "2.prems"(4) by (simp add: quiet)
        then show ?thesis using "2.IH"(2) False c Some run "2.prems" by (simp add: quiet)
      qed
    qed
  qed
qed simp

text \<open>C38: A start that fails, wherever it fails short of recording a script that was already applied,
  costs nothing: the next run that succeeds leaves the database as one undisturbed run would have
  left it.\<close>

theorem interrupted_migration_resumes:
  assumes "run_migrations exec flt1 fs db = (Some e, db1)" "\<forall>f. e \<noteq> Recording f"
    and "run_migrations exec flt2 fs db1 = (None, db2)" "distinct (map fst fs)"
  shows "run_migrations exec quiet_run fs db = (None, db2)"
proof -
  let ?files = "sort (filter (has_suffix ''.sql'') (map fst fs))"
  let ?vs = "case md_versions db of None \<Rightarrow> [] | Some vs \<Rightarrow> vs"
  have ls: "list_sql quiet_run fs = Inr ?files" "\<not> mf_create quiet_run" by (simp_all add: list_sql_def quiet_run_def)
  have dist: "distinct ?files" using assms(4) by simp
  let ?vs1 = "case md_versions db1 of None \<Rightarrow> [] | Some vs \<Rightarrow> vs"
  obtain vs2 d2 where "run_files exec flt2 fs ?files ?vs1 (md_schema db1) = (None, vs2, d2)"
    and db2: "db2 = db1\<lparr>md_versions := Some vs2, md_schema := d2\<rparr>"
    using assms(3) by (auto simp: run_migrations_def list_sql_def Let_def split: if_splits prod.splits)
  then have two: "run_files exec quiet_run fs ?files ?vs1 (md_schema db1) = (None, vs2, d2)" by (auto dest: run_files_quiet)
  have "run_files exec quiet_run fs ?files ?vs (md_schema db) = (None, vs2, d2)"
  proof (cases "mf_create flt1 \<or> mf_walk flt1")
    case True
    then have "?vs1 = ?vs \<and> md_schema db1 = md_schema db"
      using assms(1) by (auto simp: run_migrations_def list_sql_def Let_def split: if_splits)
    then show ?thesis using two by simp
  next
    case False
    then obtain vs1 d1 where "run_files exec flt1 fs ?files ?vs (md_schema db) = (Some e, vs1, d1)"
      "?vs1 = vs1" "md_schema db1 = d1"
      using assms(1) by (auto simp: run_migrations_def list_sql_def Let_def split: prod.splits)
    then show ?thesis using run_files_resumed [OF _ assms(2) dist, of exec flt1 fs] two by simp
  qed
  moreover have "db\<lparr>md_versions := v, md_schema := d\<rparr> = db1\<lparr>md_versions := v, md_schema := d\<rparr>" for v d
    by simp
  ultimately show ?thesis by (simp add: run_migrations_def ls db2 Let_def)
qed

theorem interrupted_migration_resumes_witness:
  "run_migrations (\<lambda>c d. Some (d @ [c])) quiet_run [(''2.sql'', ''B''), (''1.sql'', ''A'')] \<lparr>md_versions = None, md_schema = []\<rparr>
     = (None, \<lparr>md_versions = Some [''1.sql'', ''2.sql''], md_schema = [''A'', ''B'']\<rparr>)"
proof -
  let ?fs = "[(''2.sql'', ''B''), (''1.sql'', ''A'')]"
  have files: "sort (filter (has_suffix ''.sql'') (map fst ?fs)) = [''1.sql'', ''2.sql'']"
    by code_simp
  let ?flt = "quiet_run\<lparr>mf_read := \<lambda>f. f = ''2.sql''\<rparr>"
  have ls: "list_sql ?flt ?fs = Inr [''1.sql'', ''2.sql'']" "list_sql quiet_run ?fs = Inr [''1.sql'', ''2.sql'']"
    unfolding list_sql_def files by (simp_all add: quiet_run_def)
  have one: "run_migrations (\<lambda>c d. Some (d @ [c])) ?flt ?fs \<lparr>md_versions = None, md_schema = []\<rparr>
      = (Some (Reading ''2.sql''), \<lparr>md_versions = Some [''1.sql''], md_schema = [''A'']\<rparr>)"
    unfolding run_migrations_def ls by (simp add: quiet_run_def)
  have two: "run_migrations (\<lambda>c d. Some (d @ [c])) quiet_run ?fs \<lparr>md_versions = Some [''1.sql''], md_schema = [''A'']\<rparr>
      = (None, \<lparr>md_versions = Some [''1.sql'', ''2.sql''], md_schema = [''A'', ''B'']\<rparr>)"
    unfolding run_migrations_def ls by (simp add: quiet_run_def)
  show ?thesis by (rule interrupted_migration_resumes [OF one _ two]) simp_all
qed

end
