(* ===== verification/Config.thy ===== *)
theory Config
  imports ChunkStore "HOL-Library.Monad_Syntax"
begin

text \<open>
  The configuration of a service, \<open>pkg/config/config.go\<close>. Viper and the decoder of its values are a
  record of functions; what a proof needs of them is a named law. The configuration file is what
  reading it gives, the environment a function.
\<close>

section \<open>Settings\<close>

datatype setting = SStr string | SInt int | SBool bool | SList "string list"

definition set_defaults :: "(string \<times> setting) list" where
  "set_defaults =
     [(''service.name'', SStr ''''), (''service.environment'', SStr ''development''), (''service.version'', SStr ''0.1.0''),
      (''service.log_level'', SStr ''info''),
      (''grpc.host'', SStr ''0.0.0.0''), (''grpc.port'', SInt 50051), (''grpc.max_recv_msg_size'', SInt (4*1024*1024)),
      (''grpc.max_send_msg_size'', SInt (4*1024*1024)), (''grpc.keep_alive_time'', SStr ''30s''),
      (''grpc.keep_alive_timeout'', SStr ''5s''), (''grpc.tls_enabled'', SBool False),
      (''auth.jwt_secret'', SStr ''''), (''auth.jwt_expiry'', SStr ''24h''), (''auth.refresh_expiry'', SStr ''168h''),
      (''auth.bcrypt_cost'', SInt 12),
      (''p2p.listen_addresses'', SList [''/ip4/0.0.0.0/tcp/4001'', ''/ip4/0.0.0.0/udp/4001/quic-v1'']),
      (''p2p.enable_dht'', SBool True), (''p2p.enable_relay'', SBool True), (''p2p.enable_hole_punch'', SBool True),
      (''redis.addr'', SStr ''localhost:6379''), (''redis.db'', SInt 0),
      (''wireguard.enabled'', SBool False), (''wireguard.interface'', SStr ''wg0''), (''wireguard.listen_port'', SInt 51820),
      (''wireguard.dry_run'', SBool True),
      (''smtp.host'', SStr ''localhost''), (''smtp.port'', SInt 587), (''smtp.from'', SStr ''noreply@vinctum.app''),
      (''smtp.base_url'', SStr ''http://localhost:3000''),
      (''ml.api_url'', SStr ''''), (''ml.api_key'', SStr ''''),
      (''database.driver'', SStr ''postgres''), (''database.dsn'', SStr ''''), (''database.max_open_conns'', SInt 25),
      (''database.max_idle_conns'', SInt 10), (''database.conn_max_lifetime'', SStr ''5m'')]"

type_synonym config_file = "(string \<times> setting) list"

datatype file_read = NoConfigFile | Unparsable | Settings config_file

section \<open>Viper\<close>

text \<open>\<open>vi_get\<close> is the value that unmarshalling finds for a key, from defaults, file and environment;
  the others turn a value into the type of its field.\<close>

record viper =
  vi_get :: "(string \<times> setting) list \<Rightarrow> config_file \<Rightarrow> (string \<Rightarrow> string) \<Rightarrow> string \<Rightarrow> setting option"
  vi_string :: "setting \<Rightarrow> string option"
  vi_int :: "setting \<Rightarrow> int option"
  vi_bool :: "setting \<Rightarrow> bool option"
  vi_duration :: "setting \<Rightarrow> time option"
  vi_strings :: "setting \<Rightarrow> string list option"

text \<open>The variable of a key: prefix, upper case, underscores for dots.\<close>

definition env_name :: "string \<Rightarrow> string" where
  "env_name key = ''VINCTUM_'' @ map (\<lambda>c. if c = CHR ''.'' then CHR ''_''
     else let n = of_char c :: nat in if 97 \<le> n \<and> n \<le> 122 then char_of (n - 32) else c) key"

text \<open>The settings without a default.\<close>

definition other_keys :: "string list" where
  "other_keys =
     [''grpc.cert_file'', ''grpc.key_file'', ''grpc.ca_file'', ''redis.password'', ''smtp.username'', ''smtp.password'',
      ''p2p.bootstrap_peers'', ''p2p.identity_key_path'', ''wireguard.private_key'']"

text \<open>The keys of the sections that a key lies in.\<close>

definition parent_keys :: "string \<Rightarrow> string list" where
  "parent_keys key = map (\<lambda>n. take n key) (filter (\<lambda>n. key ! n = CHR ''.'') [0..<length key])"

text \<open>Unmarshalling looks only at keys that have a default or are in the file; for those a variable of
  the environment that is not empty comes first. If there is none, but one for a section that the
  key lies in, that hides the key. Otherwise the file comes next, then the default. A value of
  the field's type is decoded as it is.\<close>

definition viper_laws :: "viper \<Rightarrow> bool" where
  "viper_laws v \<longleftrightarrow>
     (\<forall>defaults file env key. fst ` set file \<subseteq> fst ` set defaults \<union> set other_keys \<longrightarrow>
        vi_get v defaults file env key =
        (if key \<notin> fst ` set defaults \<and> key \<notin> fst ` set file then None
         else if env (env_name key) \<noteq> '''' then Some (SStr (env (env_name key)))
         else if list_ex (\<lambda>p. env (env_name p) \<noteq> '''') (parent_keys key) then None
         else case map_of file key of Some x \<Rightarrow> Some x | None \<Rightarrow> map_of defaults key))
     \<and> (\<forall>s. vi_string v (SStr s) = Some s) \<and> (\<forall>i. vi_int v (SInt i) = Some i)
     \<and> (\<forall>b. vi_bool v (SBool b) = Some b) \<and> (\<forall>l. vi_strings v (SList l) = Some l)"

section \<open>The configuration\<close>

record service_config =
  sv_Name :: string
  sv_Environment :: string
  sv_Version :: string
  sv_LogLevel :: string

record grpc_config =
  gr_Host :: string
  gr_Port :: int
  gr_MaxRecvMsgSize :: int
  gr_MaxSendMsgSize :: int
  gr_KeepAliveTime :: time
  gr_KeepAliveTimeout :: time
  gr_TLSEnabled :: bool
  gr_CertFile :: string
  gr_KeyFile :: string
  gr_CAFile :: string

record database_config =
  dc_Driver :: string
  dc_DSN :: string
  dc_MaxOpenConns :: int
  dc_MaxIdleConns :: int
  dc_ConnMaxLifetime :: time

record redis_config =
  rc_Addr :: string
  rc_Password :: string
  rc_DB :: int

record auth_config =
  au_JWTSecret :: string
  au_JWTExpiry :: time
  au_RefreshExpiry :: time
  au_BcryptCost :: int

record smtp_config =
  sm_Host :: string
  sm_Port :: int
  sm_Username :: string
  sm_Password :: string
  sm_From :: string
  sm_BaseURL :: string

record p2p_config =
  pp_ListenAddresses :: "string list"
  pp_BootstrapPeers :: "string list"
  pp_IdentityKeyPath :: string
  pp_EnableDHT :: bool
  pp_EnableRelay :: bool
  pp_EnableHolePunch :: bool

record wireguard_config =
  wg_Enabled :: bool
  wg_Interface :: string
  wg_ListenPort :: int
  wg_PrivateKey :: string
  wg_DryRun :: bool

record ml_config =
  mg_APIURL :: string
  mg_APIKey :: string

record config =
  cf_Service :: service_config
  cf_GRPC :: grpc_config
  cf_Database :: database_config
  cf_Redis :: redis_config
  cf_Auth :: auth_config
  cf_SMTP :: smtp_config
  cf_P2P :: p2p_config
  cf_WireGuard :: wireguard_config
  cf_ML :: ml_config

definition show_int :: "int \<Rightarrow> string" where
  "show_int i = (if i < 0 then CHR ''-'' # dec (nat (- i)) else dec (nat i))"

definition grpc_address :: "grpc_config \<Rightarrow> string" where
  "grpc_address g = gr_Host g @ '':'' @ show_int (gr_Port g)"

section \<open>Loading\<close>

text \<open>A field that viper has no value for keeps the zero value of its type; a value that cannot be
  decoded is an error.\<close>

definition field :: "(string \<Rightarrow> setting option) \<Rightarrow> (setting \<Rightarrow> 'a option) \<Rightarrow> 'a \<Rightarrow> string \<Rightarrow> 'a option" where
  "field get decode zero key = (case get key of None \<Rightarrow> Some zero | Some x \<Rightarrow> decode x)"

text \<open>The fields of a section by their types.\<close>

abbreviation str_field :: "viper \<Rightarrow> (string \<Rightarrow> setting option) \<Rightarrow> string \<Rightarrow> string option" where
  "str_field v get \<equiv> field get (vi_string v) ''''"

abbreviation int_field :: "viper \<Rightarrow> (string \<Rightarrow> setting option) \<Rightarrow> string \<Rightarrow> int option" where
  "int_field v get \<equiv> field get (vi_int v) 0"

abbreviation bool_field :: "viper \<Rightarrow> (string \<Rightarrow> setting option) \<Rightarrow> string \<Rightarrow> bool option" where
  "bool_field v get \<equiv> field get (vi_bool v) False"

abbreviation duration_field :: "viper \<Rightarrow> (string \<Rightarrow> setting option) \<Rightarrow> string \<Rightarrow> time option" where
  "duration_field v get \<equiv> field get (vi_duration v) 0"

abbreviation list_field :: "viper \<Rightarrow> (string \<Rightarrow> setting option) \<Rightarrow> string \<Rightarrow> string list option" where
  "list_field v get \<equiv> field get (vi_strings v) []"

definition unmarshal_service :: "viper \<Rightarrow> (string \<Rightarrow> setting option) \<Rightarrow> service_config option" where
  "unmarshal_service v get = do {
     name \<leftarrow> str_field v get ''service.name''; environment \<leftarrow> str_field v get ''service.environment'';
     version \<leftarrow> str_field v get ''service.version''; level \<leftarrow> str_field v get ''service.log_level'';
     Some \<lparr>sv_Name = name, sv_Environment = environment, sv_Version = version, sv_LogLevel = level\<rparr> }"

definition unmarshal_grpc :: "viper \<Rightarrow> (string \<Rightarrow> setting option) \<Rightarrow> grpc_config option" where
  "unmarshal_grpc v get = do {
     host \<leftarrow> str_field v get ''grpc.host''; port \<leftarrow> int_field v get ''grpc.port'';
     recv \<leftarrow> int_field v get ''grpc.max_recv_msg_size''; send \<leftarrow> int_field v get ''grpc.max_send_msg_size'';
     ktime \<leftarrow> duration_field v get ''grpc.keep_alive_time'';
     ktimeout \<leftarrow> duration_field v get ''grpc.keep_alive_timeout'';
     tls \<leftarrow> bool_field v get ''grpc.tls_enabled''; cert \<leftarrow> str_field v get ''grpc.cert_file'';
     key \<leftarrow> str_field v get ''grpc.key_file''; ca \<leftarrow> str_field v get ''grpc.ca_file'';
     Some \<lparr>gr_Host = host, gr_Port = port, gr_MaxRecvMsgSize = recv, gr_MaxSendMsgSize = send,
       gr_KeepAliveTime = ktime, gr_KeepAliveTimeout = ktimeout, gr_TLSEnabled = tls, gr_CertFile = cert,
       gr_KeyFile = key, gr_CAFile = ca\<rparr> }"

definition unmarshal_database :: "viper \<Rightarrow> (string \<Rightarrow> setting option) \<Rightarrow> database_config option" where
  "unmarshal_database v get = do {
     driver \<leftarrow> str_field v get ''database.driver''; dsn \<leftarrow> str_field v get ''database.dsn'';
     maxOpen \<leftarrow> int_field v get ''database.max_open_conns''; maxIdle \<leftarrow> int_field v get ''database.max_idle_conns'';
     life \<leftarrow> duration_field v get ''database.conn_max_lifetime'';
     Some \<lparr>dc_Driver = driver, dc_DSN = dsn, dc_MaxOpenConns = maxOpen, dc_MaxIdleConns = maxIdle,
       dc_ConnMaxLifetime = life\<rparr> }"

definition unmarshal_redis :: "viper \<Rightarrow> (string \<Rightarrow> setting option) \<Rightarrow> redis_config option" where
  "unmarshal_redis v get = do {
     addr \<leftarrow> str_field v get ''redis.addr''; password \<leftarrow> str_field v get ''redis.password'';
     db \<leftarrow> int_field v get ''redis.db'';
     Some \<lparr>rc_Addr = addr, rc_Password = password, rc_DB = db\<rparr> }"

definition unmarshal_auth :: "viper \<Rightarrow> (string \<Rightarrow> setting option) \<Rightarrow> auth_config option" where
  "unmarshal_auth v get = do {
     secret \<leftarrow> str_field v get ''auth.jwt_secret''; jexp \<leftarrow> duration_field v get ''auth.jwt_expiry'';
     rexp \<leftarrow> duration_field v get ''auth.refresh_expiry''; cost \<leftarrow> int_field v get ''auth.bcrypt_cost'';
     Some \<lparr>au_JWTSecret = secret, au_JWTExpiry = jexp, au_RefreshExpiry = rexp, au_BcryptCost = cost\<rparr> }"

definition unmarshal_smtp :: "viper \<Rightarrow> (string \<Rightarrow> setting option) \<Rightarrow> smtp_config option" where
  "unmarshal_smtp v get = do {
     host \<leftarrow> str_field v get ''smtp.host''; port \<leftarrow> int_field v get ''smtp.port'';
     user \<leftarrow> str_field v get ''smtp.username''; password \<leftarrow> str_field v get ''smtp.password'';
     sender \<leftarrow> str_field v get ''smtp.from''; url \<leftarrow> str_field v get ''smtp.base_url'';
     Some \<lparr>sm_Host = host, sm_Port = port, sm_Username = user, sm_Password = password, sm_From = sender,
       sm_BaseURL = url\<rparr> }"

definition unmarshal_p2p :: "viper \<Rightarrow> (string \<Rightarrow> setting option) \<Rightarrow> p2p_config option" where
  "unmarshal_p2p v get = do {
     listen \<leftarrow> list_field v get ''p2p.listen_addresses''; boot \<leftarrow> list_field v get ''p2p.bootstrap_peers'';
     idkey \<leftarrow> str_field v get ''p2p.identity_key_path''; dht \<leftarrow> bool_field v get ''p2p.enable_dht'';
     relay \<leftarrow> bool_field v get ''p2p.enable_relay''; punch \<leftarrow> bool_field v get ''p2p.enable_hole_punch'';
     Some \<lparr>pp_ListenAddresses = listen, pp_BootstrapPeers = boot, pp_IdentityKeyPath = idkey,
       pp_EnableDHT = dht, pp_EnableRelay = relay, pp_EnableHolePunch = punch\<rparr> }"

definition unmarshal_wireguard :: "viper \<Rightarrow> (string \<Rightarrow> setting option) \<Rightarrow> wireguard_config option" where
  "unmarshal_wireguard v get = do {
     enabled \<leftarrow> bool_field v get ''wireguard.enabled''; wgif \<leftarrow> str_field v get ''wireguard.interface'';
     port \<leftarrow> int_field v get ''wireguard.listen_port''; key \<leftarrow> str_field v get ''wireguard.private_key'';
     dry \<leftarrow> bool_field v get ''wireguard.dry_run'';
     Some \<lparr>wg_Enabled = enabled, wg_Interface = wgif, wg_ListenPort = port, wg_PrivateKey = key, wg_DryRun = dry\<rparr> }"

definition unmarshal_ml :: "viper \<Rightarrow> (string \<Rightarrow> setting option) \<Rightarrow> ml_config option" where
  "unmarshal_ml v get = do {
     url \<leftarrow> str_field v get ''ml.api_url''; key \<leftarrow> str_field v get ''ml.api_key'';
     Some \<lparr>mg_APIURL = url, mg_APIKey = key\<rparr> }"

definition unmarshal :: "viper \<Rightarrow> (string \<Rightarrow> setting option) \<Rightarrow> config option" where
  "unmarshal v get = do {
     service \<leftarrow> unmarshal_service v get; grpc \<leftarrow> unmarshal_grpc v get; database \<leftarrow> unmarshal_database v get;
     redis \<leftarrow> unmarshal_redis v get; auth \<leftarrow> unmarshal_auth v get; smtp \<leftarrow> unmarshal_smtp v get;
     p2p \<leftarrow> unmarshal_p2p v get; wireguard \<leftarrow> unmarshal_wireguard v get; ml \<leftarrow> unmarshal_ml v get;
     Some \<lparr>cf_Service = service, cf_GRPC = grpc, cf_Database = database, cf_Redis = redis, cf_Auth = auth,
       cf_SMTP = smtp, cf_P2P = p2p, cf_WireGuard = wireguard, cf_ML = ml\<rparr> }"

datatype config_error = ReadingConfig | UnmarshalingConfig | NameRequired

definition load_config :: "viper \<Rightarrow> file_read \<Rightarrow> (string \<Rightarrow> string) \<Rightarrow> config_error + config" where
  "load_config v read env =
     (case read of
        Unparsable \<Rightarrow> Inl ReadingConfig
      | _ \<Rightarrow>
          let file = (case read of Settings file \<Rightarrow> file | _ \<Rightarrow> [])
          in case unmarshal v (vi_get v set_defaults file env) of
               None \<Rightarrow> Inl UnmarshalingConfig
             | Some cfg \<Rightarrow> if sv_Name (cf_Service cfg) = '''' then Inl NameRequired else Inr cfg)"

end
