(* ===== verification/Tls.thy ===== *)
theory Tls
  imports Config
begin

text \<open>
  The credentials of \<open>pkg/grpcutil/tls.go\<close>, modelled by the files that they are made from.
\<close>

record tls_files =
  tf_keyPair :: "string \<Rightarrow> string \<Rightarrow> bool" \<comment> \<open>a certificate and its key can be loaded\<close>
  tf_readFile :: "string \<Rightarrow> string option"
  tf_isCA :: "string \<Rightarrow> bool" \<comment> \<open>the text holds a certificate\<close>

datatype tls_error = LoadingKeyPair | ReadingCA | ParsingCA

record tls_config =
  tl_Certificates :: "(string \<times> string) list"
  tl_CA :: "string option" \<comment> \<open>the pool that the other side is verified with\<close>
  tl_MustVerifyClient :: bool

definition load_ca :: "tls_files \<Rightarrow> string \<Rightarrow> tls_error + string option" where
  "load_ca fs caFile =
     (if caFile = '''' then Inr None
      else case tf_readFile fs caFile of
             None \<Rightarrow> Inl ReadingCA
           | Some pem \<Rightarrow> if \<not> tf_isCA fs pem then Inl ParsingCA else Inr (Some pem))"

definition server_credentials :: "tls_files \<Rightarrow> grpc_config \<Rightarrow> tls_error + tls_config option" where
  "server_credentials fs g =
     (if \<not> gr_TLSEnabled g then Inr None
      else if \<not> tf_keyPair fs (gr_CertFile g) (gr_KeyFile g) then Inl LoadingKeyPair
      else case load_ca fs (gr_CAFile g) of
             Inl e \<Rightarrow> Inl e
           | Inr ca \<Rightarrow> Inr (Some \<lparr>tl_Certificates = [(gr_CertFile g, gr_KeyFile g)], tl_CA = ca,
                tl_MustVerifyClient = (ca \<noteq> None)\<rparr>))"

text \<open>\<open>None\<close> stands for the credentials of an insecure connection.\<close>

definition client_credentials :: "tls_files \<Rightarrow> grpc_config \<Rightarrow> tls_error + tls_config option" where
  "client_credentials fs g =
     (if \<not> gr_TLSEnabled g then Inr None
      else if gr_CertFile g \<noteq> '''' \<and> gr_KeyFile g \<noteq> '''' \<and> \<not> tf_keyPair fs (gr_CertFile g) (gr_KeyFile g)
      then Inl LoadingKeyPair
      else case load_ca fs (gr_CAFile g) of
             Inl e \<Rightarrow> Inl e
           | Inr ca \<Rightarrow> Inr (Some \<lparr>
                tl_Certificates =
                  (if gr_CertFile g \<noteq> '''' \<and> gr_KeyFile g \<noteq> '''' then [(gr_CertFile g, gr_KeyFile g)] else []),
                tl_CA = ca, tl_MustVerifyClient = False\<rparr>))"

end
