(* ===== verification/P2pNode.thy ===== *)
theory P2pNode
  imports Prelude
begin

text \<open>
  The overlay node of \<open>internal/p2p/node.go\<close>: the options it starts a libp2p host with and the
  bootstrap peers it connects to. The library is a record of functions.
\<close>

record p2p_node_config =
  pn_ListenAddrs :: "string list"
  pn_BootstrapPeers :: "string list"
  pn_PrivateKey :: bytes
  pn_EnableRelay :: bool
  pn_EnableDHT :: bool
  pn_EnableHolePunch :: bool

datatype host_option = ListenAddrStrings "string list" | NATPortMap | DhtRouting | EnableRelay | EnableHolePunching

text \<open>A host that starts has an id and addresses.\<close>

record p2p_host =
  ho_ID :: string
  ho_Addrs :: "string list"

record libp2p =
  lp_new :: "host_option list \<Rightarrow> p2p_host option"
  lp_multiaddr :: "string \<Rightarrow> string option"
  lp_addrInfo :: "string \<Rightarrow> string option" \<comment> \<open>the peer that a multiaddress names\<close>
  lp_connect :: "p2p_host \<Rightarrow> string \<Rightarrow> bool"

definition host_options :: "p2p_node_config \<Rightarrow> host_option list" where
  "host_options cfg =
     [ListenAddrStrings (pn_ListenAddrs cfg), NATPortMap, DhtRouting]
     @ (if pn_EnableRelay cfg then [EnableRelay] else [])
     @ (if pn_EnableHolePunch cfg then [EnableHolePunching] else [])"

text \<open>The bootstrap peers with an address that can be parsed; those that cannot are logged.\<close>

definition bootstrap_peer :: "libp2p \<Rightarrow> string \<Rightarrow> string option" where
  "bootstrap_peer lib p = Option.bind (lp_multiaddr lib p) (lp_addrInfo lib)"

text \<open>A node with the peers it is connected to at first. A bootstrap of the DHT that fails is only
  logged.\<close>

record p2p_node =
  no_Host :: p2p_host
  no_Connected :: "string list"

definition connect_bootstrap_peers :: "libp2p \<Rightarrow> p2p_host \<Rightarrow> string list \<Rightarrow> string list" where
  "connect_bootstrap_peers lib h peers = filter (lp_connect lib h) (List.map_filter (bootstrap_peer lib) peers)"

definition new_node :: "libp2p \<Rightarrow> p2p_node_config \<Rightarrow> p2p_node option" where
  "new_node lib cfg =
     (case lp_new lib (host_options cfg) of
        None \<Rightarrow> None
      | Some h \<Rightarrow>
          Some \<lparr>no_Host = h,
            no_Connected = (if length (pn_BootstrapPeers cfg) > 0
              then connect_bootstrap_peers lib h (pn_BootstrapPeers cfg) else [])\<rparr>)"

definition addresses :: "p2p_node \<Rightarrow> string list" where
  "addresses n = map (\<lambda>a. a @ ''/p2p/'' @ ho_ID (no_Host n)) (ho_Addrs (no_Host n))"

text \<open>Whether the configuration asks for the DHT or gives a key makes no difference.\<close>

lemma new_node_ignores:
  "new_node lib (cfg\<lparr>pn_EnableDHT := b\<rparr>) = new_node lib cfg"
  "new_node lib (cfg\<lparr>pn_PrivateKey := k\<rparr>) = new_node lib cfg"
  by (simp_all add: new_node_def host_options_def split: option.split)

text \<open>A bootstrap peer that cannot be parsed or reached costs only itself.\<close>

lemma bootstrap_failures_are_local:
  assumes "new_node lib cfg = Some n" "p \<in> set (pn_BootstrapPeers cfg)" "bootstrap_peer lib p = Some i" "lp_connect lib (no_Host n) i"
  shows "i \<in> set (no_Connected n)"
proof -
  have "set (List.map_filter f xs) = {y. \<exists>x\<in>set xs. f x = Some y}" for f :: "string \<Rightarrow> string option" and xs
    by (induction xs) (auto simp: List.map_filter_simps split: option.splits)
  then show ?thesis
    using assms by (auto simp: new_node_def connect_bootstrap_peers_def split: option.splits)
qed

end
