(* ===== verification/Mailer.thy ===== *)
theory Mailer
  imports Config
begin

text \<open>
  The mailer of \<open>pkg/mailer/mailer.go\<close>: the mail with the link that verifies an address. What the
  SMTP server does with a mail is an argument.
\<close>

record mailer =
  ma_Host :: string
  ma_Port :: int
  ma_Username :: string
  ma_Password :: string
  ma_From :: string
  ma_BaseURL :: string

text \<open>A call of \<open>smtp.SendMail\<close> with plain authentication.\<close>

record smtp_mail =
  sl_Addr :: string
  sl_Username :: string
  sl_Password :: string
  sl_AuthHost :: string
  sl_From :: string
  sl_To :: "string list"
  sl_Msg :: string

definition newline :: string where
  "newline = [char_of (10::nat)]"

definition crlf :: string where
  "crlf = [char_of (13::nat), char_of (10::nat)]"

text \<open>Lines of a raw string literal.\<close>

fun join_lines :: "string list \<Rightarrow> string" where
  "join_lines [] = []"
| "join_lines [l] = l"
| "join_lines (l # ls) = l @ newline @ join_lines ls"

text \<open>The body before and after the link.\<close>

definition body_before :: string where
  "body_before = join_lines [
     ''<!DOCTYPE html>'',
     ''<html>'',
     ''<head>'',
     ''<meta name=\"viewport\" content=\"width=device-width, initial-scale=1.0\">'',
     ''</head>'',
     ''<body style=\"font-family: -apple-system, BlinkMacSystemFont, 'Segoe UI', Roboto, Helvetica, Arial, sans-serif; background-color: #050505; color: #e5e5e5; margin: 0; padding: 40px 20px; line-height: 1.6;\">'',
     ''  <div style=\"max-width: 500px; margin: 0 auto; background: #111111; border: 1px solid #222222; border-radius: 16px; padding: 40px; text-align: center;\">'',
     ''    '',
     ''    <div style=\"margin-bottom: 30px;\">'',
     ''      <h1 style=\"margin: 0; color: #ffffff; font-size: 26px; font-weight: 800; letter-spacing: 2px;\">VINCTUM</h1>'',
     ''      <div style=\"height: 3px; width: 40px; background: #3b82f6; margin: 12px auto 0; border-radius: 2px;\"></div>'',
     ''    </div>'',
     '''',
     ''    <h2 style=\"color: #ffffff; font-size: 20px; margin-bottom: 16px; font-weight: 600;\">Initialize Your Node</h2>'',
     ''    <p style=\"color: #a3a3a3; font-size: 15px; margin-bottom: 32px; padding: 0 10px;\">Welcome to the decentralized network. To secure your identity and enable e'' @ ''nd-to-e'' @ ''nd encrypted transfers, please verify your email.</p>'',
     ''    '',
     ''    <a href=\"'']"

definition body_after :: string where
  "body_after = join_lines [
     ''\" style=\"display: inline-block; background: #3b82f6; color: #ffffff; font-weight: 600; font-size: 15px; padding: 14px 36px; border-radius: 8px; text-decoration: none;\">Verify Identity</a>'',
     ''    '',
     ''    <div style=\"margin-top: 40px; padding-top: 24px; border-top: 1px solid #222222;\">'',
     ''      <p style=\"color: #666666; font-size: 12px; margin-bottom: 8px;\">If you didn't initiate this request, safely ignore this transmission.</p>'',
     ''      <p style=\"color: #666666; font-size: 12px; margin: 0;\">Verification link expires in 24 hours.</p>'',
     ''    </div>'',
     ''  </div>'',
     ''</body>'',
     ''</html>'']"

definition verification_link :: "mailer \<Rightarrow> string \<Rightarrow> string" where
  "verification_link m token = ma_BaseURL m @ ''/verify?token='' @ token"

definition verification_message :: "mailer \<Rightarrow> string \<Rightarrow> string \<Rightarrow> string" where
  "verification_message m recipient token =
     ''From: '' @ ma_From m @ crlf @ ''To: '' @ recipient @ crlf @ ''Subject: Verify your Vinctum account'' @ crlf
     @ ''MIME-Version: 1.0'' @ crlf @ ''Content-Type: text/html; charset=UTF-8'' @ crlf @ crlf
     @ body_before @ verification_link m token @ body_after"

definition send_verification :: "(smtp_mail \<Rightarrow> bool) \<Rightarrow> mailer \<Rightarrow> string \<Rightarrow> string \<Rightarrow> bool" where
  "send_verification smtp m recipient token =
     smtp \<lparr>sl_Addr = ma_Host m @ '':'' @ show_int (ma_Port m), sl_Username = ma_Username m, sl_Password = ma_Password m,
       sl_AuthHost = ma_Host m, sl_From = ma_From m, sl_To = [recipient],
       sl_Msg = verification_message m recipient token\<rparr>"

end
