(* ===== verification/MlClient.thy ===== *)
theory MlClient
  imports Anomaly
begin

text \<open>
  The client of the machine learning service, \<open>internal/intelligence/mlclient.go\<close>, put into the
  adapters of \<open>mladapter.go\<close>. The service and the network are an argument: what becomes of one
  HTTP exchange. The decoder of JSON is written out as far as the client uses it. The numbers are
  reals, so encoding a request cannot fail.
\<close>

section \<open>JSON\<close>

datatype json = JNull | JBool bool | JNum real | JStr string | JArr "json list" | JObj "(string \<times> json) list"

text \<open>Names of fields are compared without regard to the case of letters. A field of a struct takes the
  last member with its name (a list of scores is one member at most); a \<open>null\<close> changes nothing, a value of another kind is an error.\<close>

definition lower_char :: "char \<Rightarrow> char" where
  "lower_char c = (let n = of_char c :: nat in if 65 \<le> n \<and> n \<le> 90 then char_of (n + 32) else c)"

definition named :: "string \<Rightarrow> string \<Rightarrow> bool" where
  "named field name \<longleftrightarrow> map lower_char name = field"

fun decode_field :: "(json \<Rightarrow> 'a option) \<Rightarrow> string \<Rightarrow> (string \<times> json) list \<Rightarrow> 'a \<Rightarrow> 'a option" where
  "decode_field f field [] v = Some v"
| "decode_field f field ((name, j) # ms) v =
     (if \<not> named field name \<or> j = JNull then decode_field f field ms v
      else Option.bind (f j) (decode_field f field ms))"

fun json_num :: "json \<Rightarrow> real option" where
  "json_num (JNum x) = Some x" | "json_num _ = None"

fun json_bool :: "json \<Rightarrow> bool option" where
  "json_bool (JBool b) = Some b" | "json_bool _ = None"

fun json_str :: "json \<Rightarrow> string option" where
  "json_str (JStr s) = Some s" | "json_str _ = None"

fun json_members :: "json \<Rightarrow> (string \<times> json) list option" where
  "json_members (JObj ms) = Some ms" | "json_members JNull = Some []" | "json_members _ = None"

section \<open>Messages\<close>

record ml_score_response =
  sr_ml_NodeID :: string
  sr_ml_Score :: real
  sr_ml_Confidence :: real

record ml_anomaly_response =
  ar_NodeID :: string
  ar_IsAnomaly :: bool
  ar_AnomalyScore :: real

definition metrics_to_ml :: "node_metrics \<Rightarrow> json" where
  "metrics_to_ml m = JObj
     [(''total_events'', JNum (of_int (nm_TotalEvents m))), (''successes'', JNum (of_int (nm_Successes m))),
      (''failures'', JNum (of_int (nm_Failures m))), (''timeouts'', JNum (of_int (nm_Timeouts m))),
      (''reroutes'', JNum (of_int (nm_Reroutes m))), (''circuit_opens'', JNum (of_int (nm_CircuitOpens m))),
      (''avg_latency_ms'', JNum (nm_AvgLatencyMs m)), (''min_latency_ms'', JNum (of_int (nm_MinLatencyMs m))),
      (''max_latency_ms'', JNum (of_int (nm_MaxLatencyMs m))), (''p95_latency_ms'', JNum (of_int (nm_P95LatencyMs m))),
      (''total_bytes'', JNum (of_int (nm_TotalBytes m))), (''avg_bytes_per_op'', JNum (nm_AvgBytesPerOp m)),
      (''failure_rate'', JNum (nm_FailureRate m)), (''uptime'', JNum (nm_Uptime m))]"

definition ml_score_request :: "node_id \<times> node_metrics \<Rightarrow> json" where
  "ml_score_request nm = JObj [(''node_id'', JStr (fst nm)), (''metrics'', metrics_to_ml (snd nm))]"

definition decode_score :: "json \<Rightarrow> ml_score_response option" where
  "decode_score j = Option.bind (json_members j) (\<lambda>ms.
     Option.bind (decode_field json_str ''node_id'' ms '''') (\<lambda>n.
     Option.bind (decode_field json_num ''score'' ms 0) (\<lambda>s.
     Option.bind (decode_field json_num ''confidence'' ms 0) (\<lambda>c.
       Some \<lparr>sr_ml_NodeID = n, sr_ml_Score = s, sr_ml_Confidence = c\<rparr>))))"

definition decode_anomaly :: "json \<Rightarrow> ml_anomaly_response option" where
  "decode_anomaly j = Option.bind (json_members j) (\<lambda>ms.
     Option.bind (decode_field json_str ''node_id'' ms '''') (\<lambda>n.
     Option.bind (decode_field json_bool ''is_anomaly'' ms False) (\<lambda>b.
     Option.bind (decode_field json_num ''anomaly_score'' ms 0) (\<lambda>s.
       Some \<lparr>ar_NodeID = n, ar_IsAnomaly = b, ar_AnomalyScore = s\<rparr>))))"

section \<open>The client\<close>

record ml_client =
  mc_baseURL :: string
  mc_apiKey :: string

record ml_request =
  mq_Method :: string
  mq_URL :: string
  mq_Header :: "(string \<times> string) list"
  mq_Body :: "json option"

text \<open>One exchange: \<open>None\<close> when there is no answer within the five seconds, otherwise the status and
  the body, \<open>None\<close> when it is not JSON.\<close>

type_synonym ml_network = "ml_request \<Rightarrow> (nat \<times> json option) option"

datatype ml_error = MlTransport | MlStatus nat | MlDecode

definition ml_post :: "ml_network \<Rightarrow> ml_client \<Rightarrow> string \<Rightarrow> json \<Rightarrow> (json \<Rightarrow> 'a option) \<Rightarrow> ml_error + 'a" where
  "ml_post net c path body dec =
     (case net \<lparr>mq_Method = ''POST'', mq_URL = mc_baseURL c @ path,
                mq_Header = (''Content-Type'', ''application/json'')
                  # (if mc_apiKey c \<noteq> '''' then [(''X-API-Key'', mc_apiKey c)] else []),
                mq_Body = Some body\<rparr> of
        None \<Rightarrow> Inl MlTransport
      | Some (code, answer) \<Rightarrow>
          if code \<noteq> 200 then Inl (MlStatus code)
          else case Option.bind answer dec of None \<Rightarrow> Inl MlDecode | Some v \<Rightarrow> Inr v)"

definition ml_score_node :: "ml_network \<Rightarrow> ml_client \<Rightarrow> node_id \<Rightarrow> node_metrics \<Rightarrow> ml_error + ml_score_response" where
  "ml_score_node net c nodeID m = ml_post net c ''/score'' (ml_score_request (nodeID, m)) decode_score"

definition window_minutes :: "node_metrics \<Rightarrow> real" where
  "window_minutes m = real_of_int (nm_WindowEnd m - nm_WindowStart m) / real_of_int minute"

definition ml_detect_anomaly :: "ml_network \<Rightarrow> ml_client \<Rightarrow> node_id \<Rightarrow> node_metrics \<Rightarrow> ml_error + ml_anomaly_response" where
  "ml_detect_anomaly net c nodeID m =
     (let windowMinutes = window_minutes m;
          epm = (if windowMinutes > 0 then real_of_int (nm_TotalEvents m) / windowMinutes else 0)
      in ml_post net c ''/anomaly''
           (JObj [(''node_id'', JStr nodeID), (''metrics'', metrics_to_ml m), (''events_per_minute'', JNum epm)])
           decode_anomaly)"

text \<open>The nodes of a route come from a map, in an order that is an argument.\<close>

record ml_route_response =
  rr_Scores :: "ml_score_response list"
  rr_BestNode :: string
  rr_RouteScore :: real

fun json_scores :: "json list \<Rightarrow> ml_score_response list option" where
  "json_scores [] = Some []"
| "json_scores (j # js) = Option.bind (decode_score j) (\<lambda>s. map_option ((#) s) (json_scores js))"

fun json_score_array :: "json \<Rightarrow> ml_score_response list option" where
  "json_score_array (JArr js) = json_scores js" | "json_score_array _ = None"

definition decode_route :: "json \<Rightarrow> ml_route_response option" where
  "decode_route j = Option.bind (json_members j) (\<lambda>ms.
     Option.bind (decode_field json_score_array ''scores'' ms []) (\<lambda>ss.
     Option.bind (decode_field json_str ''best_node'' ms '''') (\<lambda>b.
     Option.bind (decode_field json_num ''route_score'' ms 0) (\<lambda>s.
       Some \<lparr>rr_Scores = ss, rr_BestNode = b, rr_RouteScore = s\<rparr>))))"

definition ml_score_route :: "ml_network \<Rightarrow> ml_client \<Rightarrow> (node_id \<times> node_metrics) list \<Rightarrow> ml_error + ml_route_response" where
  "ml_score_route net c nodes =
     ml_post net c ''/route'' (JObj [(''nodes'', JArr (map ml_score_request nodes))]) decode_route"

text \<open>The health request carries no key.\<close>

definition ml_health_request :: "ml_client \<Rightarrow> ml_request" where
  "ml_health_request c = \<lparr>mq_Method = ''GET'', mq_URL = mc_baseURL c @ ''/health'', mq_Header = [], mq_Body = None\<rparr>"

definition ml_health :: "ml_network \<Rightarrow> ml_client \<Rightarrow> (json \<Rightarrow> 'a option) \<Rightarrow> ml_error + 'a" where
  "ml_health net c dec =
     (case net (ml_health_request c) of
        None \<Rightarrow> Inl MlTransport
      | Some (code, answer) \<Rightarrow>
          if code \<noteq> 200 then Inl (MlStatus code)
          else case Option.bind answer dec of None \<Rightarrow> Inl MlDecode | Some v \<Rightarrow> Inr v)"

section \<open>The adapter with this client\<close>

definition succeeded :: "'e + 'a \<Rightarrow> 'a option" where
  "succeeded r = (case r of Inl e \<Rightarrow> None | Inr v \<Rightarrow> Some v)"

definition ml_router_score ::
  "ml_network \<Rightarrow> ml_client \<Rightarrow> time \<Rightarrow> collector \<Rightarrow> scorer \<Rightarrow> node_id \<Rightarrow> real \<times> bool" where
  "ml_router_score net c now col sc nid =
     ml_adapter_score_node (\<lambda>m. map_option sr_ml_Score (succeeded (ml_score_node net c nid m))) now col sc nid"

definition ml_router_anomalous ::
  "ml_network \<Rightarrow> ml_client \<Rightarrow> time \<Rightarrow> collector \<Rightarrow> (node_id \<Rightarrow> bool) \<Rightarrow> node_id \<Rightarrow> bool" where
  "ml_router_anomalous net c now col local_anomalous nid =
     ml_adapter_is_anomalous (\<lambda>m. map_option ar_IsAnomaly (succeeded (ml_detect_anomaly net c nid m))) now col
       local_anomalous nid"

text \<open>An exchange that gives the client nothing to use: no answer, another status than 200, or a body
  that is no JSON object and not \<open>null\<close>.\<close>

definition useless :: "(nat \<times> json option) option \<Rightarrow> bool" where
  "useless a \<longleftrightarrow> (\<forall>j. a = Some (200, Some j) \<longrightarrow> json_members j = None)"

lemma metrics_node: "metrics now nid c = Some m \<Longrightarrow> nm_NodeID m = nid"
  by (auto simp: metrics_def metrics_of_events_counts Let_def split: if_splits)

lemma useless_post:
  assumes "\<forall>q. mq_Method q = ''POST'' \<longrightarrow> useless (net q)" "\<And>j. json_members j = None \<Longrightarrow> dec j = None"
  shows "succeeded (ml_post net c path body dec) = None"
proof -
  let ?q = "\<lparr>mq_Method = ''POST'', mq_URL = mc_baseURL c @ path,
      mq_Header = (''Content-Type'', ''application/json'') # (if mc_apiKey c \<noteq> '''' then [(''X-API-Key'', mc_apiKey c)] else []),
      mq_Body = Some body\<rparr>"
  have "useless (net ?q)" using assms(1) by simp
  then show ?thesis
    using assms(2) unfolding useless_def ml_post_def succeeded_def
    by (cases "net ?q") (auto split: option.split bind_splits)
qed

lemma decode_members:
  "json_members j = None \<Longrightarrow> decode_score j = None" "json_members j = None \<Longrightarrow> decode_anomaly j = None"
  by (simp_all add: decode_score_def decode_anomaly_def)

lemma anomalous_has_metrics:
  assumes "is_anomalous now cfg (all_metrics now' col) ks1 ks2 nid"
  shows "metrics now' nid col \<noteq> None"
proof -
  obtain a where "a \<in> set (detect now cfg (all_metrics now' col) ks1 ks2)" "al_NodeID a = nid"
    using assms by (auto simp: is_anomalous_def detect_node_def filter_empty_conv)
  then obtain k m where "all_metrics now' col k = Some m" "nm_NodeID m = nid"
    by (auto simp: detect_def Let_def map_values_def List.map_filter_def dest!: node_alerts_in split: if_splits)
  then show ?thesis by (auto simp: all_metrics_def dest: metrics_node split: if_splits)
qed

text \<open>C39: The machine learning service is optional: while its answers are of no use, the adapter that the
  routing service consults scores nodes and judges them exactly as the local scorer and detector
  do.\<close>

theorem ml_outage_is_local:
  assumes "\<forall>q. mq_Method q = ''POST'' \<longrightarrow> useless (net q)"
  shows "ml_router_score net c now col sc nid = adapter_score_node (score now col sc) nid
    \<and> (ml_router_anomalous net c now col (is_anomalous now cfg (all_metrics now col) ks1 ks2) nid
       \<longleftrightarrow> is_anomalous now cfg (all_metrics now col) ks1 ks2 nid)"
proof (rule conjI)
  have s: "succeeded (ml_score_node net c nid m) = None" for m
    unfolding ml_score_node_def by (rule useless_post [OF assms decode_members(1)])
  show "ml_router_score net c now col sc nid = adapter_score_node (score now col sc) nid"
    by (simp add: ml_router_score_def ml_adapter_score_node_def adapter_score_node_def s score_def split: option.split)
  have "succeeded (ml_detect_anomaly net c nid m) = None" for m
    unfolding ml_detect_anomaly_def Let_def by (rule useless_post [OF assms decode_members(2)])
  then show "ml_router_anomalous net c now col (is_anomalous now cfg (all_metrics now col) ks1 ks2) nid
       \<longleftrightarrow> is_anomalous now cfg (all_metrics now col) ks1 ks2 nid"
    using anomalous_has_metrics [of now cfg now col ks1 ks2 nid]
    by (auto simp: ml_router_anomalous_def ml_adapter_is_anomalous_def split: option.splits)
qed

text \<open>An answer is taken as it is: an empty object counts as the score 0 and as no anomaly, so the
  local judgement is not asked for, and a score is not confined to the range of the local ones.\<close>

lemma empty_answer_scores_zero:
  assumes "metrics now nid col = Some m" "\<forall>q. net q = Some (200, Some (JObj []))"
  shows "ml_router_score net c now col sc nid = (0, True) \<and> \<not> ml_router_anomalous net c now col local_anomalous nid"
  using assms
  by (simp add: ml_router_score_def ml_router_anomalous_def ml_adapter_score_node_def ml_adapter_is_anomalous_def
      ml_score_node_def ml_detect_anomaly_def ml_post_def decode_score_def decode_anomaly_def succeeded_def Let_def)

theorem ml_outage_is_local_witness:
  "ml_router_score (\<lambda>q. if mq_Method q = ''GET'' then Some (200, Some (JObj [])) else Some (503, None))
     \<lparr>mc_baseURL = ''http://ml'', mc_apiKey = ''k''\<rparr> 10 (record_ping 1 ''n'' 7 True (new_collector 20))
     (new_scorer default_weights) ''n''
   = adapter_score_node (score 10 (record_ping 1 ''n'' 7 True (new_collector 20)) (new_scorer default_weights)) ''n''"
  by (rule ml_outage_is_local [THEN conjunct1]) (simp add: useless_def)

end
