(* ===== verification/Startup.thy ===== *)
theory Startup
  imports Tls P2pNode Mailer AccountLaws GatewayFront P2p Migrator MlClient
begin

text \<open>
  How the processes of \<open>cmd\<close> come up: what each \<open>main\<close> builds from its configuration and its
  environment, in the order of the code, and where it gives up. What the operating system,
  PostgreSQL and libp2p do is a record of functions.
\<close>

section \<open>Processes\<close>

text \<open>The surroundings of a process.\<close>

record 'd surroundings =
  su_viper :: viper
  su_file :: file_read
  su_getenv :: "string \<Rightarrow> string"
  su_pool :: "string \<Rightarrow> bool" \<comment> \<open>a pool can be made for the DSN\<close>
  su_ping :: "string \<Rightarrow> bool"
  su_exec :: "string \<Rightarrow> 'd \<Rightarrow> 'd option"
  su_migrationFaults :: migration_faults
  su_migrations :: sql_fs
  su_tls :: tls_files
  su_listen :: "string \<Rightarrow> bool"
  su_dial :: "string \<Rightarrow> bool" \<comment> \<open>a client can be made for the address\<close>
  su_mkdir :: os_faults
  su_disk :: "(path \<times> bytes) list"
  su_libp2p :: libp2p

datatype start_error =
    LoadConfig config_error | PostgresPool | PostgresPing | Migration migration_error | JwtConfiguration
  | Listening string | TlsCredentials tls_error | ClientTls tls_error | ChunkStorage store_error | P2pNode
  | GatewayDial string

text \<open>The first steps of every service with a database.\<close>

definition open_database :: "'d surroundings \<Rightarrow> 'd migration_db \<Rightarrow> (start_error + config) \<times> 'd migration_db" where
  "open_database u db =
     (case load_config (su_viper u) (su_file u) (su_getenv u) of
        Inl e \<Rightarrow> (Inl (LoadConfig e), db)
      | Inr cfg \<Rightarrow>
          if \<not> su_pool u (dc_DSN (cf_Database cfg)) then (Inl PostgresPool, db)
          else if \<not> su_ping u (dc_DSN (cf_Database cfg)) then (Inl PostgresPing, db)
          else let (e, db') = run_migrations (su_exec u) (su_migrationFaults u) (su_migrations u) db
               in case e of Some e \<Rightarrow> (Inl (Migration e), db') | None \<Rightarrow> (Inr cfg, db'))"

text \<open>A process with a database runs the rest of its \<open>main\<close> once the database is open.\<close>

definition with_database ::
  "'d surroundings \<Rightarrow> (config \<Rightarrow> start_error + 's) \<Rightarrow> 'd migration_db \<Rightarrow> (start_error + 's) \<times> 'd migration_db" where
  "with_database u rest db =
     (let (r, db') = open_database u db in (case r of Inl e \<Rightarrow> Inl e | Inr cfg \<Rightarrow> rest cfg, db'))"

definition metrics_address :: "grpc_config \<Rightarrow> string" where
  "metrics_address g = '':'' @ show_int (wrap64 (gr_Port g + 1000))"

text \<open>What every gRPC server has: its address, the one of its metrics, its transport security
  and what its chain of interceptors (\<open>Chain\<close>) is built with: the rate limiter and the secret that
  tokens are checked with.\<close>

record grpc_server =
  gs_Addr :: string
  gs_Metrics :: string
  gs_TLS :: "tls_config option"
  gs_Limiter :: rate_limiter
  gs_Secret :: string

definition grpc_server_of :: "config \<Rightarrow> tls_config option \<Rightarrow> grpc_server" where
  "grpc_server_of cfg tls =
     \<lparr>gs_Addr = grpc_address (cf_GRPC cfg), gs_Metrics = metrics_address (cf_GRPC cfg), gs_TLS = tls,
      gs_Limiter = new_rate_limiter 100 200, gs_Secret = au_JWTSecret (cf_Auth cfg)\<rparr>"

text \<open>Listening and, but for discovery, the credentials.\<close>

definition listen_grpc :: "'d surroundings \<Rightarrow> config \<Rightarrow> start_error + grpc_server" where
  "listen_grpc u cfg =
     (if \<not> su_listen u (grpc_address (cf_GRPC cfg)) then Inl (Listening (grpc_address (cf_GRPC cfg)))
      else case server_credentials (su_tls u) (cf_GRPC cfg) of
             Inl e \<Rightarrow> Inl (TlsCredentials e)
           | Inr tls \<Rightarrow> Inr (grpc_server_of cfg tls))"

section \<open>Identity\<close>

definition new_mailer :: "smtp_config \<Rightarrow> mailer option" where
  "new_mailer m =
     (if sm_Host m \<noteq> '''' \<and> sm_Username m \<noteq> ''''
      then Some \<lparr>ma_Host = sm_Host m, ma_Port = sm_Port m, ma_Username = sm_Username m, ma_Password = sm_Password m,
        ma_From = sm_From m, ma_BaseURL = sm_BaseURL m\<rparr>
      else None)"

text \<open>A Redis client is its address: the code gives it nothing else.\<close>

record identity_process =
  ip_Server :: grpc_server
  ip_Manager :: jwt_manager
  ip_Blacklist :: string
  ip_Pairing :: string
  ip_Mailer :: "mailer option"
  ip_BcryptCost :: int

definition identity_main :: "'d surroundings \<Rightarrow> config \<Rightarrow> start_error + identity_process" where
  "identity_main u cfg =
     (let a = cf_Auth cfg in
      case new_manager (au_JWTSecret a) (au_JWTExpiry a) (au_RefreshExpiry a) of
        None \<Rightarrow> Inl JwtConfiguration
      | Some m \<Rightarrow>
          (case listen_grpc u cfg of
             Inl e \<Rightarrow> Inl e
           | Inr srv \<Rightarrow> Inr \<lparr>ip_Server = srv, ip_Manager = m, ip_Blacklist = rc_Addr (cf_Redis cfg),
                ip_Pairing = rc_Addr (cf_Redis cfg), ip_Mailer = new_mailer (cf_SMTP cfg), ip_BcryptCost = au_BcryptCost a\<rparr>))"

definition start_identity ::
  "'d surroundings \<Rightarrow> 'd migration_db \<Rightarrow> (start_error + identity_process) \<times> 'd migration_db" where
  "start_identity u = with_database u (identity_main u)"

section \<open>Discovery\<close>

record discovery_process =
  dp_Server :: grpc_server
  dp_Node :: p2p_node

definition discovery_main :: "'d surroundings \<Rightarrow> config \<Rightarrow> start_error + discovery_process" where
  "discovery_main u cfg =
     (case new_node (su_libp2p u) \<lparr>pn_ListenAddrs = pp_ListenAddresses (cf_P2P cfg), pn_BootstrapPeers = [], pn_PrivateKey = [],
              pn_EnableRelay = False, pn_EnableDHT = False, pn_EnableHolePunch = False\<rparr> of
        None \<Rightarrow> Inl P2pNode
      | Some node \<Rightarrow>
          if \<not> su_listen u (grpc_address (cf_GRPC cfg)) then Inl (Listening (grpc_address (cf_GRPC cfg)))
          else Inr \<lparr>dp_Server = grpc_server_of cfg None, dp_Node = node\<rparr>)"

definition start_discovery ::
  "'d surroundings \<Rightarrow> 'd migration_db \<Rightarrow> (start_error + discovery_process) \<times> 'd migration_db" where
  "start_discovery u = with_database u (discovery_main u)"

section \<open>Routing\<close>

text \<open>A client is the address it dials with its credentials; dialling happens on the first call.\<close>

type_synonym grpc_client = "string \<times> tls_config option"

definition new_client :: "'d surroundings \<Rightarrow> tls_config option \<Rightarrow> string \<Rightarrow> grpc_client option" where
  "new_client u creds addr = (if su_dial u addr then Some (addr, creds) else None)"

definition node_id_of :: "'d surroundings \<Rightarrow> config \<Rightarrow> node_id" where
  "node_id_of u cfg = env_or_default (su_getenv u ''VINCTUM_NODE_ID'') (sv_Name (cf_Service cfg))"

definition discovery_addr :: "'d surroundings \<Rightarrow> string" where
  "discovery_addr u = env_or_default (su_getenv u ''VINCTUM_DISCOVERY_ADDR'') ''localhost:50052''"

record routing_process =
  rp_Server :: grpc_server
  rp_Collector :: collector
  rp_Scorer :: scorer
  rp_Detector :: anomaly_config
  rp_ML :: "ml_client option"
  rp_NodeID :: node_id
  rp_Discovery :: "grpc_client option"

definition routing_main :: "'d surroundings \<Rightarrow> config \<Rightarrow> start_error + routing_process" where
  "routing_main u cfg =
     (let ml = cf_ML cfg in
      case listen_grpc u cfg of
        Inl e \<Rightarrow> Inl e
      | Inr srv \<Rightarrow>
          (case client_credentials (su_tls u) (cf_GRPC cfg) of
             Inl e \<Rightarrow> Inl (ClientTls e)
           | Inr creds \<Rightarrow>
               Inr \<lparr>rp_Server = srv, rp_Collector = new_collector (10 * minute), rp_Scorer = new_scorer default_weights,
                 rp_Detector = default_anomaly_config,
                 rp_ML = (if mg_APIURL ml \<noteq> '''' then Some \<lparr>mc_baseURL = mg_APIURL ml, mc_apiKey = mg_APIKey ml\<rparr> else None),
                 rp_NodeID = node_id_of u cfg, rp_Discovery = new_client u creds (discovery_addr u)\<rparr>))"

definition start_routing ::
  "'d surroundings \<Rightarrow> 'd migration_db \<Rightarrow> (start_error + routing_process) \<times> 'd migration_db" where
  "start_routing u = with_database u (routing_main u)"

text \<open>How the routing service judges a node.\<close>

definition routing_anomalous ::
  "ml_network \<Rightarrow> routing_process \<Rightarrow> time \<Rightarrow> (node_id \<Rightarrow> bool) \<Rightarrow> node_id \<Rightarrow> bool" where
  "routing_anomalous net p now local_anomalous nid =
     (case rp_ML p of
        None \<Rightarrow> local_anomalous nid
      | Some c \<Rightarrow> ml_router_anomalous net c now (rp_Collector p) local_anomalous nid)"

section \<open>Transfer\<close>

record transfer_process =
  tp_Server :: grpc_server
  tp_Routing :: "grpc_client option"
  tp_Discovery :: "grpc_client option"
  tp_Chunks :: file_store
  tp_Pool :: "peer_pool option" \<comment> \<open>of the relay client\<close>
  tp_NodeID :: node_id
  tp_P2P :: "p2p_node option"

definition start_p2p :: "'d surroundings \<Rightarrow> p2p_config \<Rightarrow> p2p_node option" where
  "start_p2p u p =
     (if pp_EnableRelay p \<or> pp_EnableDHT p
      then new_node (su_libp2p u) \<lparr>pn_ListenAddrs = pp_ListenAddresses p, pn_BootstrapPeers = pp_BootstrapPeers p,
             pn_PrivateKey = [], pn_EnableRelay = pp_EnableRelay p, pn_EnableDHT = pp_EnableDHT p, pn_EnableHolePunch = pp_EnableHolePunch p\<rparr>
      else None)"

definition transfer_main :: "'d surroundings \<Rightarrow> config \<Rightarrow> start_error + transfer_process" where
  "transfer_main u cfg =
     (let routingAddr = env_or_default (su_getenv u ''VINCTUM_ROUTING_ADDR'') ''localhost:50053'';
          chunkDir = env_or_default (su_getenv u ''VINCTUM_CHUNK_DIR'') ''./data/chunks'' in
      case client_credentials (su_tls u) (cf_GRPC cfg) of
        Inl e \<Rightarrow> Inl (ClientTls e)
      | Inr creds \<Rightarrow>
          (case new_file_store (su_mkdir u) chunkDir (su_disk u) of
             Inl e \<Rightarrow> Inl (ChunkStorage e)
           | Inr store \<Rightarrow>
               let discovery = new_client u creds (discovery_addr u);
                   node = start_p2p u (cf_P2P cfg)
               in case listen_grpc u cfg of
                    Inl e \<Rightarrow> Inl e
                  | Inr srv \<Rightarrow>
                      Inr \<lparr>tp_Server = srv, tp_Routing = new_client u creds routingAddr, tp_Discovery = discovery,
                        tp_Chunks = store,
                        tp_Pool = (case discovery of None \<Rightarrow> None | Some _ \<Rightarrow> Some (new_peer_pool 3 (30 * second))),
                        tp_NodeID = node_id_of u cfg, tp_P2P = node\<rparr>))"

definition start_transfer ::
  "'d surroundings \<Rightarrow> 'd migration_db \<Rightarrow> (start_error + transfer_process) \<times> 'd migration_db" where
  "start_transfer u = with_database u (transfer_main u)"

text \<open>The handler that the process serves; \<open>route\<close> is what calls on its routing client return.\<close>

definition transfer_handler ::
  "(grpc_client \<Rightarrow> node_id \<Rightarrow> node_id \<Rightarrow> int32 \<Rightarrow> find_route_response result) \<Rightarrow> transfer_process \<Rightarrow> transfer_config" where
  "transfer_handler route p =
     \<lparr>tc_NodeID = tp_NodeID p, tc_routing = map_option route (tp_Routing p), tc_chunks = True,
      tc_relay = (tp_Pool p \<noteq> None), 
      tc_p2p = map_option (\<lambda>n. (ho_ID (no_Host n), ho_Addrs (no_Host n))) (tp_P2P p)\<rparr>"

section \<open>Gateway\<close>

record service_addresses =
  sa_Identity :: string
  sa_Discovery :: string
  sa_Routing :: string
  sa_Transfer :: string
  sa_ML :: string

record gateway_handler =
  gh_addrs :: service_addresses
  gh_version :: string
  gh_startedAt :: time
  gh_identityConn :: "grpc_client option"
  gh_routingConn :: "grpc_client option"
  gh_transferConn :: "grpc_client option"
  gh_mlAPIKey :: string

text \<open>No client for an address that is empty.\<close>

definition dial_service :: "'d surroundings \<Rightarrow> string \<Rightarrow> string \<Rightarrow> start_error + grpc_client option" where
  "dial_service u what addr =
     (if addr = '''' then Inr None
      else case new_client u None addr of None \<Rightarrow> Inl (GatewayDial what) | Some c \<Rightarrow> Inr (Some c))"

definition new_gateway_handler ::
  "'d surroundings \<Rightarrow> time \<Rightarrow> service_addresses \<Rightarrow> string \<Rightarrow> start_error + gateway_handler" where
  "new_gateway_handler u now addrs version =
     (case dial_service u ''identity'' (sa_Identity addrs) of
        Inl e \<Rightarrow> Inl e
      | Inr identity \<Rightarrow>
          (case dial_service u ''routing'' (sa_Routing addrs) of
             Inl e \<Rightarrow> Inl e
           | Inr routing \<Rightarrow>
               (case dial_service u ''transfer'' (sa_Transfer addrs) of
                  Inl e \<Rightarrow> Inl e
                | Inr transfer \<Rightarrow>
                    Inr \<lparr>gh_addrs = addrs, gh_version = version, gh_startedAt = now, gh_identityConn = identity,
                      gh_routingConn = routing, gh_transferConn = transfer, gh_mlAPIKey = ''''\<rparr>)))"

text \<open>A number that \<open>Sscanf\<close> reads with \<open>%f\<close> is an argument.\<close>

definition env_or_default_float :: "(string \<Rightarrow> real option) \<Rightarrow> string \<Rightarrow> real \<Rightarrow> real" where
  "env_or_default_float scan v fallback =
     (if v \<noteq> ''''
      then let f = (case scan v of None \<Rightarrow> 0 | Some f \<Rightarrow> f) in if f > 0 then f else fallback
      else fallback)"

record gateway_process =
  gp_Handler :: gateway_handler
  gp_Origins :: "string set"
  gp_Limiter :: http_rate_limiter
  gp_AuthLimiter :: http_rate_limiter
  gp_Addr :: string

definition start_gateway ::
  "(string \<Rightarrow> real option) \<Rightarrow> 'd surroundings \<Rightarrow> time \<Rightarrow> start_error + gateway_process" where
  "start_gateway scan u now =
     (case load_config (su_viper u) (su_file u) (su_getenv u) of
        Inl e \<Rightarrow> Inl (LoadConfig e)
      | Inr cfg \<Rightarrow>
          let env = (\<lambda>key. env_or_default (su_getenv u key));
              addrs = \<lparr>sa_Identity = env ''VINCTUM_GATEWAY_IDENTITY_ADDR'' ''localhost:50051'',
                sa_Discovery = env ''VINCTUM_GATEWAY_DISCOVERY_ADDR'' ''localhost:50052'',
                sa_Routing = env ''VINCTUM_GATEWAY_ROUTING_ADDR'' ''localhost:50053'',
                sa_Transfer = env ''VINCTUM_GATEWAY_TRANSFER_ADDR'' ''localhost:50054'',
                sa_ML = env ''VINCTUM_GATEWAY_ML_ADDR'' ''''\<rparr>
          in case new_gateway_handler u now addrs (sv_Version (cf_Service cfg)) of
               Inl e \<Rightarrow> Inl e
             | Inr gw \<Rightarrow>
                 let key = mg_APIKey (cf_ML cfg)
                 in Inr \<lparr>gp_Handler = (if key \<noteq> '''' then gw\<lparr>gh_mlAPIKey := key\<rparr> else gw),
                      gp_Origins = parse_origins (env ''VINCTUM_CORS_ORIGINS''
                        ''http://localhost:5173,http://localhost:3000,http://localhost:8081,http://localhost:8082''),
                      gp_Limiter = new_http_rate_limiter (env_or_default_float scan (su_getenv u ''VINCTUM_HTTP_RATE_RPS'') 20)
                        (env_or_default_int (su_getenv u ''VINCTUM_HTTP_RATE_BURST'') 60),
                      gp_AuthLimiter =
                        new_http_rate_limiter (env_or_default_float scan (su_getenv u ''VINCTUM_HTTP_AUTH_RATE_RPS'') 5)
                          (env_or_default_int (su_getenv u ''VINCTUM_HTTP_AUTH_RATE_BURST'') 10),
                      gp_Addr = '':'' @ show_int (env_or_default_int (su_getenv u ''VINCTUM_GATEWAY_HTTP_PORT'') 8080)\<rparr>)"

end
