(* ===== verification/StartupLaws.thy ===== *)
theory StartupLaws
  imports Startup
begin

text \<open>
  What a deployment gets from its configuration: which settings the environment can give, who
  accepts whose tokens, and which processes can talk to each other.
\<close>

section \<open>Settings\<close>

definition known_file :: "file_read \<Rightarrow> bool" where
  "known_file read = (case read of Settings file \<Rightarrow> fst ` set file \<subseteq> fst ` set set_defaults \<union> set other_keys | _ \<Rightarrow> True)"

definition file_of :: "file_read \<Rightarrow> config_file" where
  "file_of read = (case read of Settings file \<Rightarrow> file | _ \<Rightarrow> [])"

lemma no_file: "file_of NoConfigFile = []" "known_file NoConfigFile"
  by (simp_all add: file_of_def known_file_def)

lemma load_config_Inr:
  assumes "load_config v read env = Inr cfg"
  shows "unmarshal v (vi_get v set_defaults (file_of read) env) = Some cfg" "sv_Name (cf_Service cfg) \<noteq> ''''"
  using assms by (auto simp: load_config_def file_of_def Let_def split: file_read.splits option.splits if_splits)

lemma section_fields:
  "unmarshal_auth v get = Some a \<Longrightarrow> str_field v get ''auth.jwt_secret'' = Some (au_JWTSecret a)"
  "unmarshal_grpc v get = Some g \<Longrightarrow> str_field v get ''grpc.cert_file'' = Some (gr_CertFile g)"
  "unmarshal_smtp v get = Some m \<Longrightarrow> str_field v get ''smtp.username'' = Some (sm_Username m)"
  by (auto simp: unmarshal_auth_def unmarshal_grpc_def unmarshal_smtp_def bind_eq_Some_conv)

lemma unmarshal_fields:
  assumes "unmarshal v get = Some cfg"
  shows "str_field v get ''auth.jwt_secret'' = Some (au_JWTSecret (cf_Auth cfg))"
    and "str_field v get ''grpc.cert_file'' = Some (gr_CertFile (cf_GRPC cfg))"
    and "str_field v get ''smtp.username'' = Some (sm_Username (cf_SMTP cfg))"
  using assms by (intro section_fields, auto simp: unmarshal_def bind_eq_Some_conv)+

lemma default_keys: "''auth.jwt_secret'' \<in> fst ` set set_defaults" "map_of set_defaults ''auth.jwt_secret'' = Some (SStr '''')"
  "''grpc.cert_file'' \<notin> fst ` set set_defaults" "''smtp.username'' \<notin> fst ` set set_defaults"
  by (simp_all add: set_defaults_def)

lemma viper_get:
  assumes "viper_laws v" "known_file read"
  shows "vi_get v set_defaults (file_of read) env key =
    (if key \<notin> fst ` set set_defaults \<and> key \<notin> fst ` set (file_of read) then None
     else if env (env_name key) \<noteq> '''' then Some (SStr (env (env_name key)))
     else if list_ex (\<lambda>p. env (env_name p) \<noteq> '''') (parent_keys key) then None
     else case map_of (file_of read) key of Some x \<Rightarrow> Some x | None \<Rightarrow> map_of set_defaults key)"
proof -
  have "fst ` set (file_of read) \<subseteq> fst ` set set_defaults \<union> set other_keys"
    using assms(2) by (cases read) (simp_all add: known_file_def file_of_def)
  then show ?thesis using assms(1) [unfolded viper_laws_def, THEN conjunct1] by simp
qed

lemma viper_string: "viper_laws v \<Longrightarrow> vi_string v (SStr s) = Some s"
  by (simp add: viper_laws_def)

text \<open>A setting without a default keeps its zero value when there is no configuration file, whatever
  the environment says.\<close>

lemma ignored_settings:
  assumes "viper_laws v" "load_config v NoConfigFile env = Inr cfg"
  shows "gr_CertFile (cf_GRPC cfg) = ''''" "sm_Username (cf_SMTP cfg) = ''''"
proof -
  note get = viper_get [OF assms(1) no_file(2), of env, unfolded no_file]
  note fields = unmarshal_fields [OF load_config_Inr(1) [OF assms(2), unfolded no_file]]
  show "gr_CertFile (cf_GRPC cfg) = ''''"
    using fields(2) default_keys(3) by (simp add: field_def get no_file)
  show "sm_Username (cf_SMTP cfg) = ''''"
    using fields(3) default_keys(4) by (simp add: field_def get no_file)
qed

lemma secret_name: "env_name ''auth.jwt_secret'' = ''VINCTUM_AUTH_JWT_SECRET''"
  by code_simp

lemma configured_secret:
  assumes "viper_laws v" "known_file read" "load_config v read env = Inr cfg"
  shows "env ''VINCTUM_AUTH_JWT_SECRET'' \<noteq> '''' \<longrightarrow> au_JWTSecret (cf_Auth cfg) = env ''VINCTUM_AUTH_JWT_SECRET''"
    and "env ''VINCTUM_AUTH_JWT_SECRET'' = '''' \<and> read = NoConfigFile \<longrightarrow> au_JWTSecret (cf_Auth cfg) = ''''"
  using unmarshal_fields(1) [OF load_config_Inr(1) [OF assms(3)]] default_keys(1,2)
  by (auto simp: field_def viper_get [OF assms(1,2)] secret_name viper_string [OF assms(1)] no_file
      split: if_splits option.splits)

section \<open>Processes that started\<close>

lemma with_database_Inr:
  assumes "fst (with_database u rest db) = Inr p"
  obtains cfg where "load_config (su_viper u) (su_file u) (su_getenv u) = Inr cfg" "rest cfg = Inr p"
  using assms that
  by (auto simp: with_database_def open_database_def Let_def split: sum.splits prod.splits if_splits option.splits)

definition started :: "(start_error + 'p) \<times> 'd \<Rightarrow> 'p list" where
  "started r = (case fst r of Inl _ \<Rightarrow> [] | Inr p \<Rightarrow> [p])"

text \<open>The gRPC servers that come up in some surroundings.\<close>

definition grpc_servers :: "'d surroundings \<Rightarrow> 'd migration_db \<Rightarrow> grpc_server list" where
  "grpc_servers u db =
     map ip_Server (started (start_identity u db)) @ map dp_Server (started (start_discovery u db))
     @ map rp_Server (started (start_routing u db)) @ map tp_Server (started (start_transfer u db))"

lemma started_iff: "p \<in> set (started r) \<longleftrightarrow> fst r = Inr p"
  by (auto simp: started_def split: sum.splits)

lemma listen_grpc_Inr:
  assumes "listen_grpc u cfg = Inr srv"
  obtains tls where "server_credentials (su_tls u) (cf_GRPC cfg) = Inr tls" "srv = grpc_server_of cfg tls"
  using assms that by (auto simp: listen_grpc_def split: if_splits sum.splits)

lemma mains_secret:
  "identity_main u cfg = Inr ip \<Longrightarrow> \<exists>tls. server_credentials (su_tls u) (cf_GRPC cfg) = Inr tls \<and> ip_Server ip = grpc_server_of cfg tls
     \<and> new_manager (au_JWTSecret (cf_Auth cfg)) (au_JWTExpiry (cf_Auth cfg)) (au_RefreshExpiry (cf_Auth cfg)) = Some (ip_Manager ip)
     \<and> ip_Mailer ip = new_mailer (cf_SMTP cfg)"
  "discovery_main u cfg = Inr dp \<Longrightarrow> dp_Server dp = grpc_server_of cfg None"
  "routing_main u cfg = Inr rp \<Longrightarrow> \<exists>tls creds. server_credentials (su_tls u) (cf_GRPC cfg) = Inr tls
     \<and> client_credentials (su_tls u) (cf_GRPC cfg) = Inr creds \<and> rp_Server rp = grpc_server_of cfg tls
     \<and> rp_Discovery rp = new_client u creds (discovery_addr u)"
  "transfer_main u cfg = Inr tp \<Longrightarrow> \<exists>tls creds. server_credentials (su_tls u) (cf_GRPC cfg) = Inr tls
     \<and> client_credentials (su_tls u) (cf_GRPC cfg) = Inr creds \<and> tp_Server tp = grpc_server_of cfg tls
     \<and> tp_Discovery tp = new_client u creds (discovery_addr u)"
  by (auto simp: identity_main_def discovery_main_def routing_main_def transfer_main_def Let_def
      split: if_splits sum.splits option.splits elim!: listen_grpc_Inr)

lemma server_config:
  assumes "srv \<in> set (grpc_servers u db)"
  shows "\<exists>cfg tls. load_config (su_viper u) (su_file u) (su_getenv u) = Inr cfg \<and> srv = grpc_server_of cfg tls"
  using assms unfolding grpc_servers_def start_identity_def start_discovery_def start_routing_def start_transfer_def
  by (auto simp: started_iff elim!: with_database_Inr dest!: mains_secret) blast+

lemma server_secret:
  assumes "srv \<in> set (grpc_servers u db)" "load_config (su_viper u) (su_file u) (su_getenv u) = Inr cfg"
  shows "gs_Secret srv = au_JWTSecret (cf_Auth cfg)"
  using server_config [OF assms(1)] assms(2) by (auto simp: grpc_server_of_def)

section \<open>Tokens\<close>

lemma bearer_context:
  assumes "jwt_laws lib secret" "jw_sign lib secret claims = Some tok"
    and "gc_FullMethod c \<notin> public_methods" "gc_Metadata c = Some ((''Bearer '' @ tok) # md)"
  shows "unary_context lib secret c =
    (if gc_Parsed c < cl_ExpiresAt claims then Inr \<lparr>ac_user = Some (cl_Subject claims), ac_email = Some (cl_Email claims)\<rparr>
     else Inl (Status Unauthenticated ''invalid token''))"
  using assms(3,4) signed_parse [OF assms(1,2), of "gc_Parsed c"]
  by (simp add: unary_context_def authenticate_def trim_prefix_def)

lemma manager_Some:
  assumes "new_manager secret access refresh = Some m"
  shows "jm_secret m = secret" "jm_accessExpiry m = access" "32 \<le> length secret"
  using assms by (auto simp: new_manager_def split: if_splits)

lemma identity_started:
  assumes "fst (start_identity u db) = Inr p"
  obtains cfg where "load_config (su_viper u) (su_file u) (su_getenv u) = Inr cfg"
    and "jm_secret (ip_Manager p) = au_JWTSecret (cf_Auth cfg)" "32 \<le> length (au_JWTSecret (cf_Auth cfg))"
  using assms that manager_Some
  by (auto simp: start_identity_def elim!: with_database_Inr dest!: mains_secret)

text \<open>
  C29: services that are started with the same secret in \<open>VINCTUM_AUTH_JWT_SECRET\<close> share their
  users. When the identity service is up, that secret has at least 32 bytes, and a token it issues
  makes the interceptors of every server that is up with the same secret, from any configuration
  file, run handlers as the user the token was issued to, until it expires; then it is refused.
\<close>

theorem services_share_tokens:
  assumes "viper_laws (su_viper u)" "known_file (su_file u)" "viper_laws (su_viper u')" "known_file (su_file u')"
    and "su_getenv u ''VINCTUM_AUTH_JWT_SECRET'' = secret" "su_getenv u' ''VINCTUM_AUTH_JWT_SECRET'' = secret" "secret \<noteq> ''''"
    and "fst (start_identity u db) = Inr p" "srv \<in> set (grpc_servers u' db')"
    and "jwt_laws lib secret" "issue lib (ip_Manager p) now userID email = Some pair"
    and "gc_FullMethod c \<notin> public_methods" "gc_Metadata c = Some ((''Bearer '' @ tp_AccessToken pair) # md)"
  shows "32 \<le> length (gs_Secret srv)
    \<and> unary_context lib (gs_Secret srv) c =
      (if gc_Parsed c < numeric_date (now + jm_accessExpiry (ip_Manager p))
       then Inr \<lparr>ac_user = Some userID, ac_email = Some email\<rparr>
       else Inl (Status Unauthenticated ''invalid token''))"
proof -
  obtain cfg where cfg: "load_config (su_viper u) (su_file u) (su_getenv u) = Inr cfg"
    "jm_secret (ip_Manager p) = au_JWTSecret (cf_Auth cfg)" "32 \<le> length (au_JWTSecret (cf_Auth cfg))"
    using identity_started [OF assms(8)] .
  obtain cfg' where cfg': "load_config (su_viper u') (su_file u') (su_getenv u') = Inr cfg'"
    using server_config [OF assms(9)] by blast
  have secret: "au_JWTSecret (cf_Auth cfg) = secret" "gs_Secret srv = secret"
    using configured_secret(1) [OF assms(1,2) cfg(1)] configured_secret(1) [OF assms(3,4) cfg'] assms(5-7)
      server_secret [OF assms(9) cfg'] by simp_all
  then show ?thesis
    using cfg(3) bearer_context [OF assms(10) issue_Some(1) [OF assms(11), unfolded cfg(2) secret(1)], of c md] assms(12,13) by simp
qed

text \<open>
  C30: only the identity service checks the secret. On a machine without a configuration file and
  with no secret in the environment it does not start; every other server that comes up on such
  a machine checks tokens with the empty key: whoever signs claims of their choice with the
  empty key is served as the user they name. (With a configuration file the secret may come
  from there; the theorem says nothing about that.)
\<close>

theorem unset_secret_accepts_forged_tokens:
  assumes "viper_laws (su_viper u)" "su_file u = NoConfigFile" "su_getenv u ''VINCTUM_AUTH_JWT_SECRET'' = ''''"
    and "srv \<in> set (grpc_servers u db)"
    and "jwt_laws lib ''''" "jw_sign lib '''' claims = Some tok"
    and "gc_FullMethod c \<notin> public_methods" "gc_Metadata c = Some ((''Bearer '' @ tok) # md)" "gc_Parsed c < cl_ExpiresAt claims"
  shows "is_ok (fst (start_identity u db')) = False
    \<and> unary_context lib (gs_Secret srv) c = Inr \<lparr>ac_user = Some (cl_Subject claims), ac_email = Some (cl_Email claims)\<rparr>"
proof -
  have secret: "au_JWTSecret (cf_Auth cfg) = ''''" if "load_config (su_viper u) (su_file u) (su_getenv u) = Inr cfg" for cfg
    using configured_secret(2) [OF assms(1) _ that] assms(2,3) no_file by simp
  have "\<not> is_ok (fst (start_identity u db'))"
  proof
    assume "is_ok (fst (start_identity u db'))"
    then obtain p where "fst (start_identity u db') = Inr p" unfolding is_ok_iff by blast
    from identity_started [OF this] obtain cfg where "load_config (su_viper u) (su_file u) (su_getenv u) = Inr cfg"
      "32 \<le> length (au_JWTSecret (cf_Auth cfg))" .
    then show False using secret by simp
  qed
  moreover obtain cfg where "load_config (su_viper u) (su_file u) (su_getenv u) = Inr cfg"
    using server_config [OF assms(4)] by blast
  then have "gs_Secret srv = ''''" using server_secret [OF assms(4)] secret by simp
  ultimately show ?thesis using bearer_context [OF assms(5,6,7,8)] assms(9) by simp
qed

section \<open>Transport security\<close>

text \<open>Without a configuration file no server has transport security and no mail can be sent: the
  names of the certificate and of the SMTP user have no default, so the environment is not asked
  for them.\<close>

theorem environment_gives_no_tls_and_no_mail:
  assumes "viper_laws (su_viper u)" "su_file u = NoConfigFile" "\<And>key. \<not> tf_keyPair (su_tls u) '''' key"
  shows "(\<forall>srv\<in>set (grpc_servers u db). gs_TLS srv = None)
    \<and> (\<forall>p\<in>set (started (start_identity u db)). ip_Mailer p = None)"
proof -
  have plain: "gr_CertFile (cf_GRPC cfg) = ''''" "new_mailer (cf_SMTP cfg) = None"
    if "load_config (su_viper u) (su_file u) (su_getenv u) = Inr cfg" for cfg
    using ignored_settings [OF assms(1), of "su_getenv u" cfg] that assms(2) by (simp_all add: new_mailer_def)
  have tls: "creds = None"
    if "load_config (su_viper u) (su_file u) (su_getenv u) = Inr cfg" "server_credentials (su_tls u) (cf_GRPC cfg) = Inr creds"
    for cfg creds
    using that(2) plain(1) [OF that(1)] assms(3) by (auto simp: server_credentials_def split: if_splits sum.splits)
  show ?thesis
    unfolding grpc_servers_def start_identity_def start_discovery_def start_routing_def start_transfer_def
    by (auto simp: started_iff grpc_server_of_def plain tls elim!: with_database_Inr dest!: mains_secret)
qed

text \<open>Transport security that is switched on splits the platform: discovery serves without it, the
  clients that routing and transfer have for discovery insist on it, and the gateway dials every
  service without.\<close>

theorem tls_splits_the_platform:
  assumes "load_config (su_viper u) (su_file u) (su_getenv u) = Inr cfg" "gr_TLSEnabled (cf_GRPC cfg)"
  shows "(\<forall>p\<in>set (started (start_identity u db)). gs_TLS (ip_Server p) \<noteq> None)
    \<and> (\<forall>p\<in>set (started (start_discovery u db)). gs_TLS (dp_Server p) = None)
    \<and> (\<forall>p\<in>set (started (start_routing u db)). gs_TLS (rp_Server p) \<noteq> None
         \<and> (\<forall>addr creds. rp_Discovery p = Some (addr, creds) \<longrightarrow> creds \<noteq> None))
    \<and> (\<forall>p\<in>set (started (start_transfer u db)). gs_TLS (tp_Server p) \<noteq> None
         \<and> (\<forall>addr creds. tp_Discovery p = Some (addr, creds) \<longrightarrow> creds \<noteq> None))
    \<and> (\<forall>g addr creds. start_gateway scan u now = Inr g \<longrightarrow> gh_identityConn (gp_Handler g) = Some (addr, creds) \<longrightarrow> creds = None)"
proof -
  have on: "server_credentials (su_tls u) (cf_GRPC cfg) \<noteq> Inr None" "client_credentials (su_tls u) (cf_GRPC cfg) \<noteq> Inr None"
    using assms(2) by (auto simp: server_credentials_def client_credentials_def split: if_splits sum.splits)
  have "gh_identityConn (gp_Handler g) = Some (addr, creds) \<Longrightarrow> creds = None" if "start_gateway scan u now = Inr g" for g addr creds
    using that assms(1)
    by (auto simp: start_gateway_def new_gateway_handler_def dial_service_def new_client_def Let_def
        split: sum.splits if_splits option.splits)
  then show ?thesis
    unfolding start_identity_def start_discovery_def start_routing_def start_transfer_def
    using on assms(1)
    by (auto simp: started_iff grpc_server_of_def new_client_def split: if_splits elim!: with_database_Inr dest!: mains_secret)
qed

end
