(* ===== verification/StartupExample.thy ===== *)
theory StartupExample
  imports StartupLaws
begin

text \<open>
  A machine on which every call succeeds, with an environment that gives a service its name and its
  secret, and the laws of \<open>StartupLaws\<close> applied to it.
\<close>

definition durations :: "(setting \<times> time) list" where
  "durations = [(SStr ''30s'', 30 * second), (SStr ''5s'', 5 * second), (SStr ''5m'', 5 * minute), (SStr ''24h'', day),
     (SStr ''168h'', 7 * day)]"

definition demo_viper :: viper where
  "demo_viper =
     \<lparr>vi_get = (\<lambda>defaults file env key.
         if key \<notin> fst ` set defaults \<and> key \<notin> fst ` set file then None
         else if env (env_name key) \<noteq> '''' then Some (SStr (env (env_name key)))
         else if list_ex (\<lambda>p. env (env_name p) \<noteq> '''') (parent_keys key) then None
         else case map_of file key of Some x \<Rightarrow> Some x | None \<Rightarrow> map_of defaults key),
      vi_string = (\<lambda>x. case x of SStr s \<Rightarrow> Some s | _ \<Rightarrow> None),
      vi_int = (\<lambda>x. case x of SInt i \<Rightarrow> Some i | SStr s \<Rightarrow> atoi s | _ \<Rightarrow> None),
      vi_bool = (\<lambda>x. case x of SBool b \<Rightarrow> Some b | _ \<Rightarrow> None),
      vi_duration = map_of durations,
      vi_strings = (\<lambda>x. case x of SList l \<Rightarrow> Some l | _ \<Rightarrow> None)\<rparr>"

lemma demo_viper_laws: "viper_laws demo_viper"
  by (simp add: viper_laws_def demo_viper_def)

text \<open>A machine on which every call succeeds, with a service name and a secret in its environment.\<close>

definition demo_env :: "string \<Rightarrow> string \<Rightarrow> string" where
  "demo_env secret k =
     (if k = ''VINCTUM_SERVICE_NAME'' then ''svc'' else if k = ''VINCTUM_AUTH_JWT_SECRET'' then secret else '''')"

definition demo_machine :: "string \<Rightarrow> unit surroundings" where
  "demo_machine secret =
     \<lparr>su_viper = demo_viper, su_file = NoConfigFile, su_getenv = demo_env secret,
      su_pool = (\<lambda>_. True), su_ping = (\<lambda>_. True), su_exec = (\<lambda>_ d. Some d), su_migrationFaults = quiet_run,
      su_migrations = [], su_tls = \<lparr>tf_keyPair = (\<lambda>_ _. False), tf_readFile = (\<lambda>_. None), tf_isCA = (\<lambda>_. False)\<rparr>,
      su_listen = (\<lambda>_. True), su_dial = (\<lambda>_. True), su_mkdir = ChunkStore.no_faults, su_disk = [],
      su_libp2p = \<lparr>lp_new = (\<lambda>_. Some \<lparr>ho_ID = ''P'', ho_Addrs = []\<rparr>), lp_multiaddr = Some, lp_addrInfo = Some,
        lp_connect = (\<lambda>_ _. True)\<rparr>\<rparr>"

lemma length_env_name [simp]: "length (env_name key) = 8 + length key"
  by (simp add: env_name_def)

lemma demo_env_unset:
  assumes "length key \<noteq> 12" "length key \<noteq> 15"
  shows "demo_env secret (env_name key) = ''''"
proof -
  have "length (env_name key) \<noteq> 20" "length (env_name key) \<noteq> 23" using assms by simp_all
  then have "env_name key \<noteq> ''VINCTUM_SERVICE_NAME''" "env_name key \<noteq> ''VINCTUM_AUTH_JWT_SECRET''"
    by (auto dest: arg_cong [where f = length])
  then show ?thesis by (simp add: demo_env_def)
qed

lemma env_names:
  "env_name ''service.name'' = ''VINCTUM_SERVICE_NAME''"
  "env_name ''service.version'' = ''VINCTUM_SERVICE_VERSION''"
  "env_name ''auth.jwt_expiry'' = ''VINCTUM_AUTH_JWT_EXPIRY''"
  "env_name ''database.driver'' = ''VINCTUM_DATABASE_DRIVER''"
  "env_name ''database.dsn'' = ''VINCTUM_DATABASE_DSN''"
  by code_simp+

lemma demo_unset:
  "demo_env secret (env_name ''service.name'') = ''svc''" "demo_env secret (env_name ''auth.jwt_secret'') = secret"
  "demo_env secret (env_name ''service.version'') = ''''"
  "demo_env secret (env_name ''auth.jwt_expiry'') = ''''"
  "demo_env secret (env_name ''database.driver'') = ''''"
  "demo_env secret (env_name ''database.dsn'') = ''''"
  by (simp_all add: env_names secret_name demo_env_def)

lemma map_of_keys: "key \<notin> fst ` set kvs \<longleftrightarrow> map_of kvs key = None"
  by (simp add: map_of_eq_None_iff)

definition default_value :: "string \<Rightarrow> setting option" where
  "default_value key = map_of set_defaults key"

lemma default_parents: "\<forall>k\<in>set (map fst set_defaults). \<forall>p\<in>set (parent_keys k). length p \<noteq> 12 \<and> length p \<noteq> 15"
  by code_simp

lemma demo_parents:
  assumes "default_value key = Some x"
  shows "\<not> list_ex (\<lambda>p. demo_env secret (env_name p) \<noteq> '''') (parent_keys key)"
proof -
  have "(key, x) \<in> set set_defaults" using assms by (auto simp: default_value_def intro: map_of_SomeD)
  then have "key \<in> set (map fst set_defaults)" by force
  then show ?thesis using default_parents demo_env_unset by (auto simp: list_ex_iff)
qed

lemma demo_get:
  "vi_get demo_viper set_defaults [] (demo_env secret) key =
     (case default_value key of None \<Rightarrow> None
      | Some x \<Rightarrow> if demo_env secret (env_name key) \<noteq> '''' then Some (SStr (demo_env secret (env_name key))) else Some x)"
  using demo_parents [of key _ secret] unfolding demo_viper_def viper.simps map_of_keys default_value_def
  by (auto split: option.splits)

lemmas demo_fields = field_def demo_get demo_env_unset demo_unset durations_def
  default_value_def [unfolded set_defaults_def]

lemma demo_decoders:
  "vi_string demo_viper = (\<lambda>x. case x of SStr s \<Rightarrow> Some s | _ \<Rightarrow> None)"
  "vi_int demo_viper = (\<lambda>x. case x of SInt i \<Rightarrow> Some i | SStr s \<Rightarrow> atoi s | _ \<Rightarrow> None)"
  "vi_bool demo_viper = (\<lambda>x. case x of SBool b \<Rightarrow> Some b | _ \<Rightarrow> None)"
  "vi_duration demo_viper = map_of durations"
  "vi_strings demo_viper = (\<lambda>x. case x of SList l \<Rightarrow> Some l | _ \<Rightarrow> None)"
  by (simp_all add: demo_viper_def)

abbreviation demo_lookup :: "string \<Rightarrow> string \<Rightarrow> setting option" where
  "demo_lookup secret \<equiv> vi_get demo_viper set_defaults [] (demo_env secret)"

lemma demo_service: "unmarshal_service demo_viper (demo_lookup secret) =
   Some \<lparr>sv_Name = ''svc'', sv_Environment = ''development'', sv_Version = ''0.1.0'', sv_LogLevel = ''info''\<rparr>"
  by (simp add: unmarshal_service_def demo_fields demo_decoders)

lemma demo_auth: "unmarshal_auth demo_viper (demo_lookup secret) =
   Some \<lparr>au_JWTSecret = secret, au_JWTExpiry = day, au_RefreshExpiry = 7 * day, au_BcryptCost = 12\<rparr>"
  by (simp add: unmarshal_auth_def demo_fields demo_decoders)

lemma demo_sections:
  "\<exists>x. unmarshal_database demo_viper (demo_lookup secret) = Some x"
  "\<exists>x. unmarshal_redis demo_viper (demo_lookup secret) = Some x"
  "\<exists>x. unmarshal_smtp demo_viper (demo_lookup secret) = Some x"
  "\<exists>x. unmarshal_p2p demo_viper (demo_lookup secret) = Some x"
  "\<exists>x. unmarshal_wireguard demo_viper (demo_lookup secret) = Some x"
  "\<exists>x. unmarshal_ml demo_viper (demo_lookup secret) = Some x"
  by (simp_all add: unmarshal_database_def unmarshal_redis_def unmarshal_smtp_def unmarshal_p2p_def unmarshal_wireguard_def
      unmarshal_ml_def demo_fields demo_decoders)

lemma demo_grpc: "\<exists>g. unmarshal_grpc demo_viper (demo_lookup secret) = Some g \<and> \<not> gr_TLSEnabled g"
  by (simp add: unmarshal_grpc_def demo_fields demo_decoders)


lemma demo_config:
  obtains cfg where "load_config demo_viper NoConfigFile (demo_env secret) = Inr cfg"
    and "cf_Auth cfg = \<lparr>au_JWTSecret = secret, au_JWTExpiry = day, au_RefreshExpiry = 7 * day, au_BcryptCost = 12\<rparr>"
    and "\<not> gr_TLSEnabled (cf_GRPC cfg)"
proof -
  obtain g db r m p w ml where s: "unmarshal_grpc demo_viper (demo_lookup secret) = Some g" "\<not> gr_TLSEnabled g"
    "unmarshal_database demo_viper (demo_lookup secret) = Some db" "unmarshal_redis demo_viper (demo_lookup secret) = Some r"
    "unmarshal_smtp demo_viper (demo_lookup secret) = Some m" "unmarshal_p2p demo_viper (demo_lookup secret) = Some p"
    "unmarshal_wireguard demo_viper (demo_lookup secret) = Some w" "unmarshal_ml demo_viper (demo_lookup secret) = Some ml"
    using demo_grpc [of secret] demo_sections [of secret] by blast
  then have "\<exists>cfg. load_config demo_viper NoConfigFile (demo_env secret) = Inr cfg
      \<and> cf_Auth cfg = \<lparr>au_JWTSecret = secret, au_JWTExpiry = day, au_RefreshExpiry = 7 * day, au_BcryptCost = 12\<rparr>
      \<and> \<not> gr_TLSEnabled (cf_GRPC cfg)"
    by (simp add: load_config_def unmarshal_def demo_service demo_auth)
  then show thesis using that by blast
qed

lemma demo_database:
  assumes "load_config demo_viper NoConfigFile (demo_env secret) = Inr cfg"
  shows "fst (open_database (demo_machine secret) db) = Inr cfg"
  using assms
  by (simp add: open_database_def demo_machine_def run_migrations_def list_sql_def quiet_run_def)

text \<open>With a secret of 32 bytes the identity service and the others start; with none the others do.\<close>

lemma demo_starts:
  "\<exists>srv. srv \<in> set (grpc_servers (demo_machine secret) db)"
  "32 \<le> length secret \<Longrightarrow> \<exists>p. fst (start_identity (demo_machine secret) db) = Inr p
     \<and> ip_Manager p = \<lparr>jm_secret = secret, jm_accessExpiry = day, jm_refreshExpiry = 7 * day\<rparr>"
proof -
  obtain cfg where cfg: "load_config demo_viper NoConfigFile (demo_env secret) = Inr cfg"
    "cf_Auth cfg = \<lparr>au_JWTSecret = secret, au_JWTExpiry = day, au_RefreshExpiry = 7 * day, au_BcryptCost = 12\<rparr>"
    "\<not> gr_TLSEnabled (cf_GRPC cfg)" by (rule demo_config)
  note up = demo_database [OF cfg(1)]
  have calls: "\<exists>node. new_node (su_libp2p (demo_machine secret)) n = Some node" "su_listen (demo_machine secret) a" for n a
    by (simp_all add: demo_machine_def new_node_def)
  have "\<exists>p. fst (start_discovery (demo_machine secret) db) = Inr p"
    using up [of db] calls(1) by (simp add: start_discovery_def with_database_def discovery_main_def case_prod_unfold calls(2) split: option.splits)
  then show "\<exists>srv. srv \<in> set (grpc_servers (demo_machine secret) db)"
    by (auto simp: grpc_servers_def started_def)
  show "\<exists>p. fst (start_identity (demo_machine secret) db) = Inr p
     \<and> ip_Manager p = \<lparr>jm_secret = secret, jm_accessExpiry = day, jm_refreshExpiry = 7 * day\<rparr>" if "32 \<le> length secret"
    using up [of db] cfg(2,3) that
    by (simp add: start_identity_def with_database_def identity_main_def case_prod_unfold new_manager_def listen_grpc_def
        server_credentials_def calls(2))
qed

definition day_claims :: "time \<Rightarrow> claims" where
  "day_claims t = \<lparr>cl_Subject = ''u1'', cl_Email = ''ann@x.io'', cl_IssuedAt = 0, cl_ExpiresAt = t\<rparr>"

definition day_tokens :: jwt_lib where
  "day_tokens =
     \<lparr>jw_sign = (\<lambda>secret c. if c = day_claims day then Some ''D'' else if c = day_claims (7 * day) then Some ''W'' else None),
      jw_parse = (\<lambda>now key t. if t = ''D'' \<and> now < day then Some (day_claims day)
         else if t = ''W'' \<and> now < 7 * day then Some (day_claims (7 * day)) else None)\<rparr>"

lemma day_tokens_laws: "jwt_laws day_tokens secret"
  by (auto simp: jwt_laws_def day_tokens_def day_claims_def split: if_splits)

definition demo_secret :: string where
  "demo_secret = replicate 32 (CHR ''k'')"

definition fresh_db :: "unit migration_db" where
  "fresh_db = \<lparr>md_versions = None, md_schema = ()\<rparr>"

lemma demo_token: "jw_sign day_tokens secret (day_claims day) = Some ''D''"
  by (simp add: day_tokens_def)

lemma numeric_days: "numeric_date day = day" "numeric_date (7 * day) = 7 * day" "numeric_date 0 = 0"
  by (simp_all add: numeric_date_def day_def minute_def second_def)

lemma some_day: "7 < day"
  by (simp add: day_def minute_def second_def)

lemma demo_issue:
  assumes "ip_Manager p = \<lparr>jm_secret = s, jm_accessExpiry = day, jm_refreshExpiry = 7 * day\<rparr>"
  shows "issue day_tokens (ip_Manager p) 0 ''u1'' ''ann@x.io'' =
    Some \<lparr>tp_AccessToken = ''D'', tp_RefreshToken = ''W'', tp_ExpiresIn = day sdiv second\<rparr>"
proof -
  have "day_claims (7 * day) \<noteq> day_claims day" by (simp add: day_claims_def day_def minute_def second_def)
  then have "sign_token day_tokens (ip_Manager p) 0 ''u1'' ''ann@x.io'' day = Some ''D''"
    "sign_token day_tokens (ip_Manager p) 0 ''u1'' ''ann@x.io'' (7 * day) = Some ''W''"
    by (simp_all add: sign_token_def day_tokens_def numeric_days flip: day_claims_def)
  then show ?thesis by (simp add: issue_def assms)
qed

theorem services_share_tokens_witness:
  "\<exists>p srv. fst (start_identity (demo_machine demo_secret) fresh_db) = Inr p
     \<and> srv \<in> set (grpc_servers (demo_machine demo_secret) fresh_db) \<and> 32 \<le> length (gs_Secret srv)
     \<and> unary_context day_tokens (gs_Secret srv) (demo_call ''/transfer.v1.TransferService/CancelTransfer'' [''Bearer D''] 7)
       = Inr \<lparr>ac_user = Some ''u1'', ac_email = Some ''ann@x.io''\<rparr>"
proof -
  have secret: "32 \<le> length demo_secret" "demo_secret \<noteq> ''''" by (simp_all add: demo_secret_def)
  obtain p srv where p: "fst (start_identity (demo_machine demo_secret) fresh_db) = Inr p"
      "ip_Manager p = \<lparr>jm_secret = demo_secret, jm_accessExpiry = day, jm_refreshExpiry = 7 * day\<rparr>"
    and srv: "srv \<in> set (grpc_servers (demo_machine demo_secret) fresh_db)"
    using demo_starts [of demo_secret fresh_db] secret(1) by blast
  have machine: "viper_laws (su_viper (demo_machine demo_secret))" "known_file (su_file (demo_machine demo_secret))"
    "su_getenv (demo_machine demo_secret) ''VINCTUM_AUTH_JWT_SECRET'' = demo_secret"
    by (simp_all add: demo_machine_def demo_viper_laws no_file demo_env_def)
  show ?thesis
    using p(1) srv services_share_tokens [OF machine(1,2,1,2,3,3) secret(2) p(1) srv day_tokens_laws demo_issue [OF p(2)],
        of "demo_call ''/transfer.v1.TransferService/CancelTransfer'' [''Bearer D''] 7" "[]"]
      some_day
    by (intro exI [of _ p] exI [of _ srv]) (simp add: demo_call_def public_methods_def p(2) numeric_days)
qed

theorem unset_secret_accepts_forged_tokens_witness:
  "is_ok (fst (start_identity (demo_machine '''') fresh_db)) = False
    \<and> (\<exists>srv\<in>set (grpc_servers (demo_machine '''') fresh_db).
        unary_context day_tokens (gs_Secret srv) (demo_call ''/discovery.v1.DiscoveryService/AnnounceNode'' [''Bearer D''] 7)
          = Inr \<lparr>ac_user = Some ''u1'', ac_email = Some ''ann@x.io''\<rparr>)"
proof -
  obtain srv where srv: "srv \<in> set (grpc_servers (demo_machine '''') fresh_db)" using demo_starts(1) by blast
  have machine: "viper_laws (su_viper (demo_machine ''''))" "su_file (demo_machine '''') = NoConfigFile"
    "su_getenv (demo_machine '''') ''VINCTUM_AUTH_JWT_SECRET'' = ''''"
    by (simp_all add: demo_machine_def demo_viper_laws demo_env_def)
  show ?thesis
    using srv unset_secret_accepts_forged_tokens [OF machine srv day_tokens_laws demo_token,
        of "demo_call ''/discovery.v1.DiscoveryService/AnnounceNode'' [''Bearer D''] 7" "[]" fresh_db]
    by (auto simp: demo_call_def public_methods_def day_claims_def day_def minute_def second_def)
qed

end
