(* ===== verification/MailLaws.thy ===== *)
theory MailLaws
  imports Mailer Friendships
begin

text \<open>
  The mail that verifies an address: the link in it carries the token that the service stored, and
  opening it in time verifies the account it was sent to.
\<close>

lemma one_row_unique:
  assumes "x \<in> set t" "p x" "\<And>y. y \<in> set t \<Longrightarrow> p y \<Longrightarrow> y = x"
  shows "one_row p t = Inr x"
proof -
  obtain y where "find p t = Some y" using assms(1,2) by (cases "find p t") (auto simp: find_None_iff)
  moreover from this have "y \<in> set t" "p y" by (auto simp: find_Some_iff)
  ultimately show ?thesis using assms(3) by (simp add: one_row_Inr)
qed

lemma stored_token_found:
  assumes "user \<in> set t" "distinct (map us_ID t)" "\<forall>w\<in>set t. us_VerificationToken w \<noteq> Some tok" "now' < e"
  shows "get_user_by_token_sql now' tok (update_rows (\<lambda>r. us_ID r = us_ID user)
      (\<lambda>r. r\<lparr>us_VerificationToken := Some tok, us_VerificationExpiresAt := Some e\<rparr>) t)
    = Inr (user\<lparr>us_VerificationToken := Some tok, us_VerificationExpiresAt := Some e\<rparr>)"
proof -
  have same: "w = user" if "w \<in> set t" "us_ID w = us_ID user" for w
    using that assms(1,2) by (metis distinct_map inj_on_eq_iff)
  show ?thesis
    unfolding get_user_by_token_sql_def
    by (rule one_row_unique) (use assms(1,3,4) same in \<open>auto simp: update_rows_def split: if_splits\<close>)
qed

lemma mail_holds_link:
  assumes "send_verification smtp m recipient tok"
  shows "\<exists>mail before after. smtp mail \<and> sl_To mail = [recipient]
    \<and> sl_Msg mail = before @ ma_BaseURL m @ ''/verify?token='' @ tok @ after"
proof -
  have "\<exists>before after. verification_message m recipient tok = before @ ma_BaseURL m @ ''/verify?token='' @ tok @ after"
    unfolding verification_message_def verification_link_def
    by (metis append.assoc)
  then show ?thesis using assms unfolding send_verification_def
    by (metis smtp_mail.select_convs(6) smtp_mail.select_convs(7))
qed

text \<open>
  C28: a verification mail does what it says. When \<open>ResendVerification\<close> answers that a mail was
  sent, the SMTP server has taken a mail to exactly that address, the mail contains the link with
  the token, and whoever opens the link within a day verifies the account of that address.
\<close>

theorem mailed_link_verifies:
  assumes "ie_mailer env = Some (send_verification smtp m)"
    and "resend_verification env flt now (Some tok) email s = (Inr (True, ''verification email sent''), s')"
    and "\<forall>w\<in>set (db_users (ii_db s)). ie_uuid env (us_ID w) = Some (us_ID w)" "distinct (map us_ID (db_users (ii_db s)))"
    and "\<forall>w\<in>set (db_users (ii_db s)). us_VerificationToken w \<noteq> Some tok" "tok \<noteq> ''''"
    and "now' < now + day" "\<not> flt' QUserByToken" "\<not> flt' QVerifyUser"
  shows "(\<exists>mail before after. smtp mail \<and> sl_To mail = [email]
      \<and> sl_Msg mail = before @ ma_BaseURL m @ ''/verify?token='' @ tok @ after)
    \<and> fst (verify_email env flt' now' tok s') = Inr (True, ''email verified successfully'')
    \<and> (\<exists>w\<in>set (db_users (ii_db (snd (verify_email env flt' now' tok s')))). us_Email w = email \<and> us_EmailVerified w)"
proof -
  let ?us = "db_users (ii_db s)"
  obtain user t where user: "get_user_by_email_sql email ?us = Inr user" "\<not> us_EmailVerified user"
    and t: "set_verification_token_sql (ie_uuid env) (us_ID user) (Some tok) (Some (now + day)) ?us = Inr t"
    and sent: "send_verification smtp m (us_Email user) tok" "s' = set_users t s"
    using assms(1,2) by (auto simp: resend_verification_def split: if_splits sum.splits db_error.splits)
  have u: "user \<in> set ?us" "us_Email user = email"
    using one_row_sound [OF user(1) [unfolded get_user_by_email_sql_def]] by simp_all
  let ?user' = "user\<lparr>us_VerificationToken := Some tok, us_VerificationExpiresAt := Some (now + day)\<rparr>"
  have t': "t = update_rows (\<lambda>r. us_ID r = us_ID user)
      (\<lambda>r. r\<lparr>us_VerificationToken := Some tok, us_VerificationExpiresAt := Some (now + day)\<rparr>) ?us"
    using t assms(3) u(1) by (simp add: set_verification_token_sql_def cast_def)
  have in_t: "?user' \<in> set t" using u(1) by (force simp: t' update_rows_def)
  have "get_user_by_token_sql now' tok t = Inr ?user'"
    unfolding t' by (rule stored_token_found [OF u(1) assms(4,5,7)])
  moreover have "verify_user_email_sql (ie_uuid env) (us_ID ?user') t
      = Inr (update_rows (\<lambda>r. us_ID r = us_ID user)
          (\<lambda>r. r\<lparr>us_EmailVerified := True, us_VerificationToken := None, us_VerificationExpiresAt := None\<rparr>) t)"
    using assms(3) u(1) by (simp add: verify_user_email_sql_def cast_def)
  ultimately have verified: "verify_email env flt' now' tok s' =
      (Inr (True, ''email verified successfully''),
       set_users (update_rows (\<lambda>r. us_ID r = us_ID user)
          (\<lambda>r. r\<lparr>us_EmailVerified := True, us_VerificationToken := None, us_VerificationExpiresAt := None\<rparr>) t) s')"
    using assms(6,8,9) user(2) by (simp add: verify_email_def ask_def sent(2))
  have "\<exists>w\<in>set (db_users (ii_db (snd (verify_email env flt' now' tok s')))). us_Email w = email \<and> us_EmailVerified w"
    unfolding verified
    by (rule bexI [of _ "?user'\<lparr>us_EmailVerified := True, us_VerificationToken := None, us_VerificationExpiresAt := None\<rparr>"])
      (use in_t u(2) in \<open>auto simp: update_rows_def intro!: rev_image_eqI\<close>)
  moreover have "\<exists>mail before after. smtp mail \<and> sl_To mail = [email]
      \<and> sl_Msg mail = before @ ma_BaseURL m @ ''/verify?token='' @ tok @ after"
    using mail_holds_link [OF sent(1)] u(2) by simp
  ultimately show ?thesis by (simp add: verified)
qed

text \<open>The user \<open>bob\<close> asks for a new mail.\<close>

definition demo_mailer :: mailer where
  "demo_mailer = \<lparr>ma_Host = ''h'', ma_Port = 587, ma_Username = ''u'', ma_Password = ''p'', ma_From = ''v@x.io'',
     ma_BaseURL = ''http://x''\<rparr>"

definition mail_env :: "map_redis ident_env" where
  "mail_env = small_env\<lparr>ie_mailer := Some (send_verification (\<lambda>_. True) demo_mailer)\<rparr>"

lemma bob_asks: "\<exists>s'. resend_verification mail_env no_faults 5 (Some ''new'') ''bob@x.io'' (small_state ''pending'')
    = (Inr (True, ''verification email sent''), s')"
  by (simp add: resend_verification_def get_user_by_email_sql_def set_verification_token_sql_def cast_def one_row_def
      ask_def mail_env_def send_verification_def small_defs)

theorem mailed_link_verifies_witness:
  "\<exists>s'. resend_verification mail_env no_faults 5 (Some ''new'') ''bob@x.io'' (small_state ''pending'')
      = (Inr (True, ''verification email sent''), s')
    \<and> fst (verify_email mail_env no_faults 7 ''new'' s') = Inr (True, ''email verified successfully'')"
proof -
  obtain s' where s': "resend_verification mail_env no_faults 5 (Some ''new'') ''bob@x.io'' (small_state ''pending'')
    = (Inr (True, ''verification email sent''), s')" using bob_asks by blast
  have "fst (verify_email mail_env no_faults 7 ''new'' s') = Inr (True, ''email verified successfully'')"
    using mailed_link_verifies [OF _ s', of "\<lambda>_. True" demo_mailer 7 no_faults]
    by (simp add: mail_env_def small_defs day_def minute_def second_def)
  with s' show ?thesis by blast
qed

end
