(* ===== verification/GatewayIdentity.thy ===== *)
theory GatewayIdentity
  imports Gateway
begin

text \<open>
  The handlers of the gateway that stand before the identity service, in the order of
  \<open>services/gateway/handler/handler.go\<close>; path parameters and decoded bodies are arguments.
  Login, registration and the other calls without a session forward no token.
\<close>

section \<open>Accounts\<close>

definition handle_register ::
  "'r gateway \<Rightarrow> http_request \<Rightarrow> string + (string \<times> string \<times> string) \<Rightarrow> ('r, register_response) http_handler" where
  "handle_register gw rq body =
     served (gw_identity gw) ''identity'' (decoded body (\<lambda>(username, email, password).
       let x = hr_rpc rq 0 in reply 201 (identity_rpc gw x ''Register'' []
         (\<lambda>ctx. register (gw_ident gw) (ci_ident x) (handled_at x) (ci_newID x) (ci_token x) username email password))))"

definition handle_login ::
  "'r gateway \<Rightarrow> http_request \<Rightarrow> string + (string \<times> string) \<Rightarrow> ('r, login_response) http_handler" where
  "handle_login gw rq body =
     served (gw_identity gw) ''identity'' (decoded body (\<lambda>(email, password).
       let x = hr_rpc rq 0 in reply 200 (identity_rpc gw x ''Login'' []
         (\<lambda>ctx. login (gw_ident gw) (ci_ident x) (handled_at x) email password))))"

definition handle_refresh ::
  "'r gateway \<Rightarrow> http_request \<Rightarrow> string + string \<Rightarrow> ('r, token_pair) http_handler" where
  "handle_refresh gw rq body =
     served (gw_identity gw) ''identity'' (decoded body (\<lambda>token.
       let x = hr_rpc rq 0 in reply 200 (identity_rpc gw x ''RefreshToken'' []
         (\<lambda>ctx. refresh_token (gw_ident gw) (handled_at x) token))))"

definition handle_validate ::
  "'r gateway \<Rightarrow> http_request \<Rightarrow> string + string \<Rightarrow> ('r, (string \<times> string) option) http_handler" where
  "handle_validate gw rq body =
     served (gw_identity gw) ''identity'' (decoded body (\<lambda>token.
       let x = hr_rpc rq 0 in reply 200 (identity_rpc gw x ''ValidateToken'' []
         (query (\<lambda>ctx. validate_token (gw_ident gw) (handled_at x) token)))))"

definition handle_verify_email ::
  "'r gateway \<Rightarrow> http_request \<Rightarrow> string + string \<Rightarrow> ('r, bool \<times> string) http_handler" where
  "handle_verify_email gw rq body =
     served (gw_identity gw) ''identity'' (decoded body (\<lambda>token.
       let x = hr_rpc rq 0 in reply 200 (identity_rpc gw x ''VerifyEmail'' []
         (\<lambda>ctx. verify_email (gw_ident gw) (ci_ident x) (handled_at x) token))))"

definition handle_resend_verification ::
  "'r gateway \<Rightarrow> http_request \<Rightarrow> string + string \<Rightarrow> ('r, bool \<times> string) http_handler" where
  "handle_resend_verification gw rq body =
     served (gw_identity gw) ''identity'' (decoded body (\<lambda>email.
       let x = hr_rpc rq 0 in reply 200 (identity_rpc gw x ''ResendVerification'' []
         (\<lambda>ctx. resend_verification (gw_ident gw) (ci_ident x) (handled_at x) (ci_token x) email))))"

definition handle_logout ::
  "'r gateway \<Rightarrow> http_request \<Rightarrow> string + string \<Rightarrow> ('r, bool) http_handler" where
  "handle_logout gw rq body =
     served (gw_identity gw) ''identity'' (decoded body (\<lambda>token.
       let x = hr_rpc rq 0 in reply 200 (identity_rpc gw x ''Logout'' (forward_auth rq)
         (\<lambda>ctx. logout (gw_ident gw) (handled_at x) token))))"

section \<open>Devices\<close>

definition handle_register_device ::
  "'r gateway \<Rightarrow> http_request \<Rightarrow> string + register_device_request \<Rightarrow> ('r, device_msg) http_handler" where
  "handle_register_device gw rq body =
     served (gw_identity gw) ''identity'' (decoded body (\<lambda>req.
       let x = hr_rpc rq 0 in reply 201 (identity_rpc gw x ''RegisterDevice'' (forward_auth rq)
         (\<lambda>ctx. register_device (gw_ident gw) (ci_ident x) (handled_at x) (ci_newID x) (ci_genNode x) ctx req))))"

definition handle_list_devices ::
  "'r gateway \<Rightarrow> http_request \<Rightarrow> ('r, device_msg list) http_handler" where
  "handle_list_devices gw rq =
     served (gw_identity gw) ''identity''
       (let x = hr_rpc rq 0 in reply 200 (identity_rpc gw x ''ListDevices'' (forward_auth rq)
         (query (list_devices (gw_ident gw) (ci_ident x)))))"

definition handle_get_device ::
  "'r gateway \<Rightarrow> http_request \<Rightarrow> string \<Rightarrow> ('r, device_msg) http_handler" where
  "handle_get_device gw rq deviceID =
     served (gw_identity gw) ''identity''
       (let x = hr_rpc rq 0 in reply 200 (identity_rpc gw x ''GetDevice'' (forward_auth rq)
         (query (\<lambda>ctx. get_device (gw_ident gw) (ci_ident x) ctx deviceID))))"

definition handle_revoke_device ::
  "'r gateway \<Rightarrow> http_request \<Rightarrow> string \<Rightarrow> ('r, bool) http_handler" where
  "handle_revoke_device gw rq deviceID =
     served (gw_identity gw) ''identity''
       (let x = hr_rpc rq 0 in reply 200 (identity_rpc gw x ''RevokeDevice'' (forward_auth rq)
         (\<lambda>ctx. revoke_device (gw_ident gw) (ci_ident x) (handled_at x) ctx deviceID)))"

definition handle_update_device_activity ::
  "'r gateway \<Rightarrow> http_request \<Rightarrow> string \<Rightarrow> string + node_id \<Rightarrow> ('r, bool) http_handler" where
  "handle_update_device_activity gw rq deviceID body =
     served (gw_identity gw) ''identity'' (decoded body (\<lambda>nodeID.
       let x = hr_rpc rq 0 in reply 200 (identity_rpc gw x ''UpdateDeviceActivity'' (forward_auth rq)
         (\<lambda>ctx. update_device_activity (gw_ident gw) (ci_ident x) (handled_at x) ctx deviceID nodeID))))"

definition handle_update_device_visibility ::
  "'r gateway \<Rightarrow> http_request \<Rightarrow> string \<Rightarrow> string + bool \<Rightarrow> ('r, bool) http_handler" where
  "handle_update_device_visibility gw rq deviceID body =
     served (gw_identity gw) ''identity'' (decoded body (\<lambda>public.
       let x = hr_rpc rq 0 in reply 200 (identity_rpc gw x ''UpdateDeviceVisibility'' (forward_auth rq)
         (\<lambda>ctx. update_device_visibility (gw_ident gw) (ci_ident x) ctx deviceID public))))"

section \<open>Pairing\<close>

definition handle_generate_pairing_code ::
  "'r gateway \<Rightarrow> http_request \<Rightarrow> string + string \<Rightarrow> ('r, string \<times> int32) http_handler" where
  "handle_generate_pairing_code gw rq body =
     served (gw_identity gw) ''identity'' (decoded body (\<lambda>deviceID.
       let x = hr_rpc rq 0 in reply 200 (identity_rpc gw x ''GeneratePairingCode'' (forward_auth rq)
         (\<lambda>ctx. generate_pairing_code (gw_ident gw) (ci_ident x) (handled_at x) (ci_random x) ctx deviceID))))"

definition handle_redeem_pairing_code ::
  "'r gateway \<Rightarrow> http_request \<Rightarrow> string + redeem_request \<Rightarrow> ('r, string \<times> string) http_handler" where
  "handle_redeem_pairing_code gw rq body =
     served (gw_identity gw) ''identity'' (decoded body (\<lambda>req.
       let x = hr_rpc rq 0 in reply 200 (identity_rpc gw x ''RedeemPairingCode'' (forward_auth rq)
         (\<lambda>ctx. redeem_pairing_code (gw_ident gw) (ci_ident x) (handled_at x) (ci_newID x) ctx req))))"

definition handle_approve_pairing ::
  "'r gateway \<Rightarrow> http_request \<Rightarrow> string + (string \<times> string \<times> bool) \<Rightarrow> ('r, device_msg option) http_handler" where
  "handle_approve_pairing gw rq body =
     served (gw_identity gw) ''identity'' (decoded body (\<lambda>(approver, pending, ok).
       let x = hr_rpc rq 0 in reply 200 (identity_rpc gw x ''ApprovePairing'' (forward_auth rq)
         (\<lambda>ctx. approve_pairing (gw_ident gw) (ci_ident x) (handled_at x) ctx approver pending ok))))"

section \<open>Peer sessions and keys\<close>

definition handle_create_peer_session ::
  "'r gateway \<Rightarrow> http_request \<Rightarrow> string + (string \<times> string) \<Rightarrow> ('r, session_msg) http_handler" where
  "handle_create_peer_session gw rq body =
     served (gw_identity gw) ''identity'' (decoded body (\<lambda>(name, deviceID).
       let x = hr_rpc rq 0 in reply 201 (identity_rpc gw x ''CreatePeerSession'' (forward_auth rq)
         (\<lambda>ctx. create_peer_session (gw_ident gw) (ci_ident x) (handled_at x) (ci_newID x) ctx name deviceID))))"

definition handle_list_peer_sessions ::
  "'r gateway \<Rightarrow> http_request \<Rightarrow> ('r, session_msg list) http_handler" where
  "handle_list_peer_sessions gw rq =
     served (gw_identity gw) ''identity''
       (let x = hr_rpc rq 0 in reply 200 (identity_rpc gw x ''ListPeerSessions'' (forward_auth rq)
         (query (list_peer_sessions (gw_ident gw) (ci_ident x)))))"

definition handle_close_peer_session ::
  "'r gateway \<Rightarrow> http_request \<Rightarrow> string \<Rightarrow> ('r, bool) http_handler" where
  "handle_close_peer_session gw rq sessionID =
     served (gw_identity gw) ''identity''
       (let x = hr_rpc rq 0 in reply 200 (identity_rpc gw x ''ClosePeerSession'' (forward_auth rq)
         (\<lambda>ctx. close_peer_session (gw_ident gw) (ci_ident x) (handled_at x) ctx sessionID)))"

definition handle_join_peer_session ::
  "'r gateway \<Rightarrow> http_request \<Rightarrow> string \<Rightarrow> string + string \<Rightarrow> ('r, bool) http_handler" where
  "handle_join_peer_session gw rq sessionID body =
     served (gw_identity gw) ''identity'' (decoded body (\<lambda>deviceID.
       let x = hr_rpc rq 0 in reply 200 (identity_rpc gw x ''JoinPeerSession'' (forward_auth rq)
         (\<lambda>ctx. join_peer_session (gw_ident gw) (ci_ident x) (handled_at x) ctx sessionID deviceID))))"

definition handle_list_session_devices ::
  "'r gateway \<Rightarrow> http_request \<Rightarrow> string \<Rightarrow> ('r, device_msg list) http_handler" where
  "handle_list_session_devices gw rq sessionID =
     served (gw_identity gw) ''identity''
       (let x = hr_rpc rq 0 in reply 200 (identity_rpc gw x ''ListSessionDevices'' (forward_auth rq)
         (query (\<lambda>ctx. list_session_devices (gw_ident gw) (ci_ident x) ctx sessionID))))"

definition handle_leave_peer_session ::
  "'r gateway \<Rightarrow> http_request \<Rightarrow> string \<Rightarrow> string + string \<Rightarrow> ('r, bool) http_handler" where
  "handle_leave_peer_session gw rq sessionID body =
     served (gw_identity gw) ''identity'' (decoded body (\<lambda>deviceID.
       let x = hr_rpc rq 0 in reply 200 (identity_rpc gw x ''LeavePeerSession'' (forward_auth rq)
         (\<lambda>ctx. leave_peer_session (gw_ident gw) (ci_ident x) (handled_at x) ctx sessionID deviceID))))"

definition handle_upload_device_key ::
  "'r gateway \<Rightarrow> http_request \<Rightarrow> string \<Rightarrow> string + (string \<times> bytes) \<Rightarrow> ('r, device_key) http_handler" where
  "handle_upload_device_key gw rq deviceID body =
     served (gw_identity gw) ''identity'' (decoded body (\<lambda>(algo, key).
       let x = hr_rpc rq 0 in reply 200 (identity_rpc gw x ''UploadDeviceKey'' (forward_auth rq)
         (\<lambda>ctx. upload_device_key (gw_ident gw) (ci_ident x) (handled_at x) ctx deviceID algo key))))"

definition handle_get_device_key ::
  "'r gateway \<Rightarrow> http_request \<Rightarrow> string \<Rightarrow> ('r, device_key) http_handler" where
  "handle_get_device_key gw rq deviceID =
     served (gw_identity gw) ''identity''
       (let x = hr_rpc rq 0 in reply 200 (identity_rpc gw x ''GetDeviceKey'' (forward_auth rq)
         (query (\<lambda>ctx. get_device_key (gw_ident gw) (ci_ident x) ctx deviceID))))"

definition handle_get_session_device_keys ::
  "'r gateway \<Rightarrow> http_request \<Rightarrow> string \<Rightarrow> ('r, device_key list) http_handler" where
  "handle_get_session_device_keys gw rq sessionID =
     served (gw_identity gw) ''identity''
       (let x = hr_rpc rq 0 in reply 200 (identity_rpc gw x ''GetSessionDeviceKeys'' (forward_auth rq)
         (query (\<lambda>ctx. get_session_device_keys (gw_ident gw) (ci_ident x) ctx sessionID))))"

definition handle_get_node_key ::
  "'r gateway \<Rightarrow> http_request \<Rightarrow> node_id \<Rightarrow> ('r, device_key) http_handler" where
  "handle_get_node_key gw rq nodeID =
     served (gw_identity gw) ''identity'' (\<lambda>pf.
       if nodeID = '''' then (Failed 400 ''node_id is required'', pf)
       else let x = hr_rpc rq 0 in
         reply 200 (identity_rpc gw x ''GetDeviceKey'' (forward_auth rq)
           (query (\<lambda>ctx. get_device_key (gw_ident gw) (ci_ident x) ctx (''node:'' @ nodeID)))) pf)"

section \<open>Friends\<close>

definition handle_send_friend_request ::
  "'r gateway \<Rightarrow> http_request \<Rightarrow> string + string \<Rightarrow> ('r, friend_msg) http_handler" where
  "handle_send_friend_request gw rq body =
     served (gw_identity gw) ''identity'' (decoded body (\<lambda>addressee.
       let x = hr_rpc rq 0 in reply 201 (identity_rpc gw x ''SendFriendRequest'' (forward_auth rq)
         (\<lambda>ctx. send_friend_request (gw_ident gw) (ci_ident x) (handled_at x) (ci_newID x) ctx addressee))))"

definition handle_respond_to_friend_request ::
  "'r gateway \<Rightarrow> http_request \<Rightarrow> string + (string \<times> bool) \<Rightarrow> ('r, friend_msg) http_handler" where
  "handle_respond_to_friend_request gw rq body =
     served (gw_identity gw) ''identity'' (decoded body (\<lambda>(friendshipID, accept).
       let x = hr_rpc rq 0 in reply 200 (identity_rpc gw x ''RespondToFriendRequest'' (forward_auth rq)
         (\<lambda>ctx. respond_to_friend_request (gw_ident gw) (ci_ident x) (handled_at x) ctx friendshipID accept))))"

definition handle_list_friends ::
  "'r gateway \<Rightarrow> http_request \<Rightarrow> ('r, friend_msg list) http_handler" where
  "handle_list_friends gw rq =
     served (gw_identity gw) ''identity''
       (let x = hr_rpc rq 0 in reply 200 (identity_rpc gw x ''ListFriends'' (forward_auth rq)
         (query (list_friends (gw_ident gw) (ci_ident x)))))"

definition handle_list_friend_requests ::
  "'r gateway \<Rightarrow> http_request \<Rightarrow> ('r, friend_msg list) http_handler" where
  "handle_list_friend_requests gw rq =
     served (gw_identity gw) ''identity''
       (let x = hr_rpc rq 0 in reply 200 (identity_rpc gw x ''ListFriendRequests'' (forward_auth rq)
         (query (list_friend_requests (gw_ident gw) (ci_ident x)))))"

definition handle_remove_friend ::
  "'r gateway \<Rightarrow> http_request \<Rightarrow> string \<Rightarrow> ('r, bool) http_handler" where
  "handle_remove_friend gw rq friendshipID =
     served (gw_identity gw) ''identity''
       (let x = hr_rpc rq 0 in reply 200 (identity_rpc gw x ''RemoveFriend'' (forward_auth rq)
         (\<lambda>ctx. remove_friend (gw_ident gw) (ci_ident x) ctx friendshipID)))"

definition handle_list_friend_devices ::
  "'r gateway \<Rightarrow> http_request \<Rightarrow> string \<Rightarrow> ('r, device_msg list) http_handler" where
  "handle_list_friend_devices gw rq userID =
     served (gw_identity gw) ''identity''
       (let x = hr_rpc rq 0 in reply 200 (identity_rpc gw x ''ListFriendDevices'' (forward_auth rq)
         (query (\<lambda>ctx. list_friend_devices (gw_ident gw) (ci_ident x) ctx userID))))"

definition handle_search_users ::
  "'r gateway \<Rightarrow> http_request \<Rightarrow> ('r, user_info list) http_handler" where
  "handle_search_users gw rq =
     served (gw_identity gw) ''identity'' (\<lambda>pf.
       let q = hr_Query rq ''q''; x = hr_rpc rq 0 in
       if q = '''' then (Failed 400 (''query parameter '' @ [CHR 0x27] @ ''q'' @ [CHR 0x27] @ '' is required''), pf)
       else reply 200 (identity_rpc gw x ''SearchUsers'' (forward_auth rq)
              (query (\<lambda>ctx. search_users (gw_ident gw) (ci_ident x) ctx q))) pf)"

section \<open>Presence and avatars\<close>

definition handle_heartbeat ::
  "'r gateway \<Rightarrow> http_request \<Rightarrow> string + string \<Rightarrow> ('r, bool) http_handler" where
  "handle_heartbeat gw rq body =
     served (gw_identity gw) ''identity'' (decoded body (\<lambda>deviceID.
       let x = hr_rpc rq 0 in reply 200 (identity_rpc gw x ''Heartbeat'' (forward_auth rq)
         (\<lambda>ctx. heartbeat (gw_ident gw) (ci_ident x) (handled_at x) ctx deviceID))))"

definition handle_get_presence ::
  "'r gateway \<Rightarrow> http_request \<Rightarrow> string + (string list) \<Rightarrow> ('r, presence_info list) http_handler" where
  "handle_get_presence gw rq body =
     served (gw_identity gw) ''identity'' (decoded body (\<lambda>userIDs.
       let x = hr_rpc rq 0 in reply 200 (identity_rpc gw x ''GetPresence'' (forward_auth rq)
         (query (\<lambda>ctx. get_presence (gw_ident gw) (ci_ident x) (handled_at x) ctx userIDs)))))"

definition handle_update_avatar ::
  "'r gateway \<Rightarrow> http_request \<Rightarrow> string + string \<Rightarrow> ('r, bool) http_handler" where
  "handle_update_avatar gw rq body =
     served (gw_identity gw) ''identity'' (decoded body (\<lambda>data.
       let x = hr_rpc rq 0 in reply 200 (identity_rpc gw x ''UpdateAvatar'' (forward_auth rq)
         (\<lambda>ctx. update_avatar (gw_ident gw) (ci_ident x) ctx data))))"

definition handle_get_avatar ::
  "'r gateway \<Rightarrow> http_request \<Rightarrow> string \<Rightarrow> ('r, string) http_handler" where
  "handle_get_avatar gw rq userID =
     served (gw_identity gw) ''identity''
       (let x = hr_rpc rq 0 in reply 200 (identity_rpc gw x ''GetAvatar'' (forward_auth rq)
         (query (\<lambda>ctx. get_avatar (gw_ident gw) (ci_ident x) ctx userID))))"

section \<open>Administration\<close>

definition handle_admin_list_users ::
  "'r gateway \<Rightarrow> http_request \<Rightarrow> ('r, user_msg list \<times> int64) http_handler" where
  "handle_admin_list_users gw rq =
     admin_only gw rq (hr_rpc rq 0)
       (let (limit, offset) = parse_pagination rq; x = hr_rpc rq 1 in
        reply 200 (identity_rpc gw x ''AdminListUsers'' (forward_auth rq)
          (query (\<lambda>ctx. admin_list_users (ci_ident x) limit offset))))"

definition handle_admin_list_devices ::
  "'r gateway \<Rightarrow> http_request \<Rightarrow> ('r, admin_device list \<times> int64) http_handler" where
  "handle_admin_list_devices gw rq =
     admin_only gw rq (hr_rpc rq 0)
       (let (limit, offset) = parse_pagination rq; x = hr_rpc rq 1 in
        reply 200 (identity_rpc gw x ''AdminListDevices'' (forward_auth rq)
          (query (\<lambda>ctx. admin_list_devices (ci_ident x) limit offset))))"

definition handle_admin_list_audit_logs ::
  "'r gateway \<Rightarrow> http_request \<Rightarrow> ('r, audit_log list \<times> int64) http_handler" where
  "handle_admin_list_audit_logs gw rq =
     admin_only gw rq (hr_rpc rq 0)
       (let (limit, offset) = parse_pagination rq; x = hr_rpc rq 1 in
        reply 200 (identity_rpc gw x ''AdminListAuditLogs'' (forward_auth rq)
          (query (\<lambda>ctx. admin_list_audit_logs (ci_ident x) limit offset))))"

end
