(* ===== verification/GatewayTransfer.thy ===== *)
theory GatewayTransfer
  imports Gateway
begin

text \<open>
  The handlers of the gateway that stand before the routing, the transfer and the
  machine-learning service, in \<open>services/gateway/handler/handler.go\<close>; path parameters and
  decoded bodies are arguments.
\<close>

section \<open>Health\<close>

text \<open>The version and the whole seconds since the start.\<close>

definition handle_health :: "string \<Rightarrow> time \<Rightarrow> time \<Rightarrow> (bool \<times> string \<times> int) http" where
  "handle_health version startedAt now = Reply 200 (True, version, (now - startedAt) sdiv second)"

text \<open>A connection is shut down only after \<open>Close\<close>, so every client that exists counts as healthy.\<close>

definition handle_service_status :: "'r gateway \<Rightarrow> ('r, (string \<times> bool) list) http_handler" where
  "handle_service_status gw pf =
     (Reply 200
        ([(''identity'', gw_identity gw), (''routing'', gw_routing gw), (''transfer'', gw_transfer gw)]
         @ (case gw_ml gw of None \<Rightarrow> [] | Some ml \<Rightarrow> [(''ml'', ml_healthy ml)])), pf)"

section \<open>Routing\<close>

definition handle_find_route ::
  "'r gateway \<Rightarrow> http_request \<Rightarrow> string + (node_id \<times> node_id \<times> int32 \<times> node_id list)
     \<Rightarrow> ('r, find_route_response) http_handler" where
  "handle_find_route gw rq body =
     served (gw_routing gw) ''routing'' (decoded body (\<lambda>(src, target, maxHops, excludeIds).
       let x = hr_rpc rq 0 in reply 200 (routing_rpc gw x ''FindRoute'' (forward_auth rq)
         (query (\<lambda>ctx db. find_route (gw_intel gw) (ci_routing x) db src target maxHops excludeIds)))))"

definition handle_get_route_table ::
  "'r gateway \<Rightarrow> http_request \<Rightarrow> node_id \<Rightarrow> ('r, node_id \<times> route_entry list) http_handler" where
  "handle_get_route_table gw rq nodeID =
     served (gw_routing gw) ''routing''
       (let x = hr_rpc rq 0 in reply 200 (routing_rpc gw x ''GetRouteTable'' (forward_auth rq)
         (query (\<lambda>ctx. get_route_table (ci_routing x) nodeID))))"

definition handle_list_relays :: "'r gateway \<Rightarrow> http_request \<Rightarrow> ('r, relay list) http_handler" where
  "handle_list_relays gw rq =
     served (gw_routing gw) ''routing''
       (let x = hr_rpc rq 0 in reply 200 (routing_rpc gw x ''ListRelays'' (forward_auth rq)
         (query (\<lambda>ctx. list_relays (ci_routing x) 50))))"

definition metrics_rpc ::
  "'r gateway \<Rightarrow> circumstances \<Rightarrow> string list \<Rightarrow> node_id list \<Rightarrow> 'r platform
     \<Rightarrow> (node_id \<times> node_metrics) list result \<times> 'r platform" where
  "metrics_rpc gw x md nodeIDs =
     routing_rpc gw x ''GetNodeMetrics'' md (query (\<lambda>ctx db. Inr (get_node_metrics (gw_metrics gw) nodeIDs)))"

definition handle_get_node_metrics ::
  "'r gateway \<Rightarrow> http_request \<Rightarrow> ('r, (node_id \<times> node_metrics) list) http_handler" where
  "handle_get_node_metrics gw rq =
     served (gw_routing gw) ''routing'' (\<lambda>pf.
       let (nodeIDs, pf1) = get_user_node_ids gw (hr_rpc rq 0) (forward_auth rq) pf
       in reply 200 (metrics_rpc gw (hr_rpc rq 1) (forward_auth rq) nodeIDs) pf1)"

section \<open>Scan of the own nodes\<close>

record node_result =
  nr_NodeID :: node_id
  nr_Score :: real
  nr_Confidence :: real
  nr_IsAnomaly :: bool
  nr_AnomalyScore :: real
  nr_HasMetrics :: bool

definition no_result :: "node_id \<Rightarrow> bool \<Rightarrow> node_result" where
  "no_result nodeID hasMetrics =
     \<lparr>nr_NodeID = nodeID, nr_Score = 0, nr_Confidence = 0, nr_IsAnomaly = False, nr_AnomalyScore = 0,
      nr_HasMetrics = hasMetrics\<rparr>"

definition or_else :: "'a option \<Rightarrow> 'a \<Rightarrow> 'a" where
  "or_else r d = (case r of None \<Rightarrow> d | Some v \<Rightarrow> v)"

text \<open>The body of the loop: the result of one node and the two running totals.\<close>

definition scan_node ::
  "ml_service \<Rightarrow> node_id \<times> node_metrics \<Rightarrow> node_result list \<times> real \<times> nat \<times> nat
     \<Rightarrow> node_result list \<times> real \<times> nat \<times> nat" where
  "scan_node ml m acc =
     (case acc of (results, totalScore, scored, anomalyCount) \<Rightarrow>
        let (score, confidence) = ml_score ml (fst m) (snd m);
            (anomaly, anomalyScore) = ml_anomaly ml (fst m) (snd m) (real_of_int (nm_TotalEvents (snd m)) / 10)
        in (results @ [(no_result (fst m) True)
              \<lparr>nr_Score := or_else score 0, nr_Confidence := or_else confidence 0,
               nr_IsAnomaly := or_else anomaly False, nr_AnomalyScore := or_else anomalyScore 0\<rparr>],
            totalScore + or_else score 0,
            (if score = None then scored else scored + 1),
            (if anomaly = Some True then anomalyCount + 1 else anomalyCount)))"

record scan_summary =
  sm_Total :: nat
  sm_Anomalies :: nat
  sm_AvgScore :: real
  sm_Scanned :: "nat option" \<comment> \<open>missing when there are no nodes\<close>

definition handle_scan_nodes ::
  "'r gateway \<Rightarrow> http_request \<Rightarrow> ('r, node_result list \<times> scan_summary) http_handler" where
  "handle_scan_nodes gw rq =
     served (gw_routing gw) ''routing'' (\<lambda>pf.
       case gw_ml gw of
         None \<Rightarrow> (Failed 503 ''ml service unavailable'', pf)
       | Some ml \<Rightarrow>
           let (nodeIDs, pf1) = get_user_node_ids gw (hr_rpc rq 0) (forward_auth rq) pf in
           if length nodeIDs = 0
           then (Reply 200 ([], \<lparr>sm_Total = 0, sm_Anomalies = 0, sm_AvgScore = 0, sm_Scanned = None\<rparr>), pf1)
           else case metrics_rpc gw (hr_rpc rq 1) (forward_auth rq) nodeIDs pf1 of
                  (Inl e, pf2) \<Rightarrow> (write_grpc_error e, pf2)
                | (Inr ms, pf2) \<Rightarrow>
                    let (results, totalScore, scored, anomalyCount) = foldl (\<lambda>acc m. scan_node ml m acc) ([], 0, 0, 0) ms;
                        missing = filter (\<lambda>n. n \<notin> set (map fst ms)) nodeIDs
                    in (Reply 200 (results @ map (\<lambda>n. no_result n False) missing,
                          \<lparr>sm_Total = length nodeIDs, sm_Anomalies = anomalyCount,
                           sm_AvgScore = (if scored > 0 then totalScore / real scored else 0),
                           sm_Scanned = Some scored\<rparr>), pf2))"

section \<open>Machine learning\<close>

definition proxy_ml :: "'r gateway \<Rightarrow> string \<Rightarrow> string \<Rightarrow> string \<Rightarrow> ('r, string) http_handler" where
  "proxy_ml gw method path body pf =
     (case gw_ml gw of
        None \<Rightarrow> (Failed 503 ''ml service unavailable'', pf)
      | Some ml \<Rightarrow>
          (case ml_proxy ml method path body of
             None \<Rightarrow> (Failed 502 ''ml service unreachable'', pf)
           | Some (code, answer) \<Rightarrow> (Reply code answer, pf)))"

definition handle_ml_health :: "'r gateway \<Rightarrow> string \<Rightarrow> ('r, string) http_handler" where
  "handle_ml_health gw = proxy_ml gw ''GET'' ''/health''"

definition handle_ml_score :: "'r gateway \<Rightarrow> string \<Rightarrow> ('r, string) http_handler" where
  "handle_ml_score gw = proxy_ml gw ''POST'' ''/score''"

definition handle_ml_anomaly :: "'r gateway \<Rightarrow> string \<Rightarrow> ('r, string) http_handler" where
  "handle_ml_anomaly gw = proxy_ml gw ''POST'' ''/anomaly''"

definition handle_ml_route :: "'r gateway \<Rightarrow> string \<Rightarrow> ('r, string) http_handler" where
  "handle_ml_route gw = proxy_ml gw ''POST'' ''/route''"

section \<open>Transfers\<close>

text \<open>The check of the sender node, and the request with its approval decided: it is skipped
  exactly when the receiver is a node of the caller, too.\<close>

definition sender_owned ::
  "'r gateway \<Rightarrow> circumstances \<Rightarrow> string list \<Rightarrow> node_id \<Rightarrow> 'r platform \<Rightarrow> bool \<times> 'r platform" where
  "sender_owned gw x md sender pf = (if sender \<noteq> '''' then user_owns_node gw x md sender pf else (True, pf))"

definition auto_approved ::
  "'r gateway \<Rightarrow> circumstances \<Rightarrow> string list \<Rightarrow> initiate_request \<Rightarrow> 'r platform \<Rightarrow> initiate_request \<times> 'r platform" where
  "auto_approved gw x md req pf =
     (if ir_ReceiverNodeId req \<noteq> ''''
      then let (b, pf') = user_owns_node gw x md (ir_ReceiverNodeId req) pf in (req\<lparr>ir_AutoApprove := b\<rparr>, pf')
      else (req, pf))"

definition handle_initiate_transfer ::
  "'r gateway \<Rightarrow> http_request \<Rightarrow> string + initiate_request \<Rightarrow> ('r, initiate_response) http_handler" where
  "handle_initiate_transfer gw rq body =
     served (gw_transfer gw) ''transfer'' (decoded body (\<lambda>req pf.
       let (owns, pf1) = sender_owned gw (hr_rpc rq 0) (forward_auth rq) (ir_SenderNodeId req) pf in
       if \<not> owns then (Failed 403 ''sender node does not belong to you'', pf1)
       else
         let (req', pf2) = auto_approved gw (hr_rpc rq 1) (forward_auth rq) req pf1;
             x = hr_rpc rq 2
         in reply 201 (transfer_rpc gw x ''InitiateTransfer'' (forward_auth rq)
              (\<lambda>ctx. initiate_transfer (gw_transfers gw) (ci_transfer x) (ci_newID x) req')) pf2))"

definition handle_get_transfer_status ::
  "'r gateway \<Rightarrow> http_request \<Rightarrow> string \<Rightarrow> ('r, status_response) http_handler" where
  "handle_get_transfer_status gw rq transferID =
     served (gw_transfer gw) ''transfer''
       (let x = hr_rpc rq 0 in reply 200 (transfer_rpc gw x ''GetTransferStatus'' (forward_auth rq)
         (query (\<lambda>ctx. get_transfer_status (ci_transfer x) transferID))))"

definition list_rpc ::
  "'r gateway \<Rightarrow> circumstances \<Rightarrow> string list \<Rightarrow> node_id \<Rightarrow> int32 \<Rightarrow> 'r platform
     \<Rightarrow> transfer_info list result \<times> 'r platform" where
  "list_rpc gw x md nodeID filterStatus =
     transfer_rpc gw x ''ListTransfers'' md (query (\<lambda>ctx. list_transfers (ci_transfer x) nodeID filterStatus))"

definition handle_list_transfers ::
  "'r gateway \<Rightarrow> http_request \<Rightarrow> node_id \<Rightarrow> ('r, transfer_info list) http_handler" where
  "handle_list_transfers gw rq nodeID =
     served (gw_transfer gw) ''transfer'' (\<lambda>pf.
       let (owns, pf1) = user_owns_node gw (hr_rpc rq 0) (forward_auth rq) nodeID pf in
       if \<not> owns then (Failed 403 ''node does not belong to you'', pf1)
       else reply 200 (list_rpc gw (hr_rpc rq 1) (forward_auth rq) nodeID st_UNSPECIFIED) pf1)"

text \<open>The body must be JSON; the reason in it is not used.\<close>

definition handle_cancel_transfer ::
  "'r gateway \<Rightarrow> http_request \<Rightarrow> string \<Rightarrow> string + string \<Rightarrow> ('r, bool \<times> string) http_handler" where
  "handle_cancel_transfer gw rq transferID body =
     served (gw_transfer gw) ''transfer'' (decoded (map_sum (\<lambda>_. ''invalid request body'') id body) (\<lambda>reason.
       let x = hr_rpc rq 0 in reply 200 (transfer_rpc gw x ''CancelTransfer'' (forward_auth rq)
         (\<lambda>ctx. cancel_transfer (gw_transfers gw) (gw_relay gw) (ci_transfer x) transferID))))"

definition handle_pause_transfer ::
  "'r gateway \<Rightarrow> http_request \<Rightarrow> string \<Rightarrow> ('r, string \<times> int32) http_handler" where
  "handle_pause_transfer gw rq transferID =
     served (gw_transfer gw) ''transfer''
       (let x = hr_rpc rq 0 in reply 200 (transfer_rpc gw x ''PauseTransfer'' (forward_auth rq)
         (\<lambda>ctx. pause_transfer (ci_transfer x) transferID)))"

definition handle_resume_transfer ::
  "'r gateway \<Rightarrow> http_request \<Rightarrow> string \<Rightarrow> ('r, string \<times> int32) http_handler" where
  "handle_resume_transfer gw rq transferID =
     served (gw_transfer gw) ''transfer''
       (let x = hr_rpc rq 0 in reply 200 (transfer_rpc gw x ''ResumeTransfer'' (forward_auth rq)
         (\<lambda>ctx. resume_transfer (ci_transfer x) transferID)))"

definition handle_get_p2p_connection_info ::
  "'r gateway \<Rightarrow> http_request \<Rightarrow> string \<Rightarrow> ('r, string \<times> string list \<times> bool) http_handler" where
  "handle_get_p2p_connection_info gw rq transferID =
     served (gw_transfer gw) ''transfer''
       (let x = hr_rpc rq 0 in reply 200 (transfer_rpc gw x ''GetP2PConnectionInfo'' (forward_auth rq)
         (query (\<lambda>ctx. get_p2p_connection_info (gw_transfers gw) (ci_transfer x) transferID))))"

text \<open>The number of chunks and the success from the body; the confirming node and the error
  message are forwarded but not used by the service.\<close>

definition handle_confirm_p2p_transfer ::
  "'r gateway \<Rightarrow> http_request \<Rightarrow> string \<Rightarrow> string + (int32 \<times> bool) \<Rightarrow> ('r, bool \<times> int32) http_handler" where
  "handle_confirm_p2p_transfer gw rq transferID body =
     served (gw_transfer gw) ''transfer'' (decoded (map_sum (\<lambda>_. ''invalid request body'') id body) (\<lambda>(chunks, success).
       let x = hr_rpc rq 0 in reply 200 (transfer_rpc gw x ''ConfirmP2PTransfer'' (forward_auth rq)
         (\<lambda>ctx. confirm_p2p_transfer (ci_transfer x) transferID success chunks))))"

definition handle_respond_to_transfer ::
  "'r gateway \<Rightarrow> http_request \<Rightarrow> string \<Rightarrow> string + (node_id \<times> bool) \<Rightarrow> ('r, string \<times> int32) http_handler" where
  "handle_respond_to_transfer gw rq transferID body =
     served (gw_transfer gw) ''transfer'' (decoded body (\<lambda>(receiver, accept) pf.
       let (owns, pf1) = user_owns_node gw (hr_rpc rq 0) (forward_auth rq) receiver pf; x = hr_rpc rq 1 in
       if \<not> owns then (Failed 403 ''node does not belong to you'', pf1)
       else reply 200 (transfer_rpc gw x ''RespondToTransfer'' (forward_auth rq)
              (\<lambda>ctx. respond_to_transfer (ci_transfer x) transferID receiver accept)) pf1))"

section \<open>Chunks\<close>

datatype form_file = NoFile | Unreadable | FileData bytes

text \<open>A multipart form: the index and the hash as text, the file. \<open>None\<close> stands for a body that
  is no such form.\<close>

type_synonym chunk_form = "string \<times> string \<times> form_file"

definition max_chunk_bytes :: nat where
  "max_chunk_bytes = 10 * 2 ^ 20"

text \<open>The upload sends one message on a stream of its own and closes it.\<close>

definition send_one_chunk ::
  "'r gateway \<Rightarrow> circumstances \<Rightarrow> data_chunk \<Rightarrow> transfer_service
     \<Rightarrow> (send_response list \<times> status option) \<times> transfer_service" where
  "send_one_chunk gw x c s =
     (case send_chunk (gw_transfers gw) (gw_relay gw) (ci_transfer x) True [c] s of
        (Inl e, s') \<Rightarrow> (([], Some e), s')
      | (Inr r, s') \<Rightarrow> (([r], None), s'))"

definition handle_upload_chunk ::
  "'r gateway \<Rightarrow> http_request \<Rightarrow> string \<Rightarrow> chunk_form option \<Rightarrow> ('r, send_response) http_handler" where
  "handle_upload_chunk gw rq transferID form =
     served (gw_transfer gw) ''transfer'' (\<lambda>pf.
       case form of
         None \<Rightarrow> (Failed 400 ''invalid multipart form'', pf)
       | Some (chunkIndexStr, chunkHash, part) \<Rightarrow>
      (case sscanf_d 64 chunkIndexStr of
         None \<Rightarrow> (Failed 400 ''invalid chunk_index'', pf)
       | Some chunkIndex \<Rightarrow>
      (case part of
         NoFile \<Rightarrow> (Failed 400 ''missing data file in multipart form'', pf)
       | Unreadable \<Rightarrow> (Failed 400 ''failed to read chunk data'', pf)
       | FileData content \<Rightarrow>
           let x = hr_rpc rq 0;
               c = \<lparr>dc_TransferId = transferID, dc_ChunkIndex = wrap32 chunkIndex,
                    dc_Data = take max_chunk_bytes content, dc_ChunkHash = chunkHash, dc_IsLast = False\<rparr>
           in case transfer_stream gw x ''SendChunk'' (forward_auth rq) (\<lambda>ctx. send_one_chunk gw x c) pf of
                (Inl e, pf') \<Rightarrow> (write_grpc_error e, pf')
              | (Inr (msgs, Some e), pf') \<Rightarrow> (write_grpc_error e, pf')
              | (Inr (msgs, None), pf') \<Rightarrow> (Reply 200 (hd msgs), pf'))))"

text \<open>The lines of an NDJSON answer: one per message, a last one for an error; writing stops where
  the client is gone.\<close>

datatype 'm line = Line 'm | ErrorLine string

fun ndjson :: "('m \<Rightarrow> bool) \<Rightarrow> 'm list \<Rightarrow> status option \<Rightarrow> 'm line list" where
  "ndjson fails [] None = []"
| "ndjson fails [] (Some e) = [ErrorLine (grpc_error e)]"
| "ndjson fails (m # ms) e = (if fails m then [] else Line m # ndjson fails ms e)"

definition ndjson_reply ::
  "('m \<Rightarrow> bool) \<Rightarrow> ('m list \<times> status option) result \<times> 'r platform \<Rightarrow> 'm line list http \<times> 'r platform" where
  "ndjson_reply fails call =
     (case call of
        (Inl e, pf) \<Rightarrow> (write_grpc_error e, pf)
      | (Inr (msgs, e), pf) \<Rightarrow> (Reply 200 (ndjson fails msgs e), pf))"

definition handle_download_chunks ::
  "'r gateway \<Rightarrow> http_request \<Rightarrow> string \<Rightarrow> (data_chunk \<Rightarrow> bool) \<Rightarrow> ('r, data_chunk line list) http_handler" where
  "handle_download_chunks gw rq transferID gone =
     served (gw_transfer gw) ''transfer'' (\<lambda>pf.
       let sc = hr_Query rq ''start_chunk'';
           startChunk = (if sc \<noteq> '''' then case sscanf_d 64 sc of None \<Rightarrow> 0 | Some n \<Rightarrow> wrap32 n else 0);
           x = hr_rpc rq 0
       in ndjson_reply gone (transfer_stream gw x ''ReceiveChunks'' (forward_auth rq)
            (\<lambda>ctx s. (receive_chunks (gw_transfers gw) (gw_relay gw) (ci_transfer x) (\<lambda>_. False) transferID startChunk s, s)) pf))"

text \<open>A watch sees the service at its ticks; the states and their faults are arguments.\<close>

definition handle_watch_transfers ::
  "'r gateway \<Rightarrow> http_request \<Rightarrow> transfer_faults list \<Rightarrow> transfer_service list \<Rightarrow> (transfer_event \<Rightarrow> bool)
     \<Rightarrow> ('r, transfer_event line list) http_handler" where
  "handle_watch_transfers gw rq flts ticks gone =
     served (gw_transfer gw) ''transfer'' (\<lambda>pf.
       let nodeID = hr_Query rq ''node_id'' in
       if nodeID = '''' then (Failed 400 ''node_id query parameter is required'', pf)
       else
         let (owns, pf1) = user_owns_node gw (hr_rpc rq 0) (forward_auth rq) nodeID pf in
         if \<not> owns then (Failed 403 ''node does not belong to you'', pf1)
         else
           let receiverOnly = (hr_Query rq ''receiver_only'' = ''true'')
           in ndjson_reply gone (transfer_stream gw (hr_rpc rq 1) ''WatchTransfers'' (forward_auth rq)
                (\<lambda>ctx s. (case watch_transfers flts nodeID receiverOnly (\<lambda>_. False) ticks of
                            Inl e \<Rightarrow> ([], Some e) | Inr evs \<Rightarrow> (evs, None), s)) pf1))"

section \<open>Group transfers\<close>

definition handle_initiate_group_transfer ::
  "'r gateway \<Rightarrow> http_request \<Rightarrow> string \<Rightarrow> string + group_request \<Rightarrow> ('r, group_response) http_handler" where
  "handle_initiate_group_transfer gw rq sessionID body =
     served (gw_transfer gw) ''transfer'' (decoded body (\<lambda>req0 pf.
       let req = req0\<lparr>gq_SessionId := sessionID\<rparr>;
           (owns, pf1) = sender_owned gw (hr_rpc rq 0) (forward_auth rq) (gq_SenderNodeId req) pf;
           x = hr_rpc rq 1
       in if \<not> owns then (Failed 403 ''sender node does not belong to you'', pf1)
          else reply 201 (transfer_rpc gw x ''InitiateGroupTransfer'' (forward_auth rq)
                 (\<lambda>ctx. initiate_group_transfer (ci_transfer x) (gw_uuid gw) (ci_newID x) (ci_newIDs x) req)) pf1))"

definition handle_list_group_transfers ::
  "'r gateway \<Rightarrow> http_request \<Rightarrow> string \<Rightarrow> ('r, group_info list) http_handler" where
  "handle_list_group_transfers gw rq sessionID =
     served (gw_transfer gw) ''transfer''
       (let x = hr_rpc rq 0 in reply 200 (transfer_rpc gw x ''ListGroupTransfers'' (forward_auth rq)
         (query (\<lambda>ctx. list_group_transfers (ci_transfer x) (gw_uuid gw) sessionID))))"

section \<open>Notifications\<close>

text \<open>The loop over the devices: the \<open>i\<close>-th one is asked for with RPC number \<open>i\<close>.\<close>

fun count_incoming ::
  "'r gateway \<Rightarrow> http_request \<Rightarrow> nat \<Rightarrow> device_msg list \<Rightarrow> int32 \<Rightarrow> 'r platform \<Rightarrow> int32 \<times> 'r platform" where
  "count_incoming gw rq i [] n pf = (n, pf)"
| "count_incoming gw rq i (d # ds) n pf =
     (if dm_NodeId d = '''' then count_incoming gw rq (i + 1) ds n pf
      else case list_rpc gw (hr_rpc rq i) (forward_auth rq) (dm_NodeId d) st_AWAITING_APPROVAL pf of
             (Inl e, pf') \<Rightarrow> count_incoming gw rq (i + 1) ds n pf'
           | (Inr ts, pf') \<Rightarrow>
               count_incoming gw rq (i + 1) ds
                 (wrap32 (n + int (length (filter (\<lambda>t. ti_ReceiverNodeId t = dm_NodeId d) ts)))) pf')"

text \<open>The answer: friend requests, incoming transfers, their sum.\<close>

definition handle_get_notification_count ::
  "'r gateway \<Rightarrow> http_request \<Rightarrow> ('r, int32 \<times> int32 \<times> int32) http_handler" where
  "handle_get_notification_count gw rq =
     served (gw_identity gw) ''identity'' (\<lambda>pf.
       let x = hr_rpc rq 0; md = forward_auth rq in
       case identity_rpc gw x ''GetNotificationCount'' md
              (query (get_notification_count (gw_ident gw) (ci_ident x))) pf of
         (Inl e, pf1) \<Rightarrow> (write_grpc_error e, pf1)
       | (Inr (friends, incoming, both), pf1) \<Rightarrow>
           if \<not> gw_transfer gw then (Reply 200 (friends, incoming, both), pf1)
           else case list_own_devices gw (hr_rpc rq 1) md pf1 of
                  (Inl e, pf2) \<Rightarrow> (Reply 200 (friends, incoming, both), pf2)
                | (Inr ds, pf2) \<Rightarrow>
                    let (n, pf3) = count_incoming gw rq 2 ds 0 pf2
                    in (Reply 200 (friends, n, wrap32 (friends + n)), pf3))"

section \<open>Statistics\<close>

definition handle_platform_stats ::
  "'r gateway \<Rightarrow> http_request \<Rightarrow> ('r, int64 \<times> int64 \<times> int64 \<times> int64) http_handler" where
  "handle_platform_stats gw rq pf =
     (let x = hr_rpc rq 0; y = hr_rpc rq 1;
          ((users, devices), pf1) =
            (if \<not> gw_identity gw then ((0, 0), pf)
             else case identity_rpc gw x ''GetPlatformStats'' []
                         (query (\<lambda>ctx s. Inr (get_platform_stats (ci_ident x) s))) pf of
                    (Inl e, pf') \<Rightarrow> ((0, 0), pf')
                  | (Inr r, pf') \<Rightarrow> (r, pf'));
          ((transfers, total_bytes), pf2) =
            (if \<not> gw_transfer gw then ((0, 0), pf1)
             else case transfer_rpc gw y ''GetTransferStats'' []
                         (query (\<lambda>ctx s. Inr (get_transfer_stats (ci_transfer y) s))) pf1 of
                    (Inl e, pf') \<Rightarrow> ((0, 0), pf')
                  | (Inr r, pf') \<Rightarrow> (r, pf'))
      in (Reply 200 (users, devices, transfers, total_bytes), pf2))"

definition handle_transfer_activity ::
  "'r gateway \<Rightarrow> http_request \<Rightarrow> node_id \<Rightarrow> ('r, (int \<times> int64) list) http_handler" where
  "handle_transfer_activity gw rq nodeID =
     served (gw_transfer gw) ''transfer''
       (let x = hr_rpc rq 0 in reply 200 (transfer_rpc gw x ''GetTransferActivity'' (forward_auth rq)
         (query (\<lambda>ctx. get_transfer_activity (ci_transfer x) nodeID))))"

definition handle_transfer_speed ::
  "'r gateway \<Rightarrow> http_request \<Rightarrow> node_id \<Rightarrow> ('r, int64 \<times> int64) http_handler" where
  "handle_transfer_speed gw rq nodeID =
     served (gw_transfer gw) ''transfer''
       (let x = hr_rpc rq 0 in reply 200 (transfer_rpc gw x ''GetTransferSpeed'' (forward_auth rq)
         (query (\<lambda>ctx. get_transfer_speed (ci_transfer x) nodeID))))"

section \<open>Administration\<close>

definition handle_admin_list_transfers ::
  "'r gateway \<Rightarrow> http_request \<Rightarrow> ('r, transfer_row list \<times> int64) http_handler" where
  "handle_admin_list_transfers gw rq =
     admin_only gw rq (hr_rpc rq 0) (served (gw_transfer gw) ''transfer''
       (let (limit, offset) = parse_pagination rq; x = hr_rpc rq 1 in
        reply 200 (transfer_rpc gw x ''AdminListTransfers'' (forward_auth rq)
          (query (\<lambda>ctx. admin_list_transfers (ci_transfer x) limit offset)))))"

definition handle_admin_service_status :: "'r gateway \<Rightarrow> http_request \<Rightarrow> ('r, (string \<times> bool) list) http_handler" where
  "handle_admin_service_status gw rq = admin_only gw rq (hr_rpc rq 0) (handle_service_status gw)"

end
