(* ===== verification/GatewayLaws.thy ===== *)
theory GatewayLaws
  imports GatewayIdentity GatewayTransfer IdentityGuards
begin

text \<open>
  The gateway as a machine: every request that reaches a service, what it can do to the state
  of the services, and with whose rights.
\<close>

section \<open>Calls\<close>

abbreviation handler_state :: "'s server \<Rightarrow> 's" where
  "handler_state sv \<equiv> snd (snd (snd sv))"

abbreviation ident_of :: "'r platform \<Rightarrow> 'r ident_state" where
  "ident_of pf \<equiv> handler_state (pf_identity pf)"

abbreviation routes_of :: "'r platform \<Rightarrow> routing_db" where
  "routes_of pf \<equiv> handler_state (pf_routing pf)"

abbreviation transfer_of :: "'r platform \<Rightarrow> transfer_service" where
  "transfer_of pf \<equiv> handler_state (pf_transfer pf)"

text \<open>The user whose token a call carries, as the interceptor of the service reads it.\<close>

definition caller :: "'r gateway \<Rightarrow> circumstances \<Rightarrow> string list \<Rightarrow> string option" where
  "caller gw x md =
     map_option cl_Subject (token_of (ie_jwt (gw_ident gw)) (gw_secret gw) (call_with x '''' md))"

lemma token_of_call:
  "map_option cl_Subject (token_of (ie_jwt (gw_ident gw)) (gw_secret gw) (call_with x method md)) = caller gw x md"
  by (auto simp: caller_def token_of_def call_with_def split: list.split)

definition context_for :: "'r gateway \<Rightarrow> circumstances \<Rightarrow> string \<Rightarrow> string list \<Rightarrow> auth_ctx result" where
  "context_for gw x method md = unary_context (ie_jwt (gw_ident gw)) (gw_secret gw) (call_with x method md)"

lemma context_user:
  assumes "context_for gw x method md = Inr ctx"
  shows "user_id_from_context ctx = (if method \<in> public_methods then None else caller gw x md)"
proof -
  have "run_allowed (ie_jwt (gw_ident gw)) (gw_secret gw) (True, call_with x method md, ctx, '''')"
    using unary_context_allowed assms unfolding context_for_def by blast
  then show ?thesis
    using token_of_call [of gw x "method" md]
    by (auto simp: run_allowed_def no_user_def user_id_from_context_def call_with_def split: if_splits option.splits)
qed

lemma context_caller:
  "context_for gw x method md = Inr ctx \<Longrightarrow> method \<notin> public_methods \<Longrightarrow>
     \<exists>u. caller gw x md = Some u \<and> user_id_from_context ctx = Some u"
  by (frule context_user)
    (auto simp: context_for_def unary_context_def authenticate_Inr caller_def token_of_def call_with_def
      user_id_from_context_def)

text \<open>What one RPC does: nothing, or it runs the handler once; a result is the handler's.\<close>

lemma rpc_effect:
  assumes "rpc gw x method md h sv = (r, sv')"
  shows "(handler_state sv' = handler_state sv \<and> (\<exists>e. r = Inl e))
    \<or> (\<exists>ctx. context_for gw x method md = Inr ctx \<and> handler_state sv' = snd (h ctx (handler_state sv))
         \<and> (r = fst (h ctx (handler_state sv)) \<or> (\<exists>e. r = Inl e)))"
  using assms
  by (cases sv)
    (auto simp: rpc_def unary_chain_result chain_result_def context_for_def Let_def case_prod_beta
      split: if_splits sum.splits)

lemma rpc_state:
  assumes "\<And>ctx. context_for gw x method md = Inr ctx \<Longrightarrow> P (snd (h ctx (handler_state sv)))" "P (handler_state sv)"
  shows "P (handler_state (snd (rpc gw x method md h sv)))"
  using rpc_effect [OF prod.collapse [symmetric, of "rpc gw x method md h sv"]] assms by auto

lemma rpc_Inr:
  assumes "rpc gw x method md h sv = (Inr v, sv')"
  shows "\<exists>ctx. context_for gw x method md = Inr ctx \<and> h ctx (handler_state sv) = (Inr v, handler_state sv')"
  using rpc_effect [OF assms] by (metis Inl_Inr_False prod.collapse)

lemma stream_rpc_state:
  assumes "\<And>ctx r s'. h ctx (handler_state sv) = (r, s') \<Longrightarrow> P s'" "P (handler_state sv)"
  shows "P (handler_state (snd (stream_rpc gw x method md h sv)))"
  using assms
  by (cases sv)
    (auto simp: stream_rpc_def stream_chain_result chain_result_def Let_def split: prod.splits sum.splits option.splits)

text \<open>The same on the platform.\<close>

lemma rpc_platform [simp]:
  "pf_routing (snd (identity_rpc gw x m md hi pf)) = pf_routing pf"
  "pf_transfer (snd (identity_rpc gw x m md hi pf)) = pf_transfer pf"
  "pf_identity (snd (routing_rpc gw x m md hr pf)) = pf_identity pf"
  "pf_transfer (snd (routing_rpc gw x m md hr pf)) = pf_transfer pf"
  "pf_identity (snd (transfer_rpc gw x m md ht pf)) = pf_identity pf"
  "pf_routing (snd (transfer_rpc gw x m md ht pf)) = pf_routing pf"
  "pf_identity (snd (transfer_stream gw x m md hs pf)) = pf_identity pf"
  "pf_routing (snd (transfer_stream gw x m md hs pf)) = pf_routing pf"
  by (simp_all add: identity_rpc_def routing_rpc_def transfer_rpc_def transfer_stream_def case_prod_beta)

lemma snd_query [simp]: "snd (query f ctx s) = s"
  by (simp add: query_def)

lemma query_rpcs [simp]:
  "ident_of (snd (identity_rpc gw x m md (query fi) pf)) = ident_of pf"
  "routes_of (snd (routing_rpc gw x m md (query fr) pf)) = routes_of pf"
  "transfer_of (snd (transfer_rpc gw x m md (query ft) pf)) = transfer_of pf"
  unfolding identity_rpc_def routing_rpc_def transfer_rpc_def case_prod_beta Let_def
  by (simp_all, (rule rpc_state; simp)+)

lemma same_platform:
  "user_owns_node gw x md n pf = (b, pf') \<Longrightarrow>
     ident_of pf' = ident_of pf \<and> pf_routing pf' = pf_routing pf \<and> pf_transfer pf' = pf_transfer pf"
  using query_rpcs(1) [of gw x "''ListDevices''" md "list_devices (gw_ident gw) (ci_ident x)" pf]
    rpc_platform(1,2) [of gw x "''ListDevices''" md "query (list_devices (gw_ident gw) (ci_ident x))" pf]
  by (cases "identity_rpc gw x ''ListDevices'' md (query (list_devices (gw_ident gw) (ci_ident x))) pf")
    (simp add: user_owns_node_def list_own_devices_def split: if_splits sum.splits)

end
