(* ===== verification/GatewayExample.thy ===== *)
theory GatewayExample
  imports GatewayLaws IdentityExample
begin

text \<open>
  A small platform behind the gateway, used by the examples: the accounts of
  \<open>IdentityExample\<close>, the transfers of \<open>TransferLaws\<close>, a token \<open>A\<close> of the user \<open>ann\<close>.
\<close>

definition local_config :: transfer_config where
  "local_config = \<lparr>tc_NodeID = ''a'', tc_routing = None, tc_chunks = True, tc_relay = False, tc_p2p = None\<rparr>"

definition demo_gateway :: "map_redis gateway" where
  "demo_gateway =
     \<lparr>gw_identity = True, gw_routing = True, gw_transfer = True, gw_secret = ''s'', gw_ident = small_env,
      gw_intel = None, gw_metrics = None, gw_transfers = local_config, gw_relay = demo_env,
      gw_uuid = (\<lambda>_. None), gw_ml = None\<rparr>"

definition demo_platform :: "map_redis platform" where
  "demo_platform =
     \<lparr>pf_identity = new_server (small_state ''accepted''), pf_routing = new_server \<lparr>db_routes = [], db_relays = []\<rparr>,
      pf_transfer = new_server demo_service\<rparr>"

definition demo_moment :: circumstances where
  "demo_moment =
     \<lparr>ci_call = demo_call '''' [] 0, ci_network = Delivered, ci_ident = (\<lambda>_. False), ci_routing = (\<lambda>_. False),
      ci_transfer = (\<lambda>_. False), ci_newID = ''n'', ci_newIDs = (\<lambda>_. ''n''), ci_genNode = ''n'', ci_token = None,
      ci_random = []\<rparr>"

definition demo_http :: "string \<Rightarrow> http_request" where
  "demo_http auth = \<lparr>hr_Authorization = auth, hr_Query = (\<lambda>_. ''''), hr_rpc = (\<lambda>_. demo_moment)\<rparr>"

lemmas gateway_demo_defs = demo_gateway_def demo_platform_def demo_moment_def demo_http_def demo_call_def new_server_def

text \<open>A streaming call with the token of ann that the rate limiter lets through.\<close>

lemma demo_stream:
  assumes "rl_allow 0 (peer_addr (Some ''10.0.0.1:5'')) rl = (True, rl')" "\<And>ctx. h ctx s = ((msgs, None), s')"
    and "pf_transfer pf = (m0, rl, t, s)" "''/transfer.v1.TransferService/'' @ m \<notin> public_methods"
  shows "\<exists>m' t'. transfer_stream demo_gateway demo_moment m (forward_auth (demo_http ''Bearer A'')) h pf
      = (Inr (msgs, None), pf\<lparr>pf_transfer := (m', rl', t', s')\<rparr>)"
  using assms
  by (simp add: transfer_stream_def stream_rpc_def demo_moment_def stream_chain_result chain_result_def
      stream_context_def call_with_def demo_call_def forward_auth_def demo_http_def authenticate_def trim_prefix_def
      demo_gateway_def small_env_def two_tokens_def ann_access_def second_def) (rule exI, rule exI, rule refl)

lemma demo_limiter:
  "\<exists>r1 r2 r3. rl_allow 0 (peer_addr (Some ''10.0.0.1:5'')) (new_rate_limiter 100 200) = (True, r1)
     \<and> rl_allow 0 (peer_addr (Some ''10.0.0.1:5'')) r1 = (True, r2) \<and> rl_allow 0 (peer_addr (Some ''10.0.0.1:5'')) r2 = (True, r3)"
  by (simp add: rl_allow_def new_rate_limiter_def peer_addr_def Let_def seconds_def)

end
