(* ===== verification/GatewayUploads.thy ===== *)
theory GatewayUploads
  imports GatewayExample
begin

text \<open>
  A file through the gateway: one HTTP request per chunk, each of which opens and closes a
  gRPC stream of its own, and a download over NDJSON.
\<close>

section \<open>One chunk on a stream of its own\<close>

lemma try_update_ok [simp]: "try_update False f s = set_transfers (f (transfers_of s)) s"
  by (simp add: try_update_def)

definition chunk_message :: "relay_env \<Rightarrow> string \<Rightarrow> int32 \<Rightarrow> bytes \<Rightarrow> data_chunk" where
  "chunk_message env tid k d =
     \<lparr>dc_TransferId = tid, dc_ChunkIndex = k, dc_Data = d, dc_ChunkHash = env_sha env d, dc_IsLast = False\<rparr>"

text \<open>A transfer that takes chunks: it exists, is no group, and neither waits nor pauses.\<close>

definition open_transfer :: "string \<Rightarrow> int32 \<Rightarrow> string \<Rightarrow> transfer_service \<Rightarrow> bool" where
  "open_transfer tid n sid s \<longleftrightarrow>
     (\<exists>t. get_transfer_sql tid (transfers_of s) = Some t \<and> get_group_sql tid (groups_of s) = None
        \<and> tr_Status t \<noteq> st_AWAITING_APPROVAL \<and> tr_Status t \<noteq> st_PAUSED
        \<and> tr_TotalChunks t = n \<and> storage_id t = sid)"

definition status_is :: "string \<Rightarrow> int32 \<Rightarrow> transfer_service \<Rightarrow> bool" where
  "status_is tid st s \<longleftrightarrow> map_option tr_Status (get_transfer_sql tid (transfers_of s)) = Some st"

lemma upload_chunk_status:
  assumes "upload_chunk cfg env flt k st c s = (r, s')" "\<not> ss_isGroup st"
  shows "map_option tr_Status (get_transfer_sql i (transfers_of s')) = map_option tr_Status (get_transfer_sql i (transfers_of s))"
proof -
  have "map_option tr_Status (map_option (\<lambda>r. if tr_TransferID r = j then r\<lparr>tr_ChunksDone := n, tr_UpdatedAt := w\<rparr> else r) x)
      = map_option tr_Status x" for j n w x
    by (cases x) auto
  then show ?thesis
    using assms by (auto simp: upload_chunk_def Let_def try_update_def split: if_splits prod.splits)
qed

lemma send_single:
  assumes "open_transfer tid n sid s" "plain_id tid" "plain_id sid" "store_works cfg env" "\<forall>q. \<not> flt q"
    and "in_int32 k" "in_int32 (k + 1)" "env_sha env d \<noteq> ''''"
  obtains s' where
    "send_chunk cfg env flt True [chunk_message env tid k d] s =
       (Inr \<lparr>sd_TransferId = tid, sd_ChunksReceived = k + 1, sd_TotalChunks = n,
             sd_Status = (if n \<le> k + 1 then st_COMPLETED else st_IN_PROGRESS)\<rparr>, s')"
    "open_transfer tid n sid s'" "status_is tid (if n \<le> k + 1 then st_COMPLETED else st_IN_PROGRESS) s'"
    "\<And>j. in_int32 j \<Longrightarrow> chunk_at (store_of (ts_net s') (tc_NodeID cfg)) sid j =
       (if j = k then Some d else chunk_at (store_of (ts_net s) (tc_NodeID cfg)) sid j)"
proof -
  obtain t where t: "get_transfer_sql tid (transfers_of s) = Some t" "get_group_sql tid (groups_of s) = None"
    "tr_Status t \<noteq> st_AWAITING_APPROVAL" "tr_Status t \<noteq> st_PAUSED" "tr_TotalChunks t = n" "storage_id t = sid"
    using assms(1) by (auto simp: open_transfer_def)
  let ?s1 = "set_transfers (update_transfer_status_sql (clock s) tid st_IN_PROGRESS (transfers_of s)) s"
  let ?st = "send_start\<lparr>ss_transferID := tid, ss_storageID := sid, ss_total := n,
      ss_replication := tr_ReplicationFactor t, ss_hops := tr_RouteHops t\<rparr>"
  let ?c = "chunk_message env tid k d"
  have tid: "tid \<noteq> ''''" "tr_TransferID t = tid"
    using assms(2) t(1) by (auto simp: plain_id_def dest: get_transfer_key)
  have o: "open_upload flt (dc_TransferId ?c) send_start s = (Inr ?st, ?s1)"
    using t assms(5) by (auto simp: open_upload_def open_single_def storage_id_def send_start_def chunk_message_def)
  obtain s2 where u: "upload_chunk cfg env flt 0 ?st ?c ?s1 = (Inr (?st\<lparr>ss_received := k + 1\<rparr>), s2)"
    and sh: "same_shapes ?s1 s2"
    and at: "\<And>j. in_int32 j \<Longrightarrow> chunk_at (store_of (ts_net s2) (tc_NodeID cfg)) sid j =
       (if j = k then Some d else chunk_at (store_of (ts_net s) (tc_NodeID cfg)) sid j)"
    by (rule upload_chunk_effect [OF assms(4), of ?st ?c flt 0 ?s1])
      (use assms in \<open>auto simp: chunk_message_def\<close>)
  have "\<not> ss_isGroup ?st" by (simp add: send_start_def)
  from upload_chunk_status [OF u this, of tid] have st2: "status_is tid st_IN_PROGRESS s2"
    using t(1) tid by (simp add: status_is_def)
  have send: "send_chunk cfg env flt True [?c] s = finish_upload flt (?st\<lparr>ss_received := k + 1\<rparr>) s2"
    using send_opened [OF o, of cfg env True "[]"] tid u by (simp add: take_message_def)
  obtain t2 where t2: "get_transfer_sql tid (transfers_of s2) = Some t2" "tr_TransferID t2 = tid"
    "tr_TotalChunks t2 = n" "tr_GroupTransferID t2 = tr_GroupTransferID t" "tr_Status t2 = st_IN_PROGRESS"
  proof (rule same_shapes_get [OF sh])
    show "get_transfer_sql tid (transfers_of ?s1) = Some (t\<lparr>tr_Status := st_IN_PROGRESS, tr_UpdatedAt := clock s\<rparr>)"
      using t(1) tid by simp
  qed (use that t tid st2 in \<open>simp add: status_is_def\<close>)
  have g: "get_group_sql tid (groups_of s2) = None" using sh t(2) by (simp add: same_shapes_def)
  have sid: "storage_id (t2\<lparr>tr_Status := st, tr_ChunksDone := m, tr_UpdatedAt := w\<rparr>) = sid" for st m w
    using t2 t(6) tid by (simp add: storage_id_def split: option.splits)
  show thesis
  proof (cases "n \<le> k + 1")
    case True
    let ?s3 = "set_transfers (complete_transfer_sql (clock s2) tid (transfers_of s2)) s2"
    have row: "get_transfer_sql tid (transfers_of ?s3) = Some (t2\<lparr>tr_Status := 3, tr_ChunksDone := n, tr_UpdatedAt := clock s2\<rparr>)"
      using t2 by simp
    show thesis
    proof (rule that [of ?s3])
      have "get_group_sql tid (groups_of ?s3) = None" using g by simp
      then show "open_transfer tid n sid ?s3"
        unfolding open_transfer_def row using sid t2(3) by simp
      show "status_is tid (if n \<le> k + 1 then st_COMPLETED else st_IN_PROGRESS) ?s3"
        unfolding status_is_def row using True by simp
    qed (use send at True assms(5) in \<open>simp_all add: finish_upload_def send_start_def\<close>)
  next
    case False
    have "storage_id t2 = sid" using t2 t(6) tid by (simp add: storage_id_def split: option.splits)
    then show thesis using send at False st2 t2 g
      by (intro that [of s2]) (simp_all add: finish_upload_def send_start_def open_transfer_def)
  qed
qed

section \<open>Uploading a file\<close>

text \<open>The client's loop: the parts in order, until one is refused.\<close>

fun upload_parts ::
  "'r gateway \<Rightarrow> string \<Rightarrow> (http_request \<times> chunk_form option) list \<Rightarrow> 'r platform \<Rightarrow> bool \<times> 'r platform" where
  "upload_parts gw tid [] pf = (True, pf)"
| "upload_parts gw tid ((rq, form) # ups) pf =
     (case handle_upload_chunk gw rq tid form pf of
        (Reply code resp, pf') \<Rightarrow> upload_parts gw tid ups pf'
      | (Failed code msg, pf') \<Rightarrow> (False, pf'))"

text \<open>The form of a part: any text that reads as its index, its hash, its bytes.\<close>

definition part_form :: "relay_env \<Rightarrow> nat \<Rightarrow> bytes \<Rightarrow> http_request \<times> chunk_form option \<Rightarrow> bool" where
  "part_form env k d up \<longleftrightarrow>
     (\<exists>idx. sscanf_d 64 idx = Some (int k) \<and> snd up = Some (idx, env_sha env d, FileData d))
     \<and> length d \<le> max_chunk_bytes \<and> (\<forall>q. \<not> ci_transfer (hr_rpc (fst up) 0) q)"

lemma transfer_stream_complete:
  assumes "transfer_stream gw x m md h pf = (Inr (msgs, None), pf')"
  shows "\<exists>ctx. h ctx (transfer_of pf) = ((msgs, None), transfer_of pf')"
proof -
  obtain m0 rl t s where sv: "pf_transfer pf = (m0, rl, t, s)" by (cases "pf_transfer pf")
  show ?thesis
    using assms
    by (auto simp: transfer_stream_def stream_rpc_def sv stream_chain_result chain_result_def Let_def
        split: if_splits prod.splits sum.splits option.splits network.splits)
qed

lemma upload_part:
  assumes "handle_upload_chunk gw rq tid form pf = (Reply code resp, pf')" "part_form (gw_relay gw) k d (rq, form)"
    and "int k + 1 < 2 ^ 31"
  shows "\<exists>e. send_chunk (gw_transfers gw) (gw_relay gw) (ci_transfer (hr_rpc rq 0)) True
      [chunk_message (gw_relay gw) tid (int k) d] (transfer_of pf) = (Inr e, transfer_of pf')"
proof -
  obtain idx where f: "form = Some (idx, env_sha (gw_relay gw) d, FileData d)" "sscanf_d 64 idx = Some (int k)"
    "take max_chunk_bytes d = d"
    using assms(2) by (auto simp: part_form_def)
  have w: "wrap32 (int k) = int k" using assms(3) by (intro wrap32_id) (simp add: in_int32_def)
  let ?x = "hr_rpc rq 0" and ?c = "chunk_message (gw_relay gw) tid (int k) d"
  have "\<exists>msgs. transfer_stream gw ?x ''SendChunk'' (forward_auth rq) (\<lambda>ctx. send_one_chunk gw ?x ?c) pf = (Inr (msgs, None), pf')"
    using assms(1) f w
    by (auto simp: handle_upload_chunk_def served_def write_grpc_error_def Let_def chunk_message_def
        split: if_splits prod.splits sum.splits option.splits)
  then obtain msgs where "send_one_chunk gw ?x ?c (transfer_of pf) = ((msgs, None), transfer_of pf')"
    using transfer_stream_complete by blast
  then show ?thesis by (auto simp: send_one_chunk_def split: prod.splits sum.splits)
qed

definition chunks_held :: "transfer_config \<Rightarrow> string \<Rightarrow> bytes list \<Rightarrow> nat \<Rightarrow> transfer_service \<Rightarrow> bool" where
  "chunks_held cfg sid parts k s \<longleftrightarrow>
     (\<forall>j<k. chunk_at (store_of (ts_net s) (tc_NodeID cfg)) sid (int j) = Some (parts ! j))"

lemma upload_parts_from:
  assumes "upload_parts gw tid ups pf = (True, pf')" "k + length ups = length parts"
    and "\<forall>j<length ups. part_form (gw_relay gw) (k + j) (parts ! (k + j)) (ups ! j)"
    and "open_transfer tid (int (length parts)) sid (transfer_of pf)" "plain_id tid" "plain_id sid"
    and "store_works (gw_transfers gw) (gw_relay gw)" "int (length parts) < 2 ^ 31"
    and "\<forall>d\<in>set parts. env_sha (gw_relay gw) d \<noteq> ''''"
    and "chunks_held (gw_transfers gw) sid parts k (transfer_of pf)"
  shows "open_transfer tid (int (length parts)) sid (transfer_of pf')
    \<and> chunks_held (gw_transfers gw) sid parts (length parts) (transfer_of pf')
    \<and> (ups \<noteq> [] \<longrightarrow> status_is tid st_COMPLETED (transfer_of pf'))"
  using assms(1-4,10)
proof (induction ups arbitrary: k pf)
  case Nil
  then show ?case by simp
next
  case (Cons up ups)
  obtain rq form where up: "up = (rq, form)" by (cases up)
  have k: "k < length parts" "int k + 1 < 2 ^ 31" using Cons.prems(2) assms(8) by auto
  obtain code resp pf1 where h: "handle_upload_chunk gw rq tid form pf = (Reply code resp, pf1)"
    and rest: "upload_parts gw tid ups pf1 = (True, pf')"
    using Cons.prems(1) by (auto simp: up split: prod.splits http.splits)
  have part: "part_form (gw_relay gw) k (parts ! k) (rq, form)" using Cons.prems(3) by (auto simp: up)
  then have flt: "\<forall>q. \<not> ci_transfer (hr_rpc rq 0) q" by (simp add: part_form_def)
  have int32: "in_int32 (int j)" if "j \<le> length parts" for j using that assms(8) by (simp add: in_int32_def)
  obtain e where send: "send_chunk (gw_transfers gw) (gw_relay gw) (ci_transfer (hr_rpc rq 0)) True
      [chunk_message (gw_relay gw) tid (int k) (parts ! k)] (transfer_of pf) = (Inr e, transfer_of pf1)"
    using upload_part [OF h part k(2)] by blast
  obtain s1 where s1: "transfer_of pf1 = s1" "open_transfer tid (int (length parts)) sid s1"
    "status_is tid (if int (length parts) \<le> int k + 1 then st_COMPLETED else st_IN_PROGRESS) s1"
    "\<And>j. in_int32 j \<Longrightarrow> chunk_at (store_of (ts_net s1) (tc_NodeID (gw_transfers gw))) sid j =
       (if j = int k then Some (parts ! k)
        else chunk_at (store_of (ts_net (transfer_of pf)) (tc_NodeID (gw_transfers gw))) sid j)"
    using send_single [OF Cons.prems(4) assms(5,6,7) flt, of "int k" "parts ! k"] send int32 [of k] int32 [of "Suc k"]
      assms(9) k by (auto simp: add.commute)
  have held: "chunks_held (gw_transfers gw) sid parts (Suc k) s1"
    using Cons.prems(5) s1(4) int32 k(1) by (auto simp: chunks_held_def less_Suc_eq)
  have "open_transfer tid (int (length parts)) sid (transfer_of pf')
    \<and> chunks_held (gw_transfers gw) sid parts (length parts) (transfer_of pf')
    \<and> (ups \<noteq> [] \<longrightarrow> status_is tid st_COMPLETED (transfer_of pf'))"
  proof (rule Cons.IH [OF rest, of "Suc k"])
    show "\<forall>j<length ups. part_form (gw_relay gw) (Suc k + j) (parts ! (Suc k + j)) (ups ! j)"
      using Cons.prems(3) by (auto dest: spec [of _ "Suc _"])
  qed (use Cons.prems(2) s1 held in auto)
  moreover have "status_is tid st_COMPLETED (transfer_of pf')" if "ups = []"
    using rest s1(1,3) Cons.prems(2) that by simp
  ultimately show ?case by auto
qed

section \<open>Downloading it again\<close>

lemma transfer_stream_messages:
  assumes "transfer_stream gw x m md h pf = (Inr (msgs, e), pf')" "\<And>ctx. h ctx (transfer_of pf) = ((ms, None), s')"
  shows "msgs = ms \<and> e = None \<or> (\<exists>n e'. msgs = take n ms \<and> e = Some e')"
proof -
  obtain m0 rl t s where sv: "pf_transfer pf = (m0, rl, t, s)" by (cases "pf_transfer pf")
  have "h ctx s = ((ms, None), s')" for ctx using assms(2) [of ctx] by (simp add: sv)
  then show ?thesis
    using assms(1)
    by (auto simp: transfer_stream_def stream_rpc_def sv stream_chain_result chain_result_def Let_def
        intro: exI [of _ 0] split: if_splits prod.splits sum.splits option.splits network.splits)
qed

lemma ndjson_lines: "ndjson (\<lambda>_. False) ms e = map Line ms @ (case e of None \<Rightarrow> [] | Some e \<Rightarrow> [ErrorLine (grpc_error e)])"
  by (induction "\<lambda>_ :: 'a. False" ms e rule: ndjson.induct) (auto split: option.split)

lemma uploaded_parts:
  assumes "open_transfer tid (int (length parts)) sid (transfer_of pf)" "plain_id tid" "plain_id sid"
    and "parts \<noteq> []" "int (length parts) < 2 ^ 31" "\<forall>d\<in>set parts. env_sha (gw_relay gw) d \<noteq> ''''"
    and "store_works (gw_transfers gw) (gw_relay gw)"
    and "list_all2 (\<lambda>(k, d). part_form (gw_relay gw) k d) (enumerate 0 parts) ups"
    and "upload_parts gw tid ups pf = (True, pf')"
  shows "status_is tid st_COMPLETED (transfer_of pf')"
    and "\<forall>q. \<not> flt q \<Longrightarrow> receive_chunks (gw_transfers gw) (gw_relay gw) flt (\<lambda>_. False) tid 0 (transfer_of pf')
      = (messages (gw_relay gw) tid parts, None)"
proof -
  have len: "length ups = length parts" using list_all2_lengthD [OF assms(8)] by simp
  have forms: "\<forall>j<length ups. part_form (gw_relay gw) (0 + j) (parts ! (0 + j)) (ups ! j)"
    using assms(8) len by (auto simp: list_all2_conv_all_nth nth_enumerate_eq)
  have up: "open_transfer tid (int (length parts)) sid (transfer_of pf')"
    "chunks_held (gw_transfers gw) sid parts (length parts) (transfer_of pf')" "status_is tid st_COMPLETED (transfer_of pf')"
    using upload_parts_from [OF assms(9) _ forms assms(1,2,3,7,5,6)] len assms(4)
    by (auto simp: chunks_held_def)
  show "status_is tid st_COMPLETED (transfer_of pf')" by (rule up(3))
  obtain t where t: "get_transfer_sql tid (transfers_of (transfer_of pf')) = Some t" "tr_TotalChunks t = int (length parts)"
    "storage_id t = sid"
    using up(1) by (auto simp: open_transfer_def)
  show "receive_chunks (gw_transfers gw) (gw_relay gw) flt (\<lambda>_. False) tid 0 (transfer_of pf')
      = (messages (gw_relay gw) tid parts, None)" if "\<forall>q. \<not> flt q"
    using receive_all [OF assms(7) t(1) _ that t(2), of 0] up(2) assms(2) t(3) by (simp add: chunks_held_def plain_id_def)
qed

lemma downloaded_lines:
  assumes "open_transfer tid (int (length parts)) sid (transfer_of pf)" "plain_id tid" "plain_id sid"
    and "parts \<noteq> []" "int (length parts) < 2 ^ 31" "\<forall>d\<in>set parts. env_sha (gw_relay gw) d \<noteq> ''''"
    and "store_works (gw_transfers gw) (gw_relay gw)"
    and "list_all2 (\<lambda>(k, d). part_form (gw_relay gw) k d) (enumerate 0 parts) ups"
    and "upload_parts gw tid ups pf = (True, pf')"
    and "hr_Query rq ''start_chunk'' = ''''" "\<forall>q. \<not> ci_transfer (hr_rpc rq 0) q"
    and "handle_download_chunks gw rq tid (\<lambda>_. False) pf' = (Reply code lines, pf'')"
  shows "lines = map Line (messages (gw_relay gw) tid parts)
    \<or> (\<exists>n e. lines = map Line (take n (messages (gw_relay gw) tid parts)) @ [ErrorLine e])"
proof -
  let ?h = "\<lambda>(ctx :: auth_ctx) s. (receive_chunks (gw_transfers gw) (gw_relay gw) (ci_transfer (hr_rpc rq 0)) (\<lambda>_. False) tid 0 s, s)"
  let ?ms = "messages (gw_relay gw) tid parts"
  have h: "?h ctx (transfer_of pf') = ((?ms, None), transfer_of pf')" for ctx
    using uploaded_parts(2) [OF assms(1-9,11)] by simp
  obtain msgs e pf3 where call: "transfer_stream gw (hr_rpc rq 0) ''ReceiveChunks'' (forward_auth rq) ?h pf'
      = (Inr (msgs, e), pf3)" and lines: "lines = ndjson (\<lambda>_. False) msgs e"
    using assms(10,12)
    by (auto simp: handle_download_chunks_def served_def ndjson_reply_def write_grpc_error_def Let_def
        split: if_splits prod.splits sum.splits)
  from transfer_stream_messages [OF call h]
  show ?thesis
    unfolding lines ndjson_lines by (elim disjE conjE exE) (simp, (simp, blast))
qed

text \<open>C10: A file that goes through the gateway chunk by chunk comes back through the gateway: when
  every part, each on a request and a gRPC stream of its own, was accepted, the transfer is
  completed, and a download answers with these chunks in order, all of them, or with a prefix of
  them and a last line that says that it failed.\<close>

theorem gateway_upload_then_download:
  assumes "open_transfer tid (int (length parts)) sid (transfer_of pf)" "plain_id tid" "plain_id sid"
    and "parts \<noteq> []" "int (length parts) < 2 ^ 31" "\<forall>d\<in>set parts. env_sha (gw_relay gw) d \<noteq> ''''"
    and "store_works (gw_transfers gw) (gw_relay gw)"
    and "list_all2 (\<lambda>(k, d). part_form (gw_relay gw) k d) (enumerate 0 parts) ups"
    and "upload_parts gw tid ups pf = (True, pf')"
    and "hr_Query rq ''start_chunk'' = ''''" "\<forall>q. \<not> ci_transfer (hr_rpc rq 0) q"
    and "handle_download_chunks gw rq tid (\<lambda>_. False) pf' = (Reply code lines, pf'')"
  shows "status_is tid st_COMPLETED (transfer_of pf')
    \<and> (lines = map Line (messages (gw_relay gw) tid parts)
       \<or> (\<exists>n e. lines = map Line (take n (messages (gw_relay gw) tid parts)) @ [ErrorLine e]))"
  by (rule conjI [OF uploaded_parts(1) [OF assms(1-9)] downloaded_lines [OF assms]])

lemma messages_data: "map dc_Data (messages env tid parts) = parts"
  by (simp add: messages_def comp_def map_nth)

section \<open>Example\<close>

lemma local_store: "store_works (gw_transfers demo_gateway) (gw_relay demo_gateway)"
  by (simp add: store_works_def demo_gateway_def local_config_def demo_env_def)

lemma demo_open: "open_transfer ''t'' 2 ''t'' demo_service"
  unfolding open_transfer_def demo_service_facts by (simp add: demo_row_def storage_id_def)

definition demo_part :: "string \<times> bytes \<Rightarrow> http_request \<times> chunk_form option" where
  "demo_part = (\<lambda>(idx, d). (demo_http ''Bearer A'', Some (idx, env_sha demo_env d, FileData d)))"

lemma demo_part_form:
  assumes "sscanf_d 64 idx = Some (int k)" "length d \<le> max_chunk_bytes"
  shows "part_form (gw_relay demo_gateway) k d (demo_part (idx, d))"
  using assms by (simp add: part_form_def demo_part_def demo_http_def demo_moment_def demo_gateway_def)

lemma demo_upload:
  assumes "pf_transfer pf = (m0, rl, t0, s)" "open_transfer ''t'' 2 ''t'' s" "sscanf_d 64 idx = Some (int k)"
    and "int k + 1 < 2 ^ 31" "length d \<le> max_chunk_bytes"
    and "rl_allow 0 (peer_addr (Some ''10.0.0.1:5'')) rl = (True, rl')"
  obtains resp m' t' s' where "open_transfer ''t'' 2 ''t'' s'"
    "handle_upload_chunk demo_gateway (demo_http ''Bearer A'') ''t'' (snd (demo_part (idx, d))) pf
      = (Reply 200 resp, pf\<lparr>pf_transfer := (m', rl', t', s')\<rparr>)"
proof -
  let ?c = "chunk_message demo_env ''t'' (int k) d"
  have sha: "env_sha demo_env d \<noteq> ''''" by (simp add: demo_env_def)
  have w: "wrap32 (int k) = int k" using assms(4) by (intro wrap32_id) (simp add: in_int32_def)
  have g: "gw_transfers demo_gateway = local_config" "gw_relay demo_gateway = demo_env" by (simp_all add: demo_gateway_def)
  have "\<exists>resp s'. send_chunk local_config demo_env (\<lambda>_. False) True [?c] s = (Inr resp, s') \<and> open_transfer ''t'' 2 ''t'' s'"
    by (rule send_single [OF assms(2) _ _ local_store [unfolded g], of "\<lambda>_. False" "int k" d])
      (use assms(4) sha in \<open>simp_all add: plain_id_def in_int32_def\<close>)
  then obtain resp s' where s': "send_chunk local_config demo_env (\<lambda>_. False) True [?c] s = (Inr resp, s')"
    "open_transfer ''t'' 2 ''t'' s'" by blast
  have "send_one_chunk demo_gateway demo_moment ?c s = (([resp], None), s')"
    using s'(1) by (simp add: send_one_chunk_def g demo_moment_def)
  from demo_stream [OF assms(6), where h = "\<lambda>ctx. send_one_chunk demo_gateway demo_moment ?c", OF this assms(1), of "''SendChunk''"]
  obtain m' t' where call: "transfer_stream demo_gateway demo_moment ''SendChunk'' (forward_auth (demo_http ''Bearer A''))
      (\<lambda>ctx. send_one_chunk demo_gateway demo_moment ?c) pf = (Inr ([resp], None), pf\<lparr>pf_transfer := (m', rl', t', s')\<rparr>)"
    by (auto simp: public_methods_def)
  have "handle_upload_chunk demo_gateway (demo_http ''Bearer A'') ''t'' (snd (demo_part (idx, d))) pf
      = (Reply 200 resp, pf\<lparr>pf_transfer := (m', rl', t', s')\<rparr>)"
    using call assms(3,5) w
    by (simp add: handle_upload_chunk_def served_def demo_part_def chunk_message_def demo_http_def demo_gateway_def)
  then show thesis using that s'(2) by blast
qed

lemma demo_download:
  assumes "pf_transfer pf = (m0, rl, t0, s)" "rl_allow 0 (peer_addr (Some ''10.0.0.1:5'')) rl = (True, rl')"
    and "receive_chunks local_config demo_env (\<lambda>_. False) (\<lambda>_. False) tid 0 s = (ms, None)"
  shows "\<exists>pf'. handle_download_chunks demo_gateway (demo_http ''Bearer A'') tid (\<lambda>_. False) pf = (Reply 200 (map Line ms), pf')"
proof -
  let ?h = "\<lambda>(ctx :: auth_ctx) s. (receive_chunks local_config demo_env (\<lambda>_. False) (\<lambda>_. False) tid 0 s, s)"
  have "?h ctx s = ((ms, None), s)" for ctx using assms(3) by simp
  from demo_stream [OF assms(2), where h = ?h, OF this assms(1), of "''ReceiveChunks''"]
  obtain pf' where "transfer_stream demo_gateway demo_moment ''ReceiveChunks'' (forward_auth (demo_http ''Bearer A'')) ?h pf
      = (Inr (ms, None), pf')"
    by (auto simp: public_methods_def)
  then show ?thesis
    by (simp add: handle_download_chunks_def served_def demo_http_def ndjson_reply_def ndjson_lines demo_gateway_def demo_moment_def)
qed

lemma demo_open':
  "open_transfer ''t'' (int (length [d1, d2 :: bytes])) ''t'' (transfer_of demo_platform)"
  using demo_open by (simp add: demo_platform_def new_server_def)

lemma demo_indices: "sscanf_d 64 ''0'' = Some (int 0)" "sscanf_d 64 ''1'' = Some (int 1)"
  by code_simp+

text \<open>A file of two parts, sent and read back.\<close>

definition demo_ups :: "bytes \<Rightarrow> bytes \<Rightarrow> (http_request \<times> chunk_form option) list" where
  "demo_ups d1 d2 = [demo_part (''0'', d1), demo_part (''1'', d2)]"

lemma demo_forms:
  assumes "length d1 \<le> max_chunk_bytes" "length d2 \<le> max_chunk_bytes"
  shows "list_all2 (\<lambda>(k, d). part_form (gw_relay demo_gateway) k d) (enumerate 0 [d1, d2]) (demo_ups d1 d2)"
  using demo_part_form [OF demo_indices(1) assms(1)] demo_part_form [OF demo_indices(2) assms(2)]
  by (simp add: demo_ups_def)

lemma demo_hashes: "\<forall>d\<in>set [d1, d2]. env_sha (gw_relay demo_gateway) d \<noteq> ''''"
  by (simp add: demo_gateway_def demo_env_def)

lemma demo_there_and_back:
  assumes "length d1 \<le> max_chunk_bytes" "length d2 \<le> max_chunk_bytes"
  obtains pf' pf'' where
    "upload_parts demo_gateway ''t'' (demo_ups d1 d2) demo_platform = (True, pf')"
    "handle_download_chunks demo_gateway (demo_http ''Bearer A'') ''t'' (\<lambda>_. False) pf'
      = (Reply 200 (map Line (messages demo_env ''t'' [d1, d2])), pf'')"
proof -
  have g: "gw_transfers demo_gateway = local_config" "gw_relay demo_gateway = demo_env" by (simp_all add: demo_gateway_def)
  obtain r1 r2 r3 where rl: "rl_allow 0 (peer_addr (Some ''10.0.0.1:5'')) (new_rate_limiter 100 200) = (True, r1)"
    "rl_allow 0 (peer_addr (Some ''10.0.0.1:5'')) r1 = (True, r2)" "rl_allow 0 (peer_addr (Some ''10.0.0.1:5'')) r2 = (True, r3)"
    using demo_limiter by blast
  have pf0: "pf_transfer demo_platform = (no_metrics, new_rate_limiter 100 200, [], demo_service)"
    by (simp add: demo_platform_def new_server_def)
  obtain a1 m1 t1 s1 where one: "open_transfer ''t'' 2 ''t'' s1"
    "handle_upload_chunk demo_gateway (demo_http ''Bearer A'') ''t'' (snd (demo_part (''0'', d1))) demo_platform
      = (Reply 200 a1, demo_platform\<lparr>pf_transfer := (m1, r1, t1, s1)\<rparr>)"
    by (rule demo_upload [OF pf0 demo_open demo_indices(1) _ assms(1) rl(1)]) simp_all
  let ?pf1 = "demo_platform\<lparr>pf_transfer := (m1, r1, t1, s1)\<rparr>"
  have pf1: "pf_transfer ?pf1 = (m1, r1, t1, s1)" by simp
  obtain a2 m2 t2 s2 where two: "open_transfer ''t'' 2 ''t'' s2"
    "handle_upload_chunk demo_gateway (demo_http ''Bearer A'') ''t'' (snd (demo_part (''1'', d2))) ?pf1
      = (Reply 200 a2, ?pf1\<lparr>pf_transfer := (m2, r2, t2, s2)\<rparr>)"
    by (rule demo_upload [OF pf1 one(1) demo_indices(2) _ assms(2) rl(2)]) simp_all
  let ?pf2 = "?pf1\<lparr>pf_transfer := (m2, r2, t2, s2)\<rparr>"
  have pf2: "pf_transfer ?pf2 = (m2, r2, t2, s2)" by simp
  have up: "upload_parts demo_gateway ''t'' (demo_ups d1 d2) demo_platform = (True, ?pf2)"
    using one(2) two(2) by (simp add: demo_ups_def demo_part_def)
  have "receive_chunks local_config demo_env (\<lambda>_. False) (\<lambda>_. False) ''t'' 0 s2 = (messages demo_env ''t'' [d1, d2], None)"
    using uploaded_parts(2) [OF demo_open' _ _ _ _ demo_hashes local_store demo_forms [OF assms] up, unfolded g, of "\<lambda>_. False"]
    by (simp add: plain_id_def)
  from demo_download [OF pf2 rl(3) this] up that show thesis by blast
qed

theorem gateway_upload_then_download_witness:
  "\<exists>pf' pf'' lines. upload_parts demo_gateway ''t'' (demo_ups [1, 2] [3, 4]) demo_platform = (True, pf')
     \<and> handle_download_chunks demo_gateway (demo_http ''Bearer A'') ''t'' (\<lambda>_. False) pf' = (Reply 200 lines, pf'')
     \<and> status_is ''t'' st_COMPLETED (transfer_of pf')
     \<and> (lines = map Line (messages demo_env ''t'' [[1, 2], [3, 4]])
        \<or> (\<exists>n e. lines = map Line (take n (messages demo_env ''t'' [[1, 2], [3, 4]])) @ [ErrorLine e]))"
proof -
  have sizes: "length [1, 2 :: 8 word] \<le> max_chunk_bytes" "length [3, 4 :: 8 word] \<le> max_chunk_bytes"
    by (simp_all add: max_chunk_bytes_def)
  obtain pf' pf'' where up: "upload_parts demo_gateway ''t'' (demo_ups [1, 2] [3, 4]) demo_platform = (True, pf')"
    and down: "handle_download_chunks demo_gateway (demo_http ''Bearer A'') ''t'' (\<lambda>_. False) pf'
      = (Reply 200 (map Line (messages demo_env ''t'' [[1, 2], [3, 4]])), pf'')"
    by (rule demo_there_and_back [OF sizes])
  have g: "gw_relay demo_gateway = demo_env" by (simp add: demo_gateway_def)
  show ?thesis
    using up down gateway_upload_then_download [OF demo_open' _ _ _ _ demo_hashes local_store demo_forms [OF sizes] up _ _ down]
    by (intro exI conjI) (assumption, assumption, simp_all add: plain_id_def demo_http_def demo_moment_def g)
qed

end
