(* ===== verification/GatewayMachine.thy ===== *)
theory GatewayMachine
  imports GatewayLaws
begin

text \<open>
  The endpoints of the gateway (\<open>RegisterRoutes\<close>) as requests of one machine, and what a request
  can do to the services: at most one call to a handler of the identity service that changes
  something, with the rights of the token in the request, and at most one to the transfer
  service.
\<close>

section \<open>Requests\<close>

datatype account_http =
    HRegister "string + (string \<times> string \<times> string)"
  | HLogin "string + (string \<times> string)" | HRefresh "string + string" | HValidate "string + string"
  | HVerifyEmail "string + string" | HResendVerification "string + string" | HLogout "string + string"

fun account_request :: "'r gateway \<Rightarrow> http_request \<Rightarrow> account_http \<Rightarrow> 'r platform \<Rightarrow> 'r platform" where
  "account_request gw rq (HRegister a) pf = snd (handle_register gw rq a pf)"
| "account_request gw rq (HLogin a) pf = snd (handle_login gw rq a pf)"
| "account_request gw rq (HRefresh a) pf = snd (handle_refresh gw rq a pf)"
| "account_request gw rq (HValidate a) pf = snd (handle_validate gw rq a pf)"
| "account_request gw rq (HVerifyEmail a) pf = snd (handle_verify_email gw rq a pf)"
| "account_request gw rq (HResendVerification a) pf = snd (handle_resend_verification gw rq a pf)"
| "account_request gw rq (HLogout a) pf = snd (handle_logout gw rq a pf)"

datatype device_http =
    HRegisterDevice "string + register_device_request" | HListDevices | HGetDevice string
  | HRevokeDevice string | HUpdateDeviceActivity string "string + node_id"
  | HUpdateDeviceVisibility string "string + bool" | HGeneratePairingCode "string + string"
  | HRedeemPairingCode "string + redeem_request"
  | HApprovePairing "string + (string \<times> string \<times> bool)"

fun device_request :: "'r gateway \<Rightarrow> http_request \<Rightarrow> device_http \<Rightarrow> 'r platform \<Rightarrow> 'r platform" where
  "device_request gw rq (HRegisterDevice a) pf = snd (handle_register_device gw rq a pf)"
| "device_request gw rq HListDevices pf = snd (handle_list_devices gw rq pf)"
| "device_request gw rq (HGetDevice a) pf = snd (handle_get_device gw rq a pf)"
| "device_request gw rq (HRevokeDevice a) pf = snd (handle_revoke_device gw rq a pf)"
| "device_request gw rq (HUpdateDeviceActivity a b) pf = snd (handle_update_device_activity gw rq a b pf)"
| "device_request gw rq (HUpdateDeviceVisibility a b) pf = snd (handle_update_device_visibility gw rq a b pf)"
| "device_request gw rq (HGeneratePairingCode a) pf = snd (handle_generate_pairing_code gw rq a pf)"
| "device_request gw rq (HRedeemPairingCode a) pf = snd (handle_redeem_pairing_code gw rq a pf)"
| "device_request gw rq (HApprovePairing a) pf = snd (handle_approve_pairing gw rq a pf)"

datatype session_http =
    HCreatePeerSession "string + (string \<times> string)" | HListPeerSessions | HClosePeerSession string
  | HJoinPeerSession string "string + string" | HListSessionDevices string
  | HLeavePeerSession string "string + string" | HUploadDeviceKey string "string + (string \<times> bytes)"
  | HGetDeviceKey string | HGetSessionDeviceKeys string | HGetNodeKey node_id

fun session_request :: "'r gateway \<Rightarrow> http_request \<Rightarrow> session_http \<Rightarrow> 'r platform \<Rightarrow> 'r platform" where
  "session_request gw rq (HCreatePeerSession a) pf = snd (handle_create_peer_session gw rq a pf)"
| "session_request gw rq HListPeerSessions pf = snd (handle_list_peer_sessions gw rq pf)"
| "session_request gw rq (HClosePeerSession a) pf = snd (handle_close_peer_session gw rq a pf)"
| "session_request gw rq (HJoinPeerSession a b) pf = snd (handle_join_peer_session gw rq a b pf)"
| "session_request gw rq (HListSessionDevices a) pf = snd (handle_list_session_devices gw rq a pf)"
| "session_request gw rq (HLeavePeerSession a b) pf = snd (handle_leave_peer_session gw rq a b pf)"
| "session_request gw rq (HUploadDeviceKey a b) pf = snd (handle_upload_device_key gw rq a b pf)"
| "session_request gw rq (HGetDeviceKey a) pf = snd (handle_get_device_key gw rq a pf)"
| "session_request gw rq (HGetSessionDeviceKeys a) pf = snd (handle_get_session_device_keys gw rq a pf)"
| "session_request gw rq (HGetNodeKey a) pf = snd (handle_get_node_key gw rq a pf)"

datatype social_http =
    HSendFriendRequest "string + string" | HRespondToFriendRequest "string + (string \<times> bool)"
  | HListFriends | HListFriendRequests | HRemoveFriend string | HListFriendDevices string | HSearchUsers
  | HHeartbeat "string + string" | HGetPresence "string + (string list)" | HUpdateAvatar "string + string"
  | HGetAvatar string | HGetNotificationCount

fun social_request :: "'r gateway \<Rightarrow> http_request \<Rightarrow> social_http \<Rightarrow> 'r platform \<Rightarrow> 'r platform" where
  "social_request gw rq (HSendFriendRequest a) pf = snd (handle_send_friend_request gw rq a pf)"
| "social_request gw rq (HRespondToFriendRequest a) pf = snd (handle_respond_to_friend_request gw rq a pf)"
| "social_request gw rq HListFriends pf = snd (handle_list_friends gw rq pf)"
| "social_request gw rq HListFriendRequests pf = snd (handle_list_friend_requests gw rq pf)"
| "social_request gw rq (HRemoveFriend a) pf = snd (handle_remove_friend gw rq a pf)"
| "social_request gw rq (HListFriendDevices a) pf = snd (handle_list_friend_devices gw rq a pf)"
| "social_request gw rq HSearchUsers pf = snd (handle_search_users gw rq pf)"
| "social_request gw rq (HHeartbeat a) pf = snd (handle_heartbeat gw rq a pf)"
| "social_request gw rq (HGetPresence a) pf = snd (handle_get_presence gw rq a pf)"
| "social_request gw rq (HUpdateAvatar a) pf = snd (handle_update_avatar gw rq a pf)"
| "social_request gw rq (HGetAvatar a) pf = snd (handle_get_avatar gw rq a pf)"
| "social_request gw rq HGetNotificationCount pf = snd (handle_get_notification_count gw rq pf)"

datatype admin_http =
    HAdminListUsers | HAdminListDevices | HAdminListTransfers | HAdminListAuditLogs

fun admin_request :: "'r gateway \<Rightarrow> http_request \<Rightarrow> admin_http \<Rightarrow> 'r platform \<Rightarrow> 'r platform" where
  "admin_request gw rq HAdminListUsers pf = snd (handle_admin_list_users gw rq pf)"
| "admin_request gw rq HAdminListDevices pf = snd (handle_admin_list_devices gw rq pf)"
| "admin_request gw rq HAdminListTransfers pf = snd (handle_admin_list_transfers gw rq pf)"
| "admin_request gw rq HAdminListAuditLogs pf = snd (handle_admin_list_audit_logs gw rq pf)"

datatype route_http =
    HFindRoute "string + (node_id \<times> node_id \<times> int32 \<times> node_id list)"
  | HGetRouteTable node_id | HListRelays | HGetNodeMetrics | HScanNodes | HPlatformStats

fun route_request :: "'r gateway \<Rightarrow> http_request \<Rightarrow> route_http \<Rightarrow> 'r platform \<Rightarrow> 'r platform" where
  "route_request gw rq (HFindRoute a) pf = snd (handle_find_route gw rq a pf)"
| "route_request gw rq (HGetRouteTable a) pf = snd (handle_get_route_table gw rq a pf)"
| "route_request gw rq HListRelays pf = snd (handle_list_relays gw rq pf)"
| "route_request gw rq HGetNodeMetrics pf = snd (handle_get_node_metrics gw rq pf)"
| "route_request gw rq HScanNodes pf = snd (handle_scan_nodes gw rq pf)"
| "route_request gw rq HPlatformStats pf = snd (handle_platform_stats gw rq pf)"

datatype transfer_http =
    HInitiateTransfer "string + initiate_request" | HGetTransferStatus string | HListTransfers node_id
  | HCancelTransfer string "string + string" | HPauseTransfer string | HResumeTransfer string
  | HGetP2pConnectionInfo string | HConfirmP2pTransfer string "string + (int32 \<times> bool)"
  | HRespondToTransfer string "string + (node_id \<times> bool)"

fun transfer_request :: "'r gateway \<Rightarrow> http_request \<Rightarrow> transfer_http \<Rightarrow> 'r platform \<Rightarrow> 'r platform" where
  "transfer_request gw rq (HInitiateTransfer a) pf = snd (handle_initiate_transfer gw rq a pf)"
| "transfer_request gw rq (HGetTransferStatus a) pf = snd (handle_get_transfer_status gw rq a pf)"
| "transfer_request gw rq (HListTransfers a) pf = snd (handle_list_transfers gw rq a pf)"
| "transfer_request gw rq (HCancelTransfer a b) pf = snd (handle_cancel_transfer gw rq a b pf)"
| "transfer_request gw rq (HPauseTransfer a) pf = snd (handle_pause_transfer gw rq a pf)"
| "transfer_request gw rq (HResumeTransfer a) pf = snd (handle_resume_transfer gw rq a pf)"
| "transfer_request gw rq (HGetP2pConnectionInfo a) pf = snd (handle_get_p2p_connection_info gw rq a pf)"
| "transfer_request gw rq (HConfirmP2pTransfer a b) pf = snd (handle_confirm_p2p_transfer gw rq a b pf)"
| "transfer_request gw rq (HRespondToTransfer a b) pf = snd (handle_respond_to_transfer gw rq a b pf)"

datatype chunk_http =
    HUploadChunk string "chunk_form option" | HDownloadChunks string "(data_chunk \<Rightarrow> bool)"
  | HWatchTransfers "transfer_faults list" "transfer_service list" "(transfer_event \<Rightarrow> bool)"
  | HInitiateGroupTransfer string "string + group_request" | HListGroupTransfers string
  | HTransferActivity node_id | HTransferSpeed node_id

fun chunk_request :: "'r gateway \<Rightarrow> http_request \<Rightarrow> chunk_http \<Rightarrow> 'r platform \<Rightarrow> 'r platform" where
  "chunk_request gw rq (HUploadChunk a b) pf = snd (handle_upload_chunk gw rq a b pf)"
| "chunk_request gw rq (HDownloadChunks a b) pf = snd (handle_download_chunks gw rq a b pf)"
| "chunk_request gw rq (HWatchTransfers a b c) pf = snd (handle_watch_transfers gw rq a b c pf)"
| "chunk_request gw rq (HInitiateGroupTransfer a b) pf = snd (handle_initiate_group_transfer gw rq a b pf)"
| "chunk_request gw rq (HListGroupTransfers a) pf = snd (handle_list_group_transfers gw rq a pf)"
| "chunk_request gw rq (HTransferActivity a) pf = snd (handle_transfer_activity gw rq a pf)"
| "chunk_request gw rq (HTransferSpeed a) pf = snd (handle_transfer_speed gw rq a pf)"

datatype http_op =
    Account account_http
  | Device device_http
  | Session session_http
  | Social social_http
  | Admin admin_http
  | Routes route_http
  | Transfer transfer_http
  | Chunks chunk_http

text \<open>A request with what the services draw and see while it is handled.\<close>

fun gateway_step :: "'r gateway \<Rightarrow> 'r platform \<Rightarrow> http_request \<times> http_op \<Rightarrow> 'r platform" where
  "gateway_step gw pf (rq, Account op) = account_request gw rq op pf"
| "gateway_step gw pf (rq, Device op) = device_request gw rq op pf"
| "gateway_step gw pf (rq, Session op) = session_request gw rq op pf"
| "gateway_step gw pf (rq, Social op) = social_request gw rq op pf"
| "gateway_step gw pf (rq, Admin op) = admin_request gw rq op pf"
| "gateway_step gw pf (rq, Routes op) = route_request gw rq op pf"
| "gateway_step gw pf (rq, Transfer op) = transfer_request gw rq op pf"
| "gateway_step gw pf (rq, Chunks op) = chunk_request gw rq op pf"

section \<open>What a request does to the identity service\<close>

text \<open>A call of the service that a request may cause: its user is the one of the token in the
  request, or it has none.\<close>

definition identity_call :: "'r gateway \<Rightarrow> http_request \<Rightarrow> ident_call \<Rightarrow> bool" where
  "identity_call gw rq call \<longleftrightarrow>
     (case call of (now, flt, ctx, op) \<Rightarrow>
        new_id_canonical (ie_uuid (gw_ident gw)) op
        \<and> (user_id_from_context ctx = None
           \<or> (\<exists>i. user_id_from_context ctx = caller gw (hr_rpc rq i) (forward_auth rq))))"

text \<open>The ids that the database draws are canonical.\<close>

definition canonical_draws :: "'r gateway \<Rightarrow> http_request \<Rightarrow> bool" where
  "canonical_draws gw rq \<longleftrightarrow> (\<forall>i. ie_uuid (gw_ident gw) (ci_newID (hr_rpc rq i)) = Some (ci_newID (hr_rpc rq i)))"

definition ident_moves :: "'r gateway \<Rightarrow> http_request \<Rightarrow> 'r platform \<Rightarrow> 'r platform \<Rightarrow> bool" where
  "ident_moves gw rq pf pf' \<longleftrightarrow>
     (\<exists>calls. (\<forall>c\<in>set calls. identity_call gw rq c)
        \<and> ident_of pf' = foldl (ident_step (gw_ident gw)) (ident_of pf) calls)"

lemma ident_same: "ident_of pf' = ident_of pf \<Longrightarrow> ident_moves gw rq pf pf'"
  unfolding ident_moves_def by (rule exI [of _ "[]"]) simp

text \<open>Requests that only read.\<close>

definition same_services :: "'r platform \<Rightarrow> 'r platform \<Rightarrow> bool" where
  "same_services pf pf' \<longleftrightarrow> ident_of pf' = ident_of pf \<and> transfer_of pf' = transfer_of pf"

lemma same_services_refl [simp]: "same_services pf pf"
  by (simp add: same_services_def)

lemma same_services_trans: "same_services pf pf1 \<Longrightarrow> same_services pf1 pf2 \<Longrightarrow> same_services pf pf2"
  by (simp add: same_services_def)

lemma ident_moves_served: "ident_moves gw rq pf (snd (k pf)) \<Longrightarrow> ident_moves gw rq pf (snd (served p n k pf))"
  by (simp add: served_def ident_same)

lemma ident_moves_decoded:
  "(\<And>req. ident_moves gw rq pf (snd (k req pf))) \<Longrightarrow> ident_moves gw rq pf (snd (decoded body k pf))"
  by (auto simp: decoded_def ident_same split: sum.split)

lemma snd_reply: "snd (reply code call pf) = snd (call pf)"
  by (simp add: reply_def split: prod.split sum.split)

lemma caller_no_token [simp]: "caller gw x [] = None"
  by (simp add: caller_def token_of_def call_with_def)

lemma ident_moves_rpc:
  assumes "\<And>ctx s. snd (h ctx s) = ident_step (gw_ident gw) s (now, flt, ctx, op)"
    and "new_id_canonical (ie_uuid (gw_ident gw)) op" "md = [] \<or> md = forward_auth rq"
  shows "ident_moves gw rq pf (snd (identity_rpc gw (hr_rpc rq i) m md h pf))"
proof -
  let ?P = "\<lambda>s'. \<exists>calls. (\<forall>c\<in>set calls. identity_call gw rq c)
      \<and> s' = foldl (ident_step (gw_ident gw)) (ident_of pf) calls"
  have "?P (snd (h ctx (ident_of pf)))" if "context_for gw (hr_rpc rq i) n md = Inr ctx" for ctx n
  proof -
    have "identity_call gw rq (now, flt, ctx, op)"
      using context_user [OF that] assms(2,3) by (auto simp: identity_call_def)
    then show ?thesis by (intro exI [of _ "[(now, flt, ctx, op)]"]) (simp add: assms(1))
  qed
  moreover have "?P (ident_of pf)" by (rule exI [of _ "[]"]) simp
  ultimately have "?P (handler_state (snd (rpc gw (hr_rpc rq i) n md h (pf_identity pf))))" for n
    by (rule rpc_state)
  then show ?thesis by (simp add: ident_moves_def identity_rpc_def case_prod_beta)
qed

text \<open>Every handler of the identity service that changes something, as a step of its machine.\<close>

lemma as_steps:
  "snd (register env flt now i tok u e p s) = ident_step env s (now, flt, ctx, OpRegister i tok u e p)"
  "snd (verify_email env flt now tok' s) = ident_step env s (now, flt, ctx, OpVerifyEmail tok')"
  "snd (resend_verification env flt now tok e s) = ident_step env s (now, flt, ctx, OpResend tok e)"
  "snd (refresh_token env now tok' s) = ident_step env s (now, \<lambda>_. False, ctx, OpRefresh tok')"
  "snd (logout env now tok' s) = ident_step env s (now, \<lambda>_. False, ctx, OpLogout tok')"
  "snd (register_device env flt now i g ctx rd s) = ident_step env s (now, flt, ctx, OpRegisterDevice i g rd)"
  "snd (revoke_device env flt now ctx did s) = ident_step env s (now, flt, ctx, OpRevokeDevice did)"
  "snd (update_device_activity env flt now ctx did n s) = ident_step env s (now, flt, ctx, OpActivity did n)"
  "snd (update_device_visibility env flt ctx did b s) = ident_step env s (0, flt, ctx, OpVisibility did b)"
  "snd (generate_pairing_code env flt now rs ctx did s) = ident_step env s (now, flt, ctx, OpGenerateCode rs did)"
  "snd (redeem_pairing_code env flt now i ctx rp s) = ident_step env s (now, flt, ctx, OpRedeemCode i rp)"
  "snd (approve_pairing env flt now ctx did did' b s) = ident_step env s (now, flt, ctx, OpApprove did did' b)"
  "snd (create_peer_session env flt now i ctx n did s) = ident_step env s (now, flt, ctx, OpCreateSession i n did)"
  "snd (close_peer_session env flt now ctx sid s) = ident_step env s (now, flt, ctx, OpCloseSession sid)"
  "snd (join_peer_session env flt now ctx sid did s) = ident_step env s (now, flt, ctx, OpJoin sid did)"
  "snd (leave_peer_session env flt now ctx sid did s) = ident_step env s (now, flt, ctx, OpLeave sid did)"
  "snd (upload_device_key env flt now ctx did n key s) = ident_step env s (now, flt, ctx, OpUploadKey did n key)"
  "snd (send_friend_request env flt now i ctx u s) = ident_step env s (now, flt, ctx, OpSendFriendRequest i u)"
  "snd (respond_to_friend_request env flt now ctx fid b s) = ident_step env s (now, flt, ctx, OpRespond fid b)"
  "snd (remove_friend env flt ctx fid s) = ident_step env s (0, flt, ctx, OpRemoveFriend fid)"
  "snd (heartbeat env flt now ctx did s) = ident_step env s (now, flt, ctx, OpHeartbeat did)"
  "snd (update_avatar env flt ctx d s) = ident_step env s (0, flt, ctx, OpAvatar d)"
  by simp_all

lemma snd_login [simp]: "snd (login env flt now email password s) = s"
  by (simp add: login_def split: option.split sum.split db_error.split)

lemma ident_moves_login:
  "ident_moves gw rq pf (snd (identity_rpc gw (hr_rpc rq i) m md (\<lambda>ctx. login env flt now email password) pf))"
proof -
  have "ident_of (snd (identity_rpc gw (hr_rpc rq i) m md (\<lambda>ctx. login env flt now email password) pf)) = ident_of pf"
    unfolding identity_rpc_def case_prod_beta Let_def by simp (rule rpc_state; simp)
  then show ?thesis by (rule ident_same)
qed

lemmas ident_moves_intros = ident_moves_served ident_moves_decoded ident_moves_login ident_moves_rpc as_steps

lemma ident_account:
  "canonical_draws gw rq \<Longrightarrow> ident_moves gw rq pf (account_request gw rq op pf)"
  by (cases op)
    (simp add: handle_register_def handle_login_def handle_refresh_def handle_validate_def handle_verify_email_def
      handle_resend_verification_def handle_logout_def, intro ident_moves_served ident_moves_decoded,
      simp add: case_prod_beta snd_reply Let_def, (rule ident_moves_login | rule ident_same, simp | rule ident_moves_rpc, rule as_steps;
      simp add: new_id_canonical_def canonical_draws_def)[])+

lemma ident_device:
  "canonical_draws gw rq \<Longrightarrow> ident_moves gw rq pf (device_request gw rq op pf)"
  by (cases op)
    (simp add: handle_register_device_def handle_list_devices_def handle_get_device_def handle_revoke_device_def
      handle_update_device_activity_def handle_update_device_visibility_def handle_generate_pairing_code_def
      handle_redeem_pairing_code_def handle_approve_pairing_def, intro ident_moves_served ident_moves_decoded,
      simp add: case_prod_beta snd_reply Let_def, (rule ident_same, simp | rule ident_moves_rpc, rule as_steps;
      simp add: new_id_canonical_def canonical_draws_def)[])+

lemma ident_session:
  "canonical_draws gw rq \<Longrightarrow> ident_moves gw rq pf (session_request gw rq op pf)"
proof (cases op)
  case (HGetNodeKey n)
  then show ?thesis by (simp add: ident_same handle_get_node_key_def served_def snd_reply Let_def)
qed (simp add: handle_create_peer_session_def handle_list_peer_sessions_def handle_close_peer_session_def
      handle_join_peer_session_def handle_list_session_devices_def handle_leave_peer_session_def
      handle_upload_device_key_def handle_get_device_key_def handle_get_session_device_keys_def,
      intro ident_moves_served ident_moves_decoded,
      simp add: case_prod_beta snd_reply Let_def, (rule ident_same, simp | rule ident_moves_rpc, rule as_steps;
      simp add: new_id_canonical_def canonical_draws_def)[])+

lemma reads_rpc:
  "identity_rpc gw x m md (query fi) pf = (ri, pf') \<Longrightarrow> same_services pf pf'"
  "routing_rpc gw x m md (query fr) pf = (rr, pf') \<Longrightarrow> same_services pf pf'"
  "transfer_rpc gw x m md (query ft) pf = (rt, pf') \<Longrightarrow> same_services pf pf'"
  using query_rpcs(1) [of gw x m md fi pf] rpc_platform(2) [of gw x m md "query fi" pf]
    rpc_platform(3,4) [of gw x m md "query fr" pf]
    query_rpcs(3) [of gw x m md ft pf] rpc_platform(5) [of gw x m md "query ft" pf]
  by (simp_all add: same_services_def)

lemma reads_count_incoming: "count_incoming gw rq i ds n pf = (k, pf') \<Longrightarrow> same_services pf pf'"
proof (induction ds arbitrary: i n pf)
  case (Cons d ds)
  then show ?case
    by (auto simp: list_rpc_def split: if_splits prod.splits sum.splits dest!: reads_rpc(3) intro: same_services_trans)
qed (simp add: same_services_def)

lemma reads_list_own: "list_own_devices gw x md pf = (r, pf') \<Longrightarrow> same_services pf pf'"
  unfolding list_own_devices_def by (rule reads_rpc)

lemma notification_count_same: "same_services pf (snd (handle_get_notification_count gw rq pf))"
  by (auto simp: handle_get_notification_count_def served_def Let_def split: prod.split sum.split
      dest!: reads_rpc(1) reads_list_own reads_count_incoming intro: same_services_trans)

lemma ident_social:
  "canonical_draws gw rq \<Longrightarrow> ident_moves gw rq pf (social_request gw rq op pf)"
proof (cases op)
  case HGetNotificationCount
  then show ?thesis using notification_count_same [of pf gw rq] by (simp add: ident_same same_services_def)
next
  case HSearchUsers
  then show ?thesis by (simp add: ident_same handle_search_users_def served_def snd_reply Let_def)
qed (simp add: handle_send_friend_request_def handle_respond_to_friend_request_def handle_list_friends_def
      handle_list_friend_requests_def handle_remove_friend_def handle_list_friend_devices_def handle_heartbeat_def
      handle_get_presence_def handle_update_avatar_def handle_get_avatar_def,
      intro ident_moves_served ident_moves_decoded,
      simp add: case_prod_beta snd_reply Let_def, (rule ident_same, simp | rule ident_moves_rpc, rule as_steps;
      simp add: new_id_canonical_def canonical_draws_def)[])+

section \<open>Ownership\<close>

text \<open>The user of the token in a request has an unrevoked device with this node id.\<close>

definition own_node :: "'r gateway \<Rightarrow> http_request \<Rightarrow> 'r ident_state \<Rightarrow> node_id \<Rightarrow> bool" where
  "own_node gw rq s n \<longleftrightarrow>
     (\<exists>i u. caller gw (hr_rpc rq i) (forward_auth rq) = Some u
        \<and> (\<exists>d\<in>set (db_devices (ii_db s)). ie_uuid (gw_ident gw) u = Some (dv_UserID d)
             \<and> dv_RevokedAt d = None \<and> dv_NodeID d = Some n))"

lemma list_devices_private: "''/identity.v1.IdentityService/'' @ ''ListDevices'' \<notin> public_methods"
  by (simp add: public_methods_def)

lemma list_devices_own:
  assumes "list_devices env flt ctx s = Inr ds" "user_id_from_context ctx = Some u" "dm \<in> set ds" "dm_NodeId dm \<noteq> ''''"
  shows "\<exists>d\<in>set (db_devices (ii_db s)). ie_uuid env u = Some (dv_UserID d) \<and> dv_RevokedAt d = None
    \<and> dv_NodeID d = Some (dm_NodeId dm)"
proof -
  obtain i where i: "ie_uuid env u = Some i"
    "ds = map device_to_proto (latest dv_CreatedAt
        (filter (\<lambda>d. dv_UserID d = i \<and> dv_RevokedAt d = None) (db_devices (ii_db s))))"
    using assms(1,2)
    by (auto simp: list_devices_def user_of_def list_devices_by_user_sql_def cast_def ask_def
        split: option.splits sum.splits if_splits)
  obtain d where d: "d \<in> set (db_devices (ii_db s))" "dv_UserID d = i" "dv_RevokedAt d = None" "dm = device_to_proto d"
    using assms(3) by (auto simp: i(2) latest_def)
  have "dv_NodeID d = Some (dm_NodeId dm)"
    using assms(4) by (auto simp: d(4) device_to_proto_def text_or_empty_def split: option.splits)
  then show ?thesis using d i(1) by blast
qed

lemma list_own_devices_Inr:
  assumes "list_own_devices gw (hr_rpc rq i) (forward_auth rq) pf = (Inr ds, pf')" "dm \<in> set ds" "dm_NodeId dm \<noteq> ''''"
  shows "own_node gw rq (ident_of pf) (dm_NodeId dm)"
proof -
  let ?x = "hr_rpc rq i" and ?m = "''/identity.v1.IdentityService/'' @ ''ListDevices''"
  have "rpc gw ?x ?m (forward_auth rq) (query (list_devices (gw_ident gw) (ci_ident ?x))) (pf_identity pf)
      = (Inr ds, pf_identity pf')"
    using assms(1) by (auto simp: list_own_devices_def identity_rpc_def case_prod_beta Let_def prod_eq_iff)
  from rpc_Inr [OF this] obtain ctx where ctx: "context_for gw ?x ?m (forward_auth rq) = Inr ctx"
    and ds: "list_devices (gw_ident gw) (ci_ident ?x) ctx (ident_of pf) = Inr ds"
    by (auto simp: query_def)
  from context_caller [OF ctx list_devices_private] obtain u where
    "caller gw ?x (forward_auth rq) = Some u" "user_id_from_context ctx = Some u" by blast
  then show ?thesis
    using list_devices_own [OF ds _ assms(2,3)] by (auto simp: own_node_def)
qed

lemma user_owns_node_True:
  assumes "user_owns_node gw (hr_rpc rq i) (forward_auth rq) n pf = (True, pf')"
  shows "own_node gw rq (ident_of pf) n"
  using assms list_own_devices_Inr [of gw rq i pf]
  by (auto simp: user_owns_node_def list_ex_iff split: if_splits prod.splits sum.splits)

section \<open>What a request does to the transfer service\<close>

definition transfer_rights :: "'r gateway \<Rightarrow> http_request \<Rightarrow> 'r ident_state \<Rightarrow> transfer_op \<Rightarrow> bool" where
  "transfer_rights gw rq s op \<longleftrightarrow>
     (case op of
        OpInitiate i req \<Rightarrow>
          (ir_SenderNodeId req = '''' \<or> own_node gw rq s (ir_SenderNodeId req))
          \<and> (ir_ReceiverNodeId req = '''' \<or> (ir_AutoApprove req \<longrightarrow> own_node gw rq s (ir_ReceiverNodeId req)))
      | OpGroup g ids req \<Rightarrow> gq_SenderNodeId req = '''' \<or> own_node gw rq s (gq_SenderNodeId req)
      | transfer_op.OpRespond tid n ok \<Rightarrow> own_node gw rq s n
      | OpP2pStream h rs \<Rightarrow> False
      | _ \<Rightarrow> True)"

definition transfer_moves :: "'r gateway \<Rightarrow> http_request \<Rightarrow> 'r platform \<Rightarrow> 'r platform \<Rightarrow> bool" where
  "transfer_moves gw rq pf pf' \<longleftrightarrow>
     transfer_of pf' = transfer_of pf
     \<or> (\<exists>flt op. transfer_rights gw rq (ident_of pf) op
          \<and> transfer_of pf' = transfer_step (gw_transfers gw) (gw_relay gw) (gw_uuid gw) (transfer_of pf) (flt, op))"

lemma transfer_same: "transfer_of pf' = transfer_of pf \<Longrightarrow> transfer_moves gw rq pf pf'"
  by (simp add: transfer_moves_def)

lemma transfer_moves_served: "transfer_moves gw rq pf (snd (k pf)) \<Longrightarrow> transfer_moves gw rq pf (snd (served p n k pf))"
  by (simp add: served_def transfer_same)

lemma transfer_moves_decoded:
  "(\<And>req. transfer_moves gw rq pf (snd (k req pf))) \<Longrightarrow> transfer_moves gw rq pf (snd (decoded body k pf))"
  by (auto simp: decoded_def transfer_same split: sum.split)

lemma transfer_moves_after:
  "same_services pf pf1 \<Longrightarrow> transfer_moves gw rq pf1 pf2 \<Longrightarrow> transfer_moves gw rq pf pf2"
  by (simp add: transfer_moves_def same_services_def)

lemma transfer_moves_rpc:
  assumes "\<And>ctx s. snd (h ctx s) = transfer_step (gw_transfers gw) (gw_relay gw) (gw_uuid gw) s (flt, op)"
    and "transfer_rights gw rq (ident_of pf) op"
  shows "transfer_moves gw rq pf (snd (transfer_rpc gw x m md h pf))"
proof -
  let ?P = "\<lambda>s'. s' = transfer_of pf \<or> (\<exists>flt op. transfer_rights gw rq (ident_of pf) op
      \<and> s' = transfer_step (gw_transfers gw) (gw_relay gw) (gw_uuid gw) (transfer_of pf) (flt, op))"
  have "?P (handler_state (snd (rpc gw x n md h (pf_transfer pf))))" for n
    by (rule rpc_state) (use assms in auto)
  then show ?thesis by (simp add: transfer_moves_def transfer_rpc_def case_prod_beta)
qed

lemma transfer_moves_stream:
  assumes "\<And>ctx s. snd (h ctx s) = transfer_step (gw_transfers gw) (gw_relay gw) (gw_uuid gw) s (flt, op)"
    and "transfer_rights gw rq (ident_of pf) op"
  shows "transfer_moves gw rq pf (snd (transfer_stream gw x m md h pf))"
proof -
  let ?P = "\<lambda>s'. s' = transfer_of pf \<or> (\<exists>flt op. transfer_rights gw rq (ident_of pf) op
      \<and> s' = transfer_step (gw_transfers gw) (gw_relay gw) (gw_uuid gw) (transfer_of pf) (flt, op))"
  have "?P (handler_state (snd (stream_rpc gw x n md h (pf_transfer pf))))" for n
  proof (rule stream_rpc_state)
    fix ctx r s'
    assume "h ctx (transfer_of pf) = (r, s')"
    then show "?P s'" using assms(1) [of ctx "transfer_of pf"] assms(2) by auto
  qed simp
  then show ?thesis by (simp add: transfer_moves_def transfer_stream_def case_prod_beta)
qed

lemma stream_reads:
  assumes "\<And>ctx s. snd (h ctx s) = s"
  shows "same_services pf (snd (transfer_stream gw x m md h pf))"
proof -
  have "handler_state (snd (stream_rpc gw x n md h (pf_transfer pf))) = transfer_of pf" for n
  proof (rule stream_rpc_state)
    fix ctx r s'
    assume "h ctx (transfer_of pf) = (r, s')"
    then show "s' = transfer_of pf" using assms [of ctx "transfer_of pf"] by simp
  qed simp
  then show ?thesis by (simp add: same_services_def transfer_stream_def case_prod_beta)
qed

lemma stream_query [simp]: "transfer_of (snd (transfer_stream gw x m md (\<lambda>ctx s. (f ctx s, s)) pf)) = transfer_of pf"
  using stream_reads [of "\<lambda>ctx s. (f ctx s, s)"] by (simp add: same_services_def)

lemma owns_same: "user_owns_node gw x md n pf = (b, pf') \<Longrightarrow> same_services pf pf'"
  by (simp add: same_services_def same_platform)

lemma sender_owned_True:
  assumes "sender_owned gw (hr_rpc rq i) (forward_auth rq) n pf = (b, pf')"
  shows "same_services pf pf'" "b \<Longrightarrow> n = '''' \<or> own_node gw rq (ident_of pf) n"
  using assms owns_same [of gw "hr_rpc rq i" "forward_auth rq" n pf b pf'] user_owns_node_True [of gw rq i n pf pf']
  by (auto simp: sender_owned_def split: if_splits)

lemma auto_approved_True:
  assumes "auto_approved gw (hr_rpc rq i) (forward_auth rq) req pf = (req', pf')"
  shows "same_services pf pf'" "\<exists>b. req' = req\<lparr>ir_AutoApprove := b\<rparr>"
    "ir_ReceiverNodeId req' = '''' \<or> (ir_AutoApprove req' \<longrightarrow> own_node gw rq (ident_of pf) (ir_ReceiverNodeId req'))"
proof -
  obtain b pf1 where o: "user_owns_node gw (hr_rpc rq i) (forward_auth rq) (ir_ReceiverNodeId req) pf = (b, pf1)"
    by (cases "user_owns_node gw (hr_rpc rq i) (forward_auth rq) (ir_ReceiverNodeId req) pf")
  have own: "b \<Longrightarrow> own_node gw rq (ident_of pf) (ir_ReceiverNodeId req)"
    using o user_owns_node_True by (cases b) auto
  show "same_services pf pf'"
    using assms owns_same [OF o] by (auto simp: auto_approved_def o split: if_splits)
  show "\<exists>b. req' = req\<lparr>ir_AutoApprove := b\<rparr>"
    using assms by (auto simp: auto_approved_def o split: if_splits intro: exI [of _ "ir_AutoApprove req"])
  show "ir_ReceiverNodeId req' = '''' \<or> (ir_AutoApprove req' \<longrightarrow> own_node gw rq (ident_of pf) (ir_ReceiverNodeId req'))"
    using assms own by (auto simp: auto_approved_def o split: if_splits)
qed

lemma transfer_initiate: "transfer_moves gw rq pf (snd (handle_initiate_transfer gw rq body pf))"
proof (cases body)
  case (Inr req)
  obtain owns pf1 where o: "sender_owned gw (hr_rpc rq 0) (forward_auth rq) (ir_SenderNodeId req) pf = (owns, pf1)"
    by (cases "sender_owned gw (hr_rpc rq 0) (forward_auth rq) (ir_SenderNodeId req) pf")
  obtain req' pf2 where a: "auto_approved gw (hr_rpc rq 1) (forward_auth rq) req pf1 = (req', pf2)"
    by (cases "auto_approved gw (hr_rpc rq 1) (forward_auth rq) req pf1")
  note own = sender_owned_True [OF o] and approved = auto_approved_True [OF a]
  have "transfer_moves gw rq pf2 (snd (transfer_rpc gw (hr_rpc rq 2) m (forward_auth rq)
      (\<lambda>ctx. initiate_transfer (gw_transfers gw) (ci_transfer (hr_rpc rq 2)) (ci_newID (hr_rpc rq 2)) req') pf2))"
    if "owns" for m
    by (rule transfer_moves_rpc [where op = "OpInitiate (ci_newID (hr_rpc rq 2)) req'"])
      (use own(1) own(2) [OF that] approved in \<open>auto simp: transfer_rights_def same_services_def\<close>)
  then have "owns \<Longrightarrow> transfer_moves gw rq pf (snd (transfer_rpc gw (hr_rpc rq 2) m (forward_auth rq)
      (\<lambda>ctx. initiate_transfer (gw_transfers gw) (ci_transfer (hr_rpc rq 2)) (ci_newID (hr_rpc rq 2)) req') pf2))" for m
    using own(1) approved(1) by (blast intro: transfer_moves_after)
  moreover have "transfer_moves gw rq pf pf1" using own(1) by (simp add: transfer_same same_services_def)
  ultimately show ?thesis
    by (simp add: handle_initiate_transfer_def served_def decoded_def Inr o a [unfolded One_nat_def] Let_def snd_reply
        transfer_same)
qed (simp add: handle_initiate_transfer_def served_def decoded_def transfer_same)

lemma transfer_group: "transfer_moves gw rq pf (snd (handle_initiate_group_transfer gw rq sid body pf))"
proof (cases body)
  case (Inr req0)
  let ?req = "req0\<lparr>gq_SessionId := sid\<rparr>"
  obtain owns pf1 where o: "sender_owned gw (hr_rpc rq 0) (forward_auth rq) (gq_SenderNodeId ?req) pf = (owns, pf1)"
    by (cases "sender_owned gw (hr_rpc rq 0) (forward_auth rq) (gq_SenderNodeId ?req) pf")
  note own = sender_owned_True [OF o]
  have "transfer_moves gw rq pf1 (snd (transfer_rpc gw (hr_rpc rq 1) m (forward_auth rq)
      (\<lambda>ctx. initiate_group_transfer (ci_transfer (hr_rpc rq 1)) (gw_uuid gw) (ci_newID (hr_rpc rq 1))
        (ci_newIDs (hr_rpc rq 1)) ?req) pf1))" if "owns" for m
    by (rule transfer_moves_rpc [where op = "OpGroup (ci_newID (hr_rpc rq 1)) (ci_newIDs (hr_rpc rq 1)) ?req"])
      (use own(1) own(2) [OF that] in \<open>auto simp: transfer_rights_def same_services_def\<close>)
  then have "owns \<Longrightarrow> transfer_moves gw rq pf (snd (transfer_rpc gw (hr_rpc rq 1) m (forward_auth rq)
      (\<lambda>ctx. initiate_group_transfer (ci_transfer (hr_rpc rq 1)) (gw_uuid gw) (ci_newID (hr_rpc rq 1))
        (ci_newIDs (hr_rpc rq 1)) ?req) pf1))" for m
    using own(1) by (blast intro: transfer_moves_after)
  moreover have "transfer_moves gw rq pf pf1" using own(1) by (simp add: transfer_same same_services_def)
  ultimately show ?thesis
    using o by (simp add: handle_initiate_group_transfer_def served_def decoded_def Inr Let_def snd_reply transfer_same)
qed (simp add: handle_initiate_group_transfer_def served_def decoded_def transfer_same)

lemma transfer_respond: "transfer_moves gw rq pf (snd (handle_respond_to_transfer gw rq tid body pf))"
proof (cases body)
  case (Inr b)
  obtain rcv ok where b: "b = (rcv, ok)" by (cases b)
  obtain owns pf1 where o: "user_owns_node gw (hr_rpc rq 0) (forward_auth rq) rcv pf = (owns, pf1)"
    by (cases "user_owns_node gw (hr_rpc rq 0) (forward_auth rq) rcv pf")
  have same: "same_services pf pf1" by (rule owns_same [OF o])
  have "transfer_moves gw rq pf1 (snd (transfer_rpc gw (hr_rpc rq 1) m (forward_auth rq)
      (\<lambda>ctx. respond_to_transfer (ci_transfer (hr_rpc rq 1)) tid rcv ok) pf1))" if "owns" for m
    by (rule transfer_moves_rpc [where op = "transfer_op.OpRespond tid rcv ok"])
      (use same user_owns_node_True [OF o [unfolded eq_True [THEN iffD2, OF that]]] in
        \<open>simp_all add: transfer_rights_def same_services_def\<close>)
  then have "owns \<Longrightarrow> transfer_moves gw rq pf (snd (transfer_rpc gw (hr_rpc rq 1) m (forward_auth rq)
      (\<lambda>ctx. respond_to_transfer (ci_transfer (hr_rpc rq 1)) tid rcv ok) pf1))" for m
    using same by (blast intro: transfer_moves_after)
  moreover have "transfer_moves gw rq pf pf1" using same by (simp add: transfer_same same_services_def)
  ultimately show ?thesis
    by (simp add: handle_respond_to_transfer_def served_def decoded_def Inr b Let_def o snd_reply transfer_same)
qed (simp add: handle_respond_to_transfer_def served_def decoded_def transfer_same)

text \<open>Requests that stop after the ownership check, or only read.\<close>

lemma transfer_as_steps:
  "snd (cancel_transfer cfg env flt tid s) = transfer_step cfg env u s (flt, OpCancel tid)"
  "snd (pause_transfer flt tid s) = transfer_step cfg env u s (flt, OpPause tid)"
  "snd (resume_transfer flt tid s) = transfer_step cfg env u s (flt, OpResume tid)"
  "snd (confirm_p2p_transfer flt tid ok n s) = transfer_step cfg env u s (flt, OpConfirm tid ok n)"
  by simp_all

lemma transfer_requests: "transfer_moves gw rq pf (transfer_request gw rq op pf)"
proof (cases op)
  case (HInitiateTransfer b)
  then show ?thesis by (simp add: transfer_initiate)
next
  case (HRespondToTransfer tid b)
  then show ?thesis by (simp add: transfer_respond)
next
  case (HListTransfers n)
  then show ?thesis
    by (cases "user_owns_node gw (hr_rpc rq 0) (forward_auth rq) n pf")
      (simp add: handle_list_transfers_def served_def transfer_same snd_reply list_rpc_def
        owns_same [unfolded same_services_def])
qed (simp add: handle_get_transfer_status_def handle_cancel_transfer_def handle_pause_transfer_def
      handle_resume_transfer_def handle_get_p2p_connection_info_def handle_confirm_p2p_transfer_def,
      intro transfer_moves_served transfer_moves_decoded,
      simp add: case_prod_beta snd_reply Let_def,
      (rule transfer_same, simp | rule transfer_moves_rpc, rule transfer_as_steps; simp add: transfer_rights_def)[])+

lemma send_one_step: "snd (send_one_chunk gw x c s) =
   transfer_step (gw_transfers gw) (gw_relay gw) (gw_uuid gw) s (ci_transfer x, OpSend True [c])"
  by (simp add: send_one_chunk_def split: prod.split sum.split)

lemma transfer_upload: "transfer_moves gw rq pf (snd (handle_upload_chunk gw rq tid form pf))"
proof -
  have up: "transfer_moves gw rq pf (snd (transfer_stream gw (hr_rpc rq 0) m md (\<lambda>ctx. send_one_chunk gw (hr_rpc rq 0) c) pf))" for m md c
    by (rule transfer_moves_stream, rule send_one_step) (simp add: transfer_rights_def)
  then have up': "transfer_stream gw (hr_rpc rq 0) m md (\<lambda>ctx. send_one_chunk gw (hr_rpc rq 0) c) pf = (r, pf')
      \<Longrightarrow> transfer_moves gw rq pf pf'" for m md c r pf'
    by (metis snd_conv)
  show ?thesis
    by (auto simp: handle_upload_chunk_def served_def Let_def transfer_same
        split: option.split form_file.split prod.split sum.split dest: up')
qed

lemma snd_ndjson: "snd (ndjson_reply gone call) = snd call"
  by (simp add: ndjson_reply_def split: prod.split sum.split)

lemma chunk_requests: "transfer_moves gw rq pf (chunk_request gw rq op pf)"
proof (cases op)
  case (HUploadChunk tid form)
  then show ?thesis by (simp add: transfer_upload)
next
  case (HInitiateGroupTransfer sid b)
  then show ?thesis by (simp add: transfer_group)
next
  case (HDownloadChunks tid gone)
  then show ?thesis
    by (simp add: handle_download_chunks_def served_def Let_def snd_ndjson transfer_same)
next
  case (HWatchTransfers flts ticks gone)
  then show ?thesis
    using owns_same [of gw "hr_rpc rq 0" "forward_auth rq" "hr_Query rq ''node_id''" pf]
    by (auto simp: handle_watch_transfers_def served_def Let_def snd_ndjson transfer_same same_services_def
        split: prod.split)
qed (simp_all add: handle_list_group_transfers_def handle_transfer_activity_def handle_transfer_speed_def served_def
      snd_reply Let_def transfer_same)

lemma same_served: "same_services pf (snd (k pf)) \<Longrightarrow> same_services pf (snd (served p n k pf))"
  by (simp add: served_def)

lemma same_decoded: "(\<And>req. same_services pf (snd (k req pf))) \<Longrightarrow> same_services pf (snd (decoded body k pf))"
  by (auto simp: decoded_def split: sum.split)

lemma same_query:
  "same_services pf (snd (identity_rpc gw x m md (query fi) pf))"
  "same_services pf (snd (routing_rpc gw x m md (query fr) pf))"
  "same_services pf (snd (transfer_rpc gw x m md (query ft) pf))"
  by (simp_all add: same_services_def)

lemma same_admin_only:
  assumes "\<And>pf. same_services pf (snd (k pf))"
  shows "same_services pf (snd (admin_only gw rq x k pf))"
  by (auto simp: admin_only_def served_def Let_def split: prod.split sum.split option.split
      dest!: reads_rpc(1) intro: same_services_trans [OF _ assms])

lemma admin_requests: "same_services pf (admin_request gw rq op pf)"
  by (cases op)
    (simp add: handle_admin_list_users_def handle_admin_list_devices_def handle_admin_list_transfers_def
      handle_admin_list_audit_logs_def Let_def case_prod_beta, intro same_admin_only same_served,
      simp add: snd_reply same_query)+

lemma reads_user_node_ids: "get_user_node_ids gw x md pf = (ids, pf') \<Longrightarrow> same_services pf pf'"
  by (auto simp: get_user_node_ids_def split: if_splits prod.splits sum.splits dest: reads_list_own)

lemma reads_metrics: "metrics_rpc gw x md ids pf = (r, pf') \<Longrightarrow> same_services pf pf'"
  unfolding metrics_rpc_def by (rule reads_rpc)

lemma route_requests: "same_services pf (route_request gw rq op pf)"
proof (cases op)
  case HGetNodeMetrics
  then show ?thesis
    by (auto simp: handle_get_node_metrics_def served_def reply_def split: prod.split sum.split
        dest!: reads_user_node_ids reads_metrics intro: same_services_trans)
next
  case HScanNodes
  then show ?thesis
    by (auto simp: handle_scan_nodes_def served_def Let_def split: prod.split sum.split option.split
        dest!: reads_user_node_ids reads_metrics intro: same_services_trans)
next
  case HPlatformStats
  then show ?thesis
    by (auto simp: handle_platform_stats_def Let_def split: prod.split sum.split prod.splits
        dest!: reads_rpc intro: same_services_trans split: if_splits)
qed (simp add: handle_find_route_def handle_get_route_table_def handle_list_relays_def,
      intro same_served same_decoded, simp add: case_prod_beta snd_reply Let_def same_query)+

text \<open>Transfer requests leave the identity service alone, and the other way round.\<close>

lemma sender_owned_same: "sender_owned gw x md n pf = (b, pf') \<Longrightarrow> same_services pf pf'"
  by (auto simp: sender_owned_def split: if_splits dest: owns_same)

lemma auto_approved_same: "auto_approved gw x md req pf = (req', pf') \<Longrightarrow> same_services pf pf'"
  by (auto simp: auto_approved_def split: if_splits prod.splits dest: owns_same)

lemma ident_transfer: "ident_of (transfer_request gw rq op pf) = ident_of pf"
  by (cases op)
    (auto simp: handle_initiate_transfer_def handle_get_transfer_status_def handle_list_transfers_def
      handle_cancel_transfer_def handle_pause_transfer_def handle_resume_transfer_def
      handle_get_p2p_connection_info_def handle_confirm_p2p_transfer_def handle_respond_to_transfer_def
      served_def decoded_def snd_reply Let_def list_rpc_def same_services_def split: sum.split prod.split
      dest!: sender_owned_same auto_approved_same owns_same)

lemma ident_upload: "ident_of (snd (handle_upload_chunk gw rq tid form pf)) = ident_of pf"
proof -
  have "transfer_stream gw x m md h pf = (r, pf') \<Longrightarrow> ident_of pf' = ident_of pf"
    for x m md r pf' and h :: "auth_ctx \<Rightarrow> transfer_service \<Rightarrow> (send_response list \<times> status option) \<times> transfer_service"
    using rpc_platform(7) [of gw x m md h pf] by simp
  then show ?thesis
    by (auto simp: handle_upload_chunk_def served_def Let_def
        split: option.split form_file.split prod.split sum.split)
qed

lemma ident_chunk: "ident_of (chunk_request gw rq op pf) = ident_of pf"
  by (cases op)
    (auto simp: ident_upload handle_download_chunks_def handle_watch_transfers_def handle_initiate_group_transfer_def
      handle_list_group_transfers_def handle_transfer_activity_def handle_transfer_speed_def
      served_def decoded_def snd_reply snd_ndjson Let_def same_services_def split: sum.split prod.split
      dest!: sender_owned_same owns_same)

lemma transfer_account: "transfer_of (account_request gw rq op pf) = transfer_of pf"
  by (cases op)
    (auto simp: handle_register_def handle_login_def handle_refresh_def handle_validate_def handle_verify_email_def
      handle_resend_verification_def handle_logout_def served_def decoded_def snd_reply Let_def split: sum.split)

lemma transfer_device: "transfer_of (device_request gw rq op pf) = transfer_of pf"
  by (cases op)
    (auto simp: handle_register_device_def handle_list_devices_def handle_get_device_def handle_revoke_device_def
      handle_update_device_activity_def handle_update_device_visibility_def handle_generate_pairing_code_def
      handle_redeem_pairing_code_def handle_approve_pairing_def served_def decoded_def snd_reply Let_def split: sum.split)

lemma transfer_session: "transfer_of (session_request gw rq op pf) = transfer_of pf"
  by (cases op)
    (auto simp: handle_create_peer_session_def handle_list_peer_sessions_def handle_close_peer_session_def
      handle_join_peer_session_def handle_list_session_devices_def handle_leave_peer_session_def
      handle_upload_device_key_def handle_get_device_key_def handle_get_session_device_keys_def
      handle_get_node_key_def served_def decoded_def snd_reply Let_def split: sum.split)

lemma transfer_social: "transfer_of (social_request gw rq op pf) = transfer_of pf"
  using notification_count_same [of pf gw rq]
  by (cases op)
    (auto simp: handle_send_friend_request_def handle_respond_to_friend_request_def handle_list_friends_def
      handle_list_friend_requests_def handle_remove_friend_def handle_list_friend_devices_def handle_search_users_def
      handle_heartbeat_def handle_get_presence_def handle_update_avatar_def handle_get_avatar_def same_services_def
      served_def decoded_def snd_reply Let_def split: sum.split)

lemmas quiet_requests = admin_requests [unfolded same_services_def, THEN conjunct1]
  admin_requests [unfolded same_services_def, THEN conjunct2]
  route_requests [unfolded same_services_def, THEN conjunct1]
  route_requests [unfolded same_services_def, THEN conjunct2]

lemma gateway_identity_calls:
  assumes "canonical_draws gw rq"
  shows "ident_moves gw rq pf (gateway_step gw pf (rq, op))"
  by (cases op) (simp_all add: ident_account [OF assms] ident_device [OF assms] ident_session [OF assms]
      ident_social [OF assms] ident_same quiet_requests ident_transfer ident_chunk)

lemma gateway_transfer_calls: "transfer_moves gw rq pf (gateway_step gw pf (rq, op))"
  by (cases op) (simp_all add: transfer_same transfer_account transfer_device transfer_session transfer_social
      quiet_requests transfer_requests chunk_requests)

section \<open>Runs of the gateway\<close>

text \<open>Requests whose token, at every reading, is of a user that is not the owner of a device.\<close>

definition request_by_stranger :: "'r gateway \<Rightarrow> device \<Rightarrow> http_request \<times> http_op \<Rightarrow> bool" where
  "request_by_stranger gw d req \<longleftrightarrow>
     canonical_draws gw (fst req)
     \<and> (\<forall>i uid. caller gw (hr_rpc (fst req) i) (forward_auth (fst req)) = Some uid \<longrightarrow>
          uid \<noteq> dv_UserID d \<and> ie_uuid (gw_ident gw) uid \<noteq> Some (dv_UserID d))"

lemma stranger_calls:
  assumes "request_by_stranger gw d (rq, op)" "identity_call gw rq call"
  shows "by_stranger (ie_uuid (gw_ident gw)) d call"
  using assms by (cases call) (fastforce simp: request_by_stranger_def identity_call_def by_stranger_def)

definition device_safe :: "'r gateway \<Rightarrow> device \<Rightarrow> 'r platform \<Rightarrow> bool" where
  "device_safe gw d pf \<longleftrightarrow>
     identity_wf (ii_db (ident_of pf)) \<and> ids_canonical (ie_uuid (gw_ident gw)) (db_devices (ii_db (ident_of pf)))
     \<and> d \<in> set (db_devices (ii_db (ident_of pf)))"

interpretation gateway_devices: invariant_machine "gateway_step gw" "device_safe gw d" "\<lambda>_. request_by_stranger gw d"
  for gw d
proof
  fix pf :: "'a platform" and req
  assume safe: "device_safe gw d pf" and stranger: "request_by_stranger gw d req"
  obtain rq op where req: "req = (rq, op)" by (cases req)
  have "canonical_draws gw rq" using stranger by (simp add: req request_by_stranger_def)
  from gateway_identity_calls [OF this] obtain calls where calls: "\<forall>c\<in>set calls. identity_call gw rq c"
    "ident_of (gateway_step gw pf req) = foldl (ident_step (gw_ident gw)) (ident_of pf) calls"
    unfolding ident_moves_def req by blast
  have "\<forall>c\<in>set calls. by_stranger (ie_uuid (gw_ident gw)) d c"
    using stranger_calls stranger calls(1) unfolding req by blast
  from device_owner.inv_run [OF _ device_owner_legal [OF this]] show "device_safe gw d (gateway_step gw pf req)"
    using safe unfolding device_safe_def calls(2) by blast
qed

end
