(* ===== verification/GatewayGuards.thy ===== *)
theory GatewayGuards
  imports GatewayMachine GatewayExample
begin

text \<open>
  What the gateway lets a user do: to the devices and transfers of others, to the endpoints of
  the administrator; and where its check of node ownership ends.
\<close>

section \<open>Answers of an RPC\<close>

lemma reply_Reply: "reply code call pf = (Reply c v, pf') \<longleftrightarrow> call pf = (Inr v, pf') \<and> c = code"
  by (auto simp: reply_def write_grpc_error_def split: prod.splits sum.splits)

lemma served_Reply: "served p n k pf = (Reply c v, pf') \<longleftrightarrow> p \<and> k pf = (Reply c v, pf')"
  by (simp add: served_def)

lemma identity_rpc_Inr:
  assumes "identity_rpc gw x m md h pf = (Inr v, pf')"
  shows "\<exists>ctx. context_for gw x (''/identity.v1.IdentityService/'' @ m) md = Inr ctx \<and> h ctx (ident_of pf) = (Inr v, ident_of pf')"
  using assms by (auto simp: identity_rpc_def Let_def split: prod.splits dest: rpc_Inr)

lemma transfer_rpc_Inr:
  assumes "transfer_rpc gw x m md h pf = (Inr v, pf')"
  shows "\<exists>ctx. context_for gw x (''/transfer.v1.TransferService/'' @ m) md = Inr ctx
    \<and> h ctx (transfer_of pf) = (Inr v, transfer_of pf')"
  using assms by (auto simp: transfer_rpc_def Let_def split: prod.splits dest: rpc_Inr)

lemma query_Inr: "query f ctx s = (Inr v, s') \<longleftrightarrow> f ctx s = Inr v \<and> s' = s"
  by (auto simp: query_def)

section \<open>Devices\<close>

lemma gateway_devices_legal:
  "\<forall>req\<in>set reqs. request_by_stranger gw d req \<Longrightarrow> gateway_devices.legal_run gw d pf reqs"
  by (induction reqs arbitrary: pf) auto

text \<open>C11: Nobody but its owner changes a device through the gateway: in any run of requests, to
  any endpoint, none of which carries a token of the owner, the row of the device stays exactly
  as it is.\<close>

theorem gateway_device_owner:
  assumes "identity_wf (ii_db (ident_of pf))"
    and "ids_canonical (ie_uuid (gw_ident gw)) (db_devices (ii_db (ident_of pf)))"
    and "d \<in> set (db_devices (ii_db (ident_of pf)))"
    and "\<forall>req\<in>set reqs. request_by_stranger gw d req"
  shows "d \<in> set (db_devices (ii_db (ident_of (foldl (gateway_step gw) pf reqs))))"
  using gateway_devices.inv_run [OF _ gateway_devices_legal [OF assms(4)]] assms(1-3)
  by (simp add: device_safe_def)

section \<open>Transfers\<close>

text \<open>C12: One request to the gateway ends the waiting of a direct transfer, one that is not part of a
  group, only through one RPC to the transfer service, which cancels the transfer, confirms it
  as delivered peer to peer, or responds to it in the name of its receiver; and the last only
  with a token of a user who has an unrevoked device with the node id of the receiver. (The
  transfers of a group are different: an upload to the group moves those that still wait.)\<close>

theorem gateway_approval:
  assumes "transfers_wf (transfer_of pf)" "waiting tid (transfer_of pf)" "tid \<noteq> ''''"
    and "\<not> waiting tid (transfer_of (gateway_step gw pf (rq, op)))"
  shows "\<exists>flt call. transfer_of (gateway_step gw pf (rq, op)) =
        transfer_step (gw_transfers gw) (gw_relay gw) (gw_uuid gw) (transfer_of pf) (flt, call)
    \<and> (call = OpCancel tid \<or> (\<exists>n. call = OpConfirm tid True n)
       \<or> (\<exists>t ok. get_transfer_sql tid (transfers_of (transfer_of pf)) = Some t
            \<and> call = transfer_op.OpRespond tid (tr_ReceiverNodeID t) ok
            \<and> own_node gw rq (ident_of pf) (tr_ReceiverNodeID t)))"
proof -
  obtain flt call where call: "transfer_rights gw rq (ident_of pf) call"
    "transfer_of (gateway_step gw pf (rq, op)) =
      transfer_step (gw_transfers gw) (gw_relay gw) (gw_uuid gw) (transfer_of pf) (flt, call)"
    using gateway_transfer_calls [of gw rq pf op] assms(2,4) by (auto simp: transfer_moves_def)
  have "\<not> waiting tid (transfer_step (gw_transfers gw) (gw_relay gw) (gw_uuid gw) (transfer_of pf) (flt, call))"
    using assms(4) call(2) by simp
  from approval_step [OF assms(1,2,3) this] show ?thesis
    using call(1) by (intro exI [of _ flt] exI [of _ call] conjI call(2)) (auto simp: transfer_rights_def)
qed

lemma accepted_row:
  assumes "initiate_transfer cfg flt newID req s = (Inr resp, s')"
  shows "ir_SenderNodeId req \<noteq> ''''" "ir_ReceiverNodeId req \<noteq> ''''"
    "\<exists>t. get_transfer_sql newID (transfers_of s') = Some t \<and> tr_SenderNodeID t = ir_SenderNodeId req
       \<and> tr_ReceiverNodeID t = ir_ReceiverNodeId req
       \<and> tr_Status t = (if ir_AutoApprove req then st_PENDING else st_AWAITING_APPROVAL)"
proof -
  have create: "create_transfer_sql now p rows = Some (t, rows') \<Longrightarrow>
      get_transfer_sql (tr_TransferID p) rows' = Some t \<and> tr_SenderNodeID t = tr_SenderNodeID p
      \<and> tr_ReceiverNodeID t = tr_ReceiverNodeID p \<and> tr_Status t = tr_Status p" for now p rows t rows'
    using row_at_None [of tr_TransferID "tr_TransferID p" rows]
    by (auto simp: create_transfer_sql_def get_transfer_sql_def row_at_append Let_def split: if_splits option.splits)
  show "ir_SenderNodeId req \<noteq> ''''" "ir_ReceiverNodeId req \<noteq> ''''"
    "\<exists>t. get_transfer_sql newID (transfers_of s') = Some t \<and> tr_SenderNodeID t = ir_SenderNodeId req
       \<and> tr_ReceiverNodeID t = ir_ReceiverNodeId req
       \<and> tr_Status t = (if ir_AutoApprove req then st_PENDING else st_AWAITING_APPROVAL)"
    using assms
    by (auto simp: initiate_transfer_def Let_def db_row_def dest!: create split: if_splits option.splits)
qed

text \<open>The call behind an accepted request: the request with its approval decided, at a service that
  the checks of ownership left as it was.\<close>

lemma initiate_call:
  assumes "handle_initiate_transfer gw rq (Inr req) pf = (Reply code resp, pf')"
  obtains b pf2 where "same_services pf pf2"
    "initiate_transfer (gw_transfers gw) (ci_transfer (hr_rpc rq 2)) (ci_newID (hr_rpc rq 2)) (req\<lparr>ir_AutoApprove := b\<rparr>)
       (transfer_of pf2) = (Inr resp, transfer_of pf')"
    "ir_SenderNodeId req = '''' \<or> own_node gw rq (ident_of pf) (ir_SenderNodeId req)"
    "ir_ReceiverNodeId req = '''' \<or> (b \<longrightarrow> own_node gw rq (ident_of pf) (ir_ReceiverNodeId req))"
proof -
  obtain owns pf1 where o: "sender_owned gw (hr_rpc rq 0) (forward_auth rq) (ir_SenderNodeId req) pf = (owns, pf1)"
    by (cases "sender_owned gw (hr_rpc rq 0) (forward_auth rq) (ir_SenderNodeId req) pf")
  obtain req' pf2 where a: "auto_approved gw (hr_rpc rq 1) (forward_auth rq) req pf1 = (req', pf2)"
    by (cases "auto_approved gw (hr_rpc rq 1) (forward_auth rq) req pf1")
  note own = sender_owned_True [OF o] and approved = auto_approved_True [OF a]
  have owns: owns and call: "transfer_rpc gw (hr_rpc rq 2) ''InitiateTransfer'' (forward_auth rq)
      (\<lambda>ctx. initiate_transfer (gw_transfers gw) (ci_transfer (hr_rpc rq 2)) (ci_newID (hr_rpc rq 2)) req') pf2 = (Inr resp, pf')"
    using assms
    by (simp_all add: handle_initiate_transfer_def served_Reply decoded_def o a [unfolded One_nat_def] Let_def reply_Reply
        split: if_splits)
  from approved(2) obtain b where req': "req' = req\<lparr>ir_AutoApprove := b\<rparr>" by blast
  show thesis
    using transfer_rpc_Inr [OF call] own(1) own(2) [OF owns] approved(1,3)
    by (intro that [of pf2 b]) (auto simp: req' same_services_def)
qed

text \<open>C17: A transfer that the gateway creates starts at a node of the user of the token; it is not
  held for approval only if its receiver is a node of that user, too, whatever
  \<open>auto_approve\<close> says in the request.\<close>

theorem gateway_initiate_own_node:
  assumes "handle_initiate_transfer gw rq (Inr req) pf = (Reply code resp, pf')"
  shows "own_node gw rq (ident_of pf) (ir_SenderNodeId req)
    \<and> (\<exists>t. get_transfer_sql (ci_newID (hr_rpc rq 2)) (transfers_of (transfer_of pf')) = Some t
         \<and> tr_SenderNodeID t = ir_SenderNodeId req \<and> tr_ReceiverNodeID t = ir_ReceiverNodeId req
         \<and> (tr_Status t = st_AWAITING_APPROVAL
            \<or> tr_Status t = st_PENDING \<and> own_node gw rq (ident_of pf) (ir_ReceiverNodeId req)))"
proof (rule initiate_call [OF assms])
  fix b pf2
  assume call: "initiate_transfer (gw_transfers gw) (ci_transfer (hr_rpc rq 2)) (ci_newID (hr_rpc rq 2)) (req\<lparr>ir_AutoApprove := b\<rparr>)
       (transfer_of pf2) = (Inr resp, transfer_of pf')"
    and own: "ir_SenderNodeId req = '''' \<or> own_node gw rq (ident_of pf) (ir_SenderNodeId req)"
      "ir_ReceiverNodeId req = '''' \<or> (b \<longrightarrow> own_node gw rq (ident_of pf) (ir_ReceiverNodeId req))"
  show ?thesis using accepted_row [OF call] own by auto
qed

section \<open>The administrator\<close>

definition admin_token :: "'r gateway \<Rightarrow> http_request \<Rightarrow> 'r platform \<Rightarrow> bool" where
  "admin_token gw rq pf \<longleftrightarrow>
     (let token = drop 7 (hr_Authorization rq); now = handled_at (hr_rpc rq 0) in
      \<not> fst (is_blacklisted (ie_redis (gw_ident gw)) now token (ii_redis (ident_of pf)))
      \<and> (\<exists>c. validate (ie_jwt (gw_ident gw)) (ie_manager (gw_ident gw)) now token = Some c \<and> cl_Email c = admin_email))"

lemma admin_only_Reply:
  assumes "admin_only gw rq (hr_rpc rq 0) k pf = (Reply c v, pf')"
  shows "admin_token gw rq pf" "\<exists>pf1. same_services pf pf1 \<and> k pf1 = (Reply c v, pf')"
proof -
  let ?x = "hr_rpc rq 0" and ?t = "drop 7 (hr_Authorization rq)"
  let ?h = "query (\<lambda>ctx. validate_token (gw_ident gw) (handled_at ?x) ?t)"
  obtain user email pf1 where v: "identity_rpc gw ?x ''ValidateToken'' [] ?h pf = (Inr (Some (user, email)), pf1)"
    "email = admin_email" "k pf1 = (Reply c v, pf')"
    using assms by (auto simp: admin_only_def served_Reply Let_def split: if_splits prod.splits sum.splits option.splits)
  then show "admin_token gw rq pf"
    by (auto dest!: identity_rpc_Inr simp: query_Inr validate_token_def admin_token_def Let_def
        split: if_splits prod.splits option.splits)
  have "same_services pf pf1"
    using query_rpcs(1) [of gw ?x "''ValidateToken''" "[]" "\<lambda>ctx. validate_token (gw_ident gw) (handled_at ?x) ?t" pf]
      rpc_platform(1,2) [of gw ?x "''ValidateToken''" "[]" ?h pf] v(1)
    by (simp add: same_services_def)
  then show "\<exists>pf1. same_services pf pf1 \<and> k pf1 = (Reply c v, pf')" using v(3) by blast
qed

text \<open>C18: An endpoint of the administrator answers only if what follows the first seven bytes of the
  \<open>Authorization\<close> header is a token that the service itself accepts, whose claims name the address of
  the administrator, and for which the look-up in the blacklist was answered with no, or failed: while
  Redis does not answer, a blacklisted token of the administrator still opens these endpoints.\<close>

theorem admin_needs_admin_token:
  assumes "handle_admin_list_users gw rq pf = (Reply c us, pf') \<or> handle_admin_list_devices gw rq pf = (Reply c ds, pf')
    \<or> handle_admin_list_audit_logs gw rq pf = (Reply c ls, pf') \<or> handle_admin_list_transfers gw rq pf = (Reply c ts, pf')
    \<or> handle_admin_service_status gw rq pf = (Reply c st, pf')"
  shows "\<exists>claims. validate (ie_jwt (gw_ident gw)) (ie_manager (gw_ident gw)) (handled_at (hr_rpc rq 0))
        (drop 7 (hr_Authorization rq)) = Some claims \<and> cl_Email claims = admin_email
     \<and> rd_exists (ie_redis (gw_ident gw)) (handled_at (hr_rpc rq 0)) (blacklist_key (drop 7 (hr_Authorization rq)))
         (ii_redis (ident_of pf)) \<in> {Some False, None}"
proof -
  have "admin_token gw rq pf"
    using assms
    by (auto simp: handle_admin_list_users_def handle_admin_list_devices_def handle_admin_list_audit_logs_def
        handle_admin_list_transfers_def handle_admin_service_status_def dest: admin_only_Reply(1))
  then show ?thesis by (auto simp: admin_token_def is_blacklisted_def Let_def split: option.splits)
qed

lemma parse_pagination_range:
  assumes "parse_pagination rq = (limit, offset)"
  shows "1 \<le> limit \<and> limit \<le> 200 \<and> 0 \<le> offset \<and> in_int32 offset"
proof -
  have "in_int32 n" if "sscanf_d 32 s = Some n" for s n
    using that by (auto simp: sscanf_d_def in_int32_def Let_def split: if_splits)
  then show ?thesis
    using assms by (auto simp: parse_pagination_def Let_def split: if_splits option.splits)
      (auto simp: in_int32_def)
qed

text \<open>The list of users that the administrator sees is one page of at most 200 of the newest
  users, whatever numbers the request asks for: the gateway never sends a limit that the service
  replaces.\<close>

theorem admin_pages_bounded:
  assumes "handle_admin_list_users gw rq pf = (Reply c (users, n), pf')"
  shows "\<exists>limit offset. parse_pagination rq = (limit, offset) \<and> 1 \<le> limit \<and> limit \<le> 200 \<and> 0 \<le> offset
    \<and> users = map user_to_msg (take (nat limit) (drop (nat offset) (latest us_CreatedAt (db_users (ii_db (ident_of pf))))))"
proof -
  obtain limit offset where p: "parse_pagination rq = (limit, offset)" by (cases "parse_pagination rq")
  note range = parse_pagination_range [OF p]
  let ?x = "hr_rpc rq (Suc 0)"
  let ?k = "reply 200 (identity_rpc gw ?x ''AdminListUsers'' (forward_auth rq)
      (query (\<lambda>ctx. admin_list_users (ci_ident ?x) limit offset)))"
  have "admin_only gw rq (hr_rpc rq 0) ?k pf = (Reply c (users, n), pf')"
    using assms by (simp add: handle_admin_list_users_def p Let_def)
  from admin_only_Reply(2) [OF this] obtain pf1 where pf1: "same_services pf pf1" "?k pf1 = (Reply c (users, n), pf')"
    by blast
  then have "admin_list_users (ci_ident ?x) limit offset (ident_of pf1) = Inr (users, n)"
    by (auto simp: reply_Reply query_Inr dest!: identity_rpc_Inr)
  then have "users = map user_to_msg (take (nat limit) (drop (nat offset) (latest us_CreatedAt (db_users (ii_db (ident_of pf1))))))"
    using range by (auto simp: admin_list_users_def page_limit_def admin_list_users_sql_def paged_def sql_page_def ask_def
        split: if_splits sum.splits)
  then show ?thesis using p range pf1(1) by (auto simp: same_services_def)
qed

section \<open>Node ids\<close>

text \<open>What a registration leaves: an unrevoked device of the caller with the node id it named.\<close>

lemma registered_node:
  assumes "register_device env flt now newID genNode ctx req s = (Inr dm, s')"
    and "user_id_from_context ctx = Some uid" "ie_uuid env uid = Some i" "rd_NodeId req \<noteq> ''''"
    and "\<not> flt QDeviceByFingerprint"
    and "\<forall>d\<in>set (db_devices (ii_db s)). dv_UserID d = i \<and> dv_RevokedAt d = None \<longrightarrow> dv_Fingerprint d \<noteq> rd_Fingerprint req"
  shows "\<exists>d\<in>set (db_devices (ii_db s')). dv_UserID d = i \<and> dv_RevokedAt d = None \<and> dv_NodeID d = Some (rd_NodeId req)"
    "set (db_devices (ii_db s)) \<subseteq> set (db_devices (ii_db s'))"
proof -
  have new: "one_row (\<lambda>d. dv_UserID d = i \<and> dv_Fingerprint d = rd_Fingerprint req \<and> dv_RevokedAt d = None)
      (db_devices (ii_db s)) = Inl NoRows"
    using assms(6) by (auto simp: one_row_def db_row_def find_None_iff split: option.split)
  show "\<exists>d\<in>set (db_devices (ii_db s')). dv_UserID d = i \<and> dv_RevokedAt d = None \<and> dv_NodeID d = Some (rd_NodeId req)"
    "set (db_devices (ii_db s)) \<subseteq> set (db_devices (ii_db s'))"
    using assms(1-5) new
    by (auto simp: register_device_def user_of_def get_device_by_fingerprint_sql_def create_device_sql_def cast_def
        ask_def Let_def split: if_splits sum.splits prod.splits)
qed

text \<open>The ownership that the gateway checks can be had for the asking: a user who registers a
  device with any node id, also one of another user's device, which stays as it is, passes as
  owner of that node from then on.\<close>

theorem any_node_can_be_claimed:
  assumes "handle_register_device gw rq (Inr req) pf = (Reply code dm, pf')" "rd_NodeId req \<noteq> ''''"
    and "caller gw (hr_rpc rq 0) (forward_auth rq) = Some uid" "ie_uuid (gw_ident gw) uid = Some i"
    and "\<not> ci_ident (hr_rpc rq 0) QDeviceByFingerprint"
    and "\<forall>d\<in>set (db_devices (ii_db (ident_of pf))). dv_UserID d = i \<longrightarrow> dv_Fingerprint d \<noteq> rd_Fingerprint req"
  shows "own_node gw rq (ident_of pf') (rd_NodeId req)
    \<and> set (db_devices (ii_db (ident_of pf))) \<subseteq> set (db_devices (ii_db (ident_of pf')))"
proof -
  let ?x = "hr_rpc rq 0"
  have "identity_rpc gw ?x ''RegisterDevice'' (forward_auth rq)
      (\<lambda>ctx. register_device (gw_ident gw) (ci_ident ?x) (handled_at ?x) (ci_newID ?x) (ci_genNode ?x) ctx req) pf
    = (Inr dm, pf')"
    using assms(1) by (simp add: handle_register_device_def served_Reply decoded_def Let_def reply_Reply)
  from identity_rpc_Inr [OF this] obtain ctx where
    ctx: "context_for gw ?x (''/identity.v1.IdentityService/'' @ ''RegisterDevice'') (forward_auth rq) = Inr ctx"
    and r: "register_device (gw_ident gw) (ci_ident ?x) (handled_at ?x) (ci_newID ?x) (ci_genNode ?x) ctx req (ident_of pf)
      = (Inr dm, ident_of pf')"
    by blast
  have "user_id_from_context ctx = Some uid" using context_user [OF ctx] assms(3) by (simp add: public_methods_def)
  note reg = registered_node [OF r this assms(4,2,5)]
  show ?thesis using reg assms(3,4,6) unfolding own_node_def by blast
qed

section \<open>Examples\<close>

definition ann_ctx :: auth_ctx where
  "ann_ctx = \<lparr>ac_user = Some ''u1'', ac_email = Some ''ann@x.io''\<rparr>"

lemma demo_rpc:
  assumes "rl_allow 0 (peer_addr (Some ''10.0.0.1:5'')) rl = (True, rl')" "method \<notin> public_methods" "h ann_ctx s = (r, s')"
  shows "\<exists>m' t'. rpc demo_gateway demo_moment method (forward_auth (demo_http ''Bearer A'')) h (m0, rl, t, s)
      = (r, m', rl', t', s')"
  using assms
  by (simp add: rpc_def demo_moment_def unary_chain_result chain_result_def unary_context_def call_with_def demo_call_def
      forward_auth_def demo_http_def authenticate_def trim_prefix_def demo_gateway_def small_env_def two_tokens_def
      ann_access_def second_def ann_ctx_def)

lemma demo_caller: "caller demo_gateway demo_moment (forward_auth (demo_http ''Bearer A'')) = Some ''u1''"
  by (simp add: caller_def token_of_def call_with_def forward_auth_def demo_http_def demo_moment_def demo_call_def
      trim_prefix_def demo_gateway_def small_env_def two_tokens_def ann_access_def second_def)

lemma demo_wf:
  "identity_wf (ii_db (ident_of demo_platform))"
  "ids_canonical (ie_uuid (gw_ident demo_gateway)) (db_devices (ii_db (ident_of demo_platform)))"
  by (simp_all add: demo_platform_def new_server_def small_state_wf ids_canonical_def demo_gateway_def small_env_def)

theorem gateway_device_owner_witness:
  "laptop \<in> set (db_devices (ii_db (ident_of (foldl (gateway_step demo_gateway) demo_platform
     [(demo_http '''', Device (HRevokeDevice ''d1'')), (demo_http ''Bearer X'', Device (HRevokeDevice ''d1''))]))))"
  by (rule gateway_device_owner [OF demo_wf])
    (auto simp: demo_platform_def new_server_def small_state_def request_by_stranger_def canonical_draws_def
      demo_gateway_def small_env_def caller_def token_of_def call_with_def forward_auth_def demo_http_def
      demo_moment_def demo_call_def trim_prefix_def two_tokens_def)

lemma demo_facts:
  "hr_rpc (demo_http a) i = demo_moment" "hr_Authorization (demo_http a) = a" "hr_Query (demo_http a) q = ''''"
  "ci_ident demo_moment = (\<lambda>_. False)" "ci_transfer demo_moment = (\<lambda>_. False)" "ci_newID demo_moment = ''n''"
  "ci_genNode demo_moment = ''n''" "handled_at demo_moment = 0" "ci_network demo_moment = Delivered"
  "gw_identity demo_gateway" "gw_transfer demo_gateway" "gw_ident demo_gateway = small_env"
  "gw_transfers demo_gateway = local_config" "gw_relay demo_gateway = demo_env"
  by (simp_all add: demo_http_def demo_moment_def demo_gateway_def handled_at_def demo_call_def)

text \<open>Calls of ann to the two services of the small platform.\<close>

fun allows :: "nat \<Rightarrow> rate_limiter \<Rightarrow> bool" where
  "allows 0 rl = True"
| "allows (Suc n) rl = (let (ok, rl') = rl_allow 0 (peer_addr (Some ''10.0.0.1:5'')) rl in ok \<and> allows n rl')"

definition ready :: "nat \<Rightarrow> map_redis platform \<Rightarrow> bool" where
  "ready n pf \<longleftrightarrow> allows n (fst (snd (pf_identity pf))) \<and> allows n (fst (snd (pf_transfer pf)))"

lemma demo_ready: "ready (Suc (Suc (Suc 0))) demo_platform"
  by (simp add: ready_def demo_platform_def new_server_def rl_allow_def new_rate_limiter_def peer_addr_def
      Let_def seconds_def)

lemma demo_transfers: "transfer_of demo_platform = demo_service"
  by (simp add: demo_platform_def new_server_def)

lemma demo_row_id: "tr_TransferID (demo_row i st g) = i" "tr_GroupTransferID (demo_row i st g) = g"
  by (simp_all add: demo_row_def)

lemma allows_less: "allows (Suc n) rl \<Longrightarrow> allows n rl"
proof (induction n arbitrary: rl)
  case (Suc n)
  obtain ok rl' where r: "rl_allow 0 (peer_addr (Some ''10.0.0.1:5'')) rl = (ok, rl')"
    by (cases "rl_allow 0 (peer_addr (Some ''10.0.0.1:5'')) rl")
  from Suc.prems have "ok" "allows (Suc n) rl'" unfolding allows.simps(2) [of "Suc n"] r by simp_all
  then show ?case using Suc.IH [of rl'] unfolding allows.simps(2) [of n rl] r by simp
qed simp

declare allows.simps(2) [simp del]

lemma demo_identity_call:
  assumes "''/identity.v1.IdentityService/'' @ m \<notin> public_methods" "h ann_ctx (ident_of pf) = (r, s')" "ready (Suc n) pf"
  obtains pf' where "identity_rpc demo_gateway demo_moment m (forward_auth (demo_http ''Bearer A'')) h pf = (r, pf')"
    "ident_of pf' = s'" "pf_transfer pf' = pf_transfer pf" "ready n pf'"
proof -
  obtain m0 rl t s where sv: "pf_identity pf = (m0, rl, t, s)" by (cases "pf_identity pf")
  obtain rl' where rl: "rl_allow 0 (peer_addr (Some ''10.0.0.1:5'')) rl = (True, rl')" "allows n rl'"
    using assms(3) by (auto simp: ready_def sv allows.simps(2) split: prod.splits)
  obtain m' t' where "rpc demo_gateway demo_moment (''/identity.v1.IdentityService/'' @ m)
      (forward_auth (demo_http ''Bearer A'')) h (m0, rl, t, s) = (r, m', rl', t', s')"
    using demo_rpc [OF rl(1) assms(1), of h s r s' m0 t] assms(2) by (auto simp: sv)
  then show thesis
    using assms(3) allows_less [of n "fst (snd (pf_transfer pf))"] rl(2)
    by (intro that [of "pf\<lparr>pf_identity := (m', rl', t', s')\<rparr>"]) (simp_all add: identity_rpc_def sv ready_def)
qed

lemma demo_transfer_call:
  assumes "''/transfer.v1.TransferService/'' @ m \<notin> public_methods" "h ann_ctx (transfer_of pf) = (r, s')" "ready (Suc n) pf"
  obtains pf' where "transfer_rpc demo_gateway demo_moment m (forward_auth (demo_http ''Bearer A'')) h pf = (r, pf')"
    "transfer_of pf' = s'" "pf_identity pf' = pf_identity pf" "ready n pf'"
proof -
  obtain m0 rl t s where sv: "pf_transfer pf = (m0, rl, t, s)" by (cases "pf_transfer pf")
  obtain rl' where rl: "rl_allow 0 (peer_addr (Some ''10.0.0.1:5'')) rl = (True, rl')" "allows n rl'"
    using assms(3) by (auto simp: ready_def sv allows.simps(2) split: prod.splits)
  obtain m' t' where "rpc demo_gateway demo_moment (''/transfer.v1.TransferService/'' @ m)
      (forward_auth (demo_http ''Bearer A'')) h (m0, rl, t, s) = (r, m', rl', t', s')"
    using demo_rpc [OF rl(1) assms(1), of h s r s' m0 t] assms(2) by (auto simp: sv)
  then show thesis
    using assms(3) allows_less [of n "fst (snd (pf_identity pf))"] rl(2)
    by (intro that [of "pf\<lparr>pf_transfer := (m', rl', t', s')\<rparr>"]) (simp_all add: transfer_rpc_def sv ready_def)
qed

text \<open>The devices that ann asks for.\<close>

lemma demo_devices:
  assumes "ready (Suc n) pf" "ident_of pf = small_state ''accepted''"
  obtains pf' where "list_own_devices demo_gateway demo_moment (forward_auth (demo_http ''Bearer A'')) pf
      = (Inr [device_to_proto laptop, device_to_proto phone], pf')"
    "ident_of pf' = small_state ''accepted''" "pf_transfer pf' = pf_transfer pf" "ready n pf'"
proof -
  have "list_devices small_env (\<lambda>_. False) ann_ctx (ident_of pf) = Inr [device_to_proto laptop, device_to_proto phone]"
    unfolding assms(2)
    by (simp add: list_devices_def user_of_def user_id_from_context_def ann_ctx_def list_devices_by_user_sql_def cast_def
        ask_def latest_def small_defs)
  then have h: "query (list_devices small_env (\<lambda>_. False)) ann_ctx (ident_of pf)
      = (Inr [device_to_proto laptop, device_to_proto phone], small_state ''accepted'')"
    using assms(2) by (simp add: query_def)
  show thesis
    by (rule demo_identity_call [where m = "''ListDevices''" and h = "query (list_devices small_env (\<lambda>_. False))", OF _ h assms(1)])
      (auto simp: public_methods_def list_own_devices_def demo_facts intro: that)
qed

theorem any_node_can_be_claimed_witness:
  "\<exists>dm pf'. handle_register_device demo_gateway (demo_http ''Bearer A'')
        (Inr \<lparr>rd_Name = ''x'', rd_DeviceType = 0, rd_NodeId = ''n7'', rd_Fingerprint = ''f7'', rd_IsPublic = False\<rparr>)
        demo_platform = (Reply 201 dm, pf')
     \<and> own_node demo_gateway (demo_http ''Bearer A'') (ident_of pf') ''n7''"
proof -
  let ?req = "\<lparr>rd_Name = ''x'', rd_DeviceType = 0, rd_NodeId = ''n7'', rd_Fingerprint = ''f7'', rd_IsPublic = False\<rparr>"
  let ?h = "\<lambda>ctx. register_device small_env (\<lambda>_. False) 0 ''n'' ''n'' ctx ?req"
  obtain dm s' where h: "?h ann_ctx (ident_of demo_platform) = (Inr dm, s')"
    by (simp add: register_device_def user_of_def user_id_from_context_def ann_ctx_def demo_platform_def new_server_def
        get_device_by_fingerprint_sql_def create_device_sql_def cast_def ask_def one_row_def db_row_def small_defs Let_def)
  obtain pf' where "identity_rpc demo_gateway demo_moment ''RegisterDevice'' (forward_auth (demo_http ''Bearer A'')) ?h
      demo_platform = (Inr dm, pf')"
    by (rule demo_identity_call [where m = "''RegisterDevice''" and h = ?h, OF _ h demo_ready])
      (auto simp: public_methods_def)
  then have r: "handle_register_device demo_gateway (demo_http ''Bearer A'') (Inr ?req) demo_platform = (Reply 201 dm, pf')"
    by (simp add: handle_register_device_def served_def decoded_def reply_def demo_facts Let_def)
  show ?thesis
    using r any_node_can_be_claimed [OF r, of "''u1''" "''u1''"] demo_caller
    by (auto simp: demo_facts small_defs demo_platform_def new_server_def)
qed

theorem gateway_approval_witness:
  "\<not> waiting ''w'' (transfer_of (gateway_step demo_gateway demo_platform
       (demo_http ''Bearer A'', Transfer (HCancelTransfer ''w'' (Inr '''')))))
   \<and> (\<exists>flt call. transfer_of (gateway_step demo_gateway demo_platform
         (demo_http ''Bearer A'', Transfer (HCancelTransfer ''w'' (Inr '''')))) =
           transfer_step local_config demo_env (gw_uuid demo_gateway) demo_service (flt, call))"
proof -
  let ?rq = "demo_http ''Bearer A''"
  let ?h = "\<lambda>(ctx :: auth_ctx). cancel_transfer local_config demo_env (\<lambda>_. False) ''w''"
  have w: "waiting ''w'' (transfer_of demo_platform)" "transfers_wf (transfer_of demo_platform)"
    using demo_service_facts(2,6) by (simp_all add: demo_platform_def new_server_def waiting_def) (simp add: demo_row_def)
  obtain r s' where h: "?h ann_ctx demo_service = (r, s')" by (cases "?h ann_ctx demo_service")
  have s': "\<not> waiting ''w'' s'"
    using h by (auto simp: cancel_transfer_def fetch_transfer_def demo_service_facts waiting_def Let_def local_config_def demo_row_id
        split: prod.splits option.splits)
  obtain pf' where "transfer_rpc demo_gateway demo_moment ''CancelTransfer'' (forward_auth ?rq) ?h demo_platform = (r, pf')"
    "transfer_of pf' = s'"
    by (rule demo_transfer_call [where m = "''CancelTransfer''" and h = ?h, OF _ h [folded demo_transfers] demo_ready])
      (auto simp: public_methods_def)
  then have n: "\<not> waiting ''w'' (transfer_of (gateway_step demo_gateway demo_platform
       (?rq, Transfer (HCancelTransfer ''w'' (Inr '''')))))"
    using s' by (simp add: handle_cancel_transfer_def served_def decoded_def reply_def demo_facts Let_def split: sum.split)
  show ?thesis using n gateway_approval [OF w(2,1) _ n] unfolding demo_facts demo_transfers by auto
qed

definition laptop_upload :: initiate_request where
  "laptop_upload = demo_upload_request\<lparr>ir_SenderNodeId := ''n1''\<rparr>"

theorem gateway_initiate_own_node_witness:
  "\<exists>resp pf'. handle_initiate_transfer demo_gateway (demo_http ''Bearer A'') (Inr laptop_upload) demo_platform = (Reply 201 resp, pf')
     \<and> map_option tr_SenderNodeID (get_transfer_sql ''n'' (transfers_of (transfer_of pf'))) = Some ''n1''"
proof -
  let ?rq = "demo_http ''Bearer A''" and ?req = "laptop_upload\<lparr>ir_AutoApprove := False\<rparr>"
  let ?h = "\<lambda>(ctx :: auth_ctx). initiate_transfer local_config (\<lambda>_. False) ''n'' ?req"
  have ids: "dm_NodeId (device_to_proto laptop) = ''n1''" "dm_NodeId (device_to_proto phone) = ''''"
    by (simp_all add: device_to_proto_def laptop_def phone_def text_or_empty_def)
  have req: "ir_SenderNodeId laptop_upload = ''n1''" "ir_ReceiverNodeId laptop_upload = ''c''"
    by (simp_all add: laptop_upload_def demo_upload_request_def)
  have accounts: "ident_of demo_platform = small_state ''accepted''" by (simp add: demo_platform_def new_server_def)
  obtain pf1 where one: "list_own_devices demo_gateway demo_moment (forward_auth ?rq) demo_platform
      = (Inr [device_to_proto laptop, device_to_proto phone], pf1)"
    "ident_of pf1 = small_state ''accepted''" "pf_transfer pf1 = pf_transfer demo_platform" "ready (Suc (Suc 0)) pf1"
    by (rule demo_devices [OF demo_ready accounts])
  obtain pf2 where two: "list_own_devices demo_gateway demo_moment (forward_auth ?rq) pf1
      = (Inr [device_to_proto laptop, device_to_proto phone], pf2)"
    "ident_of pf2 = small_state ''accepted''" "pf_transfer pf2 = pf_transfer pf1" "ready (Suc 0) pf2"
    by (rule demo_devices [OF one(4,2)])
  have db: "transfer_of pf2 = demo_service" using one(3) two(3) demo_transfers by simp
  obtain resp s' where h: "?h ann_ctx (transfer_of pf2) = (Inr resp, s')"
    unfolding db
    by (simp add: initiate_transfer_def local_config_def laptop_upload_def demo_upload_request_def demo_service_def
        demo_row_def create_transfer_sql_def Let_def)
  obtain pf3 where three: "transfer_rpc demo_gateway demo_moment ''InitiateTransfer'' (forward_auth ?rq) ?h pf2 = (Inr resp, pf3)"
    by (rule demo_transfer_call [where m = "''InitiateTransfer''" and h = ?h, OF _ h two(4)]) (auto simp: public_methods_def)
  have r: "handle_initiate_transfer demo_gateway ?rq (Inr laptop_upload) demo_platform = (Reply 201 resp, pf3)"
    using one(1) two(1) three
    by (simp add: handle_initiate_transfer_def served_def decoded_def reply_def sender_owned_def auto_approved_def
        user_owns_node_def demo_facts req ids Let_def)
  show ?thesis using r gateway_initiate_own_node [OF r] by (auto simp: demo_facts req)
qed

definition admin_gateway :: "map_redis gateway" where
  "admin_gateway = demo_gateway\<lparr>gw_ident := small_env\<lparr>ie_jwt :=
     \<lparr>jw_sign = (\<lambda>_ _. None), jw_parse = (\<lambda>now key t. if t = ''A''
        then Some \<lparr>cl_Subject = ''u1'', cl_Email = admin_email, cl_IssuedAt = 0, cl_ExpiresAt = second\<rparr> else None)\<rparr>\<rparr>\<rparr>"

lemma admin_users_answered:
  "\<exists>pf'. handle_admin_list_users admin_gateway (demo_http ''Bearer A'') demo_platform = (Reply 200 ([user_to_msg ann, user_to_msg bob], 1), pf')"
  by (simp add: handle_admin_list_users_def admin_only_def served_def identity_rpc_def rpc_def unary_chain_result
      chain_result_def admin_gateway_def demo_gateway_def demo_http_def demo_moment_def demo_call_def demo_platform_def
      new_server_def unary_context_def call_with_def public_methods_def query_def validate_token_def is_blacklisted_def
      validate_def handled_at_def forward_auth_def authenticate_def trim_prefix_def parse_pagination_def reply_def
      rl_allow_def new_rate_limiter_def peer_addr_def seconds_def map_redis_def map_holds_def
      admin_list_users_def admin_list_users_sql_def page_limit_def paged_def sql_page_def latest_def ask_def count_users_sql_def
      small_state_def small_env_def ann_def bob_def Let_def)

theorem admin_needs_admin_token_witness:
  "\<exists>claims. validate (ie_jwt (gw_ident admin_gateway)) (ie_manager (gw_ident admin_gateway))
        (handled_at (hr_rpc (demo_http ''Bearer A'') 0)) (drop 7 (hr_Authorization (demo_http ''Bearer A''))) = Some claims
     \<and> cl_Email claims = admin_email
     \<and> rd_exists (ie_redis (gw_ident admin_gateway)) (handled_at (hr_rpc (demo_http ''Bearer A'') 0))
         (blacklist_key (drop 7 (hr_Authorization (demo_http ''Bearer A'')))) (ii_redis (ident_of demo_platform))
         \<in> {Some False, None}"
proof -
  obtain pf' where "handle_admin_list_users admin_gateway (demo_http ''Bearer A'') demo_platform
      = (Reply 200 ([user_to_msg ann, user_to_msg bob], 1), pf')"
    using admin_users_answered by blast
  then show ?thesis using admin_needs_admin_token by blast
qed

theorem admin_pages_bounded_witness:
  "\<exists>limit offset. parse_pagination (demo_http ''Bearer A'') = (limit, offset) \<and> 1 \<le> limit \<and> limit \<le> 200 \<and> 0 \<le> offset
    \<and> [user_to_msg ann, user_to_msg bob] = map user_to_msg (take (nat limit) (drop (nat offset)
        (latest us_CreatedAt (db_users (ii_db (ident_of demo_platform))))))"
proof -
  obtain pf' where "handle_admin_list_users admin_gateway (demo_http ''Bearer A'') demo_platform
      = (Reply 200 ([user_to_msg ann, user_to_msg bob], 1), pf')"
    using admin_users_answered by blast
  from admin_pages_bounded [OF this] show ?thesis .
qed

end
