(* ===== verification/Crypto.thy ===== *)
theory Crypto
  imports Prelude
begin

text \<open>
  The end-to-end encryption that the clients use: \<open>pkg/crypto/ecdh.go\<close> and
  \<open>internal/encryption/aes.go\<close>, with base64 of the standard library written out. X25519, HKDF
  and AES-GCM are functions of a library record; what a proof needs of them is a named law.
  Random bytes are arguments, \<open>None\<close> when the generator fails.
\<close>

section \<open>Base64\<close>

definition b64_alphabet :: string where
  "b64_alphabet = ''ABCDEFGHIJKLMNOPQRSTUVWXYZabcdefghijklmnopqrstuvwxyz0123456789+/''"

definition b64_char :: "nat \<Rightarrow> char" where
  "b64_char n = b64_alphabet ! n"

fun index_in :: "'a list \<Rightarrow> 'a \<Rightarrow> nat option" where
  "index_in [] y = None"
| "index_in (x # xs) y = (if x = y then Some 0 else map_option Suc (index_in xs y))"

definition b64_value :: "char \<Rightarrow> nat option" where
  "b64_value c = index_in b64_alphabet c"

definition byte :: "nat \<Rightarrow> 8 word" where
  "byte n = of_nat n"

fun b64_encode :: "bytes \<Rightarrow> string" where
  "b64_encode [] = ''''"
| "b64_encode [a] =
     [b64_char (unat a div 4), b64_char (unat a mod 4 * 16)] @ ''==''"
| "b64_encode [a, b] =
     [b64_char (unat a div 4), b64_char (unat a mod 4 * 16 + unat b div 16), b64_char (unat b mod 16 * 4)] @ ''=''"
| "b64_encode (a # b # c # bs) =
     [b64_char (unat a div 4), b64_char (unat a mod 4 * 16 + unat b div 16),
      b64_char (unat b mod 16 * 4 + unat c div 64), b64_char (unat c mod 64)] @ b64_encode bs"

text \<open>The decoder skips line breaks; padding ends the text.\<close>

definition b64_bytes :: "nat \<Rightarrow> nat \<Rightarrow> nat \<Rightarrow> nat \<Rightarrow> bytes" where
  "b64_bytes u v w x = [byte (u * 4 + v div 16), byte (v mod 16 * 16 + w div 4), byte (w mod 4 * 64 + x)]"

fun b64_groups :: "string \<Rightarrow> bytes option" where
  "b64_groups [] = Some []"
| "b64_groups (p # q # r # s # cs) =
     (case (b64_value p, b64_value q) of
        (Some u, Some v) \<Rightarrow>
          (case (b64_value r, b64_value s) of
             (Some w, Some x) \<Rightarrow> map_option ((@) (b64_bytes u v w x)) (b64_groups cs)
           | (Some w, None) \<Rightarrow> if s = CHR ''='' \<and> cs = [] then Some (take 2 (b64_bytes u v w 0)) else None
           | (None, _) \<Rightarrow> if r = CHR ''='' \<and> s = CHR ''='' \<and> cs = [] then Some (take 1 (b64_bytes u v 0 0)) else None)
      | _ \<Rightarrow> None)"
| "b64_groups cs = None"

definition b64_decode :: "string \<Rightarrow> bytes option" where
  "b64_decode s = b64_groups (filter (\<lambda>c. c \<noteq> CHR 0x0A \<and> c \<noteq> CHR 0x0D) s)"

lemma index_in_nth: "distinct xs \<Longrightarrow> n < length xs \<Longrightarrow> index_in xs (xs ! n) = Some n"
proof (induction xs arbitrary: n)
  case (Cons x xs)
  then show ?case by (cases n) auto
qed simp

lemma alphabet: "distinct b64_alphabet" "length b64_alphabet = 64"
  "CHR ''='' \<notin> set b64_alphabet" "CHR 0x0A \<notin> set b64_alphabet" "CHR 0x0D \<notin> set b64_alphabet"
  by (simp_all add: b64_alphabet_def)

lemma b64_value_char [simp]: "n < 64 \<Longrightarrow> b64_value (b64_char n) = Some n"
  by (simp add: b64_value_def b64_char_def index_in_nth alphabet)

lemma b64_value_pad [simp]: "b64_value (CHR ''='') = None"
  by (simp add: b64_value_def b64_alphabet_def)

lemma b64_char_in: "n < 64 \<Longrightarrow> b64_char n \<in> set b64_alphabet"
  by (simp add: b64_char_def alphabet)

lemma unat8: "unat (a :: 8 word) < 256"
proof -
  have "unat a < 2 ^ LENGTH(8)" by (rule unsigned_less)
  then show ?thesis by simp
qed

lemma byte_unat [simp]: "byte (unat a) = a"
  by (simp add: byte_def)

lemma sextets:
  assumes "a < (256 :: nat)" "b < 256" "c < 256"
  shows "a div 4 < 64" "a mod 4 * 16 < 64" "a mod 4 * 16 + b div 16 < 64" "b mod 16 * 4 < 64" "b mod 16 * 4 + c div 64 < 64"
    "c mod 64 < 64"
    "a div 4 * 4 + (a mod 4 * 16 + b div 16) div 16 = a" "a div 4 * 4 + a mod 4 * 16 div 16 = a"
    "(a mod 4 * 16 + b div 16) mod 16 * 16 + (b mod 16 * 4 + c div 64) div 4 = b"
    "(a mod 4 * 16 + b div 16) mod 16 * 16 + b mod 16 * 4 div 4 = b"
    "(b mod 16 * 4 + c div 64) mod 4 * 64 + c mod 64 = c"
proof -
  have b: "b div 16 < 16" "c div 64 < 4" using assms by (simp_all add: less_mult_imp_div_less)
  have m: "a mod 4 \<le> 3" "b mod 16 \<le> 15" by simp_all
  show "a div 4 < 64" "a mod 4 * 16 < 64" "a mod 4 * 16 + b div 16 < 64" "b mod 16 * 4 < 64" "b mod 16 * 4 + c div 64 < 64"
    "c mod 64 < 64"
    using assms b m by (simp_all add: less_mult_imp_div_less)
  show "a div 4 * 4 + (a mod 4 * 16 + b div 16) div 16 = a" "a div 4 * 4 + a mod 4 * 16 div 16 = a"
    "(a mod 4 * 16 + b div 16) mod 16 * 16 + (b mod 16 * 4 + c div 64) div 4 = b"
    "(a mod 4 * 16 + b div 16) mod 16 * 16 + b mod 16 * 4 div 4 = b"
    "(b mod 16 * 4 + c div 64) mod 4 * 64 + c mod 64 = c"
    using b by simp_all
qed

lemma b64_groups_encode: "b64_groups (b64_encode bs) = Some bs"
proof (induction bs rule: b64_encode.induct)
  case (2 a)
  then show ?case using sextets [of "unat a" 0 0] unat8 [of a] by (simp add: b64_bytes_def)
next
  case (3 a b)
  then show ?case using sextets [of "unat a" "unat b" 0] unat8 [of a] unat8 [of b] by (simp add: b64_bytes_def)
next
  case (4 a b c bs)
  then show ?case using sextets [of "unat a" "unat b" "unat c"] unat8 [of a] unat8 [of b] unat8 [of c]
    by (simp add: b64_bytes_def)
qed simp

lemma b64_encode_chars: "set (b64_encode bs) \<subseteq> insert (CHR ''='') (set b64_alphabet)"
proof (induction bs rule: b64_encode.induct)
  case (2 a)
  then show ?case using sextets [of "unat a" 0 0] unat8 [of a] by (simp add: b64_char_in)
next
  case (3 a b)
  then show ?case using sextets [of "unat a" "unat b" 0] unat8 [of a] unat8 [of b] by (simp add: b64_char_in)
next
  case (4 a b c bs)
  then show ?case using sextets [of "unat a" "unat b" "unat c"] unat8 [of a] unat8 [of b] unat8 [of c]
    by (simp add: b64_char_in)
qed simp

lemma b64_roundtrip: "b64_decode (b64_encode bs) = Some bs"
proof -
  have "filter (\<lambda>c. c \<noteq> CHR 0x0A \<and> c \<noteq> CHR 0x0D) (b64_encode bs) = b64_encode bs"
    using b64_encode_chars [of bs] alphabet(4,5) by (intro filter_True) auto
  then show ?thesis by (simp add: b64_decode_def b64_groups_encode)
qed

section \<open>The library\<close>

text \<open>\<open>cy_dh\<close> is X25519, \<open>None\<close> for the all-zero result; \<open>cy_hkdf\<close> is the first bytes of
  HKDF-SHA256 for secret, salt and info; \<open>cy_seal\<close> and \<open>cy_open\<close> are AES-GCM for key, nonce and text.\<close>

record crypto_lib =
  cy_public :: "bytes \<Rightarrow> bytes"
  cy_dh :: "bytes \<Rightarrow> bytes \<Rightarrow> bytes option"
  cy_hkdf :: "bytes \<Rightarrow> bytes \<Rightarrow> bytes \<Rightarrow> nat \<Rightarrow> bytes option"
  cy_seal :: "bytes \<Rightarrow> bytes \<Rightarrow> bytes \<Rightarrow> bytes"
  cy_open :: "bytes \<Rightarrow> bytes \<Rightarrow> bytes \<Rightarrow> bytes option"

text \<open>The documented laws: both sides of a Diffie-Hellman exchange get the same secret, public keys
  have 32 bytes, and a sealed text opens with the key and nonce it was sealed with.\<close>

definition crypto_laws :: "crypto_lib \<Rightarrow> bool" where
  "crypto_laws lib \<longleftrightarrow>
     (\<forall>a b. length a = 32 \<longrightarrow> length b = 32 \<longrightarrow> cy_dh lib a (cy_public lib b) = cy_dh lib b (cy_public lib a))
     \<and> (\<forall>a. length a = 32 \<longrightarrow> length (cy_public lib a) = 32)
     \<and> (\<forall>k n p. cy_open lib k n (cy_seal lib k n p) = Some p)
     \<and> (\<forall>s salt info n key. cy_hkdf lib s salt info n = Some key \<longrightarrow> length key = n)"

datatype crypto_error =
    RandomFailed | BadPrivateKey | BadPublicKey | ExchangeFailed | DerivationFailed | BadKey | TooShort | OpenFailed
  | BadBase64 | WrongKeySize nat

section \<open>Keys\<close>

text \<open>The private key is the 32 random bytes.\<close>

definition generate_x25519_key_pair :: "crypto_lib \<Rightarrow> bytes option \<Rightarrow> crypto_error + (bytes \<times> bytes)" where
  "generate_x25519_key_pair lib random =
     (case random of None \<Rightarrow> Inl RandomFailed | Some priv \<Rightarrow> Inr (priv, cy_public lib priv))"

definition ecdh :: "crypto_lib \<Rightarrow> bytes \<Rightarrow> bytes \<Rightarrow> crypto_error + bytes" where
  "ecdh lib localPrivate remotePubKey =
     (if length localPrivate \<noteq> 32 then Inl BadPrivateKey
      else if length remotePubKey \<noteq> 32 then Inl BadPublicKey
      else case cy_dh lib localPrivate remotePubKey of None \<Rightarrow> Inl ExchangeFailed | Some secret \<Rightarrow> Inr secret)"

definition text_bytes :: "string \<Rightarrow> bytes" where
  "text_bytes s = map (\<lambda>c. of_nat (of_char c)) s"

definition derive_transfer_key :: "crypto_lib \<Rightarrow> bytes \<Rightarrow> string \<Rightarrow> bytes \<Rightarrow> bytes \<Rightarrow> crypto_error + bytes" where
  "derive_transfer_key lib sharedSecret transferID ephemeralPub receiverStaticPub =
     (let salt = ephemeralPub @ receiverStaticPub;
          info = text_bytes (''vinctum-transfer-v1:'' @ transferID)
      in case cy_hkdf lib sharedSecret salt info 32 of None \<Rightarrow> Inl DerivationFailed | Some key \<Rightarrow> Inr key)"

section \<open>AES-GCM\<close>

definition aes_key :: "bytes \<Rightarrow> bool" where
  "aes_key key \<longleftrightarrow> length key \<in> {16, 24, 32}"

definition encrypt_aes_gcm :: "crypto_lib \<Rightarrow> bytes option \<Rightarrow> bytes \<Rightarrow> bytes \<Rightarrow> crypto_error + bytes" where
  "encrypt_aes_gcm lib random key plaintext =
     (if \<not> aes_key key then Inl BadKey
      else case random of
             None \<Rightarrow> Inl RandomFailed
           | Some nonce \<Rightarrow> Inr (nonce @ cy_seal lib key nonce plaintext))"

definition decrypt_aes_gcm :: "crypto_lib \<Rightarrow> bytes \<Rightarrow> bytes \<Rightarrow> crypto_error + bytes" where
  "decrypt_aes_gcm lib key ciphertext =
     (if length ciphertext < 12 then Inl TooShort
      else if \<not> aes_key key then Inl BadKey
      else case cy_open lib key (take 12 ciphertext) (drop 12 ciphertext) of
             None \<Rightarrow> Inl OpenFailed
           | Some plaintext \<Rightarrow> Inr plaintext)"

text \<open>The functions of \<open>internal/encryption\<close>: the same format, the checks in another order.\<close>

definition encrypt :: "crypto_lib \<Rightarrow> bytes option \<Rightarrow> bytes \<Rightarrow> bytes \<Rightarrow> crypto_error + bytes" where
  "encrypt lib random key plaintext =
     (if \<not> aes_key key then Inl BadKey
      else case random of
             None \<Rightarrow> Inl RandomFailed
           | Some nonce \<Rightarrow> Inr (nonce @ cy_seal lib key nonce plaintext))"

definition decrypt :: "crypto_lib \<Rightarrow> bytes \<Rightarrow> bytes \<Rightarrow> crypto_error + bytes" where
  "decrypt lib key ciphertext =
     (if \<not> aes_key key then Inl BadKey
      else
        let nonceSize = 12 in
        if length ciphertext < nonceSize then Inl TooShort
        else case cy_open lib key (take nonceSize ciphertext) (drop nonceSize ciphertext) of
               None \<Rightarrow> Inl OpenFailed
             | Some plaintext \<Rightarrow> Inr plaintext)"

definition decode_key :: "string \<Rightarrow> crypto_error + bytes" where
  "decode_key b64Key =
     (case b64_decode b64Key of
        None \<Rightarrow> Inl BadBase64
      | Some key \<Rightarrow> if length key \<noteq> 32 then Inl (WrongKeySize (length key)) else Inr key)"

definition generate_key :: "bytes option \<Rightarrow> crypto_error + string" where
  "generate_key random = (case random of None \<Rightarrow> Inl RandomFailed | Some key \<Rightarrow> Inr (b64_encode key))"

section \<open>Tokens\<close>

definition hex_digits :: string where
  "hex_digits = ''0123456789abcdef''"

definition hex_encode :: "bytes \<Rightarrow> string" where
  "hex_encode bs = concat (map (\<lambda>a. [hex_digits ! (unat a div 16), hex_digits ! (unat a mod 16)]) bs)"

definition generate_hex_token :: "bytes option \<Rightarrow> crypto_error + string" where
  "generate_hex_token random = (case random of None \<Rightarrow> Inl RandomFailed | Some b \<Rightarrow> Inr (hex_encode b))"

text \<open>\<open>bcrypt\<close> is an argument: hash and check for a password.\<close>

definition hash_password :: "(string \<Rightarrow> int \<Rightarrow> string option) \<Rightarrow> string \<Rightarrow> int \<Rightarrow> string option" where
  "hash_password bcrypt password cost = (if length password = 0 then None else bcrypt password cost)"

section \<open>Round trips\<close>

lemma seal_open:
  assumes "crypto_laws lib" "length nonce = 12" "encrypt_aes_gcm lib (Some nonce) key p = Inr c"
  shows "decrypt_aes_gcm lib key c = Inr p"
  using assms by (auto simp: encrypt_aes_gcm_def decrypt_aes_gcm_def crypto_laws_def split: if_splits)

lemma both_formats:
  "encrypt lib random key p = encrypt_aes_gcm lib random key p"
  "is_ok (decrypt lib key c) \<longleftrightarrow> is_ok (decrypt_aes_gcm lib key c)"
  "decrypt_aes_gcm lib key c = Inr p \<longleftrightarrow> decrypt lib key c = Inr p"
  by (auto simp: encrypt_def encrypt_aes_gcm_def decrypt_def decrypt_aes_gcm_def Let_def split: option.splits)

theorem stored_key_decrypts:
  assumes "crypto_laws lib" "length random = 32" "length nonce = 12"
    and "generate_key (Some random) = Inr stored" "decode_key stored = Inr key" "encrypt lib (Some nonce) key p = Inr c"
  shows "key = random \<and> decrypt lib key c = Inr p"
  using assms seal_open [OF assms(1,3), of key p c]
  by (auto simp: generate_key_def decode_key_def b64_roundtrip both_formats)

text \<open>What one side of an exchange encrypts for the other, that opens: with the key pairs that the
  two sides generated, both get the same secret from their own private and the other's public
  key, hence the same key for a transfer, and the one decrypts what the other encrypted.\<close>

theorem exchanged_key_decrypts:
  assumes "crypto_laws lib" "length random = 32" "length random' = 32" "length nonce = 12"
    and "generate_x25519_key_pair lib (Some random) = Inr (ephPriv, ephPub)"
    and "generate_x25519_key_pair lib (Some random') = Inr (devPriv, devPub)"
    and "ecdh lib ephPriv devPub = Inr secret" "derive_transfer_key lib secret tid ephPub devPub = Inr key"
    and "encrypt_aes_gcm lib (Some nonce) key p = Inr c"
  shows "ecdh lib devPriv ephPub = Inr secret \<and> length key = 32 \<and> decrypt_aes_gcm lib key c = Inr p"
proof -
  have pairs: "ephPriv = random" "ephPub = cy_public lib random" "devPriv = random'" "devPub = cy_public lib random'"
    using assms(5,6) by (auto simp: generate_x25519_key_pair_def)
  have "cy_dh lib random (cy_public lib random') = cy_dh lib random' (cy_public lib random)"
    "length (cy_public lib random) = 32"
    using assms(1-3) by (simp_all add: crypto_laws_def)
  then have "ecdh lib devPriv ephPub = Inr secret"
    using assms(2,3,7) by (auto simp: pairs ecdh_def split: if_splits option.splits)
  moreover have "length key = 32"
    using assms(1,8) by (auto simp: derive_transfer_key_def crypto_laws_def Let_def split: option.splits)
  ultimately show ?thesis using seal_open [OF assms(1,4,9)] by simp
qed

section \<open>Example\<close>

text \<open>A library that satisfies the assumed laws: agreement by a symmetric pointwise function, a key
  derivation that pads, and a cipher that shifts every byte.\<close>

definition demo_lib :: crypto_lib where
  "demo_lib = \<lparr>cy_public = map (\<lambda>x. x + 1), cy_dh = (\<lambda>a b. Some (map2 (\<lambda>x y. (x + 1) * y) a b)),
     cy_hkdf = (\<lambda>secret salt info n. Some (take n (secret @ replicate n 0))),
     cy_seal = (\<lambda>k n p. map (\<lambda>x. x + hd (k @ [0])) p), cy_open = (\<lambda>k n c. Some (map (\<lambda>x. x - hd (k @ [0])) c))\<rparr>"

lemma demo_lib_laws: "crypto_laws demo_lib"
proof -
  have "map2 (\<lambda>x y. (x + 1) * y) a (map (\<lambda>x. x + 1) b) = map2 (\<lambda>x y. (x + 1) * y) b (map (\<lambda>x. x + 1) (a :: bytes))"
    if "length a = length b" for a b
    using that by (induction a b rule: list_induct2) (simp_all add: mult.commute)
  then show ?thesis by (simp add: crypto_laws_def demo_lib_def comp_def min_def)
qed

end
