(* ===== verification/Cli.thy ===== *)
theory Cli
  imports GatewayUploads GatewayGuards Crypto
begin

text \<open>
  The command line client, \<open>cmd/cli/main.go\<close>: its state file, and each command as a function of
  the world it runs in, the state file, the local files and the services behind the gateway. What
  happens to each HTTP exchange, random bytes and hashes are arguments. The address of the gateway
  always leads to the same gateway, arguments need no escaping in an URL, and writing to a file
  that was created succeeds. Of what a command prints the last line is kept.
\<close>

section \<open>State\<close>

record cli_state =
  cs_Gateway :: string
  cs_AccessToken :: string
  cs_RefreshToken :: string
  cs_UserID :: string
  cs_Username :: string
  cs_DeviceID :: string
  cs_NodeID :: string
  cs_Ed25519PrivKey :: string
  cs_Ed25519PubKey :: string
  cs_X25519PrivKey :: string
  cs_X25519PubKey :: string

definition default_gateway :: string where
  "default_gateway = ''http://localhost:8080''"

definition fresh_state :: cli_state where
  "fresh_state = \<lparr>cs_Gateway = default_gateway, cs_AccessToken = '''', cs_RefreshToken = '''', cs_UserID = '''',
     cs_Username = '''', cs_DeviceID = '''', cs_NodeID = '''', cs_Ed25519PrivKey = '''', cs_Ed25519PubKey = '''',
     cs_X25519PrivKey = '''', cs_X25519PubKey = ''''\<rparr>"

record 'r cli_world =
  cw_state :: "cli_state option" \<comment> \<open>the file \<open>.vinctum/state.json\<close>, if it can be read\<close>
  cw_files :: "string \<Rightarrow> bytes option"
  cw_platform :: "'r platform"

definition load_state :: "cli_state option \<Rightarrow> cli_state" where
  "load_state data =
     (case data of
        None \<Rightarrow> fresh_state
      | Some s \<Rightarrow> if cs_Gateway s = '''' then s\<lparr>cs_Gateway := default_gateway\<rparr> else s)"

definition save :: "cli_state \<Rightarrow> 'r cli_world \<Rightarrow> 'r cli_world" where
  "save s w = w\<lparr>cw_state := Some s\<rparr>"

section \<open>HTTP\<close>

text \<open>What becomes of an exchange: it happens, the gateway is not reached, its answer is lost, the body
  of the answer breaks off, or something before the handlers answers in its place.\<close>

datatype link = Reached | Unreached | AnswerLost | BodyCut | TurnedAway nat

record cli_call =
  cc_link :: "nat \<Rightarrow> link"
  cc_request :: "nat \<Rightarrow> http_request"
  cc_random :: "nat \<Rightarrow> bytes"
  cc_ed25519 :: "bytes \<times> bytes" \<comment> \<open>public and private key\<close>
  cc_sha :: "bytes \<Rightarrow> string"
  cc_unknownEnum :: "string option" \<comment> \<open>what the JSON decoder says of an unknown enum name, if it minds\<close>
  cc_create :: bool \<comment> \<open>the output file can be created\<close>
  cc_lines :: nat \<comment> \<open>lines of a body that breaks off\<close>

datatype cli_error = ConnectionError | HttpError nat

text \<open>A result without an answer has none of the fields that are read from it.\<close>

definition exchange :: "link \<Rightarrow> ('r, 'a) http_handler \<Rightarrow> 'r platform \<Rightarrow> (cli_error + 'a option) \<times> 'r platform" where
  "exchange l h pf =
     (case l of
        Unreached \<Rightarrow> (Inl ConnectionError, pf)
      | TurnedAway code \<Rightarrow> (if code \<ge> 400 then Inl (HttpError code) else Inr None, pf)
      | AnswerLost \<Rightarrow> (Inl ConnectionError, snd (h pf))
      | _ \<Rightarrow>
          let (r, pf') = h pf in
          (if http_code r \<ge> 400 then Inl (HttpError (http_code r))
           else case r of
                  Reply code v \<Rightarrow> Inr (if l = BodyCut then None else Some v)
                | Failed code msg \<Rightarrow> Inr None, pf'))"

definition with_token :: "cli_state \<Rightarrow> http_request \<Rightarrow> http_request" where
  "with_token s rq = rq\<lparr>hr_Authorization := ''Bearer '' @ cs_AccessToken s, hr_Query := (\<lambda>_. '''')\<rparr>"

definition json_request :: "cli_state \<Rightarrow> http_request \<Rightarrow> http_request" where
  "json_request s rq =
     (if cs_AccessToken s \<noteq> '''' then with_token s rq else rq\<lparr>hr_Authorization := '''', hr_Query := (\<lambda>_. '''')\<rparr>)"

definition do_json ::
  "cli_state \<Rightarrow> cli_call \<Rightarrow> nat \<Rightarrow> (http_request \<Rightarrow> ('r, 'a) http_handler) \<Rightarrow> 'r platform
     \<Rightarrow> (cli_error + 'a option) \<times> 'r platform" where
  "do_json s c k h pf = exchange (cc_link c k) (h (json_request s (cc_request c k))) pf"

section \<open>Accounts and devices\<close>

datatype cli_outcome =
    Usage | LoginFirst | RequestFailed cli_error | ReadFailed | CreateFailed | Panicked | PartFailed nat cli_error
  | Registered "register_response option" | LoggedIn string string | SetUp bool | FileSent string nat | FileSaved nat
  | NoTransfers | TransferList "transfer_info list" | StatusShown | GatewaySet

type_synonym 'r cli_command = "cli_state \<Rightarrow> string list \<Rightarrow> 'r cli_world \<Rightarrow> cli_outcome \<times> 'r cli_world"

definition cmd_register :: "'r gateway \<Rightarrow> cli_call \<Rightarrow> 'r cli_command" where
  "cmd_register gw c s args w =
     (case args of
        username # email # password # _ \<Rightarrow>
          (case do_json s c 0 (\<lambda>rq. handle_register gw rq (Inr (username, email, password))) (cw_platform w) of
             (Inl e, pf) \<Rightarrow> (RequestFailed e, w\<lparr>cw_platform := pf\<rparr>)
           | (Inr resp, pf) \<Rightarrow> (Registered resp, w\<lparr>cw_platform := pf\<rparr>))
      | _ \<Rightarrow> (Usage, w))"

definition cmd_login :: "'r gateway \<Rightarrow> cli_call \<Rightarrow> 'r cli_command" where
  "cmd_login gw c s args w =
     (case args of
        email # password # _ \<Rightarrow>
          (case do_json s c 0 (\<lambda>rq. handle_login gw rq (Inr (email, password))) (cw_platform w) of
             (Inl e, pf) \<Rightarrow> (RequestFailed e, w\<lparr>cw_platform := pf\<rparr>)
           | (Inr resp, pf) \<Rightarrow>
               let s1 = (case resp of
                           None \<Rightarrow> s\<lparr>cs_AccessToken := '''', cs_RefreshToken := ''''\<rparr>
                         | Some r \<Rightarrow> s\<lparr>cs_AccessToken := tp_AccessToken (lo_Tokens r),
                                      cs_RefreshToken := tp_RefreshToken (lo_Tokens r),
                                      cs_UserID := um_UserId (lo_User r), cs_Username := um_Username (lo_User r)\<rparr>)
               in (LoggedIn (cs_Username s1) (cs_UserID s1), save s1 (w\<lparr>cw_platform := pf\<rparr>)))
      | _ \<Rightarrow> (Usage, w))"

text \<open>The device type that \<open>setup\<close> asks for is not in the schema: the decoder of the gateway either
  refuses the body or leaves the type unspecified. A fingerprint is not sent.\<close>

definition setup_body :: "cli_call \<Rightarrow> string \<Rightarrow> string + register_device_request" where
  "setup_body c name =
     (case cc_unknownEnum c of
        Some e \<Rightarrow> Inl e
      | None \<Rightarrow> Inr \<lparr>rd_Name = name, rd_DeviceType = 0, rd_NodeId = '''', rd_Fingerprint = '''', rd_IsPublic = False\<rparr>)"

definition cmd_setup :: "crypto_lib \<Rightarrow> 'r gateway \<Rightarrow> cli_call \<Rightarrow> 'r cli_command" where
  "cmd_setup lib gw c s args w =
     (if cs_AccessToken s = '''' then (LoginFirst, w)
      else
        let deviceName = (case args of [] \<Rightarrow> ''cli'' | a # _ \<Rightarrow> a);
            priv = cc_random c 0;
            s1 = s\<lparr>cs_Ed25519PubKey := b64_encode (fst (cc_ed25519 c)), cs_Ed25519PrivKey := b64_encode (snd (cc_ed25519 c)),
                   cs_X25519PrivKey := b64_encode priv, cs_X25519PubKey := b64_encode (cy_public lib priv)\<rparr>
        in case do_json s1 c 0 (\<lambda>rq. handle_register_device gw rq (setup_body c deviceName)) (cw_platform w) of
             (Inl e, pf) \<Rightarrow> (RequestFailed e, w\<lparr>cw_platform := pf\<rparr>)
           | (Inr resp, pf) \<Rightarrow>
               let s2 = (case resp of None \<Rightarrow> s1 | Some d \<Rightarrow> s1\<lparr>cs_DeviceID := dm_DeviceId d\<rparr>);
                   s3 = s2\<lparr>cs_NodeID := cs_UserID s2 @ '':'' @ cs_DeviceID s2\<rparr>;
                   (r, pf') = do_json s3 c 1
                     (\<lambda>rq. handle_upload_device_key gw rq (cs_DeviceID s3) (Inr (''x25519'', cy_public lib priv))) pf
               in (SetUp (is_ok r), save s3 (w\<lparr>cw_platform := pf'\<rparr>)))"

section \<open>Sending\<close>

definition path_base :: "string \<Rightarrow> string" where
  "path_base p =
     (if p = '''' then ''.''
      else let q = rev (dropWhile (\<lambda>c. c = CHR ''/'') (rev p))
           in if q = '''' then ''/'' else last (split_on (CHR ''/'') q))"

definition cli_chunk_size :: nat where
  "cli_chunk_size = 256 * 1024"

text \<open>The number of chunks goes through a \<open>float64\<close>, which is printed with an exponent from a million
  on, and back through \<open>Atoi\<close>, which refuses an exponent; the error is dropped.\<close>

definition shown_count :: "int32 option \<Rightarrow> nat" where
  "shown_count n =
     (case n of None \<Rightarrow> 0 | Some n \<Rightarrow> if 0 \<le> n \<and> n < 1000000 then nat n else 0)"

definition upload_chunk_http ::
  "'r gateway \<Rightarrow> cli_state \<Rightarrow> cli_call \<Rightarrow> string \<Rightarrow> nat \<Rightarrow> bytes \<Rightarrow> string \<Rightarrow> 'r platform
     \<Rightarrow> cli_error option \<times> 'r platform" where
  "upload_chunk_http gw s c tid index chunk hash pf =
     (case exchange (cc_link c (Suc index))
             (handle_upload_chunk gw (with_token s (cc_request c (Suc index))) tid (Some (dec index, hash, FileData chunk))) pf of
        (Inl e, pf') \<Rightarrow> (Some e, pf')
      | (Inr _, pf') \<Rightarrow> (None, pf'))"

text \<open>The loop over the chunks; a slice that would start behind the end of the file panics.\<close>

fun upload_loop ::
  "'r gateway \<Rightarrow> cli_state \<Rightarrow> cli_call \<Rightarrow> string \<Rightarrow> bytes \<Rightarrow> nat list \<Rightarrow> 'r platform
     \<Rightarrow> cli_outcome option \<times> 'r platform" where
  "upload_loop gw s c tid fileData [] pf = (None, pf)"
| "upload_loop gw s c tid fileData (i # is) pf =
     (let start = i * cli_chunk_size;
          stop = (if start + cli_chunk_size > length fileData then length fileData else start + cli_chunk_size)
      in if start > stop then (Some Panicked, pf)
         else
           let chunk = take (stop - start) (drop start fileData)
           in case upload_chunk_http gw s c tid i chunk (cc_sha c chunk) pf of
                (Some e, pf') \<Rightarrow> (Some (PartFailed i e), pf')
              | (None, pf') \<Rightarrow> upload_loop gw s c tid fileData is pf')"

definition send_request :: "cli_state \<Rightarrow> cli_call \<Rightarrow> string \<Rightarrow> string \<Rightarrow> bytes \<Rightarrow> initiate_request" where
  "send_request s c receiver path fileData =
     \<lparr>ir_SenderNodeId = cs_NodeID s, ir_ReceiverNodeId = receiver, ir_Filename = path_base path,
      ir_TotalSizeBytes = int (length fileData), ir_ContentHash = cc_sha c fileData,
      ir_ChunkSizeBytes = int cli_chunk_size, ir_EncryptionKey = '''', ir_ReplicationFactor = 0,
      ir_SenderEphemeralPubkey = cc_random c 0, ir_AutoApprove = False\<rparr>"

definition cmd_send :: "'r gateway \<Rightarrow> cli_call \<Rightarrow> 'r cli_command" where
  "cmd_send gw c s args w =
     (case args of
        receiver # path # _ \<Rightarrow>
          if cs_AccessToken s = '''' \<or> cs_NodeID s = '''' then (LoginFirst, w)
          else
            (case cw_files w path of
               None \<Rightarrow> (ReadFailed, w)
             | Some fileData \<Rightarrow>
            (case do_json s c 0 (\<lambda>rq. handle_initiate_transfer gw rq (Inr (send_request s c receiver path fileData)))
                    (cw_platform w) of
               (Inl e, pf) \<Rightarrow> (RequestFailed e, w\<lparr>cw_platform := pf\<rparr>)
             | (Inr resp, pf) \<Rightarrow>
                 let transferID = (case resp of None \<Rightarrow> '''' | Some r \<Rightarrow> is_TransferId r);
                     totalChunks = shown_count (map_option is_TotalChunks resp);
                     (failed, pf') = upload_loop gw s c transferID fileData [0..<totalChunks] pf
                 in ((case failed of None \<Rightarrow> FileSent transferID (length fileData) | Some e \<Rightarrow> e),
                     w\<lparr>cw_platform := pf'\<rparr>)))
      | _ \<Rightarrow> (Usage, w))"

section \<open>Receiving\<close>

text \<open>The loop over the lines: what is written, and the number of chunks. A line that reports an error
  has no data and is counted like a chunk.\<close>

fun write_lines :: "data_chunk line list \<Rightarrow> bytes \<times> nat" where
  "write_lines [] = ([], 0)"
| "write_lines (Line m # ls) =
     (if dc_IsLast m then (dc_Data m, 1)
      else let (d, n) = write_lines ls in (dc_Data m @ d, Suc n))"
| "write_lines (ErrorLine e # ls) = (let (d, n) = write_lines ls in (d, Suc n))"

definition download_request :: "cli_state \<Rightarrow> http_request \<Rightarrow> http_request" where
  "download_request s rq =
     (with_token s rq)\<lparr>hr_Query := (\<lambda>k. if k = ''receiver_node_id'' then cs_NodeID s else '''')\<rparr>"

definition cmd_receive :: "'r gateway \<Rightarrow> cli_call \<Rightarrow> 'r cli_command" where
  "cmd_receive gw c s args w =
     (case args of
        transferID # outPath # _ \<Rightarrow>
          if cs_AccessToken s = '''' \<or> cs_NodeID s = '''' then (LoginFirst, w)
          else
            (case exchange (if cc_link c 0 = BodyCut then Reached else cc_link c 0)
                    (handle_download_chunks gw (download_request s (cc_request c 0)) transferID (\<lambda>_. False)) (cw_platform w) of
               (Inl e, pf) \<Rightarrow> (RequestFailed e, w\<lparr>cw_platform := pf\<rparr>)
             | (Inr body, pf) \<Rightarrow>
                 if \<not> cc_create c then (CreateFailed, w\<lparr>cw_platform := pf\<rparr>)
                 else
                   let lines = (case body of None \<Rightarrow> [] | Some ls \<Rightarrow> if cc_link c 0 = BodyCut then take (cc_lines c) ls else ls);
                       (d, chunkCount) = write_lines lines
                   in (FileSaved chunkCount, w\<lparr>cw_platform := pf, cw_files := (cw_files w)(outPath \<mapsto> d)\<rparr>))
      | _ \<Rightarrow> (Usage, w))"

section \<open>The other commands\<close>

definition cmd_transfers :: "'r gateway \<Rightarrow> cli_call \<Rightarrow> 'r cli_command" where
  "cmd_transfers gw c s args w =
     (if cs_AccessToken s = '''' \<or> cs_NodeID s = '''' then (LoginFirst, w)
      else case do_json s c 0 (\<lambda>rq. handle_list_transfers gw rq (cs_NodeID s)) (cw_platform w) of
             (Inl e, pf) \<Rightarrow> (RequestFailed e, w\<lparr>cw_platform := pf\<rparr>)
           | (Inr resp, pf) \<Rightarrow>
               ((case resp of None \<Rightarrow> NoTransfers | Some ts \<Rightarrow> if length ts = 0 then NoTransfers else TransferList ts),
                w\<lparr>cw_platform := pf\<rparr>))"

definition cmd_gateway :: "'r cli_command" where
  "cmd_gateway s args w =
     (case args of
        [] \<Rightarrow> (Usage, w)
      | a # _ \<Rightarrow> (GatewaySet, save (s\<lparr>cs_Gateway := rev (dropWhile (\<lambda>c. c = CHR ''/'') (rev a))\<rparr>) w))"

definition cli_main :: "crypto_lib \<Rightarrow> 'r gateway \<Rightarrow> cli_call \<Rightarrow> string list \<Rightarrow> 'r cli_world \<Rightarrow> cli_outcome \<times> 'r cli_world" where
  "cli_main lib gw c args w =
     (case args of
        [] \<Rightarrow> (Usage, w)
      | cmd # args \<Rightarrow>
          let s = load_state (cw_state w) in
          if cmd = ''gateway'' then cmd_gateway s args w
          else if cmd = ''register'' then cmd_register gw c s args w
          else if cmd = ''login'' then cmd_login gw c s args w
          else if cmd = ''setup'' then cmd_setup lib gw c s args w
          else if cmd = ''send'' then cmd_send gw c s args w
          else if cmd = ''receive'' then cmd_receive gw c s args w
          else if cmd = ''transfers'' then cmd_transfers gw c s args w
          else if cmd = ''status'' then (StatusShown, w)
          else (Usage, w))"

end
