(* ===== verification/CliLaws.thy ===== *)
theory CliLaws
  imports Cli
begin

text \<open>
  Laws of the command line client: what its \<open>setup\<close> can do, and a file that one client sends and
  another receives.
\<close>

section \<open>A client that was never set up\<close>

text \<open>Whatever answers in the place of the gateway refuses.\<close>

definition refusing_links :: "cli_call \<Rightarrow> bool" where
  "refusing_links c \<longleftrightarrow> (\<forall>k code. cc_link c k = TurnedAway code \<longrightarrow> 400 \<le> code)"

lemma exchange_state:
  "snd (exchange l h pf) = (if l = Unreached \<or> (\<exists>code. l = TurnedAway code) then pf else snd (h pf))"
  by (cases l) (simp_all add: exchange_def case_prod_beta)

lemma exchange_Inr:
  assumes "exchange l h pf = (Inr v, pf')" "\<forall>code. l = TurnedAway code \<longrightarrow> 400 \<le> code"
  obtains (answered) code a where "code < 400" "h pf = (Reply code a, pf')" "v = Some a \<or> l = BodyCut \<and> v = None"
  | (without) code m where "code < 400" "h pf = (Failed code m, pf')"
proof (cases "h pf")
  case (Pair r pf1)
  then show thesis
    using assms that by (cases l; cases r) (auto simp: exchange_def split: if_splits)
qed

lemma transfer_server_kept:
  "pf_transfer (snd (handle_register gw rq body pf)) = pf_transfer pf"
  "pf_transfer (snd (handle_login gw rq body' pf)) = pf_transfer pf"
  "pf_transfer (snd (handle_register_device gw rq body'' pf)) = pf_transfer pf"
  by (auto simp: handle_register_def handle_login_def handle_register_device_def served_def decoded_def snd_reply Let_def
      split: sum.split)

text \<open>A device without a fingerprint is refused.\<close>

lemma register_device_refused:
  assumes "rd_Fingerprint req = ''''"
  shows "\<exists>e. fst (register_device env flt now newID genNode ctx req s) = Inl e"
  using assms by (simp add: register_device_def split: sum.split)

lemma setup_refused:
  assumes "handle_register_device gw rq (setup_body c name) pf = (r, pf')"
  shows "\<exists>code m. r = Failed code m \<and> 400 \<le> code"
proof -
  have "\<exists>code m. fst (reply 201 (identity_rpc gw x ''RegisterDevice'' md
      (\<lambda>ctx. register_device env flt now newID genNode ctx
        \<lparr>rd_Name = name, rd_DeviceType = 0, rd_NodeId = '''', rd_Fingerprint = '''', rd_IsPublic = False\<rparr>)) pf) = Failed code m
      \<and> 400 \<le> code" for x md env flt now newID genNode
  proof (cases "reply 201 (identity_rpc gw x ''RegisterDevice'' md
      (\<lambda>ctx. register_device env flt now newID genNode ctx
        \<lparr>rd_Name = name, rd_DeviceType = 0, rd_NodeId = '''', rd_Fingerprint = '''', rd_IsPublic = False\<rparr>)) pf")
    case (Pair a pf1)
    show ?thesis
    proof (cases a)
      case (Reply code v)
      with Pair obtain ctx where "register_device env flt now newID genNode ctx
          \<lparr>rd_Name = name, rd_DeviceType = 0, rd_NodeId = '''', rd_Fingerprint = '''', rd_IsPublic = False\<rparr> (ident_of pf)
          = (Inr v, ident_of pf1)"
        by (auto simp: reply_Reply dest!: identity_rpc_Inr)
      then show ?thesis
        using register_device_refused [of "\<lparr>rd_Name = name, rd_DeviceType = 0, rd_NodeId = '''', rd_Fingerprint = '''', rd_IsPublic = False\<rparr>"
            env flt now newID genNode ctx "ident_of pf"] by simp
    next
      case (Failed code m)
      then show ?thesis using Pair by (auto simp: reply_def write_grpc_error_def split: prod.splits sum.splits)
    qed
  qed
  then show ?thesis
    using assms
    by (auto simp: handle_register_device_def setup_body_def served_def decoded_def Let_def prod_eq_iff
        split: if_splits option.splits)
qed

text \<open>Nothing has been sent or received: no node id, the same files and the same transfer service.\<close>

definition idle :: "'r cli_world \<Rightarrow> 'r cli_world \<Rightarrow> bool" where
  "idle w0 w \<longleftrightarrow> cs_NodeID (load_state (cw_state w)) = '''' \<and> cw_files w = cw_files w0
     \<and> pf_transfer (cw_platform w) = pf_transfer (cw_platform w0)"

definition cli_step :: "crypto_lib \<Rightarrow> 'r gateway \<Rightarrow> 'r cli_world \<Rightarrow> cli_call \<times> string list \<Rightarrow> 'r cli_world" where
  "cli_step lib gw w e = snd (cli_main lib gw (fst e) (snd e) w)"

lemma load_saved: "cs_NodeID (load_state (Some s)) = cs_NodeID s"
  by (simp add: load_state_def)

lemma exchange_transfer:
  assumes "\<And>rq pf. pf_transfer (snd (h rq pf)) = pf_transfer pf" "do_json s c k h pf = (r, pf')"
  shows "pf_transfer pf' = pf_transfer pf"
  using assms(1) [of "json_request s (cc_request c k)" pf] exchange_state [of "cc_link c k" "h (json_request s (cc_request c k))" pf]
    assms(2) by (simp add: do_json_def split: if_splits)

lemma account_exchanges:
  "do_json s c k (\<lambda>rq. handle_register gw rq body) pf = (r1, pf') \<Longrightarrow> pf_transfer pf' = pf_transfer pf"
  "do_json s c k (\<lambda>rq. handle_login gw rq body') pf = (r2, pf') \<Longrightarrow> pf_transfer pf' = pf_transfer pf"
  "do_json s c k (\<lambda>rq. handle_register_device gw rq body'') pf = (r3, pf') \<Longrightarrow> pf_transfer pf' = pf_transfer pf"
  by (erule exchange_transfer [rotated], simp add: transfer_server_kept)+

lemma idle_register:
  assumes "idle w0 w"
  shows "idle w0 (snd (cmd_register gw c s args w))"
  using assms
  by (auto simp: cmd_register_def idle_def dest: account_exchanges split: list.split prod.split sum.split)

lemma idle_login:
  assumes "idle w0 w" "cs_NodeID s = ''''"
  shows "idle w0 (snd (cmd_login gw c s args w))"
  using assms
  by (auto simp: cmd_login_def idle_def save_def load_saved Let_def dest: account_exchanges
        split: list.split prod.split sum.split option.split)

lemma idle_setup:
  assumes "idle w0 w" "refusing_links c"
  shows "idle w0 (snd (cmd_setup lib gw c s args w))"
proof -
  have refused: "\<exists>e. r = Inl e" if "do_json s1 c 0 (\<lambda>rq. handle_register_device gw rq (setup_body c name)) pf = (r, pf')"
    for s1 name pf r pf'
  proof (cases r)
    case (Inr v)
    have "\<forall>code. cc_link c 0 = TurnedAway code \<longrightarrow> 400 \<le> code" using assms(2) by (simp add: refusing_links_def)
    then show ?thesis
      by (rule exchange_Inr [OF that [unfolded do_json_def Inr]]) (auto dest: setup_refused)
  qed simp
  show ?thesis
    using assms(1) refused
    by (fastforce simp: cmd_setup_def idle_def Let_def dest: account_exchanges split: prod.split sum.split)
qed

interpretation idle_client: invariant_machine "cli_step lib gw" "idle w0" "\<lambda>w e. refusing_links (fst e)" for lib gw w0
proof
  fix w :: "'a cli_world" and e :: "cli_call \<times> string list"
  assume w: "idle w0 w" "refusing_links (fst e)"
  let ?s = "load_state (cw_state w)"
  have s: "cs_NodeID ?s = ''''" using w(1) by (simp add: idle_def)
  have "idle w0 (snd (cmd_gateway ?s args w))" "idle w0 (snd (cmd_send gw (fst e) ?s args w))"
    "idle w0 (snd (cmd_receive gw (fst e) ?s args w))" "idle w0 (snd (cmd_transfers gw (fst e) ?s args w))" for args
    using w(1) s
    by (auto simp: cmd_gateway_def cmd_send_def cmd_receive_def cmd_transfers_def idle_def save_def load_saved split: list.split)
  then show "idle w0 (cli_step lib gw w e)"
    using w idle_register [OF w(1)] idle_login [OF w(1) s] idle_setup [OF w(1,2)]
    by (cases "snd e") (simp_all add: cli_step_def cli_main_def Let_def)
qed

text \<open>C37: The client as it is cannot be set up against these services: \<open>setup\<close> registers a device without
  a fingerprint, which the identity service refuses. So whatever commands are given, in whatever
  order, starting without a state file: no node id is ever stored, no file is written and nothing
  at the transfer service changes; \<open>send\<close> and \<open>receive\<close> only ask to log in and set up first.\<close>

theorem cli_never_sends:
  assumes "cs_NodeID (load_state (cw_state w)) = ''''" "\<forall>e\<in>set cmds. refusing_links (fst e)"
    and "w' = foldl (cli_step lib gw) w cmds"
  shows "cs_NodeID (load_state (cw_state w')) = '''' \<and> cw_files w' = cw_files w
    \<and> pf_transfer (cw_platform w') = pf_transfer (cw_platform w)
    \<and> fst (cli_main lib gw c [''send'', to, path] w') = LoginFirst
    \<and> fst (cli_main lib gw c [''receive'', tid, out] w') = LoginFirst"
proof -
  have "idle_client.legal_run lib gw w cmds"
    using assms(2) by (induction cmds arbitrary: w) simp_all
  moreover have "idle w w" using assms(1) by (simp add: idle_def)
  ultimately have "idle w w'" unfolding assms(3) by (intro idle_client.inv_run)
  then show ?thesis by (simp add: idle_def cli_main_def cmd_send_def cmd_receive_def Let_def)
qed

section \<open>The number of a chunk as text\<close>

lemma digits_eq: "digits = map digit_char [0..<10]"
  by code_simp

lemma digit_chars: "c \<in> set digits \<longleftrightarrow> (\<exists>d < 10. c = digit_char d)"
  by (auto simp: digits_eq)

lemma dec_digits: "set (dec n) \<subseteq> set digits"
proof (induction n rule: dec.induct)
  case (1 n)
  have "digit_char (n mod 10) \<in> set digits" unfolding digit_chars by (rule exI [of _ "n mod 10"]) simp
  then show ?case using 1 by (cases "n < 10") (auto simp: dec.simps [of n] digit_chars)
qed

lemma decimal_dec: "decimal (dec n) = int n"
proof (induction n rule: dec.induct)
  case (1 n)
  have d: "int (of_char (digit_char d)) - 48 = int d" if "d < 10" for d
    using that by (simp add: digit_char_def)
  have "decimal (ds @ [digit_char (n mod 10)]) = 10 * decimal ds + int (n mod 10)" for ds
    using d [of "n mod 10"] by (simp add: decimal_def)
  moreover have "10 * int (n div 10) + int (n mod 10) = int n" by presburger
  ultimately show ?case
    using 1 d [of n] by (cases "n < 10") (simp_all add: dec.simps [of n], simp add: decimal_def)
qed

lemma sscanf_dec:
  assumes "int n < 2 ^ 63"
  shows "sscanf_d 64 (dec n) = Some (int n)"
proof -
  have first: "hd (dec n) \<in> set digits" using dec_digits [of n] by (cases "dec n") auto
  have none: "CHR ''-'' \<notin> set digits" "CHR ''+'' \<notin> set digits" by code_simp+
  have blanks: "\<forall>w\<in>set blanks. w \<noteq> [] \<and> hd w \<notin> set digits" by code_simp
  have "starting ws (dec n) = None" if "\<forall>w\<in>set ws. w \<noteq> [] \<and> hd w \<notin> set digits" for ws
    using that first
  proof (induction ws)
    case (Cons w ws)
    then obtain c w' where "w = c # w'" "c \<notin> set digits" by (cases w) auto
    then show ?case using Cons first by (cases "dec n") (auto simp: starting_def)
  qed (simp add: starting_def)
  then have strip: "strip_front blanks (dec n) = dec n"
    using blanks by (simp add: strip_front.simps)
  have signs: "hd (dec n) \<noteq> CHR ''-''" "hd (dec n) \<noteq> CHR ''+''" using first none by auto
  have tw: "takeWhile (\<lambda>c. c \<in> set digits) (dec n) = dec n" using dec_digits [of n] by (auto simp: takeWhile_eq_all_conv)
  show ?thesis using signs assms by (simp add: sscanf_d_def strip tw decimal_dec Let_def)
qed

section \<open>A file from client to client\<close>

lemma accepted_transfer:
  assumes "initiate_transfer cfg flt newID req s = (Inr resp, s')"
  shows "is_TransferId resp = newID" "0 < ir_TotalSizeBytes req" "groups_of s' = groups_of s"
    "is_TotalChunks resp = total_chunks_of (ir_TotalSizeBytes req) (chunk_size_of (ir_ChunkSizeBytes req))"
    "\<exists>t. get_transfer_sql newID (transfers_of s') = Some t \<and> tr_TotalChunks t = is_TotalChunks resp
       \<and> tr_GroupTransferID t = None \<and> tr_TransferID t = newID"
proof -
  have create: "create_transfer_sql now p rows = Some (t, rows') \<Longrightarrow> tr_TransferID t = tr_TransferID p
      \<and> tr_TotalChunks t = tr_TotalChunks p \<and> tr_GroupTransferID t = tr_GroupTransferID p
      \<and> get_transfer_sql (tr_TransferID p) rows' = Some t" for now p t rows rows'
    using get_create [of now p rows t rows' "tr_TransferID p"]
    by (auto simp: create_transfer_sql_def Let_def split: if_splits)
  show "is_TransferId resp = newID" "0 < ir_TotalSizeBytes req" "groups_of s' = groups_of s"
    "is_TotalChunks resp = total_chunks_of (ir_TotalSizeBytes req) (chunk_size_of (ir_ChunkSizeBytes req))"
    "\<exists>t. get_transfer_sql newID (transfers_of s') = Some t \<and> tr_TotalChunks t = is_TotalChunks resp
       \<and> tr_GroupTransferID t = None \<and> tr_TransferID t = newID"
    using assms
    by (auto simp: initiate_transfer_def Let_def db_row_def dest!: create split: if_splits option.splits)
qed

text \<open>A transfer that accepted a chunk neither waits nor pauses.\<close>

lemma accepting_transfer:
  assumes "send_chunk cfg env flt True [chunk_message env tid k d] s = (Inr e, s')" "\<forall>q. \<not> flt q"
    and "get_transfer_sql tid (transfers_of s) = Some t" "get_group_sql tid (groups_of s) = None"
    and "tr_TotalChunks t = n" "tr_GroupTransferID t = None" "tr_TransferID t = tid"
  shows "open_transfer tid n tid s"
proof -
  have "tr_Status t \<noteq> st_AWAITING_APPROVAL \<and> tr_Status t \<noteq> st_PAUSED"
    using assms(1-4)
    by (auto simp: send_chunk_def take_message_def open_upload_def open_single_def send_start_def chunk_message_def Let_def
        split: if_splits)
  then show ?thesis using assms(3-7) by (simp add: open_transfer_def storage_id_def)
qed

definition pieces :: "bytes \<Rightarrow> nat \<Rightarrow> bytes list" where
  "pieces d n = map (\<lambda>i. take cli_chunk_size (drop (i * cli_chunk_size) d)) [0..<n]"

lemma concat_pieces: "concat (take m (pieces d n)) = take (min m n * cli_chunk_size) d"
proof -
  have "concat (map (\<lambda>i. take c (drop (i * c) d)) [0..<k]) = take (k * c) d" for k c :: nat
    by (induction k) (simp_all add: add.commute [of c] take_add)
  moreover have "take m [0..<n] = [0..<min m n]" by (cases "m \<le> n") simp_all
  ultimately show ?thesis by (simp add: pieces_def take_map)
qed

definition cli_up :: "cli_state \<Rightarrow> cli_call \<Rightarrow> bytes \<Rightarrow> nat \<Rightarrow> http_request \<times> chunk_form option" where
  "cli_up s c d i =
     (let p = take cli_chunk_size (drop (i * cli_chunk_size) d)
      in (with_token s (cc_request c (Suc i)), Some (dec i, cc_sha c p, FileData p)))"

lemma upload_failed: "handle_upload_chunk gw rq tid form pf = (Failed code m, pf') \<Longrightarrow> 400 \<le> code"
  by (auto simp: handle_upload_chunk_def served_def write_grpc_error_def Let_def
      split: if_splits prod.splits sum.splits option.splits form_file.splits)

lemma upload_loop_parts:
  assumes "upload_loop gw s c tid d is pf = (None, pf')" "refusing_links c"
  shows "upload_parts gw tid (map (cli_up s c d) is) pf = (True, pf')"
  using assms(1)
proof (induction "is" arbitrary: pf)
  case (Cons i "is")
  let ?start = "i * cli_chunk_size"
  let ?stop = "if ?start + cli_chunk_size > length d then length d else ?start + cli_chunk_size"
  let ?p = "take cli_chunk_size (drop ?start d)"
  have p: "take (?stop - ?start) (drop ?start d) = ?p" by simp
  obtain pf1 where one: "upload_chunk_http gw s c tid i ?p (cc_sha c ?p) pf = (None, pf1)"
    and rest: "upload_loop gw s c tid d is pf1 = (None, pf')"
    using Cons.prems unfolding upload_loop.simps Let_def p by (auto split: if_splits prod.splits option.splits)
  then obtain v where ex: "exchange (cc_link c (Suc i)) (handle_upload_chunk gw (fst (cli_up s c d i)) tid (snd (cli_up s c d i))) pf
      = (Inr v, pf1)"
    by (auto simp: upload_chunk_http_def cli_up_def Let_def split: prod.splits sum.splits)
  have "\<exists>code a. handle_upload_chunk gw (fst (cli_up s c d i)) tid (snd (cli_up s c d i)) pf = (Reply code a, pf1)"
    by (rule exchange_Inr [OF ex]) (use assms(2) in \<open>auto simp: refusing_links_def dest: upload_failed\<close>)
  then show ?case using Cons.IH [OF rest] by (cases "cli_up s c d i") auto
qed simp

text \<open>What is written of a download: the data of the lines that arrived.\<close>

lemma written_lines:
  assumes "\<forall>m\<in>set (butlast ms). \<not> dc_IsLast m" "ls = [] \<or> (\<exists>e. ls = [ErrorLine e])"
  shows "fst (write_lines (map Line ms @ ls)) = concat (map dc_Data ms)"
  using assms(1)
proof (induction ms)
  case Nil
  then show ?case using assms(2) by auto
next
  case (Cons m ms)
  show ?case
  proof (cases "ms = []")
    case True
    then show ?thesis using assms(2) by (auto split: prod.split)
  next
    case False
    then show ?thesis using Cons by (auto split: prod.split)
  qed
qed

lemma last_message:
  "\<forall>m\<in>set (butlast (take k (messages env tid parts))). \<not> dc_IsLast m"
  by (auto simp: butlast_conv_take messages_def take_map)

lemma upload_loop_fails:
  "upload_loop gw s c tid d is pf = (Some x, pf') \<Longrightarrow> x = Panicked \<or> (\<exists>i e. x = PartFailed i e)"
  by (induction gw s c tid d "is" pf rule: upload_loop.induct) (auto simp: Let_def split: if_splits prod.splits option.splits)

lemma sent_parts:
  assumes send: "cmd_send gw c s [receiver, path] w = (FileSent tid z, w')" "cw_files w path = Some d" "refusing_links c"
    and fits: "length d \<le> 999999 * cli_chunk_size"
    and ids: "tid \<noteq> ''''" "plain_id tid" "get_group_sql tid (groups_of (transfer_of (cw_platform w))) = None"
    and gateway: "cc_sha c = env_sha (gw_relay gw)" "\<forall>k q. \<not> ci_transfer (hr_rpc (cc_request c (Suc k)) 0) q"
  obtains n pf1 where "0 < n" "length d \<le> n * cli_chunk_size" "n < 1000000"
    "open_transfer tid (int n) tid (transfer_of pf1)"
    "upload_parts gw tid (map (cli_up s c d) [0..<n]) pf1 = (True, cw_platform w')"
    "list_all2 (\<lambda>(k, d). part_form (gw_relay gw) k d) (enumerate 0 (pieces d n)) (map (cli_up s c d) [0..<n])"
proof -
  let ?rq = "json_request s (cc_request c 0)" and ?req = "send_request s c receiver path d"
  obtain resp pf1 where ex: "exchange (cc_link c 0) (handle_initiate_transfer gw ?rq (Inr ?req)) (cw_platform w) = (Inr resp, pf1)"
    and tid: "tid = (case resp of None \<Rightarrow> '''' | Some r \<Rightarrow> is_TransferId r)"
    and loop: "upload_loop gw s c tid d [0..<shown_count (map_option is_TotalChunks resp)] pf1 = (None, cw_platform w')"
    using send(1,2)
    by (auto simp: cmd_send_def do_json_def Let_def dest: upload_loop_fails
        split: if_splits prod.splits sum.splits option.splits)
  obtain r where r: "resp = Some r" "is_TransferId r = tid" using tid ids(1) by (cases resp) auto
  have "\<forall>code. cc_link c 0 = TurnedAway code \<longrightarrow> 400 \<le> code" using send(3) by (simp add: refusing_links_def)
  then obtain code where h: "handle_initiate_transfer gw ?rq (Inr ?req) (cw_platform w) = (Reply code r, pf1)"
    by (rule exchange_Inr [OF ex]) (use r(1) ex in \<open>auto simp: exchange_def split: link.splits if_splits\<close>)
  obtain b pf0 where call: "same_services (cw_platform w) pf0"
    "initiate_transfer (gw_transfers gw) (ci_transfer (hr_rpc ?rq 2)) (ci_newID (hr_rpc ?rq 2)) (?req\<lparr>ir_AutoApprove := b\<rparr>)
       (transfer_of pf0) = (Inr r, transfer_of pf1)"
    by (rule initiate_call [OF h])
  note new = accepted_transfer [OF call(2)]
  have pos: "0 < int (length d)" using new(2) by (simp add: send_request_def)
  have count: "is_TotalChunks r = total_chunks_of (int (length d)) (int cli_chunk_size)"
    using new(4) by (simp add: send_request_def chunk_size_of_def cli_chunk_size_def)
  have "int (length d) \<le> 999999 * int cli_chunk_size" using fits by linarith
  then have exact: "(is_TotalChunks r - 1) * int cli_chunk_size < int (length d)"
    "int (length d) \<le> is_TotalChunks r * int cli_chunk_size" "0 < is_TotalChunks r"
    using total_chunks_exact [OF pos, of "int cli_chunk_size"] unfolding count by (simp_all add: cli_chunk_size_def in_int32_def)
  then have small: "is_TotalChunks r < 1000000" using fits by (simp add: cli_chunk_size_def)
  define n where "n = nat (is_TotalChunks r)"
  have n: "int n = is_TotalChunks r" "0 < n" "n < 1000000" using exact(3) small by (simp_all add: n_def)
  have "int (length d) \<le> int (n * cli_chunk_size)" using exact(2) by (simp add: n(1))
  then have len: "length d \<le> n * cli_chunk_size" by linarith
  have "shown_count (map_option is_TotalChunks resp) = n" using small exact(3) by (simp add: r(1) shown_count_def n_def)
  then have up: "upload_parts gw tid (map (cli_up s c d) [0..<n]) pf1 = (True, cw_platform w')"
    using upload_loop_parts [OF _ send(3)] loop by simp
  have part: "part_form (gw_relay gw) i (pieces d n ! i) (cli_up s c d i)" if "i < n" for i
    using that n(3) gateway sscanf_dec [of i]
    by (simp add: part_form_def cli_up_def pieces_def with_token_def max_chunk_bytes_def cli_chunk_size_def Let_def)
  have forms: "list_all2 (\<lambda>(k, d). part_form (gw_relay gw) k d) (enumerate 0 (pieces d n)) (map (cli_up s c d) [0..<n])"
    using part by (auto simp: list_all2_conv_all_nth nth_enumerate_eq pieces_def)
  obtain rq form where first: "cli_up s c d 0 = (rq, form)" by (cases "cli_up s c d 0")
  have "[0..<n] = 0 # [Suc 0..<n]" using n(2) by (simp add: upt_conv_Cons)
  then obtain code a pf2 where "handle_upload_chunk gw rq tid form pf1 = (Reply code a, pf2)"
    using up by (auto simp: first split: prod.splits http.splits)
  then obtain e where "send_chunk (gw_transfers gw) (gw_relay gw) (ci_transfer (hr_rpc rq 0)) True
      [chunk_message (gw_relay gw) tid (int 0) (pieces d n ! 0)] (transfer_of pf1) = (Inr e, transfer_of pf2)"
    using upload_part [of gw rq tid form pf1 code a pf2 0 "pieces d n ! 0"] part [OF n(2)] first by auto
  moreover have "\<forall>q. \<not> ci_transfer (hr_rpc rq 0) q"
    using gateway(2) first by (auto simp: cli_up_def with_token_def Let_def)
  ultimately have opened: "open_transfer tid (int n) tid (transfer_of pf1)"
    using new(1,3,5) call(1) ids(3) r(2) by (auto intro!: accepting_transfer simp: n(1) same_services_def)
  show thesis by (rule that [OF n(2) len n(3) opened up forms])
qed

lemma written_prefix:
  assumes "ls = [] \<or> (\<exists>e. ls = [ErrorLine e])"
  shows "fst (write_lines (map Line (take k (messages env tid (pieces d n))) @ ls)) = take (min k n * cli_chunk_size) d"
proof -
  have "map dc_Data (take k (messages env tid (pieces d n))) = take k (pieces d n)"
    by (metis messages_data take_map)
  then show ?thesis using written_lines [OF last_message assms, of k env tid "pieces d n"] by (simp add: concat_pieces)
qed

lemma take_lines:
  assumes "ls = [] \<or> (\<exists>e. ls = [ErrorLine e])"
  shows "\<exists>ls'. take a (map Line (take k ms) @ ls) = map Line (take (min a k) ms) @ ls' \<and> (ls' = [] \<or> (\<exists>e. ls' = [ErrorLine e]))"
  using assms by (cases "a - length (take k ms)") (auto simp: take_map)

lemma download_failed:
  "handle_download_chunks gw rq tid gone pf = (Failed code m, pf') \<Longrightarrow> 400 \<le> code"
  by (auto simp: handle_download_chunks_def served_def ndjson_reply_def write_grpc_error_def Let_def
      split: if_splits prod.splits sum.splits)

definition broke_off :: "'r gateway \<Rightarrow> cli_state \<Rightarrow> cli_call \<Rightarrow> string \<Rightarrow> 'r cli_world \<Rightarrow> bool" where
  "broke_off gw s c tid w \<longleftrightarrow> cc_link c 0 \<noteq> Reached
     \<or> (\<exists>code ls pf e. handle_download_chunks gw (download_request s (cc_request c 0)) tid (\<lambda>_. False) (cw_platform w)
          = (Reply code ls, pf) \<and> ErrorLine e \<in> set ls)"

text \<open>What a successful \<open>receive\<close> has saved.\<close>

lemma saved_lines:
  assumes "cmd_receive gw c s [tid, out] w = (FileSaved k, w')"
  obtains (nothing) "cw_files w' out = Some []" "\<exists>code. cc_link c 0 = TurnedAway code"
  | (lines) code ls pf where
      "handle_download_chunks gw (download_request s (cc_request c 0)) tid (\<lambda>_. False) (cw_platform w) = (Reply code ls, pf)"
      "cw_files w' out = Some (fst (write_lines (if cc_link c 0 = BodyCut then take (cc_lines c) ls else ls)))"
proof -
  let ?h = "handle_download_chunks gw (download_request s (cc_request c 0)) tid (\<lambda>_. False)"
  let ?link = "if cc_link c 0 = BodyCut then Reached else cc_link c 0"
  obtain r pf where r: "exchange ?link ?h (cw_platform w) = (r, pf)" by (cases "exchange ?link ?h (cw_platform w)")
  obtain body where ex: "exchange ?link ?h (cw_platform w) = (Inr body, pf)"
    and out: "cw_files w' out = Some (fst (write_lines (case body of None \<Rightarrow> []
        | Some ls \<Rightarrow> if cc_link c 0 = BodyCut then take (cc_lines c) ls else ls)))"
    using assms by (cases r) (auto simp: cmd_receive_def r Let_def case_prod_beta split: if_split_asm)
  show thesis
  proof (cases body)
    case None
    have "\<exists>code. ?link = TurnedAway code"
      using ex None download_failed [of gw _ tid "\<lambda>_. False" "cw_platform w"]
      by (auto simp: exchange_def split: link.splits if_splits prod.splits http.splits)
    then obtain code where "cc_link c 0 = TurnedAway code" by (auto split: if_splits)
    then show ?thesis by (intro that(1) exI) (simp_all add: out None)
  next
    case (Some ls)
    then obtain code where "?h (cw_platform w) = (Reply code ls, pf)"
      using ex by (auto simp: exchange_def split: link.splits if_splits prod.splits http.splits)
    then show ?thesis using lines out Some by simp
  qed
qed

lemma received_file:
  assumes "cmd_receive gw c s [tid, out] w = (FileSaved k, w')" "length d \<le> n * cli_chunk_size"
    and "\<And>code ls pf. handle_download_chunks gw (download_request s (cc_request c 0)) tid (\<lambda>_. False) (cw_platform w) = (Reply code ls, pf)
      \<Longrightarrow> ls = map Line (messages env tid (pieces d n)) \<or> (\<exists>m e. ls = map Line (take m (messages env tid (pieces d n))) @ [ErrorLine e])"
  shows "cw_files w' out = Some d \<or> (\<exists>j. cw_files w' out = Some (take (j * cli_chunk_size) d) \<and> broke_off gw s c tid w)"
proof (cases rule: saved_lines [OF assms(1), case_names nothing lines])
  case nothing
  then have "broke_off gw s c tid w" "cw_files w' out = Some (take (0 * cli_chunk_size) d)" by (auto simp: broke_off_def)
  then show ?thesis by blast
next
  case (lines code ls pf)
  let ?ms = "messages env tid (pieces d n)"
  have "length ?ms = n" by (simp add: pieces_def messages_def)
  then obtain m rest where ls: "ls = map Line (take m ?ms) @ rest" "rest = [] \<and> m = n \<or> (\<exists>e. rest = [ErrorLine e])"
    using assms(3) [OF lines(1)] by (metis append_Nil2 order_refl take_all)
  show ?thesis
  proof (cases "cc_link c 0 = BodyCut")
    case True
    obtain rest' where "take (cc_lines c) ls = map Line (take (min (cc_lines c) m) ?ms) @ rest'" "rest' = [] \<or> (\<exists>e. rest' = [ErrorLine e])"
      using take_lines [of rest "cc_lines c" m ?ms] ls by blast
    then have "cw_files w' out = Some (take (min (min (cc_lines c) m) n * cli_chunk_size) d)"
      using lines(2) True written_prefix by simp
    moreover have "broke_off gw s c tid w" using True by (simp add: broke_off_def)
    ultimately show ?thesis by blast
  next
    case False
    then have saved: "cw_files w' out = Some (take (min m n * cli_chunk_size) d)"
      using lines(2) ls written_prefix [of rest] by auto
    show ?thesis
    proof (cases "rest = []")
      case True
      then show ?thesis using saved ls(2) assms(2) by simp
    next
      case False
      then have "broke_off gw s c tid w" using ls lines(1) unfolding broke_off_def by fastforce
      then show ?thesis using saved by blast
    qed
  qed
qed

text \<open>C14: A file of at most 999999 chunks that one client reports as sent and another as saved, where
  the sending client has a state file that names its node, which the client's own \<open>setup\<close> never
  writes: the saved file is the sent one, or it is the beginning of it, a number of whole chunks,
  where the download broke off, which the receiving client does not report. (Of a larger file
  nothing is uploaded, and the client still reports it as sent.) The chunk store of the transfer
  service works, and the queries of these requests do not fail.\<close>

theorem cli_send_receive:
  assumes send: "cmd_send gw c s [receiver, path] w = (FileSent tid z, w')" "cw_files w path = Some d" "refusing_links c"
    and fits: "length d \<le> 999999 * cli_chunk_size"
    and ids: "tid \<noteq> ''''" "plain_id tid" "get_group_sql tid (groups_of (transfer_of (cw_platform w))) = None"
    and gateway: "cc_sha c = env_sha (gw_relay gw)" "\<forall>k q. \<not> ci_transfer (hr_rpc (cc_request c (Suc k)) 0) q"
      "store_works (gw_transfers gw) (gw_relay gw)" "\<forall>p. env_sha (gw_relay gw) p \<noteq> ''''"
    and receive: "cw_platform w2 = cw_platform w'" "cmd_receive gw c2 s2 [tid, out] w2 = (FileSaved k, w3)"
      "\<forall>q. \<not> ci_transfer (hr_rpc (cc_request c2 0) 0) q"
  shows "cw_files w3 out = Some d \<or> (\<exists>j. cw_files w3 out = Some (take (j * cli_chunk_size) d) \<and> broke_off gw s2 c2 tid w2)"
proof -
  obtain n pf1 where n: "0 < n" "length d \<le> n * cli_chunk_size" "n < 1000000"
    and opened: "open_transfer tid (int n) tid (transfer_of pf1)"
    and up: "upload_parts gw tid (map (cli_up s c d) [0..<n]) pf1 = (True, cw_platform w')"
    and forms: "list_all2 (\<lambda>(k, d). part_form (gw_relay gw) k d) (enumerate 0 (pieces d n)) (map (cli_up s c d) [0..<n])"
    by (rule sent_parts [OF send fits ids gateway(1,2)])
  let ?rq = "download_request s2 (cc_request c2 0)"
  have parts: "int (length (pieces d n)) = int n" "pieces d n \<noteq> []" "int (length (pieces d n)) < 2 ^ 31"
    "\<forall>p\<in>set (pieces d n). env_sha (gw_relay gw) p \<noteq> ''''"
    using n gateway(4) by (simp_all add: pieces_def)
  have rq: "hr_Query ?rq ''start_chunk'' = ''''" "\<forall>q. \<not> ci_transfer (hr_rpc ?rq 0) q"
    using receive(3) by (simp_all add: download_request_def with_token_def)
  show ?thesis
  proof (rule received_file [OF receive(2) n(2), where env = "gw_relay gw"])
    fix code ls pf
    assume "handle_download_chunks gw ?rq tid (\<lambda>_. False) (cw_platform w2) = (Reply code ls, pf)"
    then show "ls = map Line (messages (gw_relay gw) tid (pieces d n))
        \<or> (\<exists>m e. ls = map Line (take m (messages (gw_relay gw) tid (pieces d n))) @ [ErrorLine e])"
      unfolding receive(1)
      by (rule downloaded_lines [OF opened [folded parts(1)] ids(2,2) parts(2,3,4) gateway(3) forms up rq])
  qed
qed

end
