(* ===== verification/CliExample.thy ===== *)
theory CliExample
  imports CliLaws
begin

text \<open>
  Sessions of the command line client against the small platform of \<open>GatewayExample\<close>.
\<close>

definition demo_cli :: cli_call where
  "demo_cli = \<lparr>cc_link = (\<lambda>_. Reached), cc_request = (\<lambda>_. demo_http ''''), cc_random = (\<lambda>_. replicate 32 0),
     cc_ed25519 = ([], []), cc_sha = env_sha demo_env, cc_unknownEnum = None, cc_create = True, cc_lines = 0\<rparr>"

definition desk_world :: "map_redis cli_world" where
  "desk_world = \<lparr>cw_state = None, cw_files = [''f'' \<mapsto> [1, 2]], cw_platform = demo_platform\<rparr>"

theorem cli_never_sends_witness:
  "fst (cli_main demo_lib demo_gateway demo_cli [''send'', ''n1'', ''f'']
     (foldl (cli_step demo_lib demo_gateway) desk_world
        [(demo_cli, [''login'', ''ann@x.io'', ''pw'']), (demo_cli, [''setup'', ''laptop''])])) = LoginFirst"
proof -
  let ?cmds = "[(demo_cli, [''login'', ''ann@x.io'', ''pw'']), (demo_cli, [''setup'', ''laptop''])]"
  have "cs_NodeID (load_state (cw_state desk_world)) = ''''" by (simp add: desk_world_def load_state_def fresh_state_def)
  moreover have "\<forall>e\<in>set ?cmds. refusing_links (fst e)" by (simp add: demo_cli_def refusing_links_def)
  ultimately show ?thesis using cli_never_sends [OF _ _ refl, of desk_world ?cmds] by blast
qed

section \<open>A client that has a node id\<close>

text \<open>Its state was written by hand: the token of ann and the node of her laptop.\<close>

definition ann_cli :: cli_state where
  "ann_cli = fresh_state\<lparr>cs_AccessToken := ''A'', cs_NodeID := ''n1''\<rparr>"

lemma ann_requests:
  "json_request ann_cli (demo_http a) = demo_http ''Bearer A''" "with_token ann_cli (demo_http a) = demo_http ''Bearer A''"
  "hr_rpc (download_request ann_cli (demo_http a)) = (\<lambda>_. demo_moment)"
  "forward_auth (download_request ann_cli (demo_http a)) = forward_auth (demo_http ''Bearer A'')"
  "hr_Query (download_request ann_cli (demo_http a)) ''start_chunk'' = ''''"
  by (simp_all add: json_request_def with_token_def download_request_def ann_cli_def fresh_state_def demo_http_def forward_auth_def)

lemma five_calls: "ready (Suc (Suc (Suc (Suc (Suc 0))))) demo_platform"
  by (simp add: ready_def allows.simps(2) demo_platform_def new_server_def rl_allow_def new_rate_limiter_def peer_addr_def
      Let_def seconds_def)

lemma ready_stream:
  assumes "ready (Suc n) pf" "\<And>ctx. h ctx (transfer_of pf) = ((msgs, None), s')"
    and "''/transfer.v1.TransferService/'' @ m \<notin> public_methods"
  obtains pf' where
    "transfer_stream demo_gateway demo_moment m (forward_auth (demo_http ''Bearer A'')) h pf = (Inr (msgs, None), pf')"
    "transfer_of pf' = s'" "ready n pf'"
proof -
  obtain m0 rl t s where sv: "pf_transfer pf = (m0, rl, t, s)" by (cases "pf_transfer pf")
  obtain rl' where rl: "rl_allow 0 (peer_addr (Some ''10.0.0.1:5'')) rl = (True, rl')" "allows n rl'"
    using assms(1) by (auto simp: ready_def sv allows.simps(2) split: prod.splits)
  have "h ctx s = ((msgs, None), s')" for ctx using assms(2) [of ctx] by (simp add: sv)
  from demo_stream [OF rl(1), where h = h, OF this sv assms(3)] obtain m' t' where call:
    "transfer_stream demo_gateway demo_moment m (forward_auth (demo_http ''Bearer A'')) h pf
       = (Inr (msgs, None), pf\<lparr>pf_transfer := (m', rl', t', s')\<rparr>)" by blast
  show thesis
    by (rule that [OF call])
      (use assms(1) allows_less [of n "fst (snd (pf_identity pf))"] rl(2) in \<open>simp_all add: ready_def\<close>)
qed

lemma ready_upload:
  assumes "ready (Suc m) pf" "open_transfer tid n tid (transfer_of pf)" "plain_id tid" "sscanf_d 64 idx = Some (int k)"
    and "int k + 1 < 2 ^ 31" "length d \<le> max_chunk_bytes"
  obtains resp pf' where "ready m pf'"
    "handle_upload_chunk demo_gateway (demo_http ''Bearer A'') tid (Some (idx, env_sha demo_env d, FileData d)) pf = (Reply 200 resp, pf')"
proof -
  let ?c = "chunk_message demo_env tid (int k) d"
  have sha: "env_sha demo_env d \<noteq> ''''" by (simp add: demo_env_def)
  have w: "wrap32 (int k) = int k" using assms(5) by (intro wrap32_id) (simp add: in_int32_def)
  obtain resp s' where "send_chunk local_config demo_env (\<lambda>_. False) True [?c] (transfer_of pf) = (Inr resp, s')"
    by (rule send_single [OF assms(2,3,3) local_store [unfolded demo_facts], of "\<lambda>_. False" "int k" d])
      (use assms(5) sha in \<open>simp_all add: in_int32_def\<close>)
  then have "send_one_chunk demo_gateway demo_moment ?c (transfer_of pf) = (([resp], None), s')"
    by (simp add: send_one_chunk_def demo_facts)
  from ready_stream [OF assms(1), where h = "\<lambda>ctx. send_one_chunk demo_gateway demo_moment ?c", OF this, of "''SendChunk''"]
  obtain pf' where call: "transfer_stream demo_gateway demo_moment ''SendChunk'' (forward_auth (demo_http ''Bearer A''))
      (\<lambda>ctx. send_one_chunk demo_gateway demo_moment ?c) pf = (Inr ([resp], None), pf')" "ready m pf'"
    by (auto simp: public_methods_def)
  show thesis
    by (rule that [OF call(2)])
      (use call(1) assms(4,6) w in \<open>simp add: handle_upload_chunk_def served_def chunk_message_def demo_facts\<close>)
qed

text \<open>Ann sends a file of two bytes from her laptop to her laptop.\<close>

lemma own_laptop:
  assumes "ready (Suc n) pf" "ident_of pf = small_state ''accepted''"
  obtains pf' where "user_owns_node demo_gateway demo_moment (forward_auth (demo_http ''Bearer A'')) ''n1'' pf = (True, pf')"
    "ident_of pf' = small_state ''accepted''" "transfer_of pf' = transfer_of pf" "ready n pf'"
proof -
  obtain pf1 where one: "list_own_devices demo_gateway demo_moment (forward_auth (demo_http ''Bearer A'')) pf
      = (Inr [device_to_proto laptop, device_to_proto phone], pf1)"
    "ident_of pf1 = small_state ''accepted''" "pf_transfer pf1 = pf_transfer pf" "ready n pf1"
    by (rule demo_devices [OF assms])
  have "dm_NodeId (device_to_proto laptop) = ''n1''"
    by (simp add: device_to_proto_def laptop_def text_or_empty_def)
  then show thesis
    by (intro that [OF _ one(2) _ one(4)]) (simp_all add: user_owns_node_def one(1,3) demo_facts)
qed

lemma ann_initiates:
  obtains resp pf' where
    "handle_initiate_transfer demo_gateway (demo_http ''Bearer A'') (Inr (send_request ann_cli demo_cli ''n1'' ''f'' [1, 2])) demo_platform
       = (Reply 201 resp, pf')"
    "is_TransferId resp = ''n''" "is_TotalChunks resp = 1" "open_transfer ''n'' 1 ''n'' (transfer_of pf')" "ready (Suc (Suc 0)) pf'"
proof -
  let ?rq = "demo_http ''Bearer A''" and ?req = "send_request ann_cli demo_cli ''n1'' ''f'' [1, 2]"
  let ?h = "\<lambda>(ctx :: auth_ctx). initiate_transfer local_config (\<lambda>_. False) ''n'' (?req\<lparr>ir_AutoApprove := True\<rparr>)"
  have req: "ir_SenderNodeId ?req = ''n1''" "ir_ReceiverNodeId ?req = ''n1''" by (simp_all add: send_request_def ann_cli_def)
  have accounts: "ident_of demo_platform = small_state ''accepted''" by (simp add: demo_platform_def new_server_def)
  obtain pf1 where one: "user_owns_node demo_gateway demo_moment (forward_auth ?rq) ''n1'' demo_platform = (True, pf1)"
    "ident_of pf1 = small_state ''accepted''" "transfer_of pf1 = transfer_of demo_platform" "ready (Suc (Suc (Suc (Suc 0)))) pf1"
    by (rule own_laptop [OF five_calls accounts])
  obtain pf2 where two: "user_owns_node demo_gateway demo_moment (forward_auth ?rq) ''n1'' pf1 = (True, pf2)"
    "transfer_of pf2 = transfer_of pf1" "ready (Suc (Suc (Suc 0))) pf2"
    by (rule own_laptop [OF one(4,2)])
  have db: "transfer_of pf2 = demo_service" using one(3) two(2) demo_transfers by simp
  obtain resp s' where h: "?h ann_ctx (transfer_of pf2) = (Inr resp, s')"
    and new: "is_TransferId resp = ''n''" "is_TotalChunks resp = 1" "open_transfer ''n'' 1 ''n'' s'"
    unfolding db
    by (simp add: initiate_transfer_def local_config_def send_request_def ann_cli_def demo_cli_def demo_service_def
        demo_row_def create_transfer_sql_def open_transfer_def get_transfer_sql_def row_at_def get_group_sql_def storage_id_def
        total_chunks_of_def chunk_size_of_def cli_chunk_size_def wrap32_def wrap64_def signed_divide_int_def Let_def)
  obtain pf3 where three: "transfer_rpc demo_gateway demo_moment ''InitiateTransfer'' (forward_auth ?rq) ?h pf2 = (Inr resp, pf3)"
    "transfer_of pf3 = s'" "ready (Suc (Suc 0)) pf3"
    by (rule demo_transfer_call [where m = "''InitiateTransfer''" and h = ?h, OF _ h two(3)]) (auto simp: public_methods_def)
  show thesis
    by (rule that [of resp pf3])
      (use one(1) two(1) three new in \<open>simp_all add: handle_initiate_transfer_def served_def decoded_def reply_def
        sender_owned_def auto_approved_def demo_facts req Let_def\<close>)
qed

theorem cli_send_receive_witness:
  "\<exists>w' w3. cmd_send demo_gateway demo_cli ann_cli [''n1'', ''f''] desk_world = (FileSent ''n'' 2, w')
     \<and> cmd_receive demo_gateway demo_cli ann_cli [''n'', ''g''] w' = (FileSaved 1, w3)
     \<and> (cw_files w3 ''g'' = Some [1, 2]
        \<or> (\<exists>j. cw_files w3 ''g'' = Some (take (j * cli_chunk_size) [1, 2]) \<and> broke_off demo_gateway ann_cli demo_cli ''n'' w'))"
proof -
  let ?w = "desk_world" and ?rq = "demo_http ''Bearer A''"
  let ?h = "\<lambda>(ctx :: auth_ctx) s. (receive_chunks local_config demo_env (\<lambda>_. False) (\<lambda>_. False) ''n'' 0 s, s)"
  have ann: "cs_AccessToken ann_cli \<noteq> ''''" "cs_NodeID ann_cli \<noteq> ''''" by (simp_all add: ann_cli_def)
  have cli: "cc_link demo_cli k = Reached" "cc_request demo_cli k = demo_http ''''" "cc_sha demo_cli = env_sha demo_env"
    "cc_create demo_cli" for k
    by (simp_all add: demo_cli_def)
  have ids: "''n'' \<noteq> ''''" "plain_id ''n''" "get_group_sql ''n'' (groups_of (transfer_of (cw_platform ?w))) = None"
    by (simp_all add: plain_id_def desk_world_def demo_transfers demo_service_def get_group_sql_def row_at_def)
  obtain resp pf1 where init: "handle_initiate_transfer demo_gateway ?rq (Inr (send_request ann_cli demo_cli ''n1'' ''f'' [1, 2]))
      demo_platform = (Reply 201 resp, pf1)" "is_TransferId resp = ''n''" "is_TotalChunks resp = 1"
    "open_transfer ''n'' 1 ''n'' (transfer_of pf1)" "ready (Suc (Suc 0)) pf1"
    by (rule ann_initiates)
  have idx: "dec 0 = ''0''" "sscanf_d 64 ''0'' = Some (int 0)" by code_simp+
  have short: "length [1, 2 :: 8 word] \<le> max_chunk_bytes" by (simp add: max_chunk_bytes_def)
  obtain a pf2 where up: "ready (Suc 0) pf2"
    "handle_upload_chunk demo_gateway ?rq ''n'' (Some (''0'', env_sha demo_env [1, 2], FileData [1, 2])) pf1 = (Reply 200 a, pf2)"
    by (rule ready_upload [OF init(5,4) ids(2) idx(2) _ short]) simp
  let ?w' = "?w\<lparr>cw_platform := pf2\<rparr>"
  have send: "cmd_send demo_gateway demo_cli ann_cli [''n1'', ''f''] ?w = (FileSent ''n'' 2, ?w')"
    using init(1-3) up(2)
    by (simp add: cmd_send_def do_json_def exchange_def ann_requests cli desk_world_def ann_cli_def shown_count_def
        upload_chunk_http_def cli_chunk_size_def idx Let_def ann_requests [unfolded ann_cli_def])
  have "upload_parts demo_gateway ''n'' [(?rq, Some (''0'', env_sha demo_env [1, 2], FileData [1, 2]))] pf1 = (True, pf2)"
    using up(2) by simp
  from uploaded_parts(2) [OF _ ids(2,2) _ _ _ local_store _ this, of "[[1, 2]]" "\<lambda>_. False"]
  have "receive_chunks local_config demo_env (\<lambda>_. False) (\<lambda>_. False) ''n'' 0 (transfer_of pf2) = (messages demo_env ''n'' [[1, 2]], None)"
    using init(4) idx(2) by (simp add: demo_facts demo_env_def part_form_def max_chunk_bytes_def)
  then have h: "?h ctx (transfer_of pf2) = ((messages demo_env ''n'' [[1, 2]], None), transfer_of pf2)" for ctx by simp
  obtain pf3 where down: "transfer_stream demo_gateway demo_moment ''ReceiveChunks'' (forward_auth ?rq) ?h pf2
      = (Inr (messages demo_env ''n'' [[1, 2]], None), pf3)" "transfer_of pf3 = transfer_of pf2" "ready 0 pf3"
    by (rule ready_stream [OF up(1), where h = ?h and m = "''ReceiveChunks''", OF h]) (simp_all add: public_methods_def)
  have "handle_download_chunks demo_gateway (download_request ann_cli (demo_http '''')) ''n'' (\<lambda>_. False) pf2
      = (Reply 200 (map Line (messages demo_env ''n'' [[1, 2]])), pf3)"
    using down(1) by (simp add: handle_download_chunks_def served_def demo_facts ndjson_reply_def ndjson_lines ann_requests)
  then obtain w3 where receive: "cmd_receive demo_gateway demo_cli ann_cli [''n'', ''g''] ?w' = (FileSaved 1, w3)"
    by (simp add: cmd_receive_def exchange_def cli messages_def ann)
  have "cw_files w3 ''g'' = Some [1, 2] \<or> (\<exists>j. cw_files w3 ''g'' = Some (take (j * cli_chunk_size) [1, 2])
      \<and> broke_off demo_gateway ann_cli demo_cli ''n'' ?w')"
    by (rule cli_send_receive [OF send _ _ _ ids _ _ _ _ _ receive])
      (use local_store in \<open>simp_all add: desk_world_def refusing_links_def cli cli_chunk_size_def demo_facts demo_env_def\<close>)
  then show ?thesis using send receive by blast
qed

end
