(* ===== verification/Spec2Isabelle.thy ===== *)
theory Spec2Isabelle
  imports Deployment Friendships AccountLaws GatewayFront P2p Migrator StartupExample MailLaws CliExample
begin

text \<open>
  Vinctum, a platform for relayed and peer-to-peer file transfers: its Go services as functions,
  and the theorems that make them correct.

  \<^bold>\<open>The program.\<close> A client (\<open>cmd/cli\<close> or an application) speaks HTTP to the gateway
  (\<open>cmd/gateway\<close>, \<open>services/gateway\<close>), which turns each request into gRPC calls on three services:
  identity (\<open>services/identity\<close>: accounts, devices, keys, friends), routing (\<open>services/routing\<close>: a
  table of next hops, judged by \<open>internal/intelligence\<close>) and transfer (\<open>services/transfer\<close>: the
  transfers, their chunks, their progress). Transfer nodes forward chunks to each other along a
  route (\<open>services/relay\<close>, \<open>internal/relay\<close>) or over a direct stream (\<open>internal/p2p\<close>); they find each
  other through discovery (\<open>services/discovery\<close>). In front of every gRPC handler stands a chain of
  interceptors (\<open>pkg/middleware\<close>): metrics, rate limit, authentication, audit.

  \<^bold>\<open>Conventions.\<close> A handler is a function from its request and the state of its service to a
  result and a new state. A result is \<open>Inl\<close> of a gRPC status or \<open>Inr\<close> of a response, so every early
  return of the code is a branch. What may go wrong outside the program (a query, a file, a dial,
  a message) is an argument: a fault schedule that the theorems quantify over. The clock, random
  bytes and new ids are arguments. A Go \<open>int32\<close> or \<open>int64\<close> is an \<open>int\<close> with \<open>wrap32\<close> or \<open>wrap64\<close>
  after every operation that can leave its range; bytes are words of eight bits. The tokens of
  the two rate limiters are \<open>float64\<close> values, rounded after every operation (\<open>Float64\<close>); the scores,
  distances and latencies of \<open>internal/intelligence\<close> are reals. The failure counter of a circuit
  breaker, an \<open>int\<close> that only grows by one for each failed call, is not wrapped, and the row
  numbers of the audit table have no gap after an insert that failed. A table is the list of its rows in the order of the database; where SQL leaves the order
  of equal rows open, the model keeps the order of the table. Mutexes make every operation one
  step. \<open>Prelude\<close> and \<open>Tables\<close> hold this vocabulary, the automation, and two interfaces as locales: a
  machine whose steps keep an invariant, and a store indexed by a key.

  \<^bold>\<open>Theories.\<close>

  \<^item> \<open>CircuitBreaker\<close>, \<open>PeerPool\<close>, \<open>Relay\<close>, \<open>RelayLaws\<close>: \<open>internal/relay\<close> and
    \<open>services/relay/handler\<close> on a world of nodes, each with its store and its pool. The laws: a
    breaker refuses exactly while its recent history says so (C40); a relay request returns (C33),
    changes only its own chunk and stores only data with the announced hash, where one is announced
    (C3), an answer names a node that holds the data (C6), and the chunk is stored at its destination
    when the nodes on its way are up and let the call through, and at the sending relay when they
    refuse it (C23). A call to another node goes through the interceptors there (\<open>env_chain\<close>). What
    every step of a relay keeps is proved once in the locale \<open>relay_relation\<close>, which three relations
    interpret.
  \<^item> \<open>ChunkStore\<close>, \<open>ChunkStoreLaws\<close>: \<open>services/transfer/storage\<close> over a file system whose calls fail;
    paths are cleaned as \<open>filepath.Clean\<close> does. The locale \<open>chunk_store\<close> is the interface of the
    code, \<open>FileStore\<close> interprets it for ids that are one path component; saved chunks are listed
    and reassembled (C34); ids that are not plain escape (\<open>other_ids_escape\<close>).
  \<^item> \<open>Collector\<close>, \<open>Scorer\<close>, \<open>Anomaly\<close>, \<open>MlClient\<close>: \<open>internal/intelligence\<close>: bounded event logs, scores,
    the detector, and the client of the machine-learning service, whose outage leaves every
    judgement to the local code (C39).
  \<^item> \<open>Routing\<close>: \<open>services/routing\<close>; a route is a bounded walk of the table (C20) and is found when
    the table leads to the target (C32).
  \<^item> \<open>Discovery\<close>, \<open>DiscoveryLaws\<close>: \<open>services/discovery\<close> and the signature of \<open>pkg/crypto/ed25519.go\<close>;
    stored peers are announcements that their keys made (C31), the update stream mirrors the table.
  \<^item> \<open>TransferDb\<close>, \<open>TransferService\<close>, \<open>TransferLaws\<close>: \<open>services/transfer\<close>, every query and handler as
    the steps of one machine, incoming P2P streams included, with its invariant (C22); the ways
    out of waiting for an approval (C5); what was uploaded is downloaded (C2), a group upload by
    every recipient (C13); the watch stream mirrors the table (C9).
  \<^item> \<open>System\<close>, \<open>Deployment\<close>: the services as \<open>cmd\<close> connects them: each call that one makes on another
    runs through the interceptors of the called one, without a token. Hence only \<open>FindPeers\<close> and
    \<open>GetNodeInfo\<close> are answered (C19), and a file that is initiated and uploaded stays in the store of
    the transfer service (C1). \<open>System\<close> also holds what the parts would do in a network whose nodes
    admit each other's calls (lemma \<open>routed_upload_delivers\<close>).
  \<^item> \<open>P2pProtocol\<close>, \<open>P2p\<close>, \<open>P2pNode\<close>: \<open>internal/p2p\<close>; the receiver stores a chunk, acknowledges it and
    then runs its callback, and the sender may return before that. A file sent over a link that
    works is held by the receiver (C15), and whoever opens a stream completes any transfer (C36).
  \<^item> \<open>Auth\<close>, \<open>IdentityDb\<close>, \<open>Accounts\<close>, \<open>Devices\<close>, \<open>Friends\<close>: \<open>internal/auth\<close> and \<open>services/identity\<close>, every
    query and handler. \<open>IdentityLaws\<close> (C21), \<open>IdentityGuards\<close> (C4, C24), \<open>Friendships\<close> (C25, C26),
    \<open>PairingLaws\<close> (C7), \<open>AccountLaws\<close> (C8, C27): its tables stay well formed over all runs, and who
    may change what. \<open>IdentityExample\<close> is the small service of the witnesses.
  \<^item> \<open>Float64\<close>, \<open>RateLimiter\<close>, \<open>Chain\<close>: \<open>pkg/middleware\<close>: what a limiter admits, up to the rounding of
    its tokens, and the chain as \<open>cmd\<close> builds it: the audit table is exactly the history of handler
    runs (C16).
  \<^item> \<open>Gateway\<close>, \<open>GatewayIdentity\<close>, \<open>GatewayTransfer\<close>, \<open>GatewayMachine\<close>: every handler behind
    \<open>RegisterRoutes\<close>, then all of them as one machine. \<open>GatewayLaws\<close>, \<open>GatewayGuards\<close> (C11, C12, C17,
    C18), \<open>GatewayUploads\<close> (C10), \<open>GatewayExample\<close>; \<open>GatewayFront\<close> is the limiter and the header checks
    before the handlers (C35).
  \<^item> \<open>Crypto\<close>: \<open>internal/encryption\<close> and \<open>pkg/crypto\<close>; what one side of a key exchange encrypts the other
    decrypts (\<open>exchanged_key_decrypts\<close>). No client of the repository uses it.
  \<^item> \<open>Cli\<close>, \<open>CliLaws\<close>, \<open>CliExample\<close>: \<open>cmd/cli\<close>, every command; what one client with a node id reports
    as sent another saves (C14), and a fresh client never gets that far (C37).
  \<^item> \<open>Config\<close>, \<open>Tls\<close>, \<open>Mailer\<close>, \<open>Migrator\<close>, \<open>Startup\<close>: \<open>pkg/config\<close>, \<open>pkg/grpcutil\<close>, \<open>pkg/mailer\<close>,
    \<open>internal/migrator\<close> and the \<open>main\<close> of every process. An interrupted migration is resumed (C38);
    services with one secret share their users (C29), with neither a file nor a secret they trust anybody (C30);
    a mailed link verifies its address (C28). \<open>MailLaws\<close>, \<open>StartupLaws\<close> and \<open>StartupExample\<close> hold these.

  \<^bold>\<open>Bounds and recursion.\<close> \<open>relay_chunk\<close> runs \<open>relay_levels\<close> with one level more than the time to
  live of the request: every forwarded request has a smaller one, and C33 shows that the levels are
  never used up, as the function satisfies the recursion of the handler without them. Every other
  loop of the code is a structural recursion on the list it runs over: the rows of a query, the
  messages of a stream, the files of a directory, the scripts of a migration. Loops that end only
  with their stream (a watch, a download) run over the finite sequence of inputs they have been
  given, and the theorems hold for every such sequence.

  \<^bold>\<open>Parameters.\<close> Code that is not in the repository is an argument, its documented behaviour a named
  predicate, with an instance that satisfies it: JWT (\<open>jwt_laws\<close>), Redis (\<open>redis_laws\<close>), the
  cryptographic primitives, SHA-256, Ed25519, bcrypt, viper (\<open>viper_laws\<close>, also that a variable of a parent key hides the keys below it), the cast of PostgreSQL
  to a UUID and its \<open>ILIKE\<close>, SMTP, libp2p, HTTP and gRPC transport, and the effect of a migration
  script. Order of iteration over a Go map is an argument as well.

  \<^bold>\<open>Not modelled.\<close> Log output (\<open>pkg/logger\<close>) and the page of metrics, which nothing in the program
  reads; signals and shutdown; time-outs of connections; the code that protoc and sqlc generate,
  beyond the SQL of the queries; JSON and protobuf encodings of the services, whose bodies are
  kept as the values they encode; look-ups in the DHT of libp2p. The tests and the scripts of the
  repository are not part of the program.

  \<^bold>\<open>What the model showed.\<close> The parts fit together less well than each works alone: calls between
  services are refused, the command line client cannot be set up, the environment cannot turn on
  transport security, and several handlers behind the gateway check a token but not whose data it
  is. The manifest lists these with their places in the code.
\<close>

end
